(* ===== verification/Prelude.thy ===== *)
theory Prelude
  imports Complex_Main "HOL-Library.Sublist" "HOL-Library.AList"
begin

text \<open>
  Prelude of the development: the values, errors and standard-library operations of
  JavaScript that the modelled packages use. Values of type \<open>unknown\<close> are \<open>jsval\<close>;
  numbers that carry fractions (confidences, thresholds) are exact rationals, counts and
  millisecond timestamps are \<open>int\<close> or \<open>nat\<close>; strings are character lists. A thrown error
  is the \<open>Inl\<close> of a sum. The second half holds the comparator interface of
  \<open>Array.prototype.sort\<close> as a locale, with the facts every sorted lookup of the code
  rests on.
\<close>

section \<open>Collections of simplification rules\<close>

named_theorems js_simps \<open>equations of the standard-library operations\<close>
named_theorems decision_simps \<open>decision field of the outcome constructors\<close>

section \<open>JavaScript values\<close>

datatype jsval =
    JUndef
  | JNull
  | JBool bool
  | JNum rat
  | JStr string
  | JArr "jsval list"
  | JObj "(string \<times> jsval) list"

text \<open>\<open>===\<close>: objects and arrays are compared by identity, and the two sides of the
  comparisons modelled here never share one.\<close>

fun js_strict_eq :: "jsval \<Rightarrow> jsval \<Rightarrow> bool" where
  "js_strict_eq (JArr xs) v = False"
| "js_strict_eq (JObj xs) v = False"
| "js_strict_eq u v = (u = v)"

definition js_array_includes :: "jsval list \<Rightarrow> jsval \<Rightarrow> bool" where
  "js_array_includes xs v = list_ex (\<lambda>x. js_strict_eq x v) xs"

fun js_object :: "jsval \<Rightarrow> bool" where
  "js_object (JObj kvs) = True"
| "js_object (JArr xs) = True"
| "js_object _ = False"

definition obj_get :: "(string \<times> jsval) list \<Rightarrow> string \<Rightarrow> jsval" where
  "obj_get kvs k = (case map_of kvs k of None \<Rightarrow> JUndef | Some v \<Rightarrow> v)"

text \<open>Decimal digits of a natural number, as template strings print counts.\<close>

fun nat_digits :: "nat \<Rightarrow> string" where
  "nat_digits n =
     (if n < 10 then [char_of (n + 48)] else nat_digits (n div 10) @ [char_of (n mod 10 + 48)])"

declare nat_digits.simps [simp del]

text \<open>Property access \<open>value[segment]\<close>: own properties of objects, \<open>length\<close> and the
  indices of arrays. Properties inherited from a prototype are outside the model.\<close>

definition js_get :: "jsval \<Rightarrow> string \<Rightarrow> jsval" where
  "js_get v k =
     (case v of
        JObj kvs \<Rightarrow> obj_get kvs k
      | JArr xs \<Rightarrow>
          (if k = ''length'' then JNum (of_nat (length xs))
           else case find (\<lambda>i. nat_digits i = k) [0..<length xs] of
                  None \<Rightarrow> JUndef | Some i \<Rightarrow> xs ! i)
      | _ \<Rightarrow> JUndef)"

definition js_string_or :: "string \<Rightarrow> jsval \<Rightarrow> string" where
  \<comment> \<open>\<open>typeof v === "string" ? v : d\<close>\<close>
  "js_string_or d v = (case v of JStr s \<Rightarrow> s | _ \<Rightarrow> d)"

definition js_string_opt :: "jsval \<Rightarrow> string option" where
  \<comment> \<open>\<open>typeof v === "string" ? v : null\<close>\<close>
  "js_string_opt v = (case v of JStr s \<Rightarrow> Some s | _ \<Rightarrow> None)"

definition js_nonempty_string :: "jsval \<Rightarrow> bool" where
  \<comment> \<open>\<open>typeof v === "string" && v.length > 0\<close>\<close>
  "js_nonempty_string v = (case v of JStr s \<Rightarrow> s \<noteq> [] | _ \<Rightarrow> False)"

fun js_truthy :: "jsval \<Rightarrow> bool" where
  "js_truthy JUndef = False"
| "js_truthy JNull = False"
| "js_truthy (JBool b) = b"
| "js_truthy (JNum n) = (n \<noteq> 0)"
| "js_truthy (JStr s) = (s \<noteq> [])"
| "js_truthy _ = True"

definition js_nullish :: "jsval \<Rightarrow> bool" where
  "js_nullish v = (v = JUndef \<or> v = JNull)"

definition js_coalesce :: "jsval \<Rightarrow> jsval \<Rightarrow> jsval" where
  \<comment> \<open>\<open>u ?? v\<close>\<close>
  "js_coalesce u v = (if js_nullish u then v else u)"

definition js_opt_str :: "string option \<Rightarrow> jsval" where
  \<comment> \<open>an optional string property: absent is \<open>undefined\<close>\<close>
  "js_opt_str s = (case s of None \<Rightarrow> JUndef | Some x \<Rightarrow> JStr x)"

section \<open>Strings\<close>

text \<open>\<open>s.startsWith(p)\<close> is \<open>prefix p s\<close>, \<open>s.endsWith(p)\<close> is \<open>suffix p s\<close>.\<close>

fun js_str_includes :: "string \<Rightarrow> string \<Rightarrow> bool" where
  "js_str_includes [] p = (p = [])"
| "js_str_includes (c # s) p = (prefix p (c # s) \<or> js_str_includes s p)"

fun js_split :: "char \<Rightarrow> string \<Rightarrow> string list" where
  "js_split d [] = [[]]"
| "js_split d (c # s) =
     (if c = d then [] # js_split d s
      else case js_split d s of [] \<Rightarrow> [[c]] | w # ws \<Rightarrow> (c # w) # ws)"

text \<open>The pieces of a split lie between separators.\<close>

lemma js_split_ne [simp]: "js_split c l \<noteq> []"
  by (cases l) (auto split: list.split)

lemma js_split_at:
  "js_split c l = us @ w # vs \<Longrightarrow>
     \<exists>p q. l = p @ w @ q \<and> (if us = [] then p = [] else \<exists>d. p = d @ [c]) \<and> (if vs = [] then q = [] else \<exists>t. q = c # t)"
proof (induction l arbitrary: us w)
  case Nil
  then show ?case by (auto simp: Cons_eq_append_conv)
next
  case (Cons x l)
  show ?case
  proof (cases "x = c")
    case True
    show ?thesis
    proof (cases us)
      case Nil
      with Cons.prems True have "w = []" "vs = js_split c l" by simp_all
      then show ?thesis using Nil True by (intro exI [of _ "[]"] exI [of _ "c # l"]) simp
    next
      case (Cons u us')
      with Cons.prems True have "js_split c l = us' @ w # vs" by simp
      from Cons.IH [OF this] obtain p q where "l = p @ w @ q" "if us' = [] then p = [] else \<exists>d. p = d @ [c]"
        "if vs = [] then q = [] else \<exists>t. q = c # t" by blast
      with Cons True show ?thesis by (intro exI [of _ "c # p"] exI [of _ q]) (auto split: if_splits)
    qed
  next
    case False
    obtain v ws where sp: "js_split c l = v # ws" by (cases "js_split c l") simp_all
    with Cons.prems False have eq: "(x # v) # ws = us @ w # vs" by simp
    show ?thesis
    proof (cases us)
      case Nil
      with eq sp have "js_split c l = [] @ v # vs" "w = x # v" by simp_all
      from Cons.IH [OF this(1)] this(2) Nil show ?thesis by auto
    next
      case (Cons u us')
      with eq sp have "js_split c l = (v # us') @ w # vs" "u = x # v" by simp_all
      from Cons.IH [OF this(1)] obtain d q where "l = (d @ [c]) @ w @ q" "if vs = [] then q = [] else \<exists>t. q = c # t" by auto
      with Cons show ?thesis by (intro exI [of _ "x # d @ [c]"] exI [of _ q]) auto
    qed
  qed
qed

lemma split_segment:
  assumes "w \<in> set (js_split c l)"
  shows "\<exists>p q. l = p @ w @ q \<and> (p = [] \<or> (\<exists>d. p = d @ [c])) \<and> (q = [] \<or> (\<exists>t. q = c # t))"
proof -
  obtain us vs where "js_split c l = us @ w # vs" using assms by (meson split_list)
  from js_split_at [OF this] show ?thesis by (metis (full_types))
qed

lemma split_last:
  assumes "w = last (js_split c l)"
  shows "\<exists>p. l = p @ w \<and> (p = [] \<or> (\<exists>d. p = d @ [c]))"
proof -
  have "js_split c l = butlast (js_split c l) @ w # []" using assms by simp
  from js_split_at [OF this] obtain p q where "l = p @ w @ q" "q = []"
    "if butlast (js_split c l) = [] then p = [] else \<exists>d. p = d @ [c]" by auto
  then show ?thesis by (cases "butlast (js_split c l) = []") simp_all
qed

lemma js_split_no_sep: "w \<in> set (js_split d s) \<Longrightarrow> d \<notin> set w"
proof (induction s arbitrary: w)
  case (Cons c s)
  then show ?case by (cases "js_split d s") (auto split: if_splits)
qed simp

fun js_join :: "string \<Rightarrow> string list \<Rightarrow> string" where
  "js_join sep [] = []"
| "js_join sep [w] = w"
| "js_join sep (w # ws) = w @ sep @ js_join sep ws"

definition js_space :: "char \<Rightarrow> bool" where
  "js_space c = (c \<in> {CHR '' '', CHR 0x09, CHR 0x0A, CHR 0x0B, CHR 0x0C, CHR 0x0D})"

definition js_trim :: "string \<Rightarrow> string" where
  "js_trim s = rev (dropWhile js_space (rev (dropWhile js_space s)))"

text \<open>\<open>[...new Set(xs)]\<close> keeps the first occurrence of every element.\<close>

definition js_dedup :: "'a list \<Rightarrow> 'a list" where
  "js_dedup xs = rev (remdups (rev xs))"

lemma set_js_dedup [simp]: "set (js_dedup xs) = set xs"
  by (simp add: js_dedup_def)

lemma distinct_js_dedup [simp]: "distinct (js_dedup xs)"
  by (simp add: js_dedup_def)

lemma js_dedup_Nil [simp]: "js_dedup [] = []"
  by (simp add: js_dedup_def)

lemma js_dedup_distinct: "distinct xs \<Longrightarrow> js_dedup xs = xs"
  by (simp add: js_dedup_def distinct_remdups_id)

section \<open>Numbers\<close>

text \<open>\<open>Number(x.toFixed(k))\<close> on a non-negative number: the nearest multiple of
  \<open>10^-k\<close>, the larger one of two equally near.\<close>

definition to_fixed :: "nat \<Rightarrow> rat \<Rightarrow> rat" where
  "to_fixed k x = of_int \<lfloor>x * 10 ^ k + 1 / 2\<rfloor> / 10 ^ k"

definition clamp01 :: "rat \<Rightarrow> rat" where
  "clamp01 x = max 0 (min 1 x)"

lemma to_fixed_mono: "x \<le> y \<Longrightarrow> to_fixed k x \<le> to_fixed k y"
proof -
  assume "x \<le> y"
  then have "x * 10 ^ k + 1 / 2 \<le> y * 10 ^ k + (1 / 2 :: rat)" by simp
  then have "\<lfloor>x * 10 ^ k + 1 / 2\<rfloor> \<le> \<lfloor>y * 10 ^ k + 1 / 2\<rfloor>" by (rule floor_mono)
  then have "(of_int \<lfloor>x * 10 ^ k + 1 / 2\<rfloor> :: rat) \<le> of_int \<lfloor>y * 10 ^ k + 1 / 2\<rfloor>"
    by (simp only: of_int_le_iff)
  then show ?thesis unfolding to_fixed_def by (simp add: divide_right_mono)
qed

lemma floor_rat_numeral [simp]:
  "\<lfloor>numeral a / numeral b :: rat\<rfloor> = numeral a div numeral b"
  "\<lfloor>1 / numeral b :: rat\<rfloor> = 1 div numeral b"
  "\<lfloor>- (numeral a / numeral b) :: rat\<rfloor> = (- numeral a) div numeral b"
  using floor_divide_of_int_eq [of "numeral a" "numeral b", where 'a = rat]
    floor_divide_of_int_eq [of 1 "numeral b", where 'a = rat]
    floor_divide_of_int_eq [of "- numeral a" "numeral b", where 'a = rat]
  by simp_all

lemma floor_plus_half: "\<lfloor>of_int n + 1 / 2 :: rat\<rfloor> = n"
  by (simp add: floor_unique)

lemma to_fixed_scaled: "to_fixed k (of_int n / 10 ^ k) = of_int n / 10 ^ k"
proof -
  have "(of_int n / 10 ^ k :: rat) * 10 ^ k = of_int n" by simp
  then show ?thesis unfolding to_fixed_def by (simp only: floor_plus_half)
qed

lemma to_fixed_0 [simp]: "to_fixed k 0 = 0"
  using to_fixed_scaled [of k 0] by simp

lemma to_fixed_1 [simp]: "to_fixed k 1 = 1"
  using to_fixed_scaled [of k "10 ^ k"] by simp

lemma to_fixed_idem [simp]: "to_fixed k (to_fixed k x) = to_fixed k x"
  using to_fixed_scaled [of k "\<lfloor>x * 10 ^ k + 1 / 2\<rfloor>"] by (simp add: to_fixed_def)

lemma clamp01_bounds [simp]: "0 \<le> clamp01 x" "clamp01 x \<le> 1"
  by (auto simp: clamp01_def)

lemma clamp01_mono: "x \<le> y \<Longrightarrow> clamp01 x \<le> clamp01 y"
  by (auto simp: clamp01_def)

lemma clamp01_id: "0 \<le> x \<Longrightarrow> x \<le> 1 \<Longrightarrow> clamp01 x = x"
  by (simp add: clamp01_def)

lemma clamp01_neg: "x \<le> 0 \<Longrightarrow> clamp01 x = 0"
  by (simp add: clamp01_def)

lemma to_fixed_clamp01_bounds: "0 \<le> to_fixed k (clamp01 x)" "to_fixed k (clamp01 x) \<le> 1"
  using to_fixed_mono [OF clamp01_bounds(1), of k x] to_fixed_mono [OF clamp01_bounds(2), of k x]
  by simp_all

section \<open>Paths\<close>

text \<open>\<open>path.posix\<close>: segments are pushed left to right, \<open>.\<close> and empty segments are
  skipped and \<open>..\<close> pops. \<open>path_resolve cwd p\<close> is \<open>path.resolve(p)\<close> with the working
  directory made explicit.\<close>

fun path_push :: "string list \<Rightarrow> string list \<Rightarrow> string list" where
  "path_push acc [] = rev acc"
| "path_push acc (w # ws) =
     (if w = [] \<or> w = ''.'' then path_push acc ws
      else if w = ''..'' then path_push (tl acc) ws
      else path_push (w # acc) ws)"

definition path_absolute :: "string \<Rightarrow> bool" where
  "path_absolute p = prefix ''/'' p"

definition path_segments :: "string \<Rightarrow> string list" where
  "path_segments p = path_push [] (js_split CHR ''/'' p)"

definition path_resolve :: "string \<Rightarrow> string \<Rightarrow> string" where
  "path_resolve cwd p =
     ''/'' @ js_join ''/'' (path_segments (if path_absolute p then p else cwd @ ''/'' @ p))"

definition path_within :: "string \<Rightarrow> string \<Rightarrow> bool" where
  \<comment> \<open>\<open>target === root || target.startsWith(`${root}${path.sep}`)\<close>\<close>
  "path_within target rt = (target = rt \<or> prefix (rt @ ''/'') target)"

section \<open>Errors\<close>

datatype error_code =
    BAD_REQUEST | VALIDATION_FAILED | NOT_FOUND | CONFLICT | TIMEOUT | PRECONDITION_FAILED
  | POLICY_BLOCKED | UPSTREAM_FAILURE | CAPABILITY_UNAVAILABLE | STORAGE_UNAVAILABLE
  | BROKER_UNAVAILABLE | INTERNAL_ERROR

record ag_error =
  err_code :: error_code
  err_message :: string
  err_retryable :: bool

definition agent_git_error :: "string \<Rightarrow> error_code \<Rightarrow> bool \<Rightarrow> ag_error" where
  "agent_git_error m c r = \<lparr>err_code = c, err_message = m, err_retryable = r\<rparr>"

abbreviation "ValidationError m \<equiv> agent_git_error m VALIDATION_FAILED False"
abbreviation "NotFoundError m \<equiv> agent_git_error m NOT_FOUND False"
abbreviation "PreconditionError m \<equiv> agent_git_error m PRECONDITION_FAILED False"
abbreviation "InternalError m \<equiv> agent_git_error m INTERNAL_ERROR False"

lemma agent_git_error_sel [simp]:
  "err_code (agent_git_error m c r) = c"
  "err_message (agent_git_error m c r) = m"
  "err_retryable (agent_git_error m c r) = r"
  by (simp_all add: agent_git_error_def)

section \<open>Sorting\<close>

text \<open>\<open>Array.prototype.sort(cmp)\<close> is stable; a comparator is a function into the integers
  whose sign is used.\<close>

fun js_insert :: "('a \<Rightarrow> 'a \<Rightarrow> int) \<Rightarrow> 'a \<Rightarrow> 'a list \<Rightarrow> 'a list" where
  "js_insert cmp x [] = [x]"
| "js_insert cmp x (y # ys) = (if cmp x y \<le> 0 then x # y # ys else y # js_insert cmp x ys)"

definition js_sort :: "('a \<Rightarrow> 'a \<Rightarrow> int) \<Rightarrow> 'a list \<Rightarrow> 'a list" where
  "js_sort cmp xs = foldr (js_insert cmp) xs []"

lemma js_sort_simps [simp]:
  "js_sort cmp [] = []"
  "js_sort cmp (x # xs) = js_insert cmp x (js_sort cmp xs)"
  by (simp_all add: js_sort_def)

lemma set_js_insert [simp]: "set (js_insert cmp x xs) = insert x (set xs)"
  by (induction xs) auto

lemma set_js_sort [simp]: "set (js_sort cmp xs) = set xs"
  by (induction xs) auto

lemma length_js_insert [simp]: "length (js_insert cmp x xs) = Suc (length xs)"
  by (induction xs) auto

lemma length_js_sort [simp]: "length (js_sort cmp xs) = length xs"
  by (induction xs) auto

lemma js_sort_Nil_iff [simp]: "js_sort cmp xs = [] \<longleftrightarrow> xs = []"
  by (metis length_0_conv length_js_sort)

definition js_head :: "'a list \<Rightarrow> 'a option" where
  \<comment> \<open>\<open>xs[0]\<close>, \<open>undefined\<close> on the empty array\<close>
  "js_head xs = (case xs of [] \<Rightarrow> None | x # _ \<Rightarrow> Some x)"

lemma js_head_simps [simp]: "js_head [] = None" "js_head (x # xs) = Some x"
  by (simp_all add: js_head_def)

lemma js_head_None_iff [simp]: "js_head xs = None \<longleftrightarrow> xs = []"
  by (simp add: js_head_def split: list.splits)

lemma js_head_in: "js_head xs = Some x \<Longrightarrow> x \<in> set xs"
  by (auto simp: js_head_def split: list.splits)

text \<open>The contract a comparator owes \<open>sort\<close>: it is a total preorder.\<close>

locale js_comparator =
  fixes cmp :: "'a \<Rightarrow> 'a \<Rightarrow> int"
  assumes cmp_total: "cmp x y \<le> 0 \<or> cmp y x \<le> 0"
    and cmp_trans: "cmp x y \<le> 0 \<Longrightarrow> cmp y z \<le> 0 \<Longrightarrow> cmp x z \<le> 0"
begin

lemma cmp_refl: "cmp x x \<le> 0"
  using cmp_total by blast

lemma sorted_js_insert:
  "sorted_wrt (\<lambda>x y. cmp x y \<le> 0) xs \<Longrightarrow> sorted_wrt (\<lambda>x y. cmp x y \<le> 0) (js_insert cmp x xs)"
proof (induction xs)
  case (Cons y ys)
  show ?case
  proof (cases "cmp x y \<le> 0")
    case True
    with Cons.prems show ?thesis by (auto intro: cmp_trans)
  next
    case False
    then have "cmp y x \<le> 0" using cmp_total by blast
    with False Cons show ?thesis by auto
  qed
qed simp

lemma sorted_js_sort: "sorted_wrt (\<lambda>x y. cmp x y \<le> 0) (js_sort cmp xs)"
  by (induction xs) (simp_all add: sorted_js_insert)

lemma head_minimal:
  assumes "js_head (js_sort cmp xs) = Some x" and "y \<in> set xs"
  shows "cmp x y \<le> 0"
proof -
  obtain ys where ys: "js_sort cmp xs = x # ys"
    using assms(1) by (auto simp: js_head_def split: list.splits)
  have "y \<in> set (x # ys)" using assms(2) set_js_sort [of cmp xs] ys by simp
  then show ?thesis using sorted_js_sort [of xs] ys cmp_refl by auto
qed

end

text \<open>A comparator whose sign is antisymmetric, and the lexicographic combination the code's
  comparators have: compare one key, and the next where the first is equal.\<close>

locale js_ordering = js_comparator +
  assumes cmp_antisym: "cmp x y < 0 \<longleftrightarrow> 0 < cmp y x"
begin

lemma cmp_zero_iff: "cmp x y = 0 \<longleftrightarrow> cmp x y \<le> 0 \<and> cmp y x \<le> 0"
  using cmp_antisym [of x y] cmp_antisym [of y x] by linarith

lemma cmp_zero_sym: "cmp x y = 0 \<longleftrightarrow> cmp y x = 0"
  using cmp_zero_iff by blast

end

definition cmp_by :: "('a \<Rightarrow> int) \<Rightarrow> 'a \<Rightarrow> 'a \<Rightarrow> int" where
  "cmp_by f x y = f x - f y"

definition cmp_then :: "('a \<Rightarrow> 'a \<Rightarrow> int) \<Rightarrow> ('a \<Rightarrow> 'a \<Rightarrow> int) \<Rightarrow> 'a \<Rightarrow> 'a \<Rightarrow> int" where
  "cmp_then c d x y = (if c x y \<noteq> 0 then c x y else d x y)"

locale js_lexicographic =
  primary: js_ordering c + secondary: js_ordering d
  for c :: "'a \<Rightarrow> 'a \<Rightarrow> int" and d :: "'a \<Rightarrow> 'a \<Rightarrow> int"
begin

lemma then_le_iff:
  "cmp_then c d x y \<le> 0 \<longleftrightarrow> c x y < 0 \<or> (c x y = 0 \<and> d x y \<le> 0)"
  by (auto simp: cmp_then_def)

lemma then_trans:
  assumes "cmp_then c d x y \<le> 0" and "cmp_then c d y z \<le> 0"
  shows "cmp_then c d x z \<le> 0"
proof -
  have c: "c x y \<le> 0" "c y z \<le> 0" using assms by (auto simp: then_le_iff)
  then have xz: "c x z \<le> 0" by (rule primary.cmp_trans)
  show ?thesis
  proof (cases "c x z = 0")
    case True
    then have "c z x \<le> 0" using primary.cmp_zero_iff by blast
    with c have "c y x \<le> 0" "c z y \<le> 0" by (blast intro: primary.cmp_trans)+
    with c have "c x y = 0" "c y z = 0" using primary.cmp_zero_iff by blast+
    with assms have "d x z \<le> 0" by (auto simp: then_le_iff intro: secondary.cmp_trans)
    with True show ?thesis by (simp add: then_le_iff)
  next
    case False
    with xz show ?thesis by (simp add: then_le_iff)
  qed
qed

lemma then_antisym: "cmp_then c d x y < 0 \<longleftrightarrow> 0 < cmp_then c d y x"
  using primary.cmp_antisym [of x y] primary.cmp_antisym [of y x] primary.cmp_zero_sym [of x y]
    secondary.cmp_antisym [of x y]
  by (auto simp: cmp_then_def)

lemma then_total: "cmp_then c d x y \<le> 0 \<or> cmp_then c d y x \<le> 0"
  using then_antisym [of x y] then_antisym [of y x] by linarith

end

sublocale js_lexicographic \<subseteq> lex: js_ordering "cmp_then c d"
  by unfold_locales (use then_total then_trans then_antisym in blast)+

interpretation by_key: js_ordering "cmp_by f" for f
  by unfold_locales (auto simp: cmp_by_def)

end
