(* ===== verification/Schemas.thy ===== *)
theory Schemas
  imports Prelude
begin

text \<open>
  The record types of \<open>packages/schemas/src/index.ts\<close> that cross component boundaries:
  the normalised action, the policy outcome, policy rules and packs, capabilities, MCP server
  definitions, run summaries, snapshots, approvals and execution results. Enumerations
  are datatypes with a printing function that gives the literal of the schema, because policy
  predicates read actions through their JSON form (\<open>action_json\<close>).
\<close>

section \<open>Enumerations\<close>

datatype side_effect_level = SE_read_only | SE_mutating | SE_destructive | SE_unknown

fun side_effect_str :: "side_effect_level \<Rightarrow> string" where
  "side_effect_str SE_read_only = ''read_only''"
| "side_effect_str SE_mutating = ''mutating''"
| "side_effect_str SE_destructive = ''destructive''"
| "side_effect_str SE_unknown = ''unknown''"

datatype external_effect = EE_none | EE_network | EE_communication | EE_financial | EE_unknown

fun external_effect_str :: "external_effect \<Rightarrow> string" where
  "external_effect_str EE_none = ''none''"
| "external_effect_str EE_network = ''network''"
| "external_effect_str EE_communication = ''communication''"
| "external_effect_str EE_financial = ''financial''"
| "external_effect_str EE_unknown = ''unknown''"

datatype reversibility_hint =
  RV_reversible | RV_potentially_reversible | RV_compensatable | RV_irreversible | RV_unknown

fun reversibility_str :: "reversibility_hint \<Rightarrow> string" where
  "reversibility_str RV_reversible = ''reversible''"
| "reversibility_str RV_potentially_reversible = ''potentially_reversible''"
| "reversibility_str RV_compensatable = ''compensatable''"
| "reversibility_str RV_irreversible = ''irreversible''"
| "reversibility_str RV_unknown = ''unknown''"

datatype sensitivity_hint = SN_low | SN_moderate | SN_high | SN_unknown

fun sensitivity_str :: "sensitivity_hint \<Rightarrow> string" where
  "sensitivity_str SN_low = ''low''"
| "sensitivity_str SN_moderate = ''moderate''"
| "sensitivity_str SN_high = ''high''"
| "sensitivity_str SN_unknown = ''unknown''"

datatype scope_breadth =
  SB_single | SB_set | SB_workspace | SB_repository | SB_origin | SB_external | SB_unknown

fun scope_breadth_str :: "scope_breadth \<Rightarrow> string" where
  "scope_breadth_str SB_single = ''single''"
| "scope_breadth_str SB_set = ''set''"
| "scope_breadth_str SB_workspace = ''workspace''"
| "scope_breadth_str SB_repository = ''repository''"
| "scope_breadth_str SB_origin = ''origin''"
| "scope_breadth_str SB_external = ''external''"
| "scope_breadth_str SB_unknown = ''unknown''"

datatype credential_mode = CM_brokered | CM_delegated | CM_direct | CM_none | CM_unknown

fun credential_mode_str :: "credential_mode \<Rightarrow> string" where
  "credential_mode_str CM_brokered = ''brokered''"
| "credential_mode_str CM_delegated = ''delegated''"
| "credential_mode_str CM_direct = ''direct''"
| "credential_mode_str CM_none = ''none''"
| "credential_mode_str CM_unknown = ''unknown''"

datatype execution_surface =
  SF_sdk_function | SF_governed_shell | SF_governed_fs | SF_mcp_proxy | SF_provider_hosted | SF_observer

fun execution_surface_str :: "execution_surface \<Rightarrow> string" where
  "execution_surface_str SF_sdk_function = ''sdk_function''"
| "execution_surface_str SF_governed_shell = ''governed_shell''"
| "execution_surface_str SF_governed_fs = ''governed_fs''"
| "execution_surface_str SF_mcp_proxy = ''mcp_proxy''"
| "execution_surface_str SF_provider_hosted = ''provider_hosted''"
| "execution_surface_str SF_observer = ''observer''"

datatype execution_mode = EM_pre_execution | EM_post_hoc | EM_imported

fun execution_mode_str :: "execution_mode \<Rightarrow> string" where
  "execution_mode_str EM_pre_execution = ''pre_execution''"
| "execution_mode_str EM_post_hoc = ''post_hoc''"
| "execution_mode_str EM_imported = ''imported''"

datatype provenance_mode = PM_governed | PM_observed | PM_imported | PM_unknown

fun provenance_mode_str :: "provenance_mode \<Rightarrow> string" where
  "provenance_mode_str PM_governed = ''governed''"
| "provenance_mode_str PM_observed = ''observed''"
| "provenance_mode_str PM_imported = ''imported''"
| "provenance_mode_str PM_unknown = ''unknown''"

datatype actor_type = AT_agent | AT_user | AT_system | AT_observer

fun actor_type_str :: "actor_type \<Rightarrow> string" where
  "actor_type_str AT_agent = ''agent''"
| "actor_type_str AT_user = ''user''"
| "actor_type_str AT_system = ''system''"
| "actor_type_str AT_observer = ''observer''"

datatype confidence_band = CB_high | CB_guarded | CB_low

fun confidence_band_str :: "confidence_band \<Rightarrow> string" where
  "confidence_band_str CB_high = ''high''"
| "confidence_band_str CB_guarded = ''guarded''"
| "confidence_band_str CB_low = ''low''"

datatype factor_kind = FK_baseline | FK_boost | FK_penalty

fun factor_kind_str :: "factor_kind \<Rightarrow> string" where
  "factor_kind_str FK_baseline = ''baseline''"
| "factor_kind_str FK_boost = ''boost''"
| "factor_kind_str FK_penalty = ''penalty''"

section \<open>The action record\<close>

record provenance_info =
  pv_mode :: provenance_mode
  pv_source :: string
  pv_confidence :: rat

record actor_info =
  ac_type :: actor_type
  ac_agent_name :: "string option"
  ac_agent_framework :: "string option"
  ac_tool_name :: string
  ac_tool_kind :: string

record operation_info =
  op_domain :: string
  op_kind :: string
  op_name :: string
  op_display_name :: "string option"

record execution_path_info =
  ep_surface :: execution_surface
  ep_mode :: execution_mode
  ep_credential_mode :: credential_mode

record target_primary =
  tp_type :: string
  tp_locator :: string
  tp_label :: "string option"

record target_scope =
  ts_breadth :: scope_breadth
  ts_estimated_count :: "nat option"
  ts_unknowns :: "string list"

record input_info =
  in_raw :: "(string \<times> jsval) list"
  in_redacted :: "(string \<times> jsval) list"
  in_schema_ref :: "string option"
  in_contains_sensitive_data :: bool

record risk_hints =
  rh_side_effect_level :: side_effect_level
  rh_external_effects :: external_effect
  rh_reversibility_hint :: reversibility_hint
  rh_sensitivity_hint :: sensitivity_hint
  rh_batch :: bool

record normalization_info =
  nm_mapper :: string
  nm_inferred_fields :: "string list"
  nm_warnings :: "string list"
  nm_confidence :: rat

record confidence_factor =
  cf_factor_id :: string
  cf_label :: string
  cf_kind :: factor_kind
  cf_delta :: rat
  cf_rationale :: string

record confidence_assessment =
  ca_engine_version :: string
  ca_score :: rat
  ca_band :: confidence_band
  ca_requires_human_review :: bool
  ca_factors :: "confidence_factor list"

text \<open>\<open>NormalizedActionRecord\<close> is \<open>Omit<ActionRecord, "confidence_assessment">\<close>; the full
  record extends it. Timestamps are the ISO strings of the schema.\<close>

record normalized_action =
  action_id :: string
  run_id :: string
  session_id :: string
  requested_at :: string
  normalized_at :: string
  provenance :: provenance_info
  actor :: actor_info
  operation :: operation_info
  execution_path :: execution_path_info
  primary_target :: target_primary
  scope :: target_scope
  action_input :: input_info
  risk :: risk_hints
  facets :: "(string \<times> jsval) list"
  normalization :: normalization_info

record action_record = normalized_action +
  confidence :: confidence_assessment

abbreviation "domain_of a \<equiv> op_domain (operation a)"
abbreviation "side_effect a \<equiv> rh_side_effect_level (risk a)"
abbreviation "locator_of a \<equiv> tp_locator (primary_target a)"
abbreviation "score_of a \<equiv> ca_score (confidence a)"

text \<open>The keys \<open>UnknownRecordSchema\<close> accepts, and a time stamp that \<open>Date.parse\<close> (\<open>dates\<close>) understands.\<close>

definition safe_record :: "(string \<times> jsval) list \<Rightarrow> bool" where
  "safe_record kvs = list_all (\<lambda>kv. fst kv \<notin> {[], ''__proto__'', ''constructor'', ''prototype''}) kvs"

definition timestamp_ok :: "(string \<Rightarrow> bool) \<Rightarrow> string \<Rightarrow> bool" where
  "timestamp_ok dates t = (t \<noteq> [] \<and> dates t)"

section \<open>The JSON form of an action\<close>

definition js_strs :: "string list \<Rightarrow> jsval" where
  "js_strs xs = JArr (map JStr xs)"

definition factor_json :: "confidence_factor \<Rightarrow> jsval" where
  "factor_json f = JObj
     [(''factor_id'', JStr (cf_factor_id f)), (''label'', JStr (cf_label f)),
      (''kind'', JStr (factor_kind_str (cf_kind f))), (''delta'', JNum (cf_delta f)),
      (''rationale'', JStr (cf_rationale f))]"

definition action_json :: "action_record \<Rightarrow> jsval" where
  "action_json a = JObj
     [(''schema_version'', JStr ''action.v1''),
      (''action_id'', JStr (action_id a)),
      (''run_id'', JStr (run_id a)),
      (''session_id'', JStr (session_id a)),
      (''status'', JStr ''normalized''),
      (''timestamps'', JObj [(''requested_at'', JStr (requested_at a)),
                             (''normalized_at'', JStr (normalized_at a))]),
      (''provenance'', JObj [(''mode'', JStr (provenance_mode_str (pv_mode (provenance a)))),
                             (''source'', JStr (pv_source (provenance a))),
                             (''confidence'', JNum (pv_confidence (provenance a)))]),
      (''actor'', JObj [(''type'', JStr (actor_type_str (ac_type (actor a)))),
                        (''agent_name'', js_opt_str (ac_agent_name (actor a))),
                        (''agent_framework'', js_opt_str (ac_agent_framework (actor a))),
                        (''tool_name'', JStr (ac_tool_name (actor a))),
                        (''tool_kind'', JStr (ac_tool_kind (actor a)))]),
      (''operation'', JObj [(''domain'', JStr (op_domain (operation a))),
                            (''kind'', JStr (op_kind (operation a))),
                            (''name'', JStr (op_name (operation a))),
                            (''display_name'', js_opt_str (op_display_name (operation a)))]),
      (''execution_path'', JObj [(''surface'', JStr (execution_surface_str (ep_surface (execution_path a)))),
                                 (''mode'', JStr (execution_mode_str (ep_mode (execution_path a)))),
                                 (''credential_mode'', JStr (credential_mode_str (ep_credential_mode (execution_path a))))]),
      (''target'', JObj
         [(''primary'', JObj [(''type'', JStr (tp_type (primary_target a))),
                              (''locator'', JStr (tp_locator (primary_target a))),
                              (''label'', js_opt_str (tp_label (primary_target a)))]),
          (''scope'', JObj [(''breadth'', JStr (scope_breadth_str (ts_breadth (scope a)))),
                            (''estimated_count'', (case ts_estimated_count (scope a) of
                                 None \<Rightarrow> JUndef | Some n \<Rightarrow> JNum (of_nat n))),
                            (''unknowns'', js_strs (ts_unknowns (scope a)))])]),
      (''input'', JObj [(''raw'', JObj (in_raw (action_input a))),
                        (''redacted'', JObj (in_redacted (action_input a))),
                        (''schema_ref'', (case in_schema_ref (action_input a) of
                             None \<Rightarrow> JNull | Some s \<Rightarrow> JStr s)),
                        (''contains_sensitive_data'', JBool (in_contains_sensitive_data (action_input a)))]),
      (''risk_hints'', JObj [(''side_effect_level'', JStr (side_effect_str (rh_side_effect_level (risk a)))),
                             (''external_effects'', JStr (external_effect_str (rh_external_effects (risk a)))),
                             (''reversibility_hint'', JStr (reversibility_str (rh_reversibility_hint (risk a)))),
                             (''sensitivity_hint'', JStr (sensitivity_str (rh_sensitivity_hint (risk a)))),
                             (''batch'', JBool (rh_batch (risk a)))]),
      (''facets'', JObj (facets a)),
      (''normalization'', JObj [(''mapper'', JStr (nm_mapper (normalization a))),
                                (''inferred_fields'', js_strs (nm_inferred_fields (normalization a))),
                                (''warnings'', js_strs (nm_warnings (normalization a))),
                                (''normalization_confidence'', JNum (nm_confidence (normalization a)))]),
      (''confidence_assessment'', JObj
         [(''engine_version'', JStr (ca_engine_version (confidence a))),
          (''score'', JNum (ca_score (confidence a))),
          (''band'', JStr (confidence_band_str (ca_band (confidence a)))),
          (''requires_human_review'', JBool (ca_requires_human_review (confidence a))),
          (''factors'', JArr (map factor_json (ca_factors (confidence a))))])]"

text \<open>A facet of the action (\<open>action.facets.shell\<close>, ...) and its fields.\<close>

definition facet :: "('a normalized_action_scheme) \<Rightarrow> string \<Rightarrow> jsval" where
  "facet a k = obj_get (facets a) k"

definition facet_field :: "('a normalized_action_scheme) \<Rightarrow> string \<Rightarrow> string \<Rightarrow> jsval" where
  \<comment> \<open>\<open>action.facets[k]?.[f]\<close>\<close>
  "facet_field a k f = js_get (facet a k) f"

section \<open>Policy outcomes\<close>

datatype decision = Allow | Deny | Ask | Simulate | AllowWithSnapshot

fun decision_str :: "decision \<Rightarrow> string" where
  "decision_str Allow = ''allow''"
| "decision_str Deny = ''deny''"
| "decision_str Ask = ''ask''"
| "decision_str Simulate = ''simulate''"
| "decision_str AllowWithSnapshot = ''allow_with_snapshot''"

datatype severity = SV_low | SV_moderate | SV_high | SV_critical

record policy_reason =
  pr_code :: string
  pr_severity :: severity
  pr_message :: string

abbreviation "reason c s m \<equiv> \<lparr>pr_code = c, pr_severity = s, pr_message = m\<rparr>"

datatype recoverability_class =
    RC_recoverable_local | RC_recoverable_external_compensated
  | RC_recoverable_contained_publish | RC_unrecoverable_or_degraded

datatype recovery_proof_kind =
  RK_snapshot_preimage | RK_explicit_checkpoint | RK_trusted_compensator | RK_contained_publish_boundary

datatype recovery_proof_scope = RS_path | RS_workspace | RS_external_object | RS_contained_projection

datatype budget_check = BC_passed | BC_soft_limit | BC_hard_limit | BC_unknown

record trust_requirements =
  tr_wrapped_path_required :: bool
  tr_brokered_credentials_required :: bool
  tr_direct_credentials_forbidden :: bool

record outcome_preconditions =
  pc_snapshot_required :: bool
  pc_approval_required :: bool
  pc_simulation_supported :: bool

record budget_effects =
  be_budget_check :: budget_check
  be_estimated_cost :: "rat option"
  be_remaining_mutating :: "int option"
  be_remaining_destructive :: "int option"

text \<open>The partial policy context an evaluator may attach (\<open>makeRecoveryProofContext\<close>).\<close>

record recovery_context =
  rc_class :: "recoverability_class option"
  rc_proof_kind :: "recovery_proof_kind option"
  rc_proof_source :: "string option"
  rc_proof_scope :: "recovery_proof_scope option"

record policy_context_info =
  px_matched_rules :: "string list"
  px_sticky_decision_applied :: bool
  px_recovery :: recovery_context

record policy_outcome =
  po_id :: string
  po_action_id :: string
  po_decision :: decision
  po_reasons :: "policy_reason list"
  po_trust :: trust_requirements
  po_pre :: outcome_preconditions
  po_budget :: budget_effects
  po_context :: policy_context_info
  po_evaluated_at :: string

abbreviation "snapshot_required out \<equiv> pc_snapshot_required (po_pre out)"
abbreviation "approval_required out \<equiv> pc_approval_required (po_pre out)"

section \<open>Policy rules and packs\<close>

datatype predicate_operator =
    OpEq | OpNeq | OpMatches | OpContains | OpGt | OpGte | OpLt | OpLte | OpIn | OpNotIn | OpExists

datatype policy_predicate =
    PField string predicate_operator jsval
  | PAll "policy_predicate list"
  | PAny "policy_predicate list"
  | PNot policy_predicate

datatype rule_decision = RAllow | RDeny | RAsk | RAllowWithSnapshot

datatype enforcement_mode = EM_audit | EM_warn | EM_require_approval | EM_enforce | EM_disabled

datatype binding_scope =
  BS_platform_default | BS_system | BS_workspace | BS_workspace_local | BS_runtime_override

fun decision_of_rule :: "rule_decision \<Rightarrow> decision" where
  "decision_of_rule RAllow = Allow"
| "decision_of_rule RDeny = Deny"
| "decision_of_rule RAsk = Ask"
| "decision_of_rule RAllowWithSnapshot = AllowWithSnapshot"

record policy_rule =
  ru_id :: string
  ru_description :: string
  ru_rationale :: string
  ru_references :: "string list"
  ru_binding_scope :: binding_scope
  ru_decision :: rule_decision
  ru_enforcement_mode :: enforcement_mode
  ru_priority :: int
  ru_match :: policy_predicate
  ru_reason :: policy_reason

record low_confidence_threshold =
  lt_action_family :: string
  lt_ask_below :: rat

record policy_config =
  cfg_profile_name :: string
  cfg_policy_version :: string
  cfg_thresholds :: "low_confidence_threshold list"
  cfg_rules :: "policy_rule list"

section \<open>Capabilities, MCP servers and run budgets\<close>

datatype capability_status = CS_available | CS_degraded | CS_unavailable

fun capability_status_str :: "capability_status \<Rightarrow> string" where
  "capability_status_str CS_available = ''available''"
| "capability_status_str CS_degraded = ''degraded''"
| "capability_status_str CS_unavailable = ''unavailable''"

record capability_record =
  cap_name :: string
  cap_status :: capability_status
  cap_details :: "(string \<times> jsval) list"

record cached_capability_state =
  cc_capabilities :: "capability_record list"
  cc_degraded_mode_warnings :: "string list"
  cc_is_stale :: bool

datatype approval_mode = AM_allow | AM_ask

record mcp_tool_policy =
  mt_tool_name :: string
  mt_side_effect_level :: side_effect_level
  mt_approval_mode :: "approval_mode option"

record mcp_server_definition =
  ms_server_id :: string
  ms_tools :: "mcp_tool_policy list"

record budget_config =
  max_mutating_actions :: "int option"
  max_destructive_actions :: "int option"

record budget_usage =
  mutating_actions :: int
  destructive_actions :: int

record run_budget =
  rb_config :: budget_config
  rb_usage :: budget_usage

end
