(* ===== verification/Js_Regex.thy ===== *)
theory Js_Regex
  imports Prelude
begin

text \<open>
  The regular expressions of the code. Policy predicates hold patterns as strings and run
  \<open>new RegExp(value, "u").test(s)\<close>; the evaluators of this development take the engine as a
  function \<open>string \<Rightarrow> string \<Rightarrow> bool option\<close>, \<open>None\<close> when the constructor throws. This theory gives
  the engine for the syntax the patterns of the code use: literals, escapes, the dot, classes,
  groups, alternation, the three quantifiers and the two anchors. A match is
  described by the list of positions where it can end.
\<close>

section \<open>Abstract syntax and matching\<close>

datatype regex =
    REmpty
  | RChar char
  | RClass bool "char list"
  | RSeq regex regex
  | RAlt regex regex
  | RStar regex
  | RBol
  | REol

definition class_match :: "bool \<Rightarrow> char list \<Rightarrow> char \<Rightarrow> bool" where
  "class_match neg cs c = (if neg then c \<notin> set cs else c \<in> set cs)"

text \<open>The characters a class matches at position \<open>i\<close> advance by one.\<close>

definition step_if :: "(char \<Rightarrow> bool) \<Rightarrow> string \<Rightarrow> nat \<Rightarrow> nat list" where
  "step_if p s i = (if i < length s \<and> p (s ! i) then [Suc i] else [])"

text \<open>Iteration to all positions reachable in at most \<open>k\<close> non-empty steps.\<close>

fun star_ends :: "nat \<Rightarrow> (nat \<Rightarrow> nat list) \<Rightarrow> nat \<Rightarrow> nat list" where
  "star_ends 0 f i = [i]"
| "star_ends (Suc k) f i = i # concat (map (star_ends k f) (filter (\<lambda>j. i < j) (remdups (f i))))"

fun ends :: "regex \<Rightarrow> string \<Rightarrow> nat \<Rightarrow> nat list" where
  "ends REmpty s i = [i]"
| "ends (RChar c) s i = step_if (\<lambda>d. d = c) s i"
| "ends (RClass neg cs) s i = step_if (class_match neg cs) s i"
| "ends (RSeq r t) s i = remdups (concat (map (ends t s) (ends r s i)))"
| "ends (RAlt r t) s i = remdups (ends r s i @ ends t s i)"
| "ends (RStar r) s i = remdups (star_ends (length s - i) (ends r s) i)"
| "ends RBol s i = (if i = 0 then [i] else [])"
| "ends REol s i = (if i = length s then [i] else [])"

definition regex_test :: "regex \<Rightarrow> string \<Rightarrow> bool" where
  \<comment> \<open>\<open>RegExp.prototype.test\<close>: a match may start anywhere\<close>
  "regex_test r s = list_ex (\<lambda>i. ends r s i \<noteq> []) [0..<Suc (length s)]"

section \<open>Parsing a pattern\<close>

definition dot_class :: regex where
  \<comment> \<open>the dot matches every character but the line terminators\<close>
  "dot_class = RClass True [CHR 0x0A, CHR 0x0D]"

definition syntax_char :: "char \<Rightarrow> bool" where
  "syntax_char c = (c \<in> set ''^$.*+?()[]{}|/'' \<or> c = CHR 0x5C)"

definition escape_regex :: "char \<Rightarrow> regex option" where
  "escape_regex c =
     (if syntax_char c then Some (RChar c)
      else if c = CHR ''d'' then Some (RClass False ''0123456789'')
      else None)"

fun parse_class :: "char list \<Rightarrow> string \<Rightarrow> (char list \<times> string) option" where
  "parse_class acc [] = None"
| "parse_class acc (c # s) =
     (if c = CHR '']'' then Some (rev acc, s)
      else if c = CHR 0x5C then
        (case s of [] \<Rightarrow> None
         | d # s' \<Rightarrow> if syntax_char d then parse_class (d # acc) s' else None)
      else parse_class (c # acc) s)"

fun parse_quantifier :: "regex \<Rightarrow> string \<Rightarrow> (regex \<times> string)" where
  "parse_quantifier r (c # s) =
     (if c = CHR ''*'' then (RStar r, s)
      else if c = CHR ''+'' then (RSeq r (RStar r), s)
      else if c = CHR ''?'' then (RAlt r REmpty, s)
      else (r, c # s))"
| "parse_quantifier r [] = (r, [])"

text \<open>Fuel bounds the recursion; one unit is spent per nested call and at most three calls nest
  before a character is consumed, so \<open>4 * length pattern + 4\<close> is enough.\<close>

fun parse_alt :: "nat \<Rightarrow> string \<Rightarrow> (regex \<times> string) option"
and parse_seq :: "nat \<Rightarrow> string \<Rightarrow> (regex \<times> string) option"
and parse_atom :: "nat \<Rightarrow> string \<Rightarrow> (regex \<times> string) option" where
  "parse_alt 0 s = None"
| "parse_alt (Suc n) s =
     (case parse_seq n s of
        None \<Rightarrow> None
      | Some (r, c # s') \<Rightarrow>
          (if c = CHR ''|'' then
             (case parse_alt n s' of None \<Rightarrow> None | Some (t, u) \<Rightarrow> Some (RAlt r t, u))
           else Some (r, c # s'))
      | Some (r, []) \<Rightarrow> Some (r, []))"
| "parse_seq 0 s = None"
| "parse_seq (Suc n) [] = Some (REmpty, [])"
| "parse_seq (Suc n) (c # s) =
     (if c = CHR ''|'' \<or> c = CHR '')'' then Some (REmpty, c # s)
      else case parse_atom n (c # s) of
        None \<Rightarrow> None
      | Some (r, s') \<Rightarrow>
          (case parse_quantifier r s' of (r', s'') \<Rightarrow>
             (case parse_seq n s'' of None \<Rightarrow> None | Some (t, u) \<Rightarrow> Some (RSeq r' t, u))))"
| "parse_atom 0 s = None"
| "parse_atom (Suc n) [] = None"
| "parse_atom (Suc n) (c # s) =
     (if c = CHR ''^'' then Some (RBol, s)
      else if c = CHR ''$'' then Some (REol, s)
      else if c = CHR ''.'' then Some (dot_class, s)
      else if c = CHR 0x5C then
        (case s of [] \<Rightarrow> None | d # s' \<Rightarrow> map_option (\<lambda>r. (r, s')) (escape_regex d))
      else if c = CHR ''['' then
        (let neg = prefix ''^'' s in
         map_option (\<lambda>(cs, u). (RClass neg cs, u)) (parse_class [] (if neg then tl s else s)))
      else if c = CHR ''('' then
        (case parse_alt n (if prefix ''?:'' s then drop 2 s else s) of
           Some (r, d # u) \<Rightarrow> if d = CHR '')'' then Some (r, u) else None
         | _ \<Rightarrow> None)
      else if c \<in> set ''*+?){}]'' then None
      else Some (RChar c, s))"

definition parse_regex :: "string \<Rightarrow> regex option" where
  "parse_regex p =
     (case parse_alt (4 * length p + 4) p of Some (r, []) \<Rightarrow> Some r | _ \<Rightarrow> None)"

definition js_regex_test :: "string \<Rightarrow> string \<Rightarrow> bool option" where
  "js_regex_test p s = map_option (\<lambda>r. regex_test r s) (parse_regex p)"

section \<open>Facts about matching\<close>

lemma ends_bound: "j \<in> set (ends r s i) \<Longrightarrow> i \<le> length s \<Longrightarrow> i \<le> j \<and> j \<le> length s"
proof (induction r arbitrary: i j)
  case (RSeq r t)
  then show ?case by fastforce
next
  case (RStar r)
  have "j \<in> set (star_ends k (ends r s) i) \<Longrightarrow> i \<le> length s \<Longrightarrow> i \<le> j \<and> j \<le> length s" for k i j
  proof (induction k arbitrary: i)
    case (Suc k)
    then consider "j = i" | m where "m \<in> set (ends r s i)" "i < m" "j \<in> set (star_ends k (ends r s) m)"
      by auto
    then show ?case
    proof cases
      case 2
      then have "m \<le> length s" using RStar.IH Suc.prems(2) by blast
      with Suc.IH [of m] 2 show ?thesis by auto
    qed (use Suc.prems in simp)
  qed simp
  with RStar.prems show ?case by simp
qed (auto simp: step_if_def split: if_splits)

text \<open>Introduction rules for a match of a concrete pattern, by position.\<close>

lemma ends_seqI: "m \<in> set (ends r s i) \<Longrightarrow> j \<in> set (ends t s m) \<Longrightarrow> j \<in> set (ends (RSeq r t) s i)"
  by auto

lemma ends_altI1: "j \<in> set (ends r s i) \<Longrightarrow> j \<in> set (ends (RAlt r t) s i)"
  and ends_altI2: "j \<in> set (ends t s i) \<Longrightarrow> j \<in> set (ends (RAlt r t) s i)"
  by auto

lemma ends_charI: "i < length s \<Longrightarrow> s ! i = c \<Longrightarrow> Suc i \<in> set (ends (RChar c) s i)"
  by (simp add: step_if_def)

lemma star_ends_class:
  assumes "i \<le> j" "j \<le> length s" "\<And>k. i \<le> k \<Longrightarrow> k < j \<Longrightarrow> p (s ! k)" "j - i \<le> n"
  shows "j \<in> set (star_ends n (step_if p s) i)"
  using assms
proof (induction n arbitrary: i)
  case (Suc n)
  show ?case
  proof (cases "i = j")
    case False
    with Suc.prems have "i < j" by simp
    with Suc.prems have "step_if p s i = [Suc i]" by (simp add: step_if_def)
    moreover from Suc.prems \<open>i < j\<close> have "j \<in> set (star_ends n (step_if p s) (Suc i))"
      by (intro Suc.IH) auto
    ultimately show ?thesis by simp
  qed simp
qed simp

lemma ends_star_classI:
  assumes "i \<le> j" "j \<le> length s" "\<And>k. i \<le> k \<Longrightarrow> k < j \<Longrightarrow> class_match neg cs (s ! k)"
  shows "j \<in> set (ends (RStar (RClass neg cs)) s i)"
proof -
  have "ends (RClass neg cs) s = step_if (class_match neg cs) s" by (rule ext) simp
  then show ?thesis using star_ends_class [of i j s "class_match neg cs" "length s - i"] assms by simp
qed

definition line_free :: "string \<Rightarrow> bool" where
  \<comment> \<open>no character the dot does not match\<close>
  "line_free s = list_all (\<lambda>c. c \<noteq> CHR 0x0A \<and> c \<noteq> CHR 0x0D) s"

lemma ends_dot_starI:
  assumes "s = u @ d @ v" "line_free d"
  shows "length (u @ d) \<in> set (ends (RStar dot_class) s (length u))"
  unfolding dot_class_def
proof (rule ends_star_classI)
  fix k assume "length u \<le> k" "k < length (u @ d)"
  then obtain m where "k = length u + m" "m < length d"
    by (metis add_diff_inverse_nat leD length_append nat_add_left_cancel_less)
  then have "s ! k \<in> set d" by (simp add: assms(1) nth_append)
  then show "class_match True [CHR 0x0A, CHR 0x0D] (s ! k)"
    using assms(2) by (auto simp: class_match_def line_free_def list_all_iff)
qed (simp_all add: assms(1))

text \<open>A literal word before the rest of a pattern.\<close>

definition lit :: "string \<Rightarrow> regex \<Rightarrow> regex" where
  "lit w r = foldr (\<lambda>c. RSeq (RChar c)) w r"

lemma ends_litI:
  assumes "s = u @ w @ v" "j \<in> set (ends r s (length (u @ w)))"
  shows "j \<in> set (ends (lit w r) s (length u))"
  using assms
proof (induction w arbitrary: u)
  case (Cons c w)
  have "j \<in> set (ends (lit w r) s (length (u @ [c])))"
    using Cons.prems by (intro Cons.IH) auto
  moreover have "Suc (length u) \<in> set (ends (RChar c) s (length u))"
    using Cons.prems(1) by (intro ends_charI) (simp_all add: nth_append)
  ultimately have "j \<in> set (ends (RSeq (RChar c) (lit w r)) s (length u))"
    by (intro ends_seqI) simp_all
  then show ?case by (simp add: lit_def)
qed (simp add: lit_def)

lemma ends_eolI: "length s \<in> set (ends (RSeq REol REmpty) s (length s))"
  by simp

lemma regex_testI: "j \<in> set (ends (RSeq RBol r) s 0) \<Longrightarrow> regex_test (RSeq RBol r) s"
  unfolding regex_test_def list_ex_iff by (rule bexI [of _ 0]) auto

lemma ends_bolI: "j \<in> set (ends r s 0) \<Longrightarrow> j \<in> set (ends (RSeq RBol r) s 0)"
  by simp

text \<open>\<open>^(?:.*/)?\<close>: any directory prefix without a line terminator.\<close>

definition dir_prefix :: regex where
  "dir_prefix = RAlt (RSeq (RStar dot_class) (RSeq (RChar CHR ''/'') REmpty)) REmpty"

lemma dir_prefixI:
  assumes "s = d @ ''/'' @ v" "line_free d"
  shows "Suc (length d) \<in> set (ends dir_prefix s 0)"
proof -
  have "length d \<in> set (ends (RStar dot_class) s 0)"
    using ends_dot_starI [of s "[]" d "''/'' @ v"] assms by simp
  moreover have "Suc (length d) \<in> set (ends (RSeq (RChar CHR ''/'') REmpty) s (length d))"
    by (rule ends_seqI [OF ends_charI]) (simp_all add: assms(1) nth_append)
  ultimately show ?thesis unfolding dir_prefix_def by (blast intro: ends_altI1 ends_seqI)
qed

lemma dir_prefix_litI:
  assumes "s = d @ ''/'' @ w @ v" "line_free d" "j \<in> set (ends r s (length (d @ ''/'' @ w)))"
  shows "regex_test (RSeq RBol (RSeq dir_prefix (lit w r))) s"
proof (rule regex_testI, rule ends_bolI, rule ends_seqI)
  show "Suc (length d) \<in> set (ends dir_prefix s 0)" using assms(1,2) by (intro dir_prefixI) auto
  show "j \<in> set (ends (lit w r) s (Suc (length d)))"
    using ends_litI [of s "d @ ''/''" w v j r] assms by simp
qed

end
