(* ===== verification/Policy_Rules.thy ===== *)
theory Policy_Rules
  imports Schemas Js_Regex
begin

text \<open>
  Rules and packs of \<open>packages/policy-engine/src/index.ts\<close> with the schema that admits them
  (\<open>packages/schemas/src/index.ts\<close>): field predicates over the JSON form of an action, the
  combinators, nesting depth, the order in which matching rules compete, enforcement modes and
  \<open>compilePolicyPack\<close>. The regular-expression engine is the argument \<open>rx\<close>; it answers
  \<open>None\<close> where \<open>new RegExp\<close> throws, and an exception of a predicate is the \<open>None\<close> of
  \<open>matchesPolicyPredicate\<close>.
\<close>

type_synonym regex_engine = "string \<Rightarrow> string \<Rightarrow> bool option"

section \<open>Field predicates\<close>

definition getFieldValue :: "jsval \<Rightarrow> string \<Rightarrow> jsval" where
  "getFieldValue rec field_path =
     foldl (\<lambda>current segment. if js_object current then js_get current segment else JUndef)
       rec (js_split CHR ''.'' field_path)"

definition js_num_cmp :: "(rat \<Rightarrow> rat \<Rightarrow> bool) \<Rightarrow> jsval \<Rightarrow> jsval \<Rightarrow> bool" where
  "js_num_cmp r u v = (case (u, v) of (JNum x, JNum y) \<Rightarrow> r x y | _ \<Rightarrow> False)"

definition evaluateFieldPredicate ::
  "regex_engine \<Rightarrow> string \<Rightarrow> predicate_operator \<Rightarrow> jsval \<Rightarrow> jsval \<Rightarrow> bool option" where
  "evaluateFieldPredicate rx field operator value action =
     (let actual = getFieldValue action field in
      case operator of
        OpEq \<Rightarrow> Some (js_strict_eq actual value)
      | OpNeq \<Rightarrow> Some (\<not> js_strict_eq actual value)
      | OpMatches \<Rightarrow>
          (case (actual, value) of (JStr s, JStr p) \<Rightarrow> rx p s | _ \<Rightarrow> Some False)
      | OpContains \<Rightarrow>
          (case (actual, value) of
             (JStr s, JStr p) \<Rightarrow> Some (js_str_includes s p)
           | (JArr xs, v) \<Rightarrow> Some (js_array_includes xs v)
           | _ \<Rightarrow> Some False)
      | OpGt \<Rightarrow> Some (js_num_cmp (>) actual value)
      | OpGte \<Rightarrow> Some (js_num_cmp (\<ge>) actual value)
      | OpLt \<Rightarrow> Some (js_num_cmp (<) actual value)
      | OpLte \<Rightarrow> Some (js_num_cmp (\<le>) actual value)
      | OpIn \<Rightarrow> (case value of JArr xs \<Rightarrow> Some (js_array_includes xs actual) | _ \<Rightarrow> Some False)
      | OpNotIn \<Rightarrow> (case value of JArr xs \<Rightarrow> Some (\<not> js_array_includes xs actual) | _ \<Rightarrow> Some False)
      | OpExists \<Rightarrow>
          (if value = JBool False then Some (actual = JUndef) else Some (actual \<noteq> JUndef)))"

section \<open>Combined predicates\<close>

text \<open>\<open>every\<close> stops at the first condition that is false, \<open>some\<close> at the first that is true;
  an exception raised before that point propagates.\<close>

fun matchesPolicyPredicate :: "regex_engine \<Rightarrow> policy_predicate \<Rightarrow> jsval \<Rightarrow> bool option"
and matches_every :: "regex_engine \<Rightarrow> policy_predicate list \<Rightarrow> jsval \<Rightarrow> bool option"
and matches_some :: "regex_engine \<Rightarrow> policy_predicate list \<Rightarrow> jsval \<Rightarrow> bool option" where
  "matchesPolicyPredicate rx (PField field operator value) action =
     evaluateFieldPredicate rx field operator value action"
| "matchesPolicyPredicate rx (PAll conditions) action = matches_every rx conditions action"
| "matchesPolicyPredicate rx (PAny conditions) action = matches_some rx conditions action"
| "matchesPolicyPredicate rx (PNot condition) action =
     map_option Not (matchesPolicyPredicate rx condition action)"
| "matches_every rx [] action = Some True"
| "matches_every rx (c # cs) action =
     (case matchesPolicyPredicate rx c action of
        None \<Rightarrow> None
      | Some b \<Rightarrow> if b then matches_every rx cs action else Some False)"
| "matches_some rx [] action = Some False"
| "matches_some rx (c # cs) action =
     (case matchesPolicyPredicate rx c action of
        None \<Rightarrow> None
      | Some b \<Rightarrow> if b then Some True else matches_some rx cs action)"

section \<open>Nesting depth\<close>

definition MAX_POLICY_PREDICATE_DEPTH :: nat where
  "MAX_POLICY_PREDICATE_DEPTH = 5"

fun policyPredicateDepth :: "policy_predicate \<Rightarrow> nat" where
  "policyPredicateDepth (PField f op v) = 1"
| "policyPredicateDepth (PAll cs) = 1 + foldr (\<lambda>c. max (policyPredicateDepth c)) cs 0"
| "policyPredicateDepth (PAny cs) = 1 + foldr (\<lambda>c. max (policyPredicateDepth c)) cs 0"
| "policyPredicateDepth (PNot c) = 1 + policyPredicateDepth c"

definition predicate_depth_error :: ag_error where
  "predicate_depth_error =
     InternalError ''Policy predicate exceeded the maximum supported nesting depth.''"

text \<open>\<open>None\<close>: the assertion returns; \<open>Some e\<close>: it throws.\<close>

fun assertPolicyPredicateDepth :: "policy_predicate \<Rightarrow> nat \<Rightarrow> ag_error option"
and assert_depths :: "policy_predicate list \<Rightarrow> nat \<Rightarrow> ag_error option" where
  "assertPolicyPredicateDepth (PField f op v) depth =
     (if MAX_POLICY_PREDICATE_DEPTH < depth then Some predicate_depth_error else None)"
| "assertPolicyPredicateDepth (PAll cs) depth =
     (if MAX_POLICY_PREDICATE_DEPTH < depth then Some predicate_depth_error
      else assert_depths cs (depth + 1))"
| "assertPolicyPredicateDepth (PAny cs) depth =
     (if MAX_POLICY_PREDICATE_DEPTH < depth then Some predicate_depth_error
      else assert_depths cs (depth + 1))"
| "assertPolicyPredicateDepth (PNot c) depth =
     (if MAX_POLICY_PREDICATE_DEPTH < depth then Some predicate_depth_error
      else assertPolicyPredicateDepth c (depth + 1))"
| "assert_depths [] depth = None"
| "assert_depths (c # cs) depth =
     (case assertPolicyPredicateDepth c depth of
        Some e \<Rightarrow> Some e | None \<Rightarrow> assert_depths cs depth)"

section \<open>The schema of predicates, rules and packs\<close>

text \<open>The pattern \<open>POLICY_REGEX_NESTED_QUANTIFIER_PATTERN\<close>, written with \<open>bs\<close> for the
  backslash: a group that contains a quantifier and is quantified itself.\<close>

abbreviation bs :: string where "bs \<equiv> [CHR 0x5C]"

definition plain_item_pattern :: string where
  "plain_item_pattern =
     ''(?:(?:'' @ bs @ bs @ ''.|[^'' @ bs @ bs @ ''()['' @ bs @ '']])|'' @ bs @ ''[[^'' @ bs @ '']]*'' @ bs @ ''])*''"

definition quantifier_pattern :: string where
  "quantifier_pattern =
     ''(?:'' @ bs @ ''*|'' @ bs @ ''+|'' @ bs @ ''{'' @ bs @ ''d+(?:,'' @ bs @ ''d*)?'' @ bs @ ''})''"

definition POLICY_REGEX_NESTED_QUANTIFIER_PATTERN :: string where
  "POLICY_REGEX_NESTED_QUANTIFIER_PATTERN =
     bs @ ''((?:'' @ bs @ ''?:)?'' @ plain_item_pattern @ quantifier_pattern @ plain_item_pattern
     @ bs @ '')'' @ quantifier_pattern"

text \<open>Issues are the messages of the schema; the text of the engine's own error message is
  not part of the model.\<close>

definition validatePolicyRegexPattern :: "regex_engine \<Rightarrow> string \<Rightarrow> string list" where
  "validatePolicyRegexPattern rx pattern =
     (if \<not> prefix ''^'' pattern \<or> \<not> suffix ''$'' pattern
      then [''Regex match predicates must be anchored with ^ at the start and $ at the end.''] else [])
     @ (if rx pattern [] = None then [''Invalid regex syntax: ''] else [])
     @ (if rx POLICY_REGEX_NESTED_QUANTIFIER_PATTERN pattern = Some True
        then [''Regex match predicates cannot contain nested quantifiers.''] else [])"

definition field_predicate_ok :: "regex_engine \<Rightarrow> string \<Rightarrow> predicate_operator \<Rightarrow> jsval \<Rightarrow> bool" where
  "field_predicate_ok rx field operator value =
     (field \<noteq> [] \<and>
      (operator = OpMatches \<longrightarrow>
         (case value of JStr p \<Rightarrow> p \<noteq> [] \<and> validatePolicyRegexPattern rx p = [] | _ \<Rightarrow> False)))"

fun predicate_ok :: "regex_engine \<Rightarrow> policy_predicate \<Rightarrow> bool" where
  "predicate_ok rx (PField f op v) = field_predicate_ok rx f op v"
| "predicate_ok rx (PAll cs) =
     (cs \<noteq> [] \<and> list_all (predicate_ok rx) cs \<and>
      policyPredicateDepth (PAll cs) \<le> MAX_POLICY_PREDICATE_DEPTH)"
| "predicate_ok rx (PAny cs) =
     (cs \<noteq> [] \<and> list_all (predicate_ok rx) cs \<and>
      policyPredicateDepth (PAny cs) \<le> MAX_POLICY_PREDICATE_DEPTH)"
| "predicate_ok rx (PNot c) =
     (predicate_ok rx c \<and> policyPredicateDepth (PNot c) \<le> MAX_POLICY_PREDICATE_DEPTH)"

definition rule_ok :: "regex_engine \<Rightarrow> policy_rule \<Rightarrow> bool" where
  "rule_ok rx r =
     (ru_id r \<noteq> [] \<and> ru_description r \<noteq> [] \<and> ru_rationale r \<noteq> [] \<and>
      [] \<notin> set (ru_references r) \<and> predicate_ok rx (ru_match r) \<and>
      pr_code (ru_reason r) \<noteq> [] \<and> pr_message (ru_reason r) \<noteq> [])"

definition threshold_ok :: "low_confidence_threshold \<Rightarrow> bool" where
  "threshold_ok t = (lt_action_family t \<noteq> [] \<and> 0 \<le> lt_ask_below t \<and> lt_ask_below t \<le> 1)"

definition config_ok :: "regex_engine \<Rightarrow> policy_config \<Rightarrow> bool" where
  "config_ok rx c =
     (cfg_profile_name c \<noteq> [] \<and> cfg_policy_version c \<noteq> [] \<and>
      list_all threshold_ok (cfg_thresholds c) \<and> list_all (rule_ok rx) (cfg_rules c))"

section \<open>Competing rules\<close>

fun POLICY_DECISION_STRENGTH :: "decision \<Rightarrow> int" where
  "POLICY_DECISION_STRENGTH Deny = 4"
| "POLICY_DECISION_STRENGTH Ask = 3"
| "POLICY_DECISION_STRENGTH AllowWithSnapshot = 2"
| "POLICY_DECISION_STRENGTH Simulate = 1"
| "POLICY_DECISION_STRENGTH Allow = 0"

record compiled_rule =
  cr_profile_name :: string
  cr_policy_version :: string
  cr_source_index :: nat
  cr_rule_index :: nat
  cr_rule :: policy_rule

record compiled_pack =
  pk_profile_name :: string
  pk_policy_versions :: "string list"
  pk_rules :: "compiled_rule list"
  pk_low_confidence :: "(string \<times> rat) list"

definition compareCompiledRules :: "compiled_rule \<Rightarrow> compiled_rule \<Rightarrow> int" where
  "compareCompiledRules left right =
     (let decision_delta = POLICY_DECISION_STRENGTH (decision_of_rule (ru_decision (cr_rule right)))
                         - POLICY_DECISION_STRENGTH (decision_of_rule (ru_decision (cr_rule left)));
          priority_delta = ru_priority (cr_rule right) - ru_priority (cr_rule left);
          source_delta = int (cr_source_index left) - int (cr_source_index right) in
      if decision_delta \<noteq> 0 then decision_delta
      else if priority_delta \<noteq> 0 then priority_delta
      else if source_delta \<noteq> 0 then source_delta
      else int (cr_rule_index left) - int (cr_rule_index right))"

definition enforcementModeStrengthensDecision :: "policy_rule \<Rightarrow> decision option" where
  "enforcementModeStrengthensDecision r =
     (if ru_enforcement_mode r \<in> {EM_disabled, EM_audit, EM_warn} then None
      else if ru_enforcement_mode r = EM_require_approval then Some Ask
      else Some (decision_of_rule (ru_decision r)))"

section \<open>Compilation\<close>

definition add_thresholds ::
  "(string \<times> rat) list \<Rightarrow> low_confidence_threshold list \<Rightarrow> (string \<times> rat) list" where
  \<comment> \<open>an action family already present keeps its threshold\<close>
  "add_thresholds acc ts =
     foldl (\<lambda>m t. if map_of m (lt_action_family t) = None
                  then m @ [(lt_action_family t, lt_ask_below t)] else m) acc ts"

definition compile_rules :: "nat \<Rightarrow> policy_config \<Rightarrow> compiled_rule list" where
  "compile_rules source c =
     map (\<lambda>(i, r). \<lparr>cr_profile_name = cfg_profile_name c, cr_policy_version = cfg_policy_version c,
                    cr_source_index = source, cr_rule_index = i, cr_rule = r\<rparr>)
       (zip [0..<length (cfg_rules c)] (cfg_rules c))"

definition build_pack :: "policy_config list \<Rightarrow> compiled_pack" where
  "build_pack configs =
     \<lparr>pk_profile_name = (case configs of [] \<Rightarrow> ''empty'' | c # _ \<Rightarrow> cfg_profile_name c),
      pk_policy_versions = js_dedup (map cfg_policy_version configs),
      pk_rules = concat (map (\<lambda>(i, c). compile_rules i c) (zip [0..<length configs] configs)),
      pk_low_confidence = foldl add_thresholds [] (map cfg_thresholds configs)\<rparr>"

datatype compile_error = SchemaError | DepthError ag_error

definition compilePolicyPack :: "regex_engine \<Rightarrow> policy_config list \<Rightarrow> compile_error + compiled_pack" where
  "compilePolicyPack rx configs =
     (if \<not> list_all (config_ok rx) configs then Inl SchemaError
      else case assert_depths (map ru_match (concat (map cfg_rules configs))) 1 of
             Some e \<Rightarrow> Inl (DepthError e)
           | None \<Rightarrow> Inr (build_pack configs))"

record config_validation =
  va_valid :: bool
  va_issue :: "compile_error option"
  va_config :: "policy_config option"
  va_pack :: "compiled_pack option"

text \<open>The document has the shape of a pack already (a JSON value of another shape fails the
  schema). \<open>va_issue\<close> is the error the list \<open>issues\<close> is printed from, none when that list is
  empty.\<close>

definition validatePolicyConfigDocument :: "regex_engine \<Rightarrow> policy_config \<Rightarrow> config_validation" where
  "validatePolicyConfigDocument rx c =
     (if \<not> config_ok rx c
      then \<lparr>va_valid = False, va_issue = Some SchemaError, va_config = None, va_pack = None\<rparr>
      else case compilePolicyPack rx [c] of
        Inr p \<Rightarrow> \<lparr>va_valid = True, va_issue = None, va_config = Some c, va_pack = Some p\<rparr>
      | Inl e \<Rightarrow> \<lparr>va_valid = False, va_issue = Some e, va_config = None, va_pack = None\<rparr>)"

section \<open>Rule order\<close>

definition rule_strength :: "compiled_rule \<Rightarrow> int" where
  "rule_strength c = POLICY_DECISION_STRENGTH (decision_of_rule (ru_decision (cr_rule c)))"

lemma compareCompiledRules_lex:
  "compareCompiledRules =
     cmp_then (cmp_by (\<lambda>c. - rule_strength c))
       (cmp_then (cmp_by (\<lambda>c. - ru_priority (cr_rule c)))
         (cmp_then (cmp_by (\<lambda>c. int (cr_source_index c))) (cmp_by (\<lambda>c. int (cr_rule_index c)))))"
  by (rule ext)+ (simp add: compareCompiledRules_def cmp_then_def cmp_by_def rule_strength_def Let_def)

interpretation rule_lex1: js_lexicographic
  "cmp_by (\<lambda>c. int (cr_source_index c))" "cmp_by (\<lambda>c. int (cr_rule_index c))"
  by (rule js_lexicographic.intro) (rule by_key.js_ordering_axioms)+

interpretation rule_lex2: js_lexicographic
  "cmp_by (\<lambda>c. - ru_priority (cr_rule c))"
  "cmp_then (cmp_by (\<lambda>c. int (cr_source_index c))) (cmp_by (\<lambda>c. int (cr_rule_index c)))"
  by (rule js_lexicographic.intro) (rule by_key.js_ordering_axioms rule_lex1.lex.js_ordering_axioms)+

interpretation rule_lex3: js_lexicographic
  "cmp_by (\<lambda>c. - rule_strength c)"
  "cmp_then (cmp_by (\<lambda>c. - ru_priority (cr_rule c)))
     (cmp_then (cmp_by (\<lambda>c. int (cr_source_index c))) (cmp_by (\<lambda>c. int (cr_rule_index c))))"
  by (rule js_lexicographic.intro) (rule by_key.js_ordering_axioms rule_lex2.lex.js_ordering_axioms)+

interpretation rule_order: js_ordering compareCompiledRules
  unfolding compareCompiledRules_lex by (rule rule_lex3.lex.js_ordering_axioms)

lemma compareCompiledRules_le:
  "compareCompiledRules c d \<le> 0 \<Longrightarrow>
     rule_strength d < rule_strength c \<or>
     (rule_strength d = rule_strength c \<and> ru_priority (cr_rule d) \<le> ru_priority (cr_rule c))"
  by (auto simp: compareCompiledRules_lex cmp_then_def cmp_by_def split: if_splits)

section \<open>Depth\<close>

lemma assert_depths_None:
  "assert_depths cs d = None \<longleftrightarrow> (\<forall>c \<in> set cs. assertPolicyPredicateDepth c d = None)"
  by (induction cs) (auto split: option.splits)

lemma foldr_max_le:
  "foldr (\<lambda>c. max (f c)) cs (0::nat) \<le> n \<longleftrightarrow> (\<forall>c \<in> set cs. f c \<le> n)"
  by (induction cs) auto

lemma policyPredicateDepth_pos: "1 \<le> policyPredicateDepth p"
  by (cases p) auto

lemma assert_depth_iff:
  "assertPolicyPredicateDepth p d = None \<longleftrightarrow>
     policyPredicateDepth p + d \<le> MAX_POLICY_PREDICATE_DEPTH + 1"
proof (induction p arbitrary: d)
  case (PAll cs)
  show ?case
  proof (cases "MAX_POLICY_PREDICATE_DEPTH < d")
    case False
    define n where "n = MAX_POLICY_PREDICATE_DEPTH - d"
    from False have n: "MAX_POLICY_PREDICATE_DEPTH = n + d" by (simp add: n_def)
    have "foldr (\<lambda>c. max (policyPredicateDepth c)) cs 0 \<le> n \<longleftrightarrow> assert_depths cs (d + 1) = None"
      using PAll [of _ "d + 1"] unfolding foldr_max_le assert_depths_None n by auto
    with False n show ?thesis by auto
  qed auto
next
  case (PAny cs)
  show ?case
  proof (cases "MAX_POLICY_PREDICATE_DEPTH < d")
    case False
    define n where "n = MAX_POLICY_PREDICATE_DEPTH - d"
    from False have n: "MAX_POLICY_PREDICATE_DEPTH = n + d" by (simp add: n_def)
    have "foldr (\<lambda>c. max (policyPredicateDepth c)) cs 0 \<le> n \<longleftrightarrow> assert_depths cs (d + 1) = None"
      using PAny [of _ "d + 1"] unfolding foldr_max_le assert_depths_None n by auto
    with False n show ?thesis by auto
  qed auto
qed auto

lemma assert_depth_top:
  "assertPolicyPredicateDepth p 1 = None \<longleftrightarrow> policyPredicateDepth p \<le> MAX_POLICY_PREDICATE_DEPTH"
  using assert_depth_iff [of p 1] by simp

lemma predicate_ok_depth: "predicate_ok rx p \<Longrightarrow> policyPredicateDepth p \<le> MAX_POLICY_PREDICATE_DEPTH"
  by (cases p) (auto simp: MAX_POLICY_PREDICATE_DEPTH_def)

lemma compilePolicyPack_iff:
  "compilePolicyPack rx cs = (if list_all (config_ok rx) cs then Inr (build_pack cs) else Inl SchemaError)"
proof (cases "list_all (config_ok rx) cs")
  case True
  have "assertPolicyPredicateDepth (ru_match r) 1 = None"
    if "c \<in> set cs" "r \<in> set (cfg_rules c)" for c r
  proof -
    have "predicate_ok rx (ru_match r)"
      using True that by (auto simp: list_all_iff config_ok_def rule_ok_def)
    then show ?thesis unfolding assert_depth_top by (rule predicate_ok_depth)
  qed
  then have "assert_depths (map ru_match (concat (map cfg_rules cs))) 1 = None"
    by (auto simp: assert_depths_None)
  with True show ?thesis by (simp add: compilePolicyPack_def)
qed (simp add: compilePolicyPack_def)

end
