(* ===== verification/Default_Pack.thy ===== *)
theory Default_Pack
  imports Policy_Rules
begin

text \<open>
  The built-in pack of \<open>packages/policy-engine/src/default-policy-pack.ts\<close>, rule by rule,
  and its compiled form. The JavaScript string escapes of the patterns are undone: \<open>bs\<close> is the
  one backslash that stands in the pattern.
\<close>

section \<open>Patterns\<close>

definition secret_env_pattern :: string where
  "secret_env_pattern = ''^(?:.*'' @ bs @ ''/)?'' @ bs @ ''.env(?:'' @ bs @ ''.[^/]+)?$''"

definition file_pattern :: "string \<Rightarrow> string" where
  \<comment> \<open>a file name below any directory\<close>
  "file_pattern name = ''^(?:.*'' @ bs @ ''/)?'' @ bs @ ''.'' @ name @ ''$''"

definition directory_pattern :: "string \<Rightarrow> string" where
  \<comment> \<open>a directory below any directory, and everything in it\<close>
  "directory_pattern name =
     ''^(?:.*'' @ bs @ ''/)?'' @ bs @ ''.'' @ name @ ''(?:'' @ bs @ ''/.*)?$''"

definition key_file_pattern :: string where
  "key_file_pattern = ''^.*'' @ bs @ ''.(?:pem|key)$''"

definition secret_path_patterns :: "string list" where
  "secret_path_patterns =
     [secret_env_pattern, file_pattern ''npmrc'', file_pattern ''netrc'', directory_pattern ''ssh'',
      directory_pattern ''aws'', directory_pattern ''gnupg'', key_file_pattern]"

definition agent_config_patterns :: "string list" where
  "agent_config_patterns =
     [directory_pattern ''claude'', directory_pattern ''codex'', directory_pattern ''agentgit'',
      file_pattern (''mcp'' @ bs @ ''.json'')]"

section \<open>Rules\<close>

definition locator_matches :: "string \<Rightarrow> policy_predicate" where
  "locator_matches p = PField ''target.primary.locator'' OpMatches (JStr p)"

definition secret_paths_rule :: policy_rule where
  "secret_paths_rule =
     \<lparr>ru_id = ''platform.secret-paths.deny'',
      ru_description = ''Deny governed access to protected secret paths.'',
      ru_rationale = ''Known credential and secret files should never be automatically accessed through the governed runtime.'',
      ru_references = [''support-architecture/10-policy-hardening-and-defaults.md''],
      ru_binding_scope = BS_platform_default,
      ru_decision = RDeny,
      ru_enforcement_mode = EM_enforce,
      ru_priority = 10000,
      ru_match = PAll
        [PField ''operation.domain'' OpIn (js_strs [''filesystem'', ''shell'']),
         PField ''target.primary.type'' OpEq (JStr ''path''),
         PAny (map locator_matches secret_path_patterns)],
      ru_reason = reason ''PROTECTED_SECRET_PATH_DENIED'' SV_critical
        ''Protected secret paths are outside the governed auto-execution surface.''\<rparr>"

definition outside_workspace_rule :: policy_rule where
  "outside_workspace_rule =
     \<lparr>ru_id = ''platform.outside-workspace-paths.deny'',
      ru_description = ''Deny governed access to explicit paths outside the governed workspace roots.'',
      ru_rationale = ''Explicit access to paths outside the governed workspace roots breaks the local containment contract and must fail closed.'',
      ru_references = [''support-architecture/10-policy-hardening-and-defaults.md''],
      ru_binding_scope = BS_platform_default,
      ru_decision = RDeny,
      ru_enforcement_mode = EM_enforce,
      ru_priority = 9950,
      ru_match = PAll
        [PField ''target.primary.type'' OpEq (JStr ''path''),
         PField ''target.scope.breadth'' OpEq (JStr ''external'')],
      ru_reason = reason ''PATH_NOT_GOVERNED'' SV_critical
        ''Explicit paths outside the governed workspace roots are denied.''\<rparr>"

definition agent_config_rule :: policy_rule where
  "agent_config_rule =
     \<lparr>ru_id = ''platform.agent-config-mutation.deny'',
      ru_description = ''Deny agent mutation of authority and agent configuration surfaces.'',
      ru_rationale = ''Agent-editable config and policy surfaces create a persistence and sandbox-escape vector and must be protected.'',
      ru_references = [''support-architecture/10-policy-hardening-and-defaults.md''],
      ru_binding_scope = BS_platform_default,
      ru_decision = RDeny,
      ru_enforcement_mode = EM_enforce,
      ru_priority = 9900,
      ru_match = PAll
        [PField ''operation.domain'' OpIn (js_strs [''filesystem'', ''shell'']),
         PField ''risk_hints.side_effect_level'' OpIn (js_strs [''mutating'', ''destructive'']),
         PField ''target.primary.type'' OpEq (JStr ''path''),
         PAny (map locator_matches agent_config_patterns)],
      ru_reason = reason ''AGENT_CONFIG_MUTATION_DENIED'' SV_critical
        ''Agent configuration and authority-control surfaces may not be mutated automatically.''\<rparr>"

definition DEFAULT_POLICY_PACK :: policy_config where
  "DEFAULT_POLICY_PACK =
     \<lparr>cfg_profile_name = ''coding-agent-v1'',
      cfg_policy_version = ''2026-04-01'',
      cfg_thresholds =
        [\<lparr>lt_action_family = ''filesystem/*'', lt_ask_below = 3 / 10\<rparr>,
         \<lparr>lt_action_family = ''shell/*'', lt_ask_below = 3 / 10\<rparr>,
         \<lparr>lt_action_family = ''function/*'', lt_ask_below = 5 / 10\<rparr>],
      cfg_rules = [secret_paths_rule, outside_workspace_rule, agent_config_rule]\<rparr>"

definition DEFAULT_COMPILED_POLICY_PACK :: compiled_pack where
  "DEFAULT_COMPILED_POLICY_PACK = build_pack [DEFAULT_POLICY_PACK]"

lemmas default_pack_defs =
  DEFAULT_COMPILED_POLICY_PACK_def DEFAULT_POLICY_PACK_def build_pack_def compile_rules_def
  add_thresholds_def

lemma default_rules:
  "map cr_rule (pk_rules DEFAULT_COMPILED_POLICY_PACK) =
     [secret_paths_rule, outside_workspace_rule, agent_config_rule]"
  by (simp add: default_pack_defs)

lemma default_thresholds:
  "pk_low_confidence DEFAULT_COMPILED_POLICY_PACK =
     [(''filesystem/*'', 3 / 10), (''shell/*'', 3 / 10), (''function/*'', 1 / 2)]"
  by (simp add: default_pack_defs)

end
