(* ===== verification/Policy_Core.thy ===== *)
theory Policy_Core
  imports Default_Pack
begin

text \<open>
  The parts of \<open>packages/policy-engine/src/index.ts\<close> every evaluator shares: outcome
  constructors, low-confidence thresholds, the outcome of the compiled rules, the overlay of that
  outcome on the domain evaluator's one, the shell guardrail and the run budget. An outcome carries
  a fresh identifier and a time; a \<open>stamp\<close> is that pair, one for each constructed outcome.
\<close>

section \<open>Outcome constructors\<close>

type_synonym stamp = "string \<times> string"

definition no_recovery :: recovery_context where
  "no_recovery = \<lparr>rc_class = None, rc_proof_kind = None, rc_proof_source = None, rc_proof_scope = None\<rparr>"

definition degraded_recovery :: recovery_context where
  \<comment> \<open>\<open>makeRecoveryProofContext({recoverability_class: "unrecoverable_or_degraded"})\<close>\<close>
  "degraded_recovery = no_recovery\<lparr>rc_class := Some RC_unrecoverable_or_degraded\<rparr>"

text \<open>The partial trust requirements, with the defaults of the constructor.\<close>

record partial_trust =
  pt_brokered :: bool
  pt_no_direct :: bool

definition default_trust :: partial_trust where
  "default_trust = \<lparr>pt_brokered = False, pt_no_direct = False\<rparr>"

definition brokered_trust :: partial_trust where
  "brokered_trust = \<lparr>pt_brokered = True, pt_no_direct = True\<rparr>"

definition makeOutcome ::
  "stamp \<Rightarrow> action_record \<Rightarrow> decision \<Rightarrow> policy_reason list \<Rightarrow> string list \<Rightarrow> partial_trust \<Rightarrow>
   recovery_context \<Rightarrow> policy_outcome" where
  "makeOutcome stamp action decision reasons matched_rules trust recovery =
     \<lparr>po_id = fst stamp,
      po_action_id = action_id action,
      po_decision = decision,
      po_reasons = reasons,
      po_trust = \<lparr>tr_wrapped_path_required = True,
                  tr_brokered_credentials_required = pt_brokered trust,
                  tr_direct_credentials_forbidden = pt_no_direct trust\<rparr>,
      po_pre = \<lparr>pc_snapshot_required = (decision = AllowWithSnapshot),
                pc_approval_required = (decision = Ask),
                pc_simulation_supported = False\<rparr>,
      po_budget = \<lparr>be_budget_check = BC_passed, be_estimated_cost = Some 0,
                   be_remaining_mutating = None, be_remaining_destructive = None\<rparr>,
      po_context = \<lparr>px_matched_rules = matched_rules, px_sticky_decision_applied = False,
                    px_recovery = recovery\<rparr>,
      po_evaluated_at = snd stamp\<rparr>"

definition makeCapabilityApprovalOutcome ::
  "stamp \<Rightarrow> action_record \<Rightarrow> policy_reason \<Rightarrow> string \<Rightarrow> bool \<Rightarrow> partial_trust \<Rightarrow> policy_outcome" where
  "makeCapabilityApprovalOutcome stamp action rsn matched_rule snapshot trust =
     (let outcome = makeOutcome stamp action Ask [rsn] [matched_rule] trust degraded_recovery in
      if snapshot then outcome\<lparr>po_pre := (po_pre outcome)\<lparr>pc_snapshot_required := True\<rparr>\<rparr> else outcome)"

definition makeDirectCredentialDenyOutcome ::
  "stamp \<Rightarrow> action_record \<Rightarrow> string \<Rightarrow> string \<Rightarrow> policy_outcome" where
  "makeDirectCredentialDenyOutcome stamp action message matched_rule =
     makeOutcome stamp action Deny [reason ''DIRECT_CREDENTIALS_FORBIDDEN'' SV_high message]
       [matched_rule] \<lparr>pt_brokered = False, pt_no_direct = True\<rparr> degraded_recovery"

definition makeAutomaticSnapshotOutcome ::
  "stamp \<Rightarrow> action_record \<Rightarrow> policy_reason \<Rightarrow> string \<Rightarrow> partial_trust \<Rightarrow> recovery_context \<Rightarrow> policy_outcome" where
  "makeAutomaticSnapshotOutcome stamp action rsn matched_rule trust recovery =
     makeOutcome stamp action AllowWithSnapshot [rsn] [matched_rule] trust recovery"

section \<open>Thresholds\<close>

definition actionFamilyForAction :: "'a normalized_action_scheme \<Rightarrow> string" where
  "actionFamilyForAction action = domain_of action @ ''/'' @ op_kind (operation action)"

text \<open>\<open>action.confidence_assessment?.score\<close>: the schema makes the assessment mandatory.\<close>

definition actionConfidenceScore :: "action_record \<Rightarrow> rat" where
  "actionConfidenceScore action = score_of action"

definition compiled_or_default :: "compiled_pack option \<Rightarrow> compiled_pack" where
  "compiled_or_default pack = (case pack of None \<Rightarrow> DEFAULT_COMPILED_POLICY_PACK | Some p \<Rightarrow> p)"

definition family_domain :: "string \<Rightarrow> string" where
  \<comment> \<open>the part before the first slash, the whole family where it has none\<close>
  "family_domain family = takeWhile (\<lambda>c. c \<noteq> CHR ''/'') family"

definition resolvePolicyLowConfidenceThreshold :: "compiled_pack option \<Rightarrow> string \<Rightarrow> rat option" where
  "resolvePolicyLowConfidenceThreshold pack family =
     (let low = pk_low_confidence (compiled_or_default pack) in
      case map_of low family of
        Some t \<Rightarrow> Some t
      | None \<Rightarrow>
          (case map_of low (family_domain family @ ''/*'') of
             Some t \<Rightarrow> Some t
           | None \<Rightarrow> map_of low ''*''))"

definition confidence_triggered :: "compiled_pack option \<Rightarrow> action_record \<Rightarrow> bool" where
  \<comment> \<open>\<open>threshold !== null && actionConfidenceScore(action) < threshold\<close>\<close>
  "confidence_triggered pack action =
     (case resolvePolicyLowConfidenceThreshold pack (actionFamilyForAction action) of
        None \<Rightarrow> False
      | Some t \<Rightarrow> actionConfidenceScore action < t)"

section \<open>The outcome of the compiled rules\<close>

text \<open>\<open>filter\<close> with a predicate that may throw.\<close>

fun filter_throwing :: "('a \<Rightarrow> bool option) \<Rightarrow> 'a list \<Rightarrow> 'a list option" where
  "filter_throwing p [] = Some []"
| "filter_throwing p (x # xs) =
     (case p x of
        None \<Rightarrow> None
      | Some b \<Rightarrow> map_option (\<lambda>ys. if b then x # ys else ys) (filter_throwing p xs))"

definition matching_rules ::
  "regex_engine \<Rightarrow> action_record \<Rightarrow> compiled_pack \<Rightarrow> compiled_rule list option" where
  "matching_rules rx action pack =
     filter_throwing (\<lambda>c. matchesPolicyPredicate rx (ru_match (cr_rule c)) (action_json action))
       (filter (\<lambda>c. enforcementModeStrengthensDecision (cr_rule c) \<noteq> None) (pk_rules pack))"

text \<open>\<open>None\<close>: an exception; \<open>Some None\<close>: no rule matches.\<close>

definition evaluateCompiledPolicy ::
  "regex_engine \<Rightarrow> stamp \<Rightarrow> action_record \<Rightarrow> compiled_pack \<Rightarrow> policy_outcome option option" where
  "evaluateCompiledPolicy rx stamp action pack =
     (if pk_rules pack = [] then Some None
      else case matching_rules rx action pack of
        None \<Rightarrow> None
      | Some candidates \<Rightarrow>
          (case js_head (js_sort compareCompiledRules candidates) of
             None \<Rightarrow> Some None
           | Some matched \<Rightarrow>
               (case enforcementModeStrengthensDecision (cr_rule matched) of
                  None \<Rightarrow> Some None
                | Some effective \<Rightarrow>
                    Some (Some (makeOutcome stamp action effective [ru_reason (cr_rule matched)]
                      [''policy.config.'' @ ru_id (cr_rule matched)] default_trust no_recovery)))))"

section \<open>Overlay and guardrail\<close>

definition applyPolicyOverlay :: "policy_outcome \<Rightarrow> policy_outcome option \<Rightarrow> policy_outcome" where
  "applyPolicyOverlay base overlay =
     (case overlay of
        None \<Rightarrow> base
      | Some o' \<Rightarrow>
          (if POLICY_DECISION_STRENGTH (po_decision o') > POLICY_DECISION_STRENGTH (po_decision base)
           then (if po_decision o' = Ask \<and> snapshot_required base
                 then o'\<lparr>po_pre := (po_pre o')\<lparr>pc_snapshot_required := True\<rparr>\<rparr>
                 else o')
           else base))"

definition enforceShellApprovalGuardrail :: "action_record \<Rightarrow> policy_outcome \<Rightarrow> policy_outcome" where
  "enforceShellApprovalGuardrail action outcome =
     (if domain_of action \<noteq> ''shell'' \<or> po_decision outcome = Deny \<or> po_decision outcome = Ask
      then outcome
      else if side_effect action = SE_read_only \<and> po_decision outcome = Allow
      then outcome
      else outcome\<lparr>
        po_decision := Ask,
        po_reasons := po_reasons outcome @
          [reason ''LOCAL_SHELL_AUTO_EXECUTION_UNSUPPORTED'' SV_high
            ''Local governed shell execution is not runtime-contained, so automatic execution is blocked unless it remains read-only.''],
        po_pre := (po_pre outcome)\<lparr>
          pc_snapshot_required := (snapshot_required outcome \<or> side_effect action \<noteq> SE_read_only),
          pc_approval_required := True\<rparr>,
        po_context := (po_context outcome)\<lparr>
          px_matched_rules := px_matched_rules (po_context outcome) @ [''shell.guardrail.require_approval''],
          px_recovery := (px_recovery (po_context outcome))\<lparr>rc_class := Some RC_unrecoverable_or_degraded\<rparr>\<rparr>\<rparr>)"

section \<open>Run budgets\<close>

definition push_reason :: "policy_outcome \<Rightarrow> policy_reason \<Rightarrow> string \<Rightarrow> policy_outcome" where
  "push_reason out rsn rule = out\<lparr>
     po_reasons := po_reasons out @ [rsn],
     po_context := (po_context out)\<lparr>px_matched_rules := px_matched_rules (po_context out) @ [rule]\<rparr>\<rparr>"

definition budget_hard_limit :: "policy_outcome \<Rightarrow> policy_reason \<Rightarrow> string \<Rightarrow> policy_outcome" where
  \<comment> \<open>the denial of an exhausted budget\<close>
  "budget_hard_limit out rsn rule = push_reason (out\<lparr>
     po_decision := Deny,
     po_pre := (po_pre out)\<lparr>pc_snapshot_required := False, pc_approval_required := False\<rparr>,
     po_budget := (po_budget out)\<lparr>be_budget_check := BC_hard_limit\<rparr>\<rparr>) rsn rule"

definition budget_soft_limit :: "policy_outcome \<Rightarrow> policy_reason \<Rightarrow> string \<Rightarrow> policy_outcome" where
  "budget_soft_limit out rsn rule =
     push_reason (out\<lparr>po_budget := (po_budget out)\<lparr>be_budget_check := BC_soft_limit\<rparr>\<rparr>) rsn rule"

text \<open>One budget: \<open>Inl\<close> is the early return of the function.\<close>

definition mutating_budget ::
  "run_budget \<Rightarrow> policy_outcome \<Rightarrow> policy_outcome + policy_outcome" where
  "mutating_budget run out =
     (case max_mutating_actions (rb_config run) of
        None \<Rightarrow> Inr out
      | Some m \<Rightarrow>
          (let remaining = m - mutating_actions (rb_usage run) - 1;
               out' = out\<lparr>po_budget := (po_budget out)\<lparr>be_remaining_mutating := Some (max remaining 0)\<rparr>\<rparr> in
           if remaining < 0 then
             Inl (budget_hard_limit out'
               (reason ''MUTATING_ACTION_BUDGET_EXCEEDED'' SV_critical ''Run mutating action budget is exhausted.'')
               ''budget.mutating.hard_limit'')
           else if remaining = 0 then
             Inr (budget_soft_limit out'
               (reason ''MUTATING_ACTION_BUDGET_AT_LIMIT'' SV_moderate
                 ''This action would consume the final mutating action slot for the run.'')
               ''budget.mutating.soft_limit'')
           else Inr out'))"

definition destructive_budget ::
  "run_budget \<Rightarrow> policy_outcome \<Rightarrow> policy_outcome + policy_outcome" where
  "destructive_budget run out =
     (case max_destructive_actions (rb_config run) of
        None \<Rightarrow> Inr out
      | Some m \<Rightarrow>
          (let remaining = m - destructive_actions (rb_usage run) - 1;
               out' = out\<lparr>po_budget := (po_budget out)\<lparr>be_remaining_destructive := Some (max remaining 0)\<rparr>\<rparr> in
           if remaining < 0 then
             Inl (budget_hard_limit out'
               (reason ''DESTRUCTIVE_ACTION_BUDGET_EXCEEDED'' SV_critical ''Run destructive action budget is exhausted.'')
               ''budget.destructive.hard_limit'')
           else if remaining = 0 then
             Inr (budget_soft_limit out'
               (reason ''DESTRUCTIVE_ACTION_BUDGET_AT_LIMIT'' SV_high
                 ''This action would consume the final destructive action slot for the run.'')
               ''budget.destructive.soft_limit'')
           else Inr out'))"

definition recompute_preconditions :: "policy_outcome \<Rightarrow> policy_outcome" where
  "recompute_preconditions out = out\<lparr>po_pre := (po_pre out)\<lparr>
     pc_snapshot_required := (po_decision out = AllowWithSnapshot \<or>
                              (po_decision out = Ask \<and> snapshot_required out)),
     pc_approval_required := (po_decision out = Ask)\<rparr>\<rparr>"

definition mutating_relevant :: "'a normalized_action_scheme \<Rightarrow> bool" where
  "mutating_relevant action = (side_effect action \<in> {SE_mutating, SE_destructive})"

definition destructive_relevant :: "'a normalized_action_scheme \<Rightarrow> bool" where
  "destructive_relevant action = (side_effect action = SE_destructive)"

definition withBudgetEffects ::
  "action_record \<Rightarrow> policy_outcome \<Rightarrow> run_budget option \<Rightarrow> policy_outcome" where
  "withBudgetEffects action outcome run_summary =
     (case run_summary of
        None \<Rightarrow> outcome
      | Some run \<Rightarrow>
          (case (if mutating_relevant action then mutating_budget run outcome else Inr outcome) of
             Inl denied \<Rightarrow> denied
           | Inr out1 \<Rightarrow>
               (case (if destructive_relevant action then destructive_budget run out1 else Inr out1) of
                  Inl denied \<Rightarrow> denied
                | Inr out2 \<Rightarrow> recompute_preconditions out2)))"

section \<open>Consistent outcomes\<close>

text \<open>Approval is required exactly for \<open>ask\<close>, and a snapshot only where execution may
  follow: always for \<open>allow_with_snapshot\<close>, possibly for \<open>ask\<close>.\<close>

definition outcome_ok :: "policy_outcome \<Rightarrow> bool" where
  "outcome_ok out =
     ((approval_required out \<longleftrightarrow> po_decision out = Ask) \<and>
      (po_decision out = AllowWithSnapshot \<longrightarrow> snapshot_required out) \<and>
      (snapshot_required out \<longrightarrow> po_decision out \<in> {AllowWithSnapshot, Ask}) \<and>
      \<not> pc_simulation_supported (po_pre out) \<and> tr_wrapped_path_required (po_trust out))"

lemma makeOutcome_decision [simp, decision_simps]: "po_decision (makeOutcome s a d rs ms t r) = d"
  by (simp add: makeOutcome_def)

lemma makeOutcome_fields [simp]:
  "po_reasons (makeOutcome s a d rs ms t r) = rs"
  "po_id (makeOutcome s a d rs ms t r) = fst s"
  "po_action_id (makeOutcome s a d rs ms t r) = action_id a"
  "px_matched_rules (po_context (makeOutcome s a d rs ms t r)) = ms"
  "px_recovery (po_context (makeOutcome s a d rs ms t r)) = r"
  "snapshot_required (makeOutcome s a d rs ms t r) \<longleftrightarrow> d = AllowWithSnapshot"
  "approval_required (makeOutcome s a d rs ms t r) \<longleftrightarrow> d = Ask"
  by (simp_all add: makeOutcome_def)

lemma makeOutcome_ok [simp]: "outcome_ok (makeOutcome s a d rs ms t r)"
  by (simp add: makeOutcome_def outcome_ok_def)

lemma capability_approval [simp]:
  "po_decision (makeCapabilityApprovalOutcome s a rsn m b t) = Ask"
  "po_action_id (makeCapabilityApprovalOutcome s a rsn m b t) = action_id a"
  "snapshot_required (makeCapabilityApprovalOutcome s a rsn m b t) = b"
  "px_recovery (po_context (makeCapabilityApprovalOutcome s a rsn m b t)) = degraded_recovery"
  "outcome_ok (makeCapabilityApprovalOutcome s a rsn m b t)"
  by (simp_all add: makeCapabilityApprovalOutcome_def Let_def makeOutcome_def outcome_ok_def)

lemma direct_credential_deny [simp]:
  "po_decision (makeDirectCredentialDenyOutcome s a msg m) = Deny"
  "po_action_id (makeDirectCredentialDenyOutcome s a msg m) = action_id a"
  "outcome_ok (makeDirectCredentialDenyOutcome s a msg m)"
  by (simp_all add: makeDirectCredentialDenyOutcome_def)

lemma automatic_snapshot [simp]:
  "po_decision (makeAutomaticSnapshotOutcome s a rsn m t r) = AllowWithSnapshot"
  "po_action_id (makeAutomaticSnapshotOutcome s a rsn m t r) = action_id a"
  "outcome_ok (makeAutomaticSnapshotOutcome s a rsn m t r)"
  by (simp_all add: makeAutomaticSnapshotOutcome_def)

lemmas decision_simps [decision_simps] =
  capability_approval(1) direct_credential_deny(1) automatic_snapshot(1)

section \<open>Facts about overlay, guardrail and budgets\<close>

lemma POLICY_DECISION_STRENGTH_inj: "POLICY_DECISION_STRENGTH d = POLICY_DECISION_STRENGTH e \<longleftrightarrow> d = e"
  by (cases d; cases e) simp_all

lemma strength_bounds: "0 \<le> POLICY_DECISION_STRENGTH d" "POLICY_DECISION_STRENGTH d \<le> 4"
  by (cases d; simp)+

lemma strength_not_above_deny [simp]: "\<not> 4 < POLICY_DECISION_STRENGTH d"
  by (cases d) simp_all

lemma strength_Deny: "4 \<le> POLICY_DECISION_STRENGTH d \<longleftrightarrow> d = Deny"
  by (cases d) simp_all

lemma outcome_ok_ask_snapshot:
  "outcome_ok x \<Longrightarrow> po_decision x = Ask \<Longrightarrow>
     outcome_ok (x\<lparr>po_pre := (po_pre x)\<lparr>pc_snapshot_required := True\<rparr>\<rparr>)"
  by (simp add: outcome_ok_def)

lemma overlay_ok:
  assumes "outcome_ok b" and "\<And>x. v = Some x \<Longrightarrow> outcome_ok x"
  shows "outcome_ok (applyPolicyOverlay b v)"
proof (cases v)
  case None
  with assms(1) show ?thesis by (simp add: applyPolicyOverlay_def)
next
  case (Some x)
  with assms show ?thesis
    by (simp add: applyPolicyOverlay_def outcome_ok_ask_snapshot)
qed

lemma overlay_strength:
  "POLICY_DECISION_STRENGTH (po_decision (applyPolicyOverlay b (Some x))) =
     max (POLICY_DECISION_STRENGTH (po_decision b)) (POLICY_DECISION_STRENGTH (po_decision x))"
  by (simp add: applyPolicyOverlay_def)

lemma overlay_deny: "po_decision x = Deny \<Longrightarrow> po_decision (applyPolicyOverlay b (Some x)) = Deny"
  using strength_bounds [of "po_decision b"] overlay_strength [of b x] strength_Deny by force

lemma overlay_base_deny: "po_decision b = Deny \<Longrightarrow> applyPolicyOverlay b v = b"
  by (cases v) (simp_all add: applyPolicyOverlay_def)

lemma guardrail_ok: "outcome_ok x \<Longrightarrow> outcome_ok (enforceShellApprovalGuardrail a x)"
  by (auto simp: enforceShellApprovalGuardrail_def outcome_ok_def)

lemma guardrail_deny [simp]: "po_decision x = Deny \<Longrightarrow> enforceShellApprovalGuardrail a x = x"
  by (simp add: enforceShellApprovalGuardrail_def)

lemma guardrail_not_shell [simp]:
  "domain_of a \<noteq> ''shell'' \<Longrightarrow> enforceShellApprovalGuardrail a x = x"
  by (simp add: enforceShellApprovalGuardrail_def)

lemma guardrail_shell:
  "domain_of a = ''shell'' \<Longrightarrow>
     po_decision (enforceShellApprovalGuardrail a x) \<in> {Deny, Ask} \<or>
     (po_decision (enforceShellApprovalGuardrail a x) = Allow \<and> side_effect a = SE_read_only)"
  by (auto simp: enforceShellApprovalGuardrail_def)

lemma push_reason_simps [simp]:
  "po_decision (push_reason x r m) = po_decision x"
  "po_pre (push_reason x r m) = po_pre x"
  "po_trust (push_reason x r m) = po_trust x"
  "po_budget (push_reason x r m) = po_budget x"
  "po_action_id (push_reason x r m) = po_action_id x"
  by (simp_all add: push_reason_def)

lemma mutating_budget_cases:
  assumes "mutating_budget run x = y"
  obtains d where "y = Inl d" "po_decision d = Deny" "outcome_ok x \<Longrightarrow> outcome_ok d"
    "be_budget_check (po_budget d) = BC_hard_limit"
  | z where "y = Inr z" "po_decision z = po_decision x" "po_pre z = po_pre x" "po_trust z = po_trust x"
    "be_budget_check (po_budget z) \<in> {be_budget_check (po_budget x), BC_soft_limit}"
  using assms unfolding mutating_budget_def
  by (auto simp: Let_def budget_hard_limit_def budget_soft_limit_def outcome_ok_def
      split: option.splits if_splits)

lemma destructive_budget_cases:
  assumes "destructive_budget run x = y"
  obtains d where "y = Inl d" "po_decision d = Deny" "outcome_ok x \<Longrightarrow> outcome_ok d"
    "be_budget_check (po_budget d) = BC_hard_limit"
  | z where "y = Inr z" "po_decision z = po_decision x" "po_pre z = po_pre x" "po_trust z = po_trust x"
    "be_budget_check (po_budget z) \<in> {be_budget_check (po_budget x), BC_soft_limit}"
  using assms unfolding destructive_budget_def
  by (auto simp: Let_def budget_hard_limit_def budget_soft_limit_def outcome_ok_def
      split: option.splits if_splits)

end
