(* ===== verification/Policy_Eval.thy ===== *)
theory Policy_Eval
  imports Policy_Core
begin

text \<open>
  The domain evaluators of \<open>packages/policy-engine/src/index.ts\<close> and \<open>evaluatePolicy\<close>.
  \<open>path.resolve\<close> reads the working directory of the process, the argument \<open>cwd\<close>. Facets are
  read through the types the code casts them to: where a field that is declared a number or a
  string holds another JSON value, numbers compare as false and strings are absent.
\<close>

record policy_context =
  cx_run_summary :: "run_budget option"
  cx_mcp_servers :: "mcp_server_definition list option"
  cx_capability_state :: "cached_capability_state option"
  cx_compiled_policy :: "compiled_pack option"

definition empty_context :: policy_context where
  "empty_context = \<lparr>cx_run_summary = None, cx_mcp_servers = None, cx_capability_state = None,
                    cx_compiled_policy = None\<rparr>"

text \<open>\<open>x ?? y\<close> on evaluator results.\<close>

definition or_else :: "'a option \<Rightarrow> 'a \<Rightarrow> 'a" where
  "or_else x y = (case x of None \<Rightarrow> y | Some v \<Rightarrow> v)"

lemma or_else_simps [simp]: "or_else None y = y" "or_else (Some v) y = v"
  by (simp_all add: or_else_def)

section \<open>Cached capability state\<close>

definition actionTargetPath :: "string \<Rightarrow> 'a normalized_action_scheme \<Rightarrow> string option" where
  "actionTargetPath cwd action =
     (if tp_type (primary_target action) \<noteq> ''path'' \<or> locator_of action = [] then None
      else Some (path_resolve cwd (locator_of action)))"

definition capabilityWorkspaceRoot :: "string \<Rightarrow> capability_record \<Rightarrow> string option" where
  "capabilityWorkspaceRoot cwd cap =
     (case obj_get (cap_details cap) ''workspace_root'' of
        JStr s \<Rightarrow> (if s \<noteq> [] then Some (path_resolve cwd s) else None)
      | _ \<Rightarrow> None)"

definition isPathWithinWorkspaceRoot :: "string \<Rightarrow> string \<Rightarrow> bool" where
  "isPathWithinWorkspaceRoot target_path workspace_root = path_within target_path workspace_root"

definition findCapability :: "capability_record list \<Rightarrow> string \<Rightarrow> capability_record option" where
  "findCapability caps name = find (\<lambda>c. cap_name c = name) caps"

definition findWorkspaceCapabilityForAction ::
  "string \<Rightarrow> action_record \<Rightarrow> capability_record list \<Rightarrow> capability_record option" where
  "findWorkspaceCapabilityForAction cwd action caps =
     (case actionTargetPath cwd action of
        None \<Rightarrow> None
      | Some target \<Rightarrow>
          find (\<lambda>c. cap_name c = ''workspace.root_access'' \<and>
                 (case capabilityWorkspaceRoot cwd c of
                    None \<Rightarrow> False
                  | Some rt \<Rightarrow> isPathWithinWorkspaceRoot target rt)) caps)"

definition evaluateFilesystemCapabilityState ::
  "string \<Rightarrow> stamp \<Rightarrow> action_record \<Rightarrow> policy_context \<Rightarrow> bool \<Rightarrow> policy_outcome option" where
  "evaluateFilesystemCapabilityState cwd stamp action ctx snapshot =
     (let ask = (\<lambda>code msg rule. Some (makeCapabilityApprovalOutcome stamp action (reason code SV_high msg)
                    rule snapshot default_trust)) in
      case cx_capability_state ctx of
        None \<Rightarrow> None
      | Some state \<Rightarrow>
         (if cc_is_stale state then
            ask ''CAPABILITY_STATE_STALE''
              ''Cached workspace capability state is stale; rerun capability_refresh or approve explicitly before automatic execution.''
              ''capability.workspace.stale.ask''
          else (case findWorkspaceCapabilityForAction cwd action (cc_capabilities state) of
            None \<Rightarrow>
              ask ''CAPABILITY_STATE_INCOMPLETE''
                ''Cached capability state did not include governed workspace access for this path; rerun capability_refresh or approve explicitly before automatic execution.''
                ''capability.workspace.missing.ask''
          | Some workspace \<Rightarrow>
             (if cap_status workspace \<noteq> CS_available then
                ask ''WORKSPACE_CAPABILITY_UNAVAILABLE''
                  (''Cached workspace access capability is '' @ capability_status_str (cap_status workspace)
                   @ ''; rerun capability_refresh or approve explicitly before automatic execution.'')
                  ''capability.workspace.unavailable.ask''
              else if \<not> snapshot then None
              else (case findCapability (cc_capabilities state) ''host.runtime_storage'' of
                None \<Rightarrow>
                  ask ''CAPABILITY_STATE_INCOMPLETE''
                    ''Cached capability state did not include runtime snapshot storage readiness; rerun capability_refresh or approve explicitly before automatic execution.''
                    ''capability.runtime_storage.missing.ask''
              | Some storage \<Rightarrow>
                 (if cap_status storage \<noteq> CS_available then
                    ask ''RUNTIME_STORAGE_CAPABILITY_DEGRADED''
                      (''Cached runtime storage capability is '' @ capability_status_str (cap_status storage)
                       @ ''; rerun capability_refresh or approve explicitly before automatic execution that requires snapshot protection.'')
                      ''capability.runtime_storage.degraded.ask''
                  else None))))))"

definition evaluateShellCapabilityState ::
  "stamp \<Rightarrow> action_record \<Rightarrow> policy_context \<Rightarrow> policy_outcome option" where
  "evaluateShellCapabilityState stamp action ctx =
     (let ask = (\<lambda>code msg rule. Some (makeCapabilityApprovalOutcome stamp action (reason code SV_high msg)
                    rule True default_trust)) in
      case cx_capability_state ctx of
        None \<Rightarrow> None
      | Some state \<Rightarrow>
         (if cc_is_stale state then
            ask ''CAPABILITY_STATE_STALE''
              ''Cached capability state for snapshot-backed shell execution is stale; rerun capability_refresh or approve explicitly before automatic execution.''
              ''capability.shell.stale.ask''
          else (case findCapability (cc_capabilities state) ''host.runtime_storage'' of
            None \<Rightarrow>
              ask ''CAPABILITY_STATE_INCOMPLETE''
                ''Cached capability state did not include runtime snapshot storage readiness; rerun capability_refresh or approve explicitly before automatic shell execution.''
                ''capability.shell.runtime_storage.missing.ask''
          | Some storage \<Rightarrow>
             (if cap_status storage \<noteq> CS_available then
                ask ''RUNTIME_STORAGE_CAPABILITY_DEGRADED''
                  (''Cached runtime storage capability is '' @ capability_status_str (cap_status storage)
                   @ ''; rerun capability_refresh or approve explicitly before automatic shell execution that requires snapshot protection.'')
                  ''capability.shell.runtime_storage.degraded.ask''
              else None))))"

section \<open>Shared judgements\<close>

definition hasUnrecoverableExternalRisk :: "'a normalized_action_scheme \<Rightarrow> bool" where
  "hasUnrecoverableExternalRisk action =
     (let e = rh_external_effects (risk action); r = rh_reversibility_hint (risk action) in
      e = EE_communication \<or> e = EE_financial \<or> r = RV_irreversible \<or> (e = EE_unknown \<and> r = RV_unknown))"

definition recoveryProofScopeForAction :: "'a normalized_action_scheme \<Rightarrow> recovery_proof_scope" where
  "recoveryProofScopeForAction action =
     (if ts_breadth (scope action) \<in> {SB_single, SB_set} then RS_path else RS_workspace)"

definition localSnapshotRecoveryContext :: "'a normalized_action_scheme \<Rightarrow> recovery_context" where
  "localSnapshotRecoveryContext action =
     \<lparr>rc_class = Some RC_recoverable_local, rc_proof_kind = Some RK_snapshot_preimage,
      rc_proof_source = Some ''snapshot-engine.preimage'',
      rc_proof_scope = Some (recoveryProofScopeForAction action)\<rparr>"

definition compensated_recovery :: "jsval \<Rightarrow> recovery_context" where
  "compensated_recovery source =
     \<lparr>rc_class = Some RC_recoverable_external_compensated, rc_proof_kind = Some RK_trusted_compensator,
      rc_proof_source = js_string_opt source, rc_proof_scope = Some RS_external_object\<rparr>"

section \<open>Filesystem\<close>

definition SAFE_FS_WRITE_BYTES :: rat where
  "SAFE_FS_WRITE_BYTES = 256 * 1024"

definition js_le_num :: "jsval \<Rightarrow> rat \<Rightarrow> bool" where
  "js_le_num v n = (case v of JNum x \<Rightarrow> x \<le> n | _ \<Rightarrow> False)"

definition evaluateFilesystem ::
  "string \<Rightarrow> stamp \<Rightarrow> action_record \<Rightarrow> policy_context \<Rightarrow> policy_outcome" where
  "evaluateFilesystem cwd stamp action ctx =
     (let operation = js_coalesce (facet_field action ''filesystem'' ''operation'')
                        (JStr (op_kind (operation action)));
          byte_length = js_coalesce (facet_field action ''filesystem'' ''byte_length'') (JNum 0) in
      if locator_of action = [] \<or> ''scope'' \<in> set (ts_unknowns (scope action)) then
        makeOutcome stamp action Deny
          [reason ''PATH_NOT_GOVERNED'' SV_critical ''Filesystem path is outside the governed workspace roots.'']
          [''filesystem.outside_workspace.deny''] default_trust no_recovery
      else if confidence_triggered (cx_compiled_policy ctx) action then
        or_else (evaluateFilesystemCapabilityState cwd stamp action ctx True)
          (makeAutomaticSnapshotOutcome stamp action
            (reason ''LOW_NORMALIZATION_CONFIDENCE'' SV_moderate
              ''Filesystem action confidence is below the configured automation threshold, so AgentGit will create a recovery boundary before continuing.'')
            ''normalization.low_confidence.snapshot'' default_trust (localSnapshotRecoveryContext action))
      else if operation = JStr ''delete'' then
        or_else (evaluateFilesystemCapabilityState cwd stamp action ctx True)
          (makeOutcome stamp action AllowWithSnapshot
            [reason ''FS_DESTRUCTIVE_WORKSPACE_MUTATION'' SV_moderate
              ''Destructive filesystem mutations require a recovery boundary.'']
            [''filesystem.delete.requires_snapshot''] default_trust (localSnapshotRecoveryContext action))
      else if js_le_num byte_length SAFE_FS_WRITE_BYTES then
        or_else (evaluateFilesystemCapabilityState cwd stamp action ctx False)
          (makeOutcome stamp action Allow
            [reason ''TRUSTED_GOVERNED_FS_WRITE'' SV_low
              ''Small governed filesystem writes use atomic durable replacement and are allowed automatically.'']
            [''filesystem.safe.small_write''] default_trust no_recovery)
      else
        or_else (evaluateFilesystemCapabilityState cwd stamp action ctx True)
          (makeOutcome stamp action AllowWithSnapshot
            [reason ''FS_MUTATION_REQUIRES_SNAPSHOT'' SV_moderate
              ''Large governed filesystem writes require snapshot protection.'']
            [''filesystem.large_write.requires_snapshot''] default_trust (localSnapshotRecoveryContext action)))"

section \<open>Shell\<close>

definition makeShellApprovalOutcome ::
  "stamp \<Rightarrow> action_record \<Rightarrow> policy_reason \<Rightarrow> string \<Rightarrow> policy_outcome" where
  "makeShellApprovalOutcome stamp action rsn matched_rule =
     makeCapabilityApprovalOutcome stamp action rsn matched_rule True default_trust"

definition shell_low_confidence_reason :: policy_reason where
  "shell_low_confidence_reason = reason ''LOW_NORMALIZATION_CONFIDENCE'' SV_moderate
     ''Shell command confidence is below the configured automation threshold, and local shell execution is not runtime-contained, so explicit approval is required.''"

definition shell_family_approval :: "side_effect_level \<Rightarrow> jsval \<Rightarrow> policy_reason \<times> string" where
  \<comment> \<open>the reason and rule of the approvals that end \<open>evaluateShell\<close>\<close>
  "shell_family_approval level family =
     (if level = SE_destructive \<or>
         (level = SE_mutating \<and> family \<in> {JStr ''filesystem_primitive'', JStr ''version_control_mutating''})
      then (reason ''SHELL_MUTATION_REQUIRES_APPROVAL'' SV_high
              ''Local shell execution is not contained, and snapshots do not provide trusted automatic rollback for shell side effects, so explicit approval is required.'',
            ''shell.mutating.ask'')
      else if family = JStr ''package_manager''
      then (reason ''PACKAGE_MANAGER_REQUIRES_APPROVAL'' SV_moderate
              ''Package manager shell commands can mutate broadly and are not runtime-contained, so explicit approval is required.'',
            ''shell.package_manager.ask'')
      else if family = JStr ''build_tool''
      then (reason ''BUILD_TOOL_REQUIRES_APPROVAL'' SV_moderate
              ''Build tool shell commands can execute opaque workspace-wide side effects without containment, so explicit approval is required.'',
            ''shell.build_tool.ask'')
      else if family = JStr ''interpreter''
      then (reason ''INTERPRETER_EXECUTION_REQUIRES_APPROVAL'' SV_high
              ''Interpreter-launched shell scripts remain opaque and uncontained, so explicit approval is required.'',
            ''shell.interpreter.ask'')
      else (reason ''OPAQUE_SHELL_REQUIRES_APPROVAL'' SV_high
              ''Opaque local shell commands are not runtime-contained, so explicit approval is required before execution.'',
            ''shell.unclassified.ask''))"

definition evaluateShell :: "stamp \<Rightarrow> action_record \<Rightarrow> policy_context \<Rightarrow> policy_outcome" where
  "evaluateShell stamp action ctx =
     (let command_family = js_coalesce (facet_field action ''shell'' ''command_family'') (JStr ''unclassified'');
          triggered = confidence_triggered (cx_compiled_policy ctx) action;
          low_confidence = or_else (evaluateShellCapabilityState stamp action ctx)
            (makeShellApprovalOutcome stamp action shell_low_confidence_reason ''shell.low_confidence.ask'') in
      if ts_breadth (scope action) = SB_external then
        makeOutcome stamp action Deny
          [reason ''PATH_NOT_GOVERNED'' SV_critical
             ''Shell command targets an explicit path outside the governed workspace roots.'']
          [''shell.outside_workspace.deny''] default_trust no_recovery
      else if ''scope'' \<in> set (ts_unknowns (scope action)) then
        makeOutcome stamp action Ask
          [reason ''OPAQUE_SHELL_SCOPE_REQUIRES_APPROVAL'' SV_high
             ''Shell command scope is too opaque to verify containment, so explicit approval is required before execution.'']
          [''shell.opaque_scope.ask''] default_trust degraded_recovery
      else if side_effect action = SE_read_only then
        (if triggered then low_confidence
         else makeOutcome stamp action Allow
           [reason ''TRUSTED_READONLY_ALLOWED'' SV_low
              ''Known read-only shell commands are allowed in safe mode.'']
           [''shell.safe.read_only''] default_trust no_recovery)
      else if hasUnrecoverableExternalRisk action then
        makeOutcome stamp action Ask
          [reason ''EXTERNAL_CONSENT_BOUNDARY_REQUIRES_APPROVAL'' SV_high
             ''Shell command crosses a consent or irreversibility boundary that AgentGit cannot automatically recover today.'']
          [''shell.external_consent.ask''] default_trust degraded_recovery
      else if triggered then low_confidence
      else (case shell_family_approval (side_effect action) command_family of
              (rsn, rule) \<Rightarrow>
                or_else (evaluateShellCapabilityState stamp action ctx)
                  (makeShellApprovalOutcome stamp action rsn rule)))"

section \<open>Functions\<close>

definition draft_operations :: "jsval list" where
  "draft_operations = map JStr [''create_draft'', ''archive_draft'', ''delete_draft'', ''unarchive_draft'',
     ''update_draft'', ''restore_draft'', ''add_label'', ''remove_label'']"

definition note_operations :: "jsval list" where
  "note_operations = map JStr [''create_note'', ''archive_note'', ''unarchive_note'', ''update_note'',
     ''restore_note'', ''delete_note'']"

definition ticket_operations :: "jsval list" where
  "ticket_operations = map JStr [''create_ticket'', ''update_ticket'', ''delete_ticket'', ''restore_ticket'',
     ''close_ticket'', ''reopen_ticket'', ''add_label'', ''remove_label'', ''assign_user'', ''unassign_user'']"

definition owned_function_outcome ::
  "stamp \<Rightarrow> action_record \<Rightarrow> string \<Rightarrow> string \<Rightarrow> string \<Rightarrow> jsval \<Rightarrow> policy_outcome" where
  \<comment> \<open>drafts and notes: denied with direct credentials, else compensatable\<close>
  "owned_function_outcome stamp action deny_message allow_message rule compensator =
     (if ep_credential_mode (execution_path action) = CM_direct then
        makeDirectCredentialDenyOutcome stamp action deny_message ''credentials.direct.forbidden''
      else makeOutcome stamp action AllowWithSnapshot
        [reason ''OWNED_FUNCTION_COMPENSATABLE'' SV_moderate allow_message]
        [rule] default_trust (compensated_recovery compensator))"

definition ticket_capability_outcome ::
  "stamp \<Rightarrow> action_record \<Rightarrow> policy_context \<Rightarrow> policy_outcome option" where
  "ticket_capability_outcome stamp action ctx =
     (let ask = (\<lambda>code msg rule. Some (makeCapabilityApprovalOutcome stamp action (reason code SV_high msg)
                    rule True brokered_trust)) in
      case cx_capability_state ctx of
        None \<Rightarrow> None
      | Some state \<Rightarrow>
         (if cc_is_stale state then
            ask ''CAPABILITY_STATE_STALE''
              ''Cached ticket capability state is stale; rerun capability_refresh or approve explicitly before automatic execution.''
              ''capability.tickets.stale.ask''
          else (case findCapability (cc_capabilities state) ''adapter.tickets_brokered_credentials'' of
            None \<Rightarrow>
              ask ''CAPABILITY_STATE_INCOMPLETE''
                ''Cached capability state did not include ticket broker readiness; rerun capability_refresh or approve explicitly before automatic execution.''
                ''capability.tickets.missing.ask''
          | Some ticket \<Rightarrow>
             (if cap_status ticket \<noteq> CS_available then
                ask ''BROKERED_CAPABILITY_UNAVAILABLE''
                  (''Cached ticket broker capability is '' @ capability_status_str (cap_status ticket)
                   @ ''; rerun capability_refresh or approve explicitly before automatic execution.'')
                  ''capability.tickets.unavailable.ask''
              else None))))"

definition ticket_function_outcome ::
  "stamp \<Rightarrow> action_record \<Rightarrow> policy_context \<Rightarrow> jsval \<Rightarrow> policy_outcome" where
  "ticket_function_outcome stamp action ctx compensator =
     (if ep_credential_mode (execution_path action) \<noteq> CM_brokered then
        (let direct = (ep_credential_mode (execution_path action) = CM_direct) in
         makeOutcome stamp action Deny
           [reason (if direct then ''DIRECT_CREDENTIALS_FORBIDDEN'' else ''BROKERED_CREDENTIALS_REQUIRED'') SV_critical
              (if direct then ''Owned ticket integrations may not execute with direct credentials.''
               else ''Owned ticket integrations require brokered credentials.'')]
           [if direct then ''credentials.direct.forbidden'' else ''credentials.brokered.required'']
           brokered_trust no_recovery)
      else or_else (ticket_capability_outcome stamp action ctx)
        (makeOutcome stamp action AllowWithSnapshot
          [reason ''OWNED_FUNCTION_COMPENSATABLE'' SV_moderate
             ''Owned ticket mutation is allowed with a recovery boundary because a trusted compensator and brokered credentials exist.'']
          [''function.tickets.compensatable.requires_snapshot''] brokered_trust
          (compensated_recovery compensator)))"

definition has_recoverable_function_boundary :: "action_record \<Rightarrow> bool" where
  "has_recoverable_function_boundary action =
     (js_nonempty_string (facet_field action ''function'' ''trusted_compensator'') \<and>
      ep_credential_mode (execution_path action) \<noteq> CM_direct \<and>
      rh_reversibility_hint (risk action) \<in> {RV_reversible, RV_compensatable})"

definition evaluateFunction :: "stamp \<Rightarrow> action_record \<Rightarrow> policy_context \<Rightarrow> policy_outcome" where
  "evaluateFunction stamp action ctx =
     (let integration = js_coalesce (facet_field action ''function'' ''integration'') (JStr ''unknown'');
          operation = js_coalesce (facet_field action ''function'' ''operation'') (JStr (op_kind (operation action)));
          compensator = facet_field action ''function'' ''trusted_compensator'' in
      if integration = JStr ''drafts'' \<and> operation \<in> set draft_operations \<and> js_truthy compensator then
        owned_function_outcome stamp action
          ''Owned draft integrations may not execute with direct credentials.''
          ''Owned draft mutation is allowed with a recovery boundary because a trusted compensator exists.''
          ''function.drafts.compensatable.requires_snapshot'' compensator
      else if integration = JStr ''notes'' \<and> operation \<in> set note_operations \<and> js_truthy compensator then
        owned_function_outcome stamp action
          ''Owned note integrations may not execute with direct credentials.''
          ''Owned note mutation is allowed with a recovery boundary because a trusted compensator exists.''
          ''function.notes.compensatable.requires_snapshot'' compensator
      else if integration = JStr ''tickets'' \<and> operation \<in> set ticket_operations \<and> js_truthy compensator then
        ticket_function_outcome stamp action ctx compensator
      else if has_recoverable_function_boundary action then
        makeOutcome stamp action AllowWithSnapshot
          [reason ''FUNCTION_TRUSTED_COMPENSATABLE'' SV_moderate
             ''This function integration declared a trusted compensator, so AgentGit will create a recovery boundary and continue automatically.'']
          [''function.compensatable.requires_snapshot''] default_trust (compensated_recovery compensator)
      else if confidence_triggered (cx_compiled_policy ctx) action then
        makeOutcome stamp action Ask
          [reason ''FUNCTION_LOW_CONFIDENCE_REQUIRES_APPROVAL'' SV_high
             ''Function action confidence is below the configured automation threshold and requires approval.'']
          [''function.low_confidence.ask''] default_trust no_recovery
      else
        makeOutcome stamp action Ask
          [reason ''FUNCTION_REQUIRES_APPROVAL'' SV_high
             ''This function integration is not yet trusted for automatic execution.'']
          [''function.untrusted.ask''] default_trust degraded_recovery)"

section \<open>MCP\<close>

definition quoted :: "string \<Rightarrow> string" where
  "quoted s = CHR 0x22 # s @ [CHR 0x22]"

definition one_of :: "string list \<Rightarrow> jsval \<Rightarrow> string option" where
  \<comment> \<open>\<open>v === a || v === b ... ? v : null\<close>\<close>
  "one_of names v = (case v of JStr s \<Rightarrow> (if s \<in> set names then Some s else None) | _ \<Rightarrow> None)"

record mcp_facet =
  mf_server_id :: string
  mf_server_profile_id :: string
  mf_candidate_id :: string
  mf_tool_name :: string
  mf_execution_mode_requested :: "string option"
  mf_drift_state :: "string option"
  mf_credential_binding_mode :: "string option"
  mf_profile_status :: "string option"
  mf_allowed_execution_modes :: "string list"

definition read_mcp_facet :: "'a normalized_action_scheme \<Rightarrow> mcp_facet" where
  "read_mcp_facet action =
     (let field = facet_field action ''mcp'';
          modes = [''local_proxy'', ''hosted_delegated''] in
      \<lparr>mf_server_id = js_string_or [] (field ''server_id''),
       mf_server_profile_id = js_string_or [] (field ''server_profile_id''),
       mf_candidate_id = js_string_or [] (field ''candidate_id''),
       mf_tool_name = js_string_or [] (field ''tool_name''),
       mf_execution_mode_requested = one_of modes (field ''execution_mode_requested''),
       mf_drift_state = one_of [''clean'', ''drifted'', ''unknown''] (field ''drift_state_at_submit''),
       mf_credential_binding_mode =
         one_of [''oauth_session'', ''derived_token'', ''bearer_secret_ref'', ''session_token'',
                 ''hosted_token_exchange''] (field ''credential_binding_mode''),
       mf_profile_status =
         one_of [''draft'', ''pending_approval'', ''active'', ''quarantined'', ''revoked''] (field ''profile_status''),
       mf_allowed_execution_modes =
         (case field ''allowed_execution_modes'' of
            JArr xs \<Rightarrow> List.map_filter (one_of modes) xs | _ \<Rightarrow> [])\<rparr>)"

definition mcp_deny :: "stamp \<Rightarrow> action_record \<Rightarrow> string \<Rightarrow> string \<Rightarrow> string \<Rightarrow> policy_outcome" where
  "mcp_deny stamp action code message rule =
     makeOutcome stamp action Deny [reason code SV_high message] [rule] default_trust no_recovery"

definition mcp_profile_denial :: "mcp_facet \<Rightarrow> (string \<times> string \<times> string) option" where
  \<comment> \<open>code, message and rule of the denials that depend on the facet alone, in their order\<close>
  "mcp_profile_denial f =
     (let profile = quoted (if mf_server_profile_id f \<noteq> [] then mf_server_profile_id f else mf_server_id f) in
      if mf_candidate_id f \<noteq> [] \<and> mf_server_profile_id f = [] then
        Some (''MCP_CANDIDATE_NOT_EXECUTABLE'',
          ''Raw MCP candidates are not executable until they are resolved into an active profile.'',
          ''mcp.candidate.execution.deny'')
      else if mf_profile_status f \<notin> {None, Some ''active''} then
        Some (if mf_profile_status f = Some ''quarantined'' then ''MCP_PROFILE_QUARANTINED''
              else if mf_profile_status f = Some ''revoked'' then ''MCP_PROFILE_REAPPROVAL_REQUIRED''
              else ''MCP_PROFILE_NOT_ACTIVE'',
          ''MCP profile '' @ profile @
            (if mf_profile_status f = Some ''quarantined'' then '' is quarantined and must be re-reviewed before execution.''
             else if mf_profile_status f = Some ''revoked'' then '' has been revoked and must be explicitly re-approved before execution.''
             else '' is not active for governed execution.''),
          if mf_profile_status f = Some ''quarantined'' then ''mcp.profile.quarantined.deny''
          else ''mcp.profile.inactive.deny'')
      else if mf_drift_state f = Some ''drifted'' then
        Some (''MCP_REMOTE_IDENTITY_CHANGED'',
          ''MCP profile '' @ profile @ '' has unresolved material drift and cannot execute until it is re-resolved.'',
          ''mcp.profile.drifted.deny'')
      else if (case mf_execution_mode_requested f of
                 None \<Rightarrow> False
               | Some m \<Rightarrow> mf_allowed_execution_modes f \<noteq> [] \<and> m \<notin> set (mf_allowed_execution_modes f)) then
        Some (''MCP_PROFILE_NOT_ACTIVE'',
          ''MCP profile '' @ profile @ '' is not approved for ''
            @ (case mf_execution_mode_requested f of None \<Rightarrow> [] | Some m \<Rightarrow> m) @ '' execution.'',
          ''mcp.execution_mode.disallowed.deny'')
      else if mf_execution_mode_requested f = Some ''hosted_delegated'' \<and>
              mf_credential_binding_mode f = Some ''session_token'' then
        Some (''MCP_AUTH_BINDING_MISSING'',
          ''Hosted delegated MCP execution requires a lease-safe credential binding; session_token bindings are degraded and local-only.'',
          ''mcp.hosted.session_token.deny'')
      else None)"

definition mcp_tool_outcome :: "stamp \<Rightarrow> action_record \<Rightarrow> mcp_tool_policy \<Rightarrow> policy_outcome" where
  "mcp_tool_outcome stamp action tool =
     (let read_only = (mt_side_effect_level tool = SE_read_only) in
      if read_only \<and> mt_approval_mode tool \<noteq> Some AM_ask then
        makeOutcome stamp action Allow
          [reason ''MCP_TOOL_TRUSTED_READ_ONLY'' SV_low
             ''This MCP tool is explicitly registered as read-only and trusted for automatic execution.'']
          [''mcp.tool.read_only.allow''] default_trust no_recovery
      else
        makeOutcome stamp action Ask
          [reason ''MCP_TOOL_APPROVAL_REQUIRED'' SV_moderate
             (if read_only
              then ''This MCP tool is registered as read-only, but operator policy requires explicit approval.''
              else ''Mutating MCP tools require explicit approval in the governed runtime.'')]
          [if read_only then ''mcp.tool.read_only.ask'' else ''mcp.tool.mutating.ask''] default_trust no_recovery)"

definition evaluateMcp :: "stamp \<Rightarrow> action_record \<Rightarrow> policy_context \<Rightarrow> policy_outcome" where
  "evaluateMcp stamp action ctx =
     (let f = read_mcp_facet action in
      if ep_credential_mode (execution_path action) = CM_direct then
        makeDirectCredentialDenyOutcome stamp action
          ''Governed MCP proxy execution does not accept direct client-provided credentials.''
          ''mcp.direct_credentials.deny''
      else (case mcp_profile_denial f of
        Some (code, message, rule) \<Rightarrow> mcp_deny stamp action code message rule
      | None \<Rightarrow>
         (case cx_mcp_servers ctx of
            None \<Rightarrow> mcp_deny stamp action ''CAPABILITY_UNAVAILABLE''
              ''No trusted MCP server registry is configured for governed MCP execution.'' ''mcp.registry.missing.deny''
          | Some servers \<Rightarrow>
             (if servers = [] then mcp_deny stamp action ''CAPABILITY_UNAVAILABLE''
                ''No trusted MCP server registry is configured for governed MCP execution.'' ''mcp.registry.missing.deny''
              else (case find (\<lambda>s. ms_server_id s = mf_server_id f) servers of
                None \<Rightarrow> mcp_deny stamp action ''CAPABILITY_UNAVAILABLE''
                  (''MCP server '' @ quoted (mf_server_id f) @ '' is not registered for governed execution.'')
                  ''mcp.server.unregistered.deny''
              | Some server \<Rightarrow>
                 (case find (\<lambda>t. mt_tool_name t = mf_tool_name f) (ms_tools server) of
                    None \<Rightarrow> mcp_deny stamp action ''CAPABILITY_UNAVAILABLE''
                      (''MCP tool '' @ quoted (mf_tool_name f) @ '' is not registered for governed execution on server ''
                       @ quoted (mf_server_id f) @ ''.'')
                      ''mcp.tool.unregistered.deny''
                  | Some tool \<Rightarrow> mcp_tool_outcome stamp action tool))))))"

section \<open>Evaluation\<close>

record eval_stamps =
  es_overlay :: stamp
  es_base :: stamp
  es_error :: stamp

definition evaluate_domain ::
  "string \<Rightarrow> stamp \<Rightarrow> action_record \<Rightarrow> policy_context \<Rightarrow> policy_outcome" where
  "evaluate_domain cwd stamp action ctx =
     (if domain_of action = ''filesystem'' then evaluateFilesystem cwd stamp action ctx
      else if domain_of action = ''shell'' then evaluateShell stamp action ctx
      else if domain_of action = ''mcp'' then evaluateMcp stamp action ctx
      else if domain_of action = ''function'' then evaluateFunction stamp action ctx
      else makeOutcome stamp action Deny
        [reason ''POLICY_DOMAIN_UNSUPPORTED'' SV_high
           ''No policy evaluator exists for this action domain; automatic execution is denied.'']
        [''policy.domain.unsupported''] default_trust no_recovery)"

text \<open>The only exception the evaluation can raise is the one of a predicate's regular
  expression; it is wrapped in an \<open>InternalError\<close> and denied.\<close>

definition policy_error_outcome :: "stamp \<Rightarrow> action_record \<Rightarrow> policy_outcome" where
  "policy_error_outcome stamp action =
     makeOutcome stamp action Deny
       [reason ''POLICY_EVALUATION_ERROR'' SV_critical ''Policy evaluation failed.'']
       [''policy.evaluation.error''] default_trust no_recovery"

definition evaluatePolicy ::
  "regex_engine \<Rightarrow> string \<Rightarrow> eval_stamps \<Rightarrow> action_record \<Rightarrow> policy_context \<Rightarrow> policy_outcome" where
  "evaluatePolicy rx cwd stamps action ctx =
     (case evaluateCompiledPolicy rx (es_overlay stamps) action (compiled_or_default (cx_compiled_policy ctx)) of
        None \<Rightarrow> policy_error_outcome (es_error stamps) action
      | Some overlay \<Rightarrow>
          withBudgetEffects action
            (enforceShellApprovalGuardrail action
              (applyPolicyOverlay (evaluate_domain cwd (es_base stamps) action ctx) overlay))
            (cx_run_summary ctx))"

end
