(* ===== verification/Samples.thy ===== *)
theory Samples
  imports Policy_Eval
begin

text \<open>
  Concrete inputs on which the theorems with hypotheses are instantiated: actions of each domain
  as the normalizer makes them, capability states, budgets and rules.
\<close>

definition sample_confidence :: "rat \<Rightarrow> confidence_assessment" where
  "sample_confidence s = \<lparr>ca_engine_version = ''confidence.v1'', ca_score = s, ca_band = CB_guarded,
     ca_requires_human_review = False, ca_factors = []\<rparr>"

definition sample_action ::
  "string \<Rightarrow> string \<Rightarrow> side_effect_level \<Rightarrow> string \<Rightarrow> (string \<times> jsval) list \<Rightarrow> action_record" where
  "sample_action domain kind level locator fs =
     \<lparr>action_id = ''act_1'', run_id = ''run_1'', session_id = ''sess_1'',
      requested_at = ''2026-04-01T00:00:00.000Z'', normalized_at = ''2026-04-01T00:00:01.000Z'',
      provenance = \<lparr>pv_mode = PM_governed, pv_source = ''authority-daemon'', pv_confidence = 1\<rparr>,
      actor = \<lparr>ac_type = AT_agent, ac_agent_name = None, ac_agent_framework = None,
               ac_tool_name = ''tool'', ac_tool_kind = domain\<rparr>,
      operation = \<lparr>op_domain = domain, op_kind = kind, op_name = domain @ ''.'' @ kind, op_display_name = None\<rparr>,
      execution_path = \<lparr>ep_surface = SF_governed_fs, ep_mode = EM_pre_execution, ep_credential_mode = CM_none\<rparr>,
      primary_target = \<lparr>tp_type = ''path'', tp_locator = locator, tp_label = None\<rparr>,
      scope = \<lparr>ts_breadth = SB_single, ts_estimated_count = Some 1, ts_unknowns = []\<rparr>,
      action_input = \<lparr>in_raw = [], in_redacted = [], in_schema_ref = None, in_contains_sensitive_data = False\<rparr>,
      risk = \<lparr>rh_side_effect_level = level, rh_external_effects = EE_none,
              rh_reversibility_hint = RV_potentially_reversible, rh_sensitivity_hint = SN_moderate, rh_batch = False\<rparr>,
      facets = fs,
      normalization = \<lparr>nm_mapper = ''test'', nm_inferred_fields = [], nm_warnings = [], nm_confidence = 1\<rparr>,
      confidence = sample_confidence (9 / 10)\<rparr>"

definition sample_stamps :: eval_stamps where
  "sample_stamps = \<lparr>es_overlay = (''pol_1'', ''t1''), es_base = (''pol_2'', ''t2''), es_error = (''pol_3'', ''t3'')\<rparr>"

definition sample_write :: "string \<Rightarrow> action_record" where
  "sample_write locator = sample_action ''filesystem'' ''write'' SE_mutating locator
     [(''filesystem'', JObj [(''operation'', JStr ''write''), (''byte_length'', JNum 12)])]"

definition sample_shell :: "side_effect_level \<Rightarrow> string \<Rightarrow> action_record" where
  "sample_shell level family = sample_action ''shell'' ''exec'' level ''/ws''
     [(''shell'', JObj [(''command_family'', JStr family)])]"

definition sample_budget :: "int \<Rightarrow> int \<Rightarrow> run_budget" where
  "sample_budget limit used =
     \<lparr>rb_config = \<lparr>max_mutating_actions = Some limit, max_destructive_actions = None\<rparr>,
      rb_usage = \<lparr>mutating_actions = used, destructive_actions = 0\<rparr>\<rparr>"

definition sample_rule :: "string \<Rightarrow> rule_decision \<Rightarrow> enforcement_mode \<Rightarrow> int \<Rightarrow> policy_predicate \<Rightarrow> policy_rule" where
  "sample_rule name d m p match =
     \<lparr>ru_id = name, ru_description = ''d'', ru_rationale = ''r'', ru_references = [],
      ru_binding_scope = BS_workspace, ru_decision = d, ru_enforcement_mode = m, ru_priority = p,
      ru_match = match, ru_reason = reason ''CODE'' SV_high ''message''\<rparr>"

definition sample_config :: "policy_rule list \<Rightarrow> policy_config" where
  "sample_config rules =
     \<lparr>cfg_profile_name = ''workspace'', cfg_policy_version = ''1'', cfg_thresholds = [], cfg_rules = rules\<rparr>"

lemmas sample_defs =
  sample_action_def sample_write_def sample_shell_def sample_budget_def sample_rule_def
  sample_config_def sample_confidence_def sample_stamps_def empty_context_def

end
