(* ===== verification/Policy_Theorems.thy ===== *)
theory Policy_Theorems
  imports Policy_Eval Samples
begin

text \<open>
  What the policy engine promises: every outcome is internally consistent, exceptions and
  exhausted budgets deny, shell actions are never executed automatically unless they only read,
  the compiled rules can only strengthen a decision, and the domain evaluators keep their gates.
\<close>

section \<open>Evaluators give consistent outcomes\<close>

lemma or_else_ok: "(\<And>x. v = Some x \<Longrightarrow> P x) \<Longrightarrow> P y \<Longrightarrow> P (or_else v y)"
  by (cases v) auto

lemma fs_capability_ask:
  "evaluateFilesystemCapabilityState cwd s a ctx b = Some x \<Longrightarrow>
     po_decision x = Ask \<and> outcome_ok x \<and> po_action_id x = action_id a \<and> snapshot_required x = b"
  by (auto simp: evaluateFilesystemCapabilityState_def Let_def split: option.splits if_splits)

lemma shell_capability_ask:
  "evaluateShellCapabilityState s a ctx = Some x \<Longrightarrow>
     po_decision x = Ask \<and> outcome_ok x \<and> po_action_id x = action_id a \<and> snapshot_required x"
  by (auto simp: evaluateShellCapabilityState_def Let_def split: option.splits if_splits)

lemma ticket_capability_ask:
  "ticket_capability_outcome s a ctx = Some x \<Longrightarrow>
     po_decision x = Ask \<and> outcome_ok x \<and> po_action_id x = action_id a \<and> snapshot_required x"
  by (auto simp: ticket_capability_outcome_def Let_def split: option.splits if_splits)

definition outcome_for :: "action_record \<Rightarrow> policy_outcome \<Rightarrow> bool" where
  "outcome_for a x = (outcome_ok x \<and> po_action_id x = action_id a)"

lemma outcome_for_simps [simp]:
  "outcome_for a (makeOutcome s a d rs ms t r)"
  "outcome_for a (makeCapabilityApprovalOutcome s a rsn m b t)"
  "outcome_for a (makeDirectCredentialDenyOutcome s a msg m)"
  "outcome_for a (makeAutomaticSnapshotOutcome s a rsn m t r)"
  "outcome_for a (makeShellApprovalOutcome s a rsn m)"
  "outcome_for a (mcp_deny s a c msg m)"
  by (simp_all add: outcome_for_def makeShellApprovalOutcome_def mcp_deny_def)

lemma outcome_for_if: "outcome_for a x \<Longrightarrow> outcome_for a y \<Longrightarrow> outcome_for a (if b then x else y)"
  by simp

lemma outcome_for_or_else:
  "(\<And>x. v = Some x \<Longrightarrow> outcome_for a x) \<Longrightarrow> outcome_for a y \<Longrightarrow> outcome_for a (or_else v y)"
  by (cases v) auto

lemma fs_capability_for: "evaluateFilesystemCapabilityState cwd s a ctx b = Some x \<Longrightarrow> outcome_for a x"
  by (simp add: outcome_for_def fs_capability_ask)

lemma shell_capability_for: "evaluateShellCapabilityState s a ctx = Some x \<Longrightarrow> outcome_for a x"
  by (simp add: outcome_for_def shell_capability_ask)

lemma ticket_capability_for: "ticket_capability_outcome s a ctx = Some x \<Longrightarrow> outcome_for a x"
  by (simp add: outcome_for_def ticket_capability_ask)

lemmas outcome_for_intros =
  outcome_for_if outcome_for_or_else outcome_for_simps fs_capability_for shell_capability_for
  ticket_capability_for

lemma evaluateFilesystem_for: "outcome_for a (evaluateFilesystem cwd s a ctx)"
  unfolding evaluateFilesystem_def Let_def by (intro outcome_for_intros)

lemma evaluateShell_for: "outcome_for a (evaluateShell s a ctx)"
  unfolding evaluateShell_def Let_def case_prod_beta by (intro outcome_for_intros)

lemma ticket_function_for: "outcome_for a (ticket_function_outcome s a ctx c)"
  unfolding ticket_function_outcome_def Let_def by (intro outcome_for_intros)

lemma owned_function_for: "outcome_for a (owned_function_outcome s a m n r c)"
  unfolding owned_function_outcome_def by (intro outcome_for_intros)

lemma evaluateFunction_for: "outcome_for a (evaluateFunction s a ctx)"
  unfolding evaluateFunction_def Let_def
  by (intro outcome_for_intros ticket_function_for owned_function_for)

lemma mcp_tool_for: "outcome_for a (mcp_tool_outcome s a t)"
  unfolding mcp_tool_outcome_def Let_def by (intro outcome_for_intros)

lemma evaluateMcp_for: "outcome_for a (evaluateMcp s a ctx)"
  unfolding evaluateMcp_def Let_def
  by (rule outcome_for_if, rule outcome_for_simps)
    (simp add: mcp_tool_for split: option.split prod.split)

lemma evaluate_domain_for: "outcome_for a (evaluate_domain cwd s a ctx)"
  unfolding evaluate_domain_def
  by (intro outcome_for_intros evaluateFilesystem_for evaluateShell_for evaluateFunction_for
      evaluateMcp_for)

lemma evaluateCompiledPolicy_for:
  "evaluateCompiledPolicy rx s a p = Some (Some x) \<Longrightarrow> outcome_for a x"
  by (auto simp: evaluateCompiledPolicy_def split: if_splits option.splits)

lemma overlay_action: "po_action_id b = i \<Longrightarrow> (\<And>x. v = Some x \<Longrightarrow> po_action_id x = i) \<Longrightarrow>
    po_action_id (applyPolicyOverlay b v) = i"
  by (cases v) (auto simp: applyPolicyOverlay_def)

lemma guardrail_action: "po_action_id (enforceShellApprovalGuardrail a x) = po_action_id x"
  by (simp add: enforceShellApprovalGuardrail_def)

lemma budget_action:
  "(case mutating_budget run x of Inl d \<Rightarrow> po_action_id d | Inr z \<Rightarrow> po_action_id z) = po_action_id x"
  "(case destructive_budget run x of Inl d \<Rightarrow> po_action_id d | Inr z \<Rightarrow> po_action_id z) = po_action_id x"
  by (auto simp: mutating_budget_def destructive_budget_def budget_hard_limit_def budget_soft_limit_def
      Let_def split: option.splits)

lemma budget_ok:
  "outcome_ok x \<Longrightarrow> mutating_budget run x = Inl d \<Longrightarrow> outcome_ok d"
  "outcome_ok x \<Longrightarrow> mutating_budget run x = Inr z \<Longrightarrow> outcome_ok z"
  "outcome_ok x \<Longrightarrow> destructive_budget run x = Inl d \<Longrightarrow> outcome_ok d"
  "outcome_ok x \<Longrightarrow> destructive_budget run x = Inr z \<Longrightarrow> outcome_ok z"
  by (auto elim!: mutating_budget_cases destructive_budget_cases simp: outcome_ok_def)

lemma recompute_ok: "outcome_ok x \<Longrightarrow> outcome_ok (recompute_preconditions x)"
  by (auto simp: recompute_preconditions_def outcome_ok_def)

lemma withBudgetEffects_for: "outcome_for a x \<Longrightarrow> outcome_for a (withBudgetEffects a x run)"
proof -
  assume x: "outcome_for a x"
  have m: "outcome_for a d" if "mutating_budget r y = Inl d \<or> mutating_budget r y = Inr d"
    "outcome_for a y" for r y d
    using that budget_ok(1,2) [of y r d] budget_action(1) [of r y] by (auto simp: outcome_for_def)
  have d: "outcome_for a d" if "destructive_budget r y = Inl d \<or> destructive_budget r y = Inr d"
    "outcome_for a y" for r y d
    using that budget_ok(3,4) [of y r d] budget_action(2) [of r y] by (auto simp: outcome_for_def)
  have r: "outcome_for a (recompute_preconditions y)" if "outcome_for a y" for y
    using that recompute_ok by (auto simp: outcome_for_def recompute_preconditions_def)
  show ?thesis unfolding withBudgetEffects_def
    using x by (auto split: option.splits sum.splits if_splits intro: m d r)
qed

lemma evaluatePolicy_for: "outcome_for a (evaluatePolicy rx cwd st a ctx)"
proof (cases "evaluateCompiledPolicy rx (es_overlay st) a (compiled_or_default (cx_compiled_policy ctx))")
  case None
  then show ?thesis by (simp add: evaluatePolicy_def policy_error_outcome_def)
next
  case (Some v)
  let ?b = "evaluate_domain cwd (es_base st) a ctx"
  have v: "outcome_for a x" if "v = Some x" for x using Some that evaluateCompiledPolicy_for by blast
  have "outcome_for a (applyPolicyOverlay ?b v)"
    unfolding outcome_for_def
    using overlay_ok [of ?b v] overlay_action [of ?b "action_id a" v] v evaluate_domain_for [of a]
    by (auto simp: outcome_for_def)
  then have "outcome_for a (enforceShellApprovalGuardrail a (applyPolicyOverlay ?b v))"
    by (simp add: outcome_for_def guardrail_ok guardrail_action)
  with Some show ?thesis by (simp add: evaluatePolicy_def withBudgetEffects_for)
qed

section \<open>Decisions through budgets and guardrail\<close>

definition budget_exhausted :: "'a normalized_action_scheme \<Rightarrow> run_budget \<Rightarrow> bool" where
  "budget_exhausted a run =
     ((mutating_relevant a \<and>
        (case max_mutating_actions (rb_config run) of None \<Rightarrow> False
         | Some m \<Rightarrow> m \<le> mutating_actions (rb_usage run))) \<or>
      (destructive_relevant a \<and>
        (case max_destructive_actions (rb_config run) of None \<Rightarrow> False
         | Some m \<Rightarrow> m \<le> destructive_actions (rb_usage run))))"

lemma mutating_budget_decision:
  "case mutating_budget run x of
     Inl d \<Rightarrow> po_decision d = Deny \<and> (\<exists>m. max_mutating_actions (rb_config run) = Some m \<and> m \<le> mutating_actions (rb_usage run))
   | Inr z \<Rightarrow> po_decision z = po_decision x \<and> (\<forall>m. max_mutating_actions (rb_config run) = Some m \<longrightarrow> mutating_actions (rb_usage run) < m)"
  by (auto simp: mutating_budget_def Let_def budget_hard_limit_def budget_soft_limit_def split: option.splits)

lemma destructive_budget_decision:
  "case destructive_budget run x of
     Inl d \<Rightarrow> po_decision d = Deny \<and> (\<exists>m. max_destructive_actions (rb_config run) = Some m \<and> m \<le> destructive_actions (rb_usage run))
   | Inr z \<Rightarrow> po_decision z = po_decision x \<and> (\<forall>m. max_destructive_actions (rb_config run) = Some m \<longrightarrow> destructive_actions (rb_usage run) < m)"
  by (auto simp: destructive_budget_def Let_def budget_hard_limit_def budget_soft_limit_def split: option.splits)

lemma recompute_decision [simp]: "po_decision (recompute_preconditions x) = po_decision x"
  by (simp add: recompute_preconditions_def)

lemma withBudgetEffects_decision:
  "po_decision (withBudgetEffects a x (Some run)) = (if budget_exhausted a run then Deny else po_decision x)"
proof (cases "mutating_relevant a")
  case True
  show ?thesis
  proof (cases "mutating_budget run x")
    case (Inl d)
    with True mutating_budget_decision [of run x] show ?thesis
      by (auto simp: withBudgetEffects_def budget_exhausted_def)
  next
    case (Inr z)
    with True mutating_budget_decision [of run x] destructive_budget_decision [of run z] show ?thesis
      by (cases "destructive_budget run z")
        (auto simp: withBudgetEffects_def budget_exhausted_def split: option.splits)
  qed
next
  case False
  then have "\<not> destructive_relevant a" by (simp add: mutating_relevant_def destructive_relevant_def)
  with False show ?thesis by (simp add: withBudgetEffects_def budget_exhausted_def)
qed

lemma withBudgetEffects_None [simp]: "withBudgetEffects a x None = x"
  by (simp add: withBudgetEffects_def)

lemma withBudgetEffects_deny_or_same:
  "po_decision (withBudgetEffects a x run) \<in> {Deny, po_decision x}"
  by (cases run) (simp_all add: withBudgetEffects_decision)

lemma guardrail_strength:
  "POLICY_DECISION_STRENGTH (po_decision x)
     \<le> POLICY_DECISION_STRENGTH (po_decision (enforceShellApprovalGuardrail a x))"
  by (cases "po_decision x") (simp_all add: enforceShellApprovalGuardrail_def)

lemma budget_strength:
  "POLICY_DECISION_STRENGTH (po_decision x) \<le> POLICY_DECISION_STRENGTH (po_decision (withBudgetEffects a x run))"
  using withBudgetEffects_deny_or_same [of a x run] strength_bounds(2) [of "po_decision x"] by auto

lemma evaluatePolicy_Some:
  "evaluateCompiledPolicy rx (es_overlay st) a (compiled_or_default (cx_compiled_policy ctx)) = Some v \<Longrightarrow>
     evaluatePolicy rx cwd st a ctx =
       withBudgetEffects a (enforceShellApprovalGuardrail a
         (applyPolicyOverlay (evaluate_domain cwd (es_base st) a ctx) v)) (cx_run_summary ctx)"
  by (simp add: evaluatePolicy_def)

lemma evaluatePolicy_None:
  "evaluateCompiledPolicy rx (es_overlay st) a (compiled_or_default (cx_compiled_policy ctx)) = None \<Longrightarrow>
     evaluatePolicy rx cwd st a ctx = policy_error_outcome (es_error st) a"
  by (simp add: evaluatePolicy_def)

lemma policy_error_deny [simp]: "po_decision (policy_error_outcome s a) = Deny"
  by (simp add: policy_error_outcome_def)

section \<open>Every outcome is consistent\<close>

text \<open>C11: \<open>evaluatePolicy\<close> answers for the action it was asked about, and on every path, the
  error path and an exhausted budget included, its outcome requires approval exactly when it asks,
  requires a snapshot whenever it allows with one, and never requires one it could not use.\<close>

theorem evaluatePolicy_consistent:
  "po_action_id (evaluatePolicy rx cwd st a ctx) = action_id a \<and>
   outcome_ok (evaluatePolicy rx cwd st a ctx)"
  using evaluatePolicy_for [of a rx cwd st ctx] by (simp add: outcome_for_def)

section \<open>Shell containment\<close>

text \<open>C6: whatever rules are configured, a shell action is denied, asked about, or allowed; it is
  allowed only when its side effects are classified read-only, and it is never executed
  automatically behind a snapshot.\<close>

theorem evaluatePolicy_shell_containment:
  assumes "domain_of a = ''shell''"
  shows "po_decision (evaluatePolicy rx cwd st a ctx) \<in> {Deny, Ask} \<or>
         (po_decision (evaluatePolicy rx cwd st a ctx) = Allow \<and> side_effect a = SE_read_only)"
proof (cases "evaluateCompiledPolicy rx (es_overlay st) a (compiled_or_default (cx_compiled_policy ctx))")
  case None
  then show ?thesis by (simp add: evaluatePolicy_None)
next
  case (Some v)
  let ?x = "enforceShellApprovalGuardrail a (applyPolicyOverlay (evaluate_domain cwd (es_base st) a ctx) v)"
  show ?thesis
    using guardrail_shell [OF assms, of "applyPolicyOverlay (evaluate_domain cwd (es_base st) a ctx) v"]
      withBudgetEffects_deny_or_same [of a ?x "cx_run_summary ctx"]
    by (auto simp: evaluatePolicy_Some [OF Some])
qed

theorem evaluatePolicy_shell_containment_witness:
  "po_decision (evaluatePolicy js_regex_test ''/ws'' sample_stamps (sample_shell SE_mutating ''unclassified'') empty_context)
     \<in> {Deny, Ask}"
  using evaluatePolicy_shell_containment [of "sample_shell SE_mutating ''unclassified''" js_regex_test
      "''/ws''" sample_stamps empty_context]
  by (simp add: sample_shell_def sample_action_def)

section \<open>Rules only strengthen\<close>

text \<open>C9: the outcome of the configured rules is overlaid on the one of the domain evaluator so
  that the final decision is never weaker than either; for a domain without guardrail and a
  run without budget it is exactly the stronger of the two.\<close>

theorem evaluatePolicy_overlay_strength:
  assumes "evaluateCompiledPolicy rx (es_overlay st) a (compiled_or_default (cx_compiled_policy ctx)) = Some (Some x)"
  shows "max (POLICY_DECISION_STRENGTH (po_decision (evaluate_domain cwd (es_base st) a ctx)))
             (POLICY_DECISION_STRENGTH (po_decision x))
           \<le> POLICY_DECISION_STRENGTH (po_decision (evaluatePolicy rx cwd st a ctx)) \<and>
         (domain_of a \<noteq> ''shell'' \<and> cx_run_summary ctx = None \<longrightarrow>
           POLICY_DECISION_STRENGTH (po_decision (evaluatePolicy rx cwd st a ctx)) =
             max (POLICY_DECISION_STRENGTH (po_decision (evaluate_domain cwd (es_base st) a ctx)))
                 (POLICY_DECISION_STRENGTH (po_decision x)))"
proof -
  let ?b = "evaluate_domain cwd (es_base st) a ctx"
  have "POLICY_DECISION_STRENGTH (po_decision (applyPolicyOverlay ?b (Some x)))
          \<le> POLICY_DECISION_STRENGTH (po_decision (evaluatePolicy rx cwd st a ctx))"
    unfolding evaluatePolicy_Some [OF assms] by (rule order_trans [OF guardrail_strength budget_strength])
  then show ?thesis by (simp add: overlay_strength evaluatePolicy_Some [OF assms])
qed

text \<open>The overlay theorem on a small write to a secret path: the domain evaluator allows, the built-in
  pack denies.\<close>

lemma secret_write_overlay:
  "evaluateCompiledPolicy js_regex_test (''pol_1'', ''t1'') (sample_write ''/ws/.env'') DEFAULT_COMPILED_POLICY_PACK =
     Some (Some (makeOutcome (''pol_1'', ''t1'') (sample_write ''/ws/.env'') Deny [ru_reason secret_paths_rule]
       [''policy.config.platform.secret-paths.deny''] default_trust no_recovery))"
  by code_simp

theorem evaluatePolicy_overlay_strength_witness:
  "4 \<le> POLICY_DECISION_STRENGTH (po_decision
         (evaluatePolicy js_regex_test ''/ws'' sample_stamps (sample_write ''/ws/.env'') empty_context))"
  using evaluatePolicy_overlay_strength [of js_regex_test sample_stamps "sample_write ''/ws/.env''" empty_context
      _ "''/ws''"] secret_write_overlay
  by (simp add: sample_stamps_def empty_context_def compiled_or_default_def)

section \<open>Failing closed\<close>

lemma filter_throwing_None:
  "filter_throwing p xs = None \<longleftrightarrow> (\<exists>x \<in> set xs. p x = None)"
  by (induction xs) (auto split: option.splits)

lemma filter_throwing_Some:
  "filter_throwing p xs = Some ys \<Longrightarrow> ys = filter (\<lambda>x. p x = Some True) xs"
  by (induction xs arbitrary: ys) (auto split: option.splits if_splits)

text \<open>C8: if the regular expression of any rule in force throws on the action, the evaluation does
  not fall through to the domain evaluator: the action is denied with
  \<open>POLICY_EVALUATION_ERROR\<close>, whatever the other rules, the domain and the budget say.\<close>

theorem evaluatePolicy_fails_closed:
  assumes "c \<in> set (pk_rules (compiled_or_default (cx_compiled_policy ctx)))"
    and "enforcementModeStrengthensDecision (cr_rule c) \<noteq> None"
    and "matchesPolicyPredicate rx (ru_match (cr_rule c)) (action_json a) = None"
  shows "po_decision (evaluatePolicy rx cwd st a ctx) = Deny \<and>
         map pr_code (po_reasons (evaluatePolicy rx cwd st a ctx)) = [''POLICY_EVALUATION_ERROR'']"
proof -
  let ?p = "compiled_or_default (cx_compiled_policy ctx)"
  have "matching_rules rx a ?p = None"
    unfolding matching_rules_def filter_throwing_None using assms by auto
  moreover have "pk_rules ?p \<noteq> []" using assms(1) by auto
  ultimately have "evaluateCompiledPolicy rx (es_overlay st) a ?p = None"
    by (simp add: evaluateCompiledPolicy_def)
  then show ?thesis by (simp add: evaluatePolicy_None policy_error_outcome_def)
qed

text \<open>A pack whose pattern does not parse; it is put together without \<open>compilePolicyPack\<close>, which
  would refuse it.\<close>

definition broken_pack :: compiled_pack where
  "broken_pack = build_pack [sample_config
     [sample_rule ''broken'' RAllow EM_enforce 1 (PField ''operation.domain'' OpMatches (JStr ''(''))]]"

theorem evaluatePolicy_fails_closed_witness:
  "po_decision (evaluatePolicy js_regex_test ''/ws'' sample_stamps (sample_write ''/ws/a'')
     (empty_context\<lparr>cx_compiled_policy := Some broken_pack\<rparr>)) = Deny"
proof -
  have "hd (pk_rules broken_pack) \<in> set (pk_rules broken_pack)"
    "enforcementModeStrengthensDecision (cr_rule (hd (pk_rules broken_pack))) \<noteq> None" by code_simp+
  moreover have "matchesPolicyPredicate js_regex_test (ru_match (cr_rule (hd (pk_rules broken_pack))))
      (action_json (sample_write ''/ws/a'')) = None" by code_simp
  ultimately show ?thesis
    using evaluatePolicy_fails_closed [of "hd (pk_rules broken_pack)"
        "empty_context\<lparr>cx_compiled_policy := Some broken_pack\<rparr>" js_regex_test "sample_write ''/ws/a''"
        "''/ws''" sample_stamps]
    by (simp add: compiled_or_default_def)
qed

text \<open>For a pack the compiler accepted the error path is dead: the schema has tried every pattern.\<close>

fun patterns_of :: "policy_predicate \<Rightarrow> string list" where
  "patterns_of (PField f op v) = (case (op, v) of (OpMatches, JStr p) \<Rightarrow> [p] | _ \<Rightarrow> [])"
| "patterns_of (PAll cs) = concat (map patterns_of cs)"
| "patterns_of (PAny cs) = concat (map patterns_of cs)"
| "patterns_of (PNot c) = patterns_of c"

lemma matches_total:
  "\<forall>p \<in> set (patterns_of q). \<forall>s. rx p s \<noteq> None \<Longrightarrow> matchesPolicyPredicate rx q j \<noteq> None"
  and every_total: "\<forall>c \<in> set qs. \<forall>p \<in> set (patterns_of c). \<forall>s. rx p s \<noteq> None \<Longrightarrow> matches_every rx qs j \<noteq> None"
  and some_total: "\<forall>c \<in> set qs. \<forall>p \<in> set (patterns_of c). \<forall>s. rx p s \<noteq> None \<Longrightarrow> matches_some rx qs j \<noteq> None"
proof (induction rx q j and rx qs j and rx qs j
    rule: matchesPolicyPredicate_matches_every_matches_some.induct)
  case (1 rx f op v j)
  then show ?case
    by (auto simp: evaluateFieldPredicate_def Let_def split: predicate_operator.splits jsval.splits)
next
  case (6 rx c cs j)
  then show ?case by (auto split: option.splits)
next
  case (8 rx c cs j)
  then show ?case by (auto split: option.splits)
qed auto

lemma predicate_ok_patterns:
  "predicate_ok rx q \<Longrightarrow> p \<in> set (patterns_of q) \<Longrightarrow> rx p [] \<noteq> None"
proof (induction q)
  case (PField f op v)
  then show ?case
    by (auto simp: field_predicate_ok_def validatePolicyRegexPattern_def
        split: predicate_operator.splits jsval.splits if_splits)
qed (auto simp: list_all_iff)

lemma compiled_rule_ok:
  assumes "list_all (config_ok rx) configs" and "c \<in> set (pk_rules (build_pack configs))"
  shows "predicate_ok rx (ru_match (cr_rule c))"
proof -
  from assms(2) obtain i cfg where cfg: "(i, cfg) \<in> set (zip [0..<length configs] configs)"
    and c: "c \<in> set (compile_rules i cfg)"
    by (auto simp: build_pack_def)
  from cfg have "cfg \<in> set configs" by (rule set_zip_rightD)
  moreover from c have "cr_rule c \<in> set (cfg_rules cfg)"
    by (auto simp: compile_rules_def dest: set_zip_rightD)
  ultimately show ?thesis using assms(1) by (auto simp: list_all_iff config_ok_def rule_ok_def)
qed

lemma build_pack_rules: "cr_rule ` set (pk_rules (build_pack configs)) = (\<Union>c \<in> set configs. set (cfg_rules c))"
proof -
  have rules: "cr_rule ` set (compile_rules i cfg) = set (cfg_rules cfg)" for i cfg
  proof -
    have "map cr_rule (compile_rules i cfg) = cfg_rules cfg" by (rule nth_equalityI) (simp_all add: compile_rules_def)
    then show ?thesis by (metis list.set_map)
  qed
  have "cr_rule ` set (pk_rules (build_pack configs)) =
      (\<Union>ic \<in> set (zip [0..<length configs] configs). cr_rule ` set (compile_rules (fst ic) (snd ic)))"
    by (simp add: build_pack_def case_prod_beta' image_UN)
  also have "\<dots> = (\<Union>c \<in> snd ` set (zip [0..<length configs] configs). set (cfg_rules c))" unfolding rules by simp
  also have "snd ` set (zip [0..<length configs] configs) = set configs" unfolding set_map [symmetric] by simp
  finally show ?thesis .
qed

lemma compiled_total:
  assumes engine: "\<And>p s. rx p s = None \<Longrightarrow> rx p [] = None"
    and ok: "list_all (config_ok rx) configs"
  shows "evaluateCompiledPolicy rx s a (build_pack configs) \<noteq> None"
proof -
  have "matchesPolicyPredicate rx (ru_match (cr_rule c)) (action_json a) \<noteq> None"
    if "c \<in> set (pk_rules (build_pack configs))" for c
    using predicate_ok_patterns [OF compiled_rule_ok [OF ok that]] engine by (intro matches_total) blast
  then have "matching_rules rx a (build_pack configs) \<noteq> None"
    unfolding matching_rules_def filter_throwing_None by auto
  then show ?thesis by (auto simp: evaluateCompiledPolicy_def split: option.splits)
qed

lemma js_regex_engine: "js_regex_test p s = None \<Longrightarrow> js_regex_test p [] = None"
  by (simp add: js_regex_test_def)

lemma default_config_ok: "config_ok js_regex_test DEFAULT_POLICY_PACK"
  by code_simp

lemma default_pack_compiles: "compilePolicyPack js_regex_test [DEFAULT_POLICY_PACK] = Inr DEFAULT_COMPILED_POLICY_PACK"
  by (simp add: compilePolicyPack_iff DEFAULT_COMPILED_POLICY_PACK_def default_config_ok)

lemma default_pack_total: "evaluateCompiledPolicy js_regex_test s a DEFAULT_COMPILED_POLICY_PACK \<noteq> None"
  unfolding DEFAULT_COMPILED_POLICY_PACK_def
  by (rule compiled_total) (simp_all add: js_regex_engine default_config_ok)

text \<open>C13: \<open>compilePolicyPack\<close> accepts exactly the packs the schema accepts: it compiles a list of packs if and only if every one
  is valid, so that its own depth assertion never fires. The rules of the result are those of the packs and no others, each of them is nested at
  most five deep and, for an engine whose verdict on the syntax does not depend on the subject, evaluating the result on any action
  does not throw.\<close>

theorem compilePolicyPack_sound:
  assumes engine: "\<And>p s. rx p s = None \<Longrightarrow> rx p [] = None"
  shows "((\<exists>pack. compilePolicyPack rx configs = Inr pack) \<longleftrightarrow> list_all (config_ok rx) configs) \<and>
    (\<forall>pack. compilePolicyPack rx configs = Inr pack \<longrightarrow>
       cr_rule ` set (pk_rules pack) = (\<Union>c \<in> set configs. set (cfg_rules c)) \<and>
       (\<forall>c \<in> set (pk_rules pack). policyPredicateDepth (ru_match (cr_rule c)) \<le> MAX_POLICY_PREDICATE_DEPTH) \<and>
       (\<forall>s a. evaluateCompiledPolicy rx s a pack \<noteq> None))"
proof (cases "list_all (config_ok rx) configs")
  case True
  have "evaluateCompiledPolicy rx s a (build_pack configs) \<noteq> None" for s a
    by (rule compiled_total [OF _ True]) (rule engine)
  moreover have "policyPredicateDepth (ru_match (cr_rule c)) \<le> MAX_POLICY_PREDICATE_DEPTH" if "c \<in> set (pk_rules (build_pack configs))" for c
    using compiled_rule_ok [OF True that] by (rule predicate_ok_depth)
  ultimately show ?thesis using True by (simp add: compilePolicyPack_iff build_pack_rules)
qed (auto simp: compilePolicyPack_iff)

theorem compilePolicyPack_sound_witness:
  "(\<exists>pack. compilePolicyPack js_regex_test [DEFAULT_POLICY_PACK] = Inr pack) \<and>
   (\<forall>s a. evaluateCompiledPolicy js_regex_test s a DEFAULT_COMPILED_POLICY_PACK \<noteq> None)"
  using compilePolicyPack_sound [of js_regex_test "[DEFAULT_POLICY_PACK]"] js_regex_engine default_pack_compiles by blast

lemma map_of_add_thresholds:
  "map_of (add_thresholds acc ts) f =
     (case map_of acc f of Some t \<Rightarrow> Some t | None \<Rightarrow> map_of (map (\<lambda>t. (lt_action_family t, lt_ask_below t)) ts) f)"
proof (induction ts arbitrary: acc)
  case Nil
  then show ?case by (simp add: add_thresholds_def split: option.split)
next
  case (Cons t ts)
  have step: "add_thresholds acc (t # ts) =
    add_thresholds (if map_of acc (lt_action_family t) = None
      then acc @ [(lt_action_family t, lt_ask_below t)] else acc) ts"
    by (simp add: add_thresholds_def)
  show ?case unfolding step Cons.IH by (auto simp: map_add_def split: option.splits)
qed

lemma map_of_foldl_thresholds:
  "map_of (foldl add_thresholds acc tss) f =
     (case map_of acc f of Some t \<Rightarrow> Some t
      | None \<Rightarrow> map_of (map (\<lambda>t. (lt_action_family t, lt_ask_below t)) (concat tss)) f)"
proof (induction tss arbitrary: acc)
  case Nil
  then show ?case by (simp split: option.split)
next
  case (Cons ts tss)
  show ?case by (simp add: Cons.IH map_of_add_thresholds map_add_def split: option.split)
qed

text \<open>where several configurations set a threshold for the same action family, the first
  configuration, and in it the first entry, wins; an action then takes the threshold of its
  own family, else of its domain's wildcard, else of the global wildcard.\<close>

theorem threshold_precedence:
  assumes "compilePolicyPack rx configs = Inr pack"
  shows "resolvePolicyLowConfidenceThreshold (Some pack) family =
    (let entries = map_of (map (\<lambda>t. (lt_action_family t, lt_ask_below t)) (concat (map cfg_thresholds configs)))
     in case entries family of
          Some t \<Rightarrow> Some t
        | None \<Rightarrow> (case entries (family_domain family @ ''/*'') of
            Some t \<Rightarrow> Some t | None \<Rightarrow> entries ''*''))"
proof -
  have "pack = build_pack configs" using assms by (auto simp: compilePolicyPack_iff split: if_splits)
  then have low: "map_of (pk_low_confidence pack) =
      map_of (map (\<lambda>t. (lt_action_family t, lt_ask_below t)) (concat (map cfg_thresholds configs)))"
    by (intro ext) (simp add: build_pack_def map_of_foldl_thresholds)
  show ?thesis
    unfolding resolvePolicyLowConfidenceThreshold_def compiled_or_default_def Let_def option.case low
    by (rule refl)
qed

theorem threshold_precedence_witness:
  "resolvePolicyLowConfidenceThreshold (Some DEFAULT_COMPILED_POLICY_PACK) ''shell/exec'' = Some (3 / 10)"
  unfolding threshold_precedence [OF default_pack_compiles]
  by (simp add: DEFAULT_POLICY_PACK_def family_domain_def)

section \<open>Which rule decides\<close>

text \<open>C12: when a rule decides, it is in force, its predicate holds on the action, and no other
  matching rule in force has a stronger declared decision, or an equal one with a higher
  priority; the decision is the one its enforcement mode gives it.\<close>

theorem evaluateCompiledPolicy_selects:
  assumes "evaluateCompiledPolicy rx s a pack = Some (Some out)"
  shows "\<exists>c \<in> set (pk_rules pack).
    enforcementModeStrengthensDecision (cr_rule c) = Some (po_decision out) \<and>
    matchesPolicyPredicate rx (ru_match (cr_rule c)) (action_json a) = Some True \<and>
    po_reasons out = [ru_reason (cr_rule c)] \<and>
    (\<forall>d \<in> set (pk_rules pack).
       enforcementModeStrengthensDecision (cr_rule d) \<noteq> None \<and>
       matchesPolicyPredicate rx (ru_match (cr_rule d)) (action_json a) = Some True \<longrightarrow>
       rule_strength d < rule_strength c \<or>
       (rule_strength d = rule_strength c \<and> ru_priority (cr_rule d) \<le> ru_priority (cr_rule c)))"
proof -
  from assms obtain cs c where cs: "matching_rules rx a pack = Some cs"
    and head: "js_head (js_sort compareCompiledRules cs) = Some c"
    and eff: "enforcementModeStrengthensDecision (cr_rule c) = Some (po_decision out)"
    and out: "po_reasons out = [ru_reason (cr_rule c)]"
    by (auto simp: evaluateCompiledPolicy_def split: if_splits option.splits)
  from cs have mem: "d \<in> set cs \<longleftrightarrow> d \<in> set (pk_rules pack) \<and>
      enforcementModeStrengthensDecision (cr_rule d) \<noteq> None \<and>
      matchesPolicyPredicate rx (ru_match (cr_rule d)) (action_json a) = Some True" for d
    unfolding matching_rules_def by (auto dest!: filter_throwing_Some)
  have "c \<in> set cs" using js_head_in [OF head] by simp
  moreover have "rule_strength d < rule_strength c \<or>
      (rule_strength d = rule_strength c \<and> ru_priority (cr_rule d) \<le> ru_priority (cr_rule c))"
    if "d \<in> set cs" for d
    using rule_order.head_minimal [OF head that] by (rule compareCompiledRules_le)
  ultimately show ?thesis using mem eff out by blast
qed

theorem evaluateCompiledPolicy_selects_witness:
  "\<exists>c \<in> set (pk_rules DEFAULT_COMPILED_POLICY_PACK). ru_decision (cr_rule c) = RDeny \<and>
     matchesPolicyPredicate js_regex_test (ru_match (cr_rule c)) (action_json (sample_write ''/ws/.env'')) = Some True"
proof -
  have D: "ru_decision (cr_rule c) = RDeny" if "c \<in> set (pk_rules DEFAULT_COMPILED_POLICY_PACK)" for c
  proof -
    have "cr_rule c \<in> set (map cr_rule (pk_rules DEFAULT_COMPILED_POLICY_PACK))" using that by simp
    then show ?thesis unfolding default_rules
      by (auto simp: secret_paths_rule_def outside_workspace_rule_def agent_config_rule_def)
  qed
  show ?thesis using evaluateCompiledPolicy_selects [OF secret_write_overlay] D by blast
qed

definition downgrading_config :: policy_config where
  "downgrading_config = sample_config
     [sample_rule ''review-writes'' RDeny EM_require_approval 20000
        (PField ''operation.domain'' OpEq (JStr ''filesystem''))]"

text \<open>a rule whose declared decision is \<open>deny\<close> but whose enforcement mode only asks for approval
  competes with its declared strength: put at a higher priority it displaces the built-in
  denial of secret paths, and the final decision on such a path is \<open>ask\<close>.\<close>

theorem require_approval_downgrades_secret_denial:
  "list_all (config_ok js_regex_test) [downgrading_config, DEFAULT_POLICY_PACK] \<and>
   po_decision (evaluatePolicy js_regex_test ''/ws'' sample_stamps (sample_write ''/ws/.env'')
     (empty_context\<lparr>cx_compiled_policy := Some (build_pack [DEFAULT_POLICY_PACK])\<rparr>)) = Deny \<and>
   po_decision (evaluatePolicy js_regex_test ''/ws'' sample_stamps (sample_write ''/ws/.env'')
     (empty_context\<lparr>cx_compiled_policy := Some (build_pack [downgrading_config, DEFAULT_POLICY_PACK])\<rparr>)) = Ask"
  by (intro conjI) code_simp+

section \<open>Secret paths\<close>

text \<open>The paths the built-in pack protects, told from the segments of the path.\<close>

definition secret_path :: "string \<Rightarrow> bool" where
  "secret_path l =
     (let segments = js_split CHR ''/'' l; file = last segments in
      file \<in> {''.env'', ''.npmrc'', ''.netrc''} \<or> take 5 file = ''.env.'' \<and> 5 < length file \<or>
      (\<exists>d \<in> set segments. d \<in> {''.ssh'', ''.aws'', ''.gnupg''}) \<or> suffix ''.pem'' l \<or> suffix ''.key'' l)"

lemma parse_secret_patterns:
  "parse_regex secret_env_pattern = Some (RSeq RBol (RSeq dir_prefix (lit ''.env''
     (RSeq (RAlt (RSeq (RChar CHR ''.'') (RSeq (RSeq (RClass True ''/'') (RStar (RClass True ''/''))) REmpty)) REmpty)
       (RSeq REol REmpty)))))"
  "parse_regex (file_pattern ''npmrc'') = Some (RSeq RBol (RSeq dir_prefix (lit ''.npmrc'' (RSeq REol REmpty))))"
  "parse_regex (file_pattern ''netrc'') = Some (RSeq RBol (RSeq dir_prefix (lit ''.netrc'' (RSeq REol REmpty))))"
  "parse_regex (directory_pattern ''ssh'') = Some (RSeq RBol (RSeq dir_prefix (lit ''.ssh''
     (RSeq (RAlt (RSeq (RChar CHR ''/'') (RSeq (RStar dot_class) REmpty)) REmpty) (RSeq REol REmpty)))))"
  "parse_regex (directory_pattern ''aws'') = Some (RSeq RBol (RSeq dir_prefix (lit ''.aws''
     (RSeq (RAlt (RSeq (RChar CHR ''/'') (RSeq (RStar dot_class) REmpty)) REmpty) (RSeq REol REmpty)))))"
  "parse_regex (directory_pattern ''gnupg'') = Some (RSeq RBol (RSeq dir_prefix (lit ''.gnupg''
     (RSeq (RAlt (RSeq (RChar CHR ''/'') (RSeq (RStar dot_class) REmpty)) REmpty) (RSeq REol REmpty)))))"
  "parse_regex key_file_pattern = Some (RSeq RBol (RSeq (RStar dot_class) (RSeq (RChar CHR ''.'') (RSeq (RAlt (lit ''pem'' REmpty) (lit ''key'' REmpty))
     (RSeq REol REmpty)))))"
  by code_simp+

lemma line_free_append [simp]: "line_free (u @ v) \<longleftrightarrow> line_free u \<and> line_free v"
  by (simp add: line_free_def)

lemma prefixed_litI:
  assumes "s = p @ w @ v" "p = [] \<or> (\<exists>d. p = d @ ''/'')" "line_free p" "j \<in> set (ends r s (length (p @ w)))"
  shows "regex_test (RSeq RBol (RSeq dir_prefix (lit w r))) s"
  using assms(2)
proof
  assume p: "p = []"
  have "0 \<in> set (ends dir_prefix s 0)" by (simp add: dir_prefix_def)
  moreover have "j \<in> set (ends (lit w r) s 0)" using ends_litI [of s "[]" w v j r] assms(1,4) p by simp
  ultimately show ?thesis by (intro regex_testI ends_bolI ends_seqI)
next
  assume "\<exists>d. p = d @ ''/''"
  then obtain d where d: "p = d @ ''/''" by blast
  with assms(1,3,4) show ?thesis by (intro dir_prefix_litI [where d = d and v = v]) simp_all
qed

lemma optional_eolI:
  assumes "i = length s \<or> length s \<in> set (ends r s i)"
  shows "length s \<in> set (ends (RSeq (RAlt r REmpty) (RSeq REol REmpty)) s i)"
  using assms
proof
  assume "i = length s"
  then have "length s \<in> set (ends (RAlt r REmpty) s i)" by (intro ends_altI2) simp
  then show ?thesis by (rule ends_seqI [OF _ ends_eolI])
next
  assume "length s \<in> set (ends r s i)"
  then have "length s \<in> set (ends (RAlt r REmpty) s i)" by (rule ends_altI1)
  then show ?thesis by (rule ends_seqI [OF _ ends_eolI])
qed

lemma env_suffixI:
  assumes "s = u @ ''.'' @ v" "v \<noteq> []" "CHR ''/'' \<notin> set v"
  shows "length s \<in> set (ends (RSeq (RChar CHR ''.'') (RSeq (RSeq (RClass True ''/'') (RStar (RClass True ''/''))) REmpty)) s (length u))"
proof -
  have c: "class_match True ''/'' (s ! k)" if "Suc (length u) \<le> k" "k < length s" for k
  proof -
    have "s ! k = v ! (k - Suc (length u))" using that assms(1) by (simp add: nth_append)
    moreover have "k - Suc (length u) < length v" using that assms(1) by simp
    ultimately have "s ! k \<in> set v" by simp
    with assms(3) show ?thesis by (auto simp: class_match_def)
  qed
  have len: "Suc (length u) < length s" using assms(1,2) by simp
  have "Suc (Suc (length u)) \<in> set (ends (RClass True ''/'') s (Suc (length u)))"
    using c [of "Suc (length u)"] len by (simp add: step_if_def)
  moreover have "length s \<in> set (ends (RStar (RClass True ''/'')) s (Suc (Suc (length u))))"
    using c len by (intro ends_star_classI) auto
  ultimately have "length s \<in> set (ends (RSeq (RClass True ''/'') (RStar (RClass True ''/''))) s (Suc (length u)))" by (rule ends_seqI)
  then have "length s \<in> set (ends (RSeq (RSeq (RClass True ''/'') (RStar (RClass True ''/''))) REmpty) s (Suc (length u)))"
    by (rule ends_seqI) simp
  moreover have "Suc (length u) \<in> set (ends (RChar CHR ''.'') s (length u))"
    using assms(1) by (intro ends_charI) (simp_all add: nth_append)
  ultimately show ?thesis by (rule ends_seqI [rotated])
qed

lemma inside_directoryI:
  assumes "s = u @ ''/'' @ t" "line_free t"
  shows "length s \<in> set (ends (RSeq (RChar CHR ''/'') (RSeq (RStar dot_class) REmpty)) s (length u))"
proof -
  have "length s \<in> set (ends (RStar dot_class) s (Suc (length u)))"
    using ends_dot_starI [of s "u @ ''/''" t "[]"] assms by simp
  then have "length s \<in> set (ends (RSeq (RStar dot_class) REmpty) s (Suc (length u)))" by (rule ends_seqI) simp
  moreover have "Suc (length u) \<in> set (ends (RChar CHR ''/'') s (length u))"
    using assms(1) by (intro ends_charI) (simp_all add: nth_append)
  ultimately show ?thesis by (rule ends_seqI [rotated])
qed

lemma key_fileI:
  assumes "s = u @ ''.'' @ w" "line_free u" "w = ''pem'' \<or> w = ''key''"
  shows "regex_test (RSeq RBol (RSeq (RStar dot_class) (RSeq (RChar CHR ''.'') (RSeq (RAlt (lit ''pem'' REmpty) (lit ''key'' REmpty))
     (RSeq REol REmpty))))) s"
proof -
  have 1: "length u \<in> set (ends (RStar dot_class) s 0)" using ends_dot_starI [of s "[]" u "''.'' @ w"] assms(1,2) by simp
  have 2: "Suc (length u) \<in> set (ends (RChar CHR ''.'') s (length u))"
    using assms(1) by (intro ends_charI) (simp_all add: nth_append)
  have "length s \<in> set (ends (lit w REmpty) s (Suc (length u)))"
    using ends_litI [of s "u @ ''.''" w "[]" "length s" REmpty] assms(1) by simp
  then have 3: "length s \<in> set (ends (RAlt (lit ''pem'' REmpty) (lit ''key'' REmpty)) s (Suc (length u)))"
    using assms(3) by (auto intro: ends_altI1 ends_altI2)
  show ?thesis
    by (rule regex_testI, rule ends_bolI, rule ends_seqI [OF 1], rule ends_seqI [OF 2], rule ends_seqI [OF 3], rule ends_eolI)
qed

lemma secret_pattern_matches:
  assumes "line_free s" "secret_path s"
  shows "\<exists>p \<in> set secret_path_patterns. js_regex_test p s = Some True"
proof -
  have test: "js_regex_test p s = Some True" if "parse_regex p = Some r" "regex_test r s" for p r
    using that by (simp add: js_regex_test_def)
  let ?segs = "js_split CHR ''/'' s"
  obtain p where leaf: "s = p @ last ?segs" "p = [] \<or> (\<exists>d. p = d @ ''/'')" using split_last by blast
  have lp: "line_free p" using assms(1) leaf(1) by (metis line_free_append)
  have free: "CHR ''/'' \<notin> set (last ?segs)" by (rule js_split_no_sep [where s = s]) simp
  have plain: "regex_test (RSeq RBol (RSeq dir_prefix (lit w (RSeq REol REmpty)))) s" if "last ?segs = w" for w
    using leaf lp that ends_eolI [of s] by (intro prefixed_litI [where p = p and v = "[]"]) simp_all
  have dir: "regex_test (RSeq RBol (RSeq dir_prefix (lit w
     (RSeq (RAlt (RSeq (RChar CHR ''/'') (RSeq (RStar dot_class) REmpty)) REmpty) (RSeq REol REmpty))))) s" if w: "w \<in> set ?segs" for w
  proof -
    obtain u q where s: "s = u @ w @ q" "u = [] \<or> (\<exists>d. u = d @ ''/'')" "q = [] \<or> (\<exists>t. q = CHR ''/'' # t)"
      using split_segment [OF w] by blast
    have "length (u @ w) = length s \<or>
        length s \<in> set (ends (RSeq (RChar CHR ''/'') (RSeq (RStar dot_class) REmpty)) s (length (u @ w)))"
      using s(3)
    proof
      assume "\<exists>t. q = CHR ''/'' # t"
      then obtain t where t: "q = CHR ''/'' # t" by blast
      have "line_free t" using assms(1) s(1) t by (simp add: line_free_def)
      then show ?thesis using inside_directoryI [of s "u @ w" t] s(1) t by simp
    qed (use s(1) in simp)
    then show ?thesis using s(1,2) assms(1)
      by (intro prefixed_litI [where p = u and v = q and j = "length s"] optional_eolI) (auto simp: line_free_append)
  qed
  have envr: "regex_test (RSeq RBol (RSeq dir_prefix (lit ''.env''
     (RSeq (RAlt (RSeq (RChar CHR ''.'') (RSeq (RSeq (RClass True ''/'') (RStar (RClass True ''/''))) REmpty)) REmpty)
       (RSeq REol REmpty))))) s" if "last ?segs = ''.env'' \<or> (\<exists>v. last ?segs = ''.env'' @ ''.'' @ v \<and> v \<noteq> [])"
    using that
  proof
    assume l: "last ?segs = ''.env''"
    with leaf lp show ?thesis by (intro prefixed_litI [where p = p and v = "[]" and j = "length s"] optional_eolI) simp_all
  next
    assume "\<exists>v. last ?segs = ''.env'' @ ''.'' @ v \<and> v \<noteq> []"
    then obtain v where v: "last ?segs = ''.env'' @ ''.'' @ v" "v \<noteq> []" by blast
    have s: "s = (p @ ''.env'') @ ''.'' @ v" using leaf(1) v(1) by simp
    have "CHR ''/'' \<notin> set v" using free v(1) by simp
    from env_suffixI [OF s v(2) this] show ?thesis using s leaf(2) lp
      by (intro prefixed_litI [where p = p and v = "''.'' @ v" and j = "length s"] optional_eolI) simp_all
  qed
  from assms(2) consider (env) "last ?segs = ''.env'' \<or> (\<exists>v. last ?segs = ''.env'' @ ''.'' @ v \<and> v \<noteq> [])"
    | (npmrc) "last ?segs = ''.npmrc''" | (netrc) "last ?segs = ''.netrc''"
    | (ssh) "''.ssh'' \<in> set ?segs" | (aws) "''.aws'' \<in> set ?segs" | (gnupg) "''.gnupg'' \<in> set ?segs"
    | (key) u w where "s = u @ ''.'' @ w" "w = ''pem'' \<or> w = ''key''"
  proof -
    have "\<exists>v. l = ''.env'' @ ''.'' @ v \<and> v \<noteq> []" if "take 5 l = ''.env.''" "5 < length l" for l :: string
      using that append_take_drop_id [of 5 l] by (intro exI [of _ "drop 5 l"]) auto
    moreover have "\<exists>u. s = u @ ''.'' @ ''pem''" if "suffix ''.pem'' s" using that by (simp add: suffix_def)
    moreover have "\<exists>u. s = u @ ''.'' @ ''key''" if "suffix ''.key'' s" using that by (simp add: suffix_def)
    ultimately show ?thesis using assms(2) that unfolding secret_path_def Let_def by blast
  qed
  then show ?thesis
  proof cases
    case env
    then show ?thesis using test [OF parse_secret_patterns(1)] envr by (auto simp: secret_path_patterns_def)
  next
    case npmrc
    then show ?thesis using test [OF parse_secret_patterns(2)] plain by (auto simp: secret_path_patterns_def)
  next
    case netrc
    then show ?thesis using test [OF parse_secret_patterns(3)] plain by (auto simp: secret_path_patterns_def)
  next
    case ssh
    then show ?thesis using test [OF parse_secret_patterns(4)] dir by (auto simp: secret_path_patterns_def)
  next
    case aws
    then show ?thesis using test [OF parse_secret_patterns(5)] dir by (auto simp: secret_path_patterns_def)
  next
    case gnupg
    then show ?thesis using test [OF parse_secret_patterns(6)] dir by (auto simp: secret_path_patterns_def)
  next
    case key
    have "line_free u" using assms(1) key(1) by simp
    then show ?thesis using test [OF parse_secret_patterns(7)] key_fileI [OF key(1) _ key(2)] by (auto simp: secret_path_patterns_def)
  qed
qed

lemma field_values:
  "getFieldValue (action_json a) ''operation.domain'' = JStr (domain_of a)"
  "getFieldValue (action_json a) ''target.primary.type'' = JStr (tp_type (primary_target a))"
  "getFieldValue (action_json a) ''target.primary.locator'' = JStr (locator_of a)"
  by (simp_all add: getFieldValue_def action_json_def js_get_def obj_get_def)

lemma matches_some_True:
  "\<lbrakk>c \<in> set cs; matchesPolicyPredicate rx c j = Some True;
     \<And>d. d \<in> set cs \<Longrightarrow> matchesPolicyPredicate rx d j \<noteq> None\<rbrakk> \<Longrightarrow> matches_some rx cs j = Some True"
  by (induction cs) (auto split: option.splits)

lemma secret_rule_matches:
  assumes dom: "domain_of a \<in> {''filesystem'', ''shell''}" and path: "tp_type (primary_target a) = ''path''"
    and loc: "line_free (locator_of a)" "secret_path (locator_of a)"
  shows "matchesPolicyPredicate js_regex_test (ru_match secret_paths_rule) (action_json a) = Some True"
proof -
  obtain p where p: "p \<in> set secret_path_patterns" "js_regex_test p (locator_of a) = Some True"
    using secret_pattern_matches [OF loc] by blast
  have total: "js_regex_test q s \<noteq> None" if "q \<in> set secret_path_patterns" for q s
  proof -
    have "list_all (\<lambda>q. parse_regex q \<noteq> None) secret_path_patterns" by code_simp
    with that show ?thesis by (auto simp: list_all_iff js_regex_test_def)
  qed
  have loc_pred: "matchesPolicyPredicate js_regex_test (locator_matches q) (action_json a) =
      js_regex_test q (locator_of a)" for q
    by (simp add: locator_matches_def evaluateFieldPredicate_def field_values)
  have "matches_some js_regex_test (map locator_matches secret_path_patterns) (action_json a) = Some True"
    using p total by (intro matches_some_True [of "locator_matches p"]) (auto simp: loc_pred)
  moreover have "evaluateFieldPredicate js_regex_test ''operation.domain'' OpIn
      (js_strs [''filesystem'', ''shell'']) (action_json a) = Some True"
    unfolding evaluateFieldPredicate_def field_values
    using dom by (auto simp: js_strs_def js_array_includes_def)
  moreover have "evaluateFieldPredicate js_regex_test ''target.primary.type'' OpEq (JStr ''path'')
      (action_json a) = Some True"
    unfolding evaluateFieldPredicate_def field_values using path by simp
  ultimately show ?thesis by (simp add: secret_paths_rule_def)
qed

lemma default_rule_in:
  "c \<in> set (pk_rules DEFAULT_COMPILED_POLICY_PACK) \<Longrightarrow>
     cr_rule c \<in> {secret_paths_rule, outside_workspace_rule, agent_config_rule}"
proof -
  assume "c \<in> set (pk_rules DEFAULT_COMPILED_POLICY_PACK)"
  then have "cr_rule c \<in> set (map cr_rule (pk_rules DEFAULT_COMPILED_POLICY_PACK))" by simp
  then show ?thesis unfolding default_rules by simp
qed

lemma default_rule_denies:
  "c \<in> set (pk_rules DEFAULT_COMPILED_POLICY_PACK) \<Longrightarrow>
     enforcementModeStrengthensDecision (cr_rule c) = Some Deny"
  using default_rule_in [of c]
  by (auto simp: enforcementModeStrengthensDecision_def secret_paths_rule_def outside_workspace_rule_def
      agent_config_rule_def)

lemma default_pack_decides:
  assumes "r \<in> {secret_paths_rule, outside_workspace_rule, agent_config_rule}"
    and "matchesPolicyPredicate js_regex_test (ru_match r) (action_json a) = Some True"
  obtains x where "evaluateCompiledPolicy js_regex_test s a DEFAULT_COMPILED_POLICY_PACK = Some (Some x)"
    "po_decision x = Deny"
proof -
  let ?p = DEFAULT_COMPILED_POLICY_PACK
  obtain c where c: "c \<in> set (pk_rules ?p)" "cr_rule c = r"
    using assms(1) default_rules by (metis (no_types, lifting) imageE list.set(1,2) list.set_map)
  have "matching_rules js_regex_test a ?p \<noteq> None"
  proof
    assume "matching_rules js_regex_test a ?p = None"
    then have "evaluateCompiledPolicy js_regex_test s a ?p = None"
      using c(1) by (auto simp: evaluateCompiledPolicy_def)
    with default_pack_total show False by blast
  qed
  then obtain cs where cs: "matching_rules js_regex_test a ?p = Some cs" by blast
  then have mem: "set cs = {d \<in> set (pk_rules ?p). enforcementModeStrengthensDecision (cr_rule d) \<noteq> None \<and>
      matchesPolicyPredicate js_regex_test (ru_match (cr_rule d)) (action_json a) = Some True}"
    unfolding matching_rules_def by (auto dest!: filter_throwing_Some)
  then have "c \<in> set cs" using c assms(2) default_rule_denies by auto
  then obtain h where h: "js_head (js_sort compareCompiledRules cs) = Some h"
    by (cases "js_head (js_sort compareCompiledRules cs)") auto
  then have "h \<in> set (pk_rules ?p)" using js_head_in mem by fastforce
  moreover have "pk_rules ?p \<noteq> []" using c(1) by auto
  ultimately show thesis using cs h default_rule_denies [of h]
    by (auto simp: evaluateCompiledPolicy_def intro!: that [OF _ makeOutcome_decision])
qed

text \<open>C7: under the built-in pack every filesystem or shell action on a path without line terminators is denied when the path is
  secret: a file \<open>.env\<close>, \<open>.env.\<close> with a suffix, \<open>.npmrc\<close> or \<open>.netrc\<close> in any directory, a directory
  \<open>.ssh\<close>, \<open>.aws\<close> or \<open>.gnupg\<close> or anything below one, or a file that ends in \<open>.pem\<close> or \<open>.key\<close>; whatever
  the operation, the confidence, the capabilities and the budget are. The condition on line terminators is needed:
  see \<open>secret_path_newline_bypass\<close>.\<close>

theorem secret_paths_denied:
  assumes "cx_compiled_policy ctx = None"
    and "domain_of a \<in> {''filesystem'', ''shell''}" and "tp_type (primary_target a) = ''path''"
    and "line_free (locator_of a)" and "secret_path (locator_of a)"
  shows "po_decision (evaluatePolicy js_regex_test cwd st a ctx) = Deny"
proof -
  obtain x where x: "evaluateCompiledPolicy js_regex_test (es_overlay st) a DEFAULT_COMPILED_POLICY_PACK = Some (Some x)"
    "po_decision x = Deny"
    using default_pack_decides [of secret_paths_rule a] secret_rule_matches [OF assms(2-5)] by blast
  have "po_decision (applyPolicyOverlay (evaluate_domain cwd (es_base st) a ctx) (Some x)) = Deny"
    using x(2) by (rule overlay_deny)
  then show ?thesis
    using x(1) assms(1) withBudgetEffects_deny_or_same by (fastforce simp: evaluatePolicy_def compiled_or_default_def)
qed

theorem secret_paths_denied_witness:
  "po_decision (evaluatePolicy js_regex_test ''/ws'' sample_stamps (sample_write ''/ws/app/.env.local'') empty_context) = Deny \<and>
   po_decision (evaluatePolicy js_regex_test ''/ws'' sample_stamps (sample_write ''.ssh/config'') empty_context) = Deny"
proof -
  have deny: "po_decision (evaluatePolicy js_regex_test ''/ws'' sample_stamps (sample_write l) empty_context) = Deny"
    if "line_free l \<and> secret_path l" for l
    by (rule secret_paths_denied) (use that in \<open>simp_all add: sample_defs\<close>)
  have "line_free ''/ws/app/.env.local'' \<and> secret_path ''/ws/app/.env.local''" "line_free ''.ssh/config'' \<and> secret_path ''.ssh/config''"
    by code_simp+
  then show ?thesis using deny by blast
qed

text \<open>the dot of the built-in patterns does not match a line terminator: a secret file below a
  directory whose name contains a line feed is not denied, and a small write to it is allowed
  automatically.\<close>

theorem secret_path_newline_bypass:
  "po_decision (evaluatePolicy js_regex_test ''/ws'' sample_stamps
     (sample_write (''/ws/a'' @ [CHR 0x0A] @ ''/.env'')) empty_context) = Allow"
  by code_simp

section \<open>Run budgets\<close>

lemma capability_ignores_run:
  "evaluateFilesystemCapabilityState cwd s a (ctx\<lparr>cx_run_summary := r\<rparr>) b = evaluateFilesystemCapabilityState cwd s a ctx b"
  "evaluateShellCapabilityState s a (ctx\<lparr>cx_run_summary := r\<rparr>) = evaluateShellCapabilityState s a ctx"
  "ticket_capability_outcome s a (ctx\<lparr>cx_run_summary := r\<rparr>) = ticket_capability_outcome s a ctx"
  unfolding evaluateFilesystemCapabilityState_def evaluateShellCapabilityState_def ticket_capability_outcome_def
  by simp_all

lemma run_summary_update:
  "cx_mcp_servers (ctx\<lparr>cx_run_summary := r\<rparr>) = cx_mcp_servers ctx"
  "cx_capability_state (ctx\<lparr>cx_run_summary := r\<rparr>) = cx_capability_state ctx"
  "cx_compiled_policy (ctx\<lparr>cx_run_summary := r\<rparr>) = cx_compiled_policy ctx"
  by simp_all

lemma evaluate_domain_ignores_run:
  "evaluate_domain cwd s a (ctx\<lparr>cx_run_summary := r\<rparr>) = evaluate_domain cwd s a ctx"
  unfolding evaluate_domain_def evaluateFilesystem_def evaluateShell_def evaluateMcp_def evaluateFunction_def
    ticket_function_outcome_def capability_ignores_run run_summary_update
  by (rule refl)

text \<open>C10: a run budget has one effect on the decision: the action is denied when its class of side
  effects (mutating, destructive, the latter counting as both) has no slot left in the run, and the
  decision is otherwise the one of the same evaluation without a budget.\<close>

theorem evaluatePolicy_budget:
  assumes "cx_run_summary ctx = Some run"
  shows "po_decision (evaluatePolicy rx cwd st a ctx) =
    (if budget_exhausted a run then Deny
     else po_decision (evaluatePolicy rx cwd st a (ctx\<lparr>cx_run_summary := None\<rparr>)))"
  using assms
  by (cases "evaluateCompiledPolicy rx (es_overlay st) a (compiled_or_default (cx_compiled_policy ctx))")
    (simp_all add: evaluatePolicy_def evaluate_domain_ignores_run withBudgetEffects_decision)

theorem evaluatePolicy_budget_witness:
  "po_decision (evaluatePolicy js_regex_test ''/ws'' sample_stamps (sample_write ''/ws/a'')
     (empty_context\<lparr>cx_run_summary := Some (sample_budget 3 3)\<rparr>)) = Deny"
  using evaluatePolicy_budget [of "empty_context\<lparr>cx_run_summary := Some (sample_budget 3 3)\<rparr>" "sample_budget 3 3"
      js_regex_test "''/ws''" sample_stamps "sample_write ''/ws/a''"]
  by (simp add: sample_budget_def budget_exhausted_def mutating_relevant_def sample_write_def sample_action_def)

section \<open>Filesystem, MCP and function gates\<close>

lemma or_else_decision:
  "po_decision (or_else v y) = d \<Longrightarrow> (\<And>x. v = Some x \<Longrightarrow> po_decision x = Ask) \<Longrightarrow> d \<noteq> Ask \<Longrightarrow>
     v = None \<and> po_decision y = d"
  by (cases v) auto

lemma fs_capability_clear:
  assumes "evaluateFilesystemCapabilityState cwd s a ctx b = None"
    and "cx_capability_state ctx = Some state"
  shows "\<not> cc_is_stale state \<and>
    (\<exists>c t rt. c \<in> set (cc_capabilities state) \<and> cap_name c = ''workspace.root_access'' \<and> cap_status c = CS_available \<and>
       actionTargetPath cwd a = Some t \<and> capabilityWorkspaceRoot cwd c = Some rt \<and> isPathWithinWorkspaceRoot t rt) \<and>
    (b \<longrightarrow> (\<exists>c \<in> set (cc_capabilities state). cap_name c = ''host.runtime_storage'' \<and> cap_status c = CS_available))"
proof -
  obtain c where fresh: "\<not> cc_is_stale state"
    and find: "findWorkspaceCapabilityForAction cwd a (cc_capabilities state) = Some c" and avail: "cap_status c = CS_available"
    and storage: "b \<Longrightarrow> \<exists>d. findCapability (cc_capabilities state) ''host.runtime_storage'' = Some d \<and> cap_status d = CS_available"
    using assms unfolding evaluateFilesystemCapabilityState_def Let_def
    by (auto split: if_splits option.splits)
  from find have ws: "c \<in> set (cc_capabilities state) \<and> cap_name c = ''workspace.root_access'' \<and>
      (\<exists>t rt. actionTargetPath cwd a = Some t \<and> capabilityWorkspaceRoot cwd c = Some rt \<and> isPathWithinWorkspaceRoot t rt)"
    unfolding findWorkspaceCapabilityForAction_def
    by (auto simp: find_Some_iff split: option.splits)
  have st: "\<exists>c \<in> set (cc_capabilities state). cap_name c = ''host.runtime_storage'' \<and> cap_status c = CS_available" if b
    using storage [OF that] unfolding findCapability_def by (auto simp: find_Some_iff intro: nth_mem)
  show ?thesis using fresh ws st avail by blast
qed

text \<open>the filesystem evaluator allows an action without a snapshot only when the path is governed,
  its confidence reaches the threshold, it is no deletion and writes at most 256 KiB, and the cached
  capability state, where there is one, is fresh and has an available workspace capability whose
  root contains the path.\<close>

theorem evaluateFilesystem_allow:
  assumes "po_decision (evaluateFilesystem cwd s a ctx) = Allow"
  shows "locator_of a \<noteq> [] \<and> ''scope'' \<notin> set (ts_unknowns (scope a)) \<and>
    \<not> confidence_triggered (cx_compiled_policy ctx) a \<and>
    js_coalesce (facet_field a ''filesystem'' ''operation'') (JStr (op_kind (operation a))) \<noteq> JStr ''delete'' \<and>
    js_le_num (js_coalesce (facet_field a ''filesystem'' ''byte_length'') (JNum 0)) SAFE_FS_WRITE_BYTES \<and>
    (case cx_capability_state ctx of None \<Rightarrow> True
     | Some state \<Rightarrow> \<not> cc_is_stale state \<and>
         (\<exists>c t rt. c \<in> set (cc_capabilities state) \<and> cap_name c = ''workspace.root_access'' \<and>
            cap_status c = CS_available \<and> actionTargetPath cwd a = Some t \<and>
            capabilityWorkspaceRoot cwd c = Some rt \<and> isPathWithinWorkspaceRoot t rt))"
proof -
  have ask: "po_decision x = Ask" if "evaluateFilesystemCapabilityState cwd s a ctx b = Some x" for x b
    using fs_capability_ask [OF that] by simp
  have no_snap: "po_decision (or_else (evaluateFilesystemCapabilityState cwd s a ctx True) y) \<noteq> Allow"
    if "po_decision y \<noteq> Allow" for y
    using that ask by (cases "evaluateFilesystemCapabilityState cwd s a ctx True") auto
  have branch: "locator_of a \<noteq> [] \<and> ''scope'' \<notin> set (ts_unknowns (scope a)) \<and>
    \<not> confidence_triggered (cx_compiled_policy ctx) a \<and>
    js_coalesce (facet_field a ''filesystem'' ''operation'') (JStr (op_kind (operation a))) \<noteq> JStr ''delete'' \<and>
    js_le_num (js_coalesce (facet_field a ''filesystem'' ''byte_length'') (JNum 0)) SAFE_FS_WRITE_BYTES \<and>
    evaluateFilesystemCapabilityState cwd s a ctx False = None"
    using assms ask unfolding evaluateFilesystem_def Let_def
    by (cases "evaluateFilesystemCapabilityState cwd s a ctx False")
      (auto simp: no_snap split: if_splits)
  then show ?thesis using fs_capability_clear [of cwd s a ctx False] by (auto split: option.split)
qed

theorem evaluateFilesystem_allow_witness:
  "\<not> confidence_triggered None (sample_write ''/ws/a'')"
proof -
  have "po_decision (evaluateFilesystem ''/ws'' (''p'', ''t'') (sample_write ''/ws/a'') empty_context) = Allow"
    by code_simp
  then show ?thesis using evaluateFilesystem_allow by (fastforce simp: empty_context_def)
qed

lemma mcp_deny_decision [simp]: "po_decision (mcp_deny s a c m r) = Deny"
  by (simp add: mcp_deny_def)

lemma mcp_tool_decision:
  "po_decision (mcp_tool_outcome s a t) =
     (if mt_side_effect_level t = SE_read_only \<and> mt_approval_mode t \<noteq> Some AM_ask then Allow else Ask)"
  by (simp add: mcp_tool_outcome_def Let_def)

lemma evaluateMcp_decision:
  "po_decision (evaluateMcp s a ctx) =
     (if ep_credential_mode (execution_path a) = CM_direct \<or> mcp_profile_denial (read_mcp_facet a) \<noteq> None then Deny
      else case cx_mcp_servers ctx of None \<Rightarrow> Deny | Some servers \<Rightarrow>
        (case find (\<lambda>s. ms_server_id s = mf_server_id (read_mcp_facet a)) servers of None \<Rightarrow> Deny | Some server \<Rightarrow>
          (case find (\<lambda>t. mt_tool_name t = mf_tool_name (read_mcp_facet a)) (ms_tools server) of None \<Rightarrow> Deny
           | Some t \<Rightarrow> po_decision (mcp_tool_outcome s a t))))"
proof (cases "ep_credential_mode (execution_path a) = CM_direct")
  case False
  show ?thesis
  proof (cases "mcp_profile_denial (read_mcp_facet a)")
    case None
    with False show ?thesis unfolding evaluateMcp_def Let_def
      by (simp only: if_False option.case not_True_eq_False simp_thms)
        (simp split: option.split)
  next
    case (Some t)
    with False show ?thesis unfolding evaluateMcp_def Let_def by (cases t) simp
  qed
qed (simp add: evaluateMcp_def Let_def)

lemma if_Some_None: "(if b then Some x else y) = None \<longleftrightarrow> \<not> b \<and> y = None"
  by simp

lemma case_option_ex: "(case x of None \<Rightarrow> False | Some m \<Rightarrow> P m) \<longleftrightarrow> (\<exists>m. x = Some m \<and> P m)"
  by (cases x) simp_all

lemma mcp_profile_usable:
  "mcp_profile_denial f = None \<longleftrightarrow>
     (mf_candidate_id f = [] \<or> mf_server_profile_id f \<noteq> []) \<and> mf_profile_status f \<in> {None, Some ''active''} \<and>
     mf_drift_state f \<noteq> Some ''drifted'' \<and>
     (\<forall>m. mf_execution_mode_requested f = Some m \<longrightarrow> mf_allowed_execution_modes f = [] \<or> m \<in> set (mf_allowed_execution_modes f)) \<and>
     \<not> (mf_execution_mode_requested f = Some ''hosted_delegated'' \<and> mf_credential_binding_mode f = Some ''session_token'')"
  unfolding mcp_profile_denial_def Let_def if_Some_None case_option_ex
  by (simp only: de_Morgan_conj not_not not_ex imp_conv_disj simp_thms disj_assoc)

lemma evaluateMcp_allow:
  "po_decision (evaluateMcp s a ctx) = Allow \<longleftrightarrow>
     ep_credential_mode (execution_path a) \<noteq> CM_direct \<and> mcp_profile_denial (read_mcp_facet a) = None \<and>
     (\<exists>servers server tool. cx_mcp_servers ctx = Some servers \<and>
        find (\<lambda>s. ms_server_id s = mf_server_id (read_mcp_facet a)) servers = Some server \<and>
        find (\<lambda>t. mt_tool_name t = mf_tool_name (read_mcp_facet a)) (ms_tools server) = Some tool \<and>
        mt_side_effect_level tool = SE_read_only \<and> mt_approval_mode tool \<noteq> Some AM_ask)"
  unfolding evaluateMcp_decision mcp_tool_decision
  by (cases "mcp_profile_denial (read_mcp_facet a)") (auto split: option.splits if_splits)

lemma overlay_allow:
  "po_decision (applyPolicyOverlay b v) = Allow \<longleftrightarrow> po_decision b = Allow \<and> (\<forall>x. v = Some x \<longrightarrow> po_decision x = Allow)"
proof (cases v)
  case (Some x)
  have "d = Allow \<longleftrightarrow> POLICY_DECISION_STRENGTH d \<le> POLICY_DECISION_STRENGTH Allow" for d by (cases d) simp_all
  then show ?thesis unfolding Some by (simp add: overlay_strength)
qed (simp add: applyPolicyOverlay_def)


definition sample_mcp_call :: action_record where
  "sample_mcp_call = sample_action ''mcp'' ''call_tool'' SE_read_only ''notes/search''
     [(''mcp'', JObj [(''server_id'', JStr ''notes''), (''tool_name'', JStr ''search''), (''profile_status'', JStr ''active'')])]"

definition sample_registry :: "mcp_server_definition list" where
  "sample_registry =
     [\<lparr>ms_server_id = ''notes'', ms_tools = [\<lparr>mt_tool_name = ''search'', mt_side_effect_level = SE_read_only, mt_approval_mode = None\<rparr>]\<rparr>]"


lemma ticket_function_decision:
  "po_decision (ticket_function_outcome s a ctx c) \<noteq> Allow \<and>
   (po_decision (ticket_function_outcome s a ctx c) = AllowWithSnapshot \<longrightarrow>
      ep_credential_mode (execution_path a) = CM_brokered)"
proof (cases "ticket_capability_outcome s a ctx")
  case (Some x)
  then show ?thesis using ticket_capability_ask [OF Some] by (simp add: ticket_function_outcome_def Let_def)
qed (simp add: ticket_function_outcome_def Let_def)

lemma owned_function_decision:
  "po_decision (owned_function_outcome s a m n r c) =
     (if ep_credential_mode (execution_path a) = CM_direct then Deny else AllowWithSnapshot)"
  by (simp add: owned_function_outcome_def)

lemma nonempty_truthy: "js_nonempty_string v \<Longrightarrow> js_truthy v"
  by (cases v) (auto simp: js_nonempty_string_def)

definition owned_ticket_action :: "'a normalized_action_scheme \<Rightarrow> bool" where
  "owned_ticket_action a =
     (js_coalesce (facet_field a ''function'' ''integration'') (JStr ''unknown'') = JStr ''tickets'' \<and>
      js_coalesce (facet_field a ''function'' ''operation'') (JStr (op_kind (operation a))) \<in> set ticket_operations)"

definition function_gate :: "action_record \<Rightarrow> policy_outcome \<Rightarrow> bool" where
  "function_gate a x =
     (po_decision x \<noteq> Allow \<and>
      (po_decision x = AllowWithSnapshot \<longrightarrow>
         js_truthy (facet_field a ''function'' ''trusted_compensator'') \<and>
         ep_credential_mode (execution_path a) \<noteq> CM_direct \<and>
         (owned_ticket_action a \<longrightarrow> ep_credential_mode (execution_path a) = CM_brokered)))"

lemma function_gate_if:
  "(b \<Longrightarrow> function_gate a x) \<Longrightarrow> (\<not> b \<Longrightarrow> function_gate a y) \<Longrightarrow> function_gate a (if b then x else y)"
  by simp

lemma function_gate_ask: "function_gate a (makeOutcome s a Ask rs ms t r)"
  by (simp add: function_gate_def)

lemma function_gate_ticket:
  "js_truthy (facet_field a ''function'' ''trusted_compensator'') \<Longrightarrow>
     function_gate a (ticket_function_outcome s a ctx c)"
  using ticket_function_decision [of s a ctx c] by (auto simp: function_gate_def)

lemma function_gate_owned:
  "js_truthy (facet_field a ''function'' ''trusted_compensator'') \<Longrightarrow> \<not> owned_ticket_action a \<Longrightarrow>
     function_gate a (owned_function_outcome s a m n r c)"
  by (auto simp: function_gate_def owned_function_decision)

lemma function_gate_boundary:
  "has_recoverable_function_boundary a \<Longrightarrow>
     \<not> (owned_ticket_action a \<and> js_truthy (facet_field a ''function'' ''trusted_compensator'')) \<Longrightarrow>
     function_gate a (makeOutcome s a AllowWithSnapshot rs ms t r)"
  using nonempty_truthy by (auto simp: function_gate_def has_recoverable_function_boundary_def)

lemma evaluateFunction_gate: "function_gate a (evaluateFunction s a ctx)"
  unfolding evaluateFunction_def Let_def
  by (intro function_gate_if function_gate_ask function_gate_ticket function_gate_owned function_gate_boundary)
    (auto simp: owned_ticket_action_def)

text \<open>C15: the function evaluator never allows an action without a snapshot; with one it is allowed
  only when the action declares a trusted compensator and carries no direct credentials, and for an
  owned ticket mutation only with brokered credentials.\<close>

theorem evaluateFunction_gates:
  "po_decision (evaluateFunction s a ctx) \<noteq> Allow \<and>
   (po_decision (evaluateFunction s a ctx) = AllowWithSnapshot \<longrightarrow>
      js_truthy (facet_field a ''function'' ''trusted_compensator'') \<and>
      ep_credential_mode (execution_path a) \<noteq> CM_direct \<and>
      (owned_ticket_action a \<longrightarrow> ep_credential_mode (execution_path a) = CM_brokered))"
  using evaluateFunction_gate [of a s ctx] by (simp add: function_gate_def)

definition sample_ticket :: action_record where
  "sample_ticket = (sample_action ''function'' ''create_ticket'' SE_mutating ''tickets''
     [(''function'', JObj [(''integration'', JStr ''tickets''), (''operation'', JStr ''create_ticket''),
                          (''trusted_compensator'', JStr ''tickets.delete'')])])
     \<lparr>execution_path := \<lparr>ep_surface = SF_sdk_function, ep_mode = EM_pre_execution, ep_credential_mode = CM_brokered\<rparr>\<rparr>"

theorem evaluateFunction_gates_witness:
  "ep_credential_mode (execution_path sample_ticket) = CM_brokered"
proof -
  have "po_decision (evaluateFunction (''p'', ''t'') sample_ticket empty_context) = AllowWithSnapshot"
    "owned_ticket_action sample_ticket" by code_simp+
  then show ?thesis using evaluateFunction_gates by blast
qed

end
