(* ===== verification/Policy_Calibration.thy ===== *)
theory Policy_Calibration
  imports Policy_Theorems
begin

text \<open>
  Threshold recommendations and replay of \<open>packages/policy-engine/src/index.ts\<close>:
  \<open>recommendPolicyThresholds\<close> proposes a new low-confidence threshold per action family from a
  calibration report, \<open>replayPolicyThresholds\<close> evaluates recorded actions under candidate thresholds
  and counts what would change. The collation of \<open>localeCompare\<close> is the argument \<open>lc\<close>; the stamps
  of replayed outcomes do not reach the report, one pair serves all of them.
\<close>

section \<open>Recommendations\<close>

datatype approval_status = AS_pending | AS_approved | AS_denied

record calibration_sample =
  sm_action_family :: string
  sm_decision :: decision
  sm_confidence_score :: rat
  sm_approval_status :: "approval_status option"

record family_bucket =
  fb_action_family :: string
  fb_sample_count :: nat
  fb_requested :: nat
  fb_approved :: nat
  fb_denied :: nat
  fb_confidence_min :: "rat option"
  fb_confidence_max :: "rat option"

record calibration_report =
  cp_action_families :: "family_bucket list"
  cp_samples :: "calibration_sample list option"

record recommendation_options =
  ro_min_samples :: "nat option"
  ro_tighten_buffer :: "rat option"
  ro_relax_buffer :: "rat option"

datatype direction = Tighten | Relax | Hold

record recommendation =
  rm_action_family :: string
  rm_current :: "rat option"
  rm_recommended :: "rat option"
  rm_direction :: direction
  rm_sample_count :: nat
  rm_requested :: nat
  rm_approved :: nat
  rm_denied :: nat
  rm_confidence_min :: "rat option"
  rm_confidence_max :: "rat option"
  rm_denied_max :: "rat option"
  rm_approved_min :: "rat option"
  rm_rationale :: string
  rm_requires_update :: bool
  rm_automatic :: bool

definition roundThreshold :: "rat \<Rightarrow> rat" where
  "roundThreshold v = to_fixed 3 (clamp01 v)"

definition fixed3 :: "rat \<Rightarrow> string" where
  \<comment> \<open>\<open>x.toFixed(3)\<close> of a non-negative number\<close>
  "fixed3 x =
     (let n = nat \<lfloor>x * 1000 + 1 / 2\<rfloor>; f = n mod 1000 in
      nat_digits (n div 1000) @ ''.'' @
      [char_of (f div 100 + 48), char_of (f div 10 mod 10 + 48), char_of (f mod 10 + 48)])"

definition list_max :: "rat list \<Rightarrow> rat option" where
  "list_max xs = (case xs of [] \<Rightarrow> None | y # ys \<Rightarrow> Some (foldl max y ys))"

definition list_min :: "rat list \<Rightarrow> rat option" where
  "list_min xs = (case xs of [] \<Rightarrow> None | y # ys \<Rightarrow> Some (foldl min y ys))"

definition scores_with :: "approval_status \<Rightarrow> string \<Rightarrow> calibration_report \<Rightarrow> rat list" where
  \<comment> \<open>confidence scores of the samples of a family with one approval status\<close>
  "scores_with st family report =
     map sm_confidence_score
       (filter (\<lambda>s. sm_approval_status s = Some st)
         (filter (\<lambda>s. sm_action_family s = family)
           (case cp_samples report of None \<Rightarrow> [] | Some xs \<Rightarrow> xs)))"

definition base_recommendation ::
  "calibration_report \<Rightarrow> rat option \<Rightarrow> family_bucket \<Rightarrow> recommendation" where
  \<comment> \<open>the fields all four results share\<close>
  "base_recommendation report current family =
     \<lparr>rm_action_family = fb_action_family family, rm_current = current, rm_recommended = current,
      rm_direction = Hold, rm_sample_count = fb_sample_count family, rm_requested = fb_requested family,
      rm_approved = fb_approved family, rm_denied = fb_denied family,
      rm_confidence_min = fb_confidence_min family, rm_confidence_max = fb_confidence_max family,
      rm_denied_max = list_max (scores_with AS_denied (fb_action_family family) report),
      rm_approved_min = list_min (scores_with AS_approved (fb_action_family family) report),
      rm_rationale = ''Hold: observed approvals do not justify a threshold change.'',
      rm_requires_update = False, rm_automatic = False\<rparr>"

definition tighten_to :: "rat \<Rightarrow> rat option \<Rightarrow> rat option \<Rightarrow> rat option" where
  \<comment> \<open>the tighter threshold, where denials justify one\<close>
  "tighten_to buffer current denied_max =
     (case denied_max of None \<Rightarrow> None
      | Some d \<Rightarrow>
          (let recommended = roundThreshold (max (case current of None \<Rightarrow> 0 | Some c \<Rightarrow> c) (d + buffer)) in
           case current of None \<Rightarrow> Some recommended
           | Some c \<Rightarrow> (if c < recommended then Some recommended else None)))"

definition relax_to :: "rat \<Rightarrow> family_bucket \<Rightarrow> rat option \<Rightarrow> rat option \<Rightarrow> rat option" where
  "relax_to buffer family current approved_min =
     (case (current, approved_min) of
        (Some c, Some a) \<Rightarrow>
          (let recommended = roundThreshold (min c (a - buffer)) in
           if 0 < fb_requested family \<and> fb_denied family = 0 \<and> fb_approved family = fb_requested family \<and>
              recommended < c
           then Some recommended else None)
      | _ \<Rightarrow> None)"

definition recommend_with ::
  "nat \<Rightarrow> rat \<Rightarrow> rat \<Rightarrow> calibration_report \<Rightarrow> rat option \<Rightarrow> family_bucket \<Rightarrow> recommendation" where
  "recommend_with min_samples tighten_buffer relax_buffer report current family =
     (let base = base_recommendation report current family in
      if fb_sample_count family < min_samples then
        base\<lparr>rm_rationale := ''Hold: only '' @ nat_digits (fb_sample_count family) @ '' sample''
               @ (if fb_sample_count family = 1 then [] else ''s'') @ '' observed; need at least ''
               @ nat_digits min_samples @ ''.''\<rparr>
      else (case tighten_to tighten_buffer current (rm_denied_max base) of
        Some r \<Rightarrow>
          base\<lparr>rm_recommended := Some r, rm_direction := Tighten, rm_requires_update := True,
               rm_rationale := ''Tighten: denied approvals were observed up to confidence ''
                 @ (case rm_denied_max base of None \<Rightarrow> [] | Some d \<Rightarrow> fixed3 d) @ ''.''\<rparr>
      | None \<Rightarrow>
         (case relax_to relax_buffer family current (rm_approved_min base) of
            Some r \<Rightarrow>
              base\<lparr>rm_recommended := Some r, rm_direction := Relax, rm_requires_update := True,
                   rm_rationale := ''Relax with human review: all approval-gated samples were approved, with lowest approved confidence ''
                     @ (case rm_approved_min base of None \<Rightarrow> [] | Some a \<Rightarrow> fixed3 a) @ ''.''\<rparr>
          | None \<Rightarrow> base)))"

definition recommend_family ::
  "calibration_report \<Rightarrow> compiled_pack option \<Rightarrow> recommendation_options \<Rightarrow> family_bucket \<Rightarrow> recommendation" where
  "recommend_family report pack options family =
     recommend_with
       (case ro_min_samples options of None \<Rightarrow> 5 | Some n \<Rightarrow> n)
       (case ro_tighten_buffer options of None \<Rightarrow> 1 / 100 | Some b \<Rightarrow> b)
       (case ro_relax_buffer options of None \<Rightarrow> 1 / 100 | Some b \<Rightarrow> b)
       report (resolvePolicyLowConfidenceThreshold pack (fb_action_family family)) family"

definition recommendPolicyThresholds ::
  "calibration_report \<Rightarrow> compiled_pack option \<Rightarrow> recommendation_options \<Rightarrow> recommendation list" where
  "recommendPolicyThresholds report pack options =
     map (recommend_family report pack options) (cp_action_families report)"

section \<open>Replay\<close>

record replay_record =
  rr_run_id :: string
  rr_action_id :: string
  rr_evaluated_at :: string
  rr_action_family :: string
  rr_recorded_decision :: decision
  rr_approval_status :: "approval_status option"
  rr_confidence_score :: rat
  rr_action :: "action_record option"

record replay_counts =
  replayable_samples :: nat
  skipped_samples :: nat
  changed_decisions :: nat
  unchanged_decisions :: nat
  current_approvals_requested :: nat
  candidate_approvals_requested :: nat
  approvals_reduced :: nat
  approvals_increased :: nat
  historically_denied_auto_allowed :: nat
  historically_approved_auto_allowed :: nat
  historically_allowed_newly_gated :: nat
  current_matches_recorded :: nat
  current_diverges_from_recorded :: nat

definition emptyReplaySummary :: replay_counts where
  "emptyReplaySummary =
     \<lparr>replayable_samples = 0, skipped_samples = 0, changed_decisions = 0, unchanged_decisions = 0,
      current_approvals_requested = 0, candidate_approvals_requested = 0, approvals_reduced = 0,
      approvals_increased = 0, historically_denied_auto_allowed = 0,
      historically_approved_auto_allowed = 0, historically_allowed_newly_gated = 0,
      current_matches_recorded = 0, current_diverges_from_recorded = 0\<rparr>"

record family_summary =
  fs_current :: "rat option"
  fs_candidate :: "rat option"
  fs_counts :: replay_counts

datatype change_kind =
  Approval_removed | Approval_added | Unsafe_auto_allow | Historical_allow_now_gated | Decision_changed

record changed_sample =
  ch_run_id :: string
  ch_action_id :: string
  ch_evaluated_at :: string
  ch_action_family :: string
  ch_confidence_score :: rat
  ch_recorded :: decision
  ch_current :: decision
  ch_candidate :: decision
  ch_approval_status :: "approval_status option"
  ch_current_triggered :: bool
  ch_candidate_triggered :: bool
  ch_kind :: change_kind
  ch_summary :: string

definition arrow :: "policy_outcome \<Rightarrow> policy_outcome \<Rightarrow> string" where
  "arrow current candidate =
     '' ('' @ decision_str (po_decision current) @ '' -> '' @ decision_str (po_decision candidate) @ '').''"

definition historically_automatic :: "replay_record \<Rightarrow> bool" where
  "historically_automatic r =
     (rr_approval_status r = None \<and> rr_recorded_decision r \<in> {Allow, AllowWithSnapshot})"

definition classifyReplayChange ::
  "replay_record \<Rightarrow> policy_outcome \<Rightarrow> policy_outcome \<Rightarrow> change_kind \<times> string" where
  "classifyReplayChange r current candidate =
     (if approval_required current \<and> \<not> approval_required candidate then
        (if rr_approval_status r = Some AS_denied
         then (Unsafe_auto_allow, ''Historical denial would become automatic'' @ arrow current candidate)
         else (Approval_removed, ''Approval gate removed'' @ arrow current candidate))
      else if \<not> approval_required current \<and> approval_required candidate then
        (if historically_automatic r
         then (Historical_allow_now_gated,
               ''Historically automatic action would now require approval'' @ arrow current candidate)
         else (Approval_added, ''Approval gate added'' @ arrow current candidate))
      else (Decision_changed, ''Decision changes from '' @ decision_str (po_decision current)
              @ '' to '' @ decision_str (po_decision candidate) @ ''.''))"

definition normalizeReplayCandidateThresholds ::
  "(string \<Rightarrow> string \<Rightarrow> int) \<Rightarrow> low_confidence_threshold list \<Rightarrow> low_confidence_threshold list" where
  \<comment> \<open>a family given twice keeps its first place and its last value\<close>
  "normalizeReplayCandidateThresholds lc thresholds =
     map (\<lambda>(f, b). \<lparr>lt_action_family = f, lt_ask_below = b\<rparr>)
       (js_sort (\<lambda>x y. lc (fst x) (fst y))
         (foldl (\<lambda>acc t. AList.update (lt_action_family t) (roundThreshold (lt_ask_below t)) acc) [] thresholds))"

definition overlayLowConfidenceThresholds ::
  "compiled_pack option \<Rightarrow> low_confidence_threshold list \<Rightarrow> compiled_pack" where
  "overlayLowConfidenceThresholds pack thresholds =
     (let base = compiled_or_default pack in
      base\<lparr>pk_low_confidence :=
        foldl (\<lambda>acc t. AList.update (lt_action_family t) (lt_ask_below t) acc) (pk_low_confidence base) thresholds\<rparr>)"

text \<open>One replayed record updates the summary of its family and the total in the same way.\<close>

definition tick :: "bool \<Rightarrow> nat \<Rightarrow> nat" where
  "tick b n = (if b then n + 1 else n)"

definition count_skipped :: "replay_counts \<Rightarrow> replay_counts" where
  "count_skipped c = c\<lparr>skipped_samples := skipped_samples c + 1\<rparr>"

definition count_replayed ::
  "replay_record \<Rightarrow> policy_outcome \<Rightarrow> policy_outcome \<Rightarrow> replay_counts \<Rightarrow> replay_counts" where
  "count_replayed r current candidate c =
     (let cur = approval_required current; cand = approval_required candidate;
          reduced = (cur \<and> \<not> cand); increased = (\<not> cur \<and> cand);
          matches = (po_decision current = rr_recorded_decision r);
          same = (po_decision current = po_decision candidate) in
      c\<lparr>replayable_samples := replayable_samples c + 1,
        current_approvals_requested := tick cur (current_approvals_requested c),
        candidate_approvals_requested := tick cand (candidate_approvals_requested c),
        approvals_reduced := tick reduced (approvals_reduced c),
        historically_denied_auto_allowed :=
          tick (reduced \<and> rr_approval_status r = Some AS_denied) (historically_denied_auto_allowed c),
        historically_approved_auto_allowed :=
          tick (reduced \<and> rr_approval_status r = Some AS_approved) (historically_approved_auto_allowed c),
        approvals_increased := tick increased (approvals_increased c),
        historically_allowed_newly_gated :=
          tick (increased \<and> historically_automatic r) (historically_allowed_newly_gated c),
        current_matches_recorded := tick matches (current_matches_recorded c),
        current_diverges_from_recorded := tick (\<not> matches) (current_diverges_from_recorded c),
        unchanged_decisions := tick same (unchanged_decisions c),
        changed_decisions := tick (\<not> same) (changed_decisions c)\<rparr>)"

record replay_state =
  rs_summary :: replay_counts
  rs_families :: "(string \<times> family_summary) list"
  rs_changed :: "changed_sample list"

definition family_or_new :: "(string \<times> family_summary) list \<Rightarrow> string \<Rightarrow> family_summary" where
  "family_or_new m f =
     (case map_of m f of
        Some s \<Rightarrow> s
      | None \<Rightarrow> \<lparr>fs_current = None, fs_candidate = None, fs_counts = emptyReplaySummary\<rparr>)"

definition below :: "rat \<Rightarrow> rat option \<Rightarrow> bool" where
  "below s t = (case t of None \<Rightarrow> False | Some x \<Rightarrow> s < x)"

definition replay_context :: "compiled_pack \<Rightarrow> policy_context" where
  "replay_context p = empty_context\<lparr>cx_compiled_policy := Some p\<rparr>"

definition replay_step ::
  "regex_engine \<Rightarrow> string \<Rightarrow> eval_stamps \<Rightarrow> compiled_pack \<Rightarrow> compiled_pack \<Rightarrow> bool \<Rightarrow>
   replay_state \<Rightarrow> replay_record \<Rightarrow> replay_state" where
  "replay_step rx cwd st current_pack candidate_pack include st0 r =
     (let family = rr_action_family r; fam = family_or_new (rs_families st0) family in
      case rr_action r of
        None \<Rightarrow> st0\<lparr>rs_summary := count_skipped (rs_summary st0),
                    rs_families := AList.update family (fam\<lparr>fs_counts := count_skipped (fs_counts fam)\<rparr>)
                                     (rs_families st0)\<rparr>
      | Some a \<Rightarrow>
          (let current = evaluatePolicy rx cwd st a (replay_context current_pack);
               candidate = evaluatePolicy rx cwd st a (replay_context candidate_pack);
               t_current = resolvePolicyLowConfidenceThreshold (Some current_pack) (actionFamilyForAction a);
               t_candidate = resolvePolicyLowConfidenceThreshold (Some candidate_pack) (actionFamilyForAction a);
               change = classifyReplayChange r current candidate in
           st0\<lparr>rs_summary := count_replayed r current candidate (rs_summary st0),
               rs_families := AList.update family
                 (fam\<lparr>fs_current := t_current, fs_candidate := t_candidate,
                      fs_counts := count_replayed r current candidate (fs_counts fam)\<rparr>) (rs_families st0),
               rs_changed :=
                 (if po_decision current \<noteq> po_decision candidate \<and> include
                  then rs_changed st0 @
                    [\<lparr>ch_run_id = rr_run_id r, ch_action_id = rr_action_id r,
                      ch_evaluated_at = rr_evaluated_at r, ch_action_family = family,
                      ch_confidence_score = roundThreshold (rr_confidence_score r),
                      ch_recorded = rr_recorded_decision r,
                      ch_current = po_decision current, ch_candidate = po_decision candidate,
                      ch_approval_status = rr_approval_status r,
                      ch_current_triggered = below (rr_confidence_score r) t_current,
                      ch_candidate_triggered = below (rr_confidence_score r) t_candidate,
                      ch_kind = fst change, ch_summary = snd change\<rparr>]
                  else rs_changed st0)\<rparr>))"

record replay_options =
  op_include_changed_samples :: "bool option"
  op_sample_limit :: "nat option"

record replay_report =
  rp_candidate_thresholds :: "low_confidence_threshold list"
  rp_summary :: replay_counts
  rp_families :: "(string \<times> family_summary) list"
  rp_changed_samples :: "changed_sample list option"
  rp_samples_truncated :: bool

definition compare_families ::
  "(string \<Rightarrow> string \<Rightarrow> int) \<Rightarrow> string \<times> family_summary \<Rightarrow> string \<times> family_summary \<Rightarrow> int" where
  "compare_families lc l r =
     (let nl = replayable_samples (fs_counts (snd l)); nr = replayable_samples (fs_counts (snd r)) in
      if nr \<noteq> nl then int nr - int nl else lc (fst l) (fst r))"

definition replayPolicyThresholds ::
  "regex_engine \<Rightarrow> string \<Rightarrow> eval_stamps \<Rightarrow> (string \<Rightarrow> string \<Rightarrow> int) \<Rightarrow> replay_record list \<Rightarrow>
   compiled_pack option \<Rightarrow> low_confidence_threshold list \<Rightarrow> replay_options \<Rightarrow> replay_report" where
  "replayPolicyThresholds rx cwd st lc records pack thresholds options =
     (let normalized = normalizeReplayCandidateThresholds lc thresholds;
          current_pack = compiled_or_default pack;
          candidate_pack = overlayLowConfidenceThresholds (Some current_pack) normalized;
          include = (op_include_changed_samples options = Some True);
          limit = (case op_sample_limit options of None \<Rightarrow> 200 | Some n \<Rightarrow> n);
          final = foldl (replay_step rx cwd st current_pack candidate_pack include)
            \<lparr>rs_summary = emptyReplaySummary, rs_families = [], rs_changed = []\<rparr> records in
      \<lparr>rp_candidate_thresholds = normalized,
       rp_summary = rs_summary final,
       rp_families = js_sort (compare_families lc) (rs_families final),
       rp_changed_samples = (if include then Some (take limit (rs_changed final)) else None),
       rp_samples_truncated = (include \<and> limit < length (rs_changed final))\<rparr>)"

section \<open>What a recommendation promises\<close>

lemma roundThreshold_bounds: "0 \<le> roundThreshold v" "roundThreshold v \<le> 1"
  unfolding roundThreshold_def by (rule to_fixed_clamp01_bounds)+

lemma base_recommendation_sel [simp]:
  "rm_direction (base_recommendation rep c f) = Hold"
  "\<not> rm_requires_update (base_recommendation rep c f)"
  "\<not> rm_automatic (base_recommendation rep c f)"
  "rm_recommended (base_recommendation rep c f) = c"
  "rm_current (base_recommendation rep c f) = c"
  by (simp_all add: base_recommendation_def)

lemma recommend_with_cases:
  fixes ms tb rb rep c f
  defines "r \<equiv> recommend_with ms tb rb rep c f"
  obtains (hold) "rm_direction r = Hold" "\<not> rm_requires_update r" "rm_recommended r = c"
  | (tighten) x where "ms \<le> fb_sample_count f" "rm_direction r = Tighten" "rm_requires_update r" "rm_recommended r = Some x"
      "tighten_to tb c (rm_denied_max r) = Some x"
  | (relax) x where "ms \<le> fb_sample_count f" "rm_direction r = Relax" "rm_requires_update r" "rm_recommended r = Some x"
      "relax_to rb f c (rm_approved_min r) = Some x"
proof (cases "fb_sample_count f < ms")
  case True
  then show thesis by (intro hold) (simp_all add: r_def recommend_with_def)
next
  case False
  let ?b = "base_recommendation rep c f"
  show thesis
  proof (cases "tighten_to tb c (rm_denied_max ?b)")
    case (Some x)
    with False show thesis by (intro tighten [of x]) (simp_all add: r_def recommend_with_def Let_def)
  next
    case None
    show thesis
    proof (cases "relax_to rb f c (rm_approved_min ?b)")
      case None': None
      with False None show thesis by (intro hold) (simp_all add: r_def recommend_with_def Let_def)
    next
      case (Some x)
      with False None show thesis by (intro relax [of x]) (simp_all add: r_def recommend_with_def Let_def)
    qed
  qed
qed

lemma recommend_with_fixed [simp]:
  "\<not> rm_automatic (recommend_with ms tb rb rep c f)"
  "rm_current (recommend_with ms tb rb rep c f) = c"
  "rm_denied_max (recommend_with ms tb rb rep c f) = list_max (scores_with AS_denied (fb_action_family f) rep)"
  "rm_approved_min (recommend_with ms tb rb rep c f) = list_min (scores_with AS_approved (fb_action_family f) rep)"
  by (simp_all add: recommend_with_def base_recommendation_def Let_def split: option.split)

lemma foldl_max_ge: "y \<le> foldl max y (xs :: rat list)" "x \<in> set xs \<Longrightarrow> x \<le> foldl max y xs"
  by (induction xs arbitrary: y) (auto intro: order_trans [OF max.cobounded1] order_trans [OF max.cobounded2])

lemma list_max_ge: "list_max xs = Some m \<Longrightarrow> x \<in> set xs \<Longrightarrow> x \<le> m"
  by (auto simp: list_max_def foldl_max_ge split: list.splits)

lemma roundThreshold_above:
  assumes "d < 1" "1 / 2000 < b" shows "d < roundThreshold (max c (d + b))"
proof -
  let ?v = "clamp01 (max c (d + b))"
  have v: "d + 1 / 2000 < ?v \<or> ?v = 1" using assms by (auto simp: clamp01_def)
  have "?v * 1000 - 1 / 2 < of_int \<lfloor>?v * 1000 + 1 / 2\<rfloor>" by linarith
  then have "?v - 1 / 2000 < roundThreshold (max c (d + b))"
    by (simp add: roundThreshold_def to_fixed_def field_simps)
  moreover have "roundThreshold (max c (d + b)) = 1" if "?v = 1"
    using that by (simp add: roundThreshold_def)
  ultimately show ?thesis using v assms(1) by auto
qed

lemma roundThreshold_above_sample:
  assumes "d \<le> m" "d < 1" "1 / 2000 < b" shows "d < roundThreshold (max c (m + b))"
proof -
  have "max (max c (m + b)) (d + b) = max c (m + b)" using assms(1) by simp
  with roundThreshold_above [OF assms(2,3), of "max c (m + b)"] show ?thesis by simp
qed

lemma roundThreshold_below:
  assumes "0 < a" "1 / 2000 < b" shows "roundThreshold (min c (a - b)) < a"
proof (cases "min c (a - b) < 0")
  case True
  then show ?thesis using assms(1) by (simp add: roundThreshold_def clamp01_def to_fixed_def)
next
  case False
  let ?v = "clamp01 (min c (a - b))"
  have "?v \<le> a - b" using False by (auto simp: clamp01_def min_def max_def)
  moreover have "of_int \<lfloor>?v * 1000 + 1 / 2\<rfloor> \<le> ?v * 1000 + 1 / 2" by linarith
  then have "roundThreshold (min c (a - b)) \<le> ?v + 1 / 2000"
    by (simp add: roundThreshold_def to_fixed_def field_simps)
  ultimately show ?thesis using assms(2) by simp
qed

lemma list_min_le: "list_min xs = Some m \<Longrightarrow> x \<in> set xs \<Longrightarrow> m \<le> x"
proof -
  have "foldl min y xs \<le> y \<and> (\<forall>x \<in> set xs. foldl min y xs \<le> x)" for y :: rat and xs
    by (induction xs arbitrary: y) (auto intro: order_trans [OF _ min.cobounded1] order_trans [OF _ min.cobounded2])
  then show "list_min xs = Some m \<Longrightarrow> x \<in> set xs \<Longrightarrow> m \<le> x" by (auto simp: list_min_def split: list.splits)
qed

lemma list_max_None: "list_max xs = None \<longleftrightarrow> xs = []"
  by (simp add: list_max_def split: list.split)

definition min_samples_of :: "recommendation_options \<Rightarrow> nat" where
  "min_samples_of options = (case ro_min_samples options of None \<Rightarrow> 5 | Some n \<Rightarrow> n)"

definition beyond_rounding :: "rat option \<Rightarrow> bool" where
  \<comment> \<open>the buffer, one hundredth where none is given, exceeds half a rounding step\<close>
  "beyond_rounding b = (1 / 2000 < (case b of None \<Rightarrow> 1 / 100 | Some b \<Rightarrow> b))"

lemma tighten_to_hold:
  assumes "tighten_to b current (list_max xs) = None" "1 / 2000 < b" "d \<in> set xs" "d < 1"
  shows "\<exists>c. current = Some c \<and> d < c"
proof -
  obtain m where m: "list_max xs = Some m" using assms(3) list_max_None [of xs] by (cases "list_max xs") auto
  then have "d \<le> m" using list_max_ge assms(3) by blast
  note above = roundThreshold_above_sample [OF this assms(4,2)]
  show ?thesis
  proof (cases current)
    case (Some c)
    then show ?thesis using above [of c] assms(1) m by (auto simp: tighten_to_def Let_def split: if_splits)
  qed (use assms(1) m in \<open>simp add: tighten_to_def Let_def\<close>)
qed


definition sample_report :: calibration_report where
  "sample_report =
     \<lparr>cp_action_families =
        [\<lparr>fb_action_family = ''shell/exec'', fb_sample_count = 6, fb_requested = 2, fb_approved = 1, fb_denied = 1,
          fb_confidence_min = Some (1 / 10), fb_confidence_max = Some (6 / 10)\<rparr>],
      cp_samples = Some
        [\<lparr>sm_action_family = ''shell/exec'', sm_decision = Ask, sm_confidence_score = 1 / 2,
          sm_approval_status = Some AS_denied\<rparr>]\<rparr>"

definition default_options :: recommendation_options where
  "default_options = \<lparr>ro_min_samples = None, ro_tighten_buffer = None, ro_relax_buffer = None\<rparr>"


section \<open>Accounting of a replay\<close>

definition counts_balance :: "replay_counts \<Rightarrow> bool" where
  "counts_balance c =
     (changed_decisions c + unchanged_decisions c = replayable_samples c \<and>
      current_matches_recorded c + current_diverges_from_recorded c = replayable_samples c \<and>
      current_approvals_requested c + approvals_increased c = candidate_approvals_requested c + approvals_reduced c \<and>
      historically_denied_auto_allowed c + historically_approved_auto_allowed c \<le> approvals_reduced c \<and>
      historically_allowed_newly_gated c \<le> approvals_increased c \<and>
      approvals_reduced c + approvals_increased c \<le> changed_decisions c)"

lemma empty_balance [simp]: "counts_balance emptyReplaySummary"
  by (simp add: counts_balance_def emptyReplaySummary_def)

lemma skipped_changed [simp]: "changed_decisions (count_skipped c) = changed_decisions c"
  by (simp add: count_skipped_def)

lemma skipped_balance [simp]: "counts_balance (count_skipped c) = counts_balance c"
  by (simp add: counts_balance_def count_skipped_def)

lemma replayed_balance:
  assumes "counts_balance c" "outcome_ok x" "outcome_ok y"
  shows "counts_balance (count_replayed r x y c)"
proof -
  have "approval_required x \<longleftrightarrow> po_decision x = Ask" "approval_required y \<longleftrightarrow> po_decision y = Ask"
    using assms(2,3) by (simp_all add: outcome_ok_def)
  then show ?thesis using assms(1)
    by (cases "po_decision x = Ask"; cases "po_decision y = Ask"; cases "po_decision x = po_decision y";
        cases "po_decision x = rr_recorded_decision r"; cases "rr_approval_status r = Some AS_denied";
        cases "rr_approval_status r = Some AS_approved")
      (simp_all add: counts_balance_def count_replayed_def Let_def tick_def)
qed

definition samples_of :: "replay_counts \<Rightarrow> nat" where
  "samples_of c = replayable_samples c + skipped_samples c"

lemma samples_of_steps [simp]:
  "samples_of emptyReplaySummary = 0"
  "samples_of (count_skipped c) = Suc (samples_of c)"
  "samples_of (count_replayed r x y c) = Suc (samples_of c)"
  by (simp_all add: samples_of_def emptyReplaySummary_def count_skipped_def count_replayed_def Let_def)

text \<open>The families partition the samples.\<close>

definition family_total :: "(string \<times> family_summary) list \<Rightarrow> nat" where
  "family_total m = sum_list (map (\<lambda>(f, s). samples_of (fs_counts s)) m)"

lemma family_total_update:
  assumes "distinct (map fst m)" "samples_of (fs_counts s) = Suc (samples_of (fs_counts (family_or_new m f)))"
  shows "family_total (AList.update f s m) = Suc (family_total m)"
  using assms
proof (induction m)
  case (Cons p m)
  obtain g t where p: "p = (g, t)" by force
  show ?case
  proof (cases "f = g")
    case True
    with Cons.prems p show ?thesis by (simp add: family_total_def family_or_new_def)
  next
    case False
    with Cons p show ?thesis by (simp add: family_total_def family_or_new_def)
  qed
qed (simp add: family_total_def family_or_new_def)

definition families_balance :: "(string \<times> family_summary) list \<Rightarrow> bool" where
  "families_balance m = list_all (\<lambda>p. counts_balance (fs_counts (snd p))) m"

definition replay_inv :: "nat \<Rightarrow> replay_state \<Rightarrow> bool" where
  "replay_inv n st =
     (counts_balance (rs_summary st) \<and> samples_of (rs_summary st) = n \<and>
      distinct (map fst (rs_families st)) \<and> family_total (rs_families st) = n \<and>
      families_balance (rs_families st) \<and>
      length (rs_changed st) \<le> changed_decisions (rs_summary st))"

lemma family_or_new_balance:
  "families_balance m \<Longrightarrow> counts_balance (fs_counts (family_or_new m f))"
  by (auto simp: families_balance_def list_all_iff family_or_new_def dest!: map_of_SomeD split: option.split)

lemma update_balance:
  "families_balance m \<Longrightarrow> counts_balance (fs_counts s) \<Longrightarrow> families_balance (AList.update g s m)"
  by (induction m) (auto simp: families_balance_def)

lemma replay_step_inv:
  assumes "replay_inv n st0"
  shows "replay_inv (Suc n) (replay_step rx cwd st p q include st0 r)"
proof (cases "rr_action r")
  case None
  with assms show ?thesis
    using family_total_update [of "rs_families st0"] update_balance [of "rs_families st0"]
      family_or_new_balance [of "rs_families st0" "rr_action_family r"]
    by (simp add: replay_inv_def replay_step_def Let_def distinct_update)
next
  case (Some a)
  let ?x = "evaluatePolicy rx cwd st a (replay_context p)" and ?y = "evaluatePolicy rx cwd st a (replay_context q)"
  have ok: "outcome_ok ?x" "outcome_ok ?y" using evaluatePolicy_for by (auto simp: outcome_for_def)
  have "length (rs_changed (replay_step rx cwd st p q include st0 r))
      \<le> changed_decisions (count_replayed r ?x ?y (rs_summary st0))"
    using assms Some by (simp add: replay_inv_def replay_step_def Let_def count_replayed_def tick_def)
  then show ?thesis
    using assms Some replayed_balance [OF _ ok] family_total_update [of "rs_families st0"]
      update_balance [of "rs_families st0"] family_or_new_balance [of "rs_families st0" "rr_action_family r"]
    by (simp add: replay_inv_def replay_step_def Let_def distinct_update)
qed

lemma replay_fold_inv:
  "replay_inv n st0 \<Longrightarrow>
     replay_inv (n + length records) (foldl (replay_step rx cwd st p q include) st0 records)"
proof (induction records arbitrary: n st0)
  case (Cons r records)
  have "replay_inv (Suc n + length records) (foldl (replay_step rx cwd st p q include)
      (replay_step rx cwd st p q include st0 r) records)"
    by (rule Cons.IH) (rule replay_step_inv [OF Cons.prems])
  then show ?case by simp
qed simp

lemma family_total_insert: "family_total (js_insert cmp x m) = samples_of (fs_counts (snd x)) + family_total m"
  by (induction m) (auto simp: family_total_def split: prod.splits)

lemma family_total_sort: "family_total (js_sort cmp m) = family_total m"
  by (induction m) (simp_all add: family_total_insert, simp add: family_total_def split: prod.split)

text \<open>every record of a replay is counted exactly once, as skipped or as replayed, in the total and
  in one family; in each of them changed and unchanged decisions, and agreements and disagreements with
  the record, add up to the replayed ones, and the candidate approvals are the current ones less
  the removed gates plus the added ones.\<close>

theorem replayPolicyThresholds_accounting:
  "let rep = replayPolicyThresholds rx cwd st lc records pack thresholds options in
     samples_of (rp_summary rep) = length records \<and> family_total (rp_families rep) = length records \<and>
     counts_balance (rp_summary rep) \<and> families_balance (rp_families rep)"
proof -
  let ?p = "compiled_or_default pack"
  let ?q = "overlayLowConfidenceThresholds (Some ?p) (normalizeReplayCandidateThresholds lc thresholds)"
  let ?init = "\<lparr>rs_summary = emptyReplaySummary, rs_families = [], rs_changed = []\<rparr>"
  let ?s = "foldl (replay_step rx cwd st ?p ?q (op_include_changed_samples options = Some True)) ?init records"
  have start: "replay_inv 0 ?init"
    by (simp add: replay_inv_def family_total_def families_balance_def)
  have inv: "replay_inv (length records) ?s"
    using replay_fold_inv [OF start, of records] by (simp only: add_0)
  then have "family_total (js_sort (compare_families lc) (rs_families ?s)) = length records"
    by (simp add: family_total_sort replay_inv_def)
  with inv show ?thesis
    by (simp add: replayPolicyThresholds_def Let_def replay_inv_def families_balance_def list_all_iff)
qed

section \<open>Tighter thresholds never weaken a decision\<close>

definition same_but_threshold :: "policy_context \<Rightarrow> policy_context \<Rightarrow> action_record \<Rightarrow> bool" where
  \<comment> \<open>equal capability state, registry, budget and rules; the second context triggers the
    low-confidence branch at least where the first does\<close>
  "same_but_threshold c d a =
     (cx_capability_state c = cx_capability_state d \<and> cx_mcp_servers c = cx_mcp_servers d \<and>
      cx_run_summary c = cx_run_summary d \<and>
      pk_rules (compiled_or_default (cx_compiled_policy c)) = pk_rules (compiled_or_default (cx_compiled_policy d)) \<and>
      (confidence_triggered (cx_compiled_policy c) a \<longrightarrow> confidence_triggered (cx_compiled_policy d) a))"

lemma capability_state_cong:
  assumes "cx_capability_state c = cx_capability_state d"
  shows "evaluateFilesystemCapabilityState cwd s a c b = evaluateFilesystemCapabilityState cwd s a d b"
    and "evaluateShellCapabilityState s a c = evaluateShellCapabilityState s a d"
    and "ticket_capability_outcome s a c = ticket_capability_outcome s a d"
  unfolding evaluateFilesystemCapabilityState_def evaluateShellCapabilityState_def ticket_capability_outcome_def
    assms by (rule refl)+

abbreviation strength :: "policy_outcome \<Rightarrow> int" where
  "strength x \<equiv> POLICY_DECISION_STRENGTH (po_decision x)"

lemma fs_snapshot_strength:
  assumes "po_decision y \<in> {Allow, AllowWithSnapshot}" "po_decision z = AllowWithSnapshot"
  shows "strength (or_else (evaluateFilesystemCapabilityState cwd s a c b) y)
    \<le> strength (or_else (evaluateFilesystemCapabilityState cwd s a c True) z)"
proof (cases "evaluateFilesystemCapabilityState cwd s a c True")
  case None
  then have "evaluateFilesystemCapabilityState cwd s a c b = None"
    unfolding evaluateFilesystemCapabilityState_def Let_def by (auto split: option.splits if_splits)
  with None assms show ?thesis by auto
next
  case (Some x)
  have "po_decision (or_else (evaluateFilesystemCapabilityState cwd s a c b) y) \<in> {Ask, Allow, AllowWithSnapshot}"
    using assms(1) fs_capability_ask by (cases "evaluateFilesystemCapabilityState cwd s a c b") auto
  with Some fs_capability_ask [OF Some] show ?thesis by auto
qed

lemma evaluateFilesystem_mono:
  assumes "same_but_threshold c d a"
  shows "strength (evaluateFilesystem cwd s a c) \<le> strength (evaluateFilesystem cwd s a d)"
proof (cases "confidence_triggered (cx_compiled_policy c) a \<longleftrightarrow> confidence_triggered (cx_compiled_policy d) a")
  case True
  have cap: "cx_capability_state c = cx_capability_state d" using assms by (simp add: same_but_threshold_def)
  have "evaluateFilesystem cwd s a c = evaluateFilesystem cwd s a d"
    unfolding evaluateFilesystem_def True capability_state_cong(1) [OF cap] by (rule refl)
  then show ?thesis by simp
next
  case False
  then have t: "\<not> confidence_triggered (cx_compiled_policy c) a" "confidence_triggered (cx_compiled_policy d) a"
    and cap: "cx_capability_state c = cx_capability_state d"
    using assms by (auto simp: same_but_threshold_def)
  show ?thesis
  proof (cases "locator_of a = [] \<or> ''scope'' \<in> set (ts_unknowns (scope a))")
    case True
    then show ?thesis unfolding evaluateFilesystem_def Let_def by (simp only: if_True order_refl)
  next
    case False
    show ?thesis
      unfolding evaluateFilesystem_def Let_def capability_state_cong(1) [OF cap]
      by (simp only: False t if_True if_False not_False_eq_True split: if_split)
        (auto intro!: fs_snapshot_strength)
  qed
qed

lemma shell_ask_strength:
  "strength (or_else (evaluateShellCapabilityState s a c) (makeShellApprovalOutcome s a r m)) = 3"
  using shell_capability_ask [of s a c]
  by (cases "evaluateShellCapabilityState s a c") (auto simp: makeShellApprovalOutcome_def)

lemma evaluateShell_mono:
  assumes "same_but_threshold c d a"
  shows "strength (evaluateShell s a c) \<le> strength (evaluateShell s a d)"
proof (cases "confidence_triggered (cx_compiled_policy c) a \<longleftrightarrow> confidence_triggered (cx_compiled_policy d) a")
  case True
  have cap: "cx_capability_state c = cx_capability_state d" using assms by (simp add: same_but_threshold_def)
  have "evaluateShell s a c = evaluateShell s a d"
    unfolding evaluateShell_def True capability_state_cong(2) [OF cap] by (rule refl)
  then show ?thesis by simp
next
  case False
  then have t: "\<not> confidence_triggered (cx_compiled_policy c) a" "confidence_triggered (cx_compiled_policy d) a"
    using assms by (auto simp: same_but_threshold_def)
  show ?thesis
    unfolding evaluateShell_def Let_def case_prod_beta
    by (simp only: t if_True if_False shell_ask_strength split: if_split) simp
qed

lemma strength_if:
  "strength x \<le> strength x' \<Longrightarrow> strength y \<le> strength y' \<Longrightarrow>
     strength (if b then x else y) \<le> strength (if b then x' else y')"
  by simp

lemma strength_ask_if:
  "po_decision x = Ask \<Longrightarrow> po_decision y = Ask \<Longrightarrow> strength (if b then x else y) \<le> strength (if b' then x else y)"
  by simp

lemma evaluateFunction_mono:
  assumes "same_but_threshold c d a"
  shows "strength (evaluateFunction s a c) \<le> strength (evaluateFunction s a d)"
proof -
  have cap: "cx_capability_state c = cx_capability_state d" using assms by (simp add: same_but_threshold_def)
  have ticket: "ticket_function_outcome s a c v = ticket_function_outcome s a d v" for v
    unfolding ticket_function_outcome_def capability_state_cong(3) [OF cap] by (rule refl)
  show ?thesis
    unfolding evaluateFunction_def Let_def ticket
    by (rule strength_if [OF order_refl strength_if [OF order_refl strength_if [OF order_refl
          strength_if [OF order_refl strength_ask_if]]]]) (rule makeOutcome_decision)+
qed

lemma evaluateMcp_same:
  assumes "same_but_threshold c d a"
  shows "evaluateMcp s a c = evaluateMcp s a d"
proof -
  have servers: "cx_mcp_servers c = cx_mcp_servers d" using assms by (simp add: same_but_threshold_def)
  show ?thesis unfolding evaluateMcp_def servers by (rule refl)
qed

lemma evaluate_domain_mono:
  "same_but_threshold c d a \<Longrightarrow> strength (evaluate_domain cwd s a c) \<le> strength (evaluate_domain cwd s a d)"
  unfolding evaluate_domain_def
  using evaluateFilesystem_mono [of c d a cwd s] evaluateShell_mono [of c d a s]
    evaluateFunction_mono [of c d a s] evaluateMcp_same [of c d a s]
  by (simp only: split: if_split) simp

lemma overlay_mono: "strength b \<le> strength e \<Longrightarrow> strength (applyPolicyOverlay b v) \<le> strength (applyPolicyOverlay e v)"
  by (cases v) (auto simp: overlay_strength, simp add: applyPolicyOverlay_def)

lemma guardrail_strength_eq:
  "strength (enforceShellApprovalGuardrail a x) =
     (if domain_of a = ''shell'' \<and> strength x < 3 \<and> \<not> (side_effect a = SE_read_only \<and> strength x = 0)
      then 3 else strength x)"
  by (cases "po_decision x") (simp_all add: enforceShellApprovalGuardrail_def)

lemma guardrail_mono: "strength x \<le> strength y \<Longrightarrow>
    strength (enforceShellApprovalGuardrail a x) \<le> strength (enforceShellApprovalGuardrail a y)"
  unfolding guardrail_strength_eq using strength_bounds(1) [of "po_decision x"] by auto

lemma withBudgetEffects_mono:
  "strength x \<le> strength y \<Longrightarrow> strength (withBudgetEffects a x run) \<le> strength (withBudgetEffects a y run)"
  by (cases run) (simp_all add: withBudgetEffects_decision)

lemma evaluateCompiledPolicy_rules:
  "pk_rules p = pk_rules q \<Longrightarrow> evaluateCompiledPolicy rx s a p = evaluateCompiledPolicy rx s a q"
  by (simp add: evaluateCompiledPolicy_def matching_rules_def)

text \<open>The second context differs from the first only in its thresholds, and that for the family of the action is not below.\<close>

definition raised_threshold :: "policy_context \<Rightarrow> policy_context \<Rightarrow> action_record \<Rightarrow> bool" where
  "raised_threshold c d a =
     (cx_capability_state c = cx_capability_state d \<and> cx_mcp_servers c = cx_mcp_servers d \<and>
      cx_run_summary c = cx_run_summary d \<and>
      pk_rules (compiled_or_default (cx_compiled_policy c)) = pk_rules (compiled_or_default (cx_compiled_policy d)) \<and>
      (case resolvePolicyLowConfidenceThreshold (cx_compiled_policy c) (actionFamilyForAction a) of
         None \<Rightarrow> True
       | Some t \<Rightarrow> (case resolvePolicyLowConfidenceThreshold (cx_compiled_policy d) (actionFamilyForAction a) of
                      None \<Rightarrow> False | Some u \<Rightarrow> t \<le> u)))"

lemma raised_triggers: "raised_threshold c d a \<Longrightarrow> same_but_threshold c d a"
  by (auto simp: raised_threshold_def same_but_threshold_def confidence_triggered_def split: option.splits)

text \<open>C23: tightening a threshold cannot turn a denial or an approval gate into automatic execution. With the same rules,
  capabilities, registry and budget, a policy whose low-confidence threshold for the family of the action is the same or higher, or that has one
  where the other has none, never decides more weakly.\<close>

theorem evaluatePolicy_threshold_monotone:
  assumes "raised_threshold c d a"
  shows "POLICY_DECISION_STRENGTH (po_decision (evaluatePolicy rx cwd st a c))
    \<le> POLICY_DECISION_STRENGTH (po_decision (evaluatePolicy rx cwd st a d))"
proof -
  have same: "same_but_threshold c d a" using assms by (rule raised_triggers)
  let ?p = "compiled_or_default (cx_compiled_policy c)" and ?q = "compiled_or_default (cx_compiled_policy d)"
  have rules: "evaluateCompiledPolicy rx (es_overlay st) a ?p = evaluateCompiledPolicy rx (es_overlay st) a ?q"
    and run: "cx_run_summary c = cx_run_summary d"
    using same by (auto simp: same_but_threshold_def intro: evaluateCompiledPolicy_rules)
  show ?thesis
  proof (cases "evaluateCompiledPolicy rx (es_overlay st) a ?q")
    case None
    then show ?thesis using rules by (simp add: evaluatePolicy_None)
  next
    case (Some v)
    then show ?thesis unfolding evaluatePolicy_Some [OF Some] evaluatePolicy_Some [OF rules [unfolded Some]] run
      by (intro withBudgetEffects_mono guardrail_mono overlay_mono evaluate_domain_mono same)
  qed
qed

definition strict_pack :: compiled_pack where
  "strict_pack = overlayLowConfidenceThresholds None [\<lparr>lt_action_family = ''filesystem/write'', lt_ask_below = 1\<rparr>]"

theorem evaluatePolicy_threshold_monotone_witness:
  "POLICY_DECISION_STRENGTH (po_decision (evaluatePolicy js_regex_test ''/ws'' sample_stamps (sample_write ''/ws/a'') empty_context))
    \<le> POLICY_DECISION_STRENGTH (po_decision (evaluatePolicy js_regex_test ''/ws'' sample_stamps (sample_write ''/ws/a'')
         (empty_context\<lparr>cx_compiled_policy := Some strict_pack\<rparr>)))"
proof -
  have "resolvePolicyLowConfidenceThreshold None (actionFamilyForAction (sample_write ''/ws/a'')) = Some (3 / 10)"
    "resolvePolicyLowConfidenceThreshold (Some strict_pack) (actionFamilyForAction (sample_write ''/ws/a'')) = Some 1" by code_simp+
  then have "raised_threshold empty_context (empty_context\<lparr>cx_compiled_policy := Some strict_pack\<rparr>) (sample_write ''/ws/a'')"
    by (simp add: raised_threshold_def empty_context_def compiled_or_default_def strict_pack_def
        overlayLowConfidenceThresholds_def Let_def)
  then show ?thesis by (rule evaluatePolicy_threshold_monotone)
qed

end
