(* ===== verification/Snapshot_Select.thy ===== *)
theory Snapshot_Select
  imports Schemas
begin

text \<open>
  Choice of the snapshot class (\<open>selectSnapshotClass\<close> of \<open>packages/snapshot-engine/src/index.ts\<close>)
  with the metadata-only engine of that package. The function first picks a class from the action and then
  strengthens it by the history of the run; the two phases are \<open>base_snapshot_class\<close> and
  \<open>strengthen_snapshot_class\<close>, each returning the reason codes it pushes.
\<close>

section \<open>Classes and inputs\<close>

datatype snapshot_class = SC_metadata_only | SC_journal_only | SC_journal_plus_anchor | SC_exact_anchor

datatype snapshot_fidelity = SF_full | SF_partial | SF_metadata | SF_none

record snapshot_record =
  sr_snapshot_id :: string
  sr_action_id :: string
  sr_class :: snapshot_class
  sr_fidelity :: snapshot_fidelity
  sr_scope_paths :: "string list"
  sr_storage_bytes :: nat
  sr_created_at :: int

datatype capability_health = Healthy | Stale | Degraded

record selection_input =
  si_action :: action_record
  si_policy_decision :: decision
  si_capability_state :: "capability_health option"
  si_low_disk_pressure :: "bool option"
  si_chain_depth :: "nat option"
  si_ambiguous_shell :: "nat option"
  si_broad_mutations :: "nat option"
  si_reviewed_mutations :: "nat option"
  si_failed_mutations :: "nat option"
  si_branch_point :: "bool option"
  si_hard_checkpoint :: "bool option"

definition dflt :: "'a \<Rightarrow> 'a option \<Rightarrow> 'a" where
  \<comment> \<open>\<open>x ?? d\<close>\<close>
  "dflt d x = (case x of None \<Rightarrow> d | Some v \<Rightarrow> v)"

lemma dflt_simps [simp]: "dflt d None = d" "dflt d (Some v) = v"
  by (simp_all add: dflt_def)

definition snapshotOperationFamily :: "'a normalized_action_scheme \<Rightarrow> string" where
  "snapshotOperationFamily action =
     (if domain_of action = ''shell'' then
        ''shell/'' @ js_string_or ''unclassified'' (facet_field action ''shell'' ''command_family'')
      else if domain_of action = ''filesystem'' then
        ''filesystem/'' @ js_string_or (op_kind (operation action)) (facet_field action ''filesystem'' ''operation'')
      else if domain_of action = ''function'' then
        ''function/'' @ js_string_or (op_kind (operation action)) (facet_field action ''function'' ''operation'')
      else domain_of action @ ''/'' @ op_kind (operation action))"

definition uses_workspace_snapshot :: "'a normalized_action_scheme \<Rightarrow> bool" where
  "uses_workspace_snapshot action = (domain_of action = ''filesystem'' \<or> domain_of action = ''shell'')"

definition broad_breadths :: "scope_breadth set" where
  "broad_breadths = {SB_workspace, SB_repository, SB_origin, SB_external, SB_unknown}"

definition narrow_reversible :: "action_record \<Rightarrow> bool" where
  "narrow_reversible action =
     (domain_of action = ''filesystem'' \<and> ts_breadth (scope action) = SB_single \<and>
      ts_unknowns (scope action) = [] \<and> 9 / 10 \<le> score_of action \<and>
      9 / 10 \<le> nm_confidence (normalization action) \<and> side_effect action = SE_mutating \<and>
      rh_external_effects (risk action) = EE_none \<and> rh_reversibility_hint (risk action) = RV_reversible)"

section \<open>Selection\<close>

definition base_snapshot_class :: "selection_input \<Rightarrow> snapshot_class \<times> string list" where
  "base_snapshot_class input =
     (let action = si_action input; family = snapshotOperationFamily action;
          external = rh_external_effects (risk action) in
      if si_policy_decision input \<noteq> AllowWithSnapshot then (SC_metadata_only, [''policy.no_snapshot_required''])
      else if dflt False (si_hard_checkpoint input) then (SC_exact_anchor, [''snapshot.explicit_hard_checkpoint''])
      else if dflt False (si_branch_point input) then (SC_exact_anchor, [''snapshot.explicit_branch_point''])
      else if score_of action < 45 / 100 then (SC_exact_anchor, [''snapshot.low_confidence_branch_point''])
      else if family = ''shell/package_manager'' \<or> family = ''shell/build_tool''
      then (SC_exact_anchor, [''snapshot.opaque_workspace_wide_tooling''])
      else if uses_workspace_snapshot action \<and> external \<noteq> EE_none \<and> external \<noteq> EE_unknown
      then (SC_exact_anchor, [''snapshot.remote_side_effect_branch_point''])
      else if domain_of action = ''filesystem'' \<and> ts_breadth (scope action) \<in> broad_breadths
      then (SC_exact_anchor, [''snapshot.broad_scope_branch_point''])
      else if narrow_reversible action then (SC_journal_only, [''snapshot.narrow_reversible_mutation''])
      else if domain_of action = ''filesystem'' then (SC_journal_plus_anchor, [''snapshot.filesystem_recovery_boundary''])
      else if domain_of action = ''shell'' then
        (if score_of action < 7 / 10 \<or> rh_batch (risk action) \<or> ts_unknowns (scope action) \<noteq> []
         then (SC_exact_anchor, [''snapshot.shell_opaque_boundary''])
         else (SC_journal_plus_anchor, [''snapshot.shell_mutation_boundary'']))
      else (SC_metadata_only, [''snapshot.non_filesystem_metadata_only'']))"

definition journal_only_step ::
  "bool \<Rightarrow> string \<Rightarrow> snapshot_class \<times> string list \<Rightarrow> snapshot_class \<times> string list" where
  \<comment> \<open>\<open>if (c && snapshotClass === "journal_only") { snapshotClass = "journal_plus_anchor"; push }\<close>\<close>
  "journal_only_step c code st =
     (if c \<and> fst st = SC_journal_only then (SC_journal_plus_anchor, snd st @ [code]) else st)"

definition history_step :: "selection_input \<Rightarrow> snapshot_class \<times> string list \<Rightarrow> snapshot_class \<times> string list" where
  "history_step input st =
     (let action = si_action input in
      if fst st \<noteq> SC_exact_anchor \<and> 2 \<le> dflt 0 (si_ambiguous_shell input) \<and>
         (uses_workspace_snapshot action \<or> ts_breadth (scope action) \<noteq> SB_single \<or> ts_unknowns (scope action) \<noteq> [])
      then (SC_exact_anchor, snd st @ [''snapshot.repeated_ambiguous_shell_history''])
      else journal_only_step (1 \<le> dflt 0 (si_failed_mutations input)) ''snapshot.recent_failed_mutation_history''
             (journal_only_step (2 \<le> dflt 0 (si_reviewed_mutations input)) ''snapshot.repeated_reviewed_mutation_history''
               (journal_only_step (2 \<le> dflt 0 (si_broad_mutations input)) ''snapshot.repeated_broad_mutation_history'' st)))"

definition strengthen_snapshot_class ::
  "selection_input \<Rightarrow> snapshot_class \<times> string list \<Rightarrow> snapshot_class \<times> string list" where
  "strengthen_snapshot_class input st =
     (let st1 = journal_only_step (dflt Healthy (si_capability_state input) \<noteq> Healthy)
                  ''snapshot.capability_state_strengthened'' st;
          st2 = history_step input st1;
          st3 = (if dflt False (si_low_disk_pressure input)
                 then (fst st2, snd st2 @ [''snapshot.low_disk_pressure_observed'']) else st2) in
      if 25 \<le> dflt 0 (si_chain_depth input) \<and> fst st3 = SC_journal_plus_anchor
      then (SC_exact_anchor, snd st3 @ [''snapshot.deep_journal_chain_branch_point'']) else st3)"

record selection_basis =
  sb_operation_family :: string
  sb_scope_breadth :: scope_breadth
  sb_scope_unknowns :: "string list"
  sb_normalization_confidence :: rat
  sb_confidence_score :: rat
  sb_side_effect_level :: side_effect_level
  sb_external_effects :: external_effect
  sb_reversibility_hint :: reversibility_hint
  sb_capability_state :: capability_health
  sb_low_disk_pressure :: bool
  sb_chain_depth :: nat
  sb_ambiguous_shell :: nat
  sb_broad_mutations :: nat
  sb_reviewed_mutations :: nat
  sb_failed_mutations :: nat
  sb_branch_point :: bool
  sb_hard_checkpoint :: bool

record selection_result =
  sl_class :: snapshot_class
  sl_reason_codes :: "string list"
  sl_basis :: selection_basis

definition selection_basis_of :: "selection_input \<Rightarrow> selection_basis" where
  "selection_basis_of input =
     (let action = si_action input in
      \<lparr>sb_operation_family = snapshotOperationFamily action,
       sb_scope_breadth = ts_breadth (scope action),
       sb_scope_unknowns = ts_unknowns (scope action),
       sb_normalization_confidence = nm_confidence (normalization action),
       sb_confidence_score = score_of action,
       sb_side_effect_level = side_effect action,
       sb_external_effects = rh_external_effects (risk action),
       sb_reversibility_hint = rh_reversibility_hint (risk action),
       sb_capability_state = dflt Healthy (si_capability_state input),
       sb_low_disk_pressure = dflt False (si_low_disk_pressure input),
       sb_chain_depth = dflt 0 (si_chain_depth input),
       sb_ambiguous_shell = dflt 0 (si_ambiguous_shell input),
       sb_broad_mutations = dflt 0 (si_broad_mutations input),
       sb_reviewed_mutations = dflt 0 (si_reviewed_mutations input),
       sb_failed_mutations = dflt 0 (si_failed_mutations input),
       sb_branch_point = dflt False (si_branch_point input),
       sb_hard_checkpoint = dflt False (si_hard_checkpoint input)\<rparr>)"

definition selectSnapshotClass :: "selection_input \<Rightarrow> selection_result" where
  "selectSnapshotClass input =
     (let st = strengthen_snapshot_class input (base_snapshot_class input) in
      \<lparr>sl_class = fst st, sl_reason_codes = js_dedup (snd st), sl_basis = selection_basis_of input\<rparr>)"

section \<open>The metadata-only engine\<close>

text \<open>Its state is the list of identifiers it created, newest first; an identifier and a time come from
  the runtime.\<close>

definition createMetadataSnapshot :: "string \<Rightarrow> int \<Rightarrow> 'a normalized_action_scheme \<Rightarrow> snapshot_record" where
  "createMetadataSnapshot new_id now action =
     \<lparr>sr_snapshot_id = new_id, sr_action_id = action_id action, sr_class = SC_metadata_only,
      sr_fidelity = SF_metadata, sr_scope_paths = (if locator_of action \<noteq> [] then [locator_of action] else []),
      sr_storage_bytes = 0, sr_created_at = now\<rparr>"

definition metadata_create ::
  "string \<Rightarrow> int \<Rightarrow> 'a normalized_action_scheme \<Rightarrow> string list \<Rightarrow> snapshot_record \<times> string list" where
  "metadata_create new_id now action ids =
     (let snapshot = createMetadataSnapshot new_id now action in (snapshot, sr_snapshot_id snapshot # ids))"

definition metadata_verifyIntegrity :: "string \<Rightarrow> string list \<Rightarrow> bool" where
  "metadata_verifyIntegrity snapshot_id ids = (snapshot_id \<in> set ids)"

definition metadata_restore :: "string \<Rightarrow> string list \<Rightarrow> bool" where
  "metadata_restore snapshot_id ids = False"

section \<open>Facts\<close>

fun class_rank :: "snapshot_class \<Rightarrow> nat" where
  "class_rank SC_metadata_only = 0"
| "class_rank SC_journal_only = 1"
| "class_rank SC_journal_plus_anchor = 2"
| "class_rank SC_exact_anchor = 3"

lemma class_rank_inj: "class_rank c = class_rank d \<longleftrightarrow> c = d"
  by (cases c; cases d) simp_all

lemma class_rank_le_3: "class_rank c \<le> 3"
  by (cases c) simp_all

definition weaker_or_equal :: "selection_input \<Rightarrow> selection_input \<Rightarrow> bool" where
  \<comment> \<open>the same action and decision, the second input reporting at least as much trouble\<close>
  "weaker_or_equal i j =
     (si_action i = si_action j \<and> si_policy_decision i = si_policy_decision j \<and>
      (dflt Healthy (si_capability_state i) \<noteq> Healthy \<longrightarrow> dflt Healthy (si_capability_state j) \<noteq> Healthy) \<and>
      dflt 0 (si_chain_depth i) \<le> dflt 0 (si_chain_depth j) \<and>
      dflt 0 (si_ambiguous_shell i) \<le> dflt 0 (si_ambiguous_shell j) \<and>
      dflt 0 (si_broad_mutations i) \<le> dflt 0 (si_broad_mutations j) \<and>
      dflt 0 (si_reviewed_mutations i) \<le> dflt 0 (si_reviewed_mutations j) \<and>
      dflt 0 (si_failed_mutations i) \<le> dflt 0 (si_failed_mutations j) \<and>
      (dflt False (si_branch_point i) \<longrightarrow> dflt False (si_branch_point j)) \<and>
      (dflt False (si_hard_checkpoint i) \<longrightarrow> dflt False (si_hard_checkpoint j)))"

definition ambiguous_history :: "selection_input \<Rightarrow> bool" where
  "ambiguous_history i =
     (2 \<le> dflt 0 (si_ambiguous_shell i) \<and>
      (uses_workspace_snapshot (si_action i) \<or> ts_breadth (scope (si_action i)) \<noteq> SB_single \<or>
       ts_unknowns (scope (si_action i)) \<noteq> []))"

definition troubled :: "selection_input \<Rightarrow> bool" where
  "troubled i =
     (dflt Healthy (si_capability_state i) \<noteq> Healthy \<or> 1 \<le> dflt 0 (si_failed_mutations i) \<or>
      2 \<le> dflt 0 (si_reviewed_mutations i) \<or> 2 \<le> dflt 0 (si_broad_mutations i))"

lemma journal_only_step_class:
  "fst (journal_only_step c code st) = (if c \<and> fst st = SC_journal_only then SC_journal_plus_anchor else fst st)"
  by (simp add: journal_only_step_def)

definition history_trouble :: "selection_input \<Rightarrow> bool" where
  "history_trouble i =
     (1 \<le> dflt 0 (si_failed_mutations i) \<or> 2 \<le> dflt 0 (si_reviewed_mutations i) \<or> 2 \<le> dflt 0 (si_broad_mutations i))"

lemma history_step_class:
  "fst (history_step i st) =
     (if fst st \<noteq> SC_exact_anchor \<and> ambiguous_history i then SC_exact_anchor
      else if fst st = SC_journal_only \<and> history_trouble i then SC_journal_plus_anchor else fst st)"
proof -
  have steps: "fst (journal_only_step a x (journal_only_step b y (journal_only_step c z st))) =
      (if fst st = SC_journal_only \<and> (a \<or> b \<or> c) then SC_journal_plus_anchor else fst st)" for a b c x y z
    by (simp add: journal_only_step_class)
  show ?thesis
    unfolding history_step_def Let_def ambiguous_history_def [symmetric] if_distrib [of fst] steps
      history_trouble_def [symmetric] fst_conv by (rule refl)
qed

lemma strengthen_class:
  "fst (strengthen_snapshot_class i st) =
     (if fst st \<noteq> SC_exact_anchor \<and> ambiguous_history i then SC_exact_anchor
      else (let c = (if fst st = SC_journal_only \<and> troubled i then SC_journal_plus_anchor else fst st) in
            if c = SC_journal_plus_anchor \<and> 25 \<le> dflt 0 (si_chain_depth i) then SC_exact_anchor else c))"
proof -
  define h where "h = (dflt Healthy (si_capability_state i) \<noteq> Healthy)"
  define deep where "deep = (25 \<le> dflt 0 (si_chain_depth i))"
  have t: "troubled i \<longleftrightarrow> h \<or> history_trouble i"
    by (auto simp: troubled_def h_def history_trouble_def)
  have "fst (strengthen_snapshot_class i st) =
      (let c = fst (history_step i (journal_only_step h ''snapshot.capability_state_strengthened'' st)) in
       if deep \<and> c = SC_journal_plus_anchor then SC_exact_anchor else c)"
    by (simp add: strengthen_snapshot_class_def Let_def h_def deep_def)
  then show ?thesis
    unfolding deep_def [symmetric] history_step_class journal_only_step_class t Let_def
    by (cases "fst st"; cases h; cases "history_trouble i"; cases "ambiguous_history i") simp_all
qed

lemma base_class_mono:
  assumes "weaker_or_equal i j"
  shows "class_rank (fst (base_snapshot_class i)) \<le> class_rank (fst (base_snapshot_class j))"
proof (cases "dflt False (si_hard_checkpoint j) \<or> dflt False (si_branch_point j)")
  case True
  with assms show ?thesis
    by (auto simp: base_snapshot_class_def Let_def weaker_or_equal_def class_rank_le_3)
next
  case False
  with assms have eqs: "si_action i = si_action j" "si_policy_decision i = si_policy_decision j"
    "dflt False (si_hard_checkpoint i) = dflt False (si_hard_checkpoint j)"
    "dflt False (si_branch_point i) = dflt False (si_branch_point j)"
    by (auto simp: weaker_or_equal_def)
  have "base_snapshot_class i = base_snapshot_class j"
    unfolding base_snapshot_class_def eqs by (rule refl)
  then show ?thesis by simp
qed

definition strengthened :: "bool \<Rightarrow> bool \<Rightarrow> bool \<Rightarrow> snapshot_class \<Rightarrow> snapshot_class" where
  \<comment> \<open>the class after the history phase, from three facts about the history\<close>
  "strengthened ambiguous trouble deep c =
     (if c \<noteq> SC_exact_anchor \<and> ambiguous then SC_exact_anchor
      else (let d = (if c = SC_journal_only \<and> trouble then SC_journal_plus_anchor else c) in
            if d = SC_journal_plus_anchor \<and> deep then SC_exact_anchor else d))"

lemma strengthened_mono:
  "\<lbrakk>class_rank c \<le> class_rank d; a \<longrightarrow> a'; t \<longrightarrow> t'; k \<longrightarrow> k'\<rbrakk> \<Longrightarrow>
     class_rank (strengthened a t k c) \<le> class_rank (strengthened a' t' k' d)"
  by (cases c; cases d) (auto simp: strengthened_def)

lemma selectSnapshotClass_class:
  "sl_class (selectSnapshotClass i) =
     strengthened (ambiguous_history i) (troubled i) (25 \<le> dflt 0 (si_chain_depth i)) (fst (base_snapshot_class i))"
  by (simp add: selectSnapshotClass_def strengthen_class strengthened_def Let_def)

text \<open>C22: reporting more trouble (a stale or degraded capability state, a deeper journal chain, more
  ambiguous, broad, reviewed or failed mutations, an explicit checkpoint) never weakens the
  selected snapshot class, in the order metadata-only, journal-only, journal plus anchor, exact anchor.\<close>

theorem selectSnapshotClass_monotone:
  assumes "weaker_or_equal i j"
  shows "class_rank (sl_class (selectSnapshotClass i)) \<le> class_rank (sl_class (selectSnapshotClass j))"
  unfolding selectSnapshotClass_class
proof (rule strengthened_mono [OF base_class_mono [OF assms]])
  show "ambiguous_history i \<longrightarrow> ambiguous_history j" "troubled i \<longrightarrow> troubled j"
    "25 \<le> dflt 0 (si_chain_depth i) \<longrightarrow> 25 \<le> dflt 0 (si_chain_depth j)"
    using assms unfolding weaker_or_equal_def ambiguous_history_def troubled_def by auto
qed

lemma base_journal_only_iff:
  "fst (base_snapshot_class i) = SC_journal_only \<longleftrightarrow>
     si_policy_decision i = AllowWithSnapshot \<and> \<not> dflt False (si_hard_checkpoint i) \<and>
     \<not> dflt False (si_branch_point i) \<and> narrow_reversible (si_action i)"
proof -
  have "\<not> score_of (si_action i) < 45 / 100 \<and> snapshotOperationFamily (si_action i) \<noteq> ''shell/package_manager'' \<and>
      snapshotOperationFamily (si_action i) \<noteq> ''shell/build_tool'' \<and>
      rh_external_effects (risk (si_action i)) = EE_none \<and> ts_breadth (scope (si_action i)) \<notin> broad_breadths"
    if "narrow_reversible (si_action i)"
    using that by (auto simp: narrow_reversible_def snapshotOperationFamily_def broad_breadths_def)
  then show ?thesis unfolding base_snapshot_class_def Let_def by auto
qed

text \<open>the cheapest boundary that can restore, \<open>journal_only\<close>, is selected exactly for a snapshot
  the policy asked for, of a confident, reversible mutation of a single known path, with no
  explicit checkpoint, a healthy capability state and an uneventful history.\<close>

theorem selectSnapshotClass_journal_only:
  "sl_class (selectSnapshotClass i) = SC_journal_only \<longleftrightarrow>
     si_policy_decision i = AllowWithSnapshot \<and> \<not> dflt False (si_hard_checkpoint i) \<and>
     \<not> dflt False (si_branch_point i) \<and> narrow_reversible (si_action i) \<and>
     \<not> ambiguous_history i \<and> \<not> troubled i"
  unfolding selectSnapshotClass_class using base_journal_only_iff [of i]
  by (cases "fst (base_snapshot_class i)") (auto simp: strengthened_def)

text \<open>a filesystem or shell action the policy allows with a snapshot always gets a class that
  captures a preimage.\<close>

theorem selectSnapshotClass_workspace:
  assumes "si_policy_decision i = AllowWithSnapshot" "uses_workspace_snapshot (si_action i)"
  shows "sl_class (selectSnapshotClass i) \<noteq> SC_metadata_only"
proof -
  have "fst (base_snapshot_class i) \<noteq> SC_metadata_only"
    using assms unfolding base_snapshot_class_def Let_def uses_workspace_snapshot_def by auto
  then show ?thesis unfolding selectSnapshotClass_class
    by (cases "fst (base_snapshot_class i)") (auto simp: strengthened_def)
qed

definition sample_file_write :: action_record where
  "sample_file_write =
     \<lparr>action_id = ''act_1'', run_id = ''run_1'', session_id = ''sess_1'', requested_at = ''t0'', normalized_at = ''t1'',
      provenance = \<lparr>pv_mode = PM_governed, pv_source = ''daemon'', pv_confidence = 1\<rparr>,
      actor = \<lparr>ac_type = AT_agent, ac_agent_name = None, ac_agent_framework = None, ac_tool_name = ''write'',
               ac_tool_kind = ''filesystem''\<rparr>,
      operation = \<lparr>op_domain = ''filesystem'', op_kind = ''write'', op_name = ''filesystem.write'', op_display_name = None\<rparr>,
      execution_path = \<lparr>ep_surface = SF_governed_fs, ep_mode = EM_pre_execution, ep_credential_mode = CM_none\<rparr>,
      primary_target = \<lparr>tp_type = ''path'', tp_locator = ''/ws/a'', tp_label = None\<rparr>,
      scope = \<lparr>ts_breadth = SB_single, ts_estimated_count = Some 1, ts_unknowns = []\<rparr>,
      action_input = \<lparr>in_raw = [], in_redacted = [], in_schema_ref = None, in_contains_sensitive_data = False\<rparr>,
      risk = \<lparr>rh_side_effect_level = SE_mutating, rh_external_effects = EE_none,
              rh_reversibility_hint = RV_reversible, rh_sensitivity_hint = SN_low, rh_batch = False\<rparr>,
      facets = [],
      normalization = \<lparr>nm_mapper = ''m'', nm_inferred_fields = [], nm_warnings = [], nm_confidence = 99 / 100\<rparr>,
      confidence = \<lparr>ca_engine_version = ''v'', ca_score = 99 / 100, ca_band = CB_high,
                    ca_requires_human_review = False, ca_factors = []\<rparr>\<rparr>"

definition sample_selection :: "nat option \<Rightarrow> selection_input" where
  "sample_selection failed =
     \<lparr>si_action = sample_file_write, si_policy_decision = AllowWithSnapshot, si_capability_state = None,
      si_low_disk_pressure = None, si_chain_depth = None, si_ambiguous_shell = None, si_broad_mutations = None,
      si_reviewed_mutations = None, si_failed_mutations = failed, si_branch_point = None, si_hard_checkpoint = None\<rparr>"

theorem selectSnapshotClass_monotone_witness:
  "class_rank (sl_class (selectSnapshotClass (sample_selection None)))
     \<le> class_rank (sl_class (selectSnapshotClass (sample_selection (Some 1))))"
  by (rule selectSnapshotClass_monotone) (simp add: weaker_or_equal_def sample_selection_def)

theorem selectSnapshotClass_workspace_witness:
  "sl_class (selectSnapshotClass (sample_selection None)) \<noteq> SC_metadata_only"
  by (rule selectSnapshotClass_workspace)
    (simp_all add: sample_selection_def uses_workspace_snapshot_def sample_file_write_def)

end
