(* ===== verification/Run_Journal.thy ===== *)
theory Run_Journal
  imports Snapshot_Select
begin

text \<open>
  The run journal (\<open>packages/run-journal/src/index.ts\<close>): runs, the append-only event log of each
  run, and approval requests. Tables are lists in insertion order; a violated
  \<open>PRIMARY KEY\<close> or \<open>UNIQUE\<close> constraint is the \<open>InternalError\<close> the code wraps it in. Server
  timestamps are milliseconds (the code prints and parses them as ISO dates). A payload is
  stored as JSON, which drops \<open>undefined\<close> (\<open>json_clone\<close>). Identifiers and the clock are arguments.
  Disk failures, artifacts and the helper-fact cache are not modelled.
\<close>

section \<open>Stored records\<close>

fun json_clone :: "jsval \<Rightarrow> jsval" where
  "json_clone (JArr xs) = JArr (map (\<lambda>x. if x = JUndef then JNull else json_clone x) xs)"
| "json_clone (JObj kvs) =
     JObj (map (\<lambda>kv. (fst kv, json_clone (snd kv))) (filter (\<lambda>kv. snd kv \<noteq> JUndef) kvs))"
| "json_clone v = v"

definition json_clone_object :: "(string \<times> jsval) list \<Rightarrow> (string \<times> jsval) list" where
  "json_clone_object kvs = map (\<lambda>kv. (fst kv, json_clone (snd kv))) (filter (\<lambda>kv. snd kv \<noteq> JUndef) kvs)"

record run_row =
  rw_run_id :: string
  rw_session_id :: string
  rw_workflow_name :: string
  rw_agent_framework :: string
  rw_agent_name :: string
  rw_workspace_roots :: "string list"
  rw_client_metadata :: jsval
  rw_budget_config :: budget_config
  rw_created_at :: int
  rw_started_at :: int

record journal_event =
  ev_run_id :: string
  ev_sequence :: nat
  ev_type :: string
  ev_occurred_at :: int
  ev_recorded_at :: int
  ev_payload :: "(string \<times> jsval) list"

datatype approval_state = AP_pending | AP_approved | AP_denied

datatype approval_resolution = RV_approved | RV_denied

record stored_approval =
  ap_id :: string
  ap_run_id :: string
  ap_action_id :: string
  ap_status :: approval_state
  ap_requested_at :: string
  ap_resolved_at :: "string option"
  ap_resolution_note :: "string option"
  ap_action_summary :: string
  ap_action :: action_record
  ap_policy_outcome :: policy_outcome
  ap_snapshot_record :: "snapshot_record option"

record journal =
  jr_runs :: "run_row list"
  jr_events :: "journal_event list"
  jr_approvals :: "stored_approval list"

definition empty_journal :: journal where
  "empty_journal = \<lparr>jr_runs = [], jr_events = [], jr_approvals = []\<rparr>"

definition find_run :: "journal \<Rightarrow> string \<Rightarrow> run_row option" where
  "find_run j r = find (\<lambda>row. rw_run_id row = r) (jr_runs j)"

definition run_events :: "journal \<Rightarrow> string \<Rightarrow> journal_event list" where
  "run_events j r = filter (\<lambda>e. ev_run_id e = r) (jr_events j)"

definition no_run_error :: "string \<Rightarrow> ag_error" where
  "no_run_error r = NotFoundError (''No run found for '' @ r @ ''.'')"

section \<open>Events\<close>

text \<open>\<open>ORDER BY sequence DESC LIMIT 1\<close> and \<open>ORDER BY sequence ASC\<close>.\<close>

definition latest_event :: "journal_event list \<Rightarrow> journal_event option" where
  "latest_event es =
     (case es of [] \<Rightarrow> None | e # rest \<Rightarrow>
        Some (foldl (\<lambda>b x. if ev_sequence b < ev_sequence x then x else b) e rest))"

definition by_sequence :: "journal_event \<Rightarrow> journal_event \<Rightarrow> int" where
  "by_sequence = cmp_by (\<lambda>e. int (ev_sequence e))"

fun count_up :: "int \<Rightarrow> nat \<Rightarrow> int list" where
  "count_up t 0 = []"
| "count_up t (Suc n) = t # count_up (t + 1) n"

definition reserveServerEventTimestamps :: "int \<Rightarrow> string \<Rightarrow> nat \<Rightarrow> journal \<Rightarrow> int list" where
  "reserveServerEventTimestamps now r count j =
     (let next_ms = (case latest_event (run_events j r) of
            None \<Rightarrow> now
          | Some e \<Rightarrow> (if now \<le> ev_recorded_at e then ev_recorded_at e + 1 else now)) in
      count_up next_ms count)"

record run_input =
  ri_run_id :: string
  ri_session_id :: string
  ri_workflow_name :: string
  ri_agent_framework :: string
  ri_agent_name :: string
  ri_workspace_roots :: "string list"
  ri_client_metadata :: jsval
  ri_budget_config :: budget_config

definition opt_num :: "int option \<Rightarrow> jsval" where
  "opt_num n = (case n of None \<Rightarrow> JNull | Some i \<Rightarrow> JNum (of_int i))"

definition budget_json :: "budget_config \<Rightarrow> jsval" where
  "budget_json b = JObj [(''max_mutating_actions'', opt_num (max_mutating_actions b)),
                        (''max_destructive_actions'', opt_num (max_destructive_actions b))]"

definition registerRunLifecycle :: "int \<Rightarrow> run_input \<Rightarrow> journal \<Rightarrow> ag_error + journal" where
  "registerRunLifecycle now i j =
     (if find_run j (ri_run_id i) \<noteq> None then Inl (InternalError ''Failed to register run lifecycle.'')
      else
        (case reserveServerEventTimestamps now (ri_run_id i) 2 j of
           [created, started] \<Rightarrow>
             (let row = \<lparr>rw_run_id = ri_run_id i, rw_session_id = ri_session_id i,
                         rw_workflow_name = ri_workflow_name i, rw_agent_framework = ri_agent_framework i,
                         rw_agent_name = ri_agent_name i, rw_workspace_roots = ri_workspace_roots i,
                         rw_client_metadata = json_clone (ri_client_metadata i),
                         rw_budget_config = ri_budget_config i,
                         rw_created_at = created, rw_started_at = started\<rparr>;
                  ev1 = \<lparr>ev_run_id = ri_run_id i, ev_sequence = 1, ev_type = ''run.created'',
                         ev_occurred_at = created, ev_recorded_at = created,
                         ev_payload = [(''workflow_name'', JStr (ri_workflow_name i)),
                                       (''agent_framework'', JStr (ri_agent_framework i)),
                                       (''agent_name'', JStr (ri_agent_name i)),
                                       (''budget_config'', budget_json (ri_budget_config i))]\<rparr>;
                  ev2 = \<lparr>ev_run_id = ri_run_id i, ev_sequence = 2, ev_type = ''run.started'',
                         ev_occurred_at = started, ev_recorded_at = started,
                         ev_payload = [(''session_id'', JStr (ri_session_id i)),
                                       (''workspace_roots'', js_strs (ri_workspace_roots i))]\<rparr> in
              Inr (j\<lparr>jr_runs := jr_runs j @ [row], jr_events := jr_events j @ [ev1, ev2]\<rparr>))
         | _ \<Rightarrow> Inl (InternalError ''Failed to register run lifecycle.'')))"

definition next_sequence :: "journal_event list \<Rightarrow> nat" where
  \<comment> \<open>\<open>COALESCE(MAX(sequence), 0) + 1\<close>\<close>
  "next_sequence es = foldr (\<lambda>e. max (ev_sequence e)) es 0 + 1"

definition appendRunEvent ::
  "int \<Rightarrow> string \<Rightarrow> string \<Rightarrow> (string \<times> jsval) list \<Rightarrow> journal \<Rightarrow> ag_error + nat \<times> journal" where
  "appendRunEvent now r ty payload j =
     (if find_run j r = None then Inl (no_run_error r)
      else
        (case reserveServerEventTimestamps now r 1 j of
           [t] \<Rightarrow>
             (let n = next_sequence (run_events j r) in
              Inr (n, j\<lparr>jr_events := jr_events j @
                [\<lparr>ev_run_id = r, ev_sequence = n, ev_type = ty, ev_occurred_at = t, ev_recorded_at = t,
                  ev_payload = json_clone_object payload\<rparr>]\<rparr>))
         | _ \<Rightarrow> Inl (InternalError ''Failed to append run event.'')))"

definition listRunEvents :: "string \<Rightarrow> journal \<Rightarrow> ag_error + journal_event list" where
  "listRunEvents r j =
     (if find_run j r = None then Inl (no_run_error r) else Inr (js_sort by_sequence (run_events j r)))"

definition getRunBudgetUsage :: "string \<Rightarrow> journal \<Rightarrow> budget_usage" where
  "getRunBudgetUsage r j =
     (let levels = map (\<lambda>e. obj_get (ev_payload e) ''side_effect_level'')
                     (filter (\<lambda>e. ev_type e = ''execution.completed'') (run_events j r)) in
      \<lparr>mutating_actions = int (length (filter (\<lambda>v. v = JStr ''mutating'' \<or> v = JStr ''destructive'') levels)),
       destructive_actions = int (length (filter (\<lambda>v. v = JStr ''destructive'') levels))\<rparr>)"

record run_summary =
  su_run :: run_row
  su_event_count :: nat
  su_latest_event :: "journal_event option"
  su_budget_usage :: budget_usage

definition getRunSummary :: "string \<Rightarrow> journal \<Rightarrow> run_summary option" where
  "getRunSummary r j =
     (case find_run j r of
        None \<Rightarrow> None
      | Some row \<Rightarrow> Some \<lparr>su_run = row, su_event_count = length (run_events j r),
                           su_latest_event = latest_event (run_events j r),
                           su_budget_usage = getRunBudgetUsage r j\<rparr>)"

section \<open>Approvals\<close>

definition primaryReasonFromPolicyOutcome :: "policy_outcome \<Rightarrow> (string \<times> string) option" where
  "primaryReasonFromPolicyOutcome out =
     map_option (\<lambda>r. (pr_code r, pr_message r)) (js_head (po_reasons out))"

definition find_approval :: "journal \<Rightarrow> string \<Rightarrow> stored_approval option" where
  "find_approval j i = find (\<lambda>a. ap_id a = i) (jr_approvals j)"

definition createApprovalRequest ::
  "string \<Rightarrow> string \<Rightarrow> action_record \<Rightarrow> policy_outcome \<Rightarrow> snapshot_record option \<Rightarrow> journal \<Rightarrow>
   ag_error + stored_approval \<times> journal" where
  "createApprovalRequest new_id r action out snapshot j =
     (if find_run j r = None then Inl (no_run_error r)
      else if find_approval j new_id \<noteq> None \<or> (\<exists>a \<in> set (jr_approvals j). ap_action_id a = action_id action)
      then Inl (InternalError ''Failed to create approval request.'')
      else
        (let approval =
           \<lparr>ap_id = new_id, ap_run_id = r, ap_action_id = action_id action, ap_status = AP_pending,
            ap_requested_at = po_evaluated_at out, ap_resolved_at = None, ap_resolution_note = None,
            ap_action_summary = (case op_display_name (operation action) of
               None \<Rightarrow> op_name (operation action) | Some d \<Rightarrow> d),
            ap_action = action, ap_policy_outcome = out, ap_snapshot_record = snapshot\<rparr> in
         Inr (approval, j\<lparr>jr_approvals := jr_approvals j @ [approval]\<rparr>)))"

definition getStoredApproval :: "string \<Rightarrow> journal \<Rightarrow> stored_approval option" where
  "getStoredApproval i j = find_approval j i"

definition listApprovals ::
  "(string \<Rightarrow> string \<Rightarrow> int) \<Rightarrow> string option \<Rightarrow> approval_state option \<Rightarrow> journal \<Rightarrow> stored_approval list" where
  \<comment> \<open>\<open>bin\<close> is SQLite's binary collation of the timestamps\<close>
  "listApprovals bin r st j =
     js_sort (\<lambda>x y. bin (ap_requested_at x) (ap_requested_at y))
       (filter (\<lambda>a. (case r of None \<Rightarrow> True | Some v \<Rightarrow> v = [] \<or> ap_run_id a = v) \<and>
                    (case st of None \<Rightarrow> True | Some v \<Rightarrow> ap_status a = v)) (jr_approvals j))"

definition resolveApproval ::
  "string \<Rightarrow> string \<Rightarrow> approval_resolution \<Rightarrow> string option \<Rightarrow> journal \<Rightarrow> ag_error + stored_approval \<times> journal" where
  "resolveApproval now i resolution note j =
     (case getStoredApproval i j of
        None \<Rightarrow> Inl (NotFoundError (''No approval found for '' @ i @ ''.''))
      | Some existing \<Rightarrow>
          (if ap_status existing \<noteq> AP_pending then Inr (existing, j)
           else
             (let upd = (\<lambda>a. a\<lparr>ap_status := (if resolution = RV_approved then AP_approved else AP_denied),
                               ap_resolved_at := Some now, ap_resolution_note := note\<rparr>) in
              Inr (upd existing,
                   j\<lparr>jr_approvals := map (\<lambda>a. if ap_id a = i then upd a else a) (jr_approvals j)\<rparr>))))"

section \<open>The log of a run\<close>

definition run_log_ok :: "journal_event list \<Rightarrow> bool" where
  \<comment> \<open>sequence numbers count from one without gaps and record times increase strictly\<close>
  "run_log_ok es =
     (map ev_sequence es = [1..<Suc (length es)] \<and> sorted_wrt (<) (map ev_recorded_at es))"

lemma run_log_ok_Nil [simp]: "run_log_ok []"
  by (simp add: run_log_ok_def)

lemma run_log_ok_snoc:
  "run_log_ok (es @ [e]) \<longleftrightarrow>
     run_log_ok es \<and> ev_sequence e = Suc (length es) \<and> (\<forall>x \<in> set es. ev_recorded_at x < ev_recorded_at e)"
  by (auto simp: run_log_ok_def sorted_wrt_append)

lemma run_log_sequence: "run_log_ok es \<Longrightarrow> i < length es \<Longrightarrow> ev_sequence (es ! i) = Suc i"
proof -
  assume "run_log_ok es" and i: "i < length es"
  then have "map ev_sequence es ! i = [1..<Suc (length es)] ! i" by (simp only: run_log_ok_def)
  with i show ?thesis by (simp del: upt_Suc)
qed

lemma latest_event_snoc: "latest_event (es @ [e]) = (case latest_event es of
    None \<Rightarrow> Some e | Some b \<Rightarrow> Some (if ev_sequence b < ev_sequence e then e else b))"
  by (cases es) (simp_all add: latest_event_def)

lemma latest_event_in: "latest_event es = Some e \<Longrightarrow> e \<in> set es"
  by (induction es arbitrary: e rule: rev_induct)
    (auto simp: latest_event_snoc latest_event_def [of "[]"] split: option.splits if_splits)

lemma run_log_latest: "run_log_ok es \<Longrightarrow> latest_event es = (if es = [] then None else Some (last es))"
proof (induction es rule: rev_induct)
  case (snoc e es)
  then have ok: "run_log_ok es" and e: "ev_sequence e = Suc (length es)" by (auto simp: run_log_ok_snoc)
  have "ev_sequence (last es) = length es" if "es \<noteq> []"
    using run_log_sequence [OF ok, of "length es - 1"] that by (simp add: last_conv_nth)
  with snoc.IH [OF ok] e show ?case by (auto simp: latest_event_snoc)
qed (simp add: latest_event_def)

lemma run_log_next: "run_log_ok es \<Longrightarrow> next_sequence es = Suc (length es)"
proof (induction es rule: rev_induct)
  case (snoc e es)
  then have ok: "run_log_ok es" and e: "ev_sequence e = Suc (length es)" by (auto simp: run_log_ok_snoc)
  have "foldr (\<lambda>e. max (ev_sequence e)) es m = max m (foldr (\<lambda>e. max (ev_sequence e)) es 0)" for m
    by (induction es) auto
  moreover have "foldr (\<lambda>e. max (ev_sequence e)) es 0 = length es" using snoc.IH [OF ok] by (simp add: next_sequence_def)
  ultimately show ?case using e by (simp add: next_sequence_def)
qed (simp add: next_sequence_def)

lemma run_log_last_max: "run_log_ok es \<Longrightarrow> x \<in> set es \<Longrightarrow> ev_recorded_at x \<le> ev_recorded_at (last es)"
  by (induction es rule: rev_induct) (auto simp: run_log_ok_snoc less_imp_le)

lemma js_sort_snoc_max:
  "(\<And>x. x \<in> set xs \<Longrightarrow> cmp x y \<le> 0) \<Longrightarrow> sorted_wrt (\<lambda>a b. cmp a b \<le> 0) xs \<Longrightarrow> js_sort cmp (xs @ [y]) = xs @ [y]"
proof (induction xs)
  case (Cons x xs)
  then have "js_sort cmp (xs @ [y]) = xs @ [y]" by simp
  moreover have "cmp x (hd (xs @ [y])) \<le> 0" using Cons.prems by (cases xs) auto
  ultimately show ?case by (cases xs) auto
qed simp

lemma run_log_sorted: "run_log_ok es \<Longrightarrow> sorted_wrt (\<lambda>a b. by_sequence a b \<le> 0) es"
proof (induction es rule: rev_induct)
  case (snoc e es)
  then have ok: "run_log_ok es" and e: "ev_sequence e = Suc (length es)" by (auto simp: run_log_ok_snoc)
  have "ev_sequence x \<le> length es" if "x \<in> set es" for x
    using that run_log_sequence [OF ok] by (auto simp: in_set_conv_nth)
  with snoc.IH [OF ok] e show ?case by (auto simp: sorted_wrt_append by_sequence_def cmp_by_def intro: le_SucI)
qed simp

lemma run_log_sort: "run_log_ok es \<Longrightarrow> js_sort by_sequence es = es"
proof (cases es rule: rev_cases)
  case (snoc xs y)
  assume "run_log_ok es"
  then have "sorted_wrt (\<lambda>a b. by_sequence a b \<le> 0) (xs @ [y])" using run_log_sorted snoc by simp
  then show ?thesis unfolding snoc by (intro js_sort_snoc_max) (auto simp: sorted_wrt_append)
qed simp

lemma reserve_timestamps:
  assumes "run_log_ok (run_events j r)"
  shows "reserveServerEventTimestamps now r n j = count_up
    (if run_events j r = [] then now else max now (ev_recorded_at (last (run_events j r)) + 1)) n"
  unfolding reserveServerEventTimestamps_def run_log_latest [OF assms] Let_def by auto

section \<open>Invariant\<close>

definition approval_ok :: "stored_approval \<Rightarrow> bool" where
  "approval_ok a = ((ap_status a = AP_pending \<longleftrightarrow> ap_resolved_at a = None) \<and> ap_action_id a = action_id (ap_action a))"

definition journal_inv :: "journal \<Rightarrow> bool" where
  "journal_inv j =
     (distinct (map rw_run_id (jr_runs j)) \<and>
      (\<forall>r. run_log_ok (run_events j r)) \<and>
      (\<forall>e \<in> set (jr_events j). find_run j (ev_run_id e) \<noteq> None) \<and>
      distinct (map ap_id (jr_approvals j)) \<and> distinct (map ap_action_id (jr_approvals j)) \<and>
      (\<forall>a \<in> set (jr_approvals j). approval_ok a \<and> find_run j (ap_run_id a) \<noteq> None))"

lemma empty_journal_inv: "journal_inv empty_journal"
  by (simp add: journal_inv_def empty_journal_def run_events_def)

lemma find_run_None: "find_run j r = None \<longleftrightarrow> r \<notin> set (map rw_run_id (jr_runs j))"
  by (auto simp: find_run_def find_None_iff)

lemma run_events_append:
  "jr_events j' = jr_events j @ new \<Longrightarrow>
     run_events j' r = run_events j r @ filter (\<lambda>e. ev_run_id e = r) new"
  by (simp add: run_events_def)

lemma appendRunEvent_cases:
  assumes "journal_inv j" "appendRunEvent now r ty payload j = Inr (n, j')"
  obtains t where "find_run j r \<noteq> None" "n = Suc (length (run_events j r))"
    "j' = j\<lparr>jr_events := jr_events j @ [\<lparr>ev_run_id = r, ev_sequence = n, ev_type = ty, ev_occurred_at = t,
        ev_recorded_at = t, ev_payload = json_clone_object payload\<rparr>]\<rparr>"
    "\<forall>e \<in> set (run_events j r). ev_recorded_at e < t" "now \<le> t"
proof -
  let ?es = "run_events j r"
  define t where "t = (if ?es = [] then now else max now (ev_recorded_at (last ?es) + 1))"
  have ok: "run_log_ok ?es" using assms(1) by (simp add: journal_inv_def)
  obtain row where row: "find_run j r = Some row"
    using assms(2) by (cases "find_run j r") (simp_all add: appendRunEvent_def)
  then have "find_run j r \<noteq> None" by simp
  moreover have "n = Suc (length ?es)" and
    "j' = j\<lparr>jr_events := jr_events j @ [\<lparr>ev_run_id = r, ev_sequence = n, ev_type = ty, ev_occurred_at = t,
        ev_recorded_at = t, ev_payload = json_clone_object payload\<rparr>]\<rparr>"
    using assms(2) unfolding appendRunEvent_def reserve_timestamps [OF ok] t_def [symmetric]
    by (auto simp: row Let_def run_log_next [OF ok])
  moreover have "\<forall>e \<in> set ?es. ev_recorded_at e < t" using run_log_last_max [OF ok] by (force simp: t_def)
  moreover have "now \<le> t" by (simp add: t_def)
  ultimately show thesis by (rule that)
qed

lemma appendRunEvent_inv:
  assumes "journal_inv j" "appendRunEvent now r ty payload j = Inr (n, j')"
  shows "journal_inv j'"
proof -
  obtain t where run: "find_run j r \<noteq> None" and n: "n = Suc (length (run_events j r))"
    and j': "j' = j\<lparr>jr_events := jr_events j @ [\<lparr>ev_run_id = r, ev_sequence = n, ev_type = ty, ev_occurred_at = t,
        ev_recorded_at = t, ev_payload = json_clone_object payload\<rparr>]\<rparr>"
    and t: "\<forall>e \<in> set (run_events j r). ev_recorded_at e < t" and "now \<le> t"
    using assms by (rule appendRunEvent_cases)
  have "run_log_ok (run_events j' q)" for q
    using assms(1) n t by (cases "q = r") (simp_all add: j' run_events_def journal_inv_def run_log_ok_snoc)
  moreover have "find_run j' q = find_run j q" for q by (simp add: j' find_run_def)
  ultimately show ?thesis using assms(1) run by (auto simp: journal_inv_def j')
qed

lemma registerRunLifecycle_inv:
  assumes "journal_inv j" "registerRunLifecycle now i j = Inr j'"
  shows "journal_inv j'"
proof -
  let ?r = "ri_run_id i"
  have fresh: "find_run j ?r = None"
    using assms(2) by (cases "find_run j ?r") (simp_all add: registerRunLifecycle_def)
  have none: "run_events j ?r = []"
    using assms(1) fresh by (auto simp: run_events_def journal_inv_def filter_empty_conv)
  have ts: "reserveServerEventTimestamps now ?r 2 j = [now, now + 1]"
    by (simp add: reserveServerEventTimestamps_def none latest_event_def numeral_2_eq_2)
  obtain row e1 e2 where j': "j' = j\<lparr>jr_runs := jr_runs j @ [row], jr_events := jr_events j @ [e1, e2]\<rparr>"
    and row: "rw_run_id row = ?r"
    and ev: "ev_run_id e1 = ?r" "ev_run_id e2 = ?r" "ev_sequence e1 = 1" "ev_sequence e2 = 2"
      "ev_recorded_at e1 = now" "ev_recorded_at e2 = now + 1"
    using assms(2) fresh by (auto simp: registerRunLifecycle_def ts Let_def)
  have "run_log_ok (run_events j' q)" for q
    using assms(1) none by (cases "q = ?r")
      (simp_all add: j' run_events_def journal_inv_def ev run_log_ok_def)
  moreover have "find_run j q \<noteq> None \<Longrightarrow> find_run j' q \<noteq> None" for q
    by (auto simp: find_run_None j')
  moreover have "find_run j' ?r \<noteq> None" by (simp add: find_run_None j' row)
  moreover have "distinct (map rw_run_id (jr_runs j'))"
    using assms(1) fresh by (simp add: j' row journal_inv_def find_run_None)
  ultimately show ?thesis using assms(1) by (auto simp: journal_inv_def j' ev)
qed

lemma find_approval_None: "find_approval j i = None \<longleftrightarrow> i \<notin> set (map ap_id (jr_approvals j))"
  by (auto simp: find_approval_def find_None_iff)

lemma createApprovalRequest_inv:
  assumes "journal_inv j" "createApprovalRequest new_id r a out sn j = Inr (ap, j')"
  shows "journal_inv j'"
proof -
  have run: "find_run j r \<noteq> None" and fresh: "find_approval j new_id = None"
    and action: "action_id a \<notin> set (map ap_action_id (jr_approvals j))"
    and j': "j' = j\<lparr>jr_approvals := jr_approvals j @ [ap]\<rparr>"
    and ap: "ap_id ap = new_id" "ap_run_id ap = r" "ap_action_id ap = action_id a" "approval_ok ap"
    using assms(2) by (auto simp: createApprovalRequest_def Let_def approval_ok_def split: if_splits)
  have "run_events j' q = run_events j q" "find_run j' q = find_run j q" for q
    by (simp_all add: j' run_events_def find_run_def)
  then show ?thesis using assms(1) run fresh action ap
    by (auto simp: journal_inv_def j' find_approval_None)
qed

lemma resolveApproval_inv:
  assumes "journal_inv j" "resolveApproval now i res note j = Inr (ap, j')"
  shows "journal_inv j'"
proof -
  obtain ex where ex: "find_approval j i = Some ex"
    using assms(2) by (auto simp: resolveApproval_def getStoredApproval_def split: option.splits)
  show ?thesis
  proof (cases "ap_status ex = AP_pending")
    case False
    with assms ex show ?thesis by (simp add: resolveApproval_def getStoredApproval_def)
  next
    case True
    define upd where "upd = (\<lambda>a :: stored_approval. a\<lparr>ap_status := (if res = RV_approved then AP_approved else AP_denied),
        ap_resolved_at := Some now, ap_resolution_note := note\<rparr>)"
    define f where "f = (\<lambda>a. if ap_id a = i then upd a else a)"
    have j': "j' = j\<lparr>jr_approvals := map f (jr_approvals j)\<rparr>"
      using assms(2) ex True by (auto simp: resolveApproval_def getStoredApproval_def Let_def f_def upd_def)
    have same: "ap_id (f a) = ap_id a" "ap_action_id (f a) = ap_action_id a" "ap_run_id (f a) = ap_run_id a"
      "approval_ok a \<Longrightarrow> approval_ok (f a)" for a
      by (simp_all add: f_def upd_def approval_ok_def)
    have "run_events j' q = run_events j q" "find_run j' q = find_run j q" for q
      by (simp_all add: j' run_events_def find_run_def)
    then show ?thesis using assms(1) same by (auto simp: journal_inv_def j' comp_def)
  qed
qed

end
