(* ===== verification/Journal_Theorems.thy ===== *)
theory Journal_Theorems
  imports Run_Journal "HOL-Library.Sublist" Samples
begin

text \<open>
  Properties of the run journal. \<open>journal_step\<close> is one successful call of an operation that
  changes the journal; \<open>journal_reachable\<close> are the states calls lead to from the empty journal,
  under any clock. The locale \<open>growing_log\<close> is the contract between the journal and those who
  read its log: what is in a log stays there, in place.
\<close>

section \<open>Steps and reachable states\<close>

inductive journal_step :: "journal \<Rightarrow> journal \<Rightarrow> bool" where
  register: "registerRunLifecycle now i j = Inr j' \<Longrightarrow> journal_step j j'"
| append: "appendRunEvent now r ty payload j = Inr (n, j') \<Longrightarrow> journal_step j j'"
| create: "createApprovalRequest new_id r a out sn j = Inr (ap, j') \<Longrightarrow> journal_step j j'"
| resolve: "resolveApproval ts i res note j = Inr (ap, j') \<Longrightarrow> journal_step j j'"

inductive journal_reachable :: "journal \<Rightarrow> bool" where
  start: "journal_reachable empty_journal"
| step: "journal_reachable j \<Longrightarrow> journal_step j j' \<Longrightarrow> journal_reachable j'"

inductive_cases journal_stepE: "journal_step j j'"

lemma journal_step_inv: "journal_step j j' \<Longrightarrow> journal_inv j \<Longrightarrow> journal_inv j'"
  by (erule journal_stepE)
    (blast intro: registerRunLifecycle_inv appendRunEvent_inv createApprovalRequest_inv resolveApproval_inv)+

lemma journal_reachable_inv: "journal_reachable j \<Longrightarrow> journal_inv j"
  by (induction rule: journal_reachable.induct) (auto intro: empty_journal_inv journal_step_inv)

lemma createApprovalRequest_events:
  "createApprovalRequest new_id r a out sn j = Inr (ap, j') \<Longrightarrow> jr_events j' = jr_events j"
  by (auto simp: createApprovalRequest_def Let_def split: if_splits)

lemma resolveApproval_events:
  "resolveApproval ts i res note j = Inr (ap, j') \<Longrightarrow> jr_events j' = jr_events j"
  by (auto simp: resolveApproval_def Let_def split: if_splits option.splits)

lemma registerRunLifecycle_events:
  "registerRunLifecycle now i j = Inr j' \<Longrightarrow> \<exists>new. jr_events j' = jr_events j @ new"
  by (auto simp: registerRunLifecycle_def Let_def split: if_splits list.splits)

lemma appendRunEvent_events:
  "appendRunEvent now r ty payload j = Inr (n, j') \<Longrightarrow> \<exists>new. jr_events j' = jr_events j @ new"
  by (auto simp: appendRunEvent_def Let_def split: if_splits list.splits)

lemma journal_step_events: "journal_step j j' \<Longrightarrow> \<exists>new. jr_events j' = jr_events j @ new"
  by (erule journal_stepE)
    (auto dest: registerRunLifecycle_events appendRunEvent_events createApprovalRequest_events resolveApproval_events)

lemma journal_step_prefix: "journal_step j j' \<Longrightarrow> prefix (run_events j r) (run_events j' r)"
  using journal_step_events [of j j'] by (auto simp: run_events_append prefix_def)

section \<open>The contract of a log that only grows\<close>

locale growing_log =
  fixes ok :: "'s \<Rightarrow> bool"
    and step :: "'s \<Rightarrow> 's \<Rightarrow> bool"
    and view :: "'s \<Rightarrow> 'k \<Rightarrow> 'e list"
  assumes ok_step: "ok s \<Longrightarrow> step s t \<Longrightarrow> ok t"
    and view_step: "ok s \<Longrightarrow> step s t \<Longrightarrow> prefix (view s k) (view t k)"
begin

lemma ok_steps: "step\<^sup>*\<^sup>* s t \<Longrightarrow> ok s \<Longrightarrow> ok t"
  by (induction rule: rtranclp_induct) (auto intro: ok_step)

lemma view_steps: "step\<^sup>*\<^sup>* s t \<Longrightarrow> ok s \<Longrightarrow> prefix (view s k) (view t k)"
proof (induction rule: rtranclp_induct)
  case (step t u)
  have "prefix (view t k) (view u k)" using view_step ok_steps step by blast
  with step show ?case by (blast intro: prefix_order.trans)
qed simp

lemma entry_stays:
  assumes "step\<^sup>*\<^sup>* s t" "ok s" "i < length (view s k)"
  shows "i < length (view t k) \<and> view t k ! i = view s k ! i"
  using view_steps [OF assms(1,2), of k] assms(3) by (auto simp: prefix_def nth_append)

end

interpretation jl: growing_log journal_inv journal_step run_events
  by unfold_locales (auto intro: journal_step_inv journal_step_prefix)

section \<open>Samples\<close>

definition sample_run :: run_input where
  "sample_run = \<lparr>ri_run_id = ''run_1'', ri_session_id = ''sess_1'', ri_workflow_name = ''w'',
     ri_agent_framework = ''f'', ri_agent_name = ''a'', ri_workspace_roots = [''/ws''],
     ri_client_metadata = JObj [],
     ri_budget_config = \<lparr>max_mutating_actions = Some 1, max_destructive_actions = None\<rparr>\<rparr>"

definition get_ok :: "'a + 'b \<Rightarrow> 'b" where
  "get_ok x = (case x of Inr b \<Rightarrow> b)"

definition sample_journal :: journal where
  "sample_journal = get_ok (registerRunLifecycle 1000 sample_run empty_journal)"

lemma sample_register: "registerRunLifecycle 1000 sample_run empty_journal = Inr sample_journal"
  by code_simp

lemma sample_journal_reachable: "journal_reachable sample_journal"
  by (rule journal_reachable.step [OF journal_reachable.start journal_step.register [OF sample_register]])

section \<open>The event log\<close>

lemma listRunEvents_inv:
  "journal_inv j \<Longrightarrow> listRunEvents r j = (if find_run j r = None then Inl (no_run_error r) else Inr (run_events j r))"
  by (simp add: listRunEvents_def run_log_sort journal_inv_def)

lemma find_run_step: "journal_step j j' \<Longrightarrow> find_run j r \<noteq> None \<Longrightarrow> find_run j' r \<noteq> None"
  by (erule journal_stepE)
    (auto simp: find_run_None registerRunLifecycle_def appendRunEvent_def createApprovalRequest_def
      resolveApproval_def Let_def split: if_splits list.splits option.splits)

lemma find_run_steps: "journal_step\<^sup>*\<^sup>* j j' \<Longrightarrow> find_run j r \<noteq> None \<Longrightarrow> find_run j' r \<noteq> None"
  by (induction rule: rtranclp_induct) (auto dest: find_run_step)

text \<open>C18: What a run's log once held it holds for good, in place: whatever operations follow, under
  whatever clock, the log read earlier is a prefix of the log read later; its sequence numbers
  count from one without a gap and its record times increase strictly.\<close>

theorem journal_log_immutable:
  assumes "journal_reachable j" "journal_step\<^sup>*\<^sup>* j j'" "listRunEvents r j = Inr es"
  shows "\<exists>more. listRunEvents r j' = Inr (es @ more) \<and>
    map ev_sequence (es @ more) = [1..<Suc (length (es @ more))] \<and>
    sorted_wrt (<) (map ev_recorded_at (es @ more))"
proof -
  have inv: "journal_inv j" using assms(1) by (rule journal_reachable_inv)
  have inv': "journal_inv j'" using jl.ok_steps assms(2) inv .
  have es: "es = run_events j r" and run: "find_run j r \<noteq> None"
    using assms(3) by (auto simp: listRunEvents_inv [OF inv] split: if_splits)
  obtain more where more: "run_events j' r = es @ more"
    using jl.view_steps [OF assms(2) inv, of r] es by (auto simp: prefix_def)
  have "listRunEvents r j' = Inr (es @ more)"
    using find_run_steps [OF assms(2) run] by (simp add: listRunEvents_inv [OF inv'] more)
  moreover have "run_log_ok (es @ more)" using inv' more by (metis journal_inv_def)
  ultimately show ?thesis unfolding run_log_ok_def by blast
qed

theorem journal_log_immutable_witness:
  "\<exists>more. listRunEvents ''run_1'' (snd (get_ok (appendRunEvent 5 ''run_1'' ''x'' [] sample_journal))) =
     Inr (run_events sample_journal ''run_1'' @ more)"
proof -
  have "listRunEvents ''run_1'' sample_journal = Inr (run_events sample_journal ''run_1'')" by code_simp
  moreover have "appendRunEvent 5 ''run_1'' ''x'' [] sample_journal =
      Inr (3, snd (get_ok (appendRunEvent 5 ''run_1'' ''x'' [] sample_journal)))" by code_simp
  then have "journal_step\<^sup>*\<^sup>* sample_journal (snd (get_ok (appendRunEvent 5 ''run_1'' ''x'' [] sample_journal)))"
    by (intro r_into_rtranclp journal_step.append)
  ultimately show ?thesis using journal_log_immutable [OF sample_journal_reachable] by blast
qed

text \<open>Appending to a known run always succeeds in memory, takes the next sequence number, records a
  time after every earlier event even when the clock went back, stores the payload as JSON at the
  end of this run's log and changes no other log; for an unknown run it is the error that
  reading it gives.\<close>

theorem appendRunEvent_functional:
  assumes "journal_reachable j"
  shows "case listRunEvents r j of
      Inl e \<Rightarrow> appendRunEvent now r ty payload j = Inl e
    | Inr es \<Rightarrow> \<exists>t j'. appendRunEvent now r ty payload j = Inr (length es + 1, j') \<and>
        now \<le> t \<and> (\<forall>e \<in> set es. ev_recorded_at e < t) \<and>
        listRunEvents r j' = Inr (es @ [\<lparr>ev_run_id = r, ev_sequence = length es + 1, ev_type = ty,
          ev_occurred_at = t, ev_recorded_at = t, ev_payload = json_clone_object payload\<rparr>]) \<and>
        (\<forall>q. q \<noteq> r \<longrightarrow> listRunEvents q j' = listRunEvents q j)"
proof (cases "find_run j r")
  case None
  then show ?thesis by (simp add: listRunEvents_def appendRunEvent_def)
next
  case (Some row)
  have inv: "journal_inv j" using assms by (rule journal_reachable_inv)
  then have ok: "run_log_ok (run_events j r)" by (simp add: journal_inv_def)
  obtain n j' where app: "appendRunEvent now r ty payload j = Inr (n, j')"
    using Some by (simp add: appendRunEvent_def reserve_timestamps [OF ok] Let_def)
  obtain t where n: "n = Suc (length (run_events j r))" and
    j': "j' = j\<lparr>jr_events := jr_events j @ [\<lparr>ev_run_id = r, ev_sequence = n, ev_type = ty, ev_occurred_at = t,
        ev_recorded_at = t, ev_payload = json_clone_object payload\<rparr>]\<rparr>"
    and t: "\<forall>e \<in> set (run_events j r). ev_recorded_at e < t" "now \<le> t"
    using inv app by (rule appendRunEvent_cases)
  have inv': "journal_inv j'" using inv app by (rule appendRunEvent_inv)
  have runs: "find_run j' q = find_run j q" for q by (simp add: j' find_run_def)
  have "listRunEvents q j' = listRunEvents q j" if "q \<noteq> r" for q
    using that by (simp add: listRunEvents_inv [OF inv] listRunEvents_inv [OF inv'] runs)
      (simp add: j' run_events_def)
  moreover have "listRunEvents r j' = Inr (run_events j r @ [\<lparr>ev_run_id = r, ev_sequence = n, ev_type = ty,
      ev_occurred_at = t, ev_recorded_at = t, ev_payload = json_clone_object payload\<rparr>])"
    using Some by (simp add: listRunEvents_inv [OF inv'] runs) (simp add: j' run_events_def)
  ultimately show ?thesis using app t Some n by (auto simp: listRunEvents_inv [OF inv])
qed

theorem appendRunEvent_functional_witness:
  "case listRunEvents ''run_1'' sample_journal of Inl e \<Rightarrow> False
   | Inr es \<Rightarrow> \<exists>t j'. appendRunEvent 0 ''run_1'' ''x'' [] sample_journal = Inr (length es + 1, j') \<and>
       listRunEvents ''run_1'' j' = Inr (es @ [\<lparr>ev_run_id = ''run_1'', ev_sequence = length es + 1, ev_type = ''x'',
          ev_occurred_at = t, ev_recorded_at = t, ev_payload = json_clone_object []\<rparr>])"
proof -
  have "listRunEvents ''run_1'' sample_journal = Inr (run_events sample_journal ''run_1'')" by code_simp
  then show ?thesis
    using appendRunEvent_functional [OF sample_journal_reachable, where r = "''run_1''" and now = 0 and ty = "''x''" and payload = "[]"]
    by (simp only: sum.case) blast
qed

text \<open>The budget usage of a run counts its completed executions by their recorded side-effect level:
  appending an event raises the mutating count exactly for a completed mutating or destructive
  execution, the destructive count exactly for a completed destructive one, and no count of
  another run.\<close>

theorem budget_usage_append:
  assumes "appendRunEvent now r ty payload j = Inr (n, j')"
  shows "getRunBudgetUsage q j' =
    (let level = obj_get (json_clone_object payload) ''side_effect_level'';
         hit = q = r \<and> ty = ''execution.completed'' in
     \<lparr>mutating_actions = mutating_actions (getRunBudgetUsage q j) +
        (if hit \<and> (level = JStr ''mutating'' \<or> level = JStr ''destructive'') then 1 else 0),
      destructive_actions = destructive_actions (getRunBudgetUsage q j) +
        (if hit \<and> level = JStr ''destructive'' then 1 else 0)\<rparr>)"
proof -
  obtain t where "run_events j' q = run_events j q @ filter (\<lambda>e. ev_run_id e = q)
      [\<lparr>ev_run_id = r, ev_sequence = n, ev_type = ty, ev_occurred_at = t, ev_recorded_at = t,
        ev_payload = json_clone_object payload\<rparr>]"
    using assms by (auto simp: appendRunEvent_def run_events_def Let_def split: if_splits list.splits)
  then show ?thesis unfolding getRunBudgetUsage_def Let_def by simp
qed

theorem budget_usage_append_witness:
  "mutating_actions (getRunBudgetUsage ''run_1'' (snd (get_ok (appendRunEvent 0 ''run_1'' ''execution.completed''
     [(''side_effect_level'', JStr ''mutating'')] sample_journal)))) = 1"
proof -
  have "appendRunEvent 0 ''run_1'' ''execution.completed'' [(''side_effect_level'', JStr ''mutating'')] sample_journal =
    Inr (3, snd (get_ok (appendRunEvent 0 ''run_1'' ''execution.completed''
      [(''side_effect_level'', JStr ''mutating'')] sample_journal)))" by code_simp
  note budget_usage_append [OF this, where q = "''run_1''"]
  moreover have "mutating_actions (getRunBudgetUsage ''run_1'' sample_journal) = 0" by code_simp
  moreover have "obj_get (json_clone_object [(''side_effect_level'', JStr ''mutating'')]) ''side_effect_level'' = JStr ''mutating''"
    by code_simp
  ultimately show ?thesis by simp
qed

section \<open>Approvals\<close>

lemma find_approval_SomeD: "find_approval j i = Some a \<Longrightarrow> a \<in> set (jr_approvals j) \<and> ap_id a = i"
  by (auto simp: find_approval_def find_Some_iff in_set_conv_nth)

lemma find_append: "find P (xs @ ys) = (case find P xs of None \<Rightarrow> find P ys | Some x \<Rightarrow> Some x)"
  by (induction xs) auto

lemma find_map_same: "(\<And>x. P (f x) = P x) \<Longrightarrow> find P (map f xs) = map_option f (find P xs)"
  by (induction xs) auto

lemma resolveApproval_find:
  assumes "resolveApproval ts i res note j = Inr (ap, j')"
  shows "find_approval j' i = Some ap \<and> ap_status ap \<noteq> AP_pending \<and>
    (\<forall>k a. find_approval j k = Some a \<longrightarrow> ap_status a \<noteq> AP_pending \<longrightarrow> find_approval j' k = Some a)"
proof -
  obtain ex where ex: "find_approval j i = Some ex"
    using assms by (auto simp: resolveApproval_def getStoredApproval_def split: option.splits)
  show ?thesis
  proof (cases "ap_status ex = AP_pending")
    case False
    with assms ex show ?thesis by (simp add: resolveApproval_def getStoredApproval_def)
  next
    case True
    define upd where "upd = (\<lambda>a :: stored_approval. a\<lparr>ap_status := (if res = RV_approved then AP_approved else AP_denied),
        ap_resolved_at := Some ts, ap_resolution_note := note\<rparr>)"
    define f where "f = (\<lambda>a. if ap_id a = i then upd a else a)"
    have j': "ap = upd ex" "j' = j\<lparr>jr_approvals := map f (jr_approvals j)\<rparr>"
      using assms ex True by (auto simp: resolveApproval_def getStoredApproval_def Let_def f_def upd_def)
    have "find_approval j' k = map_option f (find_approval j k)" for k
      unfolding find_approval_def j' by (simp add: find_map_same f_def upd_def)
    moreover have f: "f ex = upd ex" "ap_status (upd ex) \<noteq> AP_pending"
      using find_approval_SomeD [OF ex] by (simp_all add: f_def upd_def)
    moreover have "f a = a" if "find_approval j k = Some a" "ap_status a \<noteq> AP_pending" for k a
      using find_approval_SomeD [OF that(1)] that ex True by (auto simp: f_def)
    ultimately show ?thesis using ex j'(1) by simp
  qed
qed

lemma resolved_stays:
  assumes "journal_step j j'" "find_approval j i = Some a" "ap_status a \<noteq> AP_pending"
  shows "find_approval j' i = Some a"
  using assms(1)
proof (cases rule: journal_step.cases)
  case (create new_id r act out sn ap)
  then have "jr_approvals j' = jr_approvals j @ [ap]"
    by (auto simp: createApprovalRequest_def Let_def split: if_splits)
  with assms show ?thesis by (simp add: find_approval_def find_append)
next
  case (resolve ts k res nt ap)
  with assms show ?thesis using resolveApproval_find by blast
next
  case (register now k)
  then have "jr_approvals j' = jr_approvals j"
    by (auto simp: registerRunLifecycle_def Let_def split: if_splits list.splits)
  with assms show ?thesis by (simp add: find_approval_def)
next
  case (append now r ty payload n)
  then have "jr_approvals j' = jr_approvals j"
    by (auto simp: appendRunEvent_def Let_def split: if_splits list.splits)
  with assms show ?thesis by (simp add: find_approval_def)
qed

lemma resolved_stays_steps:
  "journal_step\<^sup>*\<^sup>* j j' \<Longrightarrow> find_approval j i = Some a \<Longrightarrow> ap_status a \<noteq> AP_pending \<Longrightarrow> find_approval j' i = Some a"
  by (induction rule: rtranclp_induct) (auto dest: resolved_stays)

lemma resolveApproval_known:
  "find_approval j i = Some a \<Longrightarrow> \<exists>ap j'. resolveApproval ts i res nt j = Inr (ap, j')"
  by (auto simp: resolveApproval_def getStoredApproval_def Let_def)

text \<open>C20: A resolution is final: the record \<open>resolveApproval\<close> returns is no longer pending, is what is
  stored from then on after any further operations, and a later resolution, approving or
  denying, returns it and changes nothing.\<close>

theorem resolveApproval_final:
  assumes "resolveApproval ts i res note j = Inr (ap, j')" "journal_step\<^sup>*\<^sup>* j' j''"
  shows "ap_status ap \<noteq> AP_pending \<and> getStoredApproval i j'' = Some ap \<and>
    resolveApproval ts2 i res2 note2 j'' = Inr (ap, j'')"
  using resolveApproval_find [OF assms(1)] resolved_stays_steps [OF assms(2)]
  by (simp add: getStoredApproval_def resolveApproval_def)

definition sample_outcome :: policy_outcome where
  "sample_outcome = evaluatePolicy js_regex_test ''/ws'' sample_stamps (sample_shell SE_mutating ''git'') empty_context"

definition sample_approval_journal :: journal where
  "sample_approval_journal = snd (get_ok (createApprovalRequest ''apr_1'' ''run_1''
     (sample_shell SE_mutating ''git'') sample_outcome None sample_journal))"

theorem resolveApproval_final_witness:
  "\<exists>ap j'. resolveApproval ''t'' ''apr_1'' RV_denied None sample_approval_journal = Inr (ap, j') \<and>
     resolveApproval ''u'' ''apr_1'' RV_approved None j' = Inr (ap, j')"
proof -
  let ?r = "get_ok (resolveApproval ''t'' ''apr_1'' RV_denied None sample_approval_journal)"
  have "find_approval sample_approval_journal ''apr_1'' \<noteq> None" by code_simp
  then obtain a where "find_approval sample_approval_journal ''apr_1'' = Some a" by blast
  then obtain ap j' where r: "resolveApproval ''t'' ''apr_1'' RV_denied None sample_approval_journal = Inr (ap, j')"
    using resolveApproval_known by blast
  show ?thesis using r resolveApproval_final [OF r rtranclp.rtrancl_refl] by blast
qed

end
