(* ===== verification/Idempotency.thy ===== *)
theory Idempotency
  imports Run_Journal
begin

text \<open>
  Idempotent mutations: the table \<open>idempotent_mutations\<close> of the run journal
  (\<open>packages/run-journal/src/index.ts\<close>) and the part of \<open>handleRequest\<close> in
  \<open>packages/authority-daemon/src/app/authority-service.ts\<close> that guards the handlers with it. The
  handler is awaited, so a request is two steps: \<open>begin_request\<close> up to the switch and
  \<open>finish_request\<close> after it; other requests, the maintenance job and a restart come in between.
  A storage error of an operation is an argument (\<open>Some e\<close>: it throws \<open>e\<close> and changes nothing).
  SHA-256, \<open>JSON.stringify\<close> of a primitive, \<open>localeCompare\<close> and the payload schemas of the methods
  are arguments. Time stamps are strings as stored.
\<close>

section \<open>Envelopes\<close>

record request_envelope =
  rq_request_id :: string
  rq_session_id :: "string option"
  rq_method :: string
  rq_idempotency_key :: "string option"
  rq_payload :: jsval

record response_envelope =
  rs_api_version :: string
  rs_request_id :: string
  rs_session_id :: "string option"
  rs_ok :: bool
  rs_result :: jsval
  rs_error :: "ag_error option"

definition API_VERSION :: string where
  "API_VERSION = ''authority.v1''"

definition nonempty_string :: "jsval \<Rightarrow> string option" where
  "nonempty_string v = (case v of JStr s \<Rightarrow> if s = [] then None else Some s | _ \<Rightarrow> None)"

definition optional_nonempty :: "jsval \<Rightarrow> string option option" where
  "optional_nonempty v = (if v = JUndef then Some None else map_option Some (nonempty_string v))"

definition trace_context_ok :: "jsval \<Rightarrow> bool" where
  "trace_context_ok v =
     (case v of JUndef \<Rightarrow> True
      | JObj fs \<Rightarrow> optional_nonempty (obj_get fs ''trace_id'') \<noteq> None \<and>
          optional_nonempty (obj_get fs ''span_id'') \<noteq> None \<and> set (map fst fs) \<subseteq> {''trace_id'', ''span_id''}
      | _ \<Rightarrow> False)"

definition validation_failed :: ag_error where
  "validation_failed = ValidationError ''Request payload validation failed.''"

definition parseRequestEnvelope :: "(string \<Rightarrow> jsval \<Rightarrow> bool) \<Rightarrow> jsval \<Rightarrow> ag_error + request_envelope" where
  \<comment> \<open>\<open>payload_ok m v\<close>: \<open>m\<close> is a method and \<open>v\<close> fits the payload schema of its variant\<close>
  "parseRequestEnvelope payload_ok raw =
     (case raw of
        JObj fs \<Rightarrow>
          (case (obj_get fs ''api_version'', nonempty_string (obj_get fs ''request_id''),
                 optional_nonempty (obj_get fs ''session_id''), obj_get fs ''method'',
                 optional_nonempty (obj_get fs ''idempotency_key'')) of
             (JStr v, Some rid, Some sid, JStr meth, Some key) \<Rightarrow>
               (if v = API_VERSION \<and> trace_context_ok (obj_get fs ''trace'') \<and> payload_ok meth (obj_get fs ''payload'') \<and>
                   set (map fst fs) \<subseteq> {''api_version'', ''request_id'', ''session_id'', ''method'', ''idempotency_key'',
                                      ''trace'', ''payload''}
                then Inr \<lparr>rq_request_id = rid, rq_session_id = sid, rq_method = meth,
                          rq_idempotency_key = key, rq_payload = obj_get fs ''payload''\<rparr>
                else Inl validation_failed)
           | _ \<Rightarrow> Inl validation_failed)
      | _ \<Rightarrow> Inl validation_failed)"

definition getRequestContext :: "jsval \<Rightarrow> string \<times> string option" where
  "getRequestContext raw =
     (case raw of
        JObj fs \<Rightarrow>
          ((case nonempty_string (obj_get fs ''request_id'') of None \<Rightarrow> ''req_unknown'' | Some r \<Rightarrow> r),
           nonempty_string (obj_get fs ''session_id''))
      | _ \<Rightarrow> (''req_unknown'', None))"

definition makeSuccessResponse :: "string \<Rightarrow> string option \<Rightarrow> jsval \<Rightarrow> response_envelope" where
  "makeSuccessResponse r s v =
     \<lparr>rs_api_version = API_VERSION, rs_request_id = r, rs_session_id = s, rs_ok = True, rs_result = v, rs_error = None\<rparr>"

definition makeErrorResponse :: "string \<Rightarrow> string option \<Rightarrow> ag_error \<Rightarrow> response_envelope" where
  "makeErrorResponse r s e =
     \<lparr>rs_api_version = API_VERSION, rs_request_id = r, rs_session_id = s, rs_ok = False, rs_result = JNull, rs_error = Some e\<rparr>"

definition replayStoredSuccessResponse :: "string \<Rightarrow> string option \<Rightarrow> response_envelope \<Rightarrow> response_envelope" where
  "replayStoredSuccessResponse r s resp =
     resp\<lparr>rs_request_id := r, rs_session_id := (case s of None \<Rightarrow> rs_session_id resp | Some v \<Rightarrow> Some v)\<rparr>"

definition IDEMPOTENT_MUTATION_METHODS :: "string list" where
  "IDEMPOTENT_MUTATION_METHODS =
     [''register_run'', ''submit_mcp_server_candidate'', ''resolve_mcp_server_candidate'',
      ''approve_mcp_server_profile'', ''bind_mcp_server_credentials'', ''revoke_mcp_server_credentials'',
      ''activate_mcp_server_profile'', ''quarantine_mcp_server_profile'', ''revoke_mcp_server_profile'',
      ''upsert_mcp_server'', ''remove_mcp_server'', ''upsert_mcp_secret'', ''remove_mcp_secret'',
      ''upsert_mcp_host_policy'', ''remove_mcp_host_policy'', ''requeue_hosted_mcp_job'',
      ''cancel_hosted_mcp_job'', ''run_maintenance'', ''submit_action_attempt'', ''resolve_approval'',
      ''execute_recovery'']"

definition canUseIdempotency :: "request_envelope \<Rightarrow> bool" where
  "canUseIdempotency rq =
     (rq_method rq \<in> set IDEMPOTENT_MUTATION_METHODS \<and>
      (case rq_idempotency_key rq of None \<Rightarrow> False | Some k \<Rightarrow> k \<noteq> []))"

section \<open>The table of idempotent mutations\<close>

datatype idem_state = IS_pending | IS_completed | IS_outcome_unknown

record idem_row =
  im_session_id :: string
  im_key :: string
  im_method :: string
  im_digest :: string
  im_state :: idem_state
  im_response :: "response_envelope option"
  im_stored_at :: string
  im_completed_at :: "string option"
  im_uncertainty_recorded_at :: "string option"
  im_uncertainty_reason :: "string option"

type_synonym idem_table = "idem_row list"

fun stableJsonStringify :: "(jsval \<Rightarrow> string) \<Rightarrow> (string \<Rightarrow> string \<Rightarrow> int) \<Rightarrow> jsval \<Rightarrow> string" where
  "stableJsonStringify prim cmp (JArr xs) =
     ''['' @ js_join '','' (map (stableJsonStringify prim cmp) xs) @ '']''"
| "stableJsonStringify prim cmp (JObj kvs) =
     ''{'' @ js_join '','' (map (\<lambda>kv. prim (JStr (fst kv)) @ '':'' @ snd kv)
       (js_sort (\<lambda>x y. cmp (fst x) (fst y)) (map (\<lambda>kv. (fst kv, stableJsonStringify prim cmp (snd kv))) kvs))) @ ''}''"
| "stableJsonStringify prim cmp v = prim v"

definition payloadDigestForIdempotency ::
  "(string \<Rightarrow> string) \<Rightarrow> (jsval \<Rightarrow> string) \<Rightarrow> (string \<Rightarrow> string \<Rightarrow> int) \<Rightarrow> jsval \<Rightarrow> string" where
  "payloadDigestForIdempotency sha256 prim cmp v = sha256 (stableJsonStringify prim cmp v)"

definition is_row :: "string \<Rightarrow> string \<Rightarrow> idem_row \<Rightarrow> bool" where
  "is_row s k row = (im_session_id row = s \<and> im_key row = k)"

definition find_row :: "idem_table \<Rightarrow> string \<Rightarrow> string \<Rightarrow> idem_row option" where
  "find_row t s k = find (is_row s k) t"

text \<open>A stored response is what \<open>JSON.parse\<close> makes of the \<open>JSON.stringify\<close> of the response.\<close>

definition stored_response :: "response_envelope \<Rightarrow> response_envelope" where
  "stored_response resp = resp\<lparr>rs_result := json_clone (rs_result resp)\<rparr>"

definition parseStoredIdempotentResponse :: "response_envelope \<Rightarrow> ag_error + response_envelope" where
  "parseStoredIdempotentResponse resp =
     (if rs_api_version resp \<noteq> API_VERSION \<or> \<not> rs_ok resp
      then Inl (InternalError ''Stored idempotent response could not be parsed.'') else Inr resp)"

datatype claim_result =
    CR_claimed string
  | CR_conflict "(string \<times> string \<times> response_envelope) option"
  | CR_replay response_envelope
  | CR_outcome_unknown "string \<times> string \<times> string"
  | CR_in_progress string

definition claimIdempotentMutation ::
  "(jsval \<Rightarrow> string) \<Rightarrow> string \<Rightarrow> string \<Rightarrow> string \<Rightarrow> jsval \<Rightarrow> string \<Rightarrow> idem_table \<Rightarrow> ag_error + claim_result \<times> idem_table" where
  "claimIdempotentMutation digest s k meth payload stored_at t =
     (let d = digest payload in
      (case find_row t s k of
         None \<Rightarrow> Inr (CR_claimed d, t @
           [\<lparr>im_session_id = s, im_key = k, im_method = meth, im_digest = d, im_state = IS_pending,
             im_response = None, im_stored_at = stored_at, im_completed_at = None,
             im_uncertainty_recorded_at = None, im_uncertainty_reason = None\<rparr>])
       | Some row \<Rightarrow>
           (if im_method row \<noteq> meth \<or> im_digest row \<noteq> d then
              (case im_response row of
                 None \<Rightarrow> Inr (CR_conflict None, t)
               | Some resp \<Rightarrow> (case parseStoredIdempotentResponse resp of
                     Inl e \<Rightarrow> Inl e | Inr p \<Rightarrow> Inr (CR_conflict (Some (im_method row, im_digest row, p)), t)))
            else if im_state row = IS_completed \<and> im_response row \<noteq> None then
              (case parseStoredIdempotentResponse (the (im_response row)) of
                 Inl e \<Rightarrow> Inl e | Inr p \<Rightarrow> Inr (CR_replay p, t))
            else if im_state row = IS_outcome_unknown then
              Inr (CR_outcome_unknown (im_stored_at row,
                (case im_uncertainty_recorded_at row of None \<Rightarrow> im_stored_at row | Some v \<Rightarrow> v),
                (case im_uncertainty_reason row of None \<Rightarrow> ''previous_attempt_interrupted'' | Some v \<Rightarrow> v)), t)
            else Inr (CR_in_progress (im_stored_at row), t))))"

definition completeIdempotentMutation ::
  "string \<Rightarrow> string \<Rightarrow> response_envelope \<Rightarrow> string \<Rightarrow> idem_table \<Rightarrow> idem_table" where
  "completeIdempotentMutation s k resp completed_at t =
     map (\<lambda>row. if is_row s k row
        then row\<lparr>im_state := IS_completed, im_response := Some (stored_response resp),
                 im_completed_at := Some completed_at, im_uncertainty_recorded_at := None,
                 im_uncertainty_reason := None\<rparr>
        else row) t"

definition releaseIdempotentMutation :: "string \<Rightarrow> string \<Rightarrow> idem_table \<Rightarrow> idem_table" where
  "releaseIdempotentMutation s k t = filter (\<lambda>row. \<not> (is_row s k row \<and> im_state row = IS_pending)) t"

definition markIdempotentMutationOutcomeUnknown ::
  "string \<Rightarrow> string \<Rightarrow> string \<Rightarrow> string \<Rightarrow> idem_table \<Rightarrow> idem_table" where
  "markIdempotentMutationOutcomeUnknown s k recorded_at why t =
     map (\<lambda>row. if is_row s k row \<and> im_state row \<noteq> IS_completed
        then row\<lparr>im_state := IS_outcome_unknown, im_response := None, im_completed_at := None,
                 im_uncertainty_recorded_at := Some recorded_at, im_uncertainty_reason := Some why\<rparr>
        else row) t"

definition reconcilePendingIdempotentMutations :: "string \<Rightarrow> idem_table \<Rightarrow> nat \<times> idem_table" where
  "reconcilePendingIdempotentMutations reconciled_at t =
     (length (filter (\<lambda>row. im_state row = IS_pending) t),
      map (\<lambda>row. if im_state row = IS_pending
        then row\<lparr>im_state := IS_outcome_unknown, im_uncertainty_recorded_at := Some reconciled_at,
                 im_uncertainty_reason := Some ''daemon_restarted_before_completion''\<rparr>
        else row) t)"

section \<open>The guard around the handlers\<close>

datatype handler_outcome = HO_response response_envelope | HO_throw ag_error

datatype begun = BG_respond response_envelope | BG_run request_envelope bool

definition conflict_error :: ag_error where
  "conflict_error = PreconditionError ''Idempotency key has already been used for a different mutating request.''"

definition in_progress_error :: ag_error where
  "in_progress_error = agent_git_error
     ''An idempotent request with the same key is already in progress. Retry after the original request finishes.''
     PRECONDITION_FAILED True"

definition unknown_outcome_error :: ag_error where
  "unknown_outcome_error = PreconditionError
     ''A previous request with this idempotency key has an unknown outcome after interruption or journal finalization failure. Inspect side effects before retrying or reusing the key.''"

definition finalization_error :: "error_code \<Rightarrow> ag_error" where
  "finalization_error c = agent_git_error
     ''Request side effects completed, but durable idempotency finalization failed. The request outcome is now locked as unknown until an operator reconciles it.''
     c False"

definition claims_key :: "request_envelope \<Rightarrow> (string \<times> string) option" where
  "claims_key rq =
     (case (rq_session_id rq, rq_idempotency_key rq) of
        (Some s, Some k) \<Rightarrow> if canUseIdempotency rq \<and> s \<noteq> [] then Some (s, k) else None
      | _ \<Rightarrow> None)"

definition begin_validated ::
  "(jsval \<Rightarrow> string) \<Rightarrow> string \<Rightarrow> ag_error option \<Rightarrow> string \<times> string option \<Rightarrow> request_envelope \<Rightarrow> idem_table \<Rightarrow> begun \<times> idem_table" where
  "begin_validated digest now claim_fault ctx rq t =
     (let fail = (\<lambda>e. BG_respond (makeErrorResponse (fst ctx) (snd ctx) e)) in
      case claims_key rq of
        None \<Rightarrow> (BG_run rq False, t)
      | Some (s, k) \<Rightarrow>
          (case claim_fault of
             Some e \<Rightarrow> (fail e, t)
           | None \<Rightarrow>
             (case claimIdempotentMutation digest s k (rq_method rq) (rq_payload rq) now t of
                Inl e \<Rightarrow> (fail e, t)
              | Inr (CR_replay resp, t') \<Rightarrow>
                  (BG_respond (replayStoredSuccessResponse (rq_request_id rq) (rq_session_id rq) resp), t')
              | Inr (CR_conflict _, t') \<Rightarrow> (fail conflict_error, t')
              | Inr (CR_in_progress _, t') \<Rightarrow> (fail in_progress_error, t')
              | Inr (CR_outcome_unknown _, t') \<Rightarrow> (fail unknown_outcome_error, t')
              | Inr (CR_claimed _, t') \<Rightarrow> (BG_run rq True, t'))))"

definition begin_request ::
  "(string \<Rightarrow> jsval \<Rightarrow> bool) \<Rightarrow> (jsval \<Rightarrow> string) \<Rightarrow> string \<Rightarrow> ag_error option \<Rightarrow> jsval \<Rightarrow> idem_table \<Rightarrow> begun \<times> idem_table" where
  "begin_request payload_ok digest now claim_fault raw t =
     (let ctx = getRequestContext raw in
      case parseRequestEnvelope payload_ok raw of
        Inl e \<Rightarrow> (BG_respond (makeErrorResponse (fst ctx) (snd ctx) e), t)
      | Inr rq \<Rightarrow> begin_validated digest now claim_fault ctx rq t)"

record finish_faults =
  ff_complete :: "ag_error option"
  ff_lock :: "ag_error option"
  ff_mark :: "ag_error option"

definition fail_request ::
  "string \<Rightarrow> ag_error option \<Rightarrow> request_envelope \<Rightarrow> bool \<Rightarrow> ag_error \<Rightarrow> idem_table \<Rightarrow> response_envelope \<times> idem_table" where
  \<comment> \<open>the inner \<open>catch\<close>, with the key not yet finalized\<close>
  "fail_request now mark_fault rq claimed e t =
     (let err = makeErrorResponse (rq_request_id rq) (rq_session_id rq) in
      case (claimed, claims_key rq, mark_fault) of
        (True, Some (s, k), Some e') \<Rightarrow> (err e', t)
      | (True, Some (s, k), None) \<Rightarrow>
          (err e, markIdempotentMutationOutcomeUnknown s k now ''request_failed_before_durable_completion'' t)
      | _ \<Rightarrow> (err e, t))"

definition finish_request ::
  "string \<Rightarrow> finish_faults \<Rightarrow> request_envelope \<Rightarrow> bool \<Rightarrow> handler_outcome \<Rightarrow> idem_table \<Rightarrow> response_envelope \<times> idem_table" where
  "finish_request now faults rq claimed outcome t =
     (case outcome of
        HO_throw e \<Rightarrow> fail_request now (ff_mark faults) rq claimed e t
      | HO_response resp \<Rightarrow>
          (case (claimed \<and> rs_ok resp, claims_key rq) of
             (True, Some (s, k)) \<Rightarrow>
               (case ff_complete faults of
                  None \<Rightarrow> (resp, completeIdempotentMutation s k resp now t)
                | Some ce \<Rightarrow>
                    (case ff_lock faults of
                       None \<Rightarrow>
                         (makeErrorResponse (rq_request_id rq) (rq_session_id rq) (finalization_error (err_code ce)),
                          markIdempotentMutationOutcomeUnknown s k now ''response_persistence_failed_after_side_effects'' t)
                     | Some le \<Rightarrow> fail_request now (ff_mark faults) rq claimed le t))
           | _ \<Rightarrow> (resp, t)))"

end
