(* ===== verification/Idempotency_Theorems.thy ===== *)
theory Idempotency_Theorems
  imports Idempotency "HOL-Library.Multiset"
begin

text \<open>
  What the idempotency guard promises under any interleaving of requests, maintenance runs and
  restarts. The locale \<open>once_store\<close> is what the guard relies on of the table: a key is granted only
  while it is absent, and no operation makes a present key absent again.
\<close>

section \<open>The contract of the table\<close>

locale once_store =
  fixes present :: "'s \<Rightarrow> 'k \<Rightarrow> bool"
    and granted :: "'k \<Rightarrow> 's \<Rightarrow> 's \<Rightarrow> bool"
    and other :: "'s \<Rightarrow> 's \<Rightarrow> bool"
  assumes granted_absent: "granted k s t \<Longrightarrow> \<not> present s k"
    and granted_present: "granted k s t \<Longrightarrow> present t k"
    and granted_keeps: "granted k s t \<Longrightarrow> present s q \<Longrightarrow> present t q"
    and other_keeps: "other s t \<Longrightarrow> present s q \<Longrightarrow> present t q"
begin

lemma grant_once:
  "granted k s t \<Longrightarrow> distinct ks \<Longrightarrow> \<forall>q \<in> set ks. present s q \<Longrightarrow>
     distinct (ks @ [k]) \<and> (\<forall>q \<in> set (ks @ [k]). present t q)"
  using granted_absent granted_present granted_keeps by auto

lemma other_once: "other s t \<Longrightarrow> \<forall>q \<in> set ks. present s q \<Longrightarrow> \<forall>q \<in> set ks. present t q"
  using other_keeps by blast

end

definition key_present :: "idem_table \<Rightarrow> string \<times> string \<Rightarrow> bool" where
  "key_present t k = (find_row t (fst k) (snd k) \<noteq> None)"

definition key_granted :: "string \<times> string \<Rightarrow> idem_table \<Rightarrow> idem_table \<Rightarrow> bool" where
  "key_granted k t t' =
     (\<exists>digest meth payload now d. claimIdempotentMutation digest (fst k) (snd k) meth payload now t = Inr (CR_claimed d, t'))"

definition table_update :: "idem_table \<Rightarrow> idem_table \<Rightarrow> bool" where
  "table_update t t' =
     (t' = t \<or> (\<exists>s k resp now. t' = completeIdempotentMutation s k resp now t) \<or>
      (\<exists>s k now why. t' = markIdempotentMutationOutcomeUnknown s k now why t) \<or>
      (\<exists>now. t' = snd (reconcilePendingIdempotentMutations now t)))"

section \<open>Looking rows up\<close>

lemma find_row_Some: "find_row t s k = Some row \<Longrightarrow> row \<in> set t \<and> is_row s k row"
  by (auto simp: find_row_def find_Some_iff in_set_conv_nth)

lemma find_row_snoc: "find_row (t @ [r]) s k = (case find_row t s k of Some x \<Rightarrow> Some x | None \<Rightarrow> if is_row s k r then Some r else None)"
  unfolding find_row_def by (induction t) auto

lemma find_row_map:
  "(\<And>r. im_session_id (f r) = im_session_id r \<and> im_key (f r) = im_key r) \<Longrightarrow>
     find_row (map f t) s k = map_option f (find_row t s k)"
  unfolding find_row_def by (induction t) (auto simp: is_row_def)

lemma find_row_complete:
  "find_row (completeIdempotentMutation a b resp now t) s k =
     map_option (\<lambda>row. if is_row a b row
        then row\<lparr>im_state := IS_completed, im_response := Some (stored_response resp),
                 im_completed_at := Some now, im_uncertainty_recorded_at := None,
                 im_uncertainty_reason := None\<rparr>
        else row) (find_row t s k)"
  unfolding completeIdempotentMutation_def by (rule find_row_map) simp

lemma find_row_mark:
  "find_row (markIdempotentMutationOutcomeUnknown a b now why t) s k =
     map_option (\<lambda>row. if is_row a b row \<and> im_state row \<noteq> IS_completed
        then row\<lparr>im_state := IS_outcome_unknown, im_response := None, im_completed_at := None,
                 im_uncertainty_recorded_at := Some now, im_uncertainty_reason := Some why\<rparr>
        else row) (find_row t s k)"
  unfolding markIdempotentMutationOutcomeUnknown_def by (rule find_row_map) simp

lemma find_row_reconcile:
  "find_row (snd (reconcilePendingIdempotentMutations now t)) s k =
     map_option (\<lambda>row. if im_state row = IS_pending
        then row\<lparr>im_state := IS_outcome_unknown, im_uncertainty_recorded_at := Some now,
                 im_uncertainty_reason := Some ''daemon_restarted_before_completion''\<rparr>
        else row) (find_row t s k)"
  unfolding reconcilePendingIdempotentMutations_def snd_conv by (rule find_row_map) simp

lemmas find_row_updates = find_row_complete find_row_mark find_row_reconcile

lemma claim_claimed:
  "claimIdempotentMutation digest s k meth payload now t = Inr (CR_claimed d, t') \<longleftrightarrow>
     find_row t s k = None \<and> d = digest payload \<and>
     t' = t @ [\<lparr>im_session_id = s, im_key = k, im_method = meth, im_digest = d, im_state = IS_pending,
             im_response = None, im_stored_at = now, im_completed_at = None,
             im_uncertainty_recorded_at = None, im_uncertainty_reason = None\<rparr>]"
  by (auto simp: claimIdempotentMutation_def Let_def split: option.splits if_splits sum.splits)

lemma claim_not_claimed:
  "claimIdempotentMutation digest s k meth payload now t = Inr (c, t') \<Longrightarrow> (\<And>d. c \<noteq> CR_claimed d) \<Longrightarrow> t' = t"
  by (auto simp: claimIdempotentMutation_def Let_def split: option.splits if_splits sum.splits)

interpretation im: once_store key_present key_granted table_update
proof
  fix k q :: "string \<times> string" and s t :: idem_table
  show "\<not> key_present s k" if "key_granted k s t"
    using that by (auto simp: key_granted_def key_present_def claim_claimed)
  show "key_present t k" if "key_granted k s t"
    using that by (auto simp: key_granted_def key_present_def claim_claimed find_row_snoc is_row_def)
  show "key_present t q" if "key_granted k s t" "key_present s q"
    using that by (auto simp: key_granted_def key_present_def claim_claimed find_row_snoc)
  show "key_present t q" if "table_update s t" "key_present s q"
    using that by (auto simp: table_update_def key_present_def find_row_updates)
qed

section \<open>Interleavings\<close>

text \<open>The daemon between awaits: the table, the requests whose handler is running, and every handler
  call made so far. \<open>maintain\<close> is the job \<open>startup_reconcile_recoveries\<close> of a running daemon,
  \<open>restart\<close> the loss of the running handlers and the start-up reconciliation.\<close>

record daemon =
  dn_table :: idem_table
  dn_running :: "(request_envelope \<times> bool) multiset"
  dn_started :: "request_envelope list"

definition empty_daemon :: daemon where
  "empty_daemon = \<lparr>dn_table = [], dn_running = {#}, dn_started = []\<rparr>"

inductive daemon_step ::
  "(string \<Rightarrow> jsval \<Rightarrow> bool) \<Rightarrow> (jsval \<Rightarrow> string) \<Rightarrow> daemon \<Rightarrow> daemon \<Rightarrow> bool" for payload_ok digest where
  answer: "begin_request payload_ok digest now fault raw (dn_table d) = (BG_respond resp, t) \<Longrightarrow>
     daemon_step payload_ok digest d (d\<lparr>dn_table := t\<rparr>)"
| call: "begin_request payload_ok digest now fault raw (dn_table d) = (BG_run rq claimed, t) \<Longrightarrow>
     daemon_step payload_ok digest d
       (d\<lparr>dn_table := t, dn_running := add_mset (rq, claimed) (dn_running d), dn_started := dn_started d @ [rq]\<rparr>)"
| finish: "(rq, claimed) \<in># dn_running d \<Longrightarrow> finish_request now faults rq claimed outcome (dn_table d) = (resp, t) \<Longrightarrow>
     daemon_step payload_ok digest d (d\<lparr>dn_table := t, dn_running := dn_running d - {#(rq, claimed)#}\<rparr>)"
| maintain: "daemon_step payload_ok digest d (d\<lparr>dn_table := snd (reconcilePendingIdempotentMutations now (dn_table d))\<rparr>)"
| restart: "daemon_step payload_ok digest d
     (d\<lparr>dn_table := snd (reconcilePendingIdempotentMutations now (dn_table d)), dn_running := {#}\<rparr>)"

inductive daemon_reachable ::
  "(string \<Rightarrow> jsval \<Rightarrow> bool) \<Rightarrow> (jsval \<Rightarrow> string) \<Rightarrow> daemon \<Rightarrow> bool" for payload_ok digest where
  start: "daemon_reachable payload_ok digest empty_daemon"
| step: "daemon_reachable payload_ok digest d \<Longrightarrow> daemon_step payload_ok digest d d' \<Longrightarrow>
     daemon_reachable payload_ok digest d'"

definition started_keys :: "daemon \<Rightarrow> (string \<times> string) list" where
  "started_keys d = concat (map (\<lambda>rq. case claims_key rq of None \<Rightarrow> [] | Some k \<Rightarrow> [k]) (dn_started d))"

lemma begin_validated_cases:
  assumes "begin_validated digest now fault ctx rq t = (b, t')"
  shows "(\<exists>resp. b = BG_respond resp \<and> t' = t) \<or> (b = BG_run rq False \<and> t' = t \<and> claims_key rq = None) \<or>
    (b = BG_run rq True \<and> (\<exists>k. claims_key rq = Some k \<and> key_granted k t t'))"
proof (cases "claims_key rq")
  case None
  with assms show ?thesis by (auto simp: begin_validated_def Let_def)
next
  case (Some sk)
  obtain s k where sk: "sk = (s, k)" by force
  note key = Some [unfolded sk]
  show ?thesis
  proof (cases fault)
    case (Some e)
    with assms key show ?thesis by (auto simp: begin_validated_def Let_def)
  next
    case None
    show ?thesis
    proof (cases "claimIdempotentMutation digest s k (rq_method rq) (rq_payload rq) now t")
      case (Inl e)
      with None assms key show ?thesis by (auto simp: begin_validated_def Let_def)
    next
      case (Inr ct)
      obtain c u where ct: "ct = (c, u)" by force
      note claim = Inr [unfolded ct]
      show ?thesis
      proof (cases c)
        case (CR_claimed d)
        then have "key_granted (s, k) t u" using claim unfolding key_granted_def fst_conv snd_conv by blast
        with None assms key claim CR_claimed show ?thesis by (auto simp: begin_validated_def Let_def)
      qed (use None assms key claim claim_not_claimed [OF claim] in
          \<open>auto simp: begin_validated_def Let_def\<close>)
    qed
  qed
qed

lemma begin_request_cases:
  assumes "begin_request payload_ok digest now fault raw t = (b, t')"
  obtains resp where "b = BG_respond resp" "t' = t"
  | rq where "b = BG_run rq False" "t' = t" "claims_key rq = None"
  | rq k where "b = BG_run rq True" "claims_key rq = Some k" "key_granted k t t'"
proof (cases "parseRequestEnvelope payload_ok raw")
  case (Inl e)
  with assms have "b = BG_respond (makeErrorResponse (fst (getRequestContext raw)) (snd (getRequestContext raw)) e)"
    "t' = t" by (auto simp: begin_request_def Let_def)
  then show thesis by (rule that(1))
next
  case (Inr rq)
  with assms have "begin_validated digest now fault (getRequestContext raw) rq t = (b, t')"
    by (simp add: begin_request_def Let_def)
  from begin_validated_cases [OF this] show thesis using that by blast
qed

lemma table_updateI:
  "table_update t t"
  "table_update t (completeIdempotentMutation s k resp now t)"
  "table_update t (markIdempotentMutationOutcomeUnknown s k now why t)"
  "table_update t (snd (reconcilePendingIdempotentMutations now t))"
  unfolding table_update_def by blast+

lemma fail_request_update: "table_update t (snd (fail_request now mf rq claimed e t))"
  by (auto simp: fail_request_def Let_def table_updateI split: prod.splits bool.splits option.splits)

lemma finish_request_update: "table_update t (snd (finish_request now faults rq claimed outcome t))"
  by (auto simp: finish_request_def table_updateI fail_request_update
      split: handler_outcome.splits prod.splits bool.splits option.splits)

lemma finish_request_claims: "snd (fail_request now mf rq False e t) = t"
  by (simp add: fail_request_def Let_def)

definition daemon_once :: "daemon \<Rightarrow> bool" where
  "daemon_once d = (distinct (started_keys d) \<and> (\<forall>k \<in> set (started_keys d). key_present (dn_table d) k))"

lemma started_keys_snoc:
  "started_keys (d\<lparr>dn_table := t, dn_running := r, dn_started := dn_started d @ [rq]\<rparr>) =
     started_keys d @ (case claims_key rq of None \<Rightarrow> [] | Some k \<Rightarrow> [k])"
  by (simp add: started_keys_def)

lemma started_keys_same [simp]:
  "started_keys (d\<lparr>dn_table := t, dn_running := r\<rparr>) = started_keys d"
  "started_keys (d\<lparr>dn_table := t\<rparr>) = started_keys d"
  by (simp_all add: started_keys_def)

lemma daemon_step_once: "daemon_step payload_ok digest d d' \<Longrightarrow> daemon_once d \<Longrightarrow> daemon_once d'"
proof (induction rule: daemon_step.induct)
  case (answer now fault raw d resp t)
  from answer(1) show ?case using answer(2) by (cases rule: begin_request_cases) (auto simp: daemon_once_def)
next
  case (call now fault raw d rq claimed t)
  from call(1) show ?case
  proof (cases rule: begin_request_cases)
    case 2
    with call(2) show ?thesis unfolding daemon_once_def started_keys_snoc by simp
  next
    case (3 rq' k)
    from im.grant_once [OF 3(3), of "started_keys d"] call(2) 3
    show ?thesis unfolding daemon_once_def started_keys_snoc by simp
  qed simp
next
  case (finish rq claimed d now faults outcome resp t)
  then have "table_update (dn_table d) t" by (metis finish_request_update snd_conv)
  from im.other_once [OF this, of "started_keys d"] finish(3) show ?case by (simp add: daemon_once_def)
next
  case (maintain d now)
  from im.other_once [OF table_updateI(4), of "started_keys d"] maintain show ?case by (simp add: daemon_once_def)
next
  case (restart d now)
  from im.other_once [OF table_updateI(4), of "started_keys d"] restart show ?case by (simp add: daemon_once_def)
qed

lemma daemon_once_empty: "daemon_once empty_daemon"
  by (simp add: daemon_once_def started_keys_def empty_daemon_def)

lemma daemon_reachable_once: "daemon_reachable payload_ok digest d \<Longrightarrow> daemon_once d"
  by (induction rule: daemon_reachable.induct) (auto intro: daemon_once_empty daemon_step_once)

text \<open>C16: However requests, handler results, storage errors, maintenance runs and restarts are
  interleaved, the handler of a mutating method runs at most once for each pair of session and
  idempotency key.\<close>

theorem handler_runs_at_most_once:
  assumes "daemon_reachable payload_ok digest d"
  shows "length (filter (\<lambda>rq. claims_key rq = Some k) (dn_started d)) \<le> 1"
proof -
  have "distinct (started_keys d)" using daemon_reachable_once [OF assms] by (simp add: daemon_once_def)
  moreover have "length (filter (\<lambda>rq. claims_key rq = Some k) rqs) =
      count_list (concat (map (\<lambda>rq. case claims_key rq of None \<Rightarrow> [] | Some k \<Rightarrow> [k]) rqs)) k" for rqs
    by (induction rqs) (auto split: option.splits)
  moreover have "distinct ks \<Longrightarrow> count_list ks q \<le> 1" for ks :: "(string \<times> string) list" and q
    by (induction ks) (auto simp: count_list_0_iff)
  ultimately show ?thesis by (simp add: started_keys_def)
qed

definition sample_request :: jsval where
  "sample_request = JObj [(''api_version'', JStr ''authority.v1''), (''request_id'', JStr ''req_1''),
     (''session_id'', JStr ''sess_1''), (''method'', JStr ''register_run''),
     (''idempotency_key'', JStr ''key_1''), (''payload'', JObj [])]"

definition sample_digest :: "jsval \<Rightarrow> string" where
  "sample_digest v = (case v of JObj kvs \<Rightarrow> ''obj:'' @ concat (map fst kvs) | _ \<Rightarrow> ''prim'')"

definition sample_envelope :: request_envelope where
  "sample_envelope = projr (parseRequestEnvelope (\<lambda>m v. True) sample_request)"

definition running_daemon :: daemon where
  "running_daemon = empty_daemon\<lparr>dn_table := snd (begin_request (\<lambda>m v. True) sample_digest ''t'' None sample_request []),
     dn_running := {#(sample_envelope, True)#}, dn_started := [sample_envelope]\<rparr>"

lemma sample_begin:
  "begin_request (\<lambda>m v. True) sample_digest ''t'' None sample_request [] =
     (BG_run sample_envelope True, dn_table running_daemon)"
  by code_simp

lemma running_daemon_reachable: "daemon_reachable (\<lambda>m v. True) sample_digest running_daemon"
proof -
  have "daemon_step (\<lambda>m v. True) sample_digest empty_daemon (empty_daemon\<lparr>dn_table := dn_table running_daemon,
      dn_running := add_mset (sample_envelope, True) (dn_running empty_daemon),
      dn_started := dn_started empty_daemon @ [sample_envelope]\<rparr>)"
    by (rule daemon_step.call [where now = "''t''" and fault = None and raw = sample_request])
      (simp add: empty_daemon_def sample_begin)
  moreover have "empty_daemon\<lparr>dn_table := dn_table running_daemon,
      dn_running := add_mset (sample_envelope, True) (dn_running empty_daemon),
      dn_started := dn_started empty_daemon @ [sample_envelope]\<rparr> = running_daemon"
    by (simp add: running_daemon_def empty_daemon_def)
  ultimately show ?thesis by (metis daemon_reachable.start daemon_reachable.step)
qed

theorem handler_runs_at_most_once_witness:
  "length (filter (\<lambda>rq. claims_key rq = Some (''sess_1'', ''key_1'')) (dn_started running_daemon)) \<le> 1 \<and>
   claims_key sample_envelope = Some (''sess_1'', ''key_1'')"
  using handler_runs_at_most_once [OF running_daemon_reachable] by (intro conjI) (blast, code_simp)

section \<open>Replay\<close>

definition row_of :: "(jsval \<Rightarrow> string) \<Rightarrow> request_envelope \<Rightarrow> idem_row \<Rightarrow> bool" where
  "row_of digest rq row = (im_method row = rq_method rq \<and> im_digest row = digest (rq_payload rq))"

definition claimed_keys :: "daemon \<Rightarrow> (string \<times> string) option multiset" where
  "claimed_keys d = image_mset (\<lambda>x. claims_key (fst x)) (filter_mset snd (dn_running d))"

definition daemon_inv :: "(jsval \<Rightarrow> string) \<Rightarrow> daemon \<Rightarrow> bool" where
  "daemon_inv digest d =
     (daemon_once d \<and> claimed_keys d \<subseteq># image_mset Some (mset (started_keys d)) \<and>
      (\<forall>rq. (rq, True) \<in># dn_running d \<longrightarrow> rq \<in> set (dn_started d) \<and> claims_key rq \<noteq> None) \<and>
      (\<forall>rq \<in> set (dn_started d). \<forall>s k. claims_key rq = Some (s, k) \<longrightarrow>
         (\<exists>row. find_row (dn_table d) s k = Some row \<and> row_of digest rq row)))"

lemma row_of_update:
  "table_update t t' \<Longrightarrow> find_row t s k = Some row \<Longrightarrow> row_of digest rq row \<Longrightarrow>
     \<exists>row'. find_row t' s k = Some row' \<and> row_of digest rq row'"
  by (auto simp: table_update_def find_row_updates row_of_def)

lemma row_of_granted:
  "key_granted q t t' \<Longrightarrow> find_row t s k = Some row \<Longrightarrow> find_row t' s k = Some row"
  by (auto simp: key_granted_def claim_claimed find_row_snoc)

lemma claimed_keys_finish:
  "claimed_keys (d\<lparr>dn_table := t, dn_running := dn_running d - {#x#}\<rparr>) \<subseteq># claimed_keys d"
  unfolding claimed_keys_def by (simp add: image_mset_subseteq_mono multiset_filter_mono)

lemma begin_request_row:
  assumes "begin_request payload_ok digest now fault raw t = (BG_run rq claimed, t')" "claims_key rq = Some (s, k)"
  shows "\<exists>row. find_row t' s k = Some row \<and> row_of digest rq row"
proof -
  from assms have "\<exists>d. claimIdempotentMutation digest s k (rq_method rq) (rq_payload rq) now t = Inr (CR_claimed d, t')"
    by (auto simp: begin_request_def begin_validated_def Let_def
        split: sum.splits option.splits prod.splits claim_result.splits)
  then show ?thesis by (auto simp: claim_claimed find_row_snoc is_row_def row_of_def)
qed

lemma daemon_step_inv: "daemon_step payload_ok digest d d' \<Longrightarrow> daemon_inv digest d \<Longrightarrow> daemon_inv digest d'"
proof -
  assume step: "daemon_step payload_ok digest d d'" and inv: "daemon_inv digest d"
  have once: "daemon_once d'" using daemon_step_once [OF step] inv by (simp add: daemon_inv_def)
  have rows: "\<exists>row. find_row t' s k = Some row \<and> row_of digest rq row"
    if "rq \<in> set (dn_started d)" "table_update (dn_table d) t'" "claims_key rq = Some (s, k)" for rq t' s k
    using that inv row_of_update unfolding daemon_inv_def by blast
  from step show ?thesis
  proof cases
    case (answer now fault raw resp t)
    from answer(2) have "t = dn_table d" by (cases rule: begin_request_cases) auto
    with answer(1) inv show ?thesis by simp
  next
    case (call now fault raw rq claimed t)
    have keys: "started_keys d' = started_keys d @ (case claims_key rq of None \<Rightarrow> [] | Some k \<Rightarrow> [k])"
      unfolding call(1) by (rule started_keys_snoc)
    note row = begin_request_row [OF call(2)]
    from call(2) show ?thesis
    proof (cases rule: begin_request_cases)
      case 2
      with inv once keys row show ?thesis by (auto simp: daemon_inv_def claimed_keys_def call(1))
    next
      case (3 rq' k)
      have kept: "\<exists>row. find_row t s k = Some row \<and> row_of digest rq row"
        if "rq \<in> set (dn_started d)" "claims_key rq = Some (s, k)" for rq s k
        using that inv row_of_granted [OF 3(3)] unfolding daemon_inv_def by blast
      have "claimed_keys d' \<subseteq># image_mset Some (mset (started_keys d'))"
        using inv keys 3 by (simp add: daemon_inv_def claimed_keys_def call(1))
      with once row kept 3 inv show ?thesis by (auto simp: daemon_inv_def call(1))
    qed simp
  next
    case (finish rq claimed now faults outcome resp t)
    have upd: "table_update (dn_table d) t" using finish(3) by (metis finish_request_update snd_conv)
    have "claimed_keys d' \<subseteq># image_mset Some (mset (started_keys d'))"
      using inv subset_mset.order_trans [OF claimed_keys_finish] unfolding finish(1)
      by (auto simp: daemon_inv_def)
    with once rows [OF _ upd] inv show ?thesis by (auto simp: daemon_inv_def finish(1) dest: in_diffD)
  next
    case (maintain now)
    with inv once rows [OF _ table_updateI(4)] show ?thesis by (auto simp: daemon_inv_def claimed_keys_def)
  next
    case (restart now)
    with once rows [OF _ table_updateI(4)] show ?thesis by (auto simp: daemon_inv_def claimed_keys_def)
  qed
qed

lemma daemon_inv_empty: "daemon_inv digest empty_daemon"
  by (simp add: daemon_inv_def daemon_once_empty claimed_keys_def) (simp add: empty_daemon_def)

lemma daemon_reachable_inv: "daemon_reachable payload_ok digest d \<Longrightarrow> daemon_inv digest d"
  by (induction rule: daemon_reachable.induct) (auto intro: daemon_step_inv daemon_inv_empty)

definition settled :: "daemon \<Rightarrow> string \<Rightarrow> string \<Rightarrow> idem_row \<Rightarrow> bool" where
  "settled d s k row =
     (find_row (dn_table d) s k = Some row \<and> im_state row = IS_completed \<and>
      Some (s, k) \<notin># claimed_keys d)"

lemma complete_other: "(a, b) \<noteq> (s, k) \<Longrightarrow> find_row (completeIdempotentMutation a b resp now t) s k = find_row t s k"
  by (auto simp: find_row_complete is_row_def dest: find_row_Some intro!: option.map_ident_strong)

lemma mark_completed:
  "find_row t s k = Some row \<Longrightarrow> im_state row = IS_completed \<Longrightarrow>
     find_row (markIdempotentMutationOutcomeUnknown a b now why t) s k = Some row"
  by (simp add: find_row_mark)

lemma fail_request_completed:
  "find_row t s k = Some row \<Longrightarrow> im_state row = IS_completed \<Longrightarrow>
     find_row (snd (fail_request now mf rq claimed e t)) s k = Some row"
  by (auto simp: fail_request_def Let_def mark_completed split: prod.splits bool.splits option.splits)

lemma finish_request_completed:
  assumes "find_row t s k = Some row" "im_state row = IS_completed" "claimed \<Longrightarrow> claims_key rq \<noteq> Some (s, k)"
  shows "find_row (snd (finish_request now faults rq claimed outcome t)) s k = Some row"
  using assms by (auto simp: finish_request_def mark_completed fail_request_completed complete_other
      split: handler_outcome.splits prod.splits bool.splits option.splits)

lemma settled_step:
  assumes "daemon_step payload_ok digest d d'" "settled d s k row"
  shows "settled d' s k row"
  using assms(1)
proof cases
  case (answer now fault raw resp t)
  from answer(2) have "t = dn_table d" by (cases rule: begin_request_cases) auto
  with answer(1) assms(2) show ?thesis by simp
next
  case (call now fault raw rq claimed t)
  from call(2) show ?thesis
  proof (cases rule: begin_request_cases)
    case (3 rq' q)
    have "q \<noteq> (s, k)" using im.granted_absent [OF 3(3)] assms(2) by (auto simp: settled_def key_present_def)
    with assms(2) 3 row_of_granted [OF 3(3)] show ?thesis by (auto simp: settled_def claimed_keys_def call(1))
  qed (use assms(2) call(1) in \<open>auto simp: settled_def claimed_keys_def\<close>)
next
  case (finish rq claimed now faults outcome resp t)
  have "claims_key rq \<noteq> Some (s, k)" if claimed
    using assms(2) finish(2) that by (force simp: settled_def claimed_keys_def)
  then have "find_row t s k = Some row"
    using finish_request_completed [of "dn_table d" s k row claimed rq] assms(2) finish(3)
    by (metis settled_def snd_conv)
  then show ?thesis using assms(2) mset_subset_eqD [OF claimed_keys_finish]
    unfolding settled_def finish(1) by fastforce
qed (use assms(2) in \<open>auto simp: settled_def claimed_keys_def find_row_reconcile\<close>)

lemma settled_steps: "(daemon_step payload_ok digest)\<^sup>*\<^sup>* d d' \<Longrightarrow> settled d s k row \<Longrightarrow> settled d' s k row"
  by (induction rule: rtranclp_induct) (auto intro: settled_step)

lemma count_Some: "count (image_mset Some (mset xs)) (Some x) = count (mset xs) x"
  by (induction xs) auto

lemma claims_key_request_id: "claims_key (rq\<lparr>rq_request_id := r\<rparr>) = claims_key rq"
  by (simp add: claims_key_def canUseIdempotency_def split: option.split)

lemma claimed_once:
  assumes "daemon_inv digest d" "(rq, True) \<in># dn_running d" "claims_key rq = Some (s, k)"
  shows "Some (s, k) \<notin># claimed_keys (d\<lparr>dn_table := t, dn_running := dn_running d - {#(rq, True)#}\<rparr>)"
proof
  assume new: "Some (s, k) \<in># claimed_keys (d\<lparr>dn_table := t, dn_running := dn_running d - {#(rq, True)#}\<rparr>)"
  obtain R where R: "dn_running d = add_mset (rq, True) R" using assms(2) by (rule mset_add)
  let ?C = "image_mset (\<lambda>x. claims_key (fst x)) (filter_mset snd R)"
  have "Some (s, k) \<in># ?C" using new by (simp add: claimed_keys_def R)
  then have "add_mset (Some (s, k)) {#Some (s, k)#} \<subseteq># claimed_keys d"
    by (simp add: claimed_keys_def R assms(3))
  then have "add_mset (Some (s, k)) {#Some (s, k)#} \<subseteq># image_mset Some (mset (started_keys d))"
    using assms(1) subset_mset.order_trans unfolding daemon_inv_def by blast
  then have "2 \<le> count (image_mset Some (mset (started_keys d))) (Some (s, k))"
    using mset_subset_eq_count [of "add_mset (Some (s, k)) {#Some (s, k)#}" _ "Some (s, k)"] by fastforce
  also have "\<dots> = count (mset (started_keys d)) (s, k)" by (rule count_Some)
  also have "\<dots> \<le> 1"
    using assms(1) unfolding daemon_inv_def daemon_once_def distinct_count_atmost_1 by auto
  finally show False by simp
qed

text \<open>C17: A retried request gets the first response: once a handler's successful response has been
  stored, then after any further steps, restarts included, a request with the same session, key,
  method and payload digest is answered with that response as JSON gives it back, under its own
  request id, without a handler call or a change of the table.\<close>

theorem completed_request_replays:
  assumes "daemon_reachable payload_ok digest d" "(rq, True) \<in># dn_running d"
    and "finish_request now faults rq True (HO_response resp) (dn_table d) = (out, t)"
    and "rs_ok resp" "rs_api_version resp = API_VERSION" "ff_complete faults = None"
    and "(daemon_step payload_ok digest)\<^sup>*\<^sup>*
      (d\<lparr>dn_table := t, dn_running := dn_running d - {#(rq, True)#}\<rparr>) d'"
    and "claims_key rq' = claims_key rq" "rq_method rq' = rq_method rq"
    and "digest (rq_payload rq') = digest (rq_payload rq)"
  shows "out = resp \<and> begin_validated digest now' None ctx rq' (dn_table d') =
    (BG_respond (replayStoredSuccessResponse (rq_request_id rq') (rq_session_id rq') (stored_response resp)), dn_table d')"
proof -
  have inv: "daemon_inv digest d" using assms(1) by (rule daemon_reachable_inv)
  obtain s k where key: "claims_key rq = Some (s, k)" using inv assms(2) unfolding daemon_inv_def by fastforce
  obtain row where row: "find_row (dn_table d) s k = Some row" and "row_of digest rq row"
    using inv assms(2) key unfolding daemon_inv_def by blast
  have t: "out = resp" "t = completeIdempotentMutation s k resp now (dn_table d)"
    using assms(3,4,6) key by (auto simp: finish_request_def)
  let ?row = "row\<lparr>im_state := IS_completed, im_response := Some (stored_response resp),
      im_completed_at := Some now, im_uncertainty_recorded_at := None, im_uncertainty_reason := None\<rparr>"
  have "settled (d\<lparr>dn_table := t, dn_running := dn_running d - {#(rq, True)#}\<rparr>) s k ?row"
    using claimed_once [OF inv assms(2) key] row find_row_Some [OF row]
    by (simp add: settled_def t find_row_complete)
  from settled_steps [OF assms(7) this] have "find_row (dn_table d') s k = Some ?row" by (simp add: settled_def)
  then show ?thesis using key assms(4,5,8-10) t(1) \<open>row_of digest rq row\<close>
    by (simp add: begin_validated_def claimIdempotentMutation_def row_of_def
        parseStoredIdempotentResponse_def stored_response_def Let_def)
qed

definition no_faults :: finish_faults where
  "no_faults = \<lparr>ff_complete = None, ff_lock = None, ff_mark = None\<rparr>"

theorem completed_request_replays_witness:
  "begin_validated sample_digest ''u'' None (''req_2'', None) (sample_envelope\<lparr>rq_request_id := ''req_2''\<rparr>)
     (snd (finish_request ''v'' no_faults sample_envelope True
       (HO_response (makeSuccessResponse ''req_1'' (Some ''sess_1'') (JNum 7))) (dn_table running_daemon))) =
   (BG_respond (makeSuccessResponse ''req_2'' (Some ''sess_1'') (JNum 7)),
     snd (finish_request ''v'' no_faults sample_envelope True
       (HO_response (makeSuccessResponse ''req_1'' (Some ''sess_1'') (JNum 7))) (dn_table running_daemon)))"
proof -
  let ?resp = "makeSuccessResponse ''req_1'' (Some ''sess_1'') (JNum 7)"
  let ?rq = "sample_envelope\<lparr>rq_request_id := ''req_2''\<rparr>"
  have run: "(sample_envelope, True) \<in># dn_running running_daemon" by (simp add: running_daemon_def)
  have ok: "rs_ok ?resp" "rs_api_version ?resp = API_VERSION" "ff_complete no_faults = None"
    by (simp_all add: makeSuccessResponse_def no_faults_def)
  have same: "claims_key ?rq = claims_key sample_envelope" "rq_method ?rq = rq_method sample_envelope"
    "sample_digest (rq_payload ?rq) = sample_digest (rq_payload sample_envelope)"
    by (simp_all add: claims_key_request_id)
  have "rq_session_id ?rq = Some ''sess_1''" by code_simp
  moreover have "replayStoredSuccessResponse ''req_2'' (Some ''sess_1'') (stored_response ?resp) =
      makeSuccessResponse ''req_2'' (Some ''sess_1'') (JNum 7)"
    by (simp add: replayStoredSuccessResponse_def stored_response_def makeSuccessResponse_def)
  ultimately show ?thesis
    using completed_request_replays [OF running_daemon_reachable run surjective_pairing ok rtranclp.rtrancl_refl same]
    by simp
qed

text \<open>C21: A key stays bound to the request that first used it: once its handler was called, a request
  with the same session and key but another method or payload is answered with an error and
  neither calls a handler nor changes the table.\<close>

theorem reused_key_refused:
  assumes "daemon_reachable payload_ok digest d" "rq \<in> set (dn_started d)" "claims_key rq = Some k"
    and "claims_key rq' = Some k"
    and "rq_method rq' \<noteq> rq_method rq \<or> digest (rq_payload rq') \<noteq> digest (rq_payload rq)"
  shows "\<exists>e. begin_validated digest now fault ctx rq' (dn_table d) =
    (BG_respond (makeErrorResponse (fst ctx) (snd ctx) e), dn_table d)"
proof -
  obtain s q where k: "k = (s, q)" by force
  obtain row where "find_row (dn_table d) s q = Some row" "row_of digest rq row"
    using daemon_reachable_inv [OF assms(1)] assms(2,3) k unfolding daemon_inv_def by blast
  with assms(4,5) k show ?thesis
    by (auto simp: begin_validated_def claimIdempotentMutation_def row_of_def Let_def split: option.splits sum.splits)
qed

theorem reused_key_refused_witness:
  "\<exists>e. begin_validated sample_digest ''u'' None (''req_2'', None) (sample_envelope\<lparr>rq_method := ''resolve_approval''\<rparr>)
     (dn_table running_daemon) = (BG_respond (makeErrorResponse ''req_2'' None e), dn_table running_daemon)"
proof -
  have "sample_envelope \<in> set (dn_started running_daemon)" by (simp add: running_daemon_def)
  moreover have "claims_key sample_envelope = Some (''sess_1'', ''key_1'')" by code_simp
  moreover have "claims_key (sample_envelope\<lparr>rq_method := ''resolve_approval''\<rparr>) = Some (''sess_1'', ''key_1'')" by code_simp
  moreover have "rq_method (sample_envelope\<lparr>rq_method := ''resolve_approval''\<rparr>) \<noteq> rq_method sample_envelope" by code_simp
  ultimately show ?thesis
    using reused_key_refused [OF running_daemon_reachable, where ctx = "(''req_2'', None)" and fault = None]
    by (metis fst_conv snd_conv)
qed

end
