(* ===== verification/Crash_Recovery.thy ===== *)
theory Crash_Recovery
  imports Journal_Theorems "HOL-Library.Multiset"
begin

text \<open>
  \<open>recoverInterruptedActions\<close> of \<open>packages/authority-daemon/src/app/authority-service.ts\<close>: at start-up,
  and from the maintenance job \<open>startup_reconcile_recoveries\<close>, each action whose log shows a snapshot
  or an execution start but no end gets an \<open>execution.outcome_unknown\<close> event. A JavaScript \<open>Map\<close> is
  an association list in insertion order; \<open>clock n\<close> is the time at the \<open>n\<close>-th append.
\<close>

section \<open>Definitions\<close>

definition listAllRuns :: "journal \<Rightarrow> run_summary list" where
  "listAllRuns j = List.map_filter (\<lambda>row. getRunSummary (rw_run_id row) j) (js_sort (cmp_by rw_created_at) (jr_runs j))"

definition event_action_id :: "journal_event \<Rightarrow> string option" where
  "event_action_id e = (case obj_get (ev_payload e) ''action_id'' of JStr s \<Rightarrow> if s = [] then None else Some s | _ \<Rightarrow> None)"

record crash_candidate =
  cc_snapshot_created :: bool
  cc_execution_started :: bool

definition note_candidate :: "(string \<times> crash_candidate) list \<Rightarrow> journal_event \<Rightarrow> (string \<times> crash_candidate) list" where
  "note_candidate cs e =
     (case event_action_id e of
        None \<Rightarrow> cs
      | Some a \<Rightarrow>
          (let c = (case map_of cs a of Some c \<Rightarrow> c | None \<Rightarrow> \<lparr>cc_snapshot_created = False, cc_execution_started = False\<rparr>);
               c = (if ev_type e = ''snapshot.created'' then c\<lparr>cc_snapshot_created := True\<rparr> else c);
               c = (if ev_type e = ''execution.started'' then c\<lparr>cc_execution_started := True\<rparr> else c) in
           AList.update a c cs))"

definition collect_candidates :: "journal_event list \<Rightarrow> (string \<times> crash_candidate) list" where
  "collect_candidates es = foldl note_candidate [] es"

definition about_action :: "string \<Rightarrow> journal_event \<Rightarrow> bool" where
  "about_action a e = (obj_get (ev_payload e) ''action_id'' = JStr a)"

definition already_reconciled :: "journal_event list \<Rightarrow> string \<Rightarrow> bool" where
  "already_reconciled es a = (\<exists>e \<in> set es. about_action a e \<and> ev_type e = ''execution.outcome_unknown'')"

definition has_terminal_event :: "journal_event list \<Rightarrow> string \<Rightarrow> bool" where
  "has_terminal_event es a = (\<exists>e \<in> set es. about_action a e \<and>
     ev_type e \<in> {''execution.completed'', ''execution.failed'', ''execution.simulated''})"

definition is_interrupted :: "journal_event list \<Rightarrow> string \<times> crash_candidate \<Rightarrow> bool" where
  "is_interrupted es ac =
     ((cc_snapshot_created (snd ac) \<or> cc_execution_started (snd ac)) \<and>
      \<not> already_reconciled es (fst ac) \<and> \<not> has_terminal_event es (fst ac))"

definition unknown_payload :: "string \<times> crash_candidate \<Rightarrow> (string \<times> jsval) list" where
  "unknown_payload ac =
     [(''action_id'', JStr (fst ac)),
      (''reason'', JStr (if cc_execution_started (snd ac) then ''daemon_crash_recovery_in_flight''
                        else ''daemon_crash_recovery_preflight'')),
      (''message'', JStr (if cc_execution_started (snd ac)
         then ''Daemon restarted after execution began but before a terminal event was recorded. Side effects may have landed; reconcile manually before retrying.''
         else ''Daemon restarted after a recovery boundary was captured but before a terminal event was recorded. Execution start was not durably observed, so retry only after reviewing the preserved boundary.''))]"

fun recover_candidates ::
  "(nat \<Rightarrow> int) \<Rightarrow> string \<Rightarrow> journal_event list \<Rightarrow> (string \<times> crash_candidate) list \<Rightarrow> nat \<times> journal \<Rightarrow> ag_error + nat \<times> journal" where
  "recover_candidates clock r es [] s = Inr s"
| "recover_candidates clock r es (ac # acs) (n, j) =
     (if \<not> is_interrupted es ac then recover_candidates clock r es acs (n, j)
      else (case appendRunEvent (clock n) r ''execution.outcome_unknown'' (unknown_payload ac) j of
              Inl e \<Rightarrow> Inl e
            | Inr (_, j') \<Rightarrow> recover_candidates clock r es acs (n + 1, j')))"

fun recover_runs :: "(nat \<Rightarrow> int) \<Rightarrow> string list \<Rightarrow> nat \<times> journal \<Rightarrow> ag_error + nat \<times> journal" where
  "recover_runs clock [] s = Inr s"
| "recover_runs clock (r # rs) (n, j) =
     (case listRunEvents r j of
        Inl e \<Rightarrow> Inl e
      | Inr es \<Rightarrow> (case recover_candidates clock r es (collect_candidates es) (n, j) of
            Inl e \<Rightarrow> Inl e | Inr s \<Rightarrow> recover_runs clock rs s))"

definition recoverInterruptedActions :: "(nat \<Rightarrow> int) \<Rightarrow> journal \<Rightarrow> ag_error + nat \<times> journal" where
  "recoverInterruptedActions clock j =
     recover_runs clock (map (\<lambda>su. rw_run_id (su_run su)) (listAllRuns j)) (0, j)"

section \<open>Candidates\<close>

definition started_or_snapshot :: "journal_event list \<Rightarrow> string \<Rightarrow> bool" where
  "started_or_snapshot es a = (\<exists>e \<in> set es. about_action a e \<and> ev_type e \<in> {''snapshot.created'', ''execution.started''})"

definition unfinished :: "journal_event list \<Rightarrow> string \<Rightarrow> bool" where
  \<comment> \<open>the action was begun and its log does not say how it ended\<close>
  "unfinished es a = (a \<noteq> [] \<and> started_or_snapshot es a \<and> \<not> already_reconciled es a \<and> \<not> has_terminal_event es a)"

lemma event_action_id_iff: "event_action_id e = Some a \<longleftrightarrow> about_action a e \<and> a \<noteq> []"
  by (auto simp: event_action_id_def about_action_def split: jsval.splits)

lemma collect_snoc: "collect_candidates (es @ [e]) = note_candidate (collect_candidates es) e"
  by (simp add: collect_candidates_def)

lemma collect_distinct: "distinct (map fst (collect_candidates es))"
  by (induction es rule: rev_induct)
    (simp_all add: collect_snoc note_candidate_def Let_def distinct_update collect_candidates_def [of "[]"] split: option.splits)

lemma collect_map_of:
  "map_of (collect_candidates es) a =
     (if \<exists>e \<in> set es. event_action_id e = Some a
      then Some \<lparr>cc_snapshot_created = (\<exists>e \<in> set es. event_action_id e = Some a \<and> ev_type e = ''snapshot.created''),
                 cc_execution_started = (\<exists>e \<in> set es. event_action_id e = Some a \<and> ev_type e = ''execution.started'')\<rparr>
      else None)"
proof (induction es rule: rev_induct)
  case (snoc e es)
  show ?case
  proof (cases "event_action_id e = Some a")
    case True
    with snoc.IH show ?thesis by (auto simp: collect_snoc note_candidate_def Let_def update_conv')
  next
    case False
    then have "map_of (note_candidate (collect_candidates es) e) a = map_of (collect_candidates es) a"
      by (auto simp: note_candidate_def Let_def update_conv' split: option.splits)
    with snoc.IH False show ?thesis by (simp add: collect_snoc)
  qed
qed (simp add: collect_candidates_def)

lemma interrupted_iff:
  "(\<exists>c. (a, c) \<in> set (collect_candidates es) \<and> is_interrupted es (a, c)) \<longleftrightarrow> unfinished es a"
proof -
  have mem: "(a, c) \<in> set (collect_candidates es) \<longleftrightarrow> map_of (collect_candidates es) a = Some c" for c
    using collect_distinct by (simp add: map_of_eq_Some_iff)
  show ?thesis unfolding mem collect_map_of is_interrupted_def unfinished_def started_or_snapshot_def
    by (auto simp: event_action_id_iff)
qed

section \<open>Appending the outcomes\<close>

lemma unknown_payload_json [simp]: "json_clone_object (unknown_payload ac) = unknown_payload ac"
  by (simp add: json_clone_object_def unknown_payload_def)

lemma about_unknown [simp]: "ev_payload e = unknown_payload ac \<Longrightarrow> about_action a e \<longleftrightarrow> a = fst ac"
  by (auto simp: about_action_def unknown_payload_def obj_get_def)

definition outcomes_for :: "(string \<times> crash_candidate) list \<Rightarrow> journal_event list \<Rightarrow> bool" where
  "outcomes_for acs new =
     (map ev_payload new = map unknown_payload acs \<and> (\<forall>e \<in> set new. ev_type e = ''execution.outcome_unknown''))"

lemma appendRunEvent_known:
  assumes "journal_inv j" "find_run j r \<noteq> None"
  obtains e j' where "appendRunEvent now r ty payload j = Inr (ev_sequence e, j')" "journal_inv j'"
    "j' = j\<lparr>jr_events := jr_events j @ [e]\<rparr>" "ev_run_id e = r" "ev_type e = ty" "ev_payload e = json_clone_object payload"
proof -
  have ok: "run_log_ok (run_events j r)" using assms(1) by (simp add: journal_inv_def)
  obtain n j' where app: "appendRunEvent now r ty payload j = Inr (n, j')"
    using assms(2) by (simp add: appendRunEvent_def reserve_timestamps [OF ok] Let_def)
  obtain t where n: "n = Suc (length (run_events j r))" and
    j': "j' = j\<lparr>jr_events := jr_events j @ [\<lparr>ev_run_id = r, ev_sequence = n, ev_type = ty, ev_occurred_at = t,
        ev_recorded_at = t, ev_payload = json_clone_object payload\<rparr>]\<rparr>"
    using assms(1) app by (rule appendRunEvent_cases)
  show thesis
    by (rule that [OF _ appendRunEvent_inv [OF assms(1) app] j']) (simp_all add: app)
qed

lemma recover_candidates_outcome:
  assumes "journal_inv j" "find_run j r \<noteq> None"
  shows "\<exists>new j'. recover_candidates clock r es acs (n, j) = Inr (n + length new, j') \<and> journal_inv j' \<and>
    jr_events j' = jr_events j @ new \<and> jr_runs j' = jr_runs j \<and> jr_approvals j' = jr_approvals j \<and>
    (\<forall>e \<in> set new. ev_run_id e = r) \<and> outcomes_for (filter (is_interrupted es) acs) new"
  using assms
proof (induction acs arbitrary: n j)
  case Nil
  then show ?case by (simp add: outcomes_for_def)
next
  case (Cons ac acs)
  show ?case
  proof (cases "is_interrupted es ac")
    case False
    with Cons.IH [OF Cons.prems, of n] show ?thesis by simp
  next
    case True
    obtain e j1 where app: "appendRunEvent (clock n) r ''execution.outcome_unknown'' (unknown_payload ac) j = Inr (ev_sequence e, j1)"
      and j1: "journal_inv j1" "j1 = j\<lparr>jr_events := jr_events j @ [e]\<rparr>" "ev_run_id e = r"
        "ev_type e = ''execution.outcome_unknown''" "ev_payload e = unknown_payload ac"
      using Cons.prems by (rule appendRunEvent_known [where payload = "unknown_payload ac", unfolded unknown_payload_json])
    have "find_run j1 r \<noteq> None" using Cons.prems(2) by (simp add: j1(2) find_run_def)
    from Cons.IH [OF j1(1) this, of "n + 1"] obtain new j' where
      IH: "recover_candidates clock r es acs (n + 1, j1) = Inr (n + 1 + length new, j')" "journal_inv j'"
        "jr_events j' = jr_events j @ e # new" "jr_runs j' = jr_runs j" "jr_approvals j' = jr_approvals j"
        "\<forall>e \<in> set new. ev_run_id e = r"
        "outcomes_for (filter (is_interrupted es) acs) new"
      by (auto simp: j1(2))
    have "outcomes_for (filter (is_interrupted es) (ac # acs)) (e # new)"
      using IH(7) j1(4,5) True by (simp add: outcomes_for_def)
    with IH True app j1(3) show ?thesis by (intro exI [of _ "e # new"] exI [of _ j']) simp
  qed
qed

lemma outcomes_about:
  "outcomes_for acs new \<Longrightarrow> (\<exists>e \<in> set new. about_action a e) \<longleftrightarrow> a \<in> fst ` set acs"
proof (induction acs arbitrary: new)
  case (Cons ac acs)
  then obtain e new' where "new = e # new'" "ev_payload e = unknown_payload ac" "outcomes_for acs new'"
    by (auto simp: outcomes_for_def)
  with Cons.IH show ?case by auto
qed (simp add: outcomes_for_def)

lemma outcomes_once:
  "outcomes_for acs new \<Longrightarrow> distinct (map fst acs) \<Longrightarrow>
     length (filter (about_action a) new) = (if a \<in> fst ` set acs then 1 else 0)"
proof (induction acs arbitrary: new)
  case (Cons ac acs)
  then obtain e new' where new: "new = e # new'" "ev_payload e = unknown_payload ac" "outcomes_for acs new'"
    by (auto simp: outcomes_for_def)
  with Cons have "length (filter (about_action a) new') = (if a \<in> fst ` set acs then 1 else 0)" by simp
  with new Cons.prems(2) show ?case by auto
qed (simp add: outcomes_for_def)

text \<open>What a pass leaves: the log of each run grows by one outcome for each unfinished action.\<close>

definition new_outcomes :: "journal_event list \<Rightarrow> journal_event list \<Rightarrow> bool" where
  "new_outcomes es new = outcomes_for (filter (is_interrupted es) (collect_candidates es)) new"

lemma interrupted_names: "fst ` set (filter (is_interrupted es) (collect_candidates es)) = {a. unfinished es a}"
  by (auto simp: interrupted_iff [symmetric] image_iff)

lemma new_outcomes_type: "new_outcomes es new \<Longrightarrow> e \<in> set new \<Longrightarrow> ev_type e = ''execution.outcome_unknown''"
  by (simp add: new_outcomes_def outcomes_for_def)

lemma new_outcomes_about: "new_outcomes es new \<Longrightarrow> (\<exists>e \<in> set new. about_action a e) \<longleftrightarrow> unfinished es a"
  unfolding new_outcomes_def using outcomes_about interrupted_names by fastforce

lemma new_outcomes_once:
  assumes "new_outcomes es new"
  shows "length (filter (about_action a) new) = (if unfinished es a then 1 else 0)"
proof -
  have "distinct (map fst (filter (is_interrupted es) (collect_candidates es)))"
    using collect_distinct by (rule distinct_map_filter)
  with assms outcomes_once show ?thesis unfolding new_outcomes_def using interrupted_names [of es] by fastforce
qed

definition was_started :: "journal_event list \<Rightarrow> string \<Rightarrow> bool" where
  "was_started es a = (\<exists>e \<in> set es. about_action a e \<and> ev_type e = ''execution.started'')"

lemma candidate_started:
  assumes "(a, c) \<in> set (collect_candidates es)"
  shows "cc_execution_started c \<longleftrightarrow> was_started es a"
proof -
  have c: "map_of (collect_candidates es) a = Some c" using assms collect_distinct by (simp add: map_of_eq_Some_iff)
  then have "a \<noteq> []" unfolding collect_map_of by (auto simp: event_action_id_iff split: if_splits)
  with c show ?thesis unfolding collect_map_of was_started_def by (auto simp: event_action_id_iff split: if_splits)
qed

text \<open>The event says of the action whether it had been started.\<close>

definition outcome_event :: "journal_event list \<Rightarrow> journal_event \<Rightarrow> bool" where
  "outcome_event es e =
     (ev_type e = ''execution.outcome_unknown'' \<and>
      (\<exists>a. about_action a e \<and> unfinished es a \<and>
         obj_get (ev_payload e) ''reason'' = JStr (if was_started es a then ''daemon_crash_recovery_in_flight''
                                                  else ''daemon_crash_recovery_preflight'')))"

lemma new_outcomes_event:
  assumes "new_outcomes es new" "e \<in> set new"
  shows "outcome_event es e"
proof -
  let ?acs = "filter (is_interrupted es) (collect_candidates es)"
  have "ev_payload e \<in> set (map unknown_payload ?acs)"
    using assms unfolding new_outcomes_def outcomes_for_def by (metis image_eqI list.set_map)
  then obtain a c where ac: "(a, c) \<in> set ?acs" "ev_payload e = unknown_payload (a, c)" by auto
  then have "unfinished es a" using interrupted_names [of es] by force
  moreover have "about_action a e" using ac(2) by simp
  moreover have "obj_get (ev_payload e) ''reason'' = JStr (if was_started es a then ''daemon_crash_recovery_in_flight''
      else ''daemon_crash_recovery_preflight'')"
    using ac candidate_started [of a c es] by (simp add: unknown_payload_def obj_get_def)
  ultimately show ?thesis using new_outcomes_type [OF assms] unfolding outcome_event_def by blast
qed

lemma new_outcomes_finished:
  assumes new: "new_outcomes es new"
  shows "\<not> unfinished (es @ new) a"
proof (cases "unfinished es a")
  case True
  then obtain e where "e \<in> set new" "about_action a e" using new_outcomes_about [OF new] by blast
  then have "already_reconciled (es @ new) a" using new_outcomes_type [OF new] by (auto simp: already_reconciled_def)
  then show ?thesis by (simp add: unfinished_def)
next
  case False
  have "started_or_snapshot (es @ new) a \<longleftrightarrow> started_or_snapshot es a"
    using new_outcomes_type [OF new] by (auto simp: started_or_snapshot_def)
  with False show ?thesis unfolding unfinished_def already_reconciled_def has_terminal_event_def by auto
qed

definition events_for :: "string \<Rightarrow> journal_event list \<Rightarrow> journal_event list" where
  "events_for r es = filter (\<lambda>e. ev_run_id e = r) es"

lemma events_for_same: "\<forall>e \<in> set es. ev_run_id e = r \<Longrightarrow> events_for q es = (if q = r then es else [])"
  by (auto simp: events_for_def filter_id_conv filter_empty_conv)

lemma recover_runs_outcome:
  assumes "journal_inv j" "distinct rs" "\<forall>r \<in> set rs. find_run j r \<noteq> None"
  shows "\<exists>new j'. recover_runs clock rs (n, j) = Inr (n + length new, j') \<and> journal_inv j' \<and> jr_runs j' = jr_runs j \<and>
    jr_approvals j' = jr_approvals j \<and> jr_events j' = jr_events j @ new \<and>
    (\<forall>r \<in> set rs. new_outcomes (run_events j r) (events_for r new)) \<and>
    (\<forall>e \<in> set new. ev_run_id e \<in> set rs)"
  using assms
proof (induction rs arbitrary: n j)
  case (Cons r rs)
  let ?es = "run_events j r"
  have run: "find_run j r \<noteq> None" using Cons.prems by simp
  have es: "listRunEvents r j = Inr ?es" using run by (simp add: listRunEvents_inv [OF Cons.prems(1)])
  obtain new j1 where rc: "recover_candidates clock r ?es (collect_candidates ?es) (n, j) = Inr (n + length new, j1)"
    and j1: "journal_inv j1" "jr_events j1 = jr_events j @ new" "jr_runs j1 = jr_runs j" "jr_approvals j1 = jr_approvals j"
      "\<forall>e \<in> set new. ev_run_id e = r" "outcomes_for (filter (is_interrupted ?es) (collect_candidates ?es)) new"
    using recover_candidates_outcome [OF Cons.prems(1) run] by blast
  have ev: "run_events j1 q = run_events j q" if "q \<noteq> r" for q
    using j1(2,5) that by (auto simp: run_events_append filter_empty_conv)
  have "\<forall>q \<in> set rs. find_run j1 q \<noteq> None" using Cons.prems(3) by (simp add: find_run_def j1(3))
  from Cons.IH [OF j1(1) _ this, of "n + length new"] Cons.prems(2) obtain more j' where
    IH: "recover_runs clock rs (n + length new, j1) = Inr (n + length new + length more, j')" "journal_inv j'"
      "jr_runs j' = jr_runs j1" "jr_approvals j' = jr_approvals j1" "jr_events j' = jr_events j1 @ more"
      "\<forall>q \<in> set rs. new_outcomes (run_events j1 q) (events_for q more)" "\<forall>e \<in> set more. ev_run_id e \<in> set rs" by auto
  have split: "events_for q (new @ more) = (if q = r then new else events_for q more)" for q
    using events_for_same [OF j1(5), of q] IH(7) Cons.prems(2) by (auto simp: events_for_def filter_empty_conv)
  have "\<forall>q \<in> set (r # rs). new_outcomes (run_events j q) (events_for q (new @ more))"
    using IH(6) ev Cons.prems(2) j1(6) unfolding split by (auto simp: new_outcomes_def)
  with IH es rc j1 show ?case by (intro exI [of _ "new @ more"] exI [of _ j']) auto
qed simp

lemma recover_nothing:
  assumes "journal_inv j" "\<forall>r \<in> set rs. find_run j r \<noteq> None \<and> (\<forall>a. \<not> unfinished (run_events j r) a)"
  shows "recover_runs clock rs (n, j) = Inr (n, j)"
  using assms(2)
proof (induction rs)
  case (Cons r rs)
  let ?es = "run_events j r"
  have "\<not> is_interrupted ?es ac" if "ac \<in> set (collect_candidates ?es)" for ac
    using that Cons.prems interrupted_iff [of "fst ac" ?es] by (metis list.set_intros(1) prod.collapse)
  then have "recover_candidates clock r ?es acs (n, j) = Inr (n, j)" if "set acs \<subseteq> set (collect_candidates ?es)" for acs
    using that by (induction acs) auto
  with Cons show ?case by (simp add: listRunEvents_inv [OF assms(1)])
qed simp

definition all_run_ids :: "journal \<Rightarrow> string list" where
  "all_run_ids j = map rw_run_id (js_sort (cmp_by rw_created_at) (jr_runs j))"

lemma find_run_in: "row \<in> set (jr_runs j) \<Longrightarrow> find_run j (rw_run_id row) \<noteq> None"
  by (auto simp: find_run_None)

lemma find_run_id: "find_run j r = Some row \<Longrightarrow> rw_run_id row = r"
  by (auto simp: find_run_def find_Some_iff)

lemma listAllRuns_ids: "map (\<lambda>su. rw_run_id (su_run su)) (listAllRuns j) = all_run_ids j"
proof -
  have "map (\<lambda>su. rw_run_id (su_run su)) (List.map_filter (\<lambda>row. getRunSummary (rw_run_id row) j) rows) = map rw_run_id rows"
    if "set rows \<subseteq> set (jr_runs j)" for rows
    using that
  proof (induction rows)
    case (Cons row rows)
    then obtain row' where "find_run j (rw_run_id row) = Some row'" using find_run_in by fastforce
    with Cons show ?case using find_run_id by (simp add: map_filter_simps getRunSummary_def)
  qed (simp add: map_filter_simps)
  then show ?thesis by (simp add: listAllRuns_def all_run_ids_def)
qed

lemma mset_js_insert: "mset (js_insert cmp x xs) = add_mset x (mset xs)"
  by (induction xs) auto

lemma mset_js_sort [simp]: "mset (js_sort cmp xs) = mset xs"
  by (induction xs) (auto simp: mset_js_insert)

lemma all_run_ids_facts:
  assumes "journal_inv j"
  shows "distinct (all_run_ids j)" "set (all_run_ids j) = {r. find_run j r \<noteq> None}"
proof -
  have "mset (all_run_ids j) = mset (map rw_run_id (jr_runs j))" by (simp add: all_run_ids_def)
  then show "distinct (all_run_ids j)" using assms unfolding journal_inv_def by (metis mset_eq_imp_distinct_iff)
  show "set (all_run_ids j) = {r. find_run j r \<noteq> None}" by (auto simp: all_run_ids_def find_run_None)
qed

lemma unfinished_nothing [simp]: "\<not> unfinished [] a"
  by (simp add: unfinished_def started_or_snapshot_def)

lemma new_outcomes_nothing [simp]: "new_outcomes [] []"
  by (simp add: new_outcomes_def outcomes_for_def collect_candidates_def)

text \<open>A pass on a journal that keeps its invariant.\<close>

lemma recovery_pass:
  assumes inv: "journal_inv j"
  obtains new j' where "recoverInterruptedActions clock j = Inr (length new, j')" "journal_inv j'" "jr_runs j' = jr_runs j"
    "jr_approvals j' = jr_approvals j" "jr_events j' = jr_events j @ new"
    "\<forall>r. run_events j' r = run_events j r @ events_for r new" "\<forall>r. new_outcomes (run_events j r) (events_for r new)"
proof -
  note ids = all_run_ids_facts [OF inv]
  obtain new j' where rec: "recover_runs clock (all_run_ids j) (0, j) = Inr (0 + length new, j')"
    and j': "journal_inv j'" "jr_runs j' = jr_runs j" "jr_approvals j' = jr_approvals j" "jr_events j' = jr_events j @ new"
    and each: "\<forall>r \<in> set (all_run_ids j). new_outcomes (run_events j r) (events_for r new)"
    and new: "\<forall>e \<in> set new. ev_run_id e \<in> set (all_run_ids j)"
    using recover_runs_outcome [OF inv ids(1)] ids(2) by blast
  have "new_outcomes (run_events j r) (events_for r new)" for r
  proof (cases "r \<in> set (all_run_ids j)")
    case False
    then have "run_events j r = []" "events_for r new = []"
      using inv ids(2) new unfolding journal_inv_def run_events_def events_for_def by (auto simp: filter_empty_conv)
    then show ?thesis by simp
  qed (use each in blast)
  with rec j' show thesis
    by (intro that [of new j']) (simp_all add: recoverInterruptedActions_def listAllRuns_ids run_events_append events_for_def)
qed

text \<open>C19: Crash recovery settles every interrupted action exactly once: it always succeeds and only appends to the journal. The number it returns
  is the number of events it appended; each of them is an \<open>execution.outcome_unknown\<close> event of an action that had a snapshot or
  a start and no end in the log of that run, and says whether it was started; there is one such event for each of these actions and
  none for any other; no such action is left, and a second pass, under any clock, appends nothing.\<close>

theorem recoverInterruptedActions_complete:
  assumes "journal_reachable j"
  shows "\<exists>new j'. recoverInterruptedActions clock j = Inr (length new, j') \<and>
    j' = j\<lparr>jr_events := jr_events j @ new\<rparr> \<and>
    (\<forall>e \<in> set new. outcome_event (run_events j (ev_run_id e)) e) \<and>
    (\<forall>r a. length (filter (about_action a) (events_for r new)) = (if unfinished (run_events j r) a then 1 else 0)) \<and>
    (\<forall>r a. \<not> unfinished (run_events j' r) a) \<and>
    recoverInterruptedActions clock' j' = Inr (0, j')"
proof -
  have inv: "journal_inv j" using assms by (rule journal_reachable_inv)
  obtain new j' where rec: "recoverInterruptedActions clock j = Inr (length new, j')" and inv': "journal_inv j'"
    and j': "jr_runs j' = jr_runs j" "jr_approvals j' = jr_approvals j" "jr_events j' = jr_events j @ new"
    and logs: "\<forall>r. run_events j' r = run_events j r @ events_for r new"
    and all: "\<forall>r. new_outcomes (run_events j r) (events_for r new)"
    using inv by (rule recovery_pass [where clock = clock])
  note each = all [rule_format]
  have settled: "\<not> unfinished (run_events j' r) a" for r a
    unfolding logs [rule_format] by (rule new_outcomes_finished [OF each])
  have "outcome_event (run_events j (ev_run_id e)) e" if "e \<in> set new" for e
    using that by (intro new_outcomes_event [OF each [of "ev_run_id e"]]) (simp add: events_for_def)
  moreover have "recover_runs clock' (all_run_ids j') (0, j') = Inr (0, j')"
    using settled all_run_ids_facts(2) [OF inv'] by (intro recover_nothing [OF inv']) auto
  moreover have "j' = j\<lparr>jr_events := jr_events j @ new\<rparr>" using j' by simp
  ultimately show ?thesis
    using rec settled new_outcomes_once [OF each]
    by (intro exI [of _ new] exI [of _ j']) (simp add: recoverInterruptedActions_def listAllRuns_ids)
qed

definition interrupted_journal :: journal where
  "interrupted_journal = snd (get_ok (appendRunEvent 0 ''run_1'' ''execution.started''
     [(''action_id'', JStr ''act_1'')] sample_journal))"

lemma interrupted_journal_reachable: "journal_reachable interrupted_journal"
proof -
  have "appendRunEvent 0 ''run_1'' ''execution.started'' [(''action_id'', JStr ''act_1'')] sample_journal =
      Inr (3, interrupted_journal)" by code_simp
  then show ?thesis by (rule journal_reachable.step [OF sample_journal_reachable journal_step.append])
qed

theorem recoverInterruptedActions_complete_witness:
  "\<exists>j' new. recoverInterruptedActions (\<lambda>n. 0) interrupted_journal = Inr (length new, j') \<and>
     length (filter (about_action ''act_1'') (events_for ''run_1'' new)) = 1"
proof -
  have "unfinished (run_events interrupted_journal ''run_1'') ''act_1''" by code_simp
  with recoverInterruptedActions_complete [OF interrupted_journal_reachable, where clock = "\<lambda>n. 0"] show ?thesis by fastforce
qed

text \<open>An earlier end hides a later interruption: an action that was run twice, as approving it again does, and is interrupted the second time
  has a terminal event in its log and is not reported.\<close>

definition plain_event :: "string \<Rightarrow> nat \<Rightarrow> journal_event" where
  "plain_event ty n = \<lparr>ev_run_id = ''run_1'', ev_sequence = n, ev_type = ty, ev_occurred_at = 0, ev_recorded_at = 0,
     ev_payload = [(''action_id'', JStr ''act_1'')]\<rparr>"

lemma second_interruption_unreported:
  "unfinished [plain_event ''execution.started'' 1] ''act_1''"
  "\<not> unfinished [plain_event ''execution.started'' 1, plain_event ''execution.completed'' 2, plain_event ''execution.started'' 3] ''act_1''"
  by code_simp+

end
