(* ===== verification/Document_Store.thy ===== *)
theory Document_Store
  imports Prelude "HOL-Library.List_Lexorder" "HOL-Library.Char_ord"
begin

text \<open>
  \<open>IntegrationState\<close> of \<open>packages/integration-state/src/index.ts\<close>: documents by collection and key,
  stored as JSON with a keyed digest. The server registry, the job queue and the control plane
  keep their records in it. SHA-256 HMAC under the integrity key, \<open>JSON.stringify\<close>, \<open>JSON.parse\<close> and
  the schemas the collections are registered with are parameters (\<open>doc_env\<close>). Errors of SQLite and
  the write-ahead log are not modelled. The first half is the abstract collection, a map whose
  keys are listed in order, and the interface \<open>doc_collection\<close> its clients rely on; the second
  half is the code's table, which implements it.
\<close>

section \<open>Collections\<close>

type_synonym 'd coll = "(string \<times> 'd) list"

definition coll_get :: "string \<Rightarrow> 'd coll \<Rightarrow> 'd option" where
  "coll_get k c = map_of c k"

fun coll_put :: "string \<Rightarrow> 'd \<Rightarrow> 'd coll \<Rightarrow> 'd coll" where
  "coll_put k d [] = [(k, d)]"
| "coll_put k d (e # c) =
     (if fst e = k then (k, d) # c else if k < fst e then (k, d) # e # c else e # coll_put k d c)"

definition coll_ok :: "'d coll \<Rightarrow> bool" where
  "coll_ok c = sorted_wrt (<) (map fst c)"

lemma set_coll_put: "set (map fst (coll_put k d c)) = insert k (set (map fst c))"
  by (induction c) auto

lemma coll_put_ok: "coll_ok c \<Longrightarrow> coll_ok (coll_put k d c)"
proof (induction c)
  case (Cons e c)
  have "coll_ok (coll_put k d c)" using Cons by (simp add: coll_ok_def)
  moreover have "\<forall>q \<in> set (map fst (coll_put k d c)). fst e < q" if "fst e < k"
    using that Cons.prems unfolding set_coll_put by (auto simp: coll_ok_def)
  ultimately show ?case using Cons.prems
    by (auto simp: coll_ok_def dest: less_trans)
qed (simp add: coll_ok_def)

lemma coll_ok_distinct: "coll_ok c \<Longrightarrow> distinct (map fst c)"
  by (induction c) (force simp: coll_ok_def)+

lemma coll_get_put: "coll_ok c \<Longrightarrow> coll_get q (coll_put k d c) = (if q = k then Some d else coll_get q c)"
proof (induction c)
  case (Cons e c)
  have "coll_ok c" using Cons.prems by (simp add: coll_ok_def)
  moreover have "map_of c k = None" if "k < fst e"
    using that Cons.prems by (force simp: coll_ok_def map_of_eq_None_iff)
  ultimately show ?case using Cons.IH by (cases e) (auto simp: coll_get_def)
qed (simp add: coll_get_def)

text \<open>The interface the clients of a collection rely on. A client that lists the collection and
  writes back what it computed from each document changes every document exactly once.\<close>

locale doc_collection =
  fixes valid :: "'s \<Rightarrow> bool"
    and get :: "string \<Rightarrow> 's \<Rightarrow> 'd option"
    and put :: "string \<Rightarrow> 'd \<Rightarrow> 's \<Rightarrow> 's"
    and listing :: "'s \<Rightarrow> (string \<times> 'd) list"
  assumes put_valid: "valid s \<Longrightarrow> valid (put k d s)"
    and get_put: "valid s \<Longrightarrow> get q (put k d s) = (if q = k then Some d else get q s)"
    and listing_distinct: "valid s \<Longrightarrow> distinct (map fst (listing s))"
    and get_listing: "valid s \<Longrightarrow> get k s = map_of (listing s) k"
begin

definition put_some :: "('d \<Rightarrow> 'd option) \<Rightarrow> string \<times> 'd \<Rightarrow> 's \<Rightarrow> 's" where
  "put_some f kd s = (case f (snd kd) of None \<Rightarrow> s | Some d \<Rightarrow> put (fst kd) d s)"

lemma put_some_valid: "valid s \<Longrightarrow> valid (put_some f kd s)"
  by (simp add: put_some_def put_valid split: option.splits)

lemma fold_put_some_valid: "valid s \<Longrightarrow> valid (fold (put_some f) kds s)"
  by (induction kds arbitrary: s) (auto intro: put_some_valid)

lemma get_fold_put_some:
  "valid s \<Longrightarrow> distinct (map fst kds) \<Longrightarrow>
     get k (fold (put_some f) kds s) =
       (case map_of kds k of None \<Rightarrow> get k s | Some d \<Rightarrow> (case f d of None \<Rightarrow> get k s | Some d' \<Rightarrow> Some d'))"
proof (induction kds arbitrary: s)
  case (Cons kd kds)
  have "valid (put_some f kd s)" using Cons.prems(1) by (rule put_some_valid)
  note IH = Cons.IH [OF this]
  have "map_of kds (fst kd) = None" using Cons.prems(2) by (simp add: map_of_eq_None_iff)
  with IH Cons.prems show ?case
    by (cases kd) (auto simp: put_some_def get_put split: option.splits)
qed simp

lemma get_update_all:
  assumes "valid s"
  shows "get k (fold (put_some f) (listing s) s) =
    map_option (\<lambda>d. case f d of None \<Rightarrow> d | Some d' \<Rightarrow> d') (get k s)"
  using get_fold_put_some [OF assms listing_distinct [OF assms], of k f] get_listing [OF assms, of k]
  by (auto split: option.splits)

lemma listing_get: "valid s \<Longrightarrow> (k, d) \<in> set (listing s) \<longleftrightarrow> get k s = Some d"
  by (simp add: get_listing listing_distinct map_of_eq_Some_iff)

end

interpretation coll: doc_collection coll_ok coll_get coll_put "\<lambda>c. c"
  by unfold_locales (simp_all add: coll_put_ok coll_get_put coll_ok_distinct, simp add: coll_get_def)

section \<open>The table of documents\<close>

record doc_row =
  dr_collection :: string
  dr_key :: string
  dr_body :: string
  dr_hmac :: string
  dr_created_at :: string
  dr_updated_at :: string

text \<open>A schema parses a value under a key: a document, an \<open>AgentGitError\<close> it throws
  (\<open>Inl (Some e)\<close>), or any other error.\<close>

record 'd doc_env =
  de_mac :: "string \<Rightarrow> string"
  de_stringify :: "jsval \<Rightarrow> string"
  de_json_parse :: "string \<Rightarrow> jsval option"
  de_collections :: "string \<Rightarrow> (string \<Rightarrow> jsval \<Rightarrow> ag_error option + 'd) option"
  de_json :: "'d \<Rightarrow> jsval"

definition storage_error :: "string \<Rightarrow> ag_error" where
  "storage_error m = agent_git_error m STORAGE_UNAVAILABLE False"

definition mac_input :: "string \<Rightarrow> string \<Rightarrow> string \<Rightarrow> string" where
  "mac_input c k body = c @ [CHR 0x00] @ k @ [CHR 0x00] @ body"

definition computeDocumentHmac :: "'d doc_env \<Rightarrow> string \<Rightarrow> string \<Rightarrow> string \<Rightarrow> string" where
  "computeDocumentHmac env c k body = de_mac env (mac_input c k body)"

definition verifyDocumentIntegrity :: "'d doc_env \<Rightarrow> string \<Rightarrow> string \<Rightarrow> string \<Rightarrow> string \<Rightarrow> ag_error option" where
  "verifyDocumentIntegrity env c k body mac =
     (if mac \<noteq> computeDocumentHmac env c k body
      then Some (storage_error ''Integration state document failed integrity verification.'') else None)"

definition parseDocument :: "'d doc_env \<Rightarrow> string \<Rightarrow> string \<Rightarrow> jsval \<Rightarrow> ag_error + 'd" where
  "parseDocument env c k v =
     (case de_collections env c of
        None \<Rightarrow> Inl (InternalError ''Integration state collection is not registered.'')
      | Some parse \<Rightarrow>
          (case parse k v of
             Inr d \<Rightarrow> Inr d
           | Inl (Some e) \<Rightarrow> Inl e
           | Inl None \<Rightarrow> Inl (storage_error ''Integration state document failed schema validation.'')))"

definition deserializeRow :: "'d doc_env \<Rightarrow> string \<Rightarrow> string \<Rightarrow> string \<Rightarrow> string \<Rightarrow> ag_error + 'd" where
  "deserializeRow env c k body mac =
     (case verifyDocumentIntegrity env c k body mac of
        Some e \<Rightarrow> Inl e
      | None \<Rightarrow>
          (case de_json_parse env body of
             None \<Rightarrow> Inl (storage_error ''Integration state document contains invalid JSON.'')
           | Some v \<Rightarrow> parseDocument env c k v))"

definition row_at :: "string \<Rightarrow> string \<Rightarrow> doc_row \<Rightarrow> bool" where
  "row_at c k r = (dr_collection r = c \<and> dr_key r = k)"

definition find_doc :: "string \<Rightarrow> string \<Rightarrow> doc_row list \<Rightarrow> doc_row option" where
  "find_doc c k t = find (row_at c k) t"

definition new_row :: "'d doc_env \<Rightarrow> string \<Rightarrow> string \<Rightarrow> string \<Rightarrow> 'd \<Rightarrow> doc_row" where
  "new_row env now c k d =
     (let body = de_stringify env (de_json env d) in
      \<lparr>dr_collection = c, dr_key = k, dr_body = body, dr_hmac = computeDocumentHmac env c k body,
       dr_created_at = now, dr_updated_at = now\<rparr>)"

definition upsert_row :: "doc_row \<Rightarrow> doc_row list \<Rightarrow> doc_row list" where
  \<comment> \<open>\<open>INSERT ... ON CONFLICT(collection, key) DO UPDATE\<close>\<close>
  "upsert_row r t =
     (if find_doc (dr_collection r) (dr_key r) t = None then t @ [r]
      else map (\<lambda>x. if row_at (dr_collection r) (dr_key r) x
        then x\<lparr>dr_body := dr_body r, dr_hmac := dr_hmac r, dr_updated_at := dr_updated_at r\<rparr> else x) t)"

definition put_document :: "'d doc_env \<Rightarrow> string \<Rightarrow> string \<Rightarrow> string \<Rightarrow> 'd \<Rightarrow> doc_row list \<Rightarrow> ag_error + 'd \<times> doc_row list" where
  "put_document env now c k doc t =
     (case parseDocument env c k (de_json env doc) of
        Inl e \<Rightarrow> Inl e
      | Inr d \<Rightarrow> Inr (d, upsert_row (new_row env now c k d) t))"

definition put_if_absent :: "'d doc_env \<Rightarrow> string \<Rightarrow> string \<Rightarrow> string \<Rightarrow> 'd \<Rightarrow> doc_row list \<Rightarrow> ag_error + bool \<times> doc_row list" where
  "put_if_absent env now c k doc t =
     (case parseDocument env c k (de_json env doc) of
        Inl e \<Rightarrow> Inl e
      | Inr d \<Rightarrow> if find_doc c k t = None then Inr (True, t @ [new_row env now c k d]) else Inr (False, t))"

definition get_document :: "'d doc_env \<Rightarrow> string \<Rightarrow> string \<Rightarrow> doc_row list \<Rightarrow> ag_error + 'd option" where
  "get_document env c k t =
     (case find_doc c k t of
        None \<Rightarrow> Inr None
      | Some r \<Rightarrow> (case deserializeRow env c k (dr_body r) (dr_hmac r) of Inl e \<Rightarrow> Inl e | Inr d \<Rightarrow> Inr (Some d)))"

fun deserialize_rows :: "'d doc_env \<Rightarrow> string \<Rightarrow> doc_row list \<Rightarrow> ag_error + 'd list" where
  "deserialize_rows env c [] = Inr []"
| "deserialize_rows env c (r # rs) =
     (case deserializeRow env c (dr_key r) (dr_body r) (dr_hmac r) of
        Inl e \<Rightarrow> Inl e
      | Inr d \<Rightarrow> (case deserialize_rows env c rs of Inl e \<Rightarrow> Inl e | Inr ds \<Rightarrow> Inr (d # ds)))"

definition list_documents :: "'d doc_env \<Rightarrow> string \<Rightarrow> (string \<times> jsval) list option \<Rightarrow> doc_row list \<Rightarrow> ag_error + 'd list" where
  "list_documents env c flt t =
     (case deserialize_rows env c (sort_key dr_key (filter (\<lambda>r. dr_collection r = c) t)) of
        Inl e \<Rightarrow> Inl e
      | Inr ds \<Rightarrow>
          (case flt of
             None \<Rightarrow> Inr ds
           | Some kvs \<Rightarrow> Inr (filter (\<lambda>d. list_all (\<lambda>kv. js_strict_eq (js_get (de_json env d) (fst kv)) (snd kv)) kvs) ds)))"

definition delete_document :: "string \<Rightarrow> string \<Rightarrow> doc_row list \<Rightarrow> bool \<times> doc_row list" where
  "delete_document c k t = (find_doc c k t \<noteq> None, filter (\<lambda>r. \<not> row_at c k r) t)"

definition backfillDocumentIntegrity :: "'d doc_env \<Rightarrow> doc_row list \<Rightarrow> doc_row list" where
  "backfillDocumentIntegrity env t =
     map (\<lambda>r. if dr_hmac r = []
       then r\<lparr>dr_hmac := computeDocumentHmac env (dr_collection r) (dr_key r) (dr_body r)\<rparr> else r) t"

end
