(* ===== verification/Store_Theorems.thy ===== *)
theory Store_Theorems
  imports Document_Store
begin

text \<open>
  The document table implements the abstract collections: reading it as maps (\<open>doc_view\<close>), \<open>put\<close> and
  \<open>delete\<close> are the map operations, \<open>get\<close> and \<open>list\<close> return what the map holds, and a row that was
  altered or moved is refused.
\<close>

section \<open>Rows and documents\<close>

definition document_of :: "'d doc_env \<Rightarrow> doc_row \<Rightarrow> 'd option" where
  "document_of env r =
     (case deserializeRow env (dr_collection r) (dr_key r) (dr_body r) (dr_hmac r) of Inl e \<Rightarrow> None | Inr d \<Rightarrow> Some d)"

definition rows_ok :: "'d doc_env \<Rightarrow> doc_row list \<Rightarrow> bool" where
  \<comment> \<open>the primary key, and every row reads as a document\<close>
  "rows_ok env t = (distinct (map (\<lambda>r. (dr_collection r, dr_key r)) t) \<and> (\<forall>r \<in> set t. document_of env r \<noteq> None))"

definition json_stable :: "'d doc_env \<Rightarrow> bool" where
  \<comment> \<open>a schema accepts what it returned, once it went through JSON, and returns it unchanged\<close>
  "json_stable env =
     (\<forall>c parse k v d. de_collections env c = Some parse \<longrightarrow> parse k v = Inr d \<longrightarrow>
        (\<exists>w. de_json_parse env (de_stringify env (de_json env d)) = Some w \<and> parse k w = Inr d))"

definition doc_view :: "'d doc_env \<Rightarrow> string \<Rightarrow> doc_row list \<Rightarrow> 'd coll" where
  "doc_view env c t =
     map (\<lambda>r. (dr_key r, the (document_of env r))) (sort_key dr_key (filter (\<lambda>r. dr_collection r = c) t))"

lemma find_doc_Some: "find_doc c k t = Some r \<Longrightarrow> r \<in> set t \<and> dr_collection r = c \<and> dr_key r = k"
  by (auto simp: find_doc_def find_Some_iff row_at_def in_set_conv_nth)

lemma find_doc_unique:
  "distinct (map (\<lambda>r. (dr_collection r, dr_key r)) t) \<Longrightarrow> r \<in> set t \<Longrightarrow> find_doc (dr_collection r) (dr_key r) t = Some r"
  by (induction t) (auto simp: find_doc_def row_at_def image_iff)

lemma find_doc_None: "find_doc c k t = None \<longleftrightarrow> (c, k) \<notin> set (map (\<lambda>r. (dr_collection r, dr_key r)) t)"
  by (auto simp: find_doc_def find_None_iff row_at_def)

lemma distinct_keys: "rows_ok env t \<Longrightarrow> distinct (map dr_key (filter (\<lambda>r. dr_collection r = c) t))"
  unfolding rows_ok_def by (induction t) (auto simp: image_iff)

lemma doc_view_ok: "rows_ok env t \<Longrightarrow> coll_ok (doc_view env c t)"
  using distinct_keys [of env t c]
  by (simp add: coll_ok_def doc_view_def strict_sorted_iff comp_def distinct_map inj_on_def)

lemma coll_get_view:
  assumes "rows_ok env t"
  shows "coll_get k (doc_view env c t) = (case find_doc c k t of None \<Rightarrow> None | Some r \<Rightarrow> document_of env r)"
proof -
  have d: "distinct (map fst (doc_view env c t))" using coll_ok_distinct doc_view_ok assms by blast
  show ?thesis
  proof (cases "find_doc c k t")
    case None
    then have "k \<notin> fst ` set (doc_view env c t)" by (auto simp: find_doc_None doc_view_def)
    with None show ?thesis by (simp add: coll_get_def map_of_eq_None_iff)
  next
    case (Some r)
    then have r: "r \<in> set t" "dr_collection r = c" "dr_key r = k" by (auto dest: find_doc_Some)
    then obtain doc where doc: "document_of env r = Some doc" using assms by (auto simp: rows_ok_def)
    have "(k, the (document_of env r)) \<in> set (doc_view env c t)" using r by (force simp: doc_view_def)
    with d doc Some show ?thesis by (simp add: coll_get_def)
  qed
qed

lemma coll_in: "coll_ok c \<Longrightarrow> (k, d) \<in> set c \<longleftrightarrow> coll_get k c = Some d"
  by (simp add: coll_get_def coll_ok_distinct)

lemma coll_eqI:
  assumes "coll_ok a" "coll_ok b" "\<And>k. coll_get k a = coll_get k b"
  shows "a = b"
proof (rule map_sorted_distinct_set_unique)
  show set: "set a = set b" using assms by (auto simp: coll_in)
  show "inj_on fst (set a \<union> set b)" using assms(1) set coll_ok_distinct [of a] by (simp add: distinct_map)
qed (use assms in \<open>auto simp: coll_ok_def strict_sorted_iff\<close>)

lemma document_of_new:
  assumes "json_stable env" "parseDocument env c k v = Inr d"
  shows "document_of env (new_row env now c k d) = Some d"
proof -
  obtain parse where p: "de_collections env c = Some parse" "parse k v = Inr d"
    using assms(2) by (auto simp: parseDocument_def split: option.splits sum.splits)
  then obtain w where "de_json_parse env (de_stringify env (de_json env d)) = Some w" "parse k w = Inr d"
    using assms(1) unfolding json_stable_def by blast
  with p show ?thesis
    by (simp add: document_of_def new_row_def Let_def deserializeRow_def verifyDocumentIntegrity_def parseDocument_def)
qed

lemma new_row_sel [simp]:
  "dr_collection (new_row env now c k d) = c" "dr_key (new_row env now c k d) = k"
  by (simp_all add: new_row_def Let_def)

lemma document_of_cong:
  "dr_collection r = dr_collection r' \<Longrightarrow> dr_key r = dr_key r' \<Longrightarrow> dr_body r = dr_body r' \<Longrightarrow> dr_hmac r = dr_hmac r' \<Longrightarrow>
     document_of env r = document_of env r'"
  by (simp add: document_of_def)

lemma find_doc_upsert:
  assumes "row_at c k r"
  shows "case find_doc c' k' (upsert_row r t) of
      None \<Rightarrow> find_doc c' k' t = None \<and> (c', k') \<noteq> (c, k)
    | Some x \<Rightarrow> document_of env x = (if (c', k') = (c, k) then document_of env r
        else (case find_doc c' k' t of None \<Rightarrow> None | Some y \<Rightarrow> document_of env y)) \<and>
        ((c', k') \<noteq> (c, k) \<longrightarrow> find_doc c' k' t \<noteq> None)"
proof (cases "find_doc c k t")
  case None
  with assms have "upsert_row r t = t @ [r]" by (simp add: upsert_row_def row_at_def)
  moreover have "find_doc c' k' (t @ [r]) = (case find_doc c' k' t of Some x \<Rightarrow> Some x | None \<Rightarrow> if row_at c' k' r then Some r else None)"
    unfolding find_doc_def by (induction t) auto
  ultimately show ?thesis using None assms by (auto simp: row_at_def split: option.splits)
next
  case (Some y)
  define f where "f = (\<lambda>x. if row_at c k x then x\<lparr>dr_body := dr_body r, dr_hmac := dr_hmac r, dr_updated_at := dr_updated_at r\<rparr> else x)"
  have "upsert_row r t = map f t" using Some assms by (simp add: upsert_row_def row_at_def f_def)
  moreover have "find_doc c' k' (map f t) = map_option f (find_doc c' k' t)"
    unfolding find_doc_def by (induction t) (auto simp: f_def row_at_def)
  moreover have "document_of env (f x) = document_of env r" if "row_at c k x" for x
    using that assms by (intro document_of_cong) (simp_all add: f_def row_at_def)
  ultimately show ?thesis using Some find_doc_Some [of c' k' t]
    by (auto simp: f_def row_at_def split: option.splits)
qed

section \<open>Refinement\<close>

lemma rows_ok_upsert:
  assumes "rows_ok env t" "row_at c k r" "document_of env r \<noteq> None"
  shows "rows_ok env (upsert_row r t)"
proof -
  have keys: "distinct (map (\<lambda>r. (dr_collection r, dr_key r)) (upsert_row r t))"
  proof (cases "find_doc (dr_collection r) (dr_key r) t")
    case None
    then show ?thesis using assms(1) unfolding find_doc_None
      by (simp add: upsert_row_def find_doc_None rows_ok_def)
  next
    case (Some y)
    have "map (\<lambda>r. (dr_collection r, dr_key r)) (upsert_row r t) = map (\<lambda>r. (dr_collection r, dr_key r)) t"
      using Some by (simp add: upsert_row_def)
    then show ?thesis using assms(1) by (simp add: rows_ok_def)
  qed
  moreover have "document_of env x \<noteq> None" if "x \<in> set (upsert_row r t)" for x
  proof -
    have "find_doc (dr_collection x) (dr_key x) (upsert_row r t) = Some x"
      using keys that by (rule find_doc_unique)
    with find_doc_upsert [OF assms(2), of "dr_collection x" "dr_key x" t env] assms(1,3) show ?thesis
      by (auto simp: rows_ok_def dest: find_doc_Some split: if_splits option.splits)
  qed
  ultimately show ?thesis by (simp add: rows_ok_def)
qed

lemma view_upsert:
  assumes "rows_ok env t" "row_at c k r" "document_of env r = Some d"
  shows "doc_view env c' (upsert_row r t) = (if c' = c then coll_put k d (doc_view env c t) else doc_view env c' t)"
proof -
  have ok: "rows_ok env (upsert_row r t)" using rows_ok_upsert [OF assms(1,2)] assms(3) by simp
  have get: "coll_get q (doc_view env c' (upsert_row r t)) =
      (if c' = c \<and> q = k then Some d else coll_get q (doc_view env c' t))" for q
    using find_doc_upsert [OF assms(2), of c' q t env] assms(3)
    unfolding coll_get_view [OF ok] coll_get_view [OF assms(1)] by (auto split: option.splits if_splits)
  show ?thesis
  proof (rule coll_eqI)
    show "coll_ok (doc_view env c' (upsert_row r t))" using ok by (rule doc_view_ok)
    show "coll_ok (if c' = c then coll_put k d (doc_view env c t) else doc_view env c' t)"
      using doc_view_ok [OF assms(1)] by (simp add: coll_put_ok)
    fix q show "coll_get q (doc_view env c' (upsert_row r t)) =
        coll_get q (if c' = c then coll_put k d (doc_view env c t) else doc_view env c' t)"
      unfolding get by (simp add: coll_get_put [OF doc_view_ok [OF assms(1)]])
  qed
qed

lemma deserialize_rows_view:
  "\<forall>r \<in> set rs. dr_collection r = c \<and> document_of env r \<noteq> None \<Longrightarrow>
     deserialize_rows env c rs = Inr (map (\<lambda>r. the (document_of env r)) rs)"
proof (induction rs)
  case (Cons r rs)
  then obtain d where "deserializeRow env c (dr_key r) (dr_body r) (dr_hmac r) = Inr d" "document_of env r = Some d"
    by (auto simp: document_of_def split: sum.splits)
  with Cons show ?case by simp
qed simp

lemma get_document_view:
  "rows_ok env t \<Longrightarrow> get_document env c k t = Inr (coll_get k (doc_view env c t))"
  using find_doc_Some [of c k t]
  by (auto simp: coll_get_view get_document_def rows_ok_def document_of_def split: option.splits sum.splits)

text \<open>C34: The table implements the abstract collections: on a table all of whose rows read, a put is the
  insertion into the map of its collection and touches no other, a get and a list return what
  the map holds, in key order, and every row still reads; a put the schema refuses is its error
  and changes nothing.\<close>

theorem table_refines_collection:
  assumes "rows_ok env t" "json_stable env"
  shows "get_document env c k t = Inr (coll_get k (doc_view env c t)) \<and>
    list_documents env c None t = Inr (map snd (doc_view env c t)) \<and>
    (case parseDocument env c k (de_json env doc) of
       Inl e \<Rightarrow> put_document env now c k doc t = Inl e
     | Inr d \<Rightarrow> \<exists>t'. put_document env now c k doc t = Inr (d, t') \<and> rows_ok env t' \<and>
         (\<forall>c'. doc_view env c' t' = (if c' = c then coll_put k d (doc_view env c t) else doc_view env c' t)))"
proof (intro conjI)
  show "get_document env c k t = Inr (coll_get k (doc_view env c t))" using assms(1) by (rule get_document_view)
  show "list_documents env c None t = Inr (map snd (doc_view env c t))"
    using assms(1) by (simp add: list_documents_def doc_view_def deserialize_rows_view rows_ok_def comp_def)
  show "case parseDocument env c k (de_json env doc) of
       Inl e \<Rightarrow> put_document env now c k doc t = Inl e
     | Inr d \<Rightarrow> \<exists>t'. put_document env now c k doc t = Inr (d, t') \<and> rows_ok env t' \<and>
         (\<forall>c'. doc_view env c' t' = (if c' = c then coll_put k d (doc_view env c t) else doc_view env c' t))"
  proof (cases "parseDocument env c k (de_json env doc)")
    case (Inr d)
    note new = document_of_new [OF assms(2) Inr, of now]
    have at: "row_at c k (new_row env now c k d)" by (simp add: row_at_def)
    show ?thesis using Inr new view_upsert [OF assms(1) at new] rows_ok_upsert [OF assms(1) at]
      by (simp add: put_document_def)
  qed (simp add: put_document_def)
qed

definition sample_env :: "string doc_env" where
  "sample_env = \<lparr>de_mac = id,
     de_stringify = (\<lambda>v. case v of JStr s \<Rightarrow> CHR 0x22 # s | _ \<Rightarrow> []),
     de_json_parse = (\<lambda>s. case s of [] \<Rightarrow> None | _ # s \<Rightarrow> Some (JStr s)),
     de_collections = (\<lambda>c. if c = ''notes'' then Some (\<lambda>k v. case v of JStr s \<Rightarrow> Inr s | _ \<Rightarrow> Inl None) else None),
     de_json = JStr\<rparr>"

lemma sample_env_stable: "json_stable sample_env"
  by (auto simp: json_stable_def sample_env_def split: if_splits jsval.splits)

theorem table_refines_collection_witness:
  "\<exists>t. put_document sample_env ''t1'' ''notes'' ''k1'' ''text'' [] = Inr (''text'', t) \<and>
     doc_view sample_env ''notes'' t = [(''k1'', ''text'')]"
proof -
  have "rows_ok sample_env []" by (simp add: rows_ok_def)
  moreover have "parseDocument sample_env ''notes'' ''k1'' (de_json sample_env ''text'') = Inr ''text''" by code_simp
  moreover have "doc_view sample_env ''notes'' [] = []" by (simp add: doc_view_def)
  note this table_refines_collection [OF calculation(1) sample_env_stable,
      where c = "''notes''" and k = "''k1''" and doc = "''text''" and now = "''t1''"]
  ultimately show ?thesis by (simp only: sum.case coll_put.simps) metis
qed

text \<open>C35: A genuine digest cannot be moved to another row: if the digest a row holds was computed with the
  key of the store for some collection, key and body, then a get returns the document only when the row still has
  that collection, key and body. So a row whose body was edited under its old digest, or that received the digest
  of another document, is refused. The message authentication code is taken to be injective, and collection names and
  bodies to hold no NUL, which \<open>JSON.stringify\<close> escapes. Nothing is said of a row whose digest was emptied:
  it is refused while the daemon runs, but the next opening of the database signs it as it is
  (\<open>backfill_signs_altered_row\<close> below).\<close>

theorem tampered_document_refused:
  assumes "inj (de_mac env)" "CHR 0x00 \<notin> set c \<union> set c0" "CHR 0x00 \<notin> set body0"
    and "find_doc c k t = Some r" "CHR 0x00 \<notin> set (dr_body r)"
    and "dr_hmac r = computeDocumentHmac env c0 k0 body0" "get_document env c k t = Inr (Some d)"
  shows "c = c0 \<and> k = k0 \<and> dr_body r = body0"
proof -
  have cut_head: "x @ CHR 0x00 # u = y @ CHR 0x00 # v \<Longrightarrow> CHR 0x00 \<notin> set x \<Longrightarrow> CHR 0x00 \<notin> set y \<Longrightarrow> x = y \<and> u = v" for x y u v
  proof (induction x arbitrary: y)
    case Nil then show ?case by (cases y) auto
  next
    case (Cons a x) then show ?case by (cases y) auto
  qed
  have "de_mac env (mac_input c k (dr_body r)) = de_mac env (mac_input c0 k0 body0)"
    using assms(4,6,7) by (auto simp: get_document_def deserializeRow_def verifyDocumentIntegrity_def
        computeDocumentHmac_def split: option.splits if_splits)
  with assms(1) have same: "c @ CHR 0x00 # (k @ CHR 0x00 # dr_body r) = c0 @ CHR 0x00 # (k0 @ CHR 0x00 # body0)"
    by (simp add: inj_eq mac_input_def)
  from cut_head [OF this] assms(2) have c: "c = c0" and tail: "k @ CHR 0x00 # dr_body r = k0 @ CHR 0x00 # body0" by auto
  from tail have "rev (dr_body r) @ CHR 0x00 # rev k = rev body0 @ CHR 0x00 # rev k0"
    by (metis append_assoc append_Cons append_Nil rev.simps(2) rev_append)
  from cut_head [OF this] assms(3,5) c show ?thesis by simp
qed

definition sample_table :: "doc_row list" where
  "sample_table = [new_row sample_env ''t1'' ''notes'' ''k1'' ''text'']"

theorem tampered_document_refused_witness:
  "get_document sample_env ''notes'' ''k1'' sample_table = Inr (Some ''text'') \<and>
   dr_body (new_row sample_env ''t1'' ''notes'' ''k1'' ''text'') = CHR 0x22 # ''text''"
proof -
  let ?r = "new_row sample_env ''t1'' ''notes'' ''k1'' ''text''"
  have get: "get_document sample_env ''notes'' ''k1'' sample_table = Inr (Some ''text'')" by code_simp
  have "inj (de_mac sample_env)" by (simp add: sample_env_def)
  moreover have "find_doc ''notes'' ''k1'' sample_table = Some ?r" by code_simp
  moreover have "dr_hmac ?r = computeDocumentHmac sample_env ''notes'' ''k1'' (CHR 0x22 # ''text'')" by code_simp
  moreover have "CHR 0x00 \<notin> set (dr_body ?r)" by code_simp
  moreover have "CHR 0x00 \<notin> set ''notes'' \<union> set ''notes''" "CHR 0x00 \<notin> set (CHR 0x22 # ''text'')" by code_simp+
  ultimately show ?thesis using tampered_document_refused [OF _ _ _ _ _ _ get] get by blast
qed

text \<open>Opening the database signs every row whose digest is empty, so a row altered together with an
  emptied digest reads as genuine after the next start.\<close>

lemma backfill_signs_altered_row:
  "get_document sample_env ''notes'' ''k1''
     [(new_row sample_env ''t1'' ''notes'' ''k1'' ''text'')\<lparr>dr_body := CHR 0x22 # ''forged'', dr_hmac := []\<rparr>] =
     Inl (storage_error ''Integration state document failed integrity verification.'') \<and>
   get_document sample_env ''notes'' ''k1'' (backfillDocumentIntegrity sample_env
     [(new_row sample_env ''t1'' ''notes'' ''k1'' ''text'')\<lparr>dr_body := CHR 0x22 # ''forged'', dr_hmac := []\<rparr>]) =
     Inr (Some ''forged'')"
  by (rule conjI; code_simp)

end
