(* ===== verification/Hosted_Queue.thy ===== *)
theory Hosted_Queue
  imports Document_Store
begin

text \<open>
  The hosted execution queue of the daemon (\<open>packages/authority-daemon/src/hosted-execution-queue.ts\<close>):
  jobs wait in the server registry, one at a time is claimed and given to the worker, failures that
  may pass are retried with backoff, operators cancel and requeue. The registry
  (\<open>packages/mcp-registry/src/index.ts\<close>) is a \<open>coll\<close> of jobs; writing a job validates and normalizes
  it. Time stamps are milliseconds. Of the dispatch data of a job (endpoint, hosts, arguments),
  which the queue passes on unread, there is one field. A JavaScript error is \<open>thrown\<close>. Timers,
  promises and the abort signal are the steps and the loop at the end; the listeners of waiting
  callers are not modelled.
\<close>

section \<open>Jobs\<close>

datatype job_status = JS_queued | JS_running | JS_cancel_requested | JS_succeeded | JS_failed | JS_canceled

record job_error =
  je_code :: string
  je_message :: string
  je_retryable :: bool
  je_details :: "(string \<times> jsval) list option"

record exec_result =
  xr_completed_at :: int
  xr_body :: jsval

record job =
  jb_id :: string
  jb_run_id :: string
  jb_action_id :: string
  jb_profile_id :: string
  jb_tool_name :: string
  jb_dispatch :: jsval
  jb_status :: job_status
  jb_attempt_count :: nat
  jb_max_attempts :: nat
  jb_current_lease_id :: "string option"
  jb_claimed_by :: "string option"
  jb_claimed_at :: "int option"
  jb_last_heartbeat_at :: "int option"
  jb_cancel_requested_at :: "int option"
  jb_cancel_requested_by :: "string option"
  jb_cancel_reason :: "string option"
  jb_canceled_at :: "int option"
  jb_next_attempt_at :: int
  jb_created_at :: int
  jb_updated_at :: int
  jb_completed_at :: "int option"
  jb_last_error :: "job_error option"
  jb_result :: "exec_result option"

type_synonym jobs = "job coll"

definition isTerminalStatus :: "job_status \<Rightarrow> bool" where
  "isTerminalStatus s = (s = JS_succeeded \<or> s = JS_failed \<or> s = JS_canceled)"

section \<open>The registry\<close>

definition nonempty_opt :: "string option \<Rightarrow> bool" where
  "nonempty_opt s = (s \<noteq> Some [])"

definition job_schema_ok :: "job \<Rightarrow> bool" where
  "job_schema_ok j =
     (jb_id j \<noteq> [] \<and> jb_run_id j \<noteq> [] \<and> jb_action_id j \<noteq> [] \<and> jb_profile_id j \<noteq> [] \<and> jb_tool_name j \<noteq> [] \<and>
      0 < jb_max_attempts j \<and> nonempty_opt (jb_current_lease_id j) \<and> nonempty_opt (jb_claimed_by j) \<and>
      nonempty_opt (jb_cancel_requested_by j) \<and> nonempty_opt (jb_cancel_reason j) \<and>
      (case jb_last_error j of None \<Rightarrow> True | Some e \<Rightarrow> je_code e \<noteq> [] \<and> je_message e \<noteq> []))"

definition trim_opt :: "string option \<Rightarrow> string option" where
  \<comment> \<open>\<open>v?.trim() || null\<close>\<close>
  "trim_opt v = (case v of None \<Rightarrow> None | Some s \<Rightarrow> if js_trim s = [] then None else Some (js_trim s))"

definition normalizeHostedExecutionJobRecord :: "job \<Rightarrow> ag_error + job" where
  "normalizeHostedExecutionJobRecord j =
     (if \<not> job_schema_ok j then Inl (ValidationError ''Request payload validation failed.'')
      else if js_trim (jb_id j) = [] \<or> js_trim (jb_run_id j) = [] \<or> js_trim (jb_action_id j) = [] \<or>
              js_trim (jb_profile_id j) = [] \<or> js_trim (jb_tool_name j) = []
      then Inl (agent_git_error ''MCP server configuration is malformed.'' CAPABILITY_UNAVAILABLE False)
      else Inr (j\<lparr>jb_id := js_trim (jb_id j), jb_run_id := js_trim (jb_run_id j),
             jb_action_id := js_trim (jb_action_id j), jb_profile_id := js_trim (jb_profile_id j),
             jb_tool_name := js_trim (jb_tool_name j),
             jb_current_lease_id := trim_opt (jb_current_lease_id j), jb_claimed_by := trim_opt (jb_claimed_by j),
             jb_cancel_requested_by := trim_opt (jb_cancel_requested_by j),
             jb_cancel_reason := trim_opt (jb_cancel_reason j)\<rparr>))"

definition listHostedExecutionJobs :: "jobs \<Rightarrow> job list" where
  "listHostedExecutionJobs c = map snd c"

definition getHostedExecutionJob :: "string \<Rightarrow> jobs \<Rightarrow> job option" where
  "getHostedExecutionJob i c = coll_get (js_trim i) c"

definition upsertHostedExecutionJob :: "job \<Rightarrow> jobs \<Rightarrow> ag_error + jobs" where
  "upsertHostedExecutionJob j c =
     (case normalizeHostedExecutionJobRecord j of Inl e \<Rightarrow> Inl e | Inr n \<Rightarrow> Inr (coll_put (jb_id n) n c))"

section \<open>Errors of the worker\<close>

fun error_code_name :: "error_code \<Rightarrow> string" where
  "error_code_name BAD_REQUEST = ''BAD_REQUEST''"
| "error_code_name VALIDATION_FAILED = ''VALIDATION_FAILED''"
| "error_code_name NOT_FOUND = ''NOT_FOUND''"
| "error_code_name CONFLICT = ''CONFLICT''"
| "error_code_name TIMEOUT = ''TIMEOUT''"
| "error_code_name PRECONDITION_FAILED = ''PRECONDITION_FAILED''"
| "error_code_name POLICY_BLOCKED = ''POLICY_BLOCKED''"
| "error_code_name UPSTREAM_FAILURE = ''UPSTREAM_FAILURE''"
| "error_code_name CAPABILITY_UNAVAILABLE = ''CAPABILITY_UNAVAILABLE''"
| "error_code_name STORAGE_UNAVAILABLE = ''STORAGE_UNAVAILABLE''"
| "error_code_name BROKER_UNAVAILABLE = ''BROKER_UNAVAILABLE''"
| "error_code_name INTERNAL_ERROR = ''INTERNAL_ERROR''"

definition all_error_codes :: "error_code list" where
  "all_error_codes = [BAD_REQUEST, VALIDATION_FAILED, NOT_FOUND, CONFLICT, TIMEOUT, PRECONDITION_FAILED,
     POLICY_BLOCKED, UPSTREAM_FAILURE, CAPABILITY_UNAVAILABLE, STORAGE_UNAVAILABLE, BROKER_UNAVAILABLE, INTERNAL_ERROR]"

text \<open>\<open>TH_error code msg\<close> is an \<open>Error\<close>, with its \<open>code\<close> where it has one; \<open>TH_value code text\<close> any other
  value, with its \<open>code\<close> property and what \<open>String\<close> makes of it.\<close>

datatype thrown =
    TH_agentgit ag_error "(string \<times> jsval) list option"
  | TH_error "string option" string
  | TH_value "string option" string

fun is_error_instance :: "thrown \<Rightarrow> bool" where
  "is_error_instance (TH_value c t) = False"
| "is_error_instance _ = True"

fun thrown_code :: "thrown \<Rightarrow> string option" where
  "thrown_code (TH_agentgit e d) = Some (error_code_name (err_code e))"
| "thrown_code (TH_error c m) = c"
| "thrown_code (TH_value c t) = c"

fun thrown_message :: "thrown \<Rightarrow> string" where
  "thrown_message (TH_agentgit e d) = err_message e"
| "thrown_message (TH_error c m) = m"
| "thrown_message (TH_value c t) = t"

definition RETRYABLE_WORKER_CONNECTION_ERROR_CODES :: "string list" where
  "RETRYABLE_WORKER_CONNECTION_ERROR_CODES =
     [''ECONNREFUSED'', ''ECONNRESET'', ''EHOSTUNREACH'', ''ENETUNREACH'', ''ENOENT'', ''EPIPE'', ''ETIMEDOUT'']"

definition plain_job_error :: "thrown \<Rightarrow> job_error" where
  "plain_job_error th =
     (let lost = is_error_instance th \<and> js_str_includes (thrown_message th)
            ''Hosted MCP worker connection closed before a response was received.'' in
      \<lparr>je_code = (if lost then ''CAPABILITY_UNAVAILABLE'' else ''INTERNAL_ERROR''),
       je_message = thrown_message th, je_retryable = lost, je_details = None\<rparr>)"

definition toJobError :: "thrown \<Rightarrow> job_error" where
  "toJobError th =
     (case th of
        TH_agentgit e d \<Rightarrow> \<lparr>je_code = error_code_name (err_code e), je_message = err_message e,
                            je_retryable = err_retryable e, je_details = d\<rparr>
      | _ \<Rightarrow>
          (case thrown_code th of
             None \<Rightarrow> plain_job_error th
           | Some c \<Rightarrow>
               if c \<in> set RETRYABLE_WORKER_CONNECTION_ERROR_CODES then
                 \<lparr>je_code = ''CAPABILITY_UNAVAILABLE'',
                  je_message = (if is_error_instance th then thrown_message th
                    else ''Hosted worker connection failed with '' @ c @ ''.''),
                  je_retryable = True, je_details = Some [(''cause_code'', JStr c)]\<rparr>
               else plain_job_error th))"

definition shouldRetryJob :: "job_error \<Rightarrow> bool" where
  "shouldRetryJob e =
     (je_retryable e \<or>
      je_code e \<in> {''CAPABILITY_UNAVAILABLE'', ''TIMEOUT'', ''UPSTREAM_FAILURE'', ''STORAGE_UNAVAILABLE'', ''BROKER_UNAVAILABLE''})"

definition isRetryableFailureClass :: "job_error option \<Rightarrow> bool" where
  "isRetryableFailureClass e = (case e of None \<Rightarrow> False | Some e \<Rightarrow> shouldRetryJob e)"

definition retry_delay :: "nat \<Rightarrow> int" where
  "retry_delay n = min 2000 (200 * 2 ^ (n - 1))"

definition nextRetryAt :: "int \<Rightarrow> nat \<Rightarrow> int" where
  "nextRetryAt now n = now + retry_delay n"

definition normalizeJobErrorCode :: "string \<Rightarrow> error_code" where
  "normalizeJobErrorCode c =
     (case find (\<lambda>e. error_code_name e = c) all_error_codes of Some e \<Rightarrow> e | None \<Rightarrow> INTERNAL_ERROR)"

definition resolveTerminalJob :: "job \<Rightarrow> ag_error + exec_result" where
  "resolveTerminalJob j =
     (case jb_result j of
        Some r \<Rightarrow> Inr r
      | None \<Rightarrow>
          (case jb_last_error j of
             None \<Rightarrow> Inl (InternalError ''Hosted execution job reached a terminal state without a recorded execution result.'')
           | Some e \<Rightarrow> Inl (agent_git_error (je_message e) (normalizeJobErrorCode (je_code e)) (je_retryable e))))"

section \<open>Counting jobs\<close>

definition with_status :: "job_status \<Rightarrow> job list \<Rightarrow> job list" where
  "with_status s js = filter (\<lambda>j. jb_status j = s) js"

definition dead_letter_retryable :: "job list \<Rightarrow> nat" where
  "dead_letter_retryable js = length (filter (\<lambda>j. isRetryableFailureClass (jb_last_error j)) (with_status JS_failed js))"

record job_summary =
  sm_queued :: nat
  sm_running :: nat
  sm_cancel_requested :: nat
  sm_succeeded :: nat
  sm_failed :: nat
  sm_canceled :: nat
  sm_dead_letter_retryable :: nat
  sm_dead_letter_non_retryable :: nat

definition summarizeJobs :: "job list \<Rightarrow> job_summary" where
  "summarizeJobs js =
     \<lparr>sm_queued = length (with_status JS_queued js), sm_running = length (with_status JS_running js),
      sm_cancel_requested = length (with_status JS_cancel_requested js),
      sm_succeeded = length (with_status JS_succeeded js), sm_failed = length (with_status JS_failed js),
      sm_canceled = length (with_status JS_canceled js), sm_dead_letter_retryable = dead_letter_retryable js,
      sm_dead_letter_non_retryable = length (with_status JS_failed js) - dead_letter_retryable js\<rparr>"

definition queue_counts :: "jobs \<Rightarrow> nat \<times> nat \<times> nat \<times> nat" where
  "queue_counts c =
     (let js = listHostedExecutionJobs c in
      (length (with_status JS_queued js), length (with_status JS_running js),
       length (with_status JS_succeeded js), length (with_status JS_failed js)))"

record queue_diagnostics =
  qd_summary :: job_summary
  qd_retryable_failed :: nat
  qd_oldest_queued_at :: "int option"
  qd_oldest_failed_at :: "int option"
  qd_active_profiles :: "string list"

definition diagnostics :: "jobs \<Rightarrow> queue_diagnostics" where
  "diagnostics c =
     (let js = listHostedExecutionJobs c in
      \<lparr>qd_summary = summarizeJobs js, qd_retryable_failed = dead_letter_retryable js,
       qd_oldest_queued_at = js_head (js_sort (\<lambda>l r. l - r) (map jb_created_at (with_status JS_queued js))),
       qd_oldest_failed_at = js_head (js_sort (\<lambda>l r. l - r)
         (map (\<lambda>j. case jb_completed_at j of Some t \<Rightarrow> t | None \<Rightarrow> jb_updated_at j) (with_status JS_failed js))),
       qd_active_profiles = sort (js_dedup (map jb_profile_id
         (with_status JS_queued js @ with_status JS_running js @ with_status JS_cancel_requested js)))\<rparr>)"

section \<open>Operator requests\<close>

definition job_not_found :: ag_error where
  "job_not_found = NotFoundError ''Hosted MCP execution job was not found.''"

record requeue_result =
  rq_job :: job
  rq_requeued :: bool
  rq_previous_status :: job_status
  rq_attempt_count_reset :: bool
  rq_max_attempts_updated :: bool

definition requeueFailedJobWithOptions ::
  "int \<Rightarrow> string \<Rightarrow> bool option \<Rightarrow> nat option \<Rightarrow> jobs \<Rightarrow> ag_error + requeue_result \<times> jobs" where
  "requeueFailedJobWithOptions now i reset_opt max_opt c =
     (case getHostedExecutionJob i c of
        None \<Rightarrow> Inl job_not_found
      | Some j \<Rightarrow>
          (if jb_status j \<noteq> JS_failed
           then Inl (PreconditionError ''Only failed hosted MCP execution jobs can be requeued.'')
           else
             (let reset = (case reset_opt of None \<Rightarrow> False | Some b \<Rightarrow> b);
                  next_max = (case max_opt of None \<Rightarrow> jb_max_attempts j | Some m \<Rightarrow> m) in
              if \<not> reset \<and> next_max < jb_attempt_count j
              then Inl (PreconditionError ''max_attempts cannot be set below the current attempt_count unless reset_attempt_count is true.'')
              else
                (let j' = j\<lparr>jb_status := JS_queued, jb_attempt_count := (if reset then 0 else jb_attempt_count j),
                       jb_max_attempts := next_max, jb_current_lease_id := None, jb_claimed_by := None,
                       jb_claimed_at := None, jb_last_heartbeat_at := None, jb_cancel_requested_at := None,
                       jb_cancel_requested_by := None, jb_cancel_reason := None, jb_canceled_at := None,
                       jb_next_attempt_at := now, jb_updated_at := now, jb_completed_at := None,
                       jb_last_error := None, jb_result := None\<rparr> in
                 case upsertHostedExecutionJob j' c of
                   Inl e \<Rightarrow> Inl e
                 | Inr c' \<Rightarrow> Inr (\<lparr>rq_job = j', rq_requeued = True, rq_previous_status = jb_status j,
                     rq_attempt_count_reset = reset, rq_max_attempts_updated = (next_max \<noteq> jb_max_attempts j)\<rparr>, c')))))"

definition requeueFailedJob :: "int \<Rightarrow> string \<Rightarrow> jobs \<Rightarrow> ag_error + requeue_result \<times> jobs" where
  "requeueFailedJob now i c = requeueFailedJobWithOptions now i None None c"

record cancel_result =
  cn_job :: job
  cn_requested :: bool
  cn_previous_status :: job_status
  cn_terminal :: bool

definition or_else :: "'a option \<Rightarrow> 'a option \<Rightarrow> 'a option" where
  "or_else x y = (case x of None \<Rightarrow> y | Some v \<Rightarrow> Some v)"

definition cancel_update :: "int \<Rightarrow> string option \<Rightarrow> string option \<Rightarrow> job \<Rightarrow> job" where
  "cancel_update now by_session why j =
     j\<lparr>jb_cancel_requested_at := or_else (jb_cancel_requested_at j) (Some now),
       jb_cancel_requested_by := or_else by_session (jb_cancel_requested_by j),
       jb_cancel_reason := or_else why (jb_cancel_reason j),
       jb_updated_at := now\<rparr>"

definition reason_detail :: "string option \<Rightarrow> (string \<times> jsval) list" where
  "reason_detail why = (case why of None \<Rightarrow> [] | Some r \<Rightarrow> if r = [] then [] else [(''reason'', JStr r)])"

definition opt_details :: "(string \<times> jsval) list \<Rightarrow> (string \<times> jsval) list option" where
  "opt_details kvs = (if kvs = [] then None else Some kvs)"

definition cancelJob ::
  "int \<Rightarrow> string \<Rightarrow> string option \<Rightarrow> string option \<Rightarrow> jobs \<Rightarrow> ag_error + cancel_result \<times> jobs" where
  "cancelJob now i by_session why c =
     (case getHostedExecutionJob i c of
        None \<Rightarrow> Inl job_not_found
      | Some j \<Rightarrow>
          (if jb_status j = JS_queued then
             (let j' = (cancel_update now by_session why j)\<lparr>jb_status := JS_canceled, jb_canceled_at := Some now,
                    jb_completed_at := Some now, jb_claimed_by := None, jb_claimed_at := None,
                    jb_current_lease_id := None, jb_last_heartbeat_at := Some now,
                    jb_last_error := Some \<lparr>je_code = ''CONFLICT'',
                      je_message = ''Hosted MCP execution job was canceled before dispatch.'',
                      je_retryable = False, je_details = opt_details (reason_detail why)\<rparr>\<rparr> in
              case upsertHostedExecutionJob j' c of
                Inl e \<Rightarrow> Inl e
              | Inr c' \<Rightarrow> Inr (\<lparr>cn_job = j', cn_requested = True, cn_previous_status = jb_status j, cn_terminal = True\<rparr>, c'))
           else if jb_status j = JS_running \<or> jb_status j = JS_cancel_requested then
             (let j' = (cancel_update now by_session why j)\<lparr>jb_status := JS_cancel_requested\<rparr> in
              case upsertHostedExecutionJob j' c of
                Inl e \<Rightarrow> Inl e
              | Inr c' \<Rightarrow> Inr (\<lparr>cn_job = j', cn_requested = True, cn_previous_status = jb_status j, cn_terminal = False\<rparr>, c'))
           else Inr (\<lparr>cn_job = j, cn_requested = False, cn_previous_status = jb_status j,
                      cn_terminal = isTerminalStatus (jb_status j)\<rparr>, c)))"

definition terminalFailureClassification :: "job \<Rightarrow> string option" where
  "terminalFailureClassification j =
     (if jb_status j \<noteq> JS_failed then None
      else Some (if isRetryableFailureClass (jb_last_error j) then ''retryable_exhausted'' else ''non_retryable''))"

datatype lifecycle_state =
    LS_queued | LS_running | LS_cancel_requested | LS_succeeded | LS_dead_letter_retryable
  | LS_dead_letter_non_retryable | LS_canceled

record job_lifecycle =
  lc_state :: lifecycle_state
  lc_dead_lettered :: bool
  lc_eligible_for_requeue :: bool
  lc_retry_budget_remaining :: nat

definition lifecycle :: "job \<Rightarrow> job_lifecycle" where
  "lifecycle j =
     (let budget = jb_max_attempts j - jb_attempt_count j;
          plain = (\<lambda>s. \<lparr>lc_state = s, lc_dead_lettered = False, lc_eligible_for_requeue = False,
                       lc_retry_budget_remaining = budget\<rparr>) in
      case jb_status j of
        JS_queued \<Rightarrow> plain LS_queued
      | JS_running \<Rightarrow> plain LS_running
      | JS_cancel_requested \<Rightarrow> plain LS_cancel_requested
      | JS_succeeded \<Rightarrow> plain LS_succeeded
      | JS_canceled \<Rightarrow> plain LS_canceled
      | JS_failed \<Rightarrow> \<lparr>lc_state = (if isRetryableFailureClass (jb_last_error j) then LS_dead_letter_retryable
                               else LS_dead_letter_non_retryable),
                     lc_dead_lettered = True, lc_eligible_for_requeue = True, lc_retry_budget_remaining = budget\<rparr>)"

section \<open>Submission, claim and completion\<close>

definition submitted :: "int \<Rightarrow> job option \<Rightarrow> job \<Rightarrow> job" where
  "submitted now existing j =
     (case existing of
        None \<Rightarrow> j\<lparr>jb_status := JS_queued, jb_attempt_count := 0, jb_current_lease_id := None, jb_claimed_by := None,
                 jb_claimed_at := None, jb_last_heartbeat_at := None, jb_cancel_requested_at := None,
                 jb_cancel_requested_by := None, jb_cancel_reason := None, jb_canceled_at := None,
                 jb_next_attempt_at := now, jb_created_at := now, jb_updated_at := now, jb_completed_at := None,
                 jb_last_error := None, jb_result := None\<rparr>
      | Some x \<Rightarrow> j\<lparr>jb_status := jb_status x, jb_attempt_count := jb_attempt_count x,
                 jb_current_lease_id := jb_current_lease_id x, jb_claimed_by := jb_claimed_by x,
                 jb_claimed_at := jb_claimed_at x, jb_last_heartbeat_at := jb_last_heartbeat_at x,
                 jb_cancel_requested_at := jb_cancel_requested_at x, jb_cancel_requested_by := jb_cancel_requested_by x,
                 jb_cancel_reason := jb_cancel_reason x, jb_canceled_at := jb_canceled_at x,
                 jb_next_attempt_at := jb_next_attempt_at x, jb_created_at := jb_created_at x,
                 jb_updated_at := now, jb_completed_at := jb_completed_at x, jb_last_error := jb_last_error x,
                 jb_result := jb_result x\<rparr>)"

definition submit_job :: "int \<Rightarrow> job \<Rightarrow> jobs \<Rightarrow> ag_error + jobs" where
  "submit_job now j c = upsertHostedExecutionJob (submitted now (getHostedExecutionJob (jb_id j) c) j) c"

definition compareDueJobs :: "job \<Rightarrow> job \<Rightarrow> int" where
  "compareDueJobs l r =
     (if jb_next_attempt_at l \<noteq> jb_next_attempt_at r then jb_next_attempt_at l - jb_next_attempt_at r
      else jb_created_at l - jb_created_at r)"

definition claimed_job :: "string \<Rightarrow> int \<Rightarrow> job \<Rightarrow> job" where
  "claimed_job inst now j =
     j\<lparr>jb_status := JS_running, jb_attempt_count := jb_attempt_count j + 1, jb_claimed_by := Some inst,
       jb_claimed_at := Some now, jb_last_heartbeat_at := Some now, jb_updated_at := now, jb_completed_at := None\<rparr>"

definition next_candidate :: "int \<Rightarrow> jobs \<Rightarrow> job option" where
  "next_candidate now c =
     js_head (js_sort compareDueJobs
       (filter (\<lambda>j. jb_next_attempt_at j \<le> now) (filter (\<lambda>j. jb_status j = JS_queued) (listHostedExecutionJobs c))))"

definition claimNextJob :: "string \<Rightarrow> int \<Rightarrow> jobs \<Rightarrow> ag_error + (job \<times> jobs) option" where
  "claimNextJob inst now c =
     (case next_candidate now c of
        None \<Rightarrow> Inr None
      | Some j \<Rightarrow>
          (case upsertHostedExecutionJob (claimed_job inst now j) c of
             Inl e \<Rightarrow> Inl e | Inr c' \<Rightarrow> Inr (Some (claimed_job inst now j, c'))))"

definition signalHeartbeat :: "int \<Rightarrow> string \<Rightarrow> jobs \<Rightarrow> ag_error + jobs" where
  "signalHeartbeat now i c =
     (case getHostedExecutionJob i c of
        None \<Rightarrow> Inr c
      | Some j \<Rightarrow>
          (if jb_status j \<noteq> JS_running \<and> jb_status j \<noteq> JS_cancel_requested then Inr c
           else upsertHostedExecutionJob (j\<lparr>jb_last_heartbeat_at := Some now, jb_updated_at := now\<rparr>) c))"

definition canceled_job :: "int \<Rightarrow> string \<Rightarrow> (string \<times> jsval) list option \<Rightarrow> job \<Rightarrow> job" where
  "canceled_job now msg details j =
     j\<lparr>jb_status := JS_canceled, jb_canceled_at := or_else (jb_canceled_at j) (Some now),
       jb_completed_at := Some now, jb_updated_at := now, jb_claimed_by := None, jb_claimed_at := None,
       jb_current_lease_id := None, jb_last_heartbeat_at := Some now, jb_result := None,
       jb_last_error := Some \<lparr>je_code = ''CONFLICT'', je_message = msg, je_retryable = False, je_details = details\<rparr>\<rparr>"

definition finish_success :: "int \<Rightarrow> exec_result \<Rightarrow> string \<Rightarrow> jobs \<Rightarrow> ag_error + jobs" where
  "finish_success now r i c =
     (case getHostedExecutionJob i c of
        None \<Rightarrow> Inr c
      | Some j \<Rightarrow>
          (if jb_status j = JS_cancel_requested then
             upsertHostedExecutionJob (canceled_job now
               ''Hosted MCP execution job was canceled before the worker result was committed.''
               (opt_details (reason_detail (jb_cancel_reason j))) j) c
           else upsertHostedExecutionJob
             (j\<lparr>jb_status := JS_succeeded, jb_result := Some r, jb_completed_at := Some (xr_completed_at r),
                jb_updated_at := xr_completed_at r, jb_claimed_by := None, jb_claimed_at := None,
                jb_last_heartbeat_at := Some (xr_completed_at r), jb_last_error := None, jb_canceled_at := None\<rparr>) c))"

definition failed_attempt :: "int \<Rightarrow> job_error \<Rightarrow> job \<Rightarrow> bool \<times> job" where
  "failed_attempt now e j =
     (let retryable = shouldRetryJob e \<and> jb_attempt_count j < jb_max_attempts j in
      (retryable,
       j\<lparr>jb_status := (if retryable then JS_queued else JS_failed),
         jb_next_attempt_at := (if retryable then nextRetryAt now (jb_attempt_count j) else jb_next_attempt_at j),
         jb_updated_at := now, jb_completed_at := (if retryable then None else Some now),
         jb_claimed_by := None, jb_claimed_at := None, jb_last_heartbeat_at := Some now,
         jb_current_lease_id := None, jb_last_error := Some (e\<lparr>je_retryable := retryable\<rparr>)\<rparr>))"

text \<open>The second component of the result is what \<open>onTerminalFailure\<close> is called with.\<close>

definition finish_failure ::
  "int \<Rightarrow> thrown \<Rightarrow> job \<Rightarrow> jobs \<Rightarrow> ag_error + (job \<times> job_error) option \<times> jobs" where
  "finish_failure now th claimed c =
     (let j = (case getHostedExecutionJob (jb_id claimed) c of None \<Rightarrow> claimed | Some x \<Rightarrow> x) in
      if jb_status j = JS_cancel_requested \<or> jb_cancel_requested_at j \<noteq> None then
        (let details = reason_detail (jb_cancel_reason j) @
               (if is_error_instance th then [(''cause'', JStr (thrown_message th))] else []) in
         case upsertHostedExecutionJob (canceled_job now ''Hosted MCP execution job was canceled during execution.''
             (opt_details details) j) c of
           Inl e \<Rightarrow> Inl e | Inr c' \<Rightarrow> Inr (None, c'))
      else
        (case failed_attempt now (toJobError th) j of (retryable, j') \<Rightarrow>
           (case upsertHostedExecutionJob j' c of
              Inl e \<Rightarrow> Inl e
            | Inr c' \<Rightarrow>
                Inr (if retryable then None
                     else Some (j\<lparr>jb_status := JS_failed, jb_updated_at := now, jb_completed_at := Some now,
                                  jb_claimed_by := None, jb_claimed_at := None, jb_last_heartbeat_at := Some now,
                                  jb_last_error := Some ((toJobError th)\<lparr>je_retryable := retryable\<rparr>)\<rparr>,
                                (toJobError th)\<lparr>je_retryable := retryable\<rparr>), c'))))"

section \<open>Start-up\<close>

definition is_stale :: "int \<Rightarrow> int \<Rightarrow> job \<Rightarrow> bool" where
  "is_stale stale_ms now j =
     (jb_status j = JS_running \<and>
      stale_ms < now - (case or_else (jb_last_heartbeat_at j) (jb_claimed_at j) of None \<Rightarrow> jb_updated_at j | Some t \<Rightarrow> t))"

definition recovered_job :: "int \<Rightarrow> job \<Rightarrow> job" where
  "recovered_job now j =
     (let retryable = jb_attempt_count j < jb_max_attempts j in
      j\<lparr>jb_status := (if retryable then JS_queued else JS_failed),
        jb_next_attempt_at := (if retryable then now else jb_next_attempt_at j), jb_updated_at := now,
        jb_completed_at := (if retryable then None else Some now), jb_claimed_by := None, jb_claimed_at := None,
        jb_last_heartbeat_at := Some now, jb_current_lease_id := None,
        jb_last_error := (if retryable
          then Some \<lparr>je_code = ''CAPABILITY_UNAVAILABLE'',
            je_message = ''Hosted execution job was re-queued after daemon restart interrupted an in-flight worker attempt.'',
            je_retryable = True, je_details = None\<rparr>
          else jb_last_error j)\<rparr>)"

definition recovery_failure :: "int \<Rightarrow> job \<Rightarrow> job \<times> job_error" where
  "recovery_failure now j =
     (j\<lparr>jb_status := JS_failed, jb_updated_at := now, jb_completed_at := Some now, jb_claimed_by := None,
        jb_claimed_at := None, jb_last_heartbeat_at := Some now\<rparr>,
      (case jb_last_error j of
         Some e \<Rightarrow> e
       | None \<Rightarrow> \<lparr>je_code = ''INTERNAL_ERROR'',
           je_message = ''Hosted execution job dead-lettered during recovery without a recorded terminal error.'',
           je_retryable = False, je_details = None\<rparr>))"

fun recover_jobs :: "int \<Rightarrow> int \<Rightarrow> job list \<Rightarrow> jobs \<Rightarrow> ag_error + (job \<times> job_error) list \<times> jobs" where
  "recover_jobs stale_ms now [] c = Inr ([], c)"
| "recover_jobs stale_ms now (j # js) c =
     (if \<not> is_stale stale_ms now j then recover_jobs stale_ms now js c
      else (case upsertHostedExecutionJob (recovered_job now j) c of
              Inl e \<Rightarrow> Inl e
            | Inr c' \<Rightarrow>
                (case recover_jobs stale_ms now js c' of
                   Inl e \<Rightarrow> Inl e
                 | Inr (failures, c'') \<Rightarrow>
                     Inr ((if jb_attempt_count j < jb_max_attempts j then [] else [recovery_failure now j]) @ failures, c''))))"

definition recoverStaleJobs :: "int \<Rightarrow> int \<Rightarrow> jobs \<Rightarrow> ag_error + (job \<times> job_error) list \<times> jobs" where
  "recoverStaleJobs stale_ms now c = recover_jobs stale_ms now (listHostedExecutionJobs c) c"

section \<open>The processing loop\<close>

definition next_wake :: "jobs \<Rightarrow> int option" where
  "next_wake c =
     js_head (js_sort (\<lambda>l r. l - r)
       (map jb_next_attempt_at (filter (\<lambda>j. jb_status j = JS_queued) (listHostedExecutionJobs c))))"

definition next_wake_delay :: "int \<Rightarrow> jobs \<Rightarrow> int option" where
  "next_wake_delay now c = map_option (\<lambda>t. max 0 (t - now)) (next_wake c)"

text \<open>A result that cannot be written is thrown inside the \<open>try\<close> and handled as a failure of the attempt.\<close>

datatype attempt_outcome = AO_result exec_result | AO_throw thrown

definition finish_attempt ::
  "int \<Rightarrow> attempt_outcome \<Rightarrow> job \<Rightarrow> jobs \<Rightarrow> ag_error + (job \<times> job_error) option \<times> jobs" where
  "finish_attempt now out j c =
     (case out of
        AO_throw th \<Rightarrow> finish_failure now th j c
      | AO_result r \<Rightarrow>
          (case finish_success now r (jb_id j) c of
             Inl e \<Rightarrow> finish_failure now (TH_agentgit e None) j c
           | Inr c' \<Rightarrow> Inr (None, c')))"

text \<open>The loop with no operator request in between: \<open>outcome n\<close> and \<open>took n\<close> are what the worker does
  with the \<open>n\<close>-th attempt and how long it takes; \<open>None\<close> is out of fuel.\<close>

fun drain ::
  "(nat \<Rightarrow> attempt_outcome) \<Rightarrow> (nat \<Rightarrow> nat) \<Rightarrow> string \<Rightarrow> nat \<Rightarrow> int \<Rightarrow> nat \<Rightarrow> jobs \<Rightarrow> (ag_error + nat \<times> jobs) option" where
  "drain outcome took inst 0 now n c = None"
| "drain outcome took inst (Suc fuel) now n c =
     (case claimNextJob inst now c of
        Inl e \<Rightarrow> Some (Inl e)
      | Inr None \<Rightarrow>
          (case next_wake_delay now c of
             None \<Rightarrow> Some (Inr (n, c))
           | Some d \<Rightarrow> drain outcome took inst fuel (now + d) n c)
      | Inr (Some (j, c')) \<Rightarrow>
          (let later = now + int (took n) in
           case finish_attempt later (outcome n) j c' of
             Inl e \<Rightarrow> Some (Inl e)
           | Inr (_, c'') \<Rightarrow> drain outcome took inst fuel later (n + 1) c''))"

end
