(* ===== verification/Queue_Samples.thy ===== *)
theory Queue_Samples
  imports Hosted_Queue
begin

text \<open>Concrete jobs and registries, on which the theorems about the hosted queue are instantiated.\<close>

definition demo_job :: "string \<Rightarrow> nat \<Rightarrow> job" where
  "demo_job i budget =
     \<lparr>jb_id = i, jb_run_id = ''run_1'', jb_action_id = ''act_1'', jb_profile_id = ''prof_1'', jb_tool_name = ''issues.create'',
      jb_dispatch = JNull, jb_status = JS_queued, jb_attempt_count = 0, jb_max_attempts = budget,
      jb_current_lease_id = Some ''lease_1'', jb_claimed_by = None, jb_claimed_at = None, jb_last_heartbeat_at = None,
      jb_cancel_requested_at = None, jb_cancel_requested_by = None, jb_cancel_reason = None, jb_canceled_at = None,
      jb_next_attempt_at = 0, jb_created_at = 0, jb_updated_at = 0, jb_completed_at = None, jb_last_error = None,
      jb_result = None\<rparr>"

definition demo_result :: exec_result where
  "demo_result = \<lparr>xr_completed_at = 90, xr_body = JStr ''ok''\<rparr>"

definition demo_refused :: thrown where
  "demo_refused = TH_error (Some ''ECONNREFUSED'') ''connect ECONNREFUSED 127.0.0.1:7070''"

text \<open>A submitted job, the same job claimed, and claimed with its cancellation requested.\<close>

definition demo_queued :: jobs where
  "demo_queued = [(''job_1'', submitted 10 None (demo_job ''job_1'' 2))]"

definition demo_claimed :: jobs where
  "demo_claimed = [(''job_1'', claimed_job ''daemon_1'' 20 (submitted 10 None (demo_job ''job_1'' 2)))]"

definition demo_cancelling :: jobs where
  "demo_cancelling = [(''job_1'', (cancel_update 30 (Some ''sess_1'') None
     (claimed_job ''daemon_1'' 20 (submitted 10 None (demo_job ''job_1'' 2))))\<lparr>jb_status := JS_cancel_requested\<rparr>)]"

definition demo_canceled :: jobs where
  "demo_canceled = [(''job_1'', canceled_job 40
     ''Hosted MCP execution job was canceled before the worker result was committed.'' None
     ((cancel_update 30 (Some ''sess_1'') None
        (claimed_job ''daemon_1'' 20 (submitted 10 None (demo_job ''job_1'' 2))))\<lparr>jb_status := JS_cancel_requested\<rparr>))]"

lemma demo_submit: "submit_job 10 (demo_job ''job_1'' 2) [] = Inr demo_queued"
  by code_simp

lemma demo_claim: "claimNextJob ''daemon_1'' 20 demo_queued = Inr (Some (snd (hd demo_claimed), demo_claimed))"
  by code_simp

lemma demo_cancel: "\<exists>r. cancelJob 30 ''job_1'' (Some ''sess_1'') None demo_claimed = Inr (r, demo_cancelling)"
proof -
  have "(case cancelJob 30 ''job_1'' (Some ''sess_1'') None demo_claimed of Inr (r, c) \<Rightarrow> c = demo_cancelling | Inl e \<Rightarrow> False)"
    by code_simp
  then show ?thesis by (auto split: sum.splits)
qed

lemma demo_finish: "finish_attempt 40 (AO_result demo_result) (snd (hd demo_claimed)) demo_cancelling = Inr (None, demo_canceled)"
  by code_simp

end
