(* ===== verification/Queue_Theorems.thy ===== *)
theory Queue_Theorems
  imports Queue_Samples
begin

text \<open>
  Properties of the hosted execution queue: the invariant of its jobs over every interleaving of
  submissions, operator requests, worker attempts and restarts; finality of success and
  cancellation; and bounds on attempts.
\<close>

section \<open>Writing a job\<close>

lemma dropWhile_idem: "dropWhile P (dropWhile P s) = dropWhile P s"
  by (induction s) auto

lemma js_trim_hd: "js_trim s \<noteq> [] \<Longrightarrow> \<not> js_space (hd (js_trim s)) \<and> \<not> js_space (last (js_trim s))"
proof -
  assume ne: "js_trim s \<noteq> []"
  define t where "t = dropWhile js_space s"
  have tr: "js_trim s = rev (dropWhile js_space (rev t))" by (simp add: js_trim_def t_def)
  with ne have last: "\<not> js_space (last (js_trim s))"
    by (metis hd_dropWhile last_rev rev.simps(1))
  obtain u where u: "t = js_trim s @ u"
    by (metis rev_append rev_rev_ident takeWhile_dropWhile_id tr)
  with ne have "hd (js_trim s) = hd t" by simp
  moreover have "t \<noteq> []" using u ne by simp
  then have "\<not> js_space (hd t)" unfolding t_def by (rule hd_dropWhile)
  ultimately show ?thesis using last by simp
qed

lemma js_trim_id: "s \<noteq> [] \<Longrightarrow> \<not> js_space (hd s) \<Longrightarrow> \<not> js_space (last s) \<Longrightarrow> js_trim s = s"
proof -
  assume s: "s \<noteq> []" "\<not> js_space (hd s)" "\<not> js_space (last s)"
  have d: "dropWhile P t = t" if "t \<noteq> []" "\<not> P (hd t)" for P and t :: string using that by (cases t) auto
  show ?thesis using s by (simp add: js_trim_def d hd_rev)
qed

lemma js_trim_idem [simp]: "js_trim (js_trim s) = js_trim s"
proof (cases "js_trim s = []")
  case True
  then show ?thesis by (simp add: js_trim_def [of "[]"])
next
  case False
  then show ?thesis using js_trim_hd [OF False] by (intro js_trim_id) simp_all
qed

lemma trim_opt_idem [simp]: "trim_opt (trim_opt v) = trim_opt v" "nonempty_opt (trim_opt v)"
  by (auto simp: trim_opt_def nonempty_opt_def split: option.splits)

lemma normalize_stable:
  "normalizeHostedExecutionJobRecord j = Inr n \<Longrightarrow> normalizeHostedExecutionJobRecord n = Inr n"
  by (auto simp: normalizeHostedExecutionJobRecord_def job_schema_ok_def split: if_splits)

text \<open>The fields a write may trim are not those the invariant is about.\<close>

lemma normalize_fields:
  assumes "normalizeHostedExecutionJobRecord j = Inr n"
  shows "jb_id n = js_trim (jb_id j)" "jb_status n = jb_status j" "jb_attempt_count n = jb_attempt_count j"
    "jb_max_attempts n = jb_max_attempts j" "jb_claimed_at n = jb_claimed_at j" "jb_completed_at n = jb_completed_at j"
    "jb_result n = jb_result j" "jb_canceled_at n = jb_canceled_at j" "jb_cancel_requested_at n = jb_cancel_requested_at j"
    "jb_last_error n = jb_last_error j" "jb_next_attempt_at n = jb_next_attempt_at j"
    "0 < jb_max_attempts n"
  using assms by (auto simp: normalizeHostedExecutionJobRecord_def job_schema_ok_def split: if_splits)

lemma upsert_cases:
  assumes "upsertHostedExecutionJob j c = Inr c'"
  obtains n where "normalizeHostedExecutionJobRecord j = Inr n" "c' = coll_put (jb_id n) n c"
  using assms by (auto simp: upsertHostedExecutionJob_def split: sum.splits)

section \<open>The invariant of a job\<close>

definition is_active :: "job_status \<Rightarrow> bool" where
  "is_active s = (s = JS_running \<or> s = JS_cancel_requested)"

definition job_core :: "job \<Rightarrow> bool" where
  "job_core j =
     ((isTerminalStatus (jb_status j) \<longleftrightarrow> jb_completed_at j \<noteq> None) \<and>
      (is_active (jb_status j) \<longleftrightarrow> jb_claimed_at j \<noteq> None) \<and>
      (jb_status j = JS_succeeded \<longleftrightarrow> jb_result j \<noteq> None) \<and>
      (jb_status j = JS_canceled \<longrightarrow> jb_canceled_at j \<noteq> None \<and> jb_last_error j \<noteq> None) \<and>
      (jb_status j = JS_cancel_requested \<longrightarrow> jb_cancel_requested_at j \<noteq> None) \<and>
      (jb_status j = JS_queued \<or> jb_status j = JS_running \<longrightarrow> jb_cancel_requested_at j = None) \<and>
      (jb_status j = JS_queued \<longrightarrow> jb_attempt_count j \<le> jb_max_attempts j) \<and>
      (is_active (jb_status j) \<or> jb_status j = JS_failed \<or> jb_status j = JS_succeeded \<longrightarrow> 0 < jb_attempt_count j) \<and>
      jb_attempt_count j \<le> jb_max_attempts j + 1 \<and>
      (jb_last_error j \<noteq> None \<longrightarrow>
         (jb_status j = JS_queued \<longrightarrow> jb_attempt_count j < jb_max_attempts j) \<and>
         (is_active (jb_status j) \<longrightarrow> jb_attempt_count j \<le> jb_max_attempts j)) \<and>
      (\<forall>e. jb_status j = JS_failed \<and> jb_last_error j = Some e \<and> shouldRetryJob e \<longrightarrow> jb_max_attempts j \<le> jb_attempt_count j))"

lemma job_core_normalize: "normalizeHostedExecutionJobRecord j = Inr n \<Longrightarrow> job_core n \<longleftrightarrow> job_core j"
  unfolding job_core_def by (simp add: normalize_fields)

definition jobs_ok :: "jobs \<Rightarrow> bool" where
  "jobs_ok c =
     (coll_ok c \<and> (\<forall>k j. coll_get k c = Some j \<longrightarrow>
        jb_id j = k \<and> normalizeHostedExecutionJobRecord j = Inr j \<and> job_core j))"

lemma jobs_okD: "jobs_ok c \<Longrightarrow> coll_get k c = Some j \<Longrightarrow> jb_id j = k \<and> normalizeHostedExecutionJobRecord j = Inr j \<and> job_core j"
  unfolding jobs_ok_def by blast

lemma jobs_ok_empty: "jobs_ok []"
  by (simp add: jobs_ok_def coll_ok_def coll_get_def)

lemma jobs_ok_get: "jobs_ok c \<Longrightarrow> getHostedExecutionJob i c = Some j \<Longrightarrow> jb_id j = js_trim i \<and> job_core j"
  by (auto simp: getHostedExecutionJob_def dest: jobs_okD)

lemma jobs_ok_upsert:
  assumes "jobs_ok c" "job_core j" "upsertHostedExecutionJob j c = Inr c'"
  shows "jobs_ok c'"
proof -
  obtain n where n: "normalizeHostedExecutionJobRecord j = Inr n" and c': "c' = coll_put (jb_id n) n c"
    using assms(3) by (rule upsert_cases)
  have "coll_ok c" using assms(1) by (simp add: jobs_ok_def)
  then show ?thesis using assms(1,2) normalize_stable [OF n] job_core_normalize [OF n]
    unfolding jobs_ok_def c' by (simp add: coll_put_ok coll_get_put)
qed

lemma get_upsert:
  assumes "jobs_ok c" "upsertHostedExecutionJob j c = Inr c'"
  obtains n where "normalizeHostedExecutionJobRecord j = Inr n"
    "\<And>k. coll_get k c' = (if k = js_trim (jb_id j) then Some n else coll_get k c)"
proof -
  obtain n where n: "normalizeHostedExecutionJobRecord j = Inr n" and c': "c' = coll_put (jb_id n) n c"
    using assms(2) by (rule upsert_cases)
  have "coll_ok c" using assms(1) by (simp add: jobs_ok_def)
  then have "coll_get k c' = (if k = js_trim (jb_id j) then Some n else coll_get k c)" for k
    by (simp add: c' coll_get_put normalize_fields(1) [OF n])
  with n show thesis by (rule that)
qed

lemma trim_stored: "jobs_ok c \<Longrightarrow> coll_get k c = Some j \<Longrightarrow> js_trim k = k"
  using jobs_okD normalize_fields(1) by metis

lemma listed: "jobs_ok c \<Longrightarrow> j \<in> set (listHostedExecutionJobs c) \<longleftrightarrow> coll_get (jb_id j) c = Some j"
proof -
  assume ok: "jobs_ok c"
  then have d: "coll_ok c" by (simp add: jobs_ok_def)
  have "(k, j) \<in> set c \<longleftrightarrow> coll_get k c = Some j" for k using coll.listing_get [OF d] .
  moreover have "j \<in> set (map snd c) \<longleftrightarrow> (\<exists>k. (k, j) \<in> set c)" by force
  ultimately have "j \<in> set (map snd c) \<longleftrightarrow> (\<exists>k. coll_get k c = Some j)" by simp
  also have "\<dots> \<longleftrightarrow> coll_get (jb_id j) c = Some j" using jobs_okD [OF ok] by blast
  finally show ?thesis by (simp add: listHostedExecutionJobs_def)
qed

section \<open>The operations keep it\<close>

lemmas job_core_simps = job_core_def is_active_def isTerminalStatus_def

lemma submitted_core: "0 < jb_max_attempts j \<Longrightarrow> job_core (submitted now None j)"
  by (simp add: submitted_def job_core_simps)

lemma claimed_core: "job_core j \<Longrightarrow> jb_status j = JS_queued \<Longrightarrow> job_core (claimed_job inst now j)"
  by (auto simp: claimed_job_def job_core_simps)

lemma heartbeat_core: "job_core (j\<lparr>jb_last_heartbeat_at := a, jb_updated_at := b\<rparr>) \<longleftrightarrow> job_core j"
  by (simp add: job_core_simps)

lemma canceled_core: "job_core j \<Longrightarrow> jb_result (canceled_job now msg d j) = None \<Longrightarrow> job_core (canceled_job now msg d j)"
  by (simp add: canceled_job_def job_core_simps or_else_def split: option.splits)

lemma shouldRetry_weaken: "shouldRetryJob (e\<lparr>je_retryable := False\<rparr>) \<Longrightarrow> shouldRetryJob e"
  by (simp add: shouldRetryJob_def)

lemma failed_attempt_core:
  "job_core j \<Longrightarrow> jb_status j = JS_running \<Longrightarrow> job_core (snd (failed_attempt now e j))"
  using shouldRetry_weaken [of e] by (auto simp: failed_attempt_def job_core_simps Let_def)

lemma recovered_core: "job_core j \<Longrightarrow> jb_status j = JS_running \<Longrightarrow> job_core (recovered_job now j)"
  by (auto simp: recovered_job_def job_core_simps Let_def)

lemma requeue_cases:
  assumes "requeueFailedJobWithOptions now i ro mo c = Inr (res, c')"
  obtains j j' where "getHostedExecutionJob i c = Some j" "jb_status j = JS_failed"
    "upsertHostedExecutionJob j' c = Inr c'" "jb_id j' = jb_id j" "jb_status j' = JS_queued"
    "jb_attempt_count j' \<le> jb_max_attempts j'" "jb_completed_at j' = None" "jb_claimed_at j' = None"
    "jb_result j' = None" "jb_cancel_requested_at j' = None" "jb_canceled_at j' = None" "jb_last_error j' = None"
  using assms
  by (auto simp: requeueFailedJobWithOptions_def Let_def not_less split: option.splits if_splits sum.splits)

lemma cancel_cases:
  assumes "cancelJob now i by_session why c = Inr (res, c')"
  obtains "c' = c"
  | j j' where "getHostedExecutionJob i c = Some j" "jb_status j \<in> {JS_queued, JS_running, JS_cancel_requested}"
    "upsertHostedExecutionJob j' c = Inr c'" "jb_id j' = jb_id j" "job_core j \<longrightarrow> job_core j'"
    "jb_status j' = (if jb_status j = JS_queued then JS_canceled else JS_cancel_requested)"
proof (cases "getHostedExecutionJob i c")
  case None
  with assms show thesis by (simp add: cancelJob_def)
next
  case (Some j)
  show thesis
  proof (cases "jb_status j \<in> {JS_queued, JS_running, JS_cancel_requested}")
    case False
    with Some assms that(1) show thesis by (simp add: cancelJob_def)
  next
    case True
    then obtain j' where "upsertHostedExecutionJob j' c = Inr c'" "jb_id j' = jb_id j" "job_core j \<longrightarrow> job_core j'"
      "jb_status j' = (if jb_status j = JS_queued then JS_canceled else JS_cancel_requested)"
      using Some assms
      by (auto simp: cancelJob_def cancel_update_def Let_def job_core_simps or_else_def split: sum.splits if_splits option.splits)
    with Some True that(2) show thesis by blast
  qed
qed

section \<open>The life of a job\<close>

text \<open>The specification the queue refines: which status may follow which. Success and cancellation are
  final; a failed job leaves its state only for the queue.\<close>

definition lifecycle_edges :: "(job_status \<times> job_status) set" where
  "lifecycle_edges =
     {(JS_queued, JS_running), (JS_queued, JS_canceled), (JS_running, JS_running), (JS_running, JS_cancel_requested),
      (JS_running, JS_succeeded), (JS_running, JS_queued), (JS_running, JS_failed),
      (JS_cancel_requested, JS_cancel_requested), (JS_cancel_requested, JS_canceled), (JS_failed, JS_queued)}"

definition lifecycle_step :: "job option \<Rightarrow> job option \<Rightarrow> bool" where
  "lifecycle_step a b =
     (a = b \<or> (case (a, b) of
        (None, Some y) \<Rightarrow> jb_status y = JS_queued
      | (Some x, Some y) \<Rightarrow> (jb_status x, jb_status y) \<in> lifecycle_edges
      | _ \<Rightarrow> False))"

definition lifecycle_sim :: "jobs \<Rightarrow> jobs \<Rightarrow> bool" where
  "lifecycle_sim c c' = (\<forall>k. lifecycle_step (coll_get k c) (coll_get k c'))"

lemma lifecycle_sim_refl: "lifecycle_sim c c"
  by (simp add: lifecycle_sim_def lifecycle_step_def)

lemma upsert_sim:
  assumes "jobs_ok c" "upsertHostedExecutionJob j' c = Inr c'"
    and "case coll_get (js_trim (jb_id j')) c of None \<Rightarrow> jb_status j' = JS_queued
         | Some j \<Rightarrow> (jb_status j, jb_status j') \<in> lifecycle_edges"
  shows "lifecycle_sim c c'"
proof -
  obtain n where n: "normalizeHostedExecutionJobRecord j' = Inr n"
    and get: "\<And>k. coll_get k c' = (if k = js_trim (jb_id j') then Some n else coll_get k c)"
    using assms(1,2) by (rule get_upsert) blast
  show ?thesis using assms(3) normalize_fields(2) [OF n]
    by (auto simp: lifecycle_sim_def lifecycle_step_def get split: option.splits)
qed

lemma upsert_stored:
  assumes "jobs_ok c" "coll_get k c = Some j" "jb_id j' = jb_id j" "job_core j'"
    "upsertHostedExecutionJob j' c = Inr c'" "(jb_status j, jb_status j') \<in> lifecycle_edges"
  shows "jobs_ok c' \<and> lifecycle_sim c c' \<and>
    (\<forall>q. q \<noteq> k \<longrightarrow> coll_get q c' = coll_get q c) \<and>
    (\<exists>n. coll_get k c' = Some n \<and> jb_status n = jb_status j' \<and> jb_attempt_count n = jb_attempt_count j' \<and>
       jb_max_attempts n = jb_max_attempts j')"
proof -
  have id: "js_trim (jb_id j') = k" using trim_stored [OF assms(1,2)] jobs_okD [OF assms(1,2)] assms(3) by simp
  obtain n where n: "normalizeHostedExecutionJobRecord j' = Inr n"
    and get: "\<And>q. coll_get q c' = (if q = js_trim (jb_id j') then Some n else coll_get q c)"
    using assms(1,5) by (rule get_upsert) blast
  show ?thesis using jobs_ok_upsert [OF assms(1,4,5)] upsert_sim [OF assms(1,5)] get id normalize_fields [OF n] assms(2,6)
    by simp
qed

text \<open>A completed attempt leaves a job that was running or being cancelled in a state the lifecycle
  allows; only this job changes.\<close>

definition attempt_target :: "int \<Rightarrow> attempt_outcome \<Rightarrow> job \<Rightarrow> job" where
  "attempt_target now out j =
     (case out of
        AO_result r \<Rightarrow>
          (if jb_status j = JS_cancel_requested
           then canceled_job now ''Hosted MCP execution job was canceled before the worker result was committed.''
             (opt_details (reason_detail (jb_cancel_reason j))) j
           else j\<lparr>jb_status := JS_succeeded, jb_result := Some r, jb_completed_at := Some (xr_completed_at r),
                jb_updated_at := xr_completed_at r, jb_claimed_by := None, jb_claimed_at := None,
                jb_last_heartbeat_at := Some (xr_completed_at r), jb_last_error := None, jb_canceled_at := None\<rparr>)
      | AO_throw th \<Rightarrow>
          (if jb_status j = JS_cancel_requested
           then canceled_job now ''Hosted MCP execution job was canceled during execution.''
             (opt_details (reason_detail (jb_cancel_reason j) @
               (if is_error_instance th then [(''cause'', JStr (thrown_message th))] else []))) j
           else snd (failed_attempt now (toJobError th) j)))"

lemma canceled_sel [simp]:
  "jb_status (canceled_job now msg d j) = JS_canceled" "jb_id (canceled_job now msg d j) = jb_id j"
  "jb_attempt_count (canceled_job now msg d j) = jb_attempt_count j"
  "jb_max_attempts (canceled_job now msg d j) = jb_max_attempts j" "jb_result (canceled_job now msg d j) = None"
  by (simp_all add: canceled_job_def)

lemma failed_attempt_sel [simp]:
  "jb_id (snd (failed_attempt now e j)) = jb_id j"
  "jb_attempt_count (snd (failed_attempt now e j)) = jb_attempt_count j"
  "jb_max_attempts (snd (failed_attempt now e j)) = jb_max_attempts j"
  "jb_status (snd (failed_attempt now e j)) =
     (if shouldRetryJob e \<and> jb_attempt_count j < jb_max_attempts j then JS_queued else JS_failed)"
  by (simp_all add: failed_attempt_def Let_def)

lemma succeeded_core:
  "job_core j \<Longrightarrow> is_active (jb_status j) \<Longrightarrow>
     job_core (j\<lparr>jb_status := JS_succeeded, jb_result := Some r, jb_completed_at := Some t1, jb_updated_at := t2,
       jb_claimed_by := None, jb_claimed_at := None, jb_last_heartbeat_at := h, jb_last_error := None, jb_canceled_at := None\<rparr>)"
  by (auto simp: job_core_simps)

lemma attempt_target_facts:
  assumes "job_core j" "is_active (jb_status j)"
  shows "job_core (attempt_target now out j)" "jb_id (attempt_target now out j) = jb_id j"
    "(jb_status j, jb_status (attempt_target now out j)) \<in> lifecycle_edges"
    "\<not> is_active (jb_status (attempt_target now out j))"
    "jb_attempt_count (attempt_target now out j) = jb_attempt_count j"
    "jb_max_attempts (attempt_target now out j) = jb_max_attempts j"
    "jb_status (attempt_target now out j) = JS_queued \<Longrightarrow> jb_attempt_count j < jb_max_attempts j"
proof -
  consider "jb_status j = JS_running" | "jb_status j = JS_cancel_requested"
    using assms(2) by (auto simp: is_active_def)
  note st = this
  show "job_core (attempt_target now out j)"
    using assms canceled_core [OF assms(1)] failed_attempt_core [OF assms(1)] succeeded_core [OF assms]
    by (cases rule: st; cases out) (simp_all add: attempt_target_def)
  show "jb_id (attempt_target now out j) = jb_id j"
    "(jb_status j, jb_status (attempt_target now out j)) \<in> lifecycle_edges"
    "\<not> is_active (jb_status (attempt_target now out j))"
    "jb_attempt_count (attempt_target now out j) = jb_attempt_count j"
    "jb_max_attempts (attempt_target now out j) = jb_max_attempts j"
    by (cases rule: st; cases out; simp add: attempt_target_def lifecycle_edges_def is_active_def)+
  show "jb_status (attempt_target now out j) = JS_queued \<Longrightarrow> jb_attempt_count j < jb_max_attempts j"
    by (cases rule: st; cases out) (simp_all add: attempt_target_def split: if_splits)
qed

text \<open>A job taken from the registry and changed only in what an attempt sets can be written back.\<close>

definition same_identity :: "job \<Rightarrow> job \<Rightarrow> bool" where
  "same_identity j j' =
     (jb_id j' = jb_id j \<and> jb_run_id j' = jb_run_id j \<and> jb_action_id j' = jb_action_id j \<and>
      jb_profile_id j' = jb_profile_id j \<and> jb_tool_name j' = jb_tool_name j \<and> jb_max_attempts j' = jb_max_attempts j \<and>
      jb_cancel_requested_by j' = jb_cancel_requested_by j \<and> jb_cancel_reason j' = jb_cancel_reason j \<and>
      (jb_current_lease_id j' = jb_current_lease_id j \<or> jb_current_lease_id j' = None))"

lemma normalize_accepts:
  assumes "normalizeHostedExecutionJobRecord j = Inr j" "same_identity j j'" "nonempty_opt (jb_claimed_by j')"
    "\<And>e. jb_last_error j' = Some e \<Longrightarrow> je_code e \<noteq> [] \<and> je_message e \<noteq> []"
  shows "\<exists>n. normalizeHostedExecutionJobRecord j' = Inr n"
  using assms
  by (auto simp: normalizeHostedExecutionJobRecord_def job_schema_ok_def same_identity_def nonempty_opt_def
      split: if_splits option.splits)

lemma stored_errors: "normalizeHostedExecutionJobRecord j = Inr n \<Longrightarrow> jb_last_error j = Some e \<Longrightarrow> je_code e \<noteq> [] \<and> je_message e \<noteq> []"
  by (simp add: normalizeHostedExecutionJobRecord_def job_schema_ok_def split: if_splits)

lemma stored_claimed_by: "normalizeHostedExecutionJobRecord j = Inr n \<Longrightarrow> nonempty_opt (jb_claimed_by j)"
  by (simp add: normalizeHostedExecutionJobRecord_def job_schema_ok_def split: if_splits)

lemma toJobError_wf:
  assumes "thrown_message th \<noteq> []"
  shows "je_code (toJobError th) \<noteq> [] \<and> je_message (toJobError th) \<noteq> []"
proof -
  have "error_code_name c \<noteq> []" for c by (cases c) simp_all
  then show ?thesis using assms
    by (cases th) (auto simp: toJobError_def plain_job_error_def Let_def split: option.splits)
qed

lemma attempt_target_accepted:
  assumes "normalizeHostedExecutionJobRecord j = Inr j" "\<And>th. out = AO_throw th \<Longrightarrow> thrown_message th \<noteq> []"
  shows "\<exists>n. normalizeHostedExecutionJobRecord (attempt_target now out j) = Inr n"
proof (rule normalize_accepts [OF assms(1)])
  show "same_identity j (attempt_target now out j)"
    by (cases out) (simp_all add: attempt_target_def same_identity_def canceled_job_def failed_attempt_def Let_def)
  show "nonempty_opt (jb_claimed_by (attempt_target now out j))"
    by (cases out) (simp_all add: attempt_target_def canceled_job_def failed_attempt_def Let_def nonempty_opt_def)
  show "je_code e \<noteq> [] \<and> je_message e \<noteq> []" if "jb_last_error (attempt_target now out j) = Some e" for e
  proof (cases out)
    case (AO_result r)
    with that show ?thesis by (auto simp: attempt_target_def canceled_job_def split: if_splits)
  next
    case (AO_throw th)
    with that toJobError_wf [OF assms(2) [OF AO_throw]] show ?thesis
      by (auto simp: attempt_target_def canceled_job_def failed_attempt_def Let_def split: if_splits)
  qed
qed

lemma finish_attempt_target:
  assumes "jobs_ok c" "coll_get (jb_id a) c = Some j" "is_active (jb_status j)" "finish_attempt now out a c = Inr (f, c')"
  shows "upsertHostedExecutionJob (attempt_target now out j) c = Inr c'"
proof -
  have get: "getHostedExecutionJob (jb_id a) c = Some j"
    using trim_stored [OF assms(1,2)] assms(2) by (simp add: getHostedExecutionJob_def)
  have "job_core j" using jobs_okD [OF assms(1,2)] by simp
  then have "jb_status j = JS_running \<and> jb_cancel_requested_at j = None \<or> jb_status j = JS_cancel_requested"
    using assms(3) by (auto simp: job_core_simps)
  then have case_success: "finish_success now r (jb_id a) c = upsertHostedExecutionJob (attempt_target now (AO_result r) j) c"
    and case_failure: "\<exists>g. finish_failure now th a c = map_sum id (Pair g) (upsertHostedExecutionJob (attempt_target now (AO_throw th) j) c)" for r th
    using get by (auto simp: finish_success_def finish_failure_def attempt_target_def Let_def split: sum.splits prod.splits)
  show ?thesis
  proof (cases out)
    case (AO_result r)
    obtain n where "normalizeHostedExecutionJobRecord (attempt_target now (AO_result r) j) = Inr n"
      using attempt_target_accepted [of j "AO_result r"] jobs_okD [OF assms(1,2)] by auto
    then show ?thesis using assms(4) AO_result
      by (auto simp: finish_attempt_def case_success upsertHostedExecutionJob_def)
  next
    case (AO_throw th)
    obtain g where "finish_failure now th a c = map_sum id (Pair g) (upsertHostedExecutionJob (attempt_target now (AO_throw th) j) c)"
      using case_failure by blast
    with assms(4) AO_throw show ?thesis
      by (cases "upsertHostedExecutionJob (attempt_target now (AO_throw th) j) c") (auto simp: finish_attempt_def)
  qed
qed

section \<open>Steps\<close>

text \<open>\<open>hq_active\<close> is the job whose attempt the loop awaits. \<open>lost\<close> is an attempt whose outcome could not
  be written: the loop ends with the error and the registry keeps the job as it was. \<open>restart\<close> is a
  new process with the same registry.\<close>

record hq =
  hq_jobs :: jobs
  hq_active :: "job option"
  hq_failures :: "(job \<times> job_error) list"

definition empty_hq :: hq where
  "empty_hq = \<lparr>hq_jobs = [], hq_active = None, hq_failures = []\<rparr>"

inductive queue_step :: "string \<Rightarrow> int \<Rightarrow> hq \<Rightarrow> hq \<Rightarrow> bool" for inst stale_ms where
  submit: "getHostedExecutionJob (jb_id j) (hq_jobs s) = None \<Longrightarrow> submit_job now j (hq_jobs s) = Inr c \<Longrightarrow>
     queue_step inst stale_ms s (s\<lparr>hq_jobs := c\<rparr>)"
| requeue: "requeueFailedJobWithOptions now i ro mo (hq_jobs s) = Inr (res, c) \<Longrightarrow>
     queue_step inst stale_ms s (s\<lparr>hq_jobs := c\<rparr>)"
| cancel: "cancelJob now i by_session why (hq_jobs s) = Inr (cn, c) \<Longrightarrow>
     queue_step inst stale_ms s (s\<lparr>hq_jobs := c\<rparr>)"
| claim: "hq_active s = None \<Longrightarrow> claimNextJob inst now (hq_jobs s) = Inr (Some (j, c)) \<Longrightarrow>
     queue_step inst stale_ms s (s\<lparr>hq_jobs := c, hq_active := Some j\<rparr>)"
| heartbeat: "hq_active s = Some j \<Longrightarrow> signalHeartbeat now (jb_id j) (hq_jobs s) = Inr c \<Longrightarrow>
     queue_step inst stale_ms s (s\<lparr>hq_jobs := c\<rparr>)"
| finish: "hq_active s = Some j \<Longrightarrow> finish_attempt now out j (hq_jobs s) = Inr (f, c) \<Longrightarrow>
     queue_step inst stale_ms s (s\<lparr>hq_jobs := c, hq_active := None,
       hq_failures := hq_failures s @ (case f of None \<Rightarrow> [] | Some x \<Rightarrow> [x])\<rparr>)"
| lost: "hq_active s = Some j \<Longrightarrow> finish_attempt now out j (hq_jobs s) = Inl e \<Longrightarrow>
     queue_step inst stale_ms s (s\<lparr>hq_active := None\<rparr>)"
| restart: "recoverStaleJobs stale_ms now (hq_jobs s) = Inr (fs, c) \<Longrightarrow>
     queue_step inst stale_ms s (s\<lparr>hq_jobs := c, hq_active := None, hq_failures := hq_failures s @ fs\<rparr>)"

inductive queue_reachable :: "string \<Rightarrow> int \<Rightarrow> hq \<Rightarrow> bool" for inst stale_ms where
  start: "queue_reachable inst stale_ms empty_hq"
| step: "queue_reachable inst stale_ms s \<Longrightarrow> queue_step inst stale_ms s s' \<Longrightarrow> queue_reachable inst stale_ms s'"

definition hq_ok :: "hq \<Rightarrow> bool" where
  "hq_ok s =
     (jobs_ok (hq_jobs s) \<and>
      (case hq_active s of None \<Rightarrow> True
       | Some a \<Rightarrow> \<exists>j. coll_get (jb_id a) (hq_jobs s) = Some j \<and> is_active (jb_status j)))"

lemma lifecycle_edges_active: "(a, b) \<in> lifecycle_edges \<Longrightarrow> is_active a \<longleftrightarrow> \<not> is_active b \<Longrightarrow>
    (a = JS_queued \<or> is_active a) "
  by (auto simp: lifecycle_edges_def is_active_def)

lemma next_candidate_facts:
  assumes "jobs_ok c" "next_candidate now c = Some j"
  shows "coll_get (jb_id j) c = Some j" "jb_status j = JS_queued" "jb_next_attempt_at j \<le> now"
proof -
  have "j \<in> set (listHostedExecutionJobs c) \<and> jb_status j = JS_queued \<and> jb_next_attempt_at j \<le> now"
    using js_head_in [OF assms(2) [unfolded next_candidate_def]] by simp
  then show "coll_get (jb_id j) c = Some j" "jb_status j = JS_queued" "jb_next_attempt_at j \<le> now"
    using listed [OF assms(1)] by auto
qed

lemma claim_facts:
  assumes "jobs_ok c" "claimNextJob inst now c = Inr (Some (a, c'))"
  shows "\<exists>j n. next_candidate now c = Some j \<and> jb_id a = jb_id j \<and> jobs_ok c' \<and> lifecycle_sim c c' \<and>
    (\<forall>q. coll_get q c' = (if q = jb_id j then Some n else coll_get q c)) \<and>
    jb_status n = JS_running \<and> jb_attempt_count n = jb_attempt_count j + 1 \<and> jb_max_attempts n = jb_max_attempts j"
proof -
  obtain j where j: "next_candidate now c = Some j" "a = claimed_job inst now j"
    "upsertHostedExecutionJob (claimed_job inst now j) c = Inr c'"
    using assms(2) by (auto simp: claimNextJob_def split: option.splits sum.splits)
  note cand = next_candidate_facts [OF assms(1) j(1)]
  have core: "job_core (claimed_job inst now j)"
    using claimed_core jobs_okD [OF assms(1) cand(1)] cand(2) by simp
  have sel: "jb_id (claimed_job inst now j) = jb_id j" "jb_status (claimed_job inst now j) = JS_running"
    "jb_attempt_count (claimed_job inst now j) = jb_attempt_count j + 1"
    "jb_max_attempts (claimed_job inst now j) = jb_max_attempts j"
    by (simp_all add: claimed_job_def)
  note up = upsert_stored [OF assms(1) cand(1) sel(1) core j(3)]
  have "(jb_status j, jb_status (claimed_job inst now j)) \<in> lifecycle_edges"
    by (simp add: sel cand(2) lifecycle_edges_def)
  note up = up [OF this]
  then obtain n where n: "coll_get (jb_id j) c' = Some n" "jb_status n = JS_running"
    "jb_attempt_count n = jb_attempt_count j + 1" "jb_max_attempts n = jb_max_attempts j" by (auto simp: sel)
  have "coll_get q c' = (if q = jb_id j then Some n else coll_get q c)" for q using up n(1) by simp
  then have "\<forall>q. coll_get q c' = (if q = jb_id j then Some n else coll_get q c)" by blast
  moreover have "jb_id a = jb_id j" using j(2) sel(1) by simp
  ultimately show ?thesis using up n(2-4) j(1) by blast
qed

lemma find_fresh: "k \<notin> f ` set js \<Longrightarrow> find (\<lambda>x. f x = k) js = None"
  by (induction js) auto

lemma recover_jobs_facts:
  assumes "jobs_ok c" "distinct (map jb_id js)" "\<forall>j \<in> set js. coll_get (jb_id j) c = Some j"
    and "recover_jobs stale_ms now js c = Inr (fs, c')"
  shows "jobs_ok c' \<and> (\<forall>k. case find (\<lambda>j. jb_id j = k) js of
      None \<Rightarrow> coll_get k c' = coll_get k c
    | Some j \<Rightarrow> if is_stale stale_ms now j
        then \<exists>n. normalizeHostedExecutionJobRecord (recovered_job now j) = Inr n \<and> coll_get k c' = Some n
        else coll_get k c' = coll_get k c)"
  using assms
proof (induction js arbitrary: c fs)
  case (Cons j js)
  show ?case
  proof (cases "is_stale stale_ms now j")
    case False
    with Cons.prems have "recover_jobs stale_ms now js c = Inr (fs, c')" by simp
    note IH = Cons.IH [OF Cons.prems(1) _ _ this]
    have fresh: "find (\<lambda>x. jb_id x = jb_id j) js = None" using Cons.prems(2) by (simp add: find_fresh)
    have ih: "jobs_ok c' \<and> (\<forall>k. case find (\<lambda>j. jb_id j = k) js of
      None \<Rightarrow> coll_get k c' = coll_get k c
    | Some j \<Rightarrow> if is_stale stale_ms now j
        then \<exists>n. normalizeHostedExecutionJobRecord (recovered_job now j) = Inr n \<and> coll_get k c' = Some n
        else coll_get k c' = coll_get k c)" (is "_ \<and> (\<forall>k. ?P k)")
      using Cons.prems(2,3) by (intro IH) simp_all
    have "?P (jb_id j)" using ih by blast
    with fresh have own: "coll_get (jb_id j) c' = coll_get (jb_id j) c" by simp
    show ?thesis
    proof (intro conjI allI)
      show "jobs_ok c'" using ih by blast
      fix k
      have "?P k" using ih by blast
      then show "case find (\<lambda>j. jb_id j = k) (j # js) of
          None \<Rightarrow> coll_get k c' = coll_get k c
        | Some j \<Rightarrow> if is_stale stale_ms now j
            then \<exists>n. normalizeHostedExecutionJobRecord (recovered_job now j) = Inr n \<and> coll_get k c' = Some n
            else coll_get k c' = coll_get k c"
        using own False by (cases "jb_id j = k") simp_all
    qed
  next
    case True
    obtain c1 fs1 where c1: "upsertHostedExecutionJob (recovered_job now j) c = Inr c1"
      and rest: "recover_jobs stale_ms now js c1 = Inr (fs1, c')"
      using Cons.prems(4) True by (auto split: sum.splits)
    have stored: "coll_get (jb_id j) c = Some j" using Cons.prems(3) by simp
    have running: "jb_status j = JS_running" using True by (simp add: is_stale_def)
    have id: "jb_id (recovered_job now j) = jb_id j" by (simp add: recovered_job_def Let_def)
    have core: "job_core (recovered_job now j)"
      using recovered_core running jobs_okD [OF Cons.prems(1) stored] by simp
    obtain n where n: "normalizeHostedExecutionJobRecord (recovered_job now j) = Inr n"
      and get: "\<And>k. coll_get k c1 = (if k = js_trim (jb_id (recovered_job now j)) then Some n else coll_get k c)"
      using Cons.prems(1) c1 by (rule get_upsert) blast
    have get: "coll_get k c1 = (if k = jb_id j then Some n else coll_get k c)" for k
      using get trim_stored [OF Cons.prems(1) stored] id by simp
    have rest_stored: "\<forall>x \<in> set js. coll_get (jb_id x) c1 = Some x"
    proof
      fix x
      assume x: "x \<in> set js"
      have "jb_id j \<notin> jb_id ` set js" using Cons.prems(2) by simp
      moreover have "jb_id x \<in> jb_id ` set js" using x by (rule imageI)
      ultimately have "jb_id x \<noteq> jb_id j" by metis
      with get [of "jb_id x"] x Cons.prems(3) show "coll_get (jb_id x) c1 = Some x" by simp
    qed
    have fresh: "find (\<lambda>x. jb_id x = jb_id j) js = None" using Cons.prems(2) by (simp add: find_fresh)
    have ih: "jobs_ok c' \<and> (\<forall>k. case find (\<lambda>j. jb_id j = k) js of
      None \<Rightarrow> coll_get k c' = coll_get k c1
    | Some j \<Rightarrow> if is_stale stale_ms now j
        then \<exists>n. normalizeHostedExecutionJobRecord (recovered_job now j) = Inr n \<and> coll_get k c' = Some n
        else coll_get k c' = coll_get k c1)" (is "_ \<and> (\<forall>k. ?P k)")
      using Cons.prems(2) by (intro Cons.IH [OF jobs_ok_upsert [OF Cons.prems(1) core c1] _ rest_stored rest]) simp
    have "?P (jb_id j)" using ih by blast
    with fresh get [of "jb_id j"] have own: "coll_get (jb_id j) c' = Some n" by simp
    show ?thesis
    proof (intro conjI allI)
      show "jobs_ok c'" using ih by blast
      fix k
      have "?P k" using ih by blast
      then show "case find (\<lambda>j. jb_id j = k) (j # js) of
          None \<Rightarrow> coll_get k c' = coll_get k c
        | Some j \<Rightarrow> if is_stale stale_ms now j
            then \<exists>n. normalizeHostedExecutionJobRecord (recovered_job now j) = Inr n \<and> coll_get k c' = Some n
            else coll_get k c' = coll_get k c"
        using own True n get [of k] by (cases "jb_id j = k") (simp_all split: option.splits)
    qed
  qed
qed simp

lemma recoverStaleJobs_facts:
  assumes "jobs_ok c" "recoverStaleJobs stale_ms now c = Inr (fs, c')"
  shows "jobs_ok c' \<and> lifecycle_sim c c'"
proof -
  have cok: "coll_ok c" using assms(1) by (simp add: jobs_ok_def)
  have "map fst c = map jb_id (listHostedExecutionJobs c)"
    using coll.listing_get [OF cok] jobs_okD [OF assms(1)] by (auto simp: listHostedExecutionJobs_def)
  with coll_ok_distinct [OF cok] have dist: "distinct (map jb_id (listHostedExecutionJobs c))" by simp
  have all: "\<forall>j \<in> set (listHostedExecutionJobs c). coll_get (jb_id j) c = Some j" using listed [OF assms(1)] by blast
  note facts = recover_jobs_facts [OF assms(1) dist all assms(2) [unfolded recoverStaleJobs_def]]
  note at = spec [OF conjunct2 [OF facts]]
  have "lifecycle_step (coll_get k c) (coll_get k c')" for k
  proof (cases "find (\<lambda>j. jb_id j = k) (listHostedExecutionJobs c)")
    case None
    with at [of k] have "coll_get k c' = coll_get k c" by simp
    then show ?thesis by (simp add: lifecycle_step_def)
  next
    case (Some j)
    then have "j \<in> set (listHostedExecutionJobs c)" "jb_id j = k" by (auto simp: find_Some_iff in_set_conv_nth)
    with all have j: "coll_get k c = Some j" by auto
    show ?thesis
    proof (cases "is_stale stale_ms now j")
      case False
      with at [of k] Some have "coll_get k c' = coll_get k c" by simp
      then show ?thesis by (simp add: lifecycle_step_def)
    next
      case True
      with at [of k] Some obtain n where "normalizeHostedExecutionJobRecord (recovered_job now j) = Inr n" "coll_get k c' = Some n"
        by auto
      moreover have "jb_status (recovered_job now j) \<in> {JS_queued, JS_failed}" by (simp add: recovered_job_def Let_def)
      ultimately show ?thesis using j True
        by (auto simp: lifecycle_step_def normalize_fields lifecycle_edges_def is_stale_def)
    qed
  qed
  with facts show ?thesis by (simp add: lifecycle_sim_def)
qed

lemma requeue_facts:
  assumes "jobs_ok c" "requeueFailedJobWithOptions now i ro mo c = Inr (res, c')"
  shows "jobs_ok c' \<and> lifecycle_sim c c'"
  using assms(2)
proof (rule requeue_cases)
  fix j j'
  assume r: "getHostedExecutionJob i c = Some j" "jb_status j = JS_failed" "upsertHostedExecutionJob j' c = Inr c'"
    "jb_id j' = jb_id j" "jb_status j' = JS_queued" "jb_attempt_count j' \<le> jb_max_attempts j'" "jb_completed_at j' = None"
    "jb_claimed_at j' = None" "jb_result j' = None" "jb_cancel_requested_at j' = None" "jb_canceled_at j' = None" "jb_last_error j' = None"
  have get: "coll_get (js_trim i) c = Some j" using r(1) by (simp add: getHostedExecutionJob_def)
  have "job_core j'" using r by (simp add: job_core_simps)
  moreover have "(jb_status j, jb_status j') \<in> lifecycle_edges" using r by (simp add: lifecycle_edges_def)
  ultimately show ?thesis using upsert_stored [OF assms(1) get r(4) _ r(3)] by blast
qed

lemma cancel_facts:
  assumes "jobs_ok c" "cancelJob now i by_session why c = Inr (res, c')"
  shows "jobs_ok c' \<and> lifecycle_sim c c'"
  using assms(2)
proof (cases rule: cancel_cases)
  case 1
  with assms(1) show ?thesis by (simp add: lifecycle_sim_refl)
next
  case (2 j j')
  have get: "coll_get (js_trim i) c = Some j" using 2(1) by (simp add: getHostedExecutionJob_def)
  have "job_core j'" using 2(5) jobs_okD [OF assms(1) get] by simp
  moreover have "(jb_status j, jb_status j') \<in> lifecycle_edges" using 2(2,6) by (auto simp: lifecycle_edges_def)
  ultimately show ?thesis using upsert_stored [OF assms(1) get 2(4) _ 2(3)] by blast
qed

lemma submit_facts:
  assumes "jobs_ok c" "getHostedExecutionJob (jb_id j) c = None" "submit_job now j c = Inr c'"
  shows "jobs_ok c' \<and> lifecycle_sim c c'"
proof -
  have up: "upsertHostedExecutionJob (submitted now None j) c = Inr c'" using assms(2,3) by (simp add: submit_job_def)
  then obtain n where "normalizeHostedExecutionJobRecord (submitted now None j) = Inr n" by (rule upsert_cases)
  from normalize_fields(4,12) [OF this] have "0 < jb_max_attempts j" by (simp add: submitted_def)
  then have "job_core (submitted now None j)" by (rule submitted_core)
  then show ?thesis using jobs_ok_upsert [OF assms(1) _ up] upsert_sim [OF assms(1) up] assms(2)
    by (simp add: submitted_def getHostedExecutionJob_def)
qed

lemma heartbeat_facts:
  assumes "jobs_ok c" "signalHeartbeat now i c = Inr c'"
  shows "jobs_ok c' \<and> lifecycle_sim c c'"
proof (cases "c' = c")
  case True
  with assms(1) show ?thesis by (simp add: lifecycle_sim_refl)
next
  case False
  then obtain j where get: "coll_get (js_trim i) c = Some j" and act: "is_active (jb_status j)"
    and up: "upsertHostedExecutionJob (j\<lparr>jb_last_heartbeat_at := Some now, jb_updated_at := now\<rparr>) c = Inr c'"
    using assms(2) by (auto simp: signalHeartbeat_def getHostedExecutionJob_def is_active_def split: option.splits if_splits)
  have "job_core (j\<lparr>jb_last_heartbeat_at := Some now, jb_updated_at := now\<rparr>)"
    using jobs_okD [OF assms(1) get] by (simp add: heartbeat_core)
  moreover have "(jb_status j, jb_status j) \<in> lifecycle_edges" using act by (auto simp: is_active_def lifecycle_edges_def)
  ultimately show ?thesis using upsert_stored [OF assms(1) get _ _ up] by simp
qed

lemma finish_facts:
  assumes "jobs_ok c" "coll_get (jb_id a) c = Some j" "is_active (jb_status j)" "finish_attempt now out a c = Inr (f, c')"
  shows "jobs_ok c' \<and> lifecycle_sim c c' \<and> (\<forall>q. q \<noteq> jb_id a \<longrightarrow> coll_get q c' = coll_get q c) \<and>
    (\<exists>n. coll_get (jb_id a) c' = Some n \<and> jb_status n = jb_status (attempt_target now out j) \<and>
       jb_attempt_count n = jb_attempt_count j \<and> jb_max_attempts n = jb_max_attempts j)"
proof -
  have core: "job_core j" using jobs_okD [OF assms(1,2)] by simp
  note t = attempt_target_facts [OF core assms(3), of now out]
  show ?thesis using upsert_stored [OF assms(1,2) t(2,1) finish_attempt_target [OF assms] t(3)] by (simp add: t(5,6))
qed

text \<open>While an attempt runs, nothing but its completion takes its job out of the active states.\<close>

lemma active_kept:
  assumes "lifecycle_sim c c'" "coll_get k c = Some j" "is_active (jb_status j)"
    and "\<And>n. coll_get k c' = Some n \<Longrightarrow> jb_status n \<notin> {JS_succeeded, JS_queued, JS_failed, JS_canceled}"
  shows "\<exists>n. coll_get k c' = Some n \<and> is_active (jb_status n)"
proof -
  have "lifecycle_step (Some j) (coll_get k c')" using assms(1,2) by (metis lifecycle_sim_def)
  then obtain n where "coll_get k c' = Some n" by (auto simp: lifecycle_step_def split: option.splits)
  with assms(4) [OF this] show ?thesis by (cases "jb_status n") (auto simp: is_active_def)
qed

text \<open>What a step of the loop or of an operator does to a job that some attempt holds.\<close>

definition holds_active :: "jobs \<Rightarrow> job option \<Rightarrow> bool" where
  "holds_active c a =
     (case a of None \<Rightarrow> True | Some a \<Rightarrow> \<exists>j. coll_get (jb_id a) c = Some j \<and> is_active (jb_status j))"

lemma hq_ok_iff: "hq_ok s \<longleftrightarrow> jobs_ok (hq_jobs s) \<and> holds_active (hq_jobs s) (hq_active s)"
  by (simp add: hq_ok_def holds_active_def split: option.splits)

lemma holds_active_put:
  assumes "holds_active c a" "\<And>q. coll_get q c' = (if q = k then Some n else coll_get q c)"
    and "\<And>j. coll_get k c = Some j \<Longrightarrow> is_active (jb_status j) \<Longrightarrow> is_active (jb_status n)"
  shows "holds_active c' a"
proof (cases a)
  case (Some x)
  with assms(1) obtain j where j: "coll_get (jb_id x) c = Some j" "is_active (jb_status j)" by (auto simp: holds_active_def)
  show ?thesis
  proof (cases "jb_id x = k")
    case True
    with assms(2) [of k] assms(3) [of j] j Some show ?thesis by (simp add: holds_active_def)
  next
    case False
    with assms(2) [of "jb_id x"] j Some show ?thesis by (simp add: holds_active_def)
  qed
qed (simp add: holds_active_def)

lemma holds_active_upsert:
  assumes "jobs_ok c" "holds_active c a" "upsertHostedExecutionJob j' c = Inr c'"
    and "\<And>j. coll_get (js_trim (jb_id j')) c = Some j \<Longrightarrow> is_active (jb_status j) \<Longrightarrow> is_active (jb_status j')"
  shows "holds_active c' a"
proof -
  obtain n where n: "normalizeHostedExecutionJobRecord j' = Inr n"
    and get: "\<And>k. coll_get k c' = (if k = js_trim (jb_id j') then Some n else coll_get k c)"
    using assms(1,3) by (rule get_upsert) blast
  show ?thesis using assms(2) get
  proof (rule holds_active_put)
    fix j
    assume "coll_get (js_trim (jb_id j')) c = Some j" "is_active (jb_status j)"
    then show "is_active (jb_status n)" using assms(4) normalize_fields(2) [OF n] by simp
  qed
qed

lemma requeue_holds:
  assumes "jobs_ok c" "requeueFailedJobWithOptions now i ro mo c = Inr (res, c')" "holds_active c a"
  shows "holds_active c' a"
  using assms(2)
proof (rule requeue_cases)
  fix j j'
  assume r: "getHostedExecutionJob i c = Some j" "jb_status j = JS_failed" "upsertHostedExecutionJob j' c = Inr c'"
    "jb_id j' = jb_id j"
  have get: "coll_get (js_trim i) c = Some j" using r(1) by (simp add: getHostedExecutionJob_def)
  then have id: "jb_id j = js_trim i" using jobs_okD [OF assms(1)] by blast
  show ?thesis using assms(1,3) r(3)
    by (rule holds_active_upsert) (use get r id in \<open>simp add: is_active_def\<close>)
qed

lemma cancel_holds:
  assumes "jobs_ok c" "cancelJob now i by_session why c = Inr (res, c')" "holds_active c a"
  shows "holds_active c' a"
  using assms(2)
proof (cases rule: cancel_cases)
  case 1
  with assms(3) show ?thesis by simp
next
  case (2 j j')
  have get: "coll_get (js_trim i) c = Some j" using 2(1) by (simp add: getHostedExecutionJob_def)
  then have id: "jb_id j = js_trim i" using jobs_okD [OF assms(1)] by blast
  show ?thesis using assms(1,3) 2(3)
    by (rule holds_active_upsert) (use get 2 id in \<open>auto simp add: is_active_def\<close>)
qed

lemma heartbeat_holds:
  assumes "jobs_ok c" "signalHeartbeat now i c = Inr c'" "holds_active c a"
  shows "holds_active c' a"
proof (cases "c' = c")
  case False
  then obtain j where get: "coll_get (js_trim i) c = Some j" and act: "is_active (jb_status j)"
    and up: "upsertHostedExecutionJob (j\<lparr>jb_last_heartbeat_at := Some now, jb_updated_at := now\<rparr>) c = Inr c'"
    using assms(2) by (auto simp: signalHeartbeat_def getHostedExecutionJob_def is_active_def split: option.splits if_splits)
  show ?thesis using assms(1,3) up by (rule holds_active_upsert) (simp add: act)
qed (simp add: assms)

lemma submit_holds:
  assumes "jobs_ok c" "getHostedExecutionJob (jb_id j) c = None" "submit_job now j c = Inr c'" "holds_active c a"
  shows "holds_active c' a"
proof -
  have up: "upsertHostedExecutionJob (submitted now None j) c = Inr c'" using assms(2,3) by (simp add: submit_job_def)
  show ?thesis using assms(1,4) up
    by (rule holds_active_upsert) (use assms(2) in \<open>simp add: submitted_def getHostedExecutionJob_def\<close>)
qed

lemma queue_step_facts:
  assumes "queue_step inst stale_ms s s'" "hq_ok s"
  shows "hq_ok s' \<and> lifecycle_sim (hq_jobs s) (hq_jobs s')"
  using assms(1)
proof (cases rule: queue_step.cases)
  case (submit j now c)
  with assms(2) submit_facts [OF _ submit(2,3)] submit_holds [OF _ submit(2,3)] show ?thesis by (simp add: hq_ok_iff)
next
  case (requeue now i ro mo res c)
  with assms(2) requeue_facts [OF _ requeue(2)] requeue_holds [OF _ requeue(2)] show ?thesis by (simp add: hq_ok_iff)
next
  case (cancel now i by_session why cn c)
  with assms(2) cancel_facts [OF _ cancel(2)] cancel_holds [OF _ cancel(2)] show ?thesis by (simp add: hq_ok_iff)
next
  case (claim now j c)
  have ok: "jobs_ok (hq_jobs s)" using assms(2) by (simp add: hq_ok_iff)
  obtain j0 n :: job where f: "jb_id j = jb_id j0" "jobs_ok c" "lifecycle_sim (hq_jobs s) c" "jb_status n = JS_running"
    and get: "\<forall>q. coll_get q c = (if q = jb_id j0 then Some n else coll_get q (hq_jobs s))"
    using claim_facts [OF ok claim(3)] by blast
  have "holds_active c (Some j)" using spec [OF get, of "jb_id j0"] f by (simp add: holds_active_def is_active_def)
  with f claim show ?thesis by (simp add: hq_ok_iff)
next
  case (heartbeat j now c)
  with assms(2) heartbeat_facts [OF _ heartbeat(3)] heartbeat_holds [OF _ heartbeat(3)] show ?thesis by (simp add: hq_ok_iff)
next
  case (finish j now out f c)
  have ok: "jobs_ok (hq_jobs s)" using assms(2) by (simp add: hq_ok_iff)
  obtain x where "coll_get (jb_id j) (hq_jobs s) = Some x" "is_active (jb_status x)"
    using assms(2) finish(2) by (auto simp: hq_ok_iff holds_active_def)
  with finish_facts [OF ok _ _ finish(3)] finish(1) show ?thesis by (simp add: hq_ok_iff holds_active_def)
next
  case (lost j now out e)
  with assms(2) show ?thesis by (simp add: hq_ok_iff holds_active_def lifecycle_sim_refl)
next
  case (restart now fs c)
  with assms(2) recoverStaleJobs_facts [OF _ restart(2)] show ?thesis by (simp add: hq_ok_iff holds_active_def)
qed

lemma queue_reachable_ok: "queue_reachable inst stale_ms s \<Longrightarrow> hq_ok s"
proof (induction rule: queue_reachable.induct)
  case start
  then show ?case by (simp add: hq_ok_iff holds_active_def empty_hq_def jobs_ok_empty)
next
  case (step s s')
  then show ?case using queue_step_facts by blast
qed

section \<open>Safety\<close>

text \<open>C33: Whatever submissions of new jobs, operator requests, attempts, failed writes and restarts have happened, a job of the
  registry records a completion time exactly in the final statuses, is claimed exactly while it runs or is
  being cancelled, has a result exactly when it succeeded, has no cancellation request while it waits or runs, and has one
  while it is being cancelled. Its attempts respect its budget: one that waits to be retried, which it does with the error of the last attempt,
  has an attempt left, and one that runs after such an error is within the budget; one that failed with an error that may be retried
  has used the budget up. Only a requeue by the operator, which clears the error, lets a job that has used its budget up run, and then one attempt more.\<close>

theorem hosted_job_invariant:
  assumes "queue_reachable inst stale_ms s" "getHostedExecutionJob i (hq_jobs s) = Some j"
  shows "(isTerminalStatus (jb_status j) \<longleftrightarrow> jb_completed_at j \<noteq> None) \<and>
    (jb_status j = JS_running \<or> jb_status j = JS_cancel_requested \<longleftrightarrow> jb_claimed_at j \<noteq> None) \<and>
    (jb_status j = JS_succeeded \<longleftrightarrow> jb_result j \<noteq> None) \<and>
    (jb_status j = JS_queued \<or> jb_status j = JS_running \<longrightarrow> jb_cancel_requested_at j = None) \<and>
    (jb_status j = JS_cancel_requested \<longrightarrow> jb_cancel_requested_at j \<noteq> None) \<and>
    (jb_status j = JS_canceled \<longrightarrow> jb_canceled_at j \<noteq> None \<and> jb_last_error j \<noteq> None) \<and>
    (jb_status j = JS_queued \<and> jb_last_error j \<noteq> None \<longrightarrow> jb_attempt_count j < jb_max_attempts j) \<and>
    (jb_status j = JS_running \<and> jb_last_error j \<noteq> None \<longrightarrow> jb_attempt_count j \<le> jb_max_attempts j) \<and>
    (\<forall>e. jb_status j = JS_failed \<and> jb_last_error j = Some e \<and> shouldRetryJob e \<longrightarrow> jb_max_attempts j \<le> jb_attempt_count j) \<and>
    jb_attempt_count j \<le> jb_max_attempts j + (if jb_status j = JS_queued then 0 else 1) \<and>
    jb_id j = js_trim i"
proof -
  have "jobs_ok (hq_jobs s)" using queue_reachable_ok [OF assms(1)] by (simp add: hq_ok_iff)
  from jobs_ok_get [OF this assms(2)] have id: "jb_id j = js_trim i" and core: "job_core j" by simp_all
  show ?thesis using core id unfolding job_core_def is_active_def by (intro conjI) simp_all
qed

text \<open>The sample run: a job is submitted, claimed, its cancellation is requested, the worker delivers.\<close>

definition demo_state :: "jobs \<Rightarrow> job option \<Rightarrow> hq" where
  "demo_state c a = \<lparr>hq_jobs = c, hq_active = a, hq_failures = []\<rparr>"

lemma demo_reachable_queued: "queue_reachable ''daemon_1'' 30000 (demo_state demo_queued None)"
proof -
  have "getHostedExecutionJob (jb_id (demo_job ''job_1'' 2)) (hq_jobs empty_hq) = None"
    by (simp add: empty_hq_def getHostedExecutionJob_def coll_get_def)
  from queue_step.submit [OF this, of 10] have "queue_step ''daemon_1'' 30000 empty_hq (demo_state demo_queued None)"
    by (simp add: demo_submit empty_hq_def demo_state_def)
  with queue_reachable.start show ?thesis by (rule queue_reachable.step)
qed

lemma demo_reachable_claimed: "queue_reachable ''daemon_1'' 30000 (demo_state demo_claimed (Some (snd (hd demo_claimed))))"
  using demo_reachable_queued
proof (rule queue_reachable.step)
  show "queue_step ''daemon_1'' 30000 (demo_state demo_queued None) (demo_state demo_claimed (Some (snd (hd demo_claimed))))"
    using queue_step.claim [where s = "demo_state demo_queued None", OF _ ] demo_claim by (force simp: demo_state_def)
qed

lemma demo_reachable_cancelling: "queue_reachable ''daemon_1'' 30000 (demo_state demo_cancelling (Some (snd (hd demo_claimed))))"
  using demo_reachable_claimed
proof (rule queue_reachable.step)
  obtain r where "cancelJob 30 ''job_1'' (Some ''sess_1'') None demo_claimed = Inr (r, demo_cancelling)" using demo_cancel by blast
  then show "queue_step ''daemon_1'' 30000 (demo_state demo_claimed (Some (snd (hd demo_claimed))))
      (demo_state demo_cancelling (Some (snd (hd demo_claimed))))"
    using queue_step.cancel [where s = "demo_state demo_claimed (Some (snd (hd demo_claimed)))"] by (force simp: demo_state_def)
qed

lemma demo_delivered:
  "queue_step ''daemon_1'' 30000 (demo_state demo_cancelling (Some (snd (hd demo_claimed)))) (demo_state demo_canceled None)"
  using queue_step.finish [where s = "demo_state demo_cancelling (Some (snd (hd demo_claimed)))" and
      j = "snd (hd demo_claimed)" and now = 40 and out = "AO_result demo_result" and f = None and c = demo_canceled,
      OF _ ] demo_finish by (simp add: demo_state_def)

theorem hosted_job_invariant_witness:
  "jb_claimed_at (snd (hd demo_cancelling)) \<noteq> None \<and> jb_attempt_count (snd (hd demo_cancelling)) \<le> 3"
proof -
  have get: "getHostedExecutionJob ''job_1'' (hq_jobs (demo_state demo_cancelling (Some (snd (hd demo_claimed))))) =
      Some (snd (hd demo_cancelling))"
    unfolding demo_state_def by code_simp
  have st: "jb_status (snd (hd demo_cancelling)) = JS_cancel_requested" "jb_max_attempts (snd (hd demo_cancelling)) = 2"
    by code_simp+
  show ?thesis using hosted_job_invariant [OF demo_reachable_cancelling get] st by simp
qed

lemma queue_reachable_star:
  "(queue_step inst stale_ms)\<^sup>*\<^sup>* s s' \<Longrightarrow> queue_reachable inst stale_ms s \<Longrightarrow> queue_reachable inst stale_ms s'"
  by (induction rule: rtranclp_induct) (auto intro: queue_reachable.step)

text \<open>Along any run the status of a job that exists moves along the edges of the lifecycle.\<close>

lemma lifecycle_star:
  assumes "(queue_step inst stale_ms)\<^sup>*\<^sup>* s s'" "queue_reachable inst stale_ms s" "coll_get k (hq_jobs s) = Some j"
  shows "\<exists>j'. coll_get k (hq_jobs s') = Some j' \<and> (jb_status j, jb_status j') \<in> lifecycle_edges\<^sup>*"
  using assms(1)
proof (induction rule: rtranclp_induct)
  case base
  with assms(3) show ?case by simp
next
  case (step t t')
  then obtain x where x: "coll_get k (hq_jobs t) = Some x" "(jb_status j, jb_status x) \<in> lifecycle_edges\<^sup>*" by blast
  have "hq_ok t" using queue_reachable_ok [OF queue_reachable_star [OF step(1) assms(2)]] .
  then have "lifecycle_step (Some x) (coll_get k (hq_jobs t'))"
    using queue_step_facts [OF step(2)] x(1) unfolding lifecycle_sim_def by metis
  then obtain y where y: "coll_get k (hq_jobs t') = Some y" "y = x \<or> (jb_status x, jb_status y) \<in> lifecycle_edges"
    by (auto simp: lifecycle_step_def split: option.splits)
  from y(2) x(2) have "(jb_status j, jb_status y) \<in> lifecycle_edges\<^sup>*" by (auto intro: rtrancl_into_rtrancl)
  with y(1) show ?case by blast
qed

lemma lifecycle_final:
  assumes "(a, b) \<in> lifecycle_edges\<^sup>*" "a = JS_succeeded \<or> a = JS_canceled"
  shows "b = a"
  using assms by (induction rule: rtrancl_induct) (auto simp: lifecycle_edges_def)

text \<open>A job that is being cancelled can only end cancelled: no result and no retry comes after the request.\<close>

lemma lifecycle_cancelling:
  assumes "(a, b) \<in> lifecycle_edges\<^sup>*" "a = JS_cancel_requested"
  shows "b = JS_cancel_requested \<or> b = JS_canceled"
  using assms by (induction rule: rtrancl_induct) (auto simp: lifecycle_edges_def)

text \<open>C31: The queue refines its life cycle. A job never leaves the registry; its status only moves along the edges
  of the life cycle, whatever is interleaved; once it has succeeded or been cancelled it stays so, and
  from the moment its cancellation is requested it can only end up cancelled, even when the worker
  still delivers a result or the daemon restarts.\<close>

theorem hosted_job_lifecycle:
  assumes "queue_reachable inst stale_ms s" "(queue_step inst stale_ms)\<^sup>*\<^sup>* s s'"
    "getHostedExecutionJob i (hq_jobs s) = Some j"
  shows "\<exists>j'. getHostedExecutionJob i (hq_jobs s') = Some j' \<and> (jb_status j, jb_status j') \<in> lifecycle_edges\<^sup>* \<and>
    (jb_status j \<in> {JS_succeeded, JS_canceled} \<longrightarrow> jb_status j' = jb_status j) \<and>
    (jb_status j = JS_cancel_requested \<longrightarrow> jb_status j' \<in> {JS_cancel_requested, JS_canceled} \<and> jb_result j' = None)"
proof -
  obtain j' where j': "coll_get (js_trim i) (hq_jobs s') = Some j'" "(jb_status j, jb_status j') \<in> lifecycle_edges\<^sup>*"
    using lifecycle_star [OF assms(2,1)] assms(3) by (auto simp: getHostedExecutionJob_def)
  have "hq_ok s'" using queue_reachable_ok [OF queue_reachable_star [OF assms(2,1)]] .
  then have "job_core j'" using jobs_okD j'(1) by (auto simp: hq_ok_iff)
  then have res: "jb_status j' = JS_succeeded \<longleftrightarrow> jb_result j' \<noteq> None" by (simp add: job_core_def)
  have "jb_status j' = JS_cancel_requested \<or> jb_status j' = JS_canceled" if "jb_status j = JS_cancel_requested"
    using lifecycle_cancelling [OF j'(2) that] .
  moreover have "jb_status j' = jb_status j" if "jb_status j = JS_succeeded \<or> jb_status j = JS_canceled"
    using lifecycle_final [OF j'(2) that] .
  ultimately show ?thesis using j' res by (auto simp: getHostedExecutionJob_def)
qed

theorem hosted_job_lifecycle_witness:
  "\<exists>j'. getHostedExecutionJob ''job_1'' demo_canceled = Some j' \<and> jb_status j' \<in> {JS_cancel_requested, JS_canceled} \<and>
     jb_result j' = None"
proof -
  let ?s = "demo_state demo_cancelling (Some (snd (hd demo_claimed)))"
  have get: "getHostedExecutionJob ''job_1'' (hq_jobs ?s) = Some (snd (hd demo_cancelling))"
    unfolding demo_state_def by code_simp
  have st: "jb_status (snd (hd demo_cancelling)) = JS_cancel_requested" by code_simp
  show ?thesis
    using hosted_job_lifecycle [OF demo_reachable_cancelling r_into_rtranclp [of "queue_step ''daemon_1'' 30000", OF demo_delivered] get]
    by (auto simp: st demo_state_def)
qed

end
