(* ===== verification/Queue_Liveness.thy ===== *)
theory Queue_Liveness
  imports Queue_Theorems
begin

text \<open>
  The processing loop of the hosted queue finishes: no write is refused, every attempt uses up budget,
  a wait always makes some job due, and so all jobs reach a final status. Then what the queue does
  in the corners: the budget after a requeue, jobs left active by a restart, worker errors that
  cannot be recorded.
\<close>

section \<open>Every attempt can be recorded\<close>

lemma claim_accepted:
  assumes "jobs_ok c" "inst \<noteq> []" "next_candidate now c = Some j"
  shows "\<exists>c'. claimNextJob inst now c = Inr (Some (claimed_job inst now j, c'))"
proof -
  have j: "normalizeHostedExecutionJobRecord j = Inr j" using jobs_okD [OF assms(1) next_candidate_facts(1) [OF assms(1,3)]] by simp
  obtain n where "normalizeHostedExecutionJobRecord (claimed_job inst now j) = Inr n"
    using normalize_accepts [OF j, of "claimed_job inst now j"] assms(2) stored_errors [OF j]
    by (auto simp: claimed_job_def same_identity_def nonempty_opt_def)
  then show ?thesis by (simp add: claimNextJob_def assms(3) upsertHostedExecutionJob_def)
qed

lemma finish_accepted:
  assumes "jobs_ok c" "coll_get (jb_id a) c = Some j" "is_active (jb_status j)" "\<And>th. out = AO_throw th \<Longrightarrow> thrown_message th \<noteq> []"
  shows "\<exists>f c'. finish_attempt now out a c = Inr (f, c')"
proof -
  have get: "getHostedExecutionJob (jb_id a) c = Some j"
    using trim_stored [OF assms(1,2)] assms(2) by (simp add: getHostedExecutionJob_def)
  have ok: "normalizeHostedExecutionJobRecord j = Inr j" and core: "job_core j" using jobs_okD [OF assms(1,2)] by simp_all
  have "jb_status j = JS_running \<and> jb_cancel_requested_at j = None \<or> jb_status j = JS_cancel_requested"
    using assms(3) core by (auto simp: job_core_simps)
  moreover obtain n where "normalizeHostedExecutionJobRecord (attempt_target now out j) = Inr n"
    using attempt_target_accepted [OF ok assms(4)] by blast
  ultimately show ?thesis using get
    by (cases out) (auto simp: finish_attempt_def finish_success_def finish_failure_def attempt_target_def Let_def
        upsertHostedExecutionJob_def failed_attempt_def split: if_splits)
qed

section \<open>Every round uses up work\<close>

text \<open>The attempts a waiting job has left; a requeued one whose budget is used up has one.\<close>

definition job_work :: "job \<Rightarrow> nat" where
  "job_work j = (if jb_status j = JS_queued then max 1 (jb_max_attempts j - jb_attempt_count j) else 0)"

definition queue_work :: "jobs \<Rightarrow> nat" where
  "queue_work c = sum_list (map job_work (listHostedExecutionJobs c))"

definition idle :: "jobs \<Rightarrow> bool" where
  "idle c = (\<forall>j \<in> set (listHostedExecutionJobs c). \<not> is_active (jb_status j))"

lemma coll_keys: "set (map fst c) = {k. coll_get k c \<noteq> None}"
  by (auto simp: coll_get_def map_of_eq_None_iff)

lemma queue_work_sum:
  assumes "coll_ok c"
  shows "queue_work c = (\<Sum>k \<in> {k. coll_get k c \<noteq> None}. job_work (the (coll_get k c)))"
proof -
  have d: "distinct (map fst c)" using assms by (rule coll_ok_distinct)
  have "map job_work (map snd c) = map (\<lambda>k. job_work (the (coll_get k c))) (map fst c)"
    using d by (auto simp: coll_get_def)
  then have "queue_work c = sum_list (map (\<lambda>k. job_work (the (coll_get k c))) (map fst c))"
    by (simp only: queue_work_def listHostedExecutionJobs_def)
  also have "\<dots> = (\<Sum>k \<in> set (map fst c). job_work (the (coll_get k c)))"
    using d by (rule sum_list_distinct_conv_sum_set)
  finally show ?thesis unfolding coll_keys .
qed

lemma queue_work_change:
  assumes "coll_ok c" "coll_ok c'" "coll_get k c = Some j" "coll_get k c' = Some n"
    and "\<And>q. q \<noteq> k \<Longrightarrow> coll_get q c' = coll_get q c"
  shows "queue_work c' + job_work j = queue_work c + job_work n"
proof -
  define K where "K = {q. coll_get q c \<noteq> None}"
  have "K = set (map fst c)" by (simp only: K_def coll_keys)
  then have fin: "finite K" by simp
  have k: "k \<in> K" using assms(3) by (simp add: K_def)
  have K': "{q. coll_get q c' \<noteq> None} = K"
  proof (intro set_eqI)
    fix q
    show "q \<in> {q. coll_get q c' \<noteq> None} \<longleftrightarrow> q \<in> K"
      using assms(3,4) assms(5) [of q] by (cases "q = k") (simp_all add: K_def)
  qed
  have "(\<Sum>q \<in> K - {k}. job_work (the (coll_get q c'))) = (\<Sum>q \<in> K - {k}. job_work (the (coll_get q c)))"
    using assms(5) by (intro sum.cong) simp_all
  then show ?thesis
    using queue_work_sum [OF assms(1)] queue_work_sum [OF assms(2)] sum.remove [OF fin k, of "\<lambda>q. job_work (the (coll_get q c))"]
      sum.remove [OF fin k, of "\<lambda>q. job_work (the (coll_get q c'))"] assms(3,4)
    unfolding K' K_def [symmetric] by simp
qed

text \<open>One round: the claimed job's attempt ends, other jobs are as before, less work is left.\<close>

lemma round_facts:
  assumes ok: "jobs_ok c" and "idle c" and "inst \<noteq> []" and "\<forall>m th. outcome m = AO_throw th \<longrightarrow> thrown_message th \<noteq> []"
    and "next_candidate now c = Some j"
  shows "\<exists>later c'. (\<forall>fuel. drain outcome took inst (Suc fuel) now n c = drain outcome took inst fuel later (n + 1) c') \<and>
    jobs_ok c' \<and> idle c' \<and> {k. coll_get k c' \<noteq> None} = {k. coll_get k c \<noteq> None} \<and> queue_work c' < queue_work c"
proof -
  let ?a = "claimed_job inst now j"
  let ?later = "now + int (took n)"
  note cand = next_candidate_facts [OF ok assms(5)]
  obtain c1 where c1: "claimNextJob inst now c = Inr (Some (?a, c1))" using claim_accepted [OF ok assms(3,5)] by blast
  have ida: "jb_id ?a = jb_id j" by (simp add: claimed_job_def)
  obtain x :: job where ok1: "jobs_ok c1" and x: "jb_status x = JS_running" "jb_attempt_count x = jb_attempt_count j + 1"
      "jb_max_attempts x = jb_max_attempts j"
    and get1: "\<forall>q. coll_get q c1 = (if q = jb_id j then Some x else coll_get q c)"
    using claim_facts [OF ok c1] assms(5) by auto
  have at1: "coll_get (jb_id ?a) c1 = Some x" using spec [OF get1, of "jb_id j"] ida by simp
  have act: "is_active (jb_status x)" by (simp add: x is_active_def)
  obtain f c2 where c2: "finish_attempt ?later (outcome n) ?a c1 = Inr (f, c2)"
    using finish_accepted [OF ok1 at1 act, of "outcome n" ?later] assms(4) by blast
  obtain y where ok2: "jobs_ok c2" and y: "coll_get (jb_id ?a) c2 = Some y"
      "jb_status y = jb_status (attempt_target ?later (outcome n) x)"
      "jb_attempt_count y = jb_attempt_count x" "jb_max_attempts y = jb_max_attempts x"
    and get2: "\<forall>q. q \<noteq> jb_id ?a \<longrightarrow> coll_get q c2 = coll_get q c1"
    using finish_facts [OF ok1 at1 act c2] by blast
  note t = attempt_target_facts [OF _ act, of ?later "outcome n"]
  have corex: "job_core x" using jobs_okD [OF ok1 at1] by simp
  have others: "coll_get q c2 = coll_get q c" if "q \<noteq> jb_id j" for q
    using that spec [OF get1, of q] spec [OF get2, of q] ida by simp
  have y1: "coll_get (jb_id j) c2 = Some y" using y(1) ida by simp
  have "queue_work c2 + job_work j = queue_work c + job_work y"
    using queue_work_change [OF _ _ cand(1) y1 others] ok ok2 unfolding jobs_ok_def by blast
  moreover have "job_work y < job_work j"
    using t(7) [OF corex] y x cand(2) by (auto simp: job_work_def)
  ultimately have less: "queue_work c2 < queue_work c" by simp
  have idle: "idle c2" unfolding idle_def
  proof
    fix z
    assume z: "z \<in> set (listHostedExecutionJobs c2)"
    show "\<not> is_active (jb_status z)"
    proof (cases "jb_id z = jb_id j")
      case True
      with z listed [OF ok2] y1 have "z = y" by simp
      then show ?thesis using t(4) [OF corex] y(2) by simp
    next
      case False
      with z listed [OF ok2] others have "coll_get (jb_id z) c = Some z" by simp
      then show ?thesis using assms(2) listed [OF ok] by (simp add: idle_def)
    qed
  qed
  have dom: "{k. coll_get k c2 \<noteq> None} = {k. coll_get k c \<noteq> None}"
  proof (intro set_eqI)
    fix k
    show "k \<in> {k. coll_get k c2 \<noteq> None} \<longleftrightarrow> k \<in> {k. coll_get k c \<noteq> None}"
      using others [of k] y1 cand(1) by (cases "k = jb_id j") simp_all
  qed
  have "drain outcome took inst (Suc fuel) now n c = drain outcome took inst fuel ?later (n + 1) c2" for fuel
    by (simp add: c1 c2 Let_def)
  with ok2 idle dom less show ?thesis by blast
qed

text \<open>A wait makes a job due.\<close>

lemma next_candidate_None: "next_candidate now c = None \<Longrightarrow> j \<in> set (listHostedExecutionJobs c) \<Longrightarrow>
    jb_status j = JS_queued \<Longrightarrow> now < jb_next_attempt_at j"
  by (force simp: next_candidate_def filter_empty_conv)

lemma wait_makes_due:
  assumes "next_wake_delay now c = Some d"
  shows "\<exists>j. next_candidate (now + d) c = Some j"
proof -
  obtain t where t: "next_wake c = Some t" "d = max 0 (t - now)" using assms by (auto simp: next_wake_delay_def)
  then obtain j where "j \<in> set (listHostedExecutionJobs c)" "jb_status j = JS_queued" "jb_next_attempt_at j = t"
    by (auto simp: next_wake_def dest!: js_head_in)
  with t(2) next_candidate_None [of "now + d" c j] show ?thesis by (cases "next_candidate (now + d) c") auto
qed

lemma no_wake: "next_wake_delay now c = None \<Longrightarrow> j \<in> set (listHostedExecutionJobs c) \<Longrightarrow> jb_status j \<noteq> JS_queued"
  by (auto simp: next_wake_delay_def next_wake_def filter_empty_conv)

lemma claim_none: "next_candidate now c = None \<Longrightarrow> claimNextJob inst now c = Inr None"
  by (simp add: claimNextJob_def)

lemma not_active_not_queued: "\<not> is_active s \<Longrightarrow> s \<noteq> JS_queued \<Longrightarrow> isTerminalStatus s"
  by (cases s) (simp_all add: is_active_def isTerminalStatus_def)

lemma drain_finishes:
  assumes "jobs_ok c" "idle c" "inst \<noteq> []" "\<forall>m th. outcome m = AO_throw th \<longrightarrow> thrown_message th \<noteq> []"
    and "2 * queue_work c + 1 \<le> fuel"
  shows "\<exists>n' c'. drain outcome took inst fuel now n c = Some (Inr (n', c')) \<and> n' \<le> n + queue_work c \<and>
    (\<forall>j \<in> set (listHostedExecutionJobs c'). isTerminalStatus (jb_status j)) \<and>
    {k. coll_get k c' \<noteq> None} = {k. coll_get k c \<noteq> None}"
  using assms(1,2,5)
proof (induction "queue_work c" arbitrary: c n now fuel rule: less_induct)
  case less
  have round: "\<exists>n' c'. drain outcome took inst fuel' later n c = Some (Inr (n', c')) \<and> n' \<le> n + queue_work c \<and>
      (\<forall>j \<in> set (listHostedExecutionJobs c'). isTerminalStatus (jb_status j)) \<and>
      {k. coll_get k c' \<noteq> None} = {k. coll_get k c \<noteq> None}"
    if cand: "next_candidate later c = Some j" and fuel: "2 * queue_work c \<le> fuel'" for later j fuel'
  proof -
    obtain t c' where eq: "\<forall>fuel. drain outcome took inst (Suc fuel) later n c = drain outcome took inst fuel t (n + 1) c'"
      and c': "jobs_ok c'" "idle c'" "{k. coll_get k c' \<noteq> None} = {k. coll_get k c \<noteq> None}" "queue_work c' < queue_work c"
      using round_facts [OF less.prems(1,2) assms(3,4) cand, where n = n and took = took] by blast
    from fuel c'(4) obtain fuel'' where f: "fuel' = Suc fuel''" "2 * queue_work c' + 1 \<le> fuel''" by (cases fuel') simp_all
    obtain n' c'' where "drain outcome took inst fuel'' t (n + 1) c' = Some (Inr (n', c''))" "n' \<le> n + 1 + queue_work c'"
      "\<forall>j \<in> set (listHostedExecutionJobs c''). isTerminalStatus (jb_status j)"
      "{k. coll_get k c'' \<noteq> None} = {k. coll_get k c' \<noteq> None}"
      using less.hyps [OF c'(4,1,2) f(2), where n = "n + 1" and now = t] by blast
    then show ?thesis using eq f(1) c'(3,4) by simp
  qed
  obtain fuel' where f: "fuel = Suc fuel'" "2 * queue_work c \<le> fuel'" using less.prems(3) by (cases fuel) simp_all
  show ?case
  proof (cases "next_candidate now c")
    case (Some j)
    then show ?thesis using round less.prems(3) by simp
  next
    case None
    note claim = claim_none [OF None, of inst]
    show ?thesis
    proof (cases "next_wake_delay now c")
      case None
      have "isTerminalStatus (jb_status j)" if "j \<in> set (listHostedExecutionJobs c)" for j
        using no_wake [OF None that] less.prems(2) that not_active_not_queued by (simp add: idle_def)
      then show ?thesis by (simp add: f(1) claim None)
    next
      case (Some d)
      then obtain j where "next_candidate (now + d) c = Some j" using wait_makes_due by blast
      from round [OF this f(2)] show ?thesis by (simp add: f(1) claim Some)
    qed
  qed
qed

text \<open>C32: The queue finishes its work. From any reachable state in which no attempt is under way and no job was
  left active, with a worker whose errors carry a message, the processing loop comes to rest: every job of the registry has a final
  status, none is lost and no write is refused. It makes at most as many attempts as the waiting jobs have left of their budgets,
  where a requeued job whose budget is used up counts for one (fuel twice that number and one is enough: a wait is always
  followed by an attempt).\<close>

theorem queue_drains:
  assumes "queue_reachable inst stale_ms s" "inst \<noteq> []"
    and "\<And>j. j \<in> set (listHostedExecutionJobs (hq_jobs s)) \<Longrightarrow> jb_status j = JS_queued \<or> isTerminalStatus (jb_status j)"
    and "\<forall>m th. outcome m = AO_throw th \<longrightarrow> thrown_message th \<noteq> []"
    and "2 * queue_work (hq_jobs s) + 1 \<le> fuel"
  shows "\<exists>n c. drain outcome took inst fuel now 0 (hq_jobs s) = Some (Inr (n, c)) \<and> n \<le> queue_work (hq_jobs s) \<and>
    (\<forall>j \<in> set (listHostedExecutionJobs c). isTerminalStatus (jb_status j)) \<and>
    (\<forall>i. getHostedExecutionJob i c = None \<longleftrightarrow> getHostedExecutionJob i (hq_jobs s) = None)"
proof -
  have ok: "jobs_ok (hq_jobs s)" using queue_reachable_ok [OF assms(1)] by (simp add: hq_ok_iff)
  have "idle (hq_jobs s)" using assms(3) by (force simp: idle_def is_active_def isTerminalStatus_def)
  then obtain n c where c: "drain outcome took inst fuel now 0 (hq_jobs s) = Some (Inr (n, c))" "n \<le> queue_work (hq_jobs s)"
    "\<forall>j \<in> set (listHostedExecutionJobs c). isTerminalStatus (jb_status j)"
    "{k. coll_get k c \<noteq> None} = {k. coll_get k (hq_jobs s) \<noteq> None}"
    using drain_finishes [OF ok _ assms(2,4,5), where took = took and now = now and n = 0] by auto
  have "coll_get k c = None \<longleftrightarrow> coll_get k (hq_jobs s) = None" for k using c(4) by blast
  with c show ?thesis by (simp add: getHostedExecutionJob_def)
qed

theorem queue_drains_witness:
  "\<exists>n c. drain (\<lambda>m. if m = 0 then AO_throw demo_refused else AO_result demo_result) (\<lambda>m. 5) ''daemon_1'' 7 20 0 demo_queued =
      Some (Inr (n, c)) \<and> n \<le> 2 \<and> (\<forall>j \<in> set (listHostedExecutionJobs c). isTerminalStatus (jb_status j))"
proof -
  let ?out = "\<lambda>m :: nat. if m = 0 then AO_throw demo_refused else AO_result demo_result"
  have work: "queue_work demo_queued = 2" by code_simp
  have list: "listHostedExecutionJobs demo_queued = [submitted 10 None (demo_job ''job_1'' 2)]" by code_simp
  have queued: "jb_status (submitted 10 None (demo_job ''job_1'' 2)) = JS_queued" by code_simp
  have "\<exists>n c. drain ?out (\<lambda>m. 5) ''daemon_1'' 7 20 0 (hq_jobs (demo_state demo_queued None)) = Some (Inr (n, c)) \<and>
    n \<le> queue_work (hq_jobs (demo_state demo_queued None)) \<and>
    (\<forall>j \<in> set (listHostedExecutionJobs c). isTerminalStatus (jb_status j)) \<and>
    (\<forall>i. getHostedExecutionJob i c = None \<longleftrightarrow> getHostedExecutionJob i (hq_jobs (demo_state demo_queued None)) = None)"
  proof (rule queue_drains [OF demo_reachable_queued])
    show "jb_status j = JS_queued \<or> isTerminalStatus (jb_status j)"
      if "j \<in> set (listHostedExecutionJobs (hq_jobs (demo_state demo_queued None)))" for j
      using that by (simp add: demo_state_def list queued)
  qed (auto simp: demo_state_def work demo_refused_def split: if_splits)
  then show ?thesis by (auto simp: demo_state_def work)
qed

section \<open>Corners\<close>

text \<open>A failed job whose budget is spent may be requeued without a reset: the check compares the budget with
  the attempts made, not with the next one. Its next attempt is one more than the budget.\<close>

lemma requeue_exceeds_budget:
  "case requeueFailedJob 50 ''job_1''
      [(''job_1'', snd (failed_attempt 40 (toJobError demo_refused)
          (claimed_job ''daemon_1'' 20 (submitted 10 None (demo_job ''job_1'' 1)))))] of
     Inr (_, c) \<Rightarrow>
       (case claimNextJob ''daemon_1'' 60 c of
          Inr (Some (j, _)) \<Rightarrow> jb_attempt_count j = 2 \<and> jb_max_attempts j = 1
        | _ \<Rightarrow> False)
   | Inl _ \<Rightarrow> False"
  by code_simp

text \<open>At start-up only running jobs are recovered: one whose cancellation was requested when the daemon
  stopped stays so; no operation of the queue ends it.\<close>

lemma cancelling_survives_restart: "recoverStaleJobs 30000 10000000 demo_cancelling = Inr ([], demo_cancelling)"
  by code_simp

text \<open>A running job whose last heartbeat is recent when the new daemon starts stays running too.\<close>

lemma fresh_running_survives_restart: "recoverStaleJobs 30000 25000 demo_claimed = Inr ([], demo_claimed)"
  by code_simp

text \<open>When the budget is spent, the recorded error says it is not retryable; a retryable error with a code
  outside the list is then classified as never having been.\<close>

lemma exhausted_retryable_misclassified:
  "let e = agent_git_error ''busy'' INTERNAL_ERROR True;
       running = claimed_job ''daemon_1'' 20 (submitted 10 None (demo_job ''job_1'' 1)) in
   shouldRetryJob (toJobError (TH_agentgit e None)) \<and>
   terminalFailureClassification (snd (failed_attempt 40 (toJobError (TH_agentgit e None)) running)) = Some ''non_retryable''"
  by code_simp

text \<open>An error without a message (as Node raises when every address of a host refuses) cannot be recorded:
  the write is refused, the loop ends with that error and the job stays running.\<close>

lemma silent_error_is_lost:
  "case finish_attempt 40 (AO_throw (TH_error (Some ''ECONNREFUSED'') [])) (snd (hd demo_claimed)) demo_claimed of
     Inl _ \<Rightarrow> True | Inr _ \<Rightarrow> False"
  by code_simp

end
