(* ===== verification/Path_Containment.thy ===== *)
theory Path_Containment
  imports Schemas
begin

text \<open>
  Containment of a path in the workspace (\<open>packages/action-normalizer/src/index.ts\<close>): the nearest
  existing ancestor of a path is resolved through \<open>fs.realpathSync\<close>, so that a symbolic link cannot
  lead out of the workspace, and the result is compared with the resolved roots. \<open>rp\<close> is
  \<open>fs.realpathSync\<close>: the resolved path, \<open>ENOENT\<close> or any other error. The loop climbs to the
  parent for ever unless it reaches the root, so it is a \<open>partial_function\<close>; that it returns, and
  what, is proved in \<open>Containment_Theorems\<close>. The functions of \<open>path.posix\<close> follow Node's
  documentation on absolute paths.
\<close>

section \<open>Paths\<close>

definition path_basename :: "string \<Rightarrow> string" where
  "path_basename p = rev (takeWhile (\<lambda>c. c \<noteq> CHR ''/'') (dropWhile (\<lambda>c. c = CHR ''/'') (rev p)))"

definition path_dirname :: "string \<Rightarrow> string" where
  "path_dirname p =
     (let rest = dropWhile (\<lambda>c. c \<noteq> CHR ''/'') (dropWhile (\<lambda>c. c = CHR ''/'') (rev p)) in
      if rest = [] \<or> rest = ''/'' then (if path_absolute p then ''/'' else ''.'')
      else if rest = ''//'' then ''//''
      else rev (tl rest))"

text \<open>\<open>path.normalize\<close> of an absolute path keeps a trailing slash.\<close>

definition path_normalize :: "string \<Rightarrow> string" where
  "path_normalize p =
     (let ws = path_segments p in
      ''/'' @ js_join ''/'' ws @ (if ws \<noteq> [] \<and> suffix ''/'' p then ''/'' else []))"

definition path_join :: "string list \<Rightarrow> string" where
  \<comment> \<open>\<open>path.join\<close> where the first part is an absolute path\<close>
  "path_join ps = path_normalize (js_join ''/'' (filter (\<lambda>p. p \<noteq> []) ps))"

definition normalizePath :: "string \<Rightarrow> string \<Rightarrow> string option \<Rightarrow> string" where
  \<comment> \<open>the first argument is \<open>process.cwd()\<close>\<close>
  "normalizePath proc_cwd target_path cwd =
     (if path_absolute target_path then path_normalize target_path
      else path_resolve proc_cwd ((case cwd of None \<Rightarrow> proc_cwd | Some d \<Rightarrow> d) @ ''/'' @ target_path))"

section \<open>Resolution\<close>

datatype realpath_result = RP_resolved string | RP_missing | RP_error

type_synonym realpath = "string \<Rightarrow> realpath_result"

text \<open>\<open>Some None\<close> is the value \<open>null\<close>; the inner list is \<open>missingSegments\<close>.\<close>

partial_function (option) canonicalize_loop ::
  "realpath \<Rightarrow> string \<Rightarrow> string list \<Rightarrow> string \<Rightarrow> string option option" where
  "canonicalize_loop rp target missing current =
     (case rp current of
        RP_resolved r \<Rightarrow> Some (Some (if missing = [] then r else path_join (r # rev missing)))
      | RP_error \<Rightarrow> Some None
      | RP_missing \<Rightarrow>
          (let parent = path_dirname current in
           if parent = current then Some (Some target)
           else canonicalize_loop rp target (missing @ [path_basename current]) parent))"

text \<open>\<open>canonicalizePathForContainmentSync\<close>; \<open>None\<close>: the loop does not return.\<close>

definition canonicalizePathForContainmentSync ::
  "realpath \<Rightarrow> string \<Rightarrow> string \<Rightarrow> string option option" where
  "canonicalizePathForContainmentSync rp proc_cwd target_path =
     canonicalize_loop rp (path_resolve proc_cwd target_path) [] (path_resolve proc_cwd target_path)"

definition isNormalizedPathInsideRoot :: "string \<Rightarrow> string \<Rightarrow> bool" where
  "isNormalizedPathInsideRoot target_path root_path = path_within target_path root_path"

definition isPathInsideWorkspace :: "realpath \<Rightarrow> string \<Rightarrow> string \<Rightarrow> string list \<Rightarrow> bool" where
  "isPathInsideWorkspace rp proc_cwd target_path workspace_roots =
     list_ex (\<lambda>rt.
       (case (canonicalizePathForContainmentSync rp proc_cwd rt,
              canonicalizePathForContainmentSync rp proc_cwd target_path) of
          (Some (Some r), Some (Some t)) \<Rightarrow> isNormalizedPathInsideRoot t r
        | _ \<Rightarrow> False)) workspace_roots"

end
