(* ===== verification/Action_Confidence.thy ===== *)
theory Action_Confidence
  imports Schemas
begin

text \<open>
  The confidence assessment of a normalized action (\<open>packages/action-normalizer/src/index.ts\<close>,
  \<open>assessActionConfidence\<close>): a list of factors read off the action, their sum as the score, the band
  and whether a human has to review. A factor is appended by \<open>pushConfidenceFactor\<close>, which rounds its
  delta the way scores are rounded.
\<close>

definition ACTION_CONFIDENCE_ENGINE_VERSION :: string where
  "ACTION_CONFIDENCE_ENGINE_VERSION = ''action-confidence/v1''"

definition roundConfidence :: "rat \<Rightarrow> rat" where
  "roundConfidence v = to_fixed 3 (clamp01 v)"

text \<open>\<open>x.toFixed(3)\<close> of a number that is not negative.\<close>

definition to_fixed3_text :: "rat \<Rightarrow> string" where
  "to_fixed3_text x =
     (let n = nat \<lfloor>x * 1000 + 1 / 2\<rfloor>; f = nat_digits (n mod 1000) in
      nat_digits (n div 1000) @ ''.'' @ replicate (3 - length f) CHR ''0'' @ f)"

definition pushConfidenceFactor :: "confidence_factor \<Rightarrow> confidence_factor" where
  "pushConfidenceFactor f = f\<lparr>cf_delta := roundConfidence (cf_delta f)\<rparr>"

definition factor_of :: "string \<Rightarrow> string \<Rightarrow> factor_kind \<Rightarrow> rat \<Rightarrow> string \<Rightarrow> confidence_factor list" where
  "factor_of i l k d r =
     [pushConfidenceFactor \<lparr>cf_factor_id = i, cf_label = l, cf_kind = k, cf_delta = d, cf_rationale = r\<rparr>]"

definition baseline_factor :: "'a normalized_action_scheme \<Rightarrow> confidence_factor list" where
  "baseline_factor a = factor_of ''normalization_baseline'' ''Normalization baseline'' FK_baseline
     (nm_confidence (normalization a))
     (''Started from mapper confidence '' @ to_fixed3_text (nm_confidence (normalization a)) @ ''.'')"

definition provenance_factors :: "'a normalized_action_scheme \<Rightarrow> confidence_factor list" where
  "provenance_factors a =
     (if 95 / 100 \<le> pv_confidence (provenance a) then
        factor_of ''provenance_governed_high'' ''Strong provenance'' FK_boost (4 / 100)
          ''Governed provenance is high-confidence and strengthens trust in the action envelope.''
      else if pv_confidence (provenance a) < 75 / 100 then
        factor_of ''provenance_uncertain'' ''Weak provenance'' FK_penalty (- (8 / 100))
          ''Low provenance confidence weakens trust in the normalized action context.''
      else [])"

definition scope_factors :: "'a normalized_action_scheme \<Rightarrow> confidence_factor list" where
  "scope_factors a =
     (let b = ts_breadth (scope a) in
      if ''scope'' \<in> set (ts_unknowns (scope a)) then
        factor_of ''scope_unknown'' ''Opaque scope'' FK_penalty (- (22 / 100))
          ''Unknown scope makes blast radius estimation unreliable.''
      else if b = SB_single then
        factor_of ''scope_single'' ''Single-target scope'' FK_boost (4 / 100)
          ''Single-target actions are easier to reason about and recover from.''
      else if b = SB_workspace \<or> b = SB_repository then
        factor_of ''scope_broad_workspace'' ''Broad workspace scope'' FK_penalty (- (6 / 100))
          ''Workspace-wide scope expands ambiguity and recovery cost.''
      else if b = SB_unknown \<or> b = SB_external then
        factor_of ''scope_external_or_unknown'' ''External or unknown scope'' FK_penalty (- (10 / 100))
          ''External or unknown scope increases uncertainty about downstream effects.''
      else [])"

fun side_effect_factors :: "side_effect_level \<Rightarrow> confidence_factor list" where
  "side_effect_factors SE_read_only =
     factor_of ''side_effect_read_only'' ''Read-only execution'' FK_boost (5 / 100)
       ''Read-only actions are easier to classify and carry lower risk.''"
| "side_effect_factors SE_destructive =
     factor_of ''side_effect_destructive'' ''Destructive execution'' FK_penalty (- (12 / 100))
       ''Destructive actions reduce confidence that automated execution should proceed without review.''"
| "side_effect_factors SE_unknown =
     factor_of ''side_effect_unknown'' ''Unknown side effects'' FK_penalty (- (14 / 100))
       ''Unknown side effects make it unsafe to trust the classification strongly.''"
| "side_effect_factors SE_mutating = []"

fun external_factors :: "external_effect \<Rightarrow> confidence_factor list" where
  "external_factors EE_network =
     factor_of ''external_network'' ''Network side effects'' FK_penalty (- (6 / 100))
       ''Remote side effects reduce determinism and complicate recovery.''"
| "external_factors EE_communication =
     factor_of ''external_communication'' ''Communication side effects'' FK_penalty (- (8 / 100))
       ''Communication side effects usually escape local rollback guarantees.''"
| "external_factors EE_financial =
     factor_of ''external_financial'' ''Financial side effects'' FK_penalty (- (14 / 100))
       ''Financial effects are high-stakes and demand conservative confidence.''"
| "external_factors EE_unknown =
     factor_of ''external_unknown'' ''Unknown external effects'' FK_penalty (- (10 / 100))
       ''Uncertain external effects weaken operator trust in autonomous execution.''"
| "external_factors EE_none = []"

fun reversibility_factors :: "reversibility_hint \<Rightarrow> confidence_factor list" where
  "reversibility_factors RV_reversible =
     factor_of ''reversibility_reversible'' ''Clearly reversible'' FK_boost (3 / 100)
       ''Clear rollback paths improve confidence in automated handling.''"
| "reversibility_factors RV_compensatable =
     factor_of ''reversibility_compensatable'' ''Compensatable'' FK_boost (15 / 1000)
       ''Trusted compensators partially reduce operational ambiguity.''"
| "reversibility_factors RV_potentially_reversible =
     factor_of ''reversibility_partial'' ''Partially reversible'' FK_penalty (- (3 / 100))
       ''Partial reversibility still leaves meaningful uncertainty about recovery quality.''"
| "reversibility_factors RV_irreversible =
     factor_of ''reversibility_irreversible'' ''Irreversible'' FK_penalty (- (12 / 100))
       ''Irreversible actions require conservative confidence handling.''"
| "reversibility_factors RV_unknown =
     factor_of ''reversibility_unknown'' ''Unknown reversibility'' FK_penalty (- (8 / 100))
       ''Unknown rollback characteristics reduce confidence in safe automation.''"

definition batch_factors :: "bool \<Rightarrow> confidence_factor list" where
  "batch_factors b =
     (if b then factor_of ''batch_effects'' ''Batch effects'' FK_penalty (- (6 / 100))
        ''Batch execution raises blast radius and makes partial failures harder to reason about.''
      else [])"

fun sensitivity_factors :: "sensitivity_hint \<Rightarrow> confidence_factor list" where
  "sensitivity_factors SN_moderate =
     factor_of ''sensitivity_moderate'' ''Moderate sensitivity'' FK_penalty (- (3 / 100))
       ''Moderately sensitive targets deserve more conservative confidence.''"
| "sensitivity_factors SN_high =
     factor_of ''sensitivity_high'' ''High sensitivity'' FK_penalty (- (7 / 100))
       ''Highly sensitive targets reduce tolerance for uncertainty.''"
| "sensitivity_factors SN_unknown =
     factor_of ''sensitivity_unknown'' ''Unknown sensitivity'' FK_penalty (- (4 / 100))
       ''Unknown sensitivity introduces avoidable uncertainty into autonomous execution.''"
| "sensitivity_factors SN_low = []"

fun credential_factors :: "credential_mode \<Rightarrow> confidence_factor list" where
  "credential_factors CM_direct =
     factor_of ''credentials_direct'' ''Direct credentials'' FK_penalty (- (12 / 100))
       ''Direct credentials bypass brokered controls and reduce operational trust.''"
| "credential_factors CM_delegated =
     factor_of ''credentials_delegated'' ''Delegated credentials'' FK_penalty (- (4 / 100))
       ''Delegated credentials are safer than direct credentials but still reduce local certainty.''"
| "credential_factors CM_brokered =
     factor_of ''credentials_brokered'' ''Brokered credentials'' FK_boost (1 / 100)
       ''Brokered credentials preserve policy control and auditability.''"
| "credential_factors _ = []"

fun surface_factors :: "execution_surface \<Rightarrow> confidence_factor list" where
  "surface_factors SF_governed_fs =
     factor_of ''surface_governed_fs'' ''Governed filesystem surface'' FK_boost (3 / 100)
       ''The governed filesystem surface exposes narrow, inspectable semantics.''"
| "surface_factors SF_provider_hosted =
     factor_of ''surface_provider_hosted'' ''Provider-hosted surface'' FK_penalty (- (8 / 100))
       ''Provider-hosted execution reduces local observability and rollback certainty.''"
| "surface_factors SF_mcp_proxy =
     factor_of ''surface_mcp_proxy'' ''MCP proxy surface'' FK_penalty (- (4 / 100))
       ''Remote tool mediation adds operational uncertainty compared with local governed execution.''"
| "surface_factors _ = []"

definition warning_factors :: "string list \<Rightarrow> confidence_factor list" where
  "warning_factors ws =
     (if ''opaque_execution'' \<in> set ws then
        factor_of ''warning_opaque_execution'' ''Opaque execution'' FK_penalty (- (12 / 100))
          ''Opaque execution hides effective scope and weakens confidence in autonomous handling.'' else []) @
     (if ''workspace_wide_effects'' \<in> set ws then
        factor_of ''warning_workspace_wide'' ''Workspace-wide effects'' FK_penalty (- (5 / 100))
          ''Workspace-wide effects reduce precision in scope and recovery planning.'' else []) @
     (if ''mcp_read_only_hint_untrusted'' \<in> set ws then
        factor_of ''warning_untrusted_mcp_hint'' ''Untrusted MCP hint'' FK_penalty (- (3 / 100))
          ''An unverified read-only hint should not materially raise trust.'' else [])"

text \<open>A facet that is not an object of the action's own domain is not read.\<close>

definition domain_facet :: "string \<Rightarrow> 'a normalized_action_scheme \<Rightarrow> string \<Rightarrow> jsval" where
  "domain_facet d a f =
     (case facet a d of JObj kvs \<Rightarrow> (if domain_of a = d then obj_get kvs f else JUndef) | _ \<Rightarrow> JUndef)"

definition function_factors :: "'a normalized_action_scheme \<Rightarrow> confidence_factor list" where
  "function_factors a =
     (if js_nonempty_string (domain_facet ''function'' a ''trusted_compensator'') then
        factor_of ''function_trusted_compensator'' ''Trusted compensator'' FK_boost (3 / 100)
          ''Trusted compensators improve recoverability and operator confidence.''
      else [])"

definition mcp_factors :: "'a normalized_action_scheme \<Rightarrow> confidence_factor list" where
  "mcp_factors a =
     (if domain_facet ''mcp'' a ''trust_tier_at_submit'' = JStr ''operator_owned'' then
        factor_of ''mcp_operator_owned'' ''Operator-owned MCP server'' FK_boost (2 / 100)
          ''Operator-owned MCP registrations are more trustworthy than anonymous remote tools.'' else []) @
     (if domain_facet ''mcp'' a ''drift_state_at_submit'' = JStr ''drifted'' then
        factor_of ''mcp_drifted'' ''Drifted MCP profile'' FK_penalty (- (8 / 100))
          ''Profile drift at submit time weakens confidence in the tool contract.'' else []) @
     (if domain_facet ''mcp'' a ''profile_status'' = JStr ''pending_approval'' then
        factor_of ''mcp_pending_profile'' ''Pending MCP profile approval'' FK_penalty (- (8 / 100))
          ''Pending MCP approval indicates that trust establishment is incomplete.'' else [])"

definition confidence_factors :: "'a normalized_action_scheme \<Rightarrow> confidence_factor list" where
  "confidence_factors a =
     baseline_factor a @ provenance_factors a @ scope_factors a @ side_effect_factors (side_effect a) @
     external_factors (rh_external_effects (risk a)) @ reversibility_factors (rh_reversibility_hint (risk a)) @
     batch_factors (rh_batch (risk a)) @ sensitivity_factors (rh_sensitivity_hint (risk a)) @
     credential_factors (ep_credential_mode (execution_path a)) @ surface_factors (ep_surface (execution_path a)) @
     warning_factors (nm_warnings (normalization a)) @ function_factors a @ mcp_factors a"

definition confidence_band_of :: "rat \<Rightarrow> confidence_band" where
  "confidence_band_of score =
     (if 85 / 100 \<le> score then CB_high else if 65 / 100 \<le> score then CB_guarded else CB_low)"

definition assessActionConfidence :: "'a normalized_action_scheme \<Rightarrow> confidence_assessment" where
  "assessActionConfidence a =
     (let factors = confidence_factors a;
          score = roundConfidence (foldl (\<lambda>s f. s + cf_delta f) 0 factors) in
      \<lparr>ca_engine_version = ACTION_CONFIDENCE_ENGINE_VERSION, ca_score = score, ca_band = confidence_band_of score,
       ca_requires_human_review =
         (score < 65 / 100 \<or> ''scope'' \<in> set (ts_unknowns (scope a)) \<or> side_effect a = SE_unknown \<or>
          ''opaque_execution'' \<in> set (nm_warnings (normalization a))),
       ca_factors = factors\<rparr>)"

definition withConfidenceAssessment :: "normalized_action \<Rightarrow> action_record" where
  "withConfidenceAssessment a = normalized_action.extend a (action_record.fields (assessActionConfidence a))"

end
