(* ===== verification/Normalize_Local.thy ===== *)
theory Normalize_Local
  imports Path_Containment Action_Confidence Js_Regex
begin

text \<open>
  Normalization of raw filesystem and shell attempts (\<open>packages/action-normalizer/src/index.ts\<close>).
  \<open>norm_env\<close> holds what the code takes from its surroundings: the working directory, the clock,
  the identifier of the new action, \<open>fs.realpathSync\<close>, SHA-256, \<open>JSON.stringify\<close>, the text of
  a number and \<open>localeCompare\<close>. A character is one code unit of at most two UTF-8 bytes.
\<close>

section \<open>Attempts\<close>

record raw_attempt =
  ra_run_id :: string
  ra_tool_name :: string
  ra_tool_kind :: string
  ra_raw_call :: "(string \<times> jsval) list"
  ra_workspace_roots :: "string list"
  ra_cwd :: "string option"
  ra_credential_mode :: "credential_mode option"
  ra_agent_name :: "string option"
  ra_agent_framework :: "string option"
  ra_received_at :: string

record norm_env =
  ne_cwd :: string
  ne_now :: string
  ne_action_id :: string
  ne_realpath :: realpath
  ne_sha256 :: "string \<Rightarrow> string"
  ne_stringify :: "jsval \<Rightarrow> string"
  ne_number_text :: "rat \<Rightarrow> string"
  ne_compare :: "string \<Rightarrow> string \<Rightarrow> int"

abbreviation "raw_field attempt k \<equiv> obj_get (ra_raw_call attempt) k"

definition opt_or :: "'a option \<Rightarrow> 'a \<Rightarrow> 'a" where
  "opt_or x d = (case x of None \<Rightarrow> d | Some v \<Rightarrow> v)"

fun js_String :: "(rat \<Rightarrow> string) \<Rightarrow> jsval \<Rightarrow> string" where
  "js_String nt JUndef = ''undefined''"
| "js_String nt JNull = ''null''"
| "js_String nt (JBool b) = (if b then ''true'' else ''false'')"
| "js_String nt (JNum n) = nt n"
| "js_String nt (JStr s) = s"
| "js_String nt (JArr xs) = js_join '','' (map (\<lambda>x. if js_nullish x then [] else js_String nt x) xs)"
| "js_String nt (JObj kvs) = ''[object Object]''"

definition utf8_length :: "string \<Rightarrow> int" where
  \<comment> \<open>\<open>Buffer.byteLength(s, "utf8")\<close>\<close>
  "utf8_length s = sum_list (map (\<lambda>c. if of_char c < (128 :: nat) then 1 else 2) s)"

text \<open>The fields every mapper fills in the same way.\<close>

definition base_action ::
  "norm_env \<Rightarrow> raw_attempt \<Rightarrow> string \<Rightarrow> rat \<Rightarrow> operation_info \<Rightarrow> execution_path_info \<Rightarrow> target_primary \<Rightarrow>
   target_scope \<Rightarrow> (string \<times> jsval) list \<Rightarrow> risk_hints \<Rightarrow> (string \<times> jsval) list \<Rightarrow> normalization_info \<Rightarrow> normalized_action" where
  "base_action env attempt sess prov op ep tp ts raw rk fct nm =
     \<lparr>action_id = ne_action_id env, run_id = ra_run_id attempt, session_id = sess,
      requested_at = ra_received_at attempt, normalized_at = ne_now env,
      provenance = \<lparr>pv_mode = PM_governed, pv_source = ''authority-sdk-ts'', pv_confidence = prov\<rparr>,
      actor = \<lparr>ac_type = AT_agent, ac_agent_name = ra_agent_name attempt, ac_agent_framework = ra_agent_framework attempt,
               ac_tool_name = ra_tool_name attempt, ac_tool_kind = ra_tool_kind attempt\<rparr>,
      operation = op, execution_path = ep, primary_target = tp, scope = ts,
      action_input = \<lparr>in_raw = raw, in_redacted = raw, in_schema_ref = None, in_contains_sensitive_data = False\<rparr>,
      risk = rk, facets = fct, normalization = nm\<rparr>"

section \<open>Filesystem\<close>

definition fs_side_effect :: "string \<Rightarrow> side_effect_level" where
  "fs_side_effect op =
     (if op = ''delete'' then SE_destructive
      else if op = ''write'' \<or> op = ''overwrite'' then SE_mutating else SE_unknown)"

definition normalizeFilesystemAttempt :: "norm_env \<Rightarrow> raw_attempt \<Rightarrow> string \<Rightarrow> normalized_action" where
  "normalizeFilesystemAttempt env attempt sess =
     (let op = js_String (ne_number_text env) (js_coalesce (raw_field attempt ''operation'') (JStr ''write''));
          raw_path = js_String (ne_number_text env) (js_coalesce (raw_field attempt ''path'') (JStr []));
          path = normalizePath (ne_cwd env) raw_path (ra_cwd attempt);
          bytes = utf8_length (js_string_or [] (raw_field attempt ''content''));
          inside = isPathInsideWorkspace (ne_realpath env) (ne_cwd env) path (ra_workspace_roots attempt) in
      base_action env attempt sess (if inside then 99 / 100 else 85 / 100)
        \<lparr>op_domain = ''filesystem'', op_kind = op, op_name = ''filesystem.'' @ op,
         op_display_name = Some (if op = ''delete'' then ''Delete file'' else ''Write file'')\<rparr>
        \<lparr>ep_surface = SF_governed_fs, ep_mode = EM_pre_execution,
         ep_credential_mode = opt_or (ra_credential_mode attempt) CM_none\<rparr>
        \<lparr>tp_type = ''path'', tp_locator = path, tp_label = Some (path_basename path)\<rparr>
        \<lparr>ts_breadth = SB_single, ts_estimated_count = Some 1, ts_unknowns = (if inside then [] else [''scope''])\<rparr>
        (ra_raw_call attempt)
        \<lparr>rh_side_effect_level = fs_side_effect op, rh_external_effects = EE_none,
         rh_reversibility_hint = (if op = ''delete'' then RV_potentially_reversible else RV_reversible),
         rh_sensitivity_hint = (if 262144 < bytes then SN_moderate else SN_low), rh_batch = False\<rparr>
        [(''filesystem'', JObj [(''operation'', JStr op), (''paths'', js_strs [path]), (''path_count'', JNum 1),
           (''recursive'', JBool False), (''overwrite'', JBool (op \<noteq> ''delete'')), (''byte_length'', JNum (of_int bytes))])]
        \<lparr>nm_mapper = ''filesystem/v1'', nm_inferred_fields = [''target.scope'', ''risk_hints''],
         nm_warnings = (if inside then [] else [''unknown_scope'']),
         nm_confidence = (if inside then 99 / 100 else 48 / 100)\<rparr>)"

section \<open>Classification of shell commands\<close>

definition SAFE_READ_ONLY_COMMANDS :: "string list" where
  "SAFE_READ_ONLY_COMMANDS = [''ls'', ''pwd'', ''cat'', ''head'', ''tail'', ''find'', ''rg'', ''wc'']"

definition SAFE_READ_ONLY_GIT_SUBCOMMANDS :: "string list" where
  "SAFE_READ_ONLY_GIT_SUBCOMMANDS = [''status'', ''diff'', ''log'', ''show'', ''rev-parse'', ''blame'']"

definition PACKAGE_MANAGER_COMMANDS :: "string list" where
  "PACKAGE_MANAGER_COMMANDS = [''npm'', ''pnpm'', ''yarn'', ''bun'', ''uv'', ''pip'', ''pip3'', ''poetry'']"

definition BUILD_TOOL_COMMANDS :: "string list" where
  "BUILD_TOOL_COMMANDS = [''make'', ''just'', ''cargo'', ''go'', ''dotnet'', ''gradle'', ''mvn'', ''vite'', ''webpack'', ''tsc'', ''turbo'']"

definition INTERPRETER_COMMANDS :: "string list" where
  "INTERPRETER_COMMANDS = [''python'', ''python3'', ''node'', ''bash'', ''sh'', ''zsh'', ''ruby'', ''php'']"

definition SHELL_READ_ONLY_PATH_COMMANDS :: "string list" where
  "SHELL_READ_ONLY_PATH_COMMANDS = [''ls'', ''cat'', ''head'', ''tail'', ''wc'']"

definition GIT_MUTATING_SUBCOMMANDS :: "string list" where
  "GIT_MUTATING_SUBCOMMANDS =
     [''checkout'', ''switch'', ''restore'', ''apply'', ''am'', ''commit'', ''merge'', ''rebase'', ''cherry-pick'', ''stash'']"

definition INSTALL_LIKE :: "string list" where
  "INSTALL_LIKE = [''install'', ''add'', ''update'', ''upgrade'', ''remove'', ''rm'', ''uninstall'', ''sync'']"

definition RUN_LIKE :: "string list" where
  "RUN_LIKE = [''run'', ''exec'', ''dlx'']"

record shell_classification =
  sl_family :: string
  sl_side_effect :: side_effect_level
  sl_reversibility :: reversibility_hint
  sl_external :: external_effect
  sl_sensitivity :: sensitivity_hint
  sl_batch :: bool
  sl_warnings :: "string list"
  sl_confidence :: rat
  sl_rule :: string

abbreviation shell_class ::
  "string \<Rightarrow> side_effect_level \<Rightarrow> reversibility_hint \<Rightarrow> external_effect \<Rightarrow> sensitivity_hint \<Rightarrow> bool \<Rightarrow> string list \<Rightarrow> rat \<Rightarrow> string \<Rightarrow> shell_classification" where
  "shell_class fam se rv ee sn b ws cf rl \<equiv>
     \<lparr>sl_family = fam, sl_side_effect = se, sl_reversibility = rv, sl_external = ee, sl_sensitivity = sn,
      sl_batch = b, sl_warnings = ws, sl_confidence = cf, sl_rule = rl\<rparr>"

definition argv_at :: "string list \<Rightarrow> nat \<Rightarrow> string \<Rightarrow> string" where
  \<comment> \<open>\<open>argv[i] ?? d\<close>\<close>
  "argv_at argv i d = (if i < length argv then argv ! i else d)"

definition git_destructive :: "string list \<Rightarrow> bool" where
  "git_destructive argv =
     (argv_at argv 1 [] = ''clean'' \<or> ''--hard'' \<in> set argv \<or> ''-fd'' \<in> set argv \<or> ''-fdx'' \<in> set argv \<or> ''-xdf'' \<in> set argv)"

definition classifyShellCommand :: "string list \<Rightarrow> shell_classification" where
  "classifyShellCommand argv =
     (let cmd = argv_at argv 0 ''unknown''; sub = argv_at argv 1 [] in
      if cmd \<in> set SAFE_READ_ONLY_COMMANDS then
        shell_class ''read_only_shell'' SE_read_only RV_reversible EE_none SN_low False [] (96 / 100) ''shell.read_only.core''
      else if cmd = ''git'' \<and> sub \<in> set SAFE_READ_ONLY_GIT_SUBCOMMANDS then
        shell_class ''version_control_read_only'' SE_read_only RV_reversible EE_none SN_low False [] (96 / 100) ''shell.git.read_only''
      else if cmd = ''rm'' then
        shell_class ''filesystem_primitive'' SE_destructive RV_potentially_reversible EE_none SN_moderate True [] (93 / 100) ''shell.fs.rm''
      else if cmd = ''mv'' \<or> cmd = ''cp'' then
        shell_class ''filesystem_primitive'' SE_mutating RV_potentially_reversible EE_none SN_low False [] (8 / 10) (''shell.fs.'' @ cmd)
      else if cmd = ''git'' \<and> (sub = ''reset'' \<or> sub = ''clean'') then
        (if git_destructive argv then
           shell_class ''version_control_mutating'' SE_destructive RV_potentially_reversible EE_none SN_high True [] (9 / 10) ''shell.git.destructive''
         else
           shell_class ''version_control_mutating'' SE_mutating RV_compensatable EE_none SN_moderate False
             [''workspace_wide_effects''] (78 / 100) ''shell.git.mutating'')
      else if cmd = ''git'' \<and> sub \<in> set GIT_MUTATING_SUBCOMMANDS then
        shell_class ''version_control_mutating'' SE_mutating RV_compensatable EE_none SN_moderate False
          [''workspace_wide_effects''] (76 / 100) ''shell.git.mutating''
      else if cmd \<in> set PACKAGE_MANAGER_COMMANDS then
        (let inst = sub \<in> set INSTALL_LIKE; rn = sub \<in> set RUN_LIKE in
         shell_class ''package_manager'' SE_mutating (if inst then RV_compensatable else RV_potentially_reversible)
           (if inst then EE_network else EE_none) (if inst then SN_moderate else SN_low) inst
           (if rn then [''opaque_execution'', ''workspace_wide_effects''] else [''workspace_wide_effects''])
           (if inst then 72 / 100 else 58 / 100) (if inst then ''shell.pkg.install_like'' else ''shell.pkg.run_like''))
      else if cmd \<in> set BUILD_TOOL_COMMANDS then
        shell_class ''build_tool'' SE_mutating RV_potentially_reversible EE_none SN_low True
          [''workspace_wide_effects''] (62 / 100) ''shell.build_tool''
      else if cmd \<in> set INTERPRETER_COMMANDS then
        shell_class ''interpreter'' SE_mutating RV_potentially_reversible EE_none SN_moderate False
          [''unknown_scope'', ''opaque_execution''] (29 / 100) ''shell.interpreter.opaque''
      else
        shell_class ''unclassified'' SE_mutating RV_potentially_reversible EE_none SN_moderate False
          [''unknown_scope'', ''opaque_execution''] (29 / 100) ''shell.unclassified'')"

definition shellDisplayName :: "string list \<Rightarrow> shell_classification \<Rightarrow> string" where
  "shellDisplayName argv cl =
     (let cmd = argv_at argv 0 ''command''; sub = argv_at argv 1 []; fam = sl_family cl in
      if fam = ''version_control_read_only'' then
        (if sub = ''status'' then ''Inspect git status'' else if sub = ''diff'' then ''Inspect git diff''
         else if sub = ''log'' then ''Inspect git history'' else ''Inspect git state'')
      else if fam = ''version_control_mutating'' then
        (if sub = ''reset'' then (if ''--hard'' \<in> set argv then ''Hard reset git state'' else ''Reset git state'')
         else if sub = ''checkout'' \<or> sub = ''switch'' then ''Switch git branch''
         else if sub = ''restore'' then ''Restore git-tracked files''
         else if sub = ''commit'' then ''Create git commit'' else ''Modify git state'')
      else if fam = ''filesystem_primitive'' then
        (if cmd = ''rm'' then ''Delete files'' else if cmd = ''mv'' then ''Move files''
         else if cmd = ''cp'' then ''Copy files'' else ''Mutate files'')
      else if fam = ''package_manager'' then
        (if sub \<in> {''install'', ''add'', ''sync''} then ''Install packages''
         else if sub \<in> {''remove'', ''rm'', ''uninstall''} then ''Remove packages''
         else if sub \<in> {''update'', ''upgrade''} then ''Update packages''
         else if sub \<in> set RUN_LIKE then ''Run '' @ cmd @ '' task'' else ''Manage packages'')
      else if fam = ''build_tool'' then ''Run build tool''
      else if fam = ''interpreter'' then ''Run '' @ cmd @ '' script''
      else if fam = ''read_only_shell'' then ''Inspect workspace with '' @ cmd
      else ''Run shell command'')"

section \<open>Paths of a shell command\<close>

definition looksLikePathOperand :: "string \<Rightarrow> bool" where
  "looksLikePathOperand v =
     (v \<noteq> [] \<and>
      (path_absolute v \<or> v = ''.'' \<or> v = ''..'' \<or> prefix ''./'' v \<or> prefix ''../'' v \<or> prefix ''~'' v \<or>
       CHR ''/'' \<in> set v \<or> prefix ''.'' v \<or> list_ex (\<lambda>c. c = CHR ''.'' \<or> c = CHR ''/'' \<or> c = CHR 0x5C) v))"

definition normalizeShellPathOperands :: "string \<Rightarrow> string list \<Rightarrow> string \<Rightarrow> string list" where
  "normalizeShellPathOperands proc_cwd raw_paths cwd =
     js_dedup (map (\<lambda>p. normalizePath proc_cwd p (Some cwd)) (filter (\<lambda>p. p \<noteq> []) (map js_trim raw_paths)))"

definition collectNonOptionOperands :: "string list \<Rightarrow> string list" where
  "collectNonOptionOperands argv = filter (\<lambda>v. \<not> prefix ''-'' v) (drop 1 argv)"

definition extractInterpreterPathOperands :: "string list \<Rightarrow> string list" where
  "extractInterpreterPathOperands argv =
     (case find (\<lambda>i. argv ! i = ''-e'' \<or> argv ! i = ''-c'') [1..<length argv] of
        Some i \<Rightarrow> filter looksLikePathOperand (drop (i + 2) argv)
      | None \<Rightarrow> filter looksLikePathOperand (drop 2 argv))"

definition extractShellPathOperands :: "string list \<Rightarrow> shell_classification \<Rightarrow> string list" where
  "extractShellPathOperands argv cl =
     (let cmd = argv_at argv 0 ''unknown''; operands = collectNonOptionOperands argv in
      if sl_family cl = ''read_only_shell'' then
        (if cmd = ''find'' then take 1 (filter looksLikePathOperand operands)
         else if cmd = ''rg'' then filter looksLikePathOperand (drop 1 operands)
         else if cmd \<in> set SHELL_READ_ONLY_PATH_COMMANDS then filter looksLikePathOperand operands
         else [])
      else if sl_family cl = ''filesystem_primitive'' then filter looksLikePathOperand operands
      else if sl_family cl = ''interpreter'' then extractInterpreterPathOperands argv
      else filter path_absolute (drop 1 argv))"

text \<open>The patterns carry the flag \<open>i\<close>: pattern and subject are compared in lower case.\<close>

definition lower_char :: "char \<Rightarrow> char" where
  "lower_char c = (if 65 \<le> (of_char c :: nat) \<and> (of_char c :: nat) \<le> 90 then char_of ((of_char c :: nat) + 32) else c)"

definition bslash :: string where
  "bslash = [CHR 0x5C]"

definition dotfile_pattern :: "string \<Rightarrow> string \<Rightarrow> string" where
  \<comment> \<open>\<open>(^|\/)\.name\<close> and what follows\<close>
  "dotfile_pattern name rest = ''(^|'' @ bslash @ ''/)'' @ bslash @ ''.'' @ name @ rest"

definition PROTECTED_SECRET_PATH_PATTERNS :: "string list" where
  "PROTECTED_SECRET_PATH_PATTERNS =
     [dotfile_pattern ''env'' (''('' @ bslash @ ''.[^/]+)?$''),
      dotfile_pattern ''npmrc'' ''$'', dotfile_pattern ''netrc'' ''$'',
      dotfile_pattern ''ssh'' (''('' @ bslash @ ''/|$)''), dotfile_pattern ''aws'' (''('' @ bslash @ ''/|$)''),
      dotfile_pattern ''gnupg'' (''('' @ bslash @ ''/|$)''), bslash @ ''.(pem|key)$'']"

definition CONTROL_SURFACE_PATH_PATTERNS :: "string list" where
  "CONTROL_SURFACE_PATH_PATTERNS =
     [dotfile_pattern ''claude'' (''('' @ bslash @ ''/|$)''), dotfile_pattern ''codex'' (''('' @ bslash @ ''/|$)''),
      dotfile_pattern ''agentgit'' (''('' @ bslash @ ''/|$)''), dotfile_pattern (''mcp'' @ bslash @ ''.json'') ''$'']"

definition matches_any :: "string list \<Rightarrow> string \<Rightarrow> bool" where
  "matches_any patterns p = list_ex (\<lambda>r. js_regex_test r (map lower_char p) = Some True) patterns"

definition isProtectedSecretPath :: "string \<Rightarrow> bool" where
  "isProtectedSecretPath p = matches_any PROTECTED_SECRET_PATH_PATTERNS p"

definition isControlSurfacePath :: "string \<Rightarrow> bool" where
  "isControlSurfacePath p = matches_any CONTROL_SURFACE_PATH_PATTERNS p"

record shell_path_analysis =
  sp_extracted :: "string list"
  sp_inside :: "string list"
  sp_outside :: "string list"
  sp_protected :: "string list"
  sp_control :: "string list"
  sp_primary :: "string option"
  sp_breadth :: scope_breadth
  sp_unknowns :: "string list"

definition choosePrimaryShellPath :: "string list \<Rightarrow> string list \<Rightarrow> string list \<Rightarrow> string list \<Rightarrow> string option" where
  "choosePrimaryShellPath outside protected ctrl extracted =
     (if outside \<noteq> [] then js_head outside
      else if protected \<noteq> [] then js_head protected
      else if ctrl \<noteq> [] then js_head ctrl
      else js_head extracted)"

definition analyzeShellPaths ::
  "norm_env \<Rightarrow> string list \<Rightarrow> string \<Rightarrow> string list \<Rightarrow> shell_classification \<Rightarrow> shell_path_analysis" where
  "analyzeShellPaths env argv cwd roots cl =
     (let extracted = normalizeShellPathOperands (ne_cwd env) (extractShellPathOperands argv cl) cwd;
          inside = filter (\<lambda>p. isPathInsideWorkspace (ne_realpath env) (ne_cwd env) p roots) extracted;
          outside = filter (\<lambda>p. p \<notin> set inside) extracted;
          protected = filter isProtectedSecretPath extracted;
          ctrl = filter isControlSurfacePath extracted;
          opaque = ''unknown_scope'' \<in> set (sl_warnings cl) in
      \<lparr>sp_extracted = extracted, sp_inside = inside, sp_outside = outside, sp_protected = protected, sp_control = ctrl,
       sp_primary = (if extracted = [] then None else choosePrimaryShellPath outside protected ctrl extracted),
       sp_breadth = (if outside \<noteq> [] then SB_external
         else if length extracted = 1 then SB_single
         else if 1 < length extracted then SB_set
         else if opaque then SB_unknown else SB_workspace),
       sp_unknowns = (if extracted = [] \<and> opaque then [''scope'', ''target_count''] else [])\<rparr>)"

section \<open>Shell attempts\<close>

text \<open>\<open>s.split(/\s+/)\<close> of a trimmed string.\<close>

function split_spaces :: "string \<Rightarrow> string list" where
  "split_spaces [] = [[]]"
| "split_spaces (c # s) =
     (if js_space c then [] # split_spaces (dropWhile js_space s)
      else case split_spaces s of [] \<Rightarrow> [[c]] | w # ws \<Rightarrow> (c # w) # ws)"
  by pat_completeness auto
termination by (relation "measure length") (auto intro: le_imp_less_Suc length_dropWhile_le)

definition shell_argv :: "norm_env \<Rightarrow> raw_attempt \<Rightarrow> string list" where
  "shell_argv env attempt =
     (case raw_field attempt ''argv'' of
        JArr vs \<Rightarrow> map (js_String (ne_number_text env)) vs
      | _ \<Rightarrow> (case raw_field attempt ''command'' of JStr s \<Rightarrow> split_spaces (js_trim s) | _ \<Rightarrow> []))"

definition shell_cwd :: "norm_env \<Rightarrow> raw_attempt \<Rightarrow> string" where
  "shell_cwd env attempt = opt_or (ra_cwd attempt) (opt_or (js_head (ra_workspace_roots attempt)) (ne_cwd env))"

definition shell_warnings :: "shell_classification \<Rightarrow> shell_path_analysis \<Rightarrow> string list" where
  "shell_warnings cl pa =
     js_dedup (sl_warnings cl) @
     (if sp_outside pa \<noteq> [] then [''outside_workspace''] else []) @
     (if sp_protected pa \<noteq> [] then [''protected_target''] else []) @
     (if sp_control pa \<noteq> [] then [''control_surface_target''] else [])"

definition shell_normalization_confidence :: "shell_classification \<Rightarrow> shell_path_analysis \<Rightarrow> rat" where
  "shell_normalization_confidence cl pa =
     (if sp_outside pa \<noteq> [] then min (sl_confidence cl) (7 / 10)
      else if sp_extracted pa \<noteq> [] then max (sl_confidence cl) (9 / 10) else sl_confidence cl)"

definition shell_provenance_confidence :: "shell_classification \<Rightarrow> shell_path_analysis \<Rightarrow> rat" where
  "shell_provenance_confidence cl pa =
     (if sp_outside pa \<noteq> [] then 7 / 10 else if sp_extracted pa \<noteq> [] then 99 / 100 else sl_confidence cl)"

definition shell_facet :: "string list \<Rightarrow> string \<Rightarrow> shell_classification \<Rightarrow> shell_path_analysis \<Rightarrow> jsval" where
  "shell_facet argv cwd cl pa = JObj
     [(''argv'', js_strs argv), (''cwd'', JStr cwd), (''interpreter'', JStr (argv_at argv 0 ''unknown'')),
      (''command_family'', JStr (sl_family cl)), (''classifier_rule'', JStr (sl_rule cl)),
      (''target_paths'', js_strs (sp_extracted pa)), (''inside_workspace_paths'', js_strs (sp_inside pa)),
      (''outside_workspace_paths'', js_strs (sp_outside pa)), (''protected_paths'', js_strs (sp_protected pa)),
      (''control_surface_paths'', js_strs (sp_control pa)), (''declared_env_keys'', js_strs []),
      (''stdin_kind'', JStr ''none'')]"

definition normalizeShellAttempt :: "norm_env \<Rightarrow> raw_attempt \<Rightarrow> string \<Rightarrow> normalized_action" where
  "normalizeShellAttempt env attempt sess =
     (let argv = shell_argv env attempt; cwd = shell_cwd env attempt; cl = classifyShellCommand argv;
          pa = analyzeShellPaths env argv cwd (ra_workspace_roots attempt) cl;
          locator = opt_or (sp_primary pa) cwd in
      base_action env attempt sess (shell_provenance_confidence cl pa)
        \<lparr>op_domain = ''shell'', op_kind = ''exec'', op_name = ''shell.exec'', op_display_name = Some (shellDisplayName argv cl)\<rparr>
        \<lparr>ep_surface = SF_governed_shell, ep_mode = EM_pre_execution,
         ep_credential_mode = opt_or (ra_credential_mode attempt) CM_none\<rparr>
        \<lparr>tp_type = (if sp_primary pa \<notin> {None, Some []} then ''path'' else ''workspace''), tp_locator = locator,
         tp_label = Some (path_basename locator)\<rparr>
        \<lparr>ts_breadth = sp_breadth pa,
         ts_estimated_count = (if sp_extracted pa \<noteq> [] then Some (length (sp_extracted pa)) else None),
         ts_unknowns = sp_unknowns pa\<rparr>
        (ra_raw_call attempt)
        \<lparr>rh_side_effect_level = sl_side_effect cl, rh_external_effects = sl_external cl,
         rh_reversibility_hint = sl_reversibility cl,
         rh_sensitivity_hint = (if sp_protected pa \<noteq> [] \<or> sp_control pa \<noteq> [] \<or> sp_outside pa \<noteq> [] then SN_high else sl_sensitivity cl),
         rh_batch = sl_batch cl\<rparr>
        [(''shell'', shell_facet argv cwd cl pa)]
        \<lparr>nm_mapper = ''shell/v1'', nm_inferred_fields = [''risk_hints'', ''target.primary'', ''target.scope''],
         nm_warnings = shell_warnings cl pa, nm_confidence = shell_normalization_confidence cl pa\<rparr>)"

end
