(* ===== verification/Normalize_Remote.thy ===== *)
theory Normalize_Remote
  imports Normalize_Local "HOL-Library.List_Lexorder" "HOL-Library.Char_ord"
begin

text \<open>
  Normalization of MCP tool calls and owned functions, and the entry point
  \<open>normalizeActionAttempt\<close> (\<open>packages/action-normalizer/src/index.ts\<close>). The checks of a function call
  are the list of its conditions and messages in their order; the first that holds is thrown.
\<close>

section \<open>Shared helpers\<close>

definition hex_digit :: "nat \<Rightarrow> char" where
  "hex_digit n = (if n < 10 then char_of (n + 48) else char_of (n + 55))"

definition percent :: "nat \<Rightarrow> string" where
  "percent n = ''%'' @ [hex_digit (n div 16), hex_digit (n mod 16)]"

definition uri_unreserved :: "char \<Rightarrow> bool" where
  "uri_unreserved c =
     (let n = (of_char c :: nat) in
      48 \<le> n \<and> n \<le> 57 \<or> 65 \<le> n \<and> n \<le> 90 \<or> 97 \<le> n \<and> n \<le> 122 \<or> c \<in> set ''-_.!~*()'' \<or> n = 39)"

definition encodeURIComponent :: "string \<Rightarrow> string" where
  "encodeURIComponent s =
     concat (map (\<lambda>c. let n = (of_char c :: nat) in
       if uri_unreserved c then [c]
       else if n < 128 then percent n
       else percent (192 + n div 64) @ percent (128 + n mod 64)) s)"

fun sortJsonValue :: "(string \<Rightarrow> string \<Rightarrow> int) \<Rightarrow> jsval \<Rightarrow> jsval" where
  "sortJsonValue cmp (JArr xs) = JArr (map (sortJsonValue cmp) xs)"
| "sortJsonValue cmp (JObj kvs) =
     JObj (js_sort (\<lambda>x y. cmp (fst x) (fst y)) (map (\<lambda>kv. (fst kv, sortJsonValue cmp (snd kv))) kvs))"
| "sortJsonValue cmp v = v"

definition stableJsonHash :: "norm_env \<Rightarrow> jsval \<Rightarrow> string" where
  "stableJsonHash env v = ne_sha256 env (ne_stringify env (sortJsonValue (ne_compare env) v))"

definition js_fields :: "jsval \<Rightarrow> (string \<times> jsval) list option" where
  \<comment> \<open>\<open>isRecord(v) ? v : null\<close>\<close>
  "js_fields v = (case v of JObj kvs \<Rightarrow> Some kvs | _ \<Rightarrow> None)"

definition trimmed_field :: "raw_attempt \<Rightarrow> string \<Rightarrow> string" where
  \<comment> \<open>\<open>typeof v === "string" ? v.trim() : ""\<close>\<close>
  "trimmed_field attempt k = js_trim (js_string_or [] (raw_field attempt k))"

definition literal_of :: "string list \<Rightarrow> jsval \<Rightarrow> string option" where
  \<comment> \<open>\<open>v === a || v === b ... ? v : null\<close>\<close>
  "literal_of names v = (case v of JStr s \<Rightarrow> (if s \<in> set names then Some s else None) | _ \<Rightarrow> None)"

definition opt_field :: "string \<Rightarrow> string option \<Rightarrow> (string \<times> jsval) list" where
  "opt_field k v = (case v of None \<Rightarrow> [] | Some s \<Rightarrow> [(k, JStr s)])"

definition null_or_str :: "string option \<Rightarrow> jsval" where
  "null_or_str v = (case v of None \<Rightarrow> JNull | Some s \<Rightarrow> JStr s)"

definition nonempty_field :: "string \<Rightarrow> string \<Rightarrow> (string \<times> jsval) list" where
  "nonempty_field k v = (if v \<noteq> [] then [(k, JStr v)] else [])"

section \<open>MCP\<close>

definition EXECUTION_MODES :: "string list" where
  "EXECUTION_MODES = [''local_proxy'', ''hosted_delegated'']"

record mcp_raw =
  mr_server_id :: string
  mr_profile_id :: string
  mr_candidate_id :: string
  mr_tool_name :: string
  mr_arguments :: "(string \<times> jsval) list"
  mr_annotations :: "(string \<times> jsval) list option"
  mr_input_schema :: "(string \<times> jsval) list option"
  mr_mode :: "string option"
  mr_trust_tier :: "string option"
  mr_drift :: "string option"
  mr_binding :: "string option"
  mr_status :: "string option"
  mr_source_kind :: "string option"
  mr_allowed_modes :: "string list"

definition read_mcp_call :: "raw_attempt \<Rightarrow> ag_error + mcp_raw" where
  "read_mcp_call attempt =
     (let args = js_coalesce (raw_field attempt ''arguments'') (JObj []) in
      if trimmed_field attempt ''server_id'' = [] then
        Inl (ValidationError ''MCP tool execution requires a non-empty server_id.'')
      else if trimmed_field attempt ''tool_name'' = [] then
        Inl (ValidationError ''MCP tool execution requires a non-empty tool_name.'')
      else (case js_fields args of
        None \<Rightarrow> Inl (ValidationError ''MCP tool execution requires arguments to be a JSON object.'')
      | Some kvs \<Rightarrow> Inr
          \<lparr>mr_server_id = trimmed_field attempt ''server_id'', mr_profile_id = trimmed_field attempt ''server_profile_id'',
           mr_candidate_id = trimmed_field attempt ''candidate_id'', mr_tool_name = trimmed_field attempt ''tool_name'',
           mr_arguments = kvs, mr_annotations = js_fields (raw_field attempt ''annotations''),
           mr_input_schema = js_fields (raw_field attempt ''input_schema''),
           mr_mode = literal_of EXECUTION_MODES (raw_field attempt ''execution_mode_requested''),
           mr_trust_tier = literal_of [''operator_owned'', ''publisher_verified'', ''operator_approved_public'']
             (raw_field attempt ''trust_tier_at_submit''),
           mr_drift = literal_of [''clean'', ''drifted'', ''unknown''] (raw_field attempt ''drift_state_at_submit''),
           mr_binding = literal_of [''oauth_session'', ''derived_token'', ''bearer_secret_ref'', ''session_token'',
             ''hosted_token_exchange''] (raw_field attempt ''credential_binding_mode''),
           mr_status = literal_of [''draft'', ''pending_approval'', ''active'', ''quarantined'', ''revoked'']
             (raw_field attempt ''profile_status''),
           mr_source_kind = literal_of [''operator_seeded'', ''user_input'', ''agent_discovered'', ''catalog_import'']
             (raw_field attempt ''candidate_source_kind''),
           mr_allowed_modes = (case raw_field attempt ''allowed_execution_modes'' of
               JArr vs \<Rightarrow> js_dedup (List.map_filter (literal_of EXECUTION_MODES) vs) | _ \<Rightarrow> [])\<rparr>))"

definition declaredReadOnlyHint :: "mcp_raw \<Rightarrow> bool option" where
  "declaredReadOnlyHint m =
     (case mr_annotations m of
        None \<Rightarrow> None
      | Some kvs \<Rightarrow>
          (case obj_get kvs ''readOnlyHint'' of
             JBool b \<Rightarrow> Some b
           | _ \<Rightarrow> (case obj_get kvs ''read_only_hint'' of JBool b \<Rightarrow> Some b | _ \<Rightarrow> None)))"

definition mcp_raw_call :: "mcp_raw \<Rightarrow> (string \<times> jsval) list" where
  "mcp_raw_call m =
     [(''server_id'', JStr (mr_server_id m))] @ nonempty_field ''server_profile_id'' (mr_profile_id m) @
     nonempty_field ''candidate_id'' (mr_candidate_id m) @
     [(''tool_name'', JStr (mr_tool_name m)), (''arguments'', JObj (mr_arguments m))] @
     (case mr_annotations m of None \<Rightarrow> [] | Some kvs \<Rightarrow> [(''annotations'', JObj kvs)]) @
     (case mr_input_schema m of None \<Rightarrow> [] | Some kvs \<Rightarrow> [(''input_schema'', JObj kvs)]) @
     opt_field ''execution_mode_requested'' (mr_mode m) @ opt_field ''trust_tier_at_submit'' (mr_trust_tier m) @
     opt_field ''drift_state_at_submit'' (mr_drift m) @ opt_field ''credential_binding_mode'' (mr_binding m) @
     opt_field ''profile_status'' (mr_status m) @ opt_field ''candidate_source_kind'' (mr_source_kind m) @
     (if mr_allowed_modes m \<noteq> [] then [(''allowed_execution_modes'', js_strs (mr_allowed_modes m))] else [])"

definition toolLocator :: "mcp_raw \<Rightarrow> string" where
  "toolLocator m = ''mcp://server/'' @ encodeURIComponent (mr_server_id m) @ ''/tools/'' @ encodeURIComponent (mr_tool_name m)"

definition mcp_facet_json :: "norm_env \<Rightarrow> mcp_raw \<Rightarrow> jsval" where
  "mcp_facet_json env m = JObj
     ([(''server_id'', JStr (mr_server_id m))] @ nonempty_field ''server_profile_id'' (mr_profile_id m) @
      nonempty_field ''candidate_id'' (mr_candidate_id m) @
      [(''tool_name'', JStr (mr_tool_name m)), (''tool_locator'', JStr (toolLocator m)),
       (''argument_keys'', js_strs (sort (map fst (mr_arguments m)))),
       (''arguments_sha256'', JStr (stableJsonHash env (JObj (mr_arguments m)))),
       (''input_schema_sha256'', (case mr_input_schema m of None \<Rightarrow> JNull | Some kvs \<Rightarrow> JStr (stableJsonHash env (JObj kvs)))),
       (''annotations'', (case mr_annotations m of None \<Rightarrow> JNull | Some kvs \<Rightarrow> JObj kvs)),
       (''declared_read_only_hint'', (case declaredReadOnlyHint m of None \<Rightarrow> JNull | Some b \<Rightarrow> JBool b)),
       (''execution_mode_requested'', null_or_str (mr_mode m)), (''trust_tier_at_submit'', null_or_str (mr_trust_tier m)),
       (''drift_state_at_submit'', null_or_str (mr_drift m)), (''credential_binding_mode'', null_or_str (mr_binding m)),
       (''profile_status'', null_or_str (mr_status m)), (''candidate_source_kind'', null_or_str (mr_source_kind m)),
       (''allowed_execution_modes'', js_strs (mr_allowed_modes m))])"

definition mcp_credential_mode :: "raw_attempt \<Rightarrow> mcp_raw \<Rightarrow> credential_mode" where
  "mcp_credential_mode attempt m =
     (if mr_mode m = Some ''hosted_delegated'' then CM_delegated
      else if mr_binding m \<noteq> None then CM_brokered
      else opt_or (ra_credential_mode attempt) CM_unknown)"

definition normalizeMcpAttempt :: "norm_env \<Rightarrow> raw_attempt \<Rightarrow> string \<Rightarrow> ag_error + normalized_action" where
  "normalizeMcpAttempt env attempt sess =
     (case read_mcp_call attempt of
        Inl e \<Rightarrow> Inl e
      | Inr m \<Rightarrow> Inr (base_action env attempt sess (9 / 10)
          \<lparr>op_domain = ''mcp'', op_kind = ''call_tool'', op_name = ''mcp.'' @ mr_server_id m @ ''.'' @ mr_tool_name m,
           op_display_name = Some (''Call MCP tool '' @ mr_server_id m @ ''/'' @ mr_tool_name m)\<rparr>
          \<lparr>ep_surface = (if mr_mode m = Some ''hosted_delegated'' then SF_provider_hosted else SF_mcp_proxy),
           ep_mode = EM_pre_execution, ep_credential_mode = mcp_credential_mode attempt m\<rparr>
          \<lparr>tp_type = ''external_object'', tp_locator = toolLocator m,
           tp_label = Some (mr_server_id m @ ''/'' @ mr_tool_name m)\<rparr>
          \<lparr>ts_breadth = SB_single, ts_estimated_count = Some 1, ts_unknowns = []\<rparr>
          (mcp_raw_call m)
          \<lparr>rh_side_effect_level = SE_unknown, rh_external_effects = EE_network, rh_reversibility_hint = RV_unknown,
           rh_sensitivity_hint = SN_moderate, rh_batch = False\<rparr>
          [(''mcp'', mcp_facet_json env m)]
          \<lparr>nm_mapper = ''mcp/v1'', nm_inferred_fields = [''target.primary'', ''risk_hints'', ''facets.mcp.arguments_sha256''],
           nm_warnings = (if declaredReadOnlyHint m = None then [] else [''mcp_read_only_hint_untrusted'']),
           nm_confidence = 91 / 100\<rparr>))"

section \<open>Owned functions\<close>

definition DRAFT_OPERATIONS :: "string list" where
  "DRAFT_OPERATIONS = [''create_draft'', ''archive_draft'', ''delete_draft'', ''unarchive_draft'', ''update_draft'',
     ''restore_draft'', ''add_label'', ''remove_label'']"

definition NOTE_OPERATIONS :: "string list" where
  "NOTE_OPERATIONS = [''create_note'', ''archive_note'', ''unarchive_note'', ''update_note'', ''restore_note'', ''delete_note'']"

definition TICKET_OPERATIONS :: "string list" where
  "TICKET_OPERATIONS = [''create_ticket'', ''update_ticket'', ''delete_ticket'', ''restore_ticket'', ''close_ticket'',
     ''reopen_ticket'', ''add_label'', ''remove_label'', ''assign_user'', ''unassign_user'']"

definition supported_function :: "string \<Rightarrow> string \<Rightarrow> bool" where
  "supported_function integ op =
     (integ = ''drafts'' \<and> op \<in> set DRAFT_OPERATIONS \<or> integ = ''notes'' \<and> op \<in> set NOTE_OPERATIONS \<or>
      integ = ''tickets'' \<and> op \<in> set TICKET_OPERATIONS)"

text \<open>\<open>normalizeStringArray\<close> and \<open>normalizeDraftRestoreLabels\<close> differ in the message only.\<close>

definition string_array :: "string \<Rightarrow> jsval \<Rightarrow> ag_error + string list" where
  "string_array message v =
     (case v of
        JUndef \<Rightarrow> Inr []
      | JArr vs \<Rightarrow>
          (if list_ex (\<lambda>x. js_string_opt x = None) vs then Inl (ValidationError message)
           else (let ws = map (\<lambda>x. js_trim (js_string_or [] x)) vs in
                 if list_ex (\<lambda>w. w = []) ws then Inl (ValidationError message) else Inr (js_dedup ws)))
      | _ \<Rightarrow> Inl (ValidationError message))"

definition normalizeStringArray :: "jsval \<Rightarrow> string \<Rightarrow> ag_error + string list" where
  "normalizeStringArray v field_name =
     string_array (''Ticket restore '' @ field_name @ '' must be an array of non-empty strings.'') v"

definition normalizeDraftRestoreLabels :: "jsval \<Rightarrow> ag_error + string list" where
  "normalizeDraftRestoreLabels v = string_array ''Draft restore labels must be an array of non-empty strings.'' v"

definition isDirectRestoreTicketStatus :: "string \<Rightarrow> bool" where
  "isDirectRestoreTicketStatus s = (s = ''active'' \<or> s = ''closed'')"

definition isDirectRestoreDraftStatus :: "string \<Rightarrow> bool" where
  "isDirectRestoreDraftStatus s = (s = ''active'' \<or> s = ''archived'' \<or> s = ''deleted'')"

definition isDirectRestoreNoteStatus :: "string \<Rightarrow> bool" where
  "isDirectRestoreNoteStatus s = (s = ''active'' \<or> s = ''archived'' \<or> s = ''deleted'')"

record fn_call =
  fn_integration :: string
  fn_operation :: string
  fn_subject :: "string option"
  fn_body :: "string option"
  fn_title :: "string option"
  fn_status :: "string option"
  fn_label :: string
  fn_user_id :: string
  fn_draft_labels :: "string list"
  fn_labels :: "string list"
  fn_assigned_users :: "string list"
  fn_draft_id :: string
  fn_note_id :: string
  fn_ticket_id :: string

abbreviation "fn_text v \<equiv> opt_or v []"

definition read_fn_arrays :: "raw_attempt \<Rightarrow> string \<Rightarrow> string \<Rightarrow> ag_error + string list \<times> string list \<times> string list" where
  "read_fn_arrays attempt integ op =
     (case (if integ = ''drafts'' \<and> op = ''restore_draft'' then normalizeDraftRestoreLabels (raw_field attempt ''labels'') else Inr []) of
        Inl e \<Rightarrow> Inl e
      | Inr dl \<Rightarrow>
          (if integ = ''tickets'' \<and> op = ''restore_ticket'' then
             (case normalizeStringArray (raw_field attempt ''labels'') ''labels'' of
                Inl e \<Rightarrow> Inl e
              | Inr ls \<Rightarrow>
                  (case normalizeStringArray (raw_field attempt ''assigned_users'') ''assigned_users'' of
                     Inl e \<Rightarrow> Inl e | Inr us \<Rightarrow> Inr (dl, ls, us)))
           else Inr (dl, [], [])))"

definition read_fn_call :: "norm_env \<Rightarrow> raw_attempt \<Rightarrow> ag_error + fn_call" where
  "read_fn_call env attempt =
     (let integ = js_string_or [] (raw_field attempt ''integration''); op = js_string_or [] (raw_field attempt ''operation'');
          str = (\<lambda>k. js_string_opt (raw_field attempt k)) in
      if \<not> supported_function integ op then Inl (ValidationError ''Unsupported function action.'')
      else (case read_fn_arrays attempt integ op of
        Inl e \<Rightarrow> Inl e
      | Inr (dl, ls, us) \<Rightarrow> Inr
          \<lparr>fn_integration = integ, fn_operation = op, fn_subject = str ''subject'', fn_body = str ''body'',
           fn_title = str ''title'', fn_status = map_option js_trim (str ''status''),
           fn_label = trimmed_field attempt ''label'', fn_user_id = trimmed_field attempt ''user_id'',
           fn_draft_labels = dl, fn_labels = ls, fn_assigned_users = us,
           fn_draft_id = (if op = ''create_draft'' then ''draft_'' @ ne_action_id env else trimmed_field attempt ''draft_id''),
           fn_note_id = (if op = ''create_note'' then ''note_'' @ ne_action_id env else trimmed_field attempt ''note_id''),
           fn_ticket_id = (if op = ''create_ticket'' \<and> trimmed_field attempt ''ticket_id'' = []
             then ''ticket_'' @ ne_action_id env else trimmed_field attempt ''ticket_id'')\<rparr>))"

definition blank :: "string option \<Rightarrow> bool" where
  "blank v = (js_trim (fn_text v) = [])"

definition note_checks :: "fn_call \<Rightarrow> (bool \<times> string) list" where
  "note_checks c =
     (let op = fn_operation c in
      [(op \<in> {''archive_note'', ''unarchive_note'', ''update_note'', ''restore_note'', ''delete_note''} \<and> fn_note_id c = [],
        if op = ''archive_note'' then ''Note archive requires a non-empty note_id.''
        else if op = ''unarchive_note'' then ''Note unarchive requires a non-empty note_id.''
        else if op = ''update_note'' then ''Note update requires a non-empty note_id.''
        else if op = ''restore_note'' then ''Note restore requires a non-empty note_id.''
        else ''Note delete requires a non-empty note_id.''),
       (op \<in> {''create_note'', ''update_note''} \<and> fn_title c \<noteq> None \<and> blank (fn_title c), ''Note title must be non-empty when provided.''),
       (op = ''update_note'' \<and> fn_title c = None \<and> fn_body c = None, ''Note update requires at least one mutable field.''),
       (op = ''restore_note'' \<and> blank (fn_title c), ''Note restore requires a non-empty title.''),
       (op = ''restore_note'' \<and> fn_body c = None, ''Note restore requires a body string.''),
       (op = ''restore_note'' \<and> fn_status c = None, ''Note restore requires a target status.''),
       (op = ''restore_note'' \<and> \<not> isDirectRestoreNoteStatus (fn_text (fn_status c)),
        ''Note restore status must be either active, archived, or deleted.'')])"

definition ticket_checks :: "fn_call \<Rightarrow> (bool \<times> string) list" where
  "ticket_checks c =
     (let op = fn_operation c; tickets = (fn_integration c = ''tickets''); no_id = (fn_ticket_id c = []) in
      [(op = ''create_ticket'' \<and> blank (fn_title c), ''Ticket creation requires a non-empty title.''),
       (op = ''update_ticket'' \<and> no_id, ''Ticket update requires a non-empty ticket_id.''),
       (op \<in> {''delete_ticket'', ''restore_ticket'', ''close_ticket'', ''reopen_ticket''} \<and> no_id,
        if op = ''delete_ticket'' then ''Ticket delete requires a non-empty ticket_id.''
        else if op = ''restore_ticket'' then ''Ticket restore requires a non-empty ticket_id.''
        else if op = ''close_ticket'' then ''Ticket close requires a non-empty ticket_id.''
        else ''Ticket reopen requires a non-empty ticket_id.''),
       (tickets \<and> op \<in> {''add_label'', ''remove_label''} \<and> no_id,
        if op = ''add_label'' then ''Ticket labeling requires a non-empty ticket_id.''
        else ''Ticket label removal requires a non-empty ticket_id.''),
       (tickets \<and> op \<in> {''assign_user'', ''unassign_user''} \<and> no_id,
        if op = ''assign_user'' then ''Ticket assignment requires a non-empty ticket_id.''
        else ''Ticket unassignment requires a non-empty ticket_id.''),
       (op = ''update_ticket'' \<and> fn_title c = None \<and> fn_body c = None, ''Ticket update requires at least one mutable field.''),
       (op = ''update_ticket'' \<and> fn_title c \<noteq> None \<and> blank (fn_title c), ''Ticket title must be non-empty when provided.''),
       (op = ''restore_ticket'' \<and> blank (fn_title c), ''Ticket restore requires a non-empty title.''),
       (op = ''restore_ticket'' \<and> fn_body c = None, ''Ticket restore requires a body string.''),
       (op = ''restore_ticket'' \<and> fn_status c = None, ''Ticket restore requires a target status.''),
       (op = ''restore_ticket'' \<and> \<not> isDirectRestoreTicketStatus (fn_text (fn_status c)),
        ''Ticket restore status must be either active or closed.'')])"

definition draft_checks :: "fn_call \<Rightarrow> (bool \<times> string) list" where
  "draft_checks c =
     (let op = fn_operation c; drafts = (fn_integration c = ''drafts''); tickets = (fn_integration c = ''tickets'');
          no_id = (fn_draft_id c = []) in
      [(op = ''archive_draft'' \<and> no_id, ''Draft archive requires a non-empty draft_id.''),
       (op = ''delete_draft'' \<and> no_id, ''Draft delete requires a non-empty draft_id.''),
       (op = ''unarchive_draft'' \<and> no_id, ''Draft unarchive requires a non-empty draft_id.''),
       (op = ''update_draft'' \<and> no_id, ''Draft update requires a non-empty draft_id.''),
       (op = ''restore_draft'' \<and> no_id, ''Draft restore requires a non-empty draft_id.''),
       (op = ''update_draft'' \<and> fn_subject c = None \<and> fn_body c = None, ''Draft update requires at least one mutable field.''),
       (drafts \<and> op = ''add_label'' \<and> no_id, ''Draft labeling requires a non-empty draft_id.''),
       (drafts \<and> op = ''remove_label'' \<and> no_id, ''Draft label removal requires a non-empty draft_id.''),
       (op \<in> {''add_label'', ''remove_label''} \<and> fn_label c = [],
        if tickets then (if op = ''add_label'' then ''Ticket labeling requires a non-empty label.''
          else ''Ticket label removal requires a non-empty label.'')
        else ''Draft labeling requires a non-empty label.''),
       (tickets \<and> op \<in> {''assign_user'', ''unassign_user''} \<and> fn_user_id c = [],
        if op = ''assign_user'' then ''Ticket assignment requires a non-empty user_id.''
        else ''Ticket unassignment requires a non-empty user_id.''),
       (op = ''restore_draft'' \<and> blank (fn_subject c), ''Draft restore requires a non-empty subject.''),
       (op = ''restore_draft'' \<and> fn_body c = None, ''Draft restore requires a body string.''),
       (op = ''restore_draft'' \<and> fn_status c = None, ''Draft restore requires a target status.''),
       (op = ''restore_draft'' \<and> \<not> isDirectRestoreDraftStatus (fn_text (fn_status c)),
        ''Draft restore status must be either active, archived, or deleted.'')])"

definition function_checks :: "fn_call \<Rightarrow> (bool \<times> string) list" where
  "function_checks c =
     [(fn_operation c \<in> {''create_draft'', ''update_draft''} \<and> fn_subject c \<noteq> None \<and> blank (fn_subject c),
       ''Draft subject must be non-empty when provided.''),
      (fn_operation c = ''create_draft'' \<and> blank (fn_subject c), ''Draft creation requires a non-empty subject.''),
      (fn_operation c = ''create_note'' \<and> blank (fn_title c), ''Note creation requires a non-empty title.'')] @
     note_checks c @ ticket_checks c @ draft_checks c"

definition first_failure :: "(bool \<times> string) list \<Rightarrow> string option" where
  "first_failure cs = map_option snd (find fst cs)"

definition is_label_op :: "string \<Rightarrow> bool" where
  "is_label_op op = (op = ''add_label'' \<or> op = ''remove_label'')"

definition is_user_op :: "string \<Rightarrow> bool" where
  "is_user_op op = (op = ''assign_user'' \<or> op = ''unassign_user'')"

definition function_locator :: "fn_call \<Rightarrow> string" where
  "function_locator c =
     (let op = fn_operation c; integ = fn_integration c in
      if is_label_op op \<and> integ = ''drafts'' then
        ''drafts://message_draft/'' @ fn_draft_id c @ ''/labels/'' @ encodeURIComponent (fn_label c)
      else if is_label_op op \<and> integ = ''tickets'' then
        ''tickets://issue/'' @ fn_ticket_id c @ ''/labels/'' @ encodeURIComponent (fn_label c)
      else if is_user_op op \<and> integ = ''tickets'' then
        ''tickets://issue/'' @ fn_ticket_id c @ ''/assignees/'' @ encodeURIComponent (fn_user_id c)
      else if integ = ''drafts'' then ''drafts://message_draft/'' @ fn_draft_id c
      else if integ = ''notes'' then ''notes://workspace_note/'' @ fn_note_id c
      else ''tickets://issue/'' @ fn_ticket_id c)"

definition function_label :: "fn_call \<Rightarrow> string" where
  "function_label c =
     (let op = fn_operation c; integ = fn_integration c;
          draft = ''Draft '' @ fn_draft_id c; note = ''Note '' @ fn_note_id c; ticket = ''Ticket '' @ fn_ticket_id c in
      if op = ''create_draft'' then fn_text (fn_subject c)
      else if op = ''create_note'' then fn_text (fn_title c)
      else if op = ''create_ticket'' then fn_text (fn_title c)
      else if op \<in> {''update_ticket'', ''delete_ticket'', ''restore_ticket''} then ticket
      else if is_label_op op \<and> integ = ''tickets'' then ticket @ '' label '' @ fn_label c
      else if is_user_op op \<and> integ = ''tickets'' then ticket @ '' assignee '' @ fn_user_id c
      else if op \<in> {''close_ticket'', ''reopen_ticket''} then ticket
      else if op = ''add_label'' then draft @ '' label '' @ fn_label c
      else if op = ''remove_label'' \<and> integ = ''drafts'' then draft @ '' label '' @ fn_label c
      else if op \<in> {''delete_draft'', ''unarchive_draft'', ''restore_draft''} then draft
      else if op \<in> {''archive_note'', ''update_note'', ''restore_note'', ''delete_note'', ''unarchive_note''} then note
      else if integ = ''drafts'' then draft
      else if integ = ''notes'' then note
      else ticket)"

definition trustedCompensator :: "fn_call \<Rightarrow> string" where
  "trustedCompensator c =
     (let op = fn_operation c; tickets = (fn_integration c = ''tickets'') in
      if op = ''create_draft'' then ''drafts.archive_draft''
      else if op = ''create_note'' then ''notes.archive_note''
      else if op = ''create_ticket'' then ''tickets.delete_ticket''
      else if op = ''update_ticket'' then ''tickets.restore_ticket''
      else if op = ''delete_ticket'' then ''tickets.restore_ticket''
      else if op = ''restore_ticket'' then ''tickets.restore_ticket''
      else if op = ''add_label'' \<and> tickets then ''tickets.remove_label''
      else if op = ''remove_label'' \<and> tickets then ''tickets.add_label''
      else if op = ''assign_user'' \<and> tickets then ''tickets.unassign_user''
      else if op = ''unassign_user'' \<and> tickets then ''tickets.assign_user''
      else if op = ''close_ticket'' then ''tickets.reopen_ticket''
      else if op = ''reopen_ticket'' then ''tickets.close_ticket''
      else if op = ''archive_draft'' then ''drafts.unarchive_draft''
      else if op = ''delete_draft'' then ''drafts.restore_draft''
      else if op = ''unarchive_draft'' then ''drafts.archive_draft''
      else if op = ''update_draft'' then ''drafts.restore_draft''
      else if op = ''restore_draft'' then ''drafts.restore_draft''
      else if op = ''remove_label'' \<and> fn_integration c = ''drafts'' then ''drafts.add_label''
      else if op = ''archive_note'' then ''notes.unarchive_note''
      else if op = ''update_note'' then ''notes.restore_note''
      else if op = ''restore_note'' then ''notes.restore_note''
      else if op = ''delete_note'' then ''notes.restore_note''
      else if op = ''unarchive_note'' then ''notes.archive_note''
      else ''drafts.remove_label'')"

definition if_given :: "string option \<Rightarrow> 'a \<Rightarrow> 'a list" where
  "if_given v x = (if v = None then [] else [x])"

definition payloadKeys :: "fn_call \<Rightarrow> string list" where
  "payloadKeys c =
     (let op = fn_operation c; tickets = (fn_integration c = ''tickets''); has_text = (fn_text (fn_body c) \<noteq> []) in
      if op = ''create_draft'' then (if has_text then [''subject'', ''body''] else [''subject''])
      else if op = ''create_note'' then (if has_text then [''title'', ''body''] else [''title''])
      else if op = ''create_ticket'' then (if has_text then [''title'', ''body'', ''ticket_id''] else [''title'', ''ticket_id''])
      else if op = ''update_ticket'' then [''ticket_id''] @ if_given (fn_title c) ''title'' @ if_given (fn_body c) ''body''
      else if op = ''delete_ticket'' then [''ticket_id'']
      else if op = ''restore_ticket'' then [''ticket_id'', ''title'', ''body'', ''status'', ''labels'', ''assigned_users'']
      else if op = ''close_ticket'' then [''ticket_id'']
      else if op = ''reopen_ticket'' then [''ticket_id'']
      else if is_label_op op \<and> tickets then [''ticket_id'', ''label'']
      else if is_user_op op \<and> tickets then [''ticket_id'', ''user_id'']
      else if op \<in> {''archive_draft'', ''delete_draft'', ''unarchive_draft''} then [''draft_id'']
      else if op = ''update_draft'' then [''draft_id''] @ if_given (fn_subject c) ''subject'' @ if_given (fn_body c) ''body''
      else if op = ''restore_draft'' then [''draft_id'', ''subject'', ''body'', ''status'', ''labels'']
      else if op = ''update_note'' then [''note_id''] @ if_given (fn_title c) ''title'' @ if_given (fn_body c) ''body''
      else if op = ''restore_note'' then [''note_id'', ''title'', ''body'', ''status'']
      else if op \<in> {''delete_note'', ''archive_note'', ''unarchive_note''} then [''note_id'']
      else [''draft_id'', ''label''])"

definition function_display_name :: "fn_call \<Rightarrow> string" where
  "function_display_name c =
     (let op = fn_operation c; tickets = (fn_integration c = ''tickets'') in
      if op = ''create_draft'' then ''Create draft message''
      else if op = ''create_note'' then ''Create workspace note''
      else if op = ''create_ticket'' then ''Create external ticket''
      else if op = ''update_ticket'' then ''Update external ticket''
      else if op = ''delete_ticket'' then ''Delete external ticket''
      else if op = ''restore_ticket'' then ''Restore external ticket''
      else if op = ''close_ticket'' then ''Close external ticket''
      else if op = ''reopen_ticket'' then ''Reopen external ticket''
      else if op = ''add_label'' \<and> tickets then ''Add external ticket label''
      else if op = ''remove_label'' \<and> tickets then ''Remove external ticket label''
      else if op = ''assign_user'' \<and> tickets then ''Assign external ticket user''
      else if op = ''unassign_user'' \<and> tickets then ''Unassign external ticket user''
      else if op = ''archive_draft'' then ''Archive draft message''
      else if op = ''delete_draft'' then ''Delete draft message''
      else if op = ''unarchive_draft'' then ''Unarchive draft message''
      else if op = ''update_draft'' then ''Update draft message''
      else if op = ''restore_draft'' then ''Restore draft message''
      else if op = ''remove_label'' \<and> fn_integration c = ''drafts'' then ''Remove draft label''
      else if op = ''archive_note'' then ''Archive workspace note''
      else if op = ''update_note'' then ''Update workspace note''
      else if op = ''restore_note'' then ''Restore workspace note''
      else if op = ''delete_note'' then ''Delete workspace note''
      else if op = ''unarchive_note'' then ''Unarchive workspace note''
      else ''Add draft label'')"

definition trimmed_text :: "string option \<Rightarrow> jsval" where
  "trimmed_text v = JStr (js_trim (fn_text v))"

definition fn_raw_call :: "fn_call \<Rightarrow> (string \<times> jsval) list" where
  "fn_raw_call c =
     (let op = fn_operation c; integ = fn_integration c; body = (''body'', JStr (fn_text (fn_body c)));
          some_body = (if fn_text (fn_body c) \<noteq> [] then [body] else []); given_body = if_given (fn_body c) body;
          ticket = (''ticket_id'', JStr (fn_ticket_id c)); draft = (''draft_id'', JStr (fn_draft_id c));
          note = (''note_id'', JStr (fn_note_id c)); title = (''title'', trimmed_text (fn_title c));
          subject = (''subject'', trimmed_text (fn_subject c)); status = (''status'', JStr (fn_text (fn_status c)));
          label = (''label'', JStr (fn_label c)) in
      [(''integration'', JStr integ), (''operation'', JStr op)] @
      (if op = ''create_draft'' then [subject] @ some_body
       else if op = ''create_note'' then [title] @ some_body
       else if op = ''create_ticket'' then [ticket, title] @ some_body
       else if op = ''update_ticket'' then [ticket] @ if_given (fn_title c) title @ given_body
       else if op = ''delete_ticket'' then [ticket]
       else if op = ''restore_ticket'' then
         [ticket, title, body, status, (''labels'', js_strs (fn_labels c)), (''assigned_users'', js_strs (fn_assigned_users c))]
       else if op = ''close_ticket'' \<or> op = ''reopen_ticket'' then [ticket]
       else if is_label_op op \<and> integ = ''tickets'' then [ticket, label]
       else if is_user_op op \<and> integ = ''tickets'' then [ticket, (''user_id'', JStr (fn_user_id c))]
       else if op \<in> {''archive_draft'', ''delete_draft'', ''unarchive_draft''} then [draft]
       else if op = ''update_draft'' then [draft] @ if_given (fn_subject c) subject @ given_body
       else if op = ''restore_draft'' then [draft, subject, body, status, (''labels'', js_strs (fn_draft_labels c))]
       else if op = ''update_note'' then [note] @ if_given (fn_title c) title @ given_body
       else if op = ''restore_note'' then [note, title, body, status]
       else if op \<in> {''archive_note'', ''unarchive_note'', ''delete_note''} then [note]
       else if is_label_op op \<and> integ = ''drafts'' then [draft, label]
       else []))"

definition function_facet :: "fn_call \<Rightarrow> jsval" where
  "function_facet c = JObj
     [(''integration'', JStr (fn_integration c)), (''operation'', JStr (fn_operation c)),
      (''object_type'', JStr (if fn_integration c = ''drafts'' then ''message_draft''
         else if fn_integration c = ''notes'' then ''workspace_note'' else ''issue_ticket'')),
      (''object_locator'', JStr (function_locator c)), (''trusted_compensator'', JStr (trustedCompensator c)),
      (''payload_keys'', js_strs (payloadKeys c))]"

definition normalizeFunctionAttempt :: "norm_env \<Rightarrow> raw_attempt \<Rightarrow> string \<Rightarrow> ag_error + normalized_action" where
  "normalizeFunctionAttempt env attempt sess =
     (case read_fn_call env attempt of
        Inl e \<Rightarrow> Inl e
      | Inr c \<Rightarrow>
          (case first_failure (function_checks c) of
             Some message \<Rightarrow> Inl (ValidationError message)
           | None \<Rightarrow> Inr (base_action env attempt sess (95 / 100)
               \<lparr>op_domain = ''function'', op_kind = fn_operation c, op_name = fn_integration c @ ''.'' @ fn_operation c,
                op_display_name = Some (function_display_name c)\<rparr>
               \<lparr>ep_surface = SF_sdk_function, ep_mode = EM_pre_execution,
                ep_credential_mode = opt_or (ra_credential_mode attempt) CM_none\<rparr>
               \<lparr>tp_type = ''external_object'', tp_locator = function_locator c, tp_label = Some (function_label c)\<rparr>
               \<lparr>ts_breadth = SB_single, ts_estimated_count = Some 1, ts_unknowns = []\<rparr>
               (fn_raw_call c)
               \<lparr>rh_side_effect_level =
                  (if fn_operation c \<in> {''delete_ticket'', ''delete_note'', ''delete_draft''} then SE_destructive else SE_mutating),
                rh_external_effects = EE_network, rh_reversibility_hint = RV_compensatable,
                rh_sensitivity_hint = SN_moderate, rh_batch = False\<rparr>
               [(''function'', function_facet c)]
               \<lparr>nm_mapper = ''function/drafts.v1'',
                nm_inferred_fields = [''target.primary'', ''risk_hints'', ''facets.function.object_locator''],
                nm_warnings = [], nm_confidence = 95 / 100\<rparr>)))"

section \<open>Entry point\<close>

definition normalizeActionAttempt :: "norm_env \<Rightarrow> raw_attempt \<Rightarrow> string \<Rightarrow> ag_error + action_record" where
  "normalizeActionAttempt env attempt sess =
     (let k = ra_tool_kind attempt in
      if k = ''filesystem'' then Inr (withConfidenceAssessment (normalizeFilesystemAttempt env attempt sess))
      else if k = ''shell'' then Inr (withConfidenceAssessment (normalizeShellAttempt env attempt sess))
      else if k = ''function'' then map_sum id withConfidenceAssessment (normalizeFunctionAttempt env attempt sess)
      else if k = ''mcp'' then map_sum id withConfidenceAssessment (normalizeMcpAttempt env attempt sess)
      else if k = ''browser'' then
        Inl (PreconditionError ''Governed browser/computer execution is not part of the supported runtime surface.'')
      else Inl (ValidationError ''Unsupported tool kind.''))"

section \<open>The schemas of attempts and actions\<close>

definition nonempty_str :: "string option \<Rightarrow> bool" where
  "nonempty_str s = (s \<noteq> Some [])"

definition RawActionAttemptSchema :: "(string \<Rightarrow> bool) \<Rightarrow> raw_attempt \<Rightarrow> bool" where
  "RawActionAttemptSchema dates a =
     (safe_record (ra_raw_call a) \<and> timestamp_ok dates (ra_received_at a) \<and> ra_run_id a \<noteq> [] \<and> ra_tool_name a \<noteq> [] \<and>
      ra_tool_kind a \<in> {''filesystem'', ''shell'', ''browser'', ''mcp'', ''function''} \<and>
      ra_workspace_roots a \<noteq> [] \<and> list_all (\<lambda>r. r \<noteq> []) (ra_workspace_roots a) \<and> nonempty_str (ra_cwd a) \<and>
      nonempty_str (ra_agent_name a) \<and> nonempty_str (ra_agent_framework a))"

definition unit_interval :: "rat \<Rightarrow> bool" where
  "unit_interval x = (0 \<le> x \<and> x \<le> 1)"

definition factor_schema :: "confidence_factor \<Rightarrow> bool" where
  "factor_schema f =
     (cf_factor_id f \<noteq> [] \<and> cf_label f \<noteq> [] \<and> - 1 \<le> cf_delta f \<and> cf_delta f \<le> 1 \<and> cf_rationale f \<noteq> [])"

definition assessment_schema :: "confidence_assessment \<Rightarrow> bool" where
  "assessment_schema c =
     (ca_engine_version c \<noteq> [] \<and> unit_interval (ca_score c) \<and> list_all factor_schema (ca_factors c))"

definition normalized_schema :: "(string \<Rightarrow> bool) \<Rightarrow> 'a normalized_action_scheme \<Rightarrow> bool" where
  "normalized_schema dates a =
     (timestamp_ok dates (requested_at a) \<and> timestamp_ok dates (normalized_at a) \<and> safe_record (in_raw (action_input a)) \<and>
      safe_record (in_redacted (action_input a)) \<and> safe_record (facets a) \<and> action_id a \<noteq> [] \<and> run_id a \<noteq> [] \<and> session_id a \<noteq> [] \<and>
      pv_source (provenance a) \<noteq> [] \<and> unit_interval (pv_confidence (provenance a)) \<and>
      nonempty_str (ac_agent_name (actor a)) \<and> nonempty_str (ac_agent_framework (actor a)) \<and>
      ac_tool_name (actor a) \<noteq> [] \<and> ac_tool_kind (actor a) \<noteq> [] \<and>
      op_domain (operation a) \<noteq> [] \<and> op_kind (operation a) \<noteq> [] \<and> op_name (operation a) \<noteq> [] \<and>
      nonempty_str (op_display_name (operation a)) \<and>
      tp_type (primary_target a) \<noteq> [] \<and> tp_locator (primary_target a) \<noteq> [] \<and> nonempty_str (tp_label (primary_target a)) \<and>
      list_all (\<lambda>u. u \<noteq> []) (ts_unknowns (scope a)) \<and> nonempty_str (in_schema_ref (action_input a)) \<and>
      nm_mapper (normalization a) \<noteq> [] \<and> list_all (\<lambda>u. u \<noteq> []) (nm_inferred_fields (normalization a)) \<and>
      list_all (\<lambda>u. u \<noteq> []) (nm_warnings (normalization a)) \<and> unit_interval (nm_confidence (normalization a)))"

definition ActionRecordSchema :: "(string \<Rightarrow> bool) \<Rightarrow> action_record \<Rightarrow> bool" where
  "ActionRecordSchema dates a = (normalized_schema dates a \<and> assessment_schema (confidence a))"

definition validateActionRecord :: "(string \<Rightarrow> bool) \<Rightarrow> action_record \<Rightarrow> ag_error + action_record" where
  "validateActionRecord dates a =
     (if ActionRecordSchema dates a then Inr a else Inl (InternalError ''Normalized action failed schema validation.''))"

end
