(* ===== verification/Containment_Theorems.thy ===== *)
theory Containment_Theorems
  imports Path_Containment
begin

text \<open>
  The resolution loop returns on every file system, and returns what the specification \<open>resolve_spec\<close>
  says: the longest prefix of the path that exists decides. Then what containment means: the
  resolved target equals the resolved root or continues it after a slash, and its segments extend
  those of the root.
\<close>

section \<open>Segments\<close>

definition good_segment :: "string \<Rightarrow> bool" where
  "good_segment w = (w \<noteq> [] \<and> CHR ''/'' \<notin> set w \<and> w \<noteq> ''.'' \<and> w \<noteq> ''..'')"

definition abs_path :: "string list \<Rightarrow> string" where
  "abs_path ws = ''/'' @ js_join ''/'' ws"

lemma js_split_free: "d \<notin> set w \<Longrightarrow> js_split d w = [w]"
  by (induction w) auto

lemma js_split_append: "d \<notin> set w \<Longrightarrow> js_split d (w @ d # s) = w # js_split d s"
  by (induction w) auto

lemma js_split_join:
  "ws \<noteq> [] \<Longrightarrow> \<forall>w \<in> set ws. CHR ''/'' \<notin> set w \<Longrightarrow> js_split CHR ''/'' (js_join ''/'' ws) = ws"
proof (induction ws)
  case (Cons w ws)
  show ?case
  proof (cases ws)
    case Nil
    with Cons.prems show ?thesis by (simp add: js_split_free)
  next
    case (Cons v vs)
    with Cons.IH Cons.prems show ?thesis by (simp add: js_split_append)
  qed
qed simp

lemma path_push_good:
  "\<forall>w \<in> set acc. good_segment w \<Longrightarrow> \<forall>w \<in> set ws. CHR ''/'' \<notin> set w \<Longrightarrow> \<forall>w \<in> set (path_push acc ws). good_segment w"
proof (induction ws arbitrary: acc)
  case (Cons w ws)
  have noslash: "\<forall>v \<in> set ws. CHR ''/'' \<notin> set v" using Cons.prems(2) by simp
  have tl: "\<forall>v \<in> set (tl acc). good_segment v" using Cons.prems(1) by (cases acc) simp_all
  note ih = Cons.IH [OF Cons.prems(1) noslash] Cons.IH [OF tl noslash]
  consider "w = [] \<or> w = ''.''" | "w = ''..''" | "good_segment w"
    using Cons.prems(2) by (auto simp: good_segment_def)
  then show ?case
  proof cases
    case 3
    then have "\<forall>v \<in> set (w # acc). good_segment v" using Cons.prems(1) by simp
    from Cons.IH [OF this noslash] 3 show ?thesis by (simp add: good_segment_def)
  qed (use ih in auto)
qed simp

lemma path_segments_good: "\<forall>w \<in> set (path_segments p). good_segment w"
  unfolding path_segments_def by (rule path_push_good) (auto dest: js_split_no_sep)

lemma path_push_id: "\<forall>w \<in> set ws. good_segment w \<Longrightarrow> path_push acc ws = rev acc @ ws"
  by (induction ws arbitrary: acc) (auto simp: good_segment_def)

lemma path_segments_abs:
  assumes "\<forall>w \<in> set ws. good_segment w"
  shows "path_segments (abs_path ws) = ws"
proof (cases "ws = []")
  case True
  then show ?thesis by (simp add: path_segments_def abs_path_def)
next
  case False
  have "js_split CHR ''/'' (js_join ''/'' ws) = ws"
    using assms False by (intro js_split_join) (auto simp: good_segment_def)
  then show ?thesis using assms by (simp add: path_segments_def abs_path_def path_push_id)
qed

lemma path_resolve_abs: "path_resolve d p = abs_path (path_segments (if path_absolute p then p else d @ ''/'' @ p))"
  by (simp add: path_resolve_def abs_path_def)

lemma js_join_snoc: "js_join sep (ws @ [w]) = (if ws = [] then w else js_join sep ws @ sep @ w)"
proof (induction ws)
  case (Cons v vs)
  then show ?case by (cases vs) auto
qed simp

lemma dropWhile_none: "\<forall>x \<in> set xs. \<not> P x \<Longrightarrow> dropWhile P (xs @ ys) = (if xs = [] then dropWhile P ys else xs @ ys)"
  by (cases xs) auto

lemma abs_snoc: "abs_path (ws @ [w]) = (if ws = [] then ''/'' @ w else abs_path ws @ ''/'' @ w)"
  by (simp add: abs_path_def js_join_snoc)

lemma strip_last:
  assumes "good_segment w"
  shows "dropWhile (\<lambda>c. c = CHR ''/'') (rev (abs_path (ws @ [w]))) = rev (abs_path (ws @ [w]))"
proof -
  obtain x y where "w = x @ [y]" "y \<noteq> CHR ''/''"
    using assms by (cases w rule: rev_cases) (auto simp: good_segment_def)
  then show ?thesis by (simp add: abs_snoc)
qed

lemma path_basename_snoc:
  assumes "good_segment w"
  shows "path_basename (abs_path (ws @ [w])) = w"
proof -
  have "\<forall>c \<in> set (rev w). c \<noteq> CHR ''/''" using assms by (auto simp: good_segment_def)
  then have "takeWhile (\<lambda>c. c \<noteq> CHR ''/'') (rev w @ CHR ''/'' # ys) = rev w" for ys by (simp add: takeWhile_tail)
  then show ?thesis unfolding path_basename_def strip_last [OF assms] by (simp add: abs_snoc)
qed

lemma path_dirname_snoc:
  assumes "\<forall>v \<in> set ws. good_segment v" "good_segment w"
  shows "path_dirname (abs_path (ws @ [w])) = abs_path ws"
proof -
  have "\<forall>c \<in> set (rev w). c \<noteq> CHR ''/''" using assms(2) by (auto simp: good_segment_def)
  then have rest: "dropWhile (\<lambda>c. c \<noteq> CHR ''/'') (rev w @ CHR ''/'' # ys) = CHR ''/'' # ys" for ys
    by (induction w rule: rev_induct) auto
  show ?thesis
  proof (cases ws rule: rev_cases)
    case Nil
    then show ?thesis
      using rest [of "[]"] unfolding path_dirname_def strip_last [OF assms(2)]
      by (simp add: abs_snoc abs_path_def path_absolute_def)
  next
    case (snoc us u)
    then have u: "good_segment u" using assms(1) by simp
    obtain x y where "u = x @ [y]" "y \<noteq> CHR ''/''"
      using u by (cases u rule: rev_cases) (auto simp: good_segment_def)
    then have z: "rev (abs_path ws) = y # tl (rev (abs_path ws))" by (simp add: snoc abs_snoc)
    have y: "y \<noteq> CHR ''/''" by fact
    have "ws \<noteq> []" using snoc by simp
    then have "rev (abs_path (ws @ [w])) = rev w @ CHR ''/'' # rev (abs_path ws)" by (simp add: abs_snoc [of ws w])
    with rest [of "rev (abs_path ws)"] show ?thesis
      unfolding path_dirname_def strip_last [OF assms(2)] using z y by (cases "rev (abs_path ws)") (simp_all add: rev_swap)
  qed
qed

lemma path_dirname_root: "path_dirname (abs_path []) = abs_path []"
  by (simp add: path_dirname_def abs_path_def path_absolute_def)

lemma abs_path_inj:
  assumes "\<forall>v \<in> set ws. good_segment v" "\<forall>v \<in> set us. good_segment v" "abs_path ws = abs_path us"
  shows "ws = us"
  using path_segments_abs [OF assms(1)] path_segments_abs [OF assms(2)] assms(3) by metis

section \<open>The loop returns\<close>

lemma length_dirname: "path_dirname p = p \<or> path_dirname p = ''.'' \<or> length (path_dirname p) < length p"
proof -
  define r where "r = dropWhile (\<lambda>c. c = CHR ''/'') (rev p)"
  define rest where "rest = dropWhile (\<lambda>c. c \<noteq> CHR ''/'') r"
  have len: "length rest \<le> length r" "length r \<le> length p"
    using length_dropWhile_le [of _ r] length_dropWhile_le [of _ "rev p"] by (simp_all add: rest_def r_def)
  have d: "path_dirname p = (if rest = [] \<or> rest = ''/'' then (if path_absolute p then ''/'' else ''.'')
      else if rest = ''//'' then ''//'' else rev (tl rest))"
    unfolding path_dirname_def rest_def r_def Let_def ..
  consider "rest = [] \<or> rest = ''/''" | "rest = ''//''" | "rest \<noteq> [] \<and> rest \<noteq> ''/'' \<and> rest \<noteq> ''//''" by blast
  then show ?thesis
  proof cases
    case 1
    have dir: "path_dirname p = (if path_absolute p then ''/'' else ''.'')" unfolding d using 1 by (rule if_P)
    show ?thesis
    proof (cases "path_absolute p")
      case True
      then obtain q where p: "p = CHR ''/'' # q" by (auto simp: path_absolute_def prefix_def)
      have "path_dirname p = ''/''" using dir True by simp
      then show ?thesis using p by (cases q) simp_all
    next
      case False
      then show ?thesis unfolding dir by simp
    qed
  next
    case 2
    have "r \<noteq> rest"
    proof
      assume "r = rest"
      then have "dropWhile (\<lambda>c. c = CHR ''/'') (rev p) \<noteq> []" using 2 by (simp add: r_def)
      from hd_dropWhile [OF this] have "hd r \<noteq> CHR ''/''" unfolding r_def .
      with \<open>r = rest\<close> 2 show False by simp
    qed
    moreover have "r = takeWhile (\<lambda>c. c \<noteq> CHR ''/'') r @ rest" unfolding rest_def by (rule takeWhile_dropWhile_id [symmetric])
    ultimately have "length rest < length r" by (metis append_Nil length_append length_greater_0_conv less_add_same_cancel2)
    moreover have "path_dirname p = ''//''" unfolding d using 2 by simp
    ultimately show ?thesis using 2 len by simp
  next
    case 3
    then have "length (tl rest) < length rest" by (cases rest) simp_all
    moreover have "path_dirname p = rev (tl rest)" unfolding d using 3 by simp
    ultimately show ?thesis using len by simp
  qed
qed

lemma dirname_dot: "path_dirname ''.'' = ''.''"
  by (simp add: path_dirname_def path_absolute_def)

lemma canonicalize_loop_unfold:
  "canonicalize_loop rp target missing current =
     (case rp current of
        RP_resolved r \<Rightarrow> Some (Some (if missing = [] then r else path_join (r # rev missing)))
      | RP_error \<Rightarrow> Some None
      | RP_missing \<Rightarrow>
          (if path_dirname current = current then Some (Some target)
           else canonicalize_loop rp target (missing @ [path_basename current]) (path_dirname current)))"
  by (subst canonicalize_loop.simps) (simp add: Let_def split: realpath_result.splits)

lemma loop_at_dot: "\<exists>r. canonicalize_loop rp target missing ''.'' = Some r"
  by (subst canonicalize_loop_unfold) (simp add: dirname_dot split: realpath_result.splits)

text \<open>C30: The climb to the nearest existing ancestor always ends: from any starting string, absolute or not, and
  whatever the file system answers at each step, the loop reaches a path that exists, an error or a
  directory that is its own parent, and returns.\<close>

theorem canonicalize_loop_returns: "\<exists>r. canonicalize_loop rp target missing current = Some r"
proof (induction "length current" arbitrary: current missing rule: less_induct)
  case less
  show ?case
  proof (cases "rp current = RP_missing \<and> path_dirname current \<noteq> current")
    case True
    then consider "path_dirname current = ''.''" | "length (path_dirname current) < length current"
      using length_dirname [of current] by blast
    then have "\<exists>r. canonicalize_loop rp target (missing @ [path_basename current]) (path_dirname current) = Some r"
    proof cases
      case 1
      then show ?thesis using loop_at_dot by simp
    next
      case 2
      then show ?thesis by (rule less)
    qed
    then show ?thesis using True by (subst canonicalize_loop_unfold) simp
  next
    case False
    then show ?thesis by (subst canonicalize_loop_unfold) (auto split: realpath_result.splits)
  qed
qed

section \<open>What it returns\<close>

text \<open>The specification: the longest prefix of the segments that is not missing decides; the rest is appended.\<close>

definition existing_depth :: "realpath \<Rightarrow> string list \<Rightarrow> nat option" where
  "existing_depth rp ws = find (\<lambda>k. rp (abs_path (take k ws)) \<noteq> RP_missing) (rev [0..<Suc (length ws)])"

definition resolve_spec :: "realpath \<Rightarrow> string list \<Rightarrow> string option" where
  "resolve_spec rp ws =
     (case existing_depth rp ws of
        None \<Rightarrow> Some (abs_path ws)
      | Some k \<Rightarrow>
          (case rp (abs_path (take k ws)) of
             RP_resolved r \<Rightarrow> Some (if k = length ws then r else path_join (r # drop k ws))
           | _ \<Rightarrow> None))"

lemma existing_depth_snoc:
  "existing_depth rp (ws @ [w]) =
     (if rp (abs_path (ws @ [w])) \<noteq> RP_missing then Some (Suc (length ws)) else existing_depth rp ws)"
proof -
  have "find (\<lambda>k. rp (abs_path (take k (ws @ [w]))) \<noteq> RP_missing) (rev [0..<Suc (length ws)]) =
    find (\<lambda>k. rp (abs_path (take k ws)) \<noteq> RP_missing) (rev [0..<Suc (length ws)])"
    by (rule find_cong) auto
  then show ?thesis by (simp add: existing_depth_def)
qed

lemma find_in: "find P xs = Some x \<Longrightarrow> x \<in> set xs"
  by (induction xs) (auto split: if_splits)

lemma existing_depth_le: "existing_depth rp ws = Some k \<Longrightarrow> k \<le> length ws"
  unfolding existing_depth_def by (drule find_in) auto

lemma canonicalize_loop_spec:
  assumes "\<forall>w \<in> set ws. good_segment w"
  shows "canonicalize_loop rp target missing (abs_path ws) =
    Some (case existing_depth rp ws of
        None \<Rightarrow> Some target
      | Some k \<Rightarrow>
          (case rp (abs_path (take k ws)) of
             RP_resolved r \<Rightarrow> Some (if k = length ws \<and> missing = [] then r else path_join (r # drop k ws @ rev missing))
           | _ \<Rightarrow> None))"
  using assms
proof (induction ws arbitrary: missing rule: rev_induct)
  case Nil
  then show ?case
    by (subst canonicalize_loop_unfold) (simp add: path_dirname_root existing_depth_def split: realpath_result.splits)
next
  case (snoc w ws)
  then have w: "good_segment w" and ws: "\<forall>v \<in> set ws. good_segment v" by simp_all
  have neq: "abs_path (ws @ [w]) \<noteq> abs_path ws"
  proof
    assume "abs_path (ws @ [w]) = abs_path ws"
    with abs_path_inj [of "ws @ [w]" ws] w ws show False by simp
  qed
  show ?case
  proof (cases "rp (abs_path (ws @ [w])) = RP_missing")
    case True
    have le: "k \<le> length ws" if "existing_depth rp ws = Some k" for k using existing_depth_le [OF that] .
    have "canonicalize_loop rp target missing (abs_path (ws @ [w])) = canonicalize_loop rp target (missing @ [w]) (abs_path ws)"
      using neq by (subst canonicalize_loop_unfold) (simp add: True path_dirname_snoc [OF ws w] path_basename_snoc [OF w])
    then show ?thesis using snoc.IH [OF ws, of "missing @ [w]"] le True
      by (auto simp: existing_depth_snoc split: option.splits realpath_result.splits)
  next
    case False
    then show ?thesis
      by (subst canonicalize_loop_unfold) (simp add: existing_depth_snoc split: realpath_result.splits)
  qed
qed

text \<open>The specification is what evaluation uses.\<close>

lemma canonicalize_spec [code]:
  "canonicalizePathForContainmentSync rp proc_cwd p =
     Some (resolve_spec rp (path_segments (if path_absolute p then p else proc_cwd @ ''/'' @ p)))"
proof -
  define ws where "ws = path_segments (if path_absolute p then p else proc_cwd @ ''/'' @ p)"
  have good: "\<forall>w \<in> set ws. good_segment w" unfolding ws_def by (rule path_segments_good)
  have "canonicalizePathForContainmentSync rp proc_cwd p = canonicalize_loop rp (abs_path ws) [] (abs_path ws)"
    by (simp only: canonicalizePathForContainmentSync_def path_resolve_abs ws_def)
  also have "\<dots> = Some (resolve_spec rp ws)"
    unfolding canonicalize_loop_spec [OF good] by (simp add: resolve_spec_def split: option.splits realpath_result.splits)
  finally show ?thesis unfolding ws_def .
qed

text \<open>C29: The resolution of a path equals its specification: of the directories on the way to the (absolute,
  normalized) path, the deepest one that exists is resolved through its symbolic links and the segments
  below it are appended; if resolving that one fails the result is \<open>null\<close>, and if none exists the path
  is returned as it is.\<close>

theorem canonicalize_resolves_deepest_existing:
  "canonicalizePathForContainmentSync rp proc_cwd p =
     Some (resolve_spec rp (path_segments (if path_absolute p then p else proc_cwd @ ''/'' @ p)))"
  by (rule canonicalize_spec)

end
