(* ===== verification/Normalizer_Theorems.thy ===== *)
theory Normalizer_Theorems
  imports Normalize_Remote Containment_Theorems
begin

text \<open>
  Properties of the action normalizer: the bounds of the confidence score and what the factors
  contribute, the schema of what it produces, and the table of trusted compensators.
\<close>

section \<open>Confidence\<close>

definition good_factor :: "confidence_factor \<Rightarrow> bool" where
  "good_factor f = (factor_schema f \<and> 0 \<le> cf_delta f \<and> (cf_kind f = FK_penalty \<longrightarrow> cf_delta f = 0))"

lemma roundConfidence_bounds: "0 \<le> roundConfidence x" "roundConfidence x \<le> 1"
  unfolding roundConfidence_def by (rule to_fixed_clamp01_bounds)+

lemma roundConfidence_neg: "x \<le> 0 \<Longrightarrow> roundConfidence x = 0"
  by (simp add: roundConfidence_def clamp01_neg)

lemma roundConfidence_mono: "x \<le> y \<Longrightarrow> roundConfidence x \<le> roundConfidence y"
  unfolding roundConfidence_def by (intro to_fixed_mono clamp01_mono)

lemma roundConfidence_idem: "roundConfidence (roundConfidence x) = roundConfidence x"
  using roundConfidence_bounds [of x] by (simp add: roundConfidence_def clamp01_id)

lemma good_factor_of:
  assumes "i \<noteq> []" "l \<noteq> []" "r \<noteq> []" "k = FK_penalty \<Longrightarrow> d \<le> 0"
  shows "list_all good_factor (factor_of i l k d r)"
  using assms roundConfidence_bounds [of d]
  by (auto simp: factor_of_def good_factor_def pushConfidenceFactor_def factor_schema_def roundConfidence_neg)

lemma good_rows:
  "list_all good_factor (baseline_factor a)" "list_all good_factor (provenance_factors a)"
  "list_all good_factor (scope_factors a)" "list_all good_factor (side_effect_factors se)"
  "list_all good_factor (external_factors ee)" "list_all good_factor (reversibility_factors rv)"
  "list_all good_factor (batch_factors b)" "list_all good_factor (sensitivity_factors sn)"
  "list_all good_factor (credential_factors cm)" "list_all good_factor (surface_factors sf)"
  "list_all good_factor (warning_factors ws)" "list_all good_factor (function_factors a)"
  "list_all good_factor (mcp_factors a)"
  subgoal unfolding baseline_factor_def by (rule good_factor_of) simp_all
  subgoal unfolding provenance_factors_def by (auto intro: good_factor_of)
  subgoal unfolding scope_factors_def Let_def by (auto intro: good_factor_of)
  subgoal by (cases se) (auto intro: good_factor_of)
  subgoal by (cases ee) (auto intro: good_factor_of)
  subgoal by (cases rv) (auto intro: good_factor_of)
  subgoal unfolding batch_factors_def by (auto intro: good_factor_of)
  subgoal by (cases sn) (auto intro: good_factor_of)
  subgoal by (cases cm) (auto intro: good_factor_of)
  subgoal by (cases sf) (auto intro: good_factor_of)
  subgoal unfolding warning_factors_def by (auto intro: good_factor_of)
  subgoal unfolding function_factors_def by (auto intro: good_factor_of)
  subgoal unfolding mcp_factors_def by (auto intro: good_factor_of)
  done

lemma good_confidence_factors: "list_all good_factor (confidence_factors a)"
  unfolding confidence_factors_def list_all_append by (intro conjI good_rows)

lemma foldl_deltas: "list_all good_factor fs \<Longrightarrow> s \<le> foldl (\<lambda>s f. s + cf_delta f) s fs"
proof (induction fs arbitrary: s)
  case (Cons f fs)
  have "s \<le> s + cf_delta f" using Cons.prems by (simp add: good_factor_def)
  also have "\<dots> \<le> foldl (\<lambda>s f. s + cf_delta f) (s + cf_delta f) fs" using Cons by simp
  finally show ?case by simp
qed simp

lemma deltas_start_with_baseline:
  "roundConfidence (nm_confidence (normalization a)) \<le> foldl (\<lambda>s f. s + cf_delta f) 0 (confidence_factors a)"
proof -
  obtain fs where fs: "confidence_factors a = baseline_factor a @ fs" "list_all good_factor fs"
    using good_confidence_factors [of a] by (auto simp: confidence_factors_def)
  have "foldl (\<lambda>s f. s + cf_delta f) 0 (baseline_factor a) = roundConfidence (nm_confidence (normalization a))"
    by (simp add: baseline_factor_def factor_of_def pushConfidenceFactor_def)
  with foldl_deltas [OF fs(2), of "roundConfidence (nm_confidence (normalization a))"] fs(1) show ?thesis by simp
qed

lemma assess_sel [simp]:
  "ca_score (assessActionConfidence a) = roundConfidence (foldl (\<lambda>s f. s + cf_delta f) 0 (confidence_factors a))"
  "ca_factors (assessActionConfidence a) = confidence_factors a"
  "ca_band (assessActionConfidence a) = confidence_band_of (ca_score (assessActionConfidence a))"
  "ca_engine_version (assessActionConfidence a) = ACTION_CONFIDENCE_ENGINE_VERSION"
  by (simp_all add: assessActionConfidence_def Let_def)

lemma foldl_sum: "foldl (\<lambda>s f. s + cf_delta f) x fs = x + sum_list (map cf_delta fs)"
  by (induction fs arbitrary: x) (simp_all add: add.assoc)

lemma round_near: "\<bar>roundConfidence v - clamp01 v\<bar> \<le> 1 / 2000"
proof -
  let ?c = "clamp01 v"
  have "of_int \<lfloor>?c * 1000 + 1 / 2\<rfloor> \<le> ?c * 1000 + 1 / 2" "?c * 1000 - 1 / 2 \<le> of_int \<lfloor>?c * 1000 + 1 / 2\<rfloor>" by linarith+
  then have "roundConfidence v - ?c \<le> 1 / 2000" "- (roundConfidence v - ?c) \<le> 1 / 2000"
    by (simp_all add: roundConfidence_def to_fixed_def field_simps)
  then show ?thesis by (rule abs_leI)
qed

text \<open>C28: The confidence of an action. The score lies between 0 and 1, in steps of a thousandth, and is explained by the factors that are
  reported with it: it is their sum, limited to the unit interval, to the nearest thousandth. The band is high exactly from 0.85 on, low exactly below
  0.65 and guarded between, and a human review is required exactly for a low band, an unknown scope, an unknown side effect or an
  opaque execution.\<close>

theorem confidence_score_bounds:
  "let c = assessActionConfidence a in
   0 \<le> ca_score c \<and> ca_score c \<le> 1 \<and> (\<exists>n :: int. ca_score c = of_int n / 1000) \<and>
   \<bar>ca_score c - max 0 (min 1 (sum_list (map cf_delta (ca_factors c))))\<bar> \<le> 1 / 2000 \<and>
   (ca_band c = CB_high \<longleftrightarrow> 85 / 100 \<le> ca_score c) \<and>
   (ca_band c = CB_guarded \<longleftrightarrow> 65 / 100 \<le> ca_score c \<and> ca_score c < 85 / 100) \<and>
   (ca_band c = CB_low \<longleftrightarrow> ca_score c < 65 / 100) \<and>
   (ca_requires_human_review c \<longleftrightarrow> ca_band c = CB_low \<or> ''scope'' \<in> set (ts_unknowns (scope a)) \<or>
      side_effect a = SE_unknown \<or> ''opaque_execution'' \<in> set (nm_warnings (normalization a)))"
proof -
  let ?c = "assessActionConfidence a"
  have score: "ca_score ?c = roundConfidence (sum_list (map cf_delta (ca_factors ?c)))" by (simp add: foldl_sum)
  have "\<bar>ca_score ?c - max 0 (min 1 (sum_list (map cf_delta (ca_factors ?c))))\<bar> \<le> 1 / 2000"
    unfolding score using round_near [of "sum_list (map cf_delta (ca_factors ?c))"] by (simp only: clamp01_def)
  moreover have "0 \<le> ca_score ?c" "ca_score ?c \<le> 1" unfolding score by (rule roundConfidence_bounds)+
  moreover have "\<exists>n :: int. ca_score ?c = of_int n / 1000" unfolding score by (auto simp: roundConfidence_def to_fixed_def)
  moreover have "(ca_band ?c = CB_high \<longleftrightarrow> 85 / 100 \<le> ca_score ?c) \<and>
      (ca_band ?c = CB_guarded \<longleftrightarrow> 65 / 100 \<le> ca_score ?c \<and> ca_score ?c < 85 / 100) \<and> (ca_band ?c = CB_low \<longleftrightarrow> ca_score ?c < 65 / 100)"
    unfolding assess_sel(3) by (auto simp: confidence_band_of_def simp del: assess_sel)
  moreover have "ca_requires_human_review ?c \<longleftrightarrow> ca_score ?c < 65 / 100 \<or> ''scope'' \<in> set (ts_unknowns (scope a)) \<or>
      side_effect a = SE_unknown \<or> ''opaque_execution'' \<in> set (nm_warnings (normalization a))"
    by (simp add: assessActionConfidence_def Let_def)
  ultimately show ?thesis unfolding Let_def by blast
qed

text \<open>As the code stands every delta is limited to the unit interval when it is recorded, so that each penalty is recorded as 0 and the
  score is never below the mapper's own confidence, rounded: penalties have no effect, against what their kind says.\<close>

lemma penalties_ignored:
  "roundConfidence (nm_confidence (normalization a)) \<le> ca_score (assessActionConfidence a)"
  "filter (\<lambda>f. cf_kind f = FK_penalty \<and> cf_delta f \<noteq> 0) (ca_factors (assessActionConfidence a)) = []"
proof -
  show "roundConfidence (nm_confidence (normalization a)) \<le> ca_score (assessActionConfidence a)"
    using roundConfidence_mono [OF deltas_start_with_baseline [of a]] by (simp add: roundConfidence_idem)
  show "filter (\<lambda>f. cf_kind f = FK_penalty \<and> cf_delta f \<noteq> 0) (ca_factors (assessActionConfidence a)) = []"
    using good_confidence_factors [of a] by (auto simp: filter_empty_conv list_all_iff good_factor_def)
qed

section \<open>Schema\<close>

lemma with_confidence_sel [simp]:
  "action_id (withConfidenceAssessment x) = action_id x" "run_id (withConfidenceAssessment x) = run_id x"
  "session_id (withConfidenceAssessment x) = session_id x" "provenance (withConfidenceAssessment x) = provenance x"
  "actor (withConfidenceAssessment x) = actor x" "operation (withConfidenceAssessment x) = operation x"
  "execution_path (withConfidenceAssessment x) = execution_path x" "primary_target (withConfidenceAssessment x) = primary_target x"
  "requested_at (withConfidenceAssessment x) = requested_at x" "normalized_at (withConfidenceAssessment x) = normalized_at x"
  "scope (withConfidenceAssessment x) = scope x" "action_input (withConfidenceAssessment x) = action_input x"
  "risk (withConfidenceAssessment x) = risk x" "facets (withConfidenceAssessment x) = facets x"
  "normalization (withConfidenceAssessment x) = normalization x"
  "confidence (withConfidenceAssessment x) = assessActionConfidence x"
  by (simp_all add: withConfidenceAssessment_def normalized_action.extend_def action_record.fields_def)

lemma base_action_sel [simp]:
  "action_id (base_action env attempt sess prov op ep tp ts raw rk fct nm) = ne_action_id env"
  "requested_at (base_action env attempt sess prov op ep tp ts raw rk fct nm) = ra_received_at attempt"
  "normalized_at (base_action env attempt sess prov op ep tp ts raw rk fct nm) = ne_now env"
  "in_raw (action_input (base_action env attempt sess prov op ep tp ts raw rk fct nm)) = raw"
  "in_redacted (action_input (base_action env attempt sess prov op ep tp ts raw rk fct nm)) = raw"
  "run_id (base_action env attempt sess prov op ep tp ts raw rk fct nm) = ra_run_id attempt"
  "session_id (base_action env attempt sess prov op ep tp ts raw rk fct nm) = sess"
  "pv_source (provenance (base_action env attempt sess prov op ep tp ts raw rk fct nm)) = ''authority-sdk-ts''"
  "pv_confidence (provenance (base_action env attempt sess prov op ep tp ts raw rk fct nm)) = prov"
  "ac_agent_name (actor (base_action env attempt sess prov op ep tp ts raw rk fct nm)) = ra_agent_name attempt"
  "ac_agent_framework (actor (base_action env attempt sess prov op ep tp ts raw rk fct nm)) = ra_agent_framework attempt"
  "ac_tool_name (actor (base_action env attempt sess prov op ep tp ts raw rk fct nm)) = ra_tool_name attempt"
  "ac_tool_kind (actor (base_action env attempt sess prov op ep tp ts raw rk fct nm)) = ra_tool_kind attempt"
  "operation (base_action env attempt sess prov op ep tp ts raw rk fct nm) = op"
  "execution_path (base_action env attempt sess prov op ep tp ts raw rk fct nm) = ep"
  "primary_target (base_action env attempt sess prov op ep tp ts raw rk fct nm) = tp"
  "scope (base_action env attempt sess prov op ep tp ts raw rk fct nm) = ts"
  "in_schema_ref (action_input (base_action env attempt sess prov op ep tp ts raw rk fct nm)) = None"
  "risk (base_action env attempt sess prov op ep tp ts raw rk fct nm) = rk"
  "facets (base_action env attempt sess prov op ep tp ts raw rk fct nm) = fct"
  "normalization (base_action env attempt sess prov op ep tp ts raw rk fct nm) = nm"
  by (simp_all add: base_action_def)

lemma assessment_schema_ok: "assessment_schema (assessActionConfidence a)"
  using good_confidence_factors [of a] roundConfidence_bounds
  by (auto simp: assessment_schema_def unit_interval_def ACTION_CONFIDENCE_ENGINE_VERSION_def list_all_iff good_factor_def)

definition conforms :: "(string \<Rightarrow> bool) \<Rightarrow> 'a normalized_action_scheme \<Rightarrow> bool" where
  "conforms dates a = (normalized_schema dates a \<longleftrightarrow> tp_label (primary_target a) \<noteq> Some [] \<and> op_kind (operation a) \<noteq> [])"

lemma schema_with_confidence: "ActionRecordSchema dates (withConfidenceAssessment x) \<longleftrightarrow> normalized_schema dates x"
  by (simp add: ActionRecordSchema_def normalized_schema_def assessment_schema_ok)

lemma normalizePath_nonempty: "normalizePath d p cwd \<noteq> []"
  by (simp add: normalizePath_def path_normalize_def path_resolve_def Let_def)

lemma attempt_fields:
  "RawActionAttemptSchema dates attempt \<Longrightarrow> ra_run_id attempt \<noteq> [] \<and> ra_tool_name attempt \<noteq> [] \<and> ra_tool_kind attempt \<noteq> [] \<and>
     nonempty_str (ra_agent_name attempt) \<and> nonempty_str (ra_agent_framework attempt) \<and>
     safe_record (ra_raw_call attempt) \<and> timestamp_ok dates (ra_received_at attempt)"
  by (auto simp: RawActionAttemptSchema_def)

lemma shell_cwd_nonempty: "RawActionAttemptSchema dates attempt \<Longrightarrow> shell_cwd env attempt \<noteq> []"
  by (cases "ra_workspace_roots attempt")
    (auto simp: RawActionAttemptSchema_def shell_cwd_def opt_or_def nonempty_str_def split: option.splits)

lemma safe_record_simps:
  "safe_record []" "safe_record ((k, v) # kvs) = (k \<notin> {[], ''__proto__'', ''constructor'', ''prototype''} \<and> safe_record kvs)"
  "safe_record (xs @ ys) = (safe_record xs \<and> safe_record ys)"
  by (simp_all add: safe_record_def)

lemma safe_mcp_raw_call: "safe_record (mcp_raw_call m)"
  by (simp add: mcp_raw_call_def safe_record_simps nonempty_field_def opt_field_def split: option.split)

lemma safe_if_given: "safe_record (if_given x (k, v)) = (x = None \<or> safe_record [(k, v)])"
  by (cases x) (simp_all add: if_given_def safe_record_simps)

lemma safe_fn_raw_call: "safe_record (fn_raw_call c)"
  unfolding fn_raw_call_def Let_def by (simp add: safe_record_simps safe_if_given)

lemma filesystem_conforms:
  assumes "RawActionAttemptSchema dates attempt" "timestamp_ok dates (ne_now env)" "ne_action_id env \<noteq> []" "sess \<noteq> []"
  shows "conforms dates (normalizeFilesystemAttempt env attempt sess)"
  using attempt_fields [OF assms(1)] assms(2-4) normalizePath_nonempty
  by (simp add: conforms_def normalizeFilesystemAttempt_def Let_def normalized_schema_def nonempty_str_def unit_interval_def safe_record_simps) blast

lemma set_shell_paths: "set (normalizeShellPathOperands d ps cwd) \<subseteq> {p. p \<noteq> []}"
  by (auto simp: normalizeShellPathOperands_def normalizePath_nonempty)

lemma js_head_nonempty: "js_head xs = Some x \<Longrightarrow> set xs \<subseteq> A \<Longrightarrow> x \<in> A"
  using js_head_in by fastforce

lemma primary_nonempty: "sp_primary (analyzeShellPaths env argv cwd roots cl) \<noteq> Some []"
proof
  assume "sp_primary (analyzeShellPaths env argv cwd roots cl) = Some []"
  then have "[] \<in> set (normalizeShellPathOperands (ne_cwd env) (extractShellPathOperands argv cl) cwd)"
    by (auto simp: analyzeShellPaths_def Let_def choosePrimaryShellPath_def split: if_splits dest: js_head_in)
  with set_shell_paths show False by blast
qed

lemma classify_facts:
  "list_all (\<lambda>w. w \<noteq> []) (sl_warnings (classifyShellCommand argv)) \<and>
   unit_interval (sl_confidence (classifyShellCommand argv))"
  unfolding classifyShellCommand_def Let_def unit_interval_def by simp

lemma if_nonempty: "x \<noteq> [] \<Longrightarrow> y \<noteq> [] \<Longrightarrow> (if b then x else y) \<noteq> []"
  by simp

lemma display_name_nonempty: "shellDisplayName argv cl \<noteq> []"
  unfolding shellDisplayName_def Let_def by (intro if_nonempty) simp_all

lemma shell_conforms:
  assumes "RawActionAttemptSchema dates attempt" "timestamp_ok dates (ne_now env)" "ne_action_id env \<noteq> []" "sess \<noteq> []"
  shows "conforms dates (normalizeShellAttempt env attempt sess)"
proof -
  let ?argv = "shell_argv env attempt"
  let ?cl = "classifyShellCommand ?argv"
  let ?pa = "analyzeShellPaths env ?argv (shell_cwd env attempt) (ra_workspace_roots attempt) ?cl"
  have locator: "opt_or (sp_primary ?pa) (shell_cwd env attempt) \<noteq> []"
    using primary_nonempty shell_cwd_nonempty [OF assms(1)] by (auto simp: opt_or_def split: option.splits)
  have warnings: "list_all (\<lambda>w. w \<noteq> []) (shell_warnings ?cl ?pa)"
    using classify_facts by (auto simp: shell_warnings_def list_all_iff)
  have unknowns: "list_all (\<lambda>w. w \<noteq> []) (sp_unknowns ?pa)" by (simp add: analyzeShellPaths_def Let_def)
  have confs: "unit_interval (shell_normalization_confidence ?cl ?pa)" "unit_interval (shell_provenance_confidence ?cl ?pa)"
    using classify_facts [of ?argv]
    by (auto simp: shell_normalization_confidence_def shell_provenance_confidence_def unit_interval_def)
  show ?thesis
    using attempt_fields [OF assms(1)] assms(2-4) locator warnings unknowns confs display_name_nonempty
    by (simp add: conforms_def normalizeShellAttempt_def Let_def normalized_schema_def nonempty_str_def safe_record_simps)
qed

lemma mcp_conforms:
  assumes "RawActionAttemptSchema dates attempt" "timestamp_ok dates (ne_now env)" "ne_action_id env \<noteq> []" "sess \<noteq> []" "normalizeMcpAttempt env attempt sess = Inr a"
  shows "conforms dates a"
proof -
  obtain m where m: "read_mcp_call attempt = Inr m" using assms(5) by (auto simp: normalizeMcpAttempt_def split: sum.splits)
  have "toolLocator m \<noteq> []" by (simp add: toolLocator_def)
  then show ?thesis using attempt_fields [OF assms(1)] assms(2-5) m safe_mcp_raw_call [of m]
    by (auto simp: conforms_def normalizeMcpAttempt_def normalized_schema_def nonempty_str_def unit_interval_def safe_record_simps)
qed

lemma supported_nonempty: "supported_function i op \<Longrightarrow> op \<noteq> []"
  by (auto simp: supported_function_def DRAFT_OPERATIONS_def NOTE_OPERATIONS_def TICKET_OPERATIONS_def)

lemma read_fn_call_supported: "read_fn_call env attempt = Inr c \<Longrightarrow> supported_function (fn_integration c) (fn_operation c)"
  by (auto simp: read_fn_call_def Let_def split: if_splits sum.splits)

lemma first_failure_None: "first_failure cs = None \<Longrightarrow> (b, msg) \<in> set cs \<Longrightarrow> \<not> b"
  by (auto simp: first_failure_def find_None_iff)

lemma not_blank_nonempty: "\<not> blank v \<Longrightarrow> fn_text v \<noteq> []"
  by (auto simp: blank_def js_trim_def)

lemma function_label_nonempty:
  assumes "first_failure (function_checks c) = None"
  shows "function_label c \<noteq> []"
proof -
  note ff = first_failure_None [OF assms]
  have "\<not> (fn_operation c = ''create_draft'' \<and> blank (fn_subject c))"
    by (rule ff [where msg = "''Draft creation requires a non-empty subject.''"]) (simp add: function_checks_def)
  moreover have "\<not> (fn_operation c = ''create_note'' \<and> blank (fn_title c))"
    by (rule ff [where msg = "''Note creation requires a non-empty title.''"]) (simp add: function_checks_def)
  moreover have "\<not> (fn_operation c = ''create_ticket'' \<and> blank (fn_title c))"
    by (rule ff [where msg = "''Ticket creation requires a non-empty title.''"]) (simp add: function_checks_def ticket_checks_def Let_def)
  ultimately show ?thesis using not_blank_nonempty unfolding function_label_def Let_def by simp
qed

lemma function_display_nonempty: "function_display_name c \<noteq> []"
  unfolding function_display_name_def Let_def by (intro if_nonempty) simp_all

lemma function_locator_nonempty: "function_locator c \<noteq> []"
  unfolding function_locator_def Let_def by simp

lemma function_cases:
  assumes "normalizeFunctionAttempt env attempt sess = Inr a"
  obtains c where "read_fn_call env attempt = Inr c" "first_failure (function_checks c) = None"
    "supported_function (fn_integration c) (fn_operation c)"
  using assms read_fn_call_supported by (auto simp: normalizeFunctionAttempt_def split: sum.splits option.splits)

lemma function_conforms:
  assumes "RawActionAttemptSchema dates attempt" "timestamp_ok dates (ne_now env)" "ne_action_id env \<noteq> []" "sess \<noteq> []" "normalizeFunctionAttempt env attempt sess = Inr a"
  shows "conforms dates a"
  using assms(5)
proof (rule function_cases)
  fix c
  assume c: "read_fn_call env attempt = Inr c" "first_failure (function_checks c) = None"
    "supported_function (fn_integration c) (fn_operation c)"
  show ?thesis
    using assms c attempt_fields [OF assms(1)] supported_nonempty [OF c(3)] function_label_nonempty [OF c(2)]
      function_display_nonempty function_locator_nonempty safe_fn_raw_call [of c]
    by (auto simp: conforms_def normalizeFunctionAttempt_def normalized_schema_def nonempty_str_def unit_interval_def safe_record_simps)
qed

text \<open>C27: What the normalizer returns for a valid attempt is an action record of the schema, with one reservation:
  the label of the target (the last segment of the path) and the operation of a filesystem call are
  copied as they come, and the schema refuses them when they are empty. Every other field, in
  particular every confidence and every list of warnings, is valid whatever the attempt holds; the time of
  the normalization is one that \<open>Date.parse\<close> (\<open>dates\<close>) reads.\<close>

theorem normalized_action_conforms:
  assumes "RawActionAttemptSchema dates attempt" "timestamp_ok dates (ne_now env)" "ne_action_id env \<noteq> []" "sess \<noteq> []" "normalizeActionAttempt env attempt sess = Inr a"
  shows "ActionRecordSchema dates a \<longleftrightarrow> tp_label (primary_target a) \<noteq> Some [] \<and> op_kind (operation a) \<noteq> []"
proof -
  obtain x where a: "a = withConfidenceAssessment x" and x: "conforms dates x"
    using assms(5) filesystem_conforms [OF assms(1-4)] shell_conforms [OF assms(1-4)]
      mcp_conforms [OF assms(1-4)] function_conforms [OF assms(1-4)]
    by (cases "normalizeFunctionAttempt env attempt sess"; cases "normalizeMcpAttempt env attempt sess")
      (auto simp: normalizeActionAttempt_def Let_def split: if_splits)
  show ?thesis using x unfolding a by (simp add: schema_with_confidence conforms_def)
qed

end
