(* ===== verification/Governed_Action.thy ===== *)
theory Governed_Action
  imports Normalizer_Theorems Policy_Theorems
begin

text \<open>
  From the raw attempt to the decision: what the normalizer establishes about a target, the policy
  acts on. Paths outside the workspace are denied whatever the rules say, and owned functions
  always carry a compensator the normalizer itself accepts.
\<close>

section \<open>A denial of the domain evaluator is final\<close>

lemma domain_deny_final:
  assumes "po_decision (evaluate_domain cwd (es_base st) a ctx) = Deny"
  shows "po_decision (evaluatePolicy rx cwd st a ctx) = Deny"
proof (cases "evaluateCompiledPolicy rx (es_overlay st) a (compiled_or_default (cx_compiled_policy ctx))")
  case None
  then show ?thesis by (simp add: evaluatePolicy_None)
next
  case (Some v)
  show ?thesis
    using withBudgetEffects_deny_or_same [of a "evaluate_domain cwd (es_base st) a ctx" "cx_run_summary ctx"] assms
    by (simp add: evaluatePolicy_Some [OF Some] overlay_base_deny)
qed

lemma domain_not_allow:
  assumes "po_decision (evaluate_domain cwd (es_base st) a ctx) \<noteq> Allow"
  shows "po_decision (evaluatePolicy rx cwd st a ctx) \<noteq> Allow"
proof (cases "evaluateCompiledPolicy rx (es_overlay st) a (compiled_or_default (cx_compiled_policy ctx))")
  case None
  then show ?thesis by (simp add: evaluatePolicy_None)
next
  case (Some v)
  let ?b = "evaluate_domain cwd (es_base st) a ctx"
  have "POLICY_DECISION_STRENGTH (po_decision ?b) \<le> POLICY_DECISION_STRENGTH (po_decision (applyPolicyOverlay ?b v))"
    using overlay_strength [of ?b] by (cases v) (simp_all add: applyPolicyOverlay_def)
  also have "\<dots> \<le> POLICY_DECISION_STRENGTH (po_decision (evaluatePolicy rx cwd st a ctx))"
    unfolding evaluatePolicy_Some [OF Some] by (rule order_trans [OF guardrail_strength budget_strength])
  finally show ?thesis using assms by (cases "po_decision ?b") auto
qed

section \<open>Containment\<close>

text \<open>The paths an attempt names, as the normalizer reads them.\<close>

definition attempt_targets :: "norm_env \<Rightarrow> raw_attempt \<Rightarrow> string list" where
  "attempt_targets env attempt =
     (if ra_tool_kind attempt = ''filesystem'' then
        [normalizePath (ne_cwd env)
           (js_String (ne_number_text env) (js_coalesce (raw_field attempt ''path'') (JStr []))) (ra_cwd attempt)]
      else if ra_tool_kind attempt = ''shell'' then
        (let argv = shell_argv env attempt in
         normalizeShellPathOperands (ne_cwd env) (extractShellPathOperands argv (classifyShellCommand argv)) (shell_cwd env attempt))
      else [])"

lemma filesystem_outside_denied:
  assumes "ra_tool_kind attempt = ''filesystem''" "p \<in> set (attempt_targets env attempt)"
    "\<not> isPathInsideWorkspace (ne_realpath env) (ne_cwd env) p (ra_workspace_roots attempt)"
  shows "po_decision (evaluate_domain cwd s (withConfidenceAssessment (normalizeFilesystemAttempt env attempt sess)) ctx) = Deny"
proof -
  let ?x = "normalizeFilesystemAttempt env attempt sess"
  have "''scope'' \<in> set (ts_unknowns (scope ?x))" "domain_of ?x = ''filesystem''"
    using assms by (simp_all add: attempt_targets_def normalizeFilesystemAttempt_def Let_def)
  then show ?thesis by (simp add: evaluate_domain_def evaluateFilesystem_def Let_def)
qed

lemma shell_outside_denied:
  assumes "ra_tool_kind attempt = ''shell''" "p \<in> set (attempt_targets env attempt)"
    "\<not> isPathInsideWorkspace (ne_realpath env) (ne_cwd env) p (ra_workspace_roots attempt)"
  shows "po_decision (evaluate_domain cwd s (withConfidenceAssessment (normalizeShellAttempt env attempt sess)) ctx) = Deny"
proof -
  let ?x = "normalizeShellAttempt env attempt sess"
  have d: "domain_of ?x = ''shell''" by (simp add: normalizeShellAttempt_def Let_def)
  have b: "ts_breadth (scope ?x) = SB_external"
    using assms unfolding attempt_targets_def normalizeShellAttempt_def analyzeShellPaths_def Let_def
    by (auto simp: filter_empty_conv)
  show ?thesis using d b by (simp add: evaluate_domain_def evaluateShell_def Let_def)
qed

text \<open>The paths an attempt names, told without the normalizer's reading of the command: the path of a file operation; the
  operands of \<open>rm\<close>, \<open>mv\<close>, \<open>cp\<close>, \<open>ls\<close>, \<open>cat\<close>, \<open>head\<close>, \<open>tail\<close> and \<open>wc\<close> that have a
  slash or start with a dot; and the words that are absolute paths of every other command but the interpreters,
  \<open>find\<close>, \<open>rg\<close> and \<open>pwd\<close>. A word that starts with a dash is an option. Nothing is expanded, as no shell reads the words.\<close>

definition from_dir :: "string \<Rightarrow> string \<Rightarrow> string" where
  "from_dir d w = (if path_absolute w then w else d @ ''/'' @ w)"

definition absolute_from :: "string \<Rightarrow> string option \<Rightarrow> string \<Rightarrow> string" where
  "absolute_from proc_cwd cwd w = from_dir proc_cwd (from_dir (case cwd of None \<Rightarrow> proc_cwd | Some d \<Rightarrow> d) w)"

definition names_operand :: "string \<Rightarrow> string \<Rightarrow> bool" where
  "names_operand cmd w =
     (\<not> prefix ''-'' w \<and>
      (if cmd \<in> {''rm'', ''mv'', ''cp'', ''ls'', ''cat'', ''head'', ''tail'', ''wc''} then CHR ''/'' \<in> set w \<or> prefix ''.'' w
       else path_absolute w \<and> cmd \<notin> {''find'', ''rg'', ''pwd''} \<and> cmd \<notin> set INTERPRETER_COMMANDS))"

definition named_paths :: "norm_env \<Rightarrow> raw_attempt \<Rightarrow> string list" where
  "named_paths env attempt =
     (if ra_tool_kind attempt = ''filesystem'' then
        [absolute_from (ne_cwd env) (ra_cwd attempt) (js_String (ne_number_text env) (js_coalesce (raw_field attempt ''path'') (JStr [])))]
      else if ra_tool_kind attempt = ''shell'' then
        map (\<lambda>w. absolute_from (ne_cwd env) (Some (shell_cwd env attempt)) (js_trim w))
          (filter (names_operand (argv_at (shell_argv env attempt) 0 ''unknown'')) (drop 1 (shell_argv env attempt)))
      else [])"

text \<open>Outside every root, where the deepest ancestor that exists decides what a path is (\<open>resolve_spec\<close>).\<close>

definition outside_roots :: "norm_env \<Rightarrow> string list \<Rightarrow> string \<Rightarrow> bool" where
  "outside_roots env roots p =
     list_all (\<lambda>rt.
       case (resolve_spec (ne_realpath env) (path_segments (from_dir (ne_cwd env) rt)),
             resolve_spec (ne_realpath env) (path_segments p)) of
         (Some r, Some t) \<Rightarrow> t \<noteq> r \<and> \<not> prefix (r @ ''/'') t
       | _ \<Rightarrow> True) roots"

lemma js_split_snoc: "js_split d (s @ [d]) = js_split d s @ [[]]"
  by (induction s) (auto split: list.split)

lemma path_push_snoc_empty: "path_push acc (ws @ [[]]) = path_push acc ws"
  by (induction ws arbitrary: acc) simp_all

lemma segments_slash: "path_segments (p @ ''/'') = path_segments p"
  by (simp add: path_segments_def js_split_snoc path_push_snoc_empty)

lemma segments_normalize: "path_segments (path_normalize p) = path_segments p"
proof -
  have abs: "path_segments (''/'' @ js_join ''/'' (path_segments p)) = path_segments p"
    using path_segments_abs [OF path_segments_good, of p] by (simp only: abs_path_def)
  show ?thesis using segments_slash [of "''/'' @ js_join ''/'' (path_segments p)"] abs by (simp add: path_normalize_def Let_def)
qed

lemma segments_normalizePath:
  "path_segments (normalizePath proc_cwd w cwd) = path_segments (absolute_from proc_cwd cwd w)" "path_absolute (normalizePath proc_cwd w cwd)"
proof -
  show "path_segments (normalizePath proc_cwd w cwd) = path_segments (absolute_from proc_cwd cwd w)"
    by (simp add: normalizePath_def absolute_from_def from_dir_def segments_normalize path_resolve_abs path_segments_abs path_segments_good Let_def)
  show "path_absolute (normalizePath proc_cwd w cwd)"
    by (simp add: normalizePath_def path_normalize_def path_resolve_def path_absolute_def Let_def)
qed

lemma outside_not_inside:
  assumes "outside_roots env roots p" "path_segments q = path_segments p" "path_absolute q"
  shows "\<not> isPathInsideWorkspace (ne_realpath env) (ne_cwd env) q roots"
proof -
  have "canonicalizePathForContainmentSync (ne_realpath env) (ne_cwd env) q = Some (resolve_spec (ne_realpath env) (path_segments p))"
    using assms(2,3) by (simp add: canonicalize_spec)
  moreover have "canonicalizePathForContainmentSync (ne_realpath env) (ne_cwd env) rt =
      Some (resolve_spec (ne_realpath env) (path_segments (from_dir (ne_cwd env) rt)))" for rt
    by (simp add: canonicalize_spec from_dir_def)
  ultimately show ?thesis using assms(1)
    by (auto simp: isPathInsideWorkspace_def outside_roots_def isNormalizedPathInsideRoot_def path_within_def list_ex_iff list_all_iff
        split: option.splits)
qed

lemma trim_keeps: "c \<in> set w \<Longrightarrow> \<not> js_space c \<Longrightarrow> js_trim w \<noteq> []"
proof -
  assume c: "c \<in> set w" "\<not> js_space c"
  have keep: "c \<in> set (dropWhile js_space xs)" if "c \<in> set xs" for xs
    using that c(2) by (induction xs) auto
  have "c \<in> set (js_trim w)" unfolding js_trim_def using keep [of w] keep [of "rev (dropWhile js_space w)"] c(1) by simp
  then show ?thesis by auto
qed

lemma lists_operand:
  assumes "names_operand (argv_at argv 0 ''unknown'') w" "w \<in> set (drop 1 argv)"
  shows "w \<in> set (extractShellPathOperands argv (classifyShellCommand argv))" "js_trim w \<noteq> []"
proof -
  let ?cmd = "argv_at argv 0 ''unknown''" and ?cl = "classifyShellCommand argv"
  have opt: "\<not> prefix ''-'' w" using assms(1) by (simp add: names_operand_def)
  have some: "CHR ''/'' \<in> set w \<or> CHR ''.'' \<in> set w"
    using assms(1) by (auto simp: names_operand_def path_absolute_def prefix_def split: if_splits)
  then show "js_trim w \<noteq> []" using trim_keeps by (auto simp: js_space_def)
  have looks: "looksLikePathOperand w" using some by (auto simp: looksLikePathOperand_def list_ex_iff)
  have operand: "w \<in> set (filter looksLikePathOperand (collectNonOptionOperands argv))"
    using looks opt assms(2) by (simp add: collectNonOptionOperands_def)
  show "w \<in> set (extractShellPathOperands argv ?cl)"
  proof (cases "?cmd \<in> {''rm'', ''mv'', ''cp''}")
    case True
    then have "sl_family ?cl = ''filesystem_primitive''"
      by (auto simp: classifyShellCommand_def Let_def SAFE_READ_ONLY_COMMANDS_def)
    with operand show ?thesis by (simp add: extractShellPathOperands_def Let_def)
  next
    case primitive: False
    show ?thesis
    proof (cases "?cmd \<in> set SHELL_READ_ONLY_PATH_COMMANDS")
      case True
      then have "sl_family ?cl = ''read_only_shell''"
        by (auto simp: classifyShellCommand_def Let_def SAFE_READ_ONLY_COMMANDS_def SHELL_READ_ONLY_PATH_COMMANDS_def)
      moreover have "?cmd \<noteq> ''find''" "?cmd \<noteq> ''rg''" using True by (auto simp: SHELL_READ_ONLY_PATH_COMMANDS_def)
      ultimately show ?thesis using operand True by (simp add: extractShellPathOperands_def Let_def)
    next
      case False
      with primitive assms(1) have abs: "path_absolute w" and other: "?cmd \<notin> {''find'', ''rg'', ''pwd''}" "?cmd \<notin> set INTERPRETER_COMMANDS"
        by (auto simp: names_operand_def SHELL_READ_ONLY_PATH_COMMANDS_def split: if_splits)
      then have safe: "?cmd \<notin> set SAFE_READ_ONLY_COMMANDS"
        using False by (auto simp: SAFE_READ_ONLY_COMMANDS_def SHELL_READ_ONLY_PATH_COMMANDS_def)
      have "sl_family ?cl \<notin> {''read_only_shell'', ''filesystem_primitive'', ''interpreter''}"
        using safe primitive other(2) by (simp add: classifyShellCommand_def Let_def)
      then show ?thesis using abs assms(2) by (simp add: extractShellPathOperands_def Let_def)
    qed
  qed
qed

lemma named_path_read:
  assumes "p \<in> set (named_paths env attempt)"
  shows "\<exists>q \<in> set (attempt_targets env attempt). path_segments q = path_segments p \<and> path_absolute q"
proof (cases "ra_tool_kind attempt = ''filesystem''")
  case True
  with assms show ?thesis by (simp add: named_paths_def attempt_targets_def segments_normalizePath)
next
  case False
  let ?argv = "shell_argv env attempt"
  from assms False obtain w where k: "ra_tool_kind attempt = ''shell''"
    and w: "names_operand (argv_at ?argv 0 ''unknown'') w" "w \<in> set (drop 1 ?argv)"
    and p: "p = absolute_from (ne_cwd env) (Some (shell_cwd env attempt)) (js_trim w)"
    by (auto simp: named_paths_def split: if_splits)
  let ?q = "normalizePath (ne_cwd env) (js_trim w) (Some (shell_cwd env attempt))"
  have "?q \<in> set (attempt_targets env attempt)"
    using k lists_operand [OF w] by (auto simp: attempt_targets_def normalizeShellPathOperands_def Let_def)
  moreover have "path_segments ?q = path_segments p" "path_absolute ?q" by (simp_all add: p segments_normalizePath)
  ultimately show ?thesis by blast
qed


section \<open>Owned functions\<close>

definition compensator_supported :: "fn_call \<Rightarrow> bool" where
  "compensator_supported c =
     (\<exists>op'. trustedCompensator c = fn_integration c @ ''.'' @ op' \<and> supported_function (fn_integration c) op')"

lemma compensator_closed:
  assumes "supported_function (fn_integration c) (fn_operation c)"
  shows "compensator_supported c"
proof -
  have t: "compensator_supported c" if "trustedCompensator c = fn_integration c @ ''.'' @ op'" "supported_function (fn_integration c) op'" for op'
    using that by (auto simp: compensator_supported_def)
  consider "fn_integration c = ''drafts''" "fn_operation c \<in> set DRAFT_OPERATIONS"
    | "fn_integration c = ''notes''" "fn_operation c \<in> set NOTE_OPERATIONS"
    | "fn_integration c = ''tickets''" "fn_operation c \<in> set TICKET_OPERATIONS"
    using assms by (auto simp: supported_function_def)
  then show ?thesis
  proof cases
    case 1
    then have "trustedCompensator c \<in> {''drafts.archive_draft'', ''drafts.unarchive_draft'', ''drafts.restore_draft'',
        ''drafts.remove_label'', ''drafts.add_label''}"
      by (auto simp: DRAFT_OPERATIONS_def trustedCompensator_def)
    then show ?thesis
      using 1(1) t [of "''archive_draft''"] t [of "''unarchive_draft''"] t [of "''restore_draft''"] t [of "''remove_label''"]
        t [of "''add_label''"]
      by (auto simp: supported_function_def DRAFT_OPERATIONS_def)
  next
    case 2
    then have "trustedCompensator c \<in> {''notes.archive_note'', ''notes.unarchive_note'', ''notes.restore_note''}"
      by (auto simp: NOTE_OPERATIONS_def trustedCompensator_def)
    then show ?thesis
      using 2(1) t [of "''archive_note''"] t [of "''unarchive_note''"] t [of "''restore_note''"]
      by (auto simp: supported_function_def NOTE_OPERATIONS_def)
  next
    case 3
    then have "trustedCompensator c \<in> {''tickets.delete_ticket'', ''tickets.restore_ticket'', ''tickets.remove_label'',
        ''tickets.add_label'', ''tickets.unassign_user'', ''tickets.assign_user'', ''tickets.reopen_ticket'', ''tickets.close_ticket''}"
      by (auto simp: TICKET_OPERATIONS_def trustedCompensator_def)
    then show ?thesis
      using 3(1) t [of "''delete_ticket''"] t [of "''restore_ticket''"] t [of "''remove_label''"] t [of "''add_label''"]
        t [of "''unassign_user''"] t [of "''assign_user''"] t [of "''reopen_ticket''"] t [of "''close_ticket''"]
      by (auto simp: supported_function_def TICKET_OPERATIONS_def)
  qed
qed

lemma function_facet_fields:
  "obj_get [(''function'', function_facet c)] ''function'' = function_facet c"
  "js_get (function_facet c) ''integration'' = JStr (fn_integration c)"
  "js_get (function_facet c) ''operation'' = JStr (fn_operation c)"
  "js_get (function_facet c) ''trusted_compensator'' = JStr (trustedCompensator c)"
  by (simp_all add: obj_get_def js_get_def function_facet_def)

text \<open>C26: Every function action the normalizer accepts names an operation of one of the owned integrations and
  carries as trusted compensator another operation that the normalizer accepts for the same
  integration, so the compensation can itself be submitted; the policy never allows such an action
  without a recovery boundary.\<close>

theorem function_actions_compensatable:
  assumes "normalizeActionAttempt env attempt sess = Inr a" "ra_tool_kind attempt = ''function''"
  shows "(\<exists>integ op op'. facet_field a ''function'' ''integration'' = JStr integ \<and>
      facet_field a ''function'' ''operation'' = JStr op \<and> supported_function integ op \<and>
      facet_field a ''function'' ''trusted_compensator'' = JStr (integ @ ''.'' @ op') \<and> supported_function integ op') \<and>
    po_decision (evaluatePolicy rx cwd st a ctx) \<noteq> Allow"
proof (intro conjI)
  obtain x where x: "normalizeFunctionAttempt env attempt sess = Inr x" "a = withConfidenceAssessment x"
    using assms by (cases "normalizeFunctionAttempt env attempt sess") (simp_all add: normalizeActionAttempt_def)
  obtain c where c: "read_fn_call env attempt = Inr c" "first_failure (function_checks c) = None"
    "supported_function (fn_integration c) (fn_operation c)" using x(1) by (rule function_cases)
  have dom: "domain_of a = ''function''" and fct: "facets a = [(''function'', function_facet c)]"
    using x c by (auto simp: normalizeFunctionAttempt_def)
  obtain op' where op': "trustedCompensator c = fn_integration c @ ''.'' @ op'" "supported_function (fn_integration c) op'"
    using compensator_closed [OF c(3)] by (auto simp: compensator_supported_def)
  show "\<exists>integ op op'. facet_field a ''function'' ''integration'' = JStr integ \<and>
      facet_field a ''function'' ''operation'' = JStr op \<and> supported_function integ op \<and>
      facet_field a ''function'' ''trusted_compensator'' = JStr (integ @ ''.'' @ op') \<and> supported_function integ op'"
    using c(3) op' fct by (simp add: facet_field_def facet_def function_facet_fields)
  have "po_decision (evaluate_domain cwd (es_base st) a ctx) \<noteq> Allow"
    using evaluateFunction_gate [of a "es_base st" ctx] dom by (simp add: evaluate_domain_def function_gate_def)
  then show "po_decision (evaluatePolicy rx cwd st a ctx) \<noteq> Allow" by (rule domain_not_allow)
qed

section \<open>Sample attempts\<close>

text \<open>A workspace \<open>/ws\<close> with a symbolic link \<open>/ws/out\<close> that points to \<open>/etc\<close>.\<close>

definition demo_fs :: realpath where
  "demo_fs p =
     (if p = ''/ws/out'' then RP_resolved ''/etc''
      else if p \<in> {''/'', ''/ws'', ''/ws/src'', ''/etc''} then RP_resolved p else RP_missing)"

definition demo_env :: norm_env where
  "demo_env = \<lparr>ne_cwd = ''/ws'', ne_now = ''2026-04-01T00:00:01.000Z'', ne_action_id = ''act_1'', ne_realpath = demo_fs,
     ne_sha256 = (\<lambda>s. ''00''), ne_stringify = (\<lambda>v. []), ne_number_text = (\<lambda>n. ''0''), ne_compare = (\<lambda>s t. 0)\<rparr>"

definition demo_attempt :: "string \<Rightarrow> (string \<times> jsval) list \<Rightarrow> raw_attempt" where
  "demo_attempt kind call =
     \<lparr>ra_run_id = ''run_1'', ra_tool_name = ''tool'', ra_tool_kind = kind, ra_raw_call = call, ra_workspace_roots = [''/ws''],
      ra_cwd = None, ra_credential_mode = None, ra_agent_name = None, ra_agent_framework = None,
      ra_received_at = ''2026-04-01T00:00:00.000Z''\<rparr>"

definition demo_write :: "string \<Rightarrow> raw_attempt" where
  "demo_write p = demo_attempt ''filesystem'' [(''operation'', JStr ''write''), (''path'', JStr p), (''content'', JStr ''x'')]"

definition demo_command :: "string \<Rightarrow> raw_attempt" where
  "demo_command s = demo_attempt ''shell'' [(''command'', JStr s)]"

definition demo_normalized :: "raw_attempt \<Rightarrow> action_record" where
  "demo_normalized attempt = projr (normalizeActionAttempt demo_env attempt ''sess_1'')"

lemma demo_paths:
  "canonicalizePathForContainmentSync demo_fs ''/ws'' ''/ws'' = Some (Some ''/ws'')"
  "canonicalizePathForContainmentSync demo_fs ''/ws'' ''/ws/out/passwd'' = Some (Some ''/etc/passwd'')"
  "canonicalizePathForContainmentSync demo_fs ''/ws'' ''/ws/src/new/a.txt'' = Some (Some ''/ws/src/new/a.txt'')"
  by code_simp+

lemma demo_normalized_local:
  "ra_tool_kind attempt \<in> {''filesystem'', ''shell''} \<Longrightarrow>
     normalizeActionAttempt demo_env attempt ''sess_1'' = Inr (demo_normalized attempt)"
  by (auto simp: demo_normalized_def normalizeActionAttempt_def)

lemma demo_kinds [simp]:
  "ra_tool_kind (demo_write p) = ''filesystem''" "ra_tool_kind (demo_command s) = ''shell''"
  by (simp_all add: demo_write_def demo_command_def demo_attempt_def)


definition demo_label_call :: raw_attempt where
  "demo_label_call = demo_attempt ''function''
     [(''integration'', JStr ''tickets''), (''operation'', JStr ''add_label''), (''ticket_id'', JStr '' t1 ''), (''label'', JStr ''bug'')]"

lemma demo_label: "normalizeActionAttempt demo_env demo_label_call ''sess_1'' = Inr (demo_normalized demo_label_call)"
proof -
  have "\<not> isl (read_fn_call demo_env demo_label_call)" by code_simp
  then obtain c where c: "read_fn_call demo_env demo_label_call = Inr c" by (cases "read_fn_call demo_env demo_label_call") simp_all
  have "first_failure (function_checks (projr (read_fn_call demo_env demo_label_call))) = None" by code_simp
  then have f: "first_failure (function_checks c) = None" by (simp add: c)
  have k: "ra_tool_kind demo_label_call = ''function''" by code_simp
  show ?thesis by (simp add: Let_def demo_normalized_def normalizeActionAttempt_def normalizeFunctionAttempt_def c f k)
qed

theorem function_actions_compensatable_witness:
  "(\<exists>integ op op'. facet_field (demo_normalized demo_label_call) ''function'' ''integration'' = JStr integ \<and>
      facet_field (demo_normalized demo_label_call) ''function'' ''operation'' = JStr op \<and> supported_function integ op \<and>
      facet_field (demo_normalized demo_label_call) ''function'' ''trusted_compensator'' = JStr (integ @ ''.'' @ op') \<and>
      supported_function integ op') \<and>
   po_decision (evaluatePolicy js_regex_test ''/ws'' sample_stamps (demo_normalized demo_label_call) empty_context) \<noteq> Allow"
proof -
  have k: "ra_tool_kind demo_label_call = ''function''" by code_simp
  show ?thesis by (rule function_actions_compensatable [OF demo_label k])
qed

theorem normalized_action_conforms_witness:
  "ActionRecordSchema (\<lambda>t. True) (demo_normalized (demo_write ''src/new/a.txt''))"
proof -
  have v: "RawActionAttemptSchema (\<lambda>t. True) (demo_write ''src/new/a.txt'')" by code_simp
  have "tp_label (primary_target (demo_normalized (demo_write ''src/new/a.txt''))) = Some ''a.txt''"
    "op_kind (operation (demo_normalized (demo_write ''src/new/a.txt''))) = ''write''" by code_simp+
  with normalized_action_conforms [OF v _ _ _ demo_normalized_local] show ?thesis by (simp add: demo_env_def timestamp_ok_def)
qed

section \<open>Corners\<close>

text \<open>The label of the root directory is empty, so listing it is refused as an invalid action record.\<close>

lemma root_directory_refused:
  "validateActionRecord (\<lambda>t. True) (demo_normalized (demo_command ''ls /'')) = Inl (InternalError ''Normalized action failed schema validation.'')"
  by code_simp

text \<open>\<open>find\<close> counts as read-only whatever its arguments: deleting with it is allowed automatically.\<close>

lemma find_delete_allowed:
  "po_decision (evaluatePolicy js_regex_test ''/ws'' sample_stamps (demo_normalized (demo_command ''find src -delete'')) empty_context) = Allow"
  by code_simp

text \<open>Only the first operand of \<open>find\<close> is checked for containment.\<close>

lemma find_second_root_allowed:
  "po_decision (evaluatePolicy js_regex_test ''/ws'' sample_stamps (demo_normalized (demo_command ''find ./src /etc/ssh'')) empty_context) = Allow"
  by code_simp

end
