(* ===== verification/Workspace_Files.thy ===== *)
theory Workspace_Files
  imports Path_Containment "HOL-Library.List_Lexorder" "HOL-Library.Char_ord"
begin

text \<open>
  The file operations of \<open>packages/workspace-index/src/index.ts\<close> on the tree of a workspace: paths,
  ignore patterns, selectors, the walk, and removing and copying without following links. The tree
  lists its entries by their path relative to the root; every entry is readable, and no link leads to
  a directory (the code tests only the last component of a path for a link). An operation that
  throws keeps what it has changed.
\<close>

section \<open>The tree\<close>

text \<open>A file with its content, \<open>mtimeMs\<close> and \<open>mode\<close>; a link with the content and mode of the
  regular file it leads to, if it does.\<close>

datatype node = ND_dir | ND_file string int nat | ND_link "(string \<times> nat) option"

type_synonym tree = "(string \<times> node) list"

text \<open>What is thrown: an \<open>AgentGitError\<close>, or an error of Node or SQLite with its code.\<close>

datatype wi_error = WE_ag ag_error | WE_node string

abbreviation "wi_internal m \<equiv> WE_ag (InternalError m)"

definition ancestors :: "string \<Rightarrow> string list" where
  "ancestors p = map (\<lambda>i. take i p) (filter (\<lambda>i. p ! i = CHR ''/'') [0..<length p])"

datatype lookup = LK_missing | LK_not_dir | LK_node node

definition blocks_path :: "tree \<Rightarrow> string \<Rightarrow> bool" where
  "blocks_path t a = (case map_of t a of None \<Rightarrow> False | Some ND_dir \<Rightarrow> False | Some _ \<Rightarrow> True)"

definition lstat :: "tree \<Rightarrow> string \<Rightarrow> lookup" where
  "lstat t p =
     (if p = ''.'' then LK_node ND_dir
      else if list_ex (blocks_path t) (ancestors p) then LK_not_dir
      else case map_of t p of None \<Rightarrow> LK_missing | Some n \<Rightarrow> LK_node n)"

definition rm_tree :: "string \<Rightarrow> tree \<Rightarrow> tree" where
  "rm_tree p t = (if p = ''.'' then [] else filter (\<lambda>e. \<not> path_within (fst e) p) t)"

text \<open>\<open>fs.mkdir(dir, { recursive: true })\<close> for the directories above a path.\<close>

fun make_dirs :: "string list \<Rightarrow> tree \<Rightarrow> wi_error option \<times> tree" where
  "make_dirs [] t = (None, t)"
| "make_dirs (a # as) t =
     (case map_of t a of
        None \<Rightarrow> make_dirs as (t @ [(a, ND_dir)])
      | Some ND_dir \<Rightarrow> make_dirs as t
      | Some _ \<Rightarrow> (Some (WE_node ''ENOTDIR''), t))"

section \<open>Relative paths\<close>

fun strip_common :: "'a list \<Rightarrow> 'a list \<Rightarrow> 'a list \<times> 'a list" where
  "strip_common (x # xs) (y # ys) = (if x = y then strip_common xs ys else (x # xs, y # ys))"
| "strip_common xs ys = (xs, ys)"

text \<open>\<open>path.relative\<close> of absolute paths.\<close>

definition path_relative :: "string \<Rightarrow> string \<Rightarrow> string" where
  "path_relative src dst =
     (let (a, b) = strip_common (path_segments src) (path_segments dst) in
      js_join ''/'' (replicate (length a) ''..'' @ b))"

text \<open>\<open>path.normalize\<close> of a relative path: leading \<open>..\<close> stay.\<close>

fun push_relative :: "string list \<Rightarrow> string list \<Rightarrow> string list" where
  "push_relative acc [] = rev acc"
| "push_relative acc (w # ws) =
     (if w = [] \<or> w = ''.'' then push_relative acc ws
      else if w = ''..'' \<and> acc \<noteq> [] \<and> hd acc \<noteq> ''..'' then push_relative (tl acc) ws
      else push_relative (w # acc) ws)"

definition normalize_relative :: "string \<Rightarrow> string" where
  "normalize_relative p =
     (let ws = push_relative [] (js_split CHR ''/'' p); s = js_join ''/'' ws; dir = (p \<noteq> [] \<and> suffix ''/'' p) in
      if ws = [] then (if dir then ''./'' else ''.'') else s @ (if dir then ''/'' else []))"

definition resolveWorkspaceRelativePath :: "string \<Rightarrow> string \<Rightarrow> wi_error + string" where
  \<comment> \<open>the workspace root is absolute\<close>
  "resolveWorkspaceRelativePath rt p =
     (let rt' = path_resolve rt rt; q = path_resolve rt' p in
      if path_within q rt' then
        (let r = path_relative rt' q in Inr (if r = [] then ''.'' else normalize_relative r))
      else Inl (wi_internal ''Workspace snapshot referenced a path outside the workspace root.''))"

text \<open>The key of a blob: its path below the files of its snapshot.\<close>

definition resolveSnapshotFilePath :: "string \<Rightarrow> string \<Rightarrow> string \<Rightarrow> wi_error + string" where
  "resolveSnapshotFilePath snapshot_dir snap_id p =
     (let base = path_join [snapshot_dir, ''snaps'', snap_id, ''files'']; q = path_resolve base p in
      if path_within q base then Inr (path_relative base q)
      else Inl (wi_internal ''Workspace snapshot file entry escaped the snapshot root.''))"

section \<open>Ignore patterns\<close>

definition DEFAULT_IGNORE_PATTERNS :: "string list" where
  "DEFAULT_IGNORE_PATTERNS =
     [''.env'', ''.env.*'', ''*.pem'', ''*.key'', ''*.p12'', ''*.pfx'', ''credentials.*'', ''secrets.*'',
      ''**/node_modules/**'', ''**/.git/**'', ''**/.agentgit/**'', ''*.sqlite'', ''*.db'', ''*.sqlite-wal'', ''*.sqlite-shm'']"

text \<open>\<open>s.replace(p, "")\<close> removes the first occurrence.\<close>

fun remove_first :: "string \<Rightarrow> string \<Rightarrow> string" where
  "remove_first p [] = []"
| "remove_first p (c # s) = (if prefix p (c # s) then drop (length p) (c # s) else c # remove_first p s)"

definition matches_pattern :: "string \<Rightarrow> string \<Rightarrow> bool" where
  "matches_pattern normalized pattern =
     (let base = path_basename normalized in
      if js_str_includes pattern ''**/'' then
        (let suf = remove_first ''**/'' pattern in
         if suffix ''/**'' suf then
           (let dir = take (length suf - 3) suf in
            js_str_includes normalized (''/'' @ dir @ ''/'') \<or> prefix (dir @ ''/'') normalized)
         else js_str_includes normalized suf \<or> suffix suf normalized)
      else if prefix ''*.'' pattern then suffix (tl pattern) base
      else if suffix ''.*'' pattern then prefix (take (length pattern - 2) pattern) base \<and> js_str_includes base ''.''
      else base = pattern \<or> (prefix ''.'' pattern \<and> (base = pattern \<or> prefix (pattern @ ''.'') base)))"

definition matchesIgnorePattern :: "string \<Rightarrow> string list \<Rightarrow> bool" where
  "matchesIgnorePattern file_path patterns = list_ex (matches_pattern file_path) patterns"

section \<open>Selectors\<close>

fun resolve_selectors :: "string \<Rightarrow> string list \<Rightarrow> wi_error + string list" where
  "resolve_selectors rt [] = Inr []"
| "resolve_selectors rt (p # ps) =
     (if js_trim p = [] then Inl (WE_ag (PreconditionError ''Path subset selectors must not be empty.''))
      else case resolveWorkspaceRelativePath rt (js_trim p) of
          Inl e \<Rightarrow> Inl (WE_ag (PreconditionError ''Path subset selectors must stay within the workspace root.''))
        | Inr r \<Rightarrow> (case resolve_selectors rt ps of Inl e \<Rightarrow> Inl e | Inr rs \<Rightarrow> Inr (r # rs)))"

definition normalizeSubsetSelectors :: "string list \<Rightarrow> string \<Rightarrow> wi_error + string list" where
  "normalizeSubsetSelectors paths rt =
     (case resolve_selectors rt paths of Inl e \<Rightarrow> Inl e | Inr rs \<Rightarrow> Inr (sort (js_dedup rs)))"

definition pathMatchesSelectors :: "string \<Rightarrow> string list \<Rightarrow> bool" where
  "pathMatchesSelectors p selectors =
     list_ex (\<lambda>s. s = ''.'' \<or> path_within (normalize_relative p) (normalize_relative s)) selectors"

section \<open>The walk\<close>

record fs_entry =
  fe_path :: string
  fe_mtime :: int
  fe_size :: nat
  fe_mode :: nat

definition entered :: "tree \<Rightarrow> string list \<Rightarrow> string \<Rightarrow> bool" where
  "entered t ignores p =
     list_all (\<lambda>a. map_of t a = Some ND_dir \<and> \<not> matchesIgnorePattern a ignores) (ancestors p)"

fun walk_entry :: "tree \<Rightarrow> string list \<Rightarrow> string \<times> node \<Rightarrow> fs_entry list" where
  "walk_entry t ignores (p, ND_file c m md) =
     (if entered t ignores p \<and> \<not> matchesIgnorePattern p ignores
      then [\<lparr>fe_path = p, fe_mtime = m, fe_size = length c, fe_mode = md\<rparr>] else [])"
| "walk_entry t ignores (p, n) = []"

text \<open>The walk descends into the directories that are not ignored and yields their files.\<close>

definition walkWorkspace :: "tree \<Rightarrow> string list \<Rightarrow> fs_entry list" where
  "walkWorkspace t ignores = concat (map (walk_entry t ignores) t)"

section \<open>Removing and copying\<close>

definition removeWorkspacePathIfSafe :: "string \<Rightarrow> string \<Rightarrow> tree \<Rightarrow> (wi_error + bool) \<times> tree" where
  "removeWorkspacePathIfSafe rt p t =
     (case resolveWorkspaceRelativePath rt p of
        Inl e \<Rightarrow> (Inl e, t)
      | Inr q \<Rightarrow>
          (case lstat t q of
             LK_missing \<Rightarrow> (Inr False, t)
           | LK_not_dir \<Rightarrow> (Inl (WE_node ''ENOTDIR''), t)
           | LK_node (ND_link l) \<Rightarrow> (Inl (wi_internal ''Workspace restore refused to remove a symlinked path.''), t)
           | LK_node n \<Rightarrow> (Inr True, rm_tree q t)))"

definition assertWorkspaceRestoreDestinationSafe :: "string \<Rightarrow> string \<Rightarrow> tree \<Rightarrow> wi_error + string" where
  "assertWorkspaceRestoreDestinationSafe rt p t =
     (case resolveWorkspaceRelativePath rt p of
        Inl e \<Rightarrow> Inl e
      | Inr q \<Rightarrow>
          (case lstat t q of
             LK_not_dir \<Rightarrow> Inl (WE_node ''ENOTDIR'')
           | LK_node (ND_link l) \<Rightarrow> Inl (wi_internal ''Workspace restore refused to overwrite a symlinked path.'')
           | _ \<Rightarrow> Inr q))"

text \<open>The two ends of \<open>copyRegularFileNoFollow\<close>: what is read, and what is written at time \<open>now\<close>.\<close>

definition copy_source :: "lookup \<Rightarrow> wi_error + string \<times> nat" where
  "copy_source l =
     (case l of
        LK_missing \<Rightarrow> Inl (WE_node ''ENOENT'')
      | LK_not_dir \<Rightarrow> Inl (WE_node ''ENOTDIR'')
      | LK_node (ND_file c m md) \<Rightarrow> Inr (c, md)
      | LK_node _ \<Rightarrow> Inl (wi_internal ''Workspace index refused to copy a non-regular file.''))"

definition write_copy :: "int \<Rightarrow> string \<Rightarrow> string \<times> nat \<Rightarrow> tree \<Rightarrow> wi_error option \<times> tree" where
  "write_copy now p src t =
     (case make_dirs (ancestors p) t of
        (Some e, t') \<Rightarrow> (Some e, t')
      | (None, t') \<Rightarrow>
          (case map_of t' p of
             Some ND_dir \<Rightarrow> (Some (WE_node ''ERR_FS_CP_NON_DIR_TO_DIR''), t')
           | _ \<Rightarrow> (None, AList.update p (ND_file (fst src) now (snd src)) t')))"

definition chmod :: "string \<Rightarrow> nat \<Rightarrow> tree \<Rightarrow> tree" where
  \<comment> \<open>failures are ignored by the code\<close>
  "chmod p md t = (case map_of t p of Some (ND_file c m d) \<Rightarrow> AList.update p (ND_file c m md) t | _ \<Rightarrow> t)"

end
