(* ===== verification/Workspace_Index.thy ===== *)
theory Workspace_Index
  imports Workspace_Files
begin

text \<open>
  \<open>WorkspaceIndex\<close> of \<open>packages/workspace-index/src/index.ts\<close>: the index of the files of a workspace
  and the chain of snapshots. A snapshot holds the files that changed since its parent; restoring
  one layers the chain, newest first. The tables \<open>file_index\<close>, \<open>snapshots\<close>, \<open>snap_files\<close> and
  \<open>prepared_scans\<close>, the files below \<open>snaps/\<close> and the tree of the workspace are one state. An operation
  that may throw returns its outcome with the state it leaves. Identifiers and times are
  arguments; the last query of an unordered table follows its primary key. Failures of the disk and
  of SQLite other than violated keys are not modelled.
\<close>

section \<open>State\<close>

datatype change_type = CT_created | CT_modified | CT_deleted | CT_permissions

record dirty_file =
  df_path :: string
  df_change :: change_type
  df_hash :: string
  df_size :: nat
  df_mode :: nat

record index_row =
  ir_hash :: string
  ir_mtime :: int
  ir_size :: nat
  ir_mode :: nat
  ir_deleted :: bool

record prepared_set =
  pr_id :: string
  pr_baseline :: nat
  pr_seq :: nat
  pr_files :: "dirty_file list"
  pr_scanned :: nat
  pr_skipped :: nat
  pr_updates :: "(string \<times> index_row) list"

record snap_row =
  sn_id :: string
  sn_parent :: "string option"
  sn_baseline :: nat
  sn_seq :: nat
  sn_reason :: string
  sn_action :: "string option"
  sn_run :: "string option"
  sn_count :: nat
  sn_bytes :: nat
  sn_created :: int
  sn_anchor_path :: "string option"
  sn_anchor_exists :: bool
  sn_anchor_hash :: "string option"
  sn_anchor_mode :: "nat option"
  sn_anchor_source :: "string option"

record snap_manifest =
  sm_row :: snap_row
  sm_root :: string
  sm_files :: "dirty_file list"

record prepared_row =
  pw_id :: string
  pw_baseline :: nat
  pw_seq :: nat
  pw_created :: int
  pw_committed :: "int option"

record wi =
  wi_tree :: tree
  wi_rows :: "(string \<times> index_row) list"
  wi_snaps :: "snap_row list"
  wi_snap_files :: "(string \<times> dirty_file) list"
  wi_prepared :: "prepared_row list"
  wi_seq :: nat
  wi_baseline :: nat
  wi_blobs :: "((string \<times> string) \<times> (string \<times> nat)) list"
  wi_manifests :: "(string \<times> snap_manifest) list"

text \<open>The options of the constructor, SHA-256, the length of a manifest as text, and what \<open>stat\<close> sees
  outside the workspace.\<close>

record wi_env =
  we_root :: string
  we_snapshot_dir :: string
  we_ignore :: "string list"
  we_sha256 :: "string \<Rightarrow> string"
  we_manifest_bytes :: "snap_manifest \<Rightarrow> nat"
  we_outside :: "string \<Rightarrow> (string \<times> nat) option"

section \<open>Scanning\<close>

definition buildInternalIgnorePatterns :: "wi_env \<Rightarrow> string list" where
  "buildInternalIgnorePatterns env =
     (let r = path_relative (we_root env) (we_snapshot_dir env) in
      if r = [] \<or> r = ''.'' \<or> prefix ''..'' r then [] else [''**/'' @ r @ ''/**''])"

definition ignore_file :: string where
  "ignore_file = ''.agentgit/indexignore''"

definition file_content :: "tree \<Rightarrow> string \<Rightarrow> string option" where
  \<comment> \<open>\<open>fs.readFile\<close>\<close>
  "file_content t p =
     (case lstat t p of
        LK_node (ND_file c m md) \<Rightarrow> Some c | LK_node (ND_link (Some l)) \<Rightarrow> Some (fst l) | _ \<Rightarrow> None)"

definition loadIgnorePatterns :: "wi_env \<Rightarrow> tree \<Rightarrow> string list" where
  "loadIgnorePatterns env t =
     DEFAULT_IGNORE_PATTERNS @ buildInternalIgnorePatterns env @ we_ignore env @
     (case file_content t ignore_file of
        None \<Rightarrow> []
      | Some c \<Rightarrow> filter (\<lambda>l. l \<noteq> [] \<and> \<not> prefix ''#'' l) (map js_trim (js_split CHR 0x0A c)))"

definition unchanged_entry :: "index_row option \<Rightarrow> fs_entry \<Rightarrow> bool" where
  "unchanged_entry existing e =
     (case existing of None \<Rightarrow> False
      | Some r \<Rightarrow> \<not> ir_deleted r \<and> ir_mtime r = fe_mtime e \<and> ir_size r = fe_size e \<and> ir_mode r = fe_mode e)"

definition entry_change :: "string \<Rightarrow> index_row option \<Rightarrow> fs_entry \<Rightarrow> change_type option" where
  "entry_change h existing e =
     (case existing of
        None \<Rightarrow> Some CT_created
      | Some r \<Rightarrow>
          (if ir_deleted r then Some CT_created
           else if ir_hash r \<noteq> h then Some CT_modified
           else if ir_mode r \<noteq> fe_mode e then Some CT_permissions
           else None))"

definition entry_hash :: "wi_env \<Rightarrow> tree \<Rightarrow> fs_entry \<Rightarrow> string" where
  "entry_hash env t e = we_sha256 env (case file_content t (fe_path e) of None \<Rightarrow> [] | Some c \<Rightarrow> c)"

definition entry_dirty :: "wi_env \<Rightarrow> wi \<Rightarrow> fs_entry \<Rightarrow> dirty_file list" where
  "entry_dirty env s e =
     (let h = entry_hash env (wi_tree s) e in
      case entry_change h (map_of (wi_rows s) (fe_path e)) e of
        None \<Rightarrow> []
      | Some ch \<Rightarrow> [\<lparr>df_path = fe_path e, df_change = ch, df_hash = h, df_size = fe_size e, df_mode = fe_mode e\<rparr>])"

definition entry_update :: "wi_env \<Rightarrow> wi \<Rightarrow> fs_entry \<Rightarrow> string \<times> index_row" where
  "entry_update env s e =
     (fe_path e, \<lparr>ir_hash = entry_hash env (wi_tree s) e, ir_mtime = fe_mtime e, ir_size = fe_size e,
        ir_mode = fe_mode e, ir_deleted = False\<rparr>)"

definition deleted_file :: "string \<times> index_row \<Rightarrow> dirty_file" where
  "deleted_file r =
     \<lparr>df_path = fst r, df_change = CT_deleted, df_hash = ir_hash (snd r), df_size = ir_size (snd r), df_mode = ir_mode (snd r)\<rparr>"

definition active_rows :: "wi \<Rightarrow> (string \<times> index_row) list" where
  "active_rows s = filter (\<lambda>r. \<not> ir_deleted (snd r)) (wi_rows s)"

definition prepareScan :: "wi_env \<Rightarrow> string \<Rightarrow> int \<Rightarrow> wi \<Rightarrow> prepared_set \<times> wi" where
  "prepareScan env prep_id now s =
     (let seq = wi_seq s + 1;
          entries = walkWorkspace (wi_tree s) (loadIgnorePatterns env (wi_tree s));
          hashed = filter (\<lambda>e. \<not> unchanged_entry (map_of (wi_rows s) (fe_path e)) e) entries;
          gone = filter (\<lambda>r. fst r \<notin> set (map fe_path entries)) (active_rows s) in
      (\<lparr>pr_id = prep_id, pr_baseline = wi_baseline s, pr_seq = seq,
        pr_files = concat (map (entry_dirty env s) hashed) @ map deleted_file gone,
        pr_scanned = length entries, pr_skipped = length entries - length hashed,
        pr_updates = map (entry_update env s) hashed @ map (\<lambda>r. (fst r, (snd r)\<lparr>ir_deleted := True\<rparr>)) gone\<rparr>,
       s\<lparr>wi_seq := seq,
         wi_prepared := wi_prepared s @
           [\<lparr>pw_id = prep_id, pw_baseline = wi_baseline s, pw_seq = seq, pw_created = now, pw_committed = None\<rparr>]\<rparr>))"

section \<open>Reading snapshots\<close>

definition newer_snapshot :: "snap_row \<Rightarrow> snap_row \<Rightarrow> int" where
  \<comment> \<open>\<open>ORDER BY baseline_revision DESC, created_at DESC\<close>\<close>
  "newer_snapshot = cmp_then (cmp_by (\<lambda>r. - int (sn_baseline r))) (cmp_by (\<lambda>r. - sn_created r))"

definition listSnapshots :: "wi \<Rightarrow> snap_row list" where
  "listSnapshots s = js_sort newer_snapshot (wi_snaps s)"

interpretation snap_order: js_lexicographic "cmp_by (\<lambda>r. - int (sn_baseline r))" "cmp_by (\<lambda>r. - sn_created r)"
  by (rule js_lexicographic.intro) (rule by_key.js_ordering_axioms)+

definition find_snap :: "string \<Rightarrow> wi \<Rightarrow> snap_row option" where
  "find_snap i s = find (\<lambda>r. sn_id r = i) (wi_snaps s)"

definition files_of :: "string \<Rightarrow> wi \<Rightarrow> dirty_file list" where
  "files_of i s = sort_key df_path (map snd (filter (\<lambda>f. fst f = i) (wi_snap_files s)))"

definition getSnapshotManifest :: "wi_env \<Rightarrow> string \<Rightarrow> wi \<Rightarrow> snap_manifest option" where
  "getSnapshotManifest env i s =
     map_option (\<lambda>r. \<lparr>sm_row = r, sm_root = we_root env, sm_files = files_of i s\<rparr>) (find_snap i s)"

definition snapshot_not_found :: "string \<Rightarrow> wi_error" where
  "snapshot_not_found i = WE_ag (NotFoundError (''Snapshot not found: '' @ i))"

definition diffSnapshot :: "wi_env \<Rightarrow> string \<Rightarrow> wi \<Rightarrow> wi_error + dirty_file list" where
  "diffSnapshot env i s =
     (case getSnapshotManifest env i s of None \<Rightarrow> Inl (snapshot_not_found i) | Some m \<Rightarrow> Inr (sm_files m))"

definition checkFile :: "wi_env \<Rightarrow> string \<Rightarrow> wi \<Rightarrow> (string \<times> nat \<times> nat) option" where
  "checkFile env p s =
     (let q = (if path_absolute p then path_relative (we_root env) p else p) in
      case map_of (wi_rows s) q of
        None \<Rightarrow> None
      | Some r \<Rightarrow> if ir_deleted r then None else Some (ir_hash r, ir_size r, ir_mode r))"

record live_state =
  ls_exists :: bool
  ls_hash :: "string option"
  ls_size :: "nat option"
  ls_mode :: "nat option"

definition stat_file :: "wi_env \<Rightarrow> tree \<Rightarrow> string \<Rightarrow> (string \<times> nat) option" where
  \<comment> \<open>content and mode of the regular file \<open>fs.stat\<close> arrives at\<close>
  "stat_file env t p =
     (let q = path_resolve (we_root env) p in
      if path_within q (we_root env) then
        (case lstat t (let r = path_relative (we_root env) q in if r = [] then ''.'' else r) of
           LK_node (ND_file c m md) \<Rightarrow> Some (c, md) | LK_node (ND_link l) \<Rightarrow> l | _ \<Rightarrow> None)
      else we_outside env q)"

definition statLiveFile :: "wi_env \<Rightarrow> tree \<Rightarrow> string \<Rightarrow> live_state" where
  "statLiveFile env t p =
     (case stat_file env t p of
        None \<Rightarrow> \<lparr>ls_exists = False, ls_hash = None, ls_size = None, ls_mode = None\<rparr>
      | Some (c, md) \<Rightarrow> \<lparr>ls_exists = True, ls_hash = Some (we_sha256 env c), ls_size = Some (length c), ls_mode = Some md\<rparr>)"

record wi_stats =
  ws_indexed :: nat
  ws_snapshots :: nat
  ws_bytes :: nat
  ws_seq :: nat
  ws_baseline :: nat

definition getStats :: "wi \<Rightarrow> wi_stats" where
  "getStats s = \<lparr>ws_indexed = length (active_rows s), ws_snapshots = length (wi_snaps s),
     ws_bytes = sum_list (map sn_bytes (wi_snaps s)), ws_seq = wi_seq s, ws_baseline = wi_baseline s\<rparr>"

section \<open>Committing a snapshot\<close>

record commit_options =
  co_reason :: string
  co_action :: "string option"
  co_run :: "string option"
  co_anchor :: "string option"

definition no_live_state :: live_state where
  "no_live_state = \<lparr>ls_exists = False, ls_hash = None, ls_size = None, ls_mode = None\<rparr>"

definition anchor_path_of :: "wi_env \<Rightarrow> string option \<Rightarrow> wi_error + string option" where
  "anchor_path_of env anchor =
     (case anchor of
        None \<Rightarrow> Inr None
      | Some p \<Rightarrow>
          (if p = [] then Inr None
           else case resolveWorkspaceRelativePath (we_root env) p of
               Inl e \<Rightarrow> Inl e
             | Inr r \<Rightarrow> Inr (if r = ''.'' then None else Some r)))"

text \<open>The files copied to the staging directory: what changed, and the anchor where it did not.\<close>

fun stage_files :: "tree \<Rightarrow> string \<Rightarrow> string list \<Rightarrow> wi_error + ((string \<times> string) \<times> (string \<times> nat)) list" where
  "stage_files t snap_id [] = Inr []"
| "stage_files t snap_id (p # ps) =
     (case copy_source (lstat t p) of
        Inl e \<Rightarrow> Inl e
      | Inr b \<Rightarrow> (case stage_files t snap_id ps of Inl e \<Rightarrow> Inl e | Inr bs \<Rightarrow> Inr (((snap_id, p), b) # bs)))"

definition persist_anchor :: "prepared_set \<Rightarrow> string option \<Rightarrow> live_state \<Rightarrow> string list" where
  \<comment> \<open>\<open>shouldPersistAnchorFile\<close>\<close>
  "persist_anchor pr anchor live =
     (case anchor of None \<Rightarrow> []
      | Some p \<Rightarrow> if ls_exists live \<and> p \<notin> set (map df_path (pr_files pr)) then [p] else [])"

definition committed_bytes :: "prepared_set \<Rightarrow> string list \<Rightarrow> live_state \<Rightarrow> nat" where
  "committed_bytes pr extra live =
     sum_list (map df_size (filter (\<lambda>f. df_change f \<noteq> CT_deleted) (pr_files pr))) +
     (if extra = [] then 0 else case ls_size live of None \<Rightarrow> 0 | Some n \<Rightarrow> n)"

definition new_snapshot_row ::
  "string \<Rightarrow> int \<Rightarrow> string option \<Rightarrow> prepared_set \<Rightarrow> commit_options \<Rightarrow> nat \<Rightarrow> string option \<Rightarrow> live_state \<Rightarrow> snap_row" where
  "new_snapshot_row snap_id now parent pr opts bytes anchor live =
     \<lparr>sn_id = snap_id, sn_parent = parent, sn_baseline = pr_baseline pr + 1, sn_seq = pr_seq pr,
      sn_reason = co_reason opts, sn_action = co_action opts, sn_run = co_run opts,
      sn_count = length (pr_files pr), sn_bytes = bytes, sn_created = now, sn_anchor_path = anchor,
      sn_anchor_exists = ls_exists live, sn_anchor_hash = ls_hash live, sn_anchor_mode = ls_mode live,
      sn_anchor_source = (if ls_exists live then Some snap_id else None)\<rparr>"

definition baseline_conflict :: wi_error where
  "baseline_conflict = WE_ag (agent_git_error ''Workspace baseline changed before snapshot commit.'' CONFLICT True)"

definition upsert_rows :: "(string \<times> index_row) list \<Rightarrow> (string \<times> index_row) list \<Rightarrow> (string \<times> index_row) list" where
  "upsert_rows us rows = fold (\<lambda>u. AList.update (fst u) (snd u)) us rows"

definition mark_committed :: "string \<Rightarrow> int \<Rightarrow> prepared_row list \<Rightarrow> prepared_row list" where
  "mark_committed i now ps = map (\<lambda>p. if pw_id p = i then p\<lparr>pw_committed := Some now\<rparr> else p) ps"

text \<open>The transaction; the files are renamed into place before it and removed when it fails.\<close>

definition commit_transaction ::
  "wi_env \<Rightarrow> prepared_set \<Rightarrow> snap_row \<Rightarrow> ((string \<times> string) \<times> (string \<times> nat)) list \<Rightarrow> wi \<Rightarrow> wi_error option \<times> wi" where
  "commit_transaction env pr row blobs s =
     (if wi_baseline s \<noteq> pr_baseline pr then (Some baseline_conflict, s)
      else (None, s\<lparr>wi_rows := upsert_rows (pr_updates pr) (wi_rows s),
        wi_snaps := wi_snaps s @ [row],
        wi_snap_files := wi_snap_files s @ map (Pair (sn_id row)) (pr_files pr),
        wi_prepared := mark_committed (pr_id pr) (sn_created row) (wi_prepared s),
        wi_baseline := pr_baseline pr + 1,
        wi_blobs := wi_blobs s @ blobs,
        wi_manifests := wi_manifests s @ [(sn_id row, \<lparr>sm_row = row, sm_root = we_root env, sm_files = pr_files pr\<rparr>)]\<rparr>))"

definition commitSnapshot ::
  "wi_env \<Rightarrow> string \<Rightarrow> int \<Rightarrow> prepared_set \<Rightarrow> commit_options \<Rightarrow> wi \<Rightarrow> (wi_error + snap_row \<times> dirty_file list) \<times> wi" where
  "commitSnapshot env snap_id now pr opts s =
     (let parent = map_option sn_id (js_head (listSnapshots s)) in
      case anchor_path_of env (co_anchor opts) of
        Inl e \<Rightarrow> (Inl e, s)
      | Inr anchor \<Rightarrow>
          (let live = (case anchor of None \<Rightarrow> no_live_state | Some p \<Rightarrow> statLiveFile env (wi_tree s) p);
               extra = persist_anchor pr anchor live;
               changed = map df_path (filter (\<lambda>f. df_change f \<noteq> CT_deleted) (pr_files pr)) in
           case stage_files (wi_tree s) snap_id (changed @ extra) of
             Inl e \<Rightarrow> (Inl e, s)
           | Inr blobs \<Rightarrow>
               (let row = new_snapshot_row snap_id now parent pr opts (committed_bytes pr extra live) anchor live in
                if map_of (wi_manifests s) snap_id \<noteq> None then (Inl (WE_node ''ENOTEMPTY''), s)
                else case commit_transaction env pr row blobs s of
                    (Some e, s') \<Rightarrow> (Inl e, s')
                  | (None, s') \<Rightarrow> (Inr (row, pr_files pr), s'))))"

section \<open>Layering the chain\<close>

record restore_entry =
  re_deleted :: bool
  re_snap :: string
  re_mode :: nat
  re_hash :: string

type_synonym restore_set = "(string \<times> restore_entry) list"

definition layer_file :: "string \<Rightarrow> dirty_file \<Rightarrow> restore_set \<Rightarrow> restore_set" where
  "layer_file i f acc =
     (if map_of acc (df_path f) \<noteq> None then acc
      else acc @ [(df_path f, \<lparr>re_deleted = (df_change f = CT_deleted), re_snap = i, re_mode = df_mode f, re_hash = df_hash f\<rparr>)])"

definition layer_snapshot :: "wi \<Rightarrow> string \<Rightarrow> restore_set \<Rightarrow> restore_set" where
  "layer_snapshot s i acc = fold (layer_file i) (files_of i s) acc"

partial_function (option) layer_chain :: "wi \<Rightarrow> string \<Rightarrow> restore_set \<Rightarrow> restore_set option" where
  "layer_chain s i acc =
     (case Option.bind (find_snap i s) sn_parent of
        None \<Rightarrow> Some (layer_snapshot s i acc)
      | Some p \<Rightarrow> layer_chain s p (layer_snapshot s i acc))"

declare layer_chain.simps [code]

definition normalizeAnchorSourceSnapId :: "snap_row \<Rightarrow> string option" where
  "normalizeAnchorSourceSnapId r =
     (if \<not> sn_anchor_exists r \<or> sn_anchor_path r \<in> {None, Some []} then None
      else Some (case sn_anchor_source r of None \<Rightarrow> sn_id r | Some i \<Rightarrow> i))"

definition layer_anchor :: "snap_row option \<Rightarrow> string \<Rightarrow> restore_set \<Rightarrow> restore_set" where
  "layer_anchor target i acc =
     (case target of
        None \<Rightarrow> acc
      | Some r \<Rightarrow>
          (case sn_anchor_path r of
             None \<Rightarrow> acc
           | Some p \<Rightarrow>
               (if p = [] \<or> map_of acc p \<noteq> None then acc
                else acc @ [(p, \<lparr>re_deleted = (\<not> sn_anchor_exists r),
                  re_snap = (case normalizeAnchorSourceSnapId r of None \<Rightarrow> i | Some q \<Rightarrow> q),
                  re_mode = (case sn_anchor_mode r of None \<Rightarrow> 0 | Some m \<Rightarrow> m),
                  re_hash = (case sn_anchor_hash r of None \<Rightarrow> [] | Some h \<Rightarrow> h)\<rparr>)])))"

text \<open>\<open>None\<close>: the walk to the parents does not end.\<close>

definition buildRestorationSet :: "wi \<Rightarrow> string \<Rightarrow> restore_set option" where
  "buildRestorationSet s i = map_option (layer_anchor (find_snap i s) i) (layer_chain s i [])"

section \<open>Restoring\<close>

datatype restore_action = RA_restored | RA_removed

type_synonym restore_log = "(string \<times> restore_action) list"

record restore_result =
  rr_target :: string
  rr_files :: restore_log
  rr_at :: int
  rr_recovery :: string

text \<open>One entry of the restoration set. A file whose blob is gone is skipped.\<close>

definition restore_one ::
  "wi_env \<Rightarrow> int \<Rightarrow> ((string \<times> string) \<times> (string \<times> nat)) list \<Rightarrow> string \<times> restore_entry \<Rightarrow> tree \<Rightarrow> (wi_error + restore_log) \<times> tree" where
  "restore_one env now blobs pe t =
     (let p = fst pe; e = snd pe in
      case assertWorkspaceRestoreDestinationSafe (we_root env) p t of
        Inl er \<Rightarrow> (Inl er, t)
      | Inr q \<Rightarrow>
          (if re_deleted e then
             (case removeWorkspacePathIfSafe (we_root env) p t of
                (Inl er, t') \<Rightarrow> (Inl er, t')
              | (Inr gone, t') \<Rightarrow> (Inr (if gone then [(p, RA_removed)] else []), t'))
           else case resolveSnapshotFilePath (we_snapshot_dir env) (re_snap e) p of
               Inl er \<Rightarrow> (Inl er, t)
             | Inr key \<Rightarrow>
                 (case map_of blobs (re_snap e, key) of
                    None \<Rightarrow> (Inr [], t)
                  | Some b \<Rightarrow>
                      (case write_copy now q b t of
                         (Some er, t') \<Rightarrow> (Inl er, t')
                       | (None, t') \<Rightarrow> (Inr [(p, RA_restored)], chmod q (re_mode e) t')))))"

definition remove_one :: "wi_env \<Rightarrow> string \<Rightarrow> tree \<Rightarrow> (wi_error + restore_log) \<times> tree" where
  "remove_one env p t =
     (case removeWorkspacePathIfSafe (we_root env) p t of
        (Inl er, t') \<Rightarrow> (Inl er, t')
      | (Inr gone, t') \<Rightarrow> (Inr (if gone then [(p, RA_removed)] else []), t'))"

text \<open>A loop whose body may throw.\<close>

fun each_step :: "('a \<Rightarrow> tree \<Rightarrow> (wi_error + restore_log) \<times> tree) \<Rightarrow> 'a list \<Rightarrow> tree \<Rightarrow> (wi_error + restore_log) \<times> tree" where
  "each_step f [] t = (Inr [], t)"
| "each_step f (x # xs) t =
     (case f x t of
        (Inl e, t') \<Rightarrow> (Inl e, t')
      | (Inr l, t') \<Rightarrow>
          (case each_step f xs t' of (Inl e, t'') \<Rightarrow> (Inl e, t'') | (Inr ls, t'') \<Rightarrow> (Inr (l @ ls), t'')))"

definition then_step ::
  "(wi_error + restore_log) \<times> tree \<Rightarrow> (tree \<Rightarrow> (wi_error + restore_log) \<times> tree) \<Rightarrow> (wi_error + restore_log) \<times> tree" where
  "then_step r f =
     (case r of
        (Inl e, t) \<Rightarrow> (Inl e, t)
      | (Inr l, t) \<Rightarrow> (case f t of (Inl e, t') \<Rightarrow> (Inl e, t') | (Inr ls, t') \<Rightarrow> (Inr (l @ ls), t')))"

definition missing_anchor :: "snap_row \<Rightarrow> restore_set \<Rightarrow> string list" where
  "missing_anchor r rset =
     (case sn_anchor_path r of
        None \<Rightarrow> []
      | Some p \<Rightarrow> if p \<noteq> [] \<and> \<not> sn_anchor_exists r \<and> map_of rset p = None then [p] else [])"

definition restore_files :: "wi_env \<Rightarrow> int \<Rightarrow> snap_row \<Rightarrow> restore_set \<Rightarrow> wi \<Rightarrow> (wi_error + restore_log) \<times> tree" where
  "restore_files env now r rset s =
     then_step
       (then_step (each_step (restore_one env now (wi_blobs s)) rset (wi_tree s))
          (each_step (remove_one env) (filter (\<lambda>p. map_of rset p = None) (map fst (active_rows s)))))
       (each_step (remove_one env) (missing_anchor r rset))"

definition restore_subset_files ::
  "wi_env \<Rightarrow> int \<Rightarrow> snap_row \<Rightarrow> string list \<Rightarrow> restore_set \<Rightarrow> wi \<Rightarrow> (wi_error + restore_log) \<times> tree" where
  "restore_subset_files env now r selectors rset s =
     (let chosen = filter (\<lambda>pe. pathMatchesSelectors (fst pe) selectors) rset in
      then_step
        (then_step (each_step (restore_one env now (wi_blobs s)) chosen (wi_tree s))
           (\<lambda>t. each_step (remove_one env)
              (filter (\<lambda>p. pathMatchesSelectors p selectors \<and> map_of chosen p = None)
                 (map fe_path (walkWorkspace t (loadIgnorePatterns env t)))) t))
        (each_step (remove_one env)
           (filter (\<lambda>p. pathMatchesSelectors p selectors) (missing_anchor r chosen))))"

text \<open>A scan and the commit of what it found.\<close>

definition take_snapshot ::
  "wi_env \<Rightarrow> string \<Rightarrow> string \<Rightarrow> int \<Rightarrow> commit_options \<Rightarrow> wi \<Rightarrow> (wi_error + snap_row \<times> dirty_file list) \<times> wi" where
  "take_snapshot env prep_id snap_id now opts s =
     (let (pr, s') = prepareScan env prep_id now s in commitSnapshot env snap_id now pr opts s')"

text \<open>A restore ends with a snapshot of what it has produced.\<close>

definition record_recovery ::
  "wi_env \<Rightarrow> string \<Rightarrow> string \<Rightarrow> int \<Rightarrow> string \<Rightarrow> snap_row \<Rightarrow> restore_log \<Rightarrow> wi \<Rightarrow> (wi_error + restore_result) \<times> wi" where
  "record_recovery env prep_id snap_id now why r l s =
     (case take_snapshot env prep_id snap_id now
             \<lparr>co_reason = why, co_action = None, co_run = sn_run r, co_anchor = sn_anchor_path r\<rparr> s of
        (Inl e, s') \<Rightarrow> (Inl e, s')
      | (Inr rec, s') \<Rightarrow> (Inr \<lparr>rr_target = sn_id r, rr_files = l, rr_at = now, rr_recovery = sn_id (fst rec)\<rparr>, s'))"

definition restore_with ::
  "(snap_row \<Rightarrow> restore_set \<Rightarrow> wi \<Rightarrow> (wi_error + restore_log) \<times> tree) \<Rightarrow>
   wi_env \<Rightarrow> string \<Rightarrow> string \<Rightarrow> int \<Rightarrow> string \<Rightarrow> string \<Rightarrow> wi \<Rightarrow> ((wi_error + restore_result) \<times> wi) option" where
  "restore_with files env prep_id snap_id now why target s =
     (case find_snap target s of
        None \<Rightarrow> Some (Inl (snapshot_not_found target), s)
      | Some r \<Rightarrow>
          map_option (\<lambda>rset.
            (case files r rset s of
               (Inl e, t) \<Rightarrow> (Inl e, s\<lparr>wi_tree := t\<rparr>)
             | (Inr l, t) \<Rightarrow> record_recovery env prep_id snap_id now why r l (s\<lparr>wi_tree := t\<rparr>)))
            (buildRestorationSet s target))"

text \<open>\<open>None\<close>: the restoration set is never completed.\<close>

definition restore_snapshot ::
  "wi_env \<Rightarrow> string \<Rightarrow> string \<Rightarrow> int \<Rightarrow> string \<Rightarrow> wi \<Rightarrow> ((wi_error + restore_result) \<times> wi) option" where
  "restore_snapshot env prep_id snap_id now target s =
     restore_with (restore_files env now) env prep_id snap_id now ''recovery:restore'' target s"

definition restoreSubset ::
  "wi_env \<Rightarrow> string \<Rightarrow> string \<Rightarrow> int \<Rightarrow> string \<Rightarrow> string list \<Rightarrow> wi \<Rightarrow> ((wi_error + restore_result) \<times> wi) option" where
  "restoreSubset env prep_id snap_id now target paths s =
     (if find_snap target s = None then Some (Inl (snapshot_not_found target), s)
      else case normalizeSubsetSelectors paths (we_root env) of
          Inl e \<Rightarrow> Some (Inl e, s)
        | Inr sel \<Rightarrow>
            restore_with (\<lambda>r. restore_subset_files env now r sel) env prep_id snap_id now ''recovery:restore_subset'' target s)"

section \<open>Previews\<close>

datatype loss_risk = LR_low | LR_moderate | LR_high | LR_unknown

record restore_preview =
  rp_changes :: nat
  rp_later :: nat
  rp_overlaps :: "string list"
  rp_risk :: loss_risk
  rp_confidence :: rat

definition live_map :: "wi_env \<Rightarrow> (string \<Rightarrow> bool) \<Rightarrow> tree \<Rightarrow> (string \<times> (string \<times> nat)) list" where
  "live_map env sel t =
     map (\<lambda>e. (fe_path e, (entry_hash env t e, fe_mode e)))
       (filter (\<lambda>e. sel (fe_path e)) (walkWorkspace t (loadIgnorePatterns env t)))"

definition entry_differs :: "(string \<times> (string \<times> nat)) list \<Rightarrow> string \<times> restore_entry \<Rightarrow> bool" where
  "entry_differs live pe =
     (case map_of live (fst pe) of
        None \<Rightarrow> \<not> re_deleted (snd pe)
      | Some (h, md) \<Rightarrow> re_deleted (snd pe) \<or> h \<noteq> re_hash (snd pe) \<or> md \<noteq> re_mode (snd pe))"

definition unlisted :: "(string \<times> (string \<times> nat)) list \<Rightarrow> restore_set \<Rightarrow> string list" where
  "unlisted live rset = filter (\<lambda>p. map_of rset p = None) (map fst live)"

definition changed_paths :: "(string \<times> (string \<times> nat)) list \<Rightarrow> restore_set \<Rightarrow> string list" where
  "changed_paths live rset = map fst (filter (entry_differs live) rset) @ unlisted live rset"

definition removals :: "(string \<times> (string \<times> nat)) list \<Rightarrow> restore_set \<Rightarrow> nat" where
  "removals live rset =
     length (filter (\<lambda>pe. re_deleted (snd pe) \<and> map_of live (fst pe) \<noteq> None) rset) + length (unlisted live rset)"

definition overlap_of :: "wi \<Rightarrow> string list \<Rightarrow> snap_row \<Rightarrow> string list" where
  "overlap_of s changed r = filter (\<lambda>p. p \<in> set changed) (map df_path (files_of (sn_id r) s))"

definition later_action_key :: "snap_row \<Rightarrow> string" where
  "later_action_key r =
     (case sn_action r of
        None \<Rightarrow> ''snapshot:'' @ sn_id r
      | Some a \<Rightarrow> if a = [] then ''snapshot:'' @ sn_id r else ''action:'' @ a)"

definition preview_of :: "wi_env \<Rightarrow> wi \<Rightarrow> snap_row \<Rightarrow> (string \<times> (string \<times> nat)) list \<Rightarrow> restore_set \<Rightarrow> restore_preview" where
  "preview_of env s r live rset =
     (let changed = changed_paths live rset;
          gone = removals live rset;
          later = filter (\<lambda>q. sn_baseline r < sn_baseline q \<and> overlap_of s changed q \<noteq> []) (listSnapshots s);
          overlaps = js_dedup (concat (map (overlap_of s changed) later));
          actions = length (js_dedup (map later_action_key later));
          risk = (if 10 < gone then LR_high else if 0 < gone then LR_moderate else LR_low) in
      \<lparr>rp_changes = length changed, rp_later = actions, rp_overlaps = sort overlaps,
       rp_risk = (if 0 < actions then (if 3 < length overlaps \<or> 0 < gone then LR_high else LR_moderate) else risk),
       rp_confidence = max (55 / 100)
         ((if 0 < sn_count r \<or> sn_anchor_path r \<noteq> None then 99 / 100 else 96 / 100) -
          min (25 / 100) (rat_of_nat actions * (5 / 100)))\<rparr>)"

definition previewRestore :: "wi_env \<Rightarrow> string \<Rightarrow> wi \<Rightarrow> (wi_error + restore_preview) option" where
  "previewRestore env target s =
     (case find_snap target s of
        None \<Rightarrow> Some (Inl (snapshot_not_found target))
      | Some r \<Rightarrow>
          map_option (\<lambda>rset. Inr (preview_of env s r (live_map env (\<lambda>p. True) (wi_tree s)) rset)) (buildRestorationSet s target))"

definition previewRestoreSubset :: "wi_env \<Rightarrow> string \<Rightarrow> string list \<Rightarrow> wi \<Rightarrow> (wi_error + restore_preview) option" where
  "previewRestoreSubset env target paths s =
     (case find_snap target s of
        None \<Rightarrow> Some (Inl (snapshot_not_found target))
      | Some r \<Rightarrow>
          (case normalizeSubsetSelectors paths (we_root env) of
             Inl e \<Rightarrow> Some (Inl e)
           | Inr sel \<Rightarrow>
               map_option (\<lambda>rset. Inr (preview_of env s r (live_map env (\<lambda>p. pathMatchesSelectors p sel) (wi_tree s))
                   (filter (\<lambda>pe. pathMatchesSelectors (fst pe) sel) rset)))
                 (buildRestorationSet s target)))"

end
