(* ===== verification/Workspace_Maintenance.thy ===== *)
theory Workspace_Maintenance
  imports Workspace_Index
begin

text \<open>
  The maintenance jobs of \<open>WorkspaceIndex\<close> (\<open>packages/workspace-index/src/index.ts\<close>):
  \<open>rebaseSyntheticAnchors\<close> drops anchor copies that an earlier snapshot holds already, \<open>compact\<close>
  keeps the newest snapshots only. An error that is not an \<open>AgentGitError\<close> is wrapped into an
  \<open>InternalError\<close>.
\<close>

section \<open>Updating a snapshot\<close>

definition wrap_error :: "string \<Rightarrow> wi_error \<Rightarrow> wi_error" where
  "wrap_error m e = (case e of WE_ag a \<Rightarrow> e | WE_node c \<Rightarrow> wi_internal m)"

definition persist_row :: "(snap_row \<Rightarrow> snap_row) \<Rightarrow> snap_manifest \<Rightarrow> wi \<Rightarrow> wi_error option \<times> wi" where
  \<comment> \<open>the column is updated in the table, the manifest written from the one that was read\<close>
  "persist_row f m s =
     (let i = sn_id (sm_row m);
          s' = s\<lparr>wi_snaps := map (\<lambda>r. if sn_id r = i then f r else r) (wi_snaps s)\<rparr> in
      if find_snap i s = None then (Some (snapshot_not_found i), s)
      else if map_of (wi_manifests s) i = None then (Some (WE_node ''ENOENT''), s')
      else (None, s'\<lparr>wi_manifests := AList.update i (m\<lparr>sm_row := f (sm_row m)\<rparr>) (wi_manifests s')\<rparr>))"

definition persistAnchorSource :: "string \<Rightarrow> snap_manifest \<Rightarrow> wi \<Rightarrow> wi_error option \<times> wi" where
  "persistAnchorSource source m s = persist_row (\<lambda>r. r\<lparr>sn_anchor_source := Some source\<rparr>) m s"

definition persistParentSnapshot :: "string option \<Rightarrow> snap_manifest \<Rightarrow> wi \<Rightarrow> wi_error option \<times> wi" where
  "persistParentSnapshot parent m s = persist_row (\<lambda>r. r\<lparr>sn_parent := parent\<rparr>) m s"

definition snapshotHasTrackedPath :: "string \<Rightarrow> string \<Rightarrow> wi \<Rightarrow> bool" where
  "snapshotHasTrackedPath i p s = list_ex (\<lambda>f. fst f = i \<and> df_path (snd f) = p) (wi_snap_files s)"

definition anchorDeduplicationKey :: "snap_row \<Rightarrow> (string \<times> string \<times> nat) option" where
  \<comment> \<open>joined with a NUL byte in the code\<close>
  "anchorDeduplicationKey r =
     (case (sn_anchor_path r, sn_anchor_hash r) of
        (Some p, Some h) \<Rightarrow>
          (if sn_anchor_exists r \<and> p \<noteq> [] \<and> h \<noteq> [] then
             Some (p, h, (case sn_anchor_mode r of None \<Rightarrow> 0 | Some m \<Rightarrow> m)) else None)
      | _ \<Rightarrow> None)"

definition remove_blob :: "string \<Rightarrow> string \<Rightarrow> wi \<Rightarrow> wi" where
  "remove_blob i p s = s\<lparr>wi_blobs := filter (\<lambda>b. fst b \<noteq> (i, p)) (wi_blobs s)\<rparr>"

text \<open>The directories of a snapshot are those above its blobs. Those that a removed blob leaves empty are
  removed from the innermost outwards, and the root of the files when nothing is left.\<close>

definition emptied_directories :: "string \<Rightarrow> string \<Rightarrow> wi \<Rightarrow> nat" where
  "emptied_directories i p s =
     (let left = map (snd \<circ> fst) (filter (\<lambda>b. fst (fst b) = i) (wi_blobs s)) in
      length (takeWhile (\<lambda>a. \<not> list_ex (\<lambda>q. path_within q a) left) (rev (ancestors p))) +
      (if left = [] then 1 else 0))"

section \<open>Rebasing anchors\<close>

record rebase_summary =
  rs_scanned :: nat
  rs_rebased :: nat
  rs_freed :: nat
  rs_directories :: nat

record rebase_state =
  rb_wi :: wi
  rb_sources :: "((string \<times> string \<times> nat) \<times> string) list"
  rb_summary :: rebase_summary

definition rb_fail :: "(wi_error option \<times> wi) \<Rightarrow> (wi \<Rightarrow> wi_error option \<times> rebase_state) \<Rightarrow> rebase_state \<Rightarrow> wi_error option \<times> rebase_state" where
  "rb_fail r k st = (case r of (Some e, s) \<Rightarrow> (Some e, st\<lparr>rb_wi := s\<rparr>) | (None, s) \<Rightarrow> k s)"

definition ensure_own_source :: "snap_manifest \<Rightarrow> rebase_state \<Rightarrow> wi_error option \<times> rebase_state" where
  "ensure_own_source m st =
     (let i = sn_id (sm_row m) in
      if normalizeAnchorSourceSnapId (sm_row m) = Some i then (None, st)
      else rb_fail (persistAnchorSource i m (rb_wi st)) (\<lambda>s. (None, st\<lparr>rb_wi := s\<rparr>)) st)"

text \<open>An anchor whose content an earlier snapshot holds: the own copy is removed, the source recorded.\<close>

definition drop_copy :: "string \<Rightarrow> string \<Rightarrow> rebase_state \<Rightarrow> rebase_state" where
  "drop_copy i p st =
     (case map_of (wi_blobs (rb_wi st)) (i, p) of
        None \<Rightarrow> st
      | Some b \<Rightarrow>
          (let s = remove_blob i p (rb_wi st); u = rb_summary st in
           st\<lparr>rb_wi := s,
             rb_summary := u\<lparr>rs_freed := rs_freed u + length (fst b),
               rs_directories := rs_directories u + emptied_directories i p s\<rparr>\<rparr>))"

definition share_anchor :: "string \<Rightarrow> snap_manifest \<Rightarrow> string \<Rightarrow> rebase_state \<Rightarrow> wi_error option \<times> rebase_state" where
  "share_anchor source m p st =
     (let st' = drop_copy (sn_id (sm_row m)) p st in
      rb_fail (persistAnchorSource source m (rb_wi st'))
        (\<lambda>s. (None, st'\<lparr>rb_wi := s, rb_summary := rb_summary st'\<lparr>rs_rebased := rs_rebased (rb_summary st') + 1\<rparr>\<rparr>)) st')"

definition rebase_one :: "wi_env \<Rightarrow> string \<Rightarrow> rebase_state \<Rightarrow> wi_error option \<times> rebase_state" where
  "rebase_one env i st =
     (case getSnapshotManifest env i (rb_wi st) of
        None \<Rightarrow> (None, st)
      | Some m \<Rightarrow>
          (case (anchorDeduplicationKey (sm_row m), sn_anchor_path (sm_row m)) of
             (Some key, Some p) \<Rightarrow>
               (let own = (\<lambda>st. st\<lparr>rb_sources := AList.update key i (rb_sources st)\<rparr>);
                    here = (map_of (wi_blobs (rb_wi st)) (i, p) \<noteq> None) in
                if snapshotHasTrackedPath i p (rb_wi st) then ensure_own_source m (own st)
                else case map_of (rb_sources st) key of
                    Some source \<Rightarrow>
                      (if source \<noteq> i then
                         (if map_of (wi_blobs (rb_wi st)) (source, p) = None then (None, own st)
                          else share_anchor source m p st)
                       else if here then ensure_own_source m (own st) else (None, st))
                  | None \<Rightarrow> if here then ensure_own_source m (own st) else (None, st))
           | _ \<Rightarrow> (None, st)))"

fun rebase_all :: "wi_env \<Rightarrow> string list \<Rightarrow> rebase_state \<Rightarrow> wi_error option \<times> rebase_state" where
  "rebase_all env [] st = (None, st)"
| "rebase_all env (i # is) st =
     (case rebase_one env i st of (Some e, st') \<Rightarrow> (Some e, st') | (None, st') \<Rightarrow> rebase_all env is st')"

definition older_snapshot :: "snap_row \<Rightarrow> snap_row \<Rightarrow> int" where
  "older_snapshot = cmp_then (cmp_by (\<lambda>r. int (sn_baseline r))) (cmp_by sn_created)"

definition anchored_snapshots :: "wi \<Rightarrow> string list" where
  "anchored_snapshots s =
     map sn_id (js_sort older_snapshot (filter (\<lambda>r. sn_anchor_exists r \<and> sn_anchor_path r \<noteq> None) (wi_snaps s)))"

definition rebaseSyntheticAnchors :: "wi_env \<Rightarrow> wi \<Rightarrow> (wi_error + rebase_summary) \<times> wi" where
  "rebaseSyntheticAnchors env s =
     (let ids = anchored_snapshots s in
      case rebase_all env ids \<lparr>rb_wi = s, rb_sources = [],
          rb_summary = \<lparr>rs_scanned = length ids, rs_rebased = 0, rs_freed = 0, rs_directories = 0\<rparr>\<rparr> of
        (Some e, st) \<Rightarrow> (Inl (wrap_error ''Failed to rebase synthetic snapshot anchors.'' e), rb_wi st)
      | (None, st) \<Rightarrow> (Inr (rb_summary st), rb_wi st))"

section \<open>Compaction\<close>

record compaction_result =
  cr_removed :: nat
  cr_freed :: nat
  cr_oldest :: "string option"

definition detach_oldest :: "wi_env \<Rightarrow> snap_row list \<Rightarrow> string list \<Rightarrow> wi \<Rightarrow> wi_error option \<times> wi" where
  "detach_oldest env kept gone s =
     (if kept = [] then (None, s)
      else case getSnapshotManifest env (sn_id (last kept)) s of
          None \<Rightarrow> (None, s)
        | Some m \<Rightarrow>
            (case sn_parent (sm_row m) of
               None \<Rightarrow> (None, s)
             | Some p \<Rightarrow> if p \<in> set gone then persistParentSnapshot None m s else (None, s)))"

definition keep_anchor :: "wi_env \<Rightarrow> string list \<Rightarrow> string \<Rightarrow> wi \<Rightarrow> wi_error option \<times> wi" where
  "keep_anchor env gone i s =
     (case getSnapshotManifest env i s of
        None \<Rightarrow> (None, s)
      | Some m \<Rightarrow>
          (case (normalizeAnchorSourceSnapId (sm_row m), sn_anchor_path (sm_row m)) of
             (Some source, Some p) \<Rightarrow>
               (if source \<notin> set gone then (None, s)
                else
                  (let blob = map_of (wi_blobs s) (source, p);
                       copy = (\<not> snapshotHasTrackedPath i p s \<and> blob \<noteq> None \<and> map_of (wi_blobs s) (i, p) = None);
                       s' = (if copy then s\<lparr>wi_blobs := wi_blobs s @ [((i, p), the blob)]\<rparr> else s) in
                   persistAnchorSource i m s'))
           | _ \<Rightarrow> (None, s)))"

fun keep_anchors :: "wi_env \<Rightarrow> string list \<Rightarrow> string list \<Rightarrow> wi \<Rightarrow> wi_error option \<times> wi" where
  "keep_anchors env gone [] s = (None, s)"
| "keep_anchors env gone (i # is) s =
     (case keep_anchor env gone i s of (Some e, s') \<Rightarrow> (Some e, s') | (None, s') \<Rightarrow> keep_anchors env gone is s')"

definition snapshot_bytes :: "wi_env \<Rightarrow> string \<Rightarrow> wi \<Rightarrow> nat" where
  "snapshot_bytes env i s =
     (case map_of (wi_manifests s) i of None \<Rightarrow> 0 | Some m \<Rightarrow> we_manifest_bytes env m) +
     sum_list (map (length \<circ> fst \<circ> snd) (filter (\<lambda>b. fst (fst b) = i) (wi_blobs s)))"

text \<open>The foreign key on \<open>parent_snap_id\<close> forbids deleting the parent of a snapshot.\<close>

definition delete_snapshot :: "string \<Rightarrow> wi \<Rightarrow> wi_error option \<times> wi" where
  "delete_snapshot i s =
     (let s' = s\<lparr>wi_snap_files := filter (\<lambda>f. fst f \<noteq> i) (wi_snap_files s)\<rparr> in
      if list_ex (\<lambda>r. sn_parent r = Some i \<and> sn_id r \<noteq> i) (wi_snaps s) then (Some (WE_node ''SQLITE_CONSTRAINT_FOREIGNKEY''), s')
      else (None, s'\<lparr>wi_snaps := filter (\<lambda>r. sn_id r \<noteq> i) (wi_snaps s),
        wi_blobs := filter (\<lambda>b. fst (fst b) \<noteq> i) (wi_blobs s),
        wi_manifests := filter (\<lambda>m. fst m \<noteq> i) (wi_manifests s)\<rparr>))"

fun delete_snapshots :: "wi_env \<Rightarrow> string list \<Rightarrow> nat \<Rightarrow> wi \<Rightarrow> (wi_error + nat) \<times> wi" where
  "delete_snapshots env [] freed s = (Inr freed, s)"
| "delete_snapshots env (i # is) freed s =
     (case delete_snapshot i s of
        (Some e, s') \<Rightarrow> (Inl e, s')
      | (None, s') \<Rightarrow> delete_snapshots env is (freed + snapshot_bytes env i s) s')"

definition compact :: "wi_env \<Rightarrow> int \<Rightarrow> wi \<Rightarrow> (wi_error + compaction_result) \<times> wi" where
  "compact env keep_last_n s =
     (let n = nat (max 1 keep_last_n); snaps = listSnapshots s;
          kept = take n snaps; gone = map sn_id (drop n snaps);
          failed = (\<lambda>e. Inl (wrap_error ''Failed to compact workspace snapshots.'' e)) in
      if length snaps \<le> n then (Inr \<lparr>cr_removed = 0, cr_freed = 0, cr_oldest = None\<rparr>, s)
      else case detach_oldest env kept gone s of
          (Some e, s') \<Rightarrow> (failed e, s')
        | (None, s1) \<Rightarrow>
            (case keep_anchors env gone (map sn_id kept) s1 of
               (Some e, s') \<Rightarrow> (failed e, s')
             | (None, s2) \<Rightarrow>
                 (case delete_snapshots env gone 0 s2 of
                    (Inl e, s') \<Rightarrow> (failed e, s')
                  | (Inr freed, s3) \<Rightarrow>
                      (Inr \<lparr>cr_removed = length gone, cr_freed = freed, cr_oldest = map_option sn_id (js_head (rev kept))\<rparr>, s3))))"

end
