(* ===== verification/Snapshot_Engine.thy ===== *)
theory Snapshot_Engine
  imports Workspace_Maintenance Snapshot_Select
begin

text \<open>
  The local snapshot engine (\<open>LocalSnapshotEngine\<close> of \<open>packages/snapshot-engine/src/index.ts\<close>).
  Its state is what lies below its directory: an index per workspace, the documents that describe the boundary of
  a snapshot, snapshots of the earlier format, and files that belong to none; with it the indexes
  the process has opened. An operation may throw, keeping what it has changed, or not return: the
  restoration set of an index is built by following parents. The lock on \<open>createSnapshot\<close> is the
  order in which the operations are given. Low disk errors and damaged JSON are not modelled.
\<close>

section \<open>Effects\<close>

type_synonym ('s, 'a) eff = "'s \<Rightarrow> ((wi_error + 'a) \<times> 's) option"

definition eff_return :: "'a \<Rightarrow> ('s, 'a) eff" where
  "eff_return x s = Some (Inr x, s)"

definition eff_throw :: "wi_error \<Rightarrow> ('s, 'a) eff" where
  "eff_throw e s = Some (Inl e, s)"

definition eff_bind :: "('s, 'a) eff \<Rightarrow> ('a \<Rightarrow> ('s, 'b) eff) \<Rightarrow> ('s, 'b) eff" where
  "eff_bind m f s =
     (case m s of
        None \<Rightarrow> None
      | Some (Inl e, s') \<Rightarrow> Some (Inl e, s')
      | Some (Inr x, s') \<Rightarrow> f x s')"

definition eff_catch :: "(wi_error \<Rightarrow> wi_error + 'a) \<Rightarrow> ('s, 'a) eff \<Rightarrow> ('s, 'a) eff" where
  "eff_catch h m s =
     (case m s of
        None \<Rightarrow> None
      | Some (Inl e, s') \<Rightarrow> Some (h e, s')
      | Some (Inr x, s') \<Rightarrow> Some (Inr x, s'))"

section \<open>Boundaries\<close>

datatype entry_kind = EK_file | EK_directory | EK_missing

text \<open>The document \<open>SnapshotManifest\<close>. An absent property is \<open>None\<close>.\<close>

record boundary =
  bd_snapshot_id :: string
  bd_action_id :: string
  bd_run_id :: string
  bd_target_path :: string
  bd_workspace_root :: string
  bd_existed_before :: bool
  bd_entry_kind :: entry_kind
  bd_class :: snapshot_class
  bd_fidelity :: snapshot_fidelity
  bd_created_at :: int
  bd_anchor_hash :: "string option"
  bd_anchor_mode :: "nat option"
  bd_operation_domain :: "string option"
  bd_operation_kind :: "string option"
  bd_display_name :: "string option"
  bd_surface :: "execution_surface option"
  bd_tool_kind :: "string option"
  bd_tool_name :: "string option"
  bd_side_effect :: "side_effect_level option"
  bd_external :: "external_effect option"
  bd_reversibility :: "reversibility_hint option"
  bd_preimage :: jsval

record snapshot_request =
  sq_action :: action_record
  sq_class :: snapshot_class
  sq_workspace_root :: string
  sq_preimage :: jsval

definition createMetadataManifest :: "snapshot_request \<Rightarrow> string \<Rightarrow> int \<Rightarrow> boundary" where
  "createMetadataManifest req i created =
     (let a = sq_action req in
      \<lparr>bd_snapshot_id = i, bd_action_id = action_id a, bd_run_id = run_id a, bd_target_path = locator_of a,
       bd_workspace_root = sq_workspace_root req, bd_existed_before = False, bd_entry_kind = EK_missing,
       bd_class = SC_metadata_only, bd_fidelity = SF_metadata, bd_created_at = created,
       bd_anchor_hash = None, bd_anchor_mode = None,
       bd_operation_domain = Some (domain_of a), bd_operation_kind = Some (op_kind (operation a)),
       bd_display_name = op_display_name (operation a), bd_surface = Some (ep_surface (execution_path a)),
       bd_tool_kind = Some (ac_tool_kind (actor a)), bd_tool_name = Some (ac_tool_name (actor a)),
       bd_side_effect = Some (side_effect a), bd_external = Some (rh_external_effects (risk a)),
       bd_reversibility = Some (rh_reversibility_hint (risk a)), bd_preimage = js_coalesce (sq_preimage req) JNull\<rparr>)"

definition layeredTargetEntryKind :: "action_record \<Rightarrow> bool \<Rightarrow> entry_kind" where
  "layeredTargetEntryKind a anchor_exists =
     (if tp_type (primary_target a) = ''workspace'' \<or> tp_type (primary_target a) = ''repository'' then EK_directory
      else if anchor_exists then EK_file else EK_missing)"

definition createLayeredMetadataManifest :: "snapshot_request \<Rightarrow> snap_row \<Rightarrow> boundary" where
  "createLayeredMetadataManifest req r =
     (createMetadataManifest req (sn_id r) (sn_created r))
       \<lparr>bd_existed_before := sn_anchor_exists r,
        bd_entry_kind := layeredTargetEntryKind (sq_action req) (sn_anchor_exists r),
        bd_class := sq_class req, bd_fidelity := SF_full,
        bd_anchor_hash := sn_anchor_hash r, bd_anchor_mode := sn_anchor_mode r\<rparr>"

section \<open>The state\<close>

text \<open>A snapshot of the earlier format: its document and the copy of the target, an entry with what lies below it.\<close>

record legacy_snapshot =
  lg_manifest :: boundary
  lg_preimage :: "(node \<times> tree) option"

record engine =
  en_indexes :: "(string \<times> wi) list"
  en_trees :: "(string \<times> tree) list"
  en_open :: "string list"
  en_metadata :: "(string \<times> boundary) list"
  en_legacy :: "(string \<times> legacy_snapshot) list"
  en_stray_files :: "(string \<times> nat) list"
  en_broken_legacy :: "(string \<times> nat) list"
  en_snaps_dir :: bool

text \<open>The directory of the engine, the working directory, SHA-256, the length of a document and what lies
  outside the workspaces.\<close>

record engine_env =
  ee_root :: string
  ee_cwd :: string
  ee_sha256 :: "string \<Rightarrow> string"
  ee_manifest_bytes :: "snap_manifest \<Rightarrow> nat"
  ee_outside :: "string \<Rightarrow> (string \<times> nat) option"

definition index_env :: "engine_env \<Rightarrow> string \<Rightarrow> wi_env" where
  "index_env env rt =
     \<lparr>we_root = rt, we_snapshot_dir = ee_root env, we_ignore = [], we_sha256 = ee_sha256 env,
      we_manifest_bytes = ee_manifest_bytes env, we_outside = ee_outside env\<rparr>"

definition new_index :: "tree \<Rightarrow> wi" where
  "new_index t =
     \<lparr>wi_tree = t, wi_rows = [], wi_snaps = [], wi_snap_files = [], wi_prepared = [], wi_seq = 0, wi_baseline = 0,
      wi_blobs = [], wi_manifests = []\<rparr>"

definition index_of :: "string \<Rightarrow> engine \<Rightarrow> wi" where
  "index_of rt st =
     (case map_of (en_indexes st) rt of
        Some s \<Rightarrow> s
      | None \<Rightarrow> new_index (case map_of (en_trees st) rt of None \<Rightarrow> [] | Some t \<Rightarrow> t))"

definition resolve_root :: "engine_env \<Rightarrow> string \<Rightarrow> string" where
  "resolve_root env rt = path_resolve (ee_cwd env) rt"

definition getWorkspaceIndex :: "engine_env \<Rightarrow> string \<Rightarrow> engine \<Rightarrow> engine" where
  "getWorkspaceIndex env rt st =
     (let r = resolve_root env rt in
      if r \<in> set (en_open st) then st
      else st\<lparr>en_open := en_open st @ [r], en_snaps_dir := True, en_indexes := AList.update r (index_of r st) (en_indexes st)\<rparr>)"

text \<open>An operation of the index of a workspace.\<close>

definition with_index :: "engine_env \<Rightarrow> string \<Rightarrow> (wi_env \<Rightarrow> (wi, 'a) eff) \<Rightarrow> (engine, 'a) eff" where
  "with_index env rt f st =
     (let r = resolve_root env rt; st' = getWorkspaceIndex env rt st in
      map_option (\<lambda>(res, s). (res, st'\<lparr>en_indexes := AList.update r s (en_indexes st'),
          en_snaps_dir := (en_snaps_dir st' \<or> wi_manifests s \<noteq> [])\<rparr>))
        (f (index_env env r) (index_of r st')))"

definition resolveWorkspaceRoots :: "engine_env \<Rightarrow> string list option \<Rightarrow> engine \<Rightarrow> string list" where
  "resolveWorkspaceRoots env roots st =
     (case roots of
        None \<Rightarrow> en_open st
      | Some rs \<Rightarrow> if rs = [] then en_open st else js_dedup (map (resolve_root env) rs))"

definition loadLayeredManifest :: "string \<Rightarrow> engine \<Rightarrow> snap_manifest option" where
  \<comment> \<open>the indexes share one directory of snapshots\<close>
  "loadLayeredManifest i st =
     js_head (concat (map (\<lambda>(rt, s). case map_of (wi_manifests s) i of None \<Rightarrow> [] | Some m \<Rightarrow> [m]) (en_indexes st)))"

definition loadMetadataManifest :: "string \<Rightarrow> engine \<Rightarrow> boundary option" where
  "loadMetadataManifest i st = map_of (en_metadata st) i"

definition assertPathWithinRoot :: "engine_env \<Rightarrow> string \<Rightarrow> string \<Rightarrow> wi_error + string" where
  "assertPathWithinRoot env rt p =
     (let r = resolve_root env rt; q = path_resolve r p in
      if path_within q r then Inr q
      else Inl (wi_internal ''Snapshot manifest referenced a path outside the workspace root.''))"

section \<open>Reading\<close>

definition layered_boundary :: "engine_env \<Rightarrow> snap_manifest \<Rightarrow> boundary option \<Rightarrow> wi_error + boundary" where
  \<comment> \<open>the document written with the snapshot overrides what its manifest says\<close>
  "layered_boundary env m doc =
     (let r = sm_row m;
          target = (case sn_anchor_path r of
                      None \<Rightarrow> Inr (sm_root m)
                    | Some p \<Rightarrow> if p = [] then Inr (sm_root m) else assertPathWithinRoot env (sm_root m) p);
          field = (\<lambda>f d. case doc of None \<Rightarrow> d | Some b \<Rightarrow> f b) in
      case target of
        Inl e \<Rightarrow> Inl e
      | Inr p \<Rightarrow> Inr
          \<lparr>bd_snapshot_id = sn_id r,
           bd_action_id = (case doc of Some b \<Rightarrow> bd_action_id b | None \<Rightarrow> dflt ''unknown_action'' (sn_action r)),
           bd_run_id = (case doc of Some b \<Rightarrow> bd_run_id b | None \<Rightarrow> dflt ''unknown_run'' (sn_run r)),
           bd_target_path = (case doc of Some b \<Rightarrow> bd_target_path b | None \<Rightarrow> p),
           bd_workspace_root = sm_root m,
           bd_existed_before = (case doc of Some b \<Rightarrow> bd_existed_before b | None \<Rightarrow> sn_anchor_exists r),
           bd_entry_kind = (case doc of Some b \<Rightarrow> bd_entry_kind b | None \<Rightarrow> if sn_anchor_exists r then EK_file else EK_missing),
           bd_class = (case doc of Some b \<Rightarrow> bd_class b | None \<Rightarrow> SC_journal_plus_anchor),
           bd_fidelity = (case doc of Some b \<Rightarrow> bd_fidelity b | None \<Rightarrow> SF_full),
           bd_created_at = sn_created r, bd_anchor_hash = sn_anchor_hash r, bd_anchor_mode = sn_anchor_mode r,
           bd_operation_domain = field bd_operation_domain None, bd_operation_kind = field bd_operation_kind None,
           bd_display_name = field bd_display_name None, bd_surface = (case doc of Some b \<Rightarrow> bd_surface b | None \<Rightarrow> None),
           bd_tool_kind = field bd_tool_kind None, bd_tool_name = field bd_tool_name None,
           bd_side_effect = (case doc of Some b \<Rightarrow> bd_side_effect b | None \<Rightarrow> None),
           bd_external = (case doc of Some b \<Rightarrow> bd_external b | None \<Rightarrow> None),
           bd_reversibility = (case doc of Some b \<Rightarrow> bd_reversibility b | None \<Rightarrow> None),
           bd_preimage = (case doc of Some b \<Rightarrow> js_coalesce (bd_preimage b) JNull | None \<Rightarrow> JNull)\<rparr>)"

definition boundary_of :: "engine_env \<Rightarrow> string \<Rightarrow> engine \<Rightarrow> wi_error + boundary option" where
  "boundary_of env i st =
     (case loadLayeredManifest i st of
        Some m \<Rightarrow> (case layered_boundary env m (loadMetadataManifest i st) of Inl e \<Rightarrow> Inl e | Inr b \<Rightarrow> Inr (Some b))
      | None \<Rightarrow>
          (case loadMetadataManifest i st of
             Some b \<Rightarrow> Inr (Some b)
           | None \<Rightarrow> Inr (map_option lg_manifest (map_of (en_legacy st) i))))"

definition engine_manifest :: "engine_env \<Rightarrow> string \<Rightarrow> (engine, boundary option) eff" where
  "engine_manifest env i st = Some (boundary_of env i st, st)"

text \<open>What an index answers without changing its state.\<close>

definition ask_index :: "(wi_env \<Rightarrow> wi \<Rightarrow> 'a) \<Rightarrow> wi_env \<Rightarrow> (wi, 'a) eff" where
  "ask_index f env s = Some (Inr (f env s), s)"

definition verifyIntegrity :: "engine_env \<Rightarrow> string \<Rightarrow> (engine, bool) eff" where
  "verifyIntegrity env i st =
     (case loadLayeredManifest i st of
        Some m \<Rightarrow> with_index env (sm_root m) (ask_index (\<lambda>we s. getSnapshotManifest we i s \<noteq> None)) st
      | None \<Rightarrow>
          (if loadMetadataManifest i st \<noteq> None then eff_return True st
           else case map_of (en_legacy st) i of
               None \<Rightarrow> eff_return False st
             | Some l \<Rightarrow> eff_return (\<not> bd_existed_before (lg_manifest l) \<or> lg_preimage l \<noteq> None) st))"

definition no_preview :: restore_preview where
  "no_preview = \<lparr>rp_changes = 0, rp_later = 0, rp_overlaps = [], rp_risk = LR_unknown, rp_confidence = 42 / 100\<rparr>"

definition engine_preview :: "engine_env \<Rightarrow> string \<Rightarrow> (engine, restore_preview) eff" where
  "engine_preview env i st =
     (case loadLayeredManifest i st of
        Some m \<Rightarrow> with_index env (sm_root m) (\<lambda>we s. map_option (\<lambda>r. (r, s)) (previewRestore we i s)) st
      | None \<Rightarrow>
          (if loadMetadataManifest i st \<noteq> None then eff_return no_preview st
           else case map_of (en_legacy st) i of
               None \<Rightarrow> eff_throw (wi_internal ''Snapshot preview failed because the manifest was missing.'') st
             | Some l \<Rightarrow>
                 eff_return \<lparr>rp_changes = 1, rp_later = 0, rp_overlaps = [],
                   rp_risk = (if \<not> bd_existed_before (lg_manifest l) then LR_low
                              else if bd_entry_kind (lg_manifest l) = EK_directory then LR_moderate else LR_low),
                   rp_confidence = 96 / 100\<rparr> st))"

definition engine_preview_subset :: "engine_env \<Rightarrow> string \<Rightarrow> string list \<Rightarrow> (engine, restore_preview) eff" where
  "engine_preview_subset env i paths st =
     (case loadLayeredManifest i st of
        Some m \<Rightarrow> with_index env (sm_root m) (\<lambda>we s. map_option (\<lambda>r. (r, s)) (previewRestoreSubset we i paths s)) st
      | None \<Rightarrow> eff_return no_preview st)"

definition verifyTargetUnchanged :: "engine_env \<Rightarrow> string \<Rightarrow> string \<Rightarrow> (engine, bool) eff" where
  "verifyTargetUnchanged env i p st =
     (case loadLayeredManifest i st of
        None \<Rightarrow> eff_return True st
      | Some m \<Rightarrow> with_index env (sm_root m)
          (ask_index (\<lambda>we s. let live = statLiveFile we (wi_tree s) p; r = sm_row m in
             if \<not> sn_anchor_exists r then \<not> ls_exists live
             else ls_exists live \<and> ls_hash live = sn_anchor_hash r)) st)"

section \<open>Creating a snapshot\<close>

text \<open>Identifiers and the time come from the runtime.\<close>

record engine_stamps =
  ed_prep :: string
  ed_id :: string
  ed_now :: int

definition createPersistedMetadataSnapshot :: "engine_stamps \<Rightarrow> snapshot_request \<Rightarrow> (engine, snapshot_record) eff" where
  "createPersistedMetadataSnapshot d req st =
     Some (Inr (createMetadataSnapshot (ed_id d) (ed_now d) (sq_action req)),
       st\<lparr>en_metadata := AList.update (ed_id d) (createMetadataManifest req (ed_id d) (ed_now d)) (en_metadata st)\<rparr>)"

definition needs_workspace_snapshot :: "snapshot_request \<Rightarrow> bool" where
  "needs_workspace_snapshot req =
     (domain_of (sq_action req) = ''filesystem'' \<or>
      (domain_of (sq_action req) = ''shell'' \<and> sq_class req \<noteq> SC_metadata_only))"

definition request_options :: "snapshot_request \<Rightarrow> commit_options" where
  "request_options req =
     \<lparr>co_reason = ''action:'' @ op_kind (operation (sq_action req)), co_action = Some (action_id (sq_action req)),
      co_run = Some (run_id (sq_action req)), co_anchor = Some (locator_of (sq_action req))\<rparr>"

definition layered_record :: "snapshot_request \<Rightarrow> snap_row \<times> dirty_file list \<Rightarrow> snapshot_record" where
  "layered_record req rf =
     \<lparr>sr_snapshot_id = sn_id (fst rf), sr_action_id = action_id (sq_action req), sr_class = sq_class req, sr_fidelity = SF_full,
      sr_scope_paths = (if snd rf \<noteq> [] then map (\<lambda>f. path_join [sq_workspace_root req, df_path f]) (snd rf)
                        else [locator_of (sq_action req)]),
      sr_storage_bytes = sn_bytes (fst rf), sr_created_at = sn_created (fst rf)\<rparr>"

definition createSnapshot :: "engine_env \<Rightarrow> engine_stamps \<Rightarrow> snapshot_request \<Rightarrow> (engine, snapshot_record) eff" where
  "createSnapshot env d req =
     (if \<not> needs_workspace_snapshot req then createPersistedMetadataSnapshot d req
      else eff_bind
        (eff_catch (\<lambda>e. Inl (wrap_error ''Failed to create workspace snapshot.'' e))
           (with_index env (sq_workspace_root req)
              (\<lambda>we s. Some (take_snapshot we (ed_prep d) (ed_id d) (ed_now d) (request_options req) s))))
        (\<lambda>rf st. Some (Inr (layered_record req rf),
           st\<lparr>en_metadata := AList.update (sn_id (fst rf)) (createLayeredMetadataManifest req (fst rf)) (en_metadata st)\<rparr>)))"

section \<open>Restoring\<close>

definition is_not_found :: "wi_error \<Rightarrow> bool" where
  "is_not_found e = (case e of WE_ag a \<Rightarrow> err_code a = NOT_FOUND | WE_node c \<Rightarrow> False)"

text \<open>A restore of an index: a snapshot that is not found is no error, any other error is wrapped.\<close>

definition restore_outcome :: "string \<Rightarrow> (engine, 'a) eff \<Rightarrow> (engine, bool) eff" where
  "restore_outcome m f =
     eff_catch (\<lambda>e. if is_not_found e then Inr False else Inl (wi_internal m)) (eff_bind f (\<lambda>x. eff_return True))"

definition set_tree :: "string \<Rightarrow> tree \<Rightarrow> engine \<Rightarrow> engine" where
  "set_tree rt t st =
     (case map_of (en_indexes st) rt of
        Some s \<Rightarrow> st\<lparr>en_indexes := AList.update rt (s\<lparr>wi_tree := t\<rparr>) (en_indexes st)\<rparr>
      | None \<Rightarrow> st\<lparr>en_trees := AList.update rt t (en_trees st)\<rparr>)"

definition tree_at :: "string \<Rightarrow> engine \<Rightarrow> tree" where
  "tree_at rt st = wi_tree (index_of rt st)"

text \<open>\<open>removePathIfSafe\<close> on the path \<open>q\<close> of a workspace.\<close>

definition removePathIfSafe :: "string \<Rightarrow> tree \<Rightarrow> (wi_error + bool) \<times> tree" where
  "removePathIfSafe q t =
     (case lstat t q of
        LK_missing \<Rightarrow> (Inr False, t)
      | LK_not_dir \<Rightarrow> (Inl (WE_node ''ENOTDIR''), t)
      | LK_node (ND_link l) \<Rightarrow> (Inl (wi_internal ''Snapshot restore refused to remove a symlinked target path.''), t)
      | LK_node n \<Rightarrow> (Inr True, rm_tree q t))"

fun copy_entries :: "int \<Rightarrow> string \<Rightarrow> tree \<Rightarrow> tree \<Rightarrow> wi_error option \<times> tree" where
  "copy_entries now base [] t = (None, t)"
| "copy_entries now base ((p, n) # es) t =
     (let q = (if base = ''.'' then p else base @ ''/'' @ p) in
      case n of
        ND_link l \<Rightarrow> (Some (wi_internal ''Snapshot restore refused to traverse a symlinked snapshot preimage.''), t)
      | ND_dir \<Rightarrow>
          (case make_dirs (ancestors q @ [q]) t of
             (Some e, t') \<Rightarrow> (Some e, t')
           | (None, t') \<Rightarrow> copy_entries now base es t')
      | ND_file c m md \<Rightarrow>
          (case write_copy now q (c, md) t of
             (Some e, t') \<Rightarrow> (Some e, t')
           | (None, t') \<Rightarrow> copy_entries now base es t'))"

definition copyDirectoryNoFollow :: "int \<Rightarrow> string \<Rightarrow> node \<times> tree \<Rightarrow> tree \<Rightarrow> wi_error option \<times> tree" where
  "copyDirectoryNoFollow now q src t =
     (if fst src \<noteq> ND_dir then
        (Some (wi_internal ''Snapshot restore refused to copy a non-directory snapshot preimage.''), t)
      else case make_dirs (if q = ''.'' then [] else ancestors q @ [q]) t of
          (Some e, t') \<Rightarrow> (Some e, t')
        | (None, t') \<Rightarrow> copy_entries now q (snd src) t')"

definition copy_preimage_file :: "int \<Rightarrow> string \<Rightarrow> node \<times> tree \<Rightarrow> tree \<Rightarrow> wi_error option \<times> tree" where
  "copy_preimage_file now q src t =
     (case fst src of
        ND_file c m md \<Rightarrow> if q = ''.'' then (Some (WE_node ''ERR_FS_CP_NON_DIR_TO_DIR''), t) else write_copy now q (c, md) t
      | _ \<Rightarrow> (Some (wi_internal ''Snapshot restore refused to copy a non-regular file.''), t))"

text \<open>The copy is compared with the recorded hash before anything is removed; \<open>readFile\<close> follows a link.\<close>

definition preimage_intact :: "engine_env \<Rightarrow> boundary \<Rightarrow> node \<times> tree \<Rightarrow> bool" where
  "preimage_intact env b src =
     (bd_entry_kind b = EK_directory \<or>
      (case bd_anchor_hash b of
         None \<Rightarrow> True
       | Some h \<Rightarrow> h = [] \<or>
           (case fst src of
              ND_file c m md \<Rightarrow> ee_sha256 env c = h
            | ND_link (Some l) \<Rightarrow> ee_sha256 env (fst l) = h
            | _ \<Rightarrow> False)))"

definition restore_preimage :: "engine_env \<Rightarrow> int \<Rightarrow> boundary \<Rightarrow> string \<Rightarrow> (node \<times> tree) option \<Rightarrow> tree \<Rightarrow> (wi_error + bool) \<times> tree" where
  "restore_preimage env now b q pre t =
     (if \<not> bd_existed_before b \<or> bd_entry_kind b = EK_missing then
        (case removePathIfSafe q t of (Inl e, t') \<Rightarrow> (Inl e, t') | (Inr x, t') \<Rightarrow> (Inr True, t'))
      else case pre of
          None \<Rightarrow> (Inr False, t)
        | Some src \<Rightarrow>
            (if \<not> preimage_intact env b src then (Inl (wi_internal ''Snapshot preimage failed integrity verification.''), t)
             else case removePathIfSafe q t of
                 (Inl e, t') \<Rightarrow> (Inl e, t')
               | (Inr x, t') \<Rightarrow>
                   (case make_dirs (ancestors q) t' of
                      (Some e, t'') \<Rightarrow> (Inl e, t'')
                    | (None, t'') \<Rightarrow>
                        (case (if bd_entry_kind b = EK_directory then copyDirectoryNoFollow now q src t''
                               else copy_preimage_file now q src t'') of
                           (Some e, t3) \<Rightarrow> (Inl e, t3)
                         | (None, t3) \<Rightarrow> (Inr True, t3)))))"

definition restore_legacy :: "engine_env \<Rightarrow> int \<Rightarrow> string \<Rightarrow> (engine, bool) eff" where
  "restore_legacy env now i st =
     (case map_of (en_legacy st) i of
        None \<Rightarrow> Some (Inr False, st)
      | Some l \<Rightarrow>
          (let b = lg_manifest l; rt = resolve_root env (bd_workspace_root b) in
           case assertPathWithinRoot env (bd_workspace_root b) (bd_target_path b) of
             Inl e \<Rightarrow> Some (Inl e, st)
           | Inr p \<Rightarrow>
               (let q = (if p = rt then ''.'' else path_relative rt p);
                    (r, t) = restore_preimage env now b q (lg_preimage l) (tree_at rt st) in
                Some (r, set_tree rt t st))))"

definition engine_restore :: "engine_env \<Rightarrow> engine_stamps \<Rightarrow> string \<Rightarrow> (engine, bool) eff" where
  "engine_restore env d i st =
     (case loadLayeredManifest i st of
        Some m \<Rightarrow>
          restore_outcome ''Failed to restore layered snapshot.''
            (with_index env (sm_root m) (\<lambda>we s. restore_snapshot we (ed_prep d) (ed_id d) (ed_now d) i s)) st
      | None \<Rightarrow>
          (if loadMetadataManifest i st \<noteq> None then eff_return False st
           else eff_catch (\<lambda>e. if is_not_found e then Inr False else Inl (wi_internal ''Failed to restore snapshot.''))
                  (restore_legacy env (ed_now d) i) st))"

definition engine_restore_subset :: "engine_env \<Rightarrow> engine_stamps \<Rightarrow> string \<Rightarrow> string list \<Rightarrow> (engine, bool) eff" where
  \<comment> \<open>the field \<open>restored\<close> of the result; \<open>paths\<close> is the argument\<close>
  "engine_restore_subset env d i paths st =
     (case loadLayeredManifest i st of
        Some m \<Rightarrow>
          restore_outcome ''Failed to restore snapshot path subset.''
            (with_index env (sm_root m) (\<lambda>we s. restoreSubset we (ed_prep d) (ed_id d) (ed_now d) i paths s)) st
      | None \<Rightarrow>
          (if loadMetadataManifest i st \<noteq> None \<or> map_of (en_legacy st) i = None then eff_return False st
           else eff_throw (wi_internal ''Snapshot path-subset restore is unsupported for this snapshot type.'') st))"

section \<open>Maintenance\<close>

text \<open>A job over several workspaces adds up what their indexes report.\<close>

fun over_roots :: "engine_env \<Rightarrow> (wi_env \<Rightarrow> (wi, 'a) eff) \<Rightarrow> string list \<Rightarrow> (engine, 'a list) eff" where
  "over_roots env f [] = eff_return []"
| "over_roots env f (r # rs) =
     eff_bind (with_index env r f) (\<lambda>x. eff_bind (over_roots env f rs) (\<lambda>xs. eff_return (x # xs)))"

record compaction_summary =
  ks_workspaces :: nat
  ks_removed :: nat
  ks_freed :: nat
  ks_compacted :: nat

definition compactSnapshots :: "engine_env \<Rightarrow> string list option \<Rightarrow> int \<Rightarrow> (engine, compaction_summary) eff" where
  "compactSnapshots env roots keep st =
     (let rs = resolveWorkspaceRoots env roots st in
      eff_bind (over_roots env (\<lambda>we s. Some (compact we keep s)) rs)
        (\<lambda>xs. eff_return
           \<lparr>ks_workspaces = length rs, ks_removed = sum_list (map cr_removed xs), ks_freed = sum_list (map cr_freed xs),
            ks_compacted = length (filter (\<lambda>x. case cr_oldest x of None \<Rightarrow> False | Some i \<Rightarrow> i \<noteq> []) xs)\<rparr>) st)"

record anchor_summary =
  as_workspaces :: nat
  as_totals :: rebase_summary

definition rebase_anchors :: "engine_env \<Rightarrow> string list option \<Rightarrow> (engine, anchor_summary) eff" where
  "rebase_anchors env roots st =
     (let rs = resolveWorkspaceRoots env roots st in
      eff_bind (over_roots env (\<lambda>we s. Some (rebaseSyntheticAnchors we s)) rs)
        (\<lambda>xs. eff_return \<lparr>as_workspaces = length rs,
           as_totals = \<lparr>rs_scanned = sum_list (map rs_scanned xs), rs_rebased = sum_list (map rs_rebased xs),
             rs_freed = sum_list (map rs_freed xs), rs_directories = sum_list (map rs_directories xs)\<rparr>\<rparr>) st)"

section \<open>Garbage collection\<close>

record gc_summary =
  gc_workspaces :: nat
  gc_referenced :: nat
  gc_layered :: nat
  gc_legacy :: nat
  gc_stray :: nat
  gc_freed :: nat
  gc_directories :: nat

definition collectReferencedLayeredSnapshotIds :: "engine_env \<Rightarrow> string list option \<Rightarrow> engine \<Rightarrow> nat \<times> string list" where
  "collectReferencedLayeredSnapshotIds env roots st =
     (let considered = filter (\<lambda>(rt, s). case roots of None \<Rightarrow> True | Some rs \<Rightarrow> rt \<in> set (map (resolve_root env) rs)) (en_indexes st) in
      (length considered, js_dedup (concat (map (\<lambda>(rt, s). map sn_id (wi_snaps s)) considered))))"

text \<open>The directories of layered snapshots, whichever index wrote them.\<close>

definition snapshot_directories :: "engine \<Rightarrow> string list" where
  "snapshot_directories st =
     js_dedup (concat (map (\<lambda>(rt, s). map fst (wi_manifests s) @ map (fst \<circ> fst) (wi_blobs s)) (en_indexes st)))"

definition directory_bytes :: "engine_env \<Rightarrow> string \<Rightarrow> engine \<Rightarrow> nat" where
  "directory_bytes env i st = sum_list (map (\<lambda>(rt, s). snapshot_bytes (index_env env rt) i s) (en_indexes st))"

definition remove_directories :: "string list \<Rightarrow> wi \<Rightarrow> wi" where
  "remove_directories gone s =
     s\<lparr>wi_manifests := filter (\<lambda>m. fst m \<notin> set gone) (wi_manifests s),
       wi_blobs := filter (\<lambda>b. fst (fst b) \<notin> set gone) (wi_blobs s)\<rparr>"

definition garbageCollectSnapshots :: "engine_env \<Rightarrow> string list option \<Rightarrow> (engine, gc_summary) eff" where
  "garbageCollectSnapshots env roots st =
     (let (n, ids) = collectReferencedLayeredSnapshotIds env roots st;
          dirs = snapshot_directories st;
          gone = (if en_snaps_dir st then filter (\<lambda>i. i \<notin> set ids) dirs else []);
          strays = (if en_snaps_dir st then en_stray_files st else []);
          emptied = (en_snaps_dir st \<and> set dirs \<subseteq> set gone) in
      Some (Inr \<lparr>gc_workspaces = n, gc_referenced = length ids, gc_layered = length gone,
              gc_legacy = length (en_broken_legacy st), gc_stray = length strays,
              gc_freed = sum_list (map (\<lambda>i. directory_bytes env i st) gone) + sum_list (map snd strays) +
                sum_list (map snd (en_broken_legacy st)),
              gc_directories = (if emptied then 1 else 0)\<rparr>,
        st\<lparr>en_indexes := map (\<lambda>(rt, s). (rt, remove_directories gone s)) (en_indexes st),
          en_stray_files := [], en_broken_legacy := [], en_snaps_dir := (en_snaps_dir st \<and> \<not> emptied)\<rparr>))"

end
