(* ===== verification/Recovery_Engine.thy ===== *)
theory Recovery_Engine
  imports Snapshot_Engine
begin

text \<open>
  Planning and execution of recoveries (\<open>packages/recovery-engine/src/index.ts\<close>). The functions ask
  a snapshot engine, given as the record of the operations they call; strategies of compensation are the
  caller's. Identifiers and times of a plan come from the runtime.
\<close>

section \<open>Plans\<close>

datatype recovery_target =
    RT_snapshot string
  | RT_action string
  | RT_external string
  | RT_checkpoint string
  | RT_branch string nat
  | RT_paths string "string list"

datatype plan_class = RC_reversible | RC_compensatable | RC_review_only | RC_irreversible

record plan_step =
  ps_id :: string
  ps_type :: string
  ps_idempotent :: bool
  ps_depends_on :: "string list"

record notice =
  wn_code :: string
  wn_message :: string

record impact_preview =
  im_paths :: "nat option"
  im_later :: nat
  im_overlaps :: "string list"
  im_external :: "string list"
  im_risk :: loss_risk

record review_guidance =
  rg_systems :: "string list"
  rg_objects :: "string list"
  rg_manual_steps :: "string list"
  rg_uncertainty :: "string list"

record recovery_plan =
  pl_id :: string
  pl_target :: recovery_target
  pl_class :: plan_class
  pl_strategy :: string
  pl_confidence :: rat
  pl_steps :: "plan_step list"
  pl_impact :: impact_preview
  pl_warnings :: "notice list"
  pl_downgrade :: "notice option"
  pl_guidance :: "review_guidance option"
  pl_created_at :: int

text \<open>The identifiers of the plan and of its step, and the time.\<close>

record plan_stamp =
  pt_plan :: string
  pt_step :: string
  pt_now :: int

section \<open>The ports\<close>

record 's snapshot_port =
  sp_manifest :: "string \<Rightarrow> ('s, boundary option) eff"
  sp_preview :: "string \<Rightarrow> ('s, restore_preview) eff"
  sp_preview_subset :: "string \<Rightarrow> string list \<Rightarrow> ('s, restore_preview) eff"
  sp_verify :: "string \<Rightarrow> ('s, bool) eff"
  sp_restore :: "string \<Rightarrow> ('s, bool) eff"
  sp_restore_subset :: "string \<Rightarrow> string list \<Rightarrow> ('s, bool) eff"

record compensation_candidate =
  ct_strategy :: string
  ct_confidence :: rat
  ct_steps :: "plan_step list"
  ct_external :: "string list"
  ct_risk :: loss_risk
  ct_warnings :: "notice list option"
  ct_guidance :: "review_guidance option"

record 's compensation_strategy =
  cp_can :: "boundary \<Rightarrow> bool"
  cp_build :: "boundary \<Rightarrow> restore_preview \<Rightarrow> bool \<Rightarrow> compensation_candidate"
  cp_execute :: "boundary \<Rightarrow> restore_preview \<Rightarrow> bool \<Rightarrow> ('s, bool) eff"

definition resolve_compensation :: "'s compensation_strategy list option \<Rightarrow> boundary \<Rightarrow> 's compensation_strategy option" where
  \<comment> \<open>\<open>StaticCompensationRegistry.resolve\<close>, of a registry that may be absent\<close>
  "resolve_compensation registry b = (case registry of None \<Rightarrow> None | Some ss \<Rightarrow> find (\<lambda>c. cp_can c b) ss)"

section \<open>Warnings and guidance\<close>

definition notice_of :: "string \<Rightarrow> string \<Rightarrow> notice" where
  "notice_of c m = \<lparr>wn_code = c, wn_message = m\<rparr>"

definition impactRisk :: "boundary \<Rightarrow> loss_risk" where
  "impactRisk b = (if \<not> bd_existed_before b then LR_low else if bd_entry_kind b = EK_directory then LR_moderate else LR_low)"

definition overlap_message :: "string \<Rightarrow> string \<Rightarrow> nat \<Rightarrow> string list \<Rightarrow> string" where
  "overlap_message verb since n ps =
     (if ps \<noteq> [] then ''Recovery would '' @ verb @ '' '' @ nat_digits n @ '' later action(s) touching '' @ js_join '', '' (take 3 ps) @ ''.''
      else ''Recovery would '' @ verb @ '' '' @ nat_digits n @ '' later action(s) recorded after this '' @ since @ ''.'')"

definition integrity_warning :: "string \<Rightarrow> bool \<Rightarrow> notice list" where
  "integrity_warning what ok =
     (if ok then []
      else [notice_of ''SNAPSHOT_INTEGRITY_UNCERTAIN'' (''Snapshot integrity could not be fully verified. '' @ what @ '' confidence is reduced.'')])"

definition buildWarnings :: "nat \<Rightarrow> string list \<Rightarrow> bool \<Rightarrow> notice list" where
  "buildWarnings later overlaps ok =
     (if 0 < later then [notice_of ''LATER_ACTIONS_OVERLAP_BOUNDARY'' (overlap_message ''overwrite'' ''boundary'' later overlaps)] else []) @
     integrity_warning ''Recovery'' ok"

definition has_external :: "external_effect option \<Rightarrow> bool" where
  "has_external e = (case e of None \<Rightarrow> False | Some x \<Rightarrow> x \<noteq> EE_none)"

definition manifestExternalEffects :: "boundary \<Rightarrow> string list" where
  "manifestExternalEffects b =
     (case bd_external b of None \<Rightarrow> [] | Some x \<Rightarrow> if x \<noteq> EE_none then [external_effect_str x] else [])"

definition metadata_only :: "boundary \<Rightarrow> bool" where
  "metadata_only b = (bd_class b = SC_metadata_only \<or> bd_fidelity b = SF_metadata)"

definition buildReviewGuidance :: "boundary \<Rightarrow> string list \<Rightarrow> review_guidance" where
  "buildReviewGuidance b extra =
     \<lparr>rg_systems = js_dedup (dflt ''unknown_system'' (bd_operation_domain b) # manifestExternalEffects b),
      rg_objects = [bd_target_path b],
      rg_manual_steps =
        (if bd_operation_domain b = Some ''shell'' then
           [''Inspect workspace changes produced by the shell command before deciding on cleanup.'']
         else [''Review the recorded boundary before applying any manual remediation.'']) @
        (if has_external (bd_external b) then
           [''Check external systems touched by this action and perform any provider-specific undo manually.''] else []),
      rg_uncertainty = extra @
        (if has_external (bd_external b) then
           [''External side effects were recorded, but no trusted compensator is registered for this boundary.''] else []) @
        (if metadata_only b then [''Only metadata was captured for this boundary, so exact restore is unavailable.''] else [])\<rparr>"

definition metadata_reason :: notice where
  "metadata_reason =
     notice_of ''METADATA_ONLY_BOUNDARY'' ''This boundary captured metadata only, so exact automated restore is unavailable.''"

definition buildManualReviewWarnings :: "boundary \<Rightarrow> bool \<Rightarrow> bool \<Rightarrow> notice list" where
  "buildManualReviewWarnings b ok omit_metadata =
     (if \<not> omit_metadata \<and> metadata_only b then [metadata_reason] else []) @
     [notice_of ''NO_TRUSTED_COMPENSATOR''
        ''No trusted adapter-specific compensation strategy is registered for this recovery boundary.''] @
     integrity_warning ''Manual review'' ok"

definition metadataReviewConfidence :: "boundary \<Rightarrow> bool \<Rightarrow> rat" where
  "metadataReviewConfidence b ok =
     (let base = (if has_external (bd_external b) then 38 / 100 else 46 / 100) in
      if ok then base else max (25 / 100) (base - 1 / 10))"

section \<open>Plans for review\<close>

definition review_plan ::
  "plan_stamp \<Rightarrow> recovery_target \<Rightarrow> rat \<Rightarrow> impact_preview \<Rightarrow> notice list \<Rightarrow> notice \<Rightarrow> review_guidance \<Rightarrow> recovery_plan" where
  "review_plan d target conf im warnings why guidance =
     \<lparr>pl_id = pt_plan d, pl_target = target, pl_class = RC_review_only, pl_strategy = ''manual_review_only'',
      pl_confidence = conf, pl_steps = [], pl_impact = im, pl_warnings = warnings, pl_downgrade = Some why,
      pl_guidance = Some guidance, pl_created_at = pt_now d\<rparr>"

definition createReviewOnlyPlan ::
  "plan_stamp \<Rightarrow> string \<Rightarrow> boundary \<Rightarrow> bool \<Rightarrow> restore_preview \<Rightarrow> notice option \<Rightarrow> string list \<Rightarrow> bool \<Rightarrow> recovery_plan" where
  "createReviewOnlyPlan d i b ok pv downgrade extra omit_metadata =
     (let why = dflt metadata_reason downgrade in
      review_plan d (RT_snapshot i) (metadataReviewConfidence b ok)
        \<lparr>im_paths = None, im_later = rp_later pv, im_overlaps = rp_overlaps pv, im_external = manifestExternalEffects b,
         im_risk = LR_unknown\<rparr>
        (why # buildManualReviewWarnings b ok omit_metadata) why (buildReviewGuidance b extra))"

definition requiresSnapshotManualReview :: "boundary \<Rightarrow> notice option" where
  "requiresSnapshotManualReview b =
     (if bd_operation_domain b = Some ''shell'' then
        Some (notice_of ''OPAQUE_SHELL_BOUNDARY''
          ''Shell execution boundaries remain manual-review only even when a richer snapshot exists.'')
      else None)"

definition createPathSubsetReviewOnlyPlan :: "plan_stamp \<Rightarrow> string \<Rightarrow> string list \<Rightarrow> boundary \<Rightarrow> bool \<Rightarrow> recovery_plan" where
  "createPathSubsetReviewOnlyPlan d i paths b ok =
     (let why = notice_of ''PATH_SUBSET_UNSUPPORTED_FOR_BOUNDARY''
            ''This boundary does not support exact surgical restore for a requested path subset.'' in
      review_plan d (RT_paths i paths) (metadataReviewConfidence b ok)
        \<lparr>im_paths = Some 0, im_later = 0, im_overlaps = [], im_external = manifestExternalEffects b, im_risk = LR_unknown\<rparr>
        (why # buildManualReviewWarnings b ok False) why
        \<lparr>rg_systems = [dflt ''filesystem'' (bd_operation_domain b)], rg_objects = paths,
         rg_manual_steps = [''Review the requested paths and apply a manual restore from a trusted boundary or external source.''],
         rg_uncertainty = [''This boundary cannot provide a trusted exact subset restore for the requested paths.'']\<rparr>)"

text \<open>What the journal knows of an action without a snapshot. The effects and hints are the strings of the event.\<close>

record action_evidence =
  ev_action :: string
  ev_target :: string
  ev_domain :: string
  ev_display :: "string option"
  ev_side_effect :: "string option"
  ev_external :: "string option"
  ev_reversibility :: "string option"
  ev_later :: nat
  ev_overlaps :: "string list"

definition evidence_external :: "action_evidence \<Rightarrow> string list" where
  "evidence_external ev =
     (case ev_external ev of None \<Rightarrow> [] | Some x \<Rightarrow> if x \<noteq> [] \<and> x \<noteq> ''none'' then [x] else [])"

definition actionBoundaryReviewConfidence :: "action_evidence \<Rightarrow> rat" where
  "actionBoundaryReviewConfidence ev =
     (if evidence_external ev \<noteq> [] then 38 / 100
      else if ev_side_effect ev = Some ''read_only'' then 55 / 100
      else 44 / 100)"

definition createActionBoundaryReviewPlan :: "plan_stamp \<Rightarrow> action_evidence \<Rightarrow> recovery_plan" where
  "createActionBoundaryReviewPlan d ev =
     (let why = notice_of ''NO_BOUNDARY_SNAPSHOT''
            ''This action boundary has no persisted snapshot, so automated restore is unavailable.'' in
      review_plan d (RT_action (ev_action ev)) (actionBoundaryReviewConfidence ev)
        \<lparr>im_paths = None, im_later = ev_later ev, im_overlaps = ev_overlaps ev, im_external = evidence_external ev,
         im_risk = (if 0 < ev_later ev then LR_moderate else LR_unknown)\<rparr>
        ([why] @
         (if 0 < ev_later ev then
            [notice_of ''LATER_ACTIONS_OVERLAP_BOUNDARY'' (overlap_message ''cross'' ''action boundary'' (ev_later ev) (ev_overlaps ev))]
          else []) @
         (if evidence_external ev \<noteq> [] then
            [notice_of ''EXTERNAL_EFFECTS_NOT_RESTORABLE''
               ''External side effects were recorded for this action, but no trusted compensator is registered.'']
          else []))
        why
        \<lparr>rg_systems = js_dedup ((if ev_domain ev \<noteq> [] \<and> ev_domain ev \<noteq> ''none'' then [ev_domain ev] else []) @ evidence_external ev),
         rg_objects = [ev_target ev],
         rg_manual_steps =
           [(case ev_display ev of
               None \<Rightarrow> ''Inspect the effects of this action before applying manual cleanup.''
             | Some n \<Rightarrow>
                 if n = [] then ''Inspect the effects of this action before applying manual cleanup.''
                 else ''Inspect the effects of '' @ n @ '' before applying manual cleanup.'')],
         rg_uncertainty =
           [''No persisted snapshot was captured for this action boundary, so recovery is review-only.''] @
           (if ev_reversibility ev = Some ''compensatable'' then
              [''A future adapter-specific compensator may be able to improve this recovery path.''] else [])\<rparr>)"

section \<open>Capabilities\<close>

definition capabilityWorkspaceRoot_of :: "capability_record \<Rightarrow> string option" where
  "capabilityWorkspaceRoot_of c =
     (case obj_get (cap_details c) ''workspace_root'' of JStr s \<Rightarrow> if s \<noteq> [] then Some s else None | _ \<Rightarrow> None)"

definition findCapability_in :: "capability_record list \<Rightarrow> string \<Rightarrow> capability_record option" where
  "findCapability_in cs n = find (\<lambda>c. cap_name c = n) cs"

definition findWorkspaceCapabilityForManifest :: "boundary \<Rightarrow> capability_record list \<Rightarrow> capability_record option" where
  "findWorkspaceCapabilityForManifest b cs =
     find (\<lambda>c. cap_name c = ''workspace.root_access'' \<and> capabilityWorkspaceRoot_of c = Some (bd_workspace_root b)) cs"

definition evaluateRestoreCapabilityState :: "boundary \<Rightarrow> cached_capability_state option \<Rightarrow> notice option" where
  "evaluateRestoreCapabilityState b state =
     (case state of
        None \<Rightarrow> None
      | Some cc \<Rightarrow>
          (if cc_is_stale cc then
             Some (notice_of ''CAPABILITY_STATE_STALE''
               ''Cached workspace/runtime capability state is stale; rerun capability_refresh before trusting automatic restore.'')
           else case findWorkspaceCapabilityForManifest b (cc_capabilities cc) of
               None \<Rightarrow>
                 Some (notice_of ''CAPABILITY_STATE_INCOMPLETE''
                   ''Cached capability state does not include governed workspace access for this recovery boundary.'')
             | Some w \<Rightarrow>
                 (if cap_status w \<noteq> CS_available then
                    Some (notice_of ''WORKSPACE_CAPABILITY_UNAVAILABLE''
                      (''Cached workspace access capability is '' @ capability_status_str (cap_status w) @
                       ''; automatic restore is not trusted for this boundary.''))
                  else case findCapability_in (cc_capabilities cc) ''host.runtime_storage'' of
                      None \<Rightarrow>
                        Some (notice_of ''CAPABILITY_STATE_INCOMPLETE''
                          ''Cached capability state does not include runtime snapshot storage readiness for this recovery boundary.'')
                    | Some h \<Rightarrow>
                        (if cap_status h \<noteq> CS_available then
                           Some (notice_of ''RUNTIME_STORAGE_CAPABILITY_DEGRADED''
                             (''Cached runtime snapshot storage capability is '' @ capability_status_str (cap_status h) @
                              ''; automatic restore is not trusted for this boundary.''))
                         else None))))"

definition createCapabilityReviewOnlyPlan ::
  "plan_stamp \<Rightarrow> recovery_target \<Rightarrow> boundary \<Rightarrow> restore_preview \<Rightarrow> loss_risk \<Rightarrow> notice \<Rightarrow> recovery_plan" where
  "createCapabilityReviewOnlyPlan d target b pv loss why =
     (let g = buildReviewGuidance b [] in
      review_plan d target (34 / 100)
        \<lparr>im_paths = Some (rp_changes pv), im_later = rp_later pv, im_overlaps = rp_overlaps pv,
         im_external = manifestExternalEffects b, im_risk = loss\<rparr>
        (why # buildWarnings (rp_later pv) (rp_overlaps pv) True) why
        (g\<lparr>rg_manual_steps :=
             ''Rerun capability_refresh after verifying workspace access and runtime snapshot storage before retrying automatic recovery.'' #
             rg_manual_steps g,
           rg_uncertainty :=
             ''Latest cached capability state does not support a trustworthy automatic restore for this boundary.'' #
             rg_uncertainty g\<rparr>))"

section \<open>Planning\<close>

definition createCompensatablePlan :: "plan_stamp \<Rightarrow> string \<Rightarrow> restore_preview \<Rightarrow> compensation_candidate \<Rightarrow> recovery_plan" where
  "createCompensatablePlan d i pv c =
     \<lparr>pl_id = pt_plan d, pl_target = RT_snapshot i, pl_class = RC_compensatable, pl_strategy = ct_strategy c,
      pl_confidence = ct_confidence c, pl_steps = ct_steps c,
      pl_impact = \<lparr>im_paths = None, im_later = rp_later pv, im_overlaps = rp_overlaps pv, im_external = ct_external c,
        im_risk = ct_risk c\<rparr>,
      pl_warnings = dflt [] (ct_warnings c), pl_downgrade = None, pl_guidance = ct_guidance c, pl_created_at = pt_now d\<rparr>"

definition plan_risk :: "boundary \<Rightarrow> bool \<Rightarrow> restore_preview \<Rightarrow> loss_risk" where
  "plan_risk b ok pv = (if ok then rp_risk pv else impactRisk b)"

definition reversible_plan ::
  "plan_stamp \<Rightarrow> recovery_target \<Rightarrow> string \<Rightarrow> boundary \<Rightarrow> bool \<Rightarrow> restore_preview \<Rightarrow> review_guidance option \<Rightarrow> recovery_plan" where
  "reversible_plan d target strategy b ok pv guidance =
     (let conf = (if ok then rp_confidence pv else min (rp_confidence pv) (7 / 10)) in
      \<lparr>pl_id = pt_plan d, pl_target = target, pl_class = RC_reversible, pl_strategy = strategy,
       pl_confidence = max (4 / 10) (conf - (if 0 < rp_later pv then 1 / 10 else 0)),
       pl_steps = [\<lparr>ps_id = pt_step d, ps_type = strategy, ps_idempotent = False, ps_depends_on = []\<rparr>],
       pl_impact = \<lparr>im_paths = Some (rp_changes pv), im_later = rp_later pv, im_overlaps = rp_overlaps pv, im_external = [],
         im_risk = plan_risk b ok pv\<rparr>,
       pl_warnings = buildWarnings (rp_later pv) (rp_overlaps pv) ok, pl_downgrade = None, pl_guidance = guidance,
       pl_created_at = pt_now d\<rparr>)"

definition shell_uncertainty :: string where
  "shell_uncertainty =
     ''The original shell command may have produced broad or partially opaque side effects, so automated restore is not trusted.''"

definition snapshot_plan ::
  "'s compensation_strategy list option \<Rightarrow> cached_capability_state option \<Rightarrow> plan_stamp \<Rightarrow> string \<Rightarrow>
   boundary \<Rightarrow> restore_preview \<Rightarrow> bool \<Rightarrow> recovery_plan" where
  "snapshot_plan registry state d i b pv ok =
     (if metadata_only b then
        (case resolve_compensation registry b of
           Some c \<Rightarrow> createCompensatablePlan d i pv (cp_build c b pv ok)
         | None \<Rightarrow> createReviewOnlyPlan d i b ok pv None [] False)
      else case requiresSnapshotManualReview b of
          Some why \<Rightarrow> createReviewOnlyPlan d i b ok pv (Some why) [shell_uncertainty] True
        | None \<Rightarrow>
            (case evaluateRestoreCapabilityState b state of
               Some why \<Rightarrow> createCapabilityReviewOnlyPlan d (RT_snapshot i) b pv (plan_risk b ok pv) why
             | None \<Rightarrow> reversible_plan d (RT_snapshot i) ''restore_snapshot'' b ok pv None))"

definition no_snapshot :: "string \<Rightarrow> wi_error" where
  "no_snapshot i = WE_ag (NotFoundError (''No snapshot found for '' @ i @ ''.''))"

definition loadRecoverySnapshotManifest :: "'s snapshot_port \<Rightarrow> string \<Rightarrow> ('s, boundary) eff" where
  "loadRecoverySnapshotManifest port i =
     eff_bind (sp_manifest port i) (\<lambda>b. case b of None \<Rightarrow> eff_throw (no_snapshot i) | Some m \<Rightarrow> eff_return m)"

definition planSnapshotRecovery ::
  "'s snapshot_port \<Rightarrow> 's compensation_strategy list option \<Rightarrow> cached_capability_state option \<Rightarrow> plan_stamp \<Rightarrow>
   string \<Rightarrow> ('s, recovery_plan) eff" where
  "planSnapshotRecovery port registry state d i =
     eff_bind (loadRecoverySnapshotManifest port i) (\<lambda>b.
     eff_bind (sp_preview port i) (\<lambda>pv.
     eff_bind (sp_verify port i) (\<lambda>ok.
     eff_return (snapshot_plan registry state d i b pv ok))))"

definition subset_plan ::
  "'s snapshot_port \<Rightarrow> cached_capability_state option \<Rightarrow> plan_stamp \<Rightarrow> string \<Rightarrow> string list \<Rightarrow> boundary \<Rightarrow> bool \<Rightarrow>
   ('s, recovery_plan) eff" where
  "subset_plan port state d i paths b ok =
     (if metadata_only b \<or> requiresSnapshotManualReview b \<noteq> None then
        eff_return (createPathSubsetReviewOnlyPlan d i paths b ok)
      else eff_bind (sp_preview_subset port i paths) (\<lambda>pv. eff_return
        (case evaluateRestoreCapabilityState b state of
           Some why \<Rightarrow> createCapabilityReviewOnlyPlan d (RT_paths i paths) b pv (plan_risk b ok pv) why
         | None \<Rightarrow> reversible_plan d (RT_paths i paths) ''restore_path_subset'' b ok pv
             (Some \<lparr>rg_systems = [''filesystem''], rg_objects = paths, rg_manual_steps = [], rg_uncertainty = []\<rparr>))))"

definition planPathSubsetRecovery ::
  "'s snapshot_port \<Rightarrow> cached_capability_state option \<Rightarrow> plan_stamp \<Rightarrow> string \<Rightarrow> string list \<Rightarrow> ('s, recovery_plan) eff" where
  "planPathSubsetRecovery port state d i paths =
     eff_bind (loadRecoverySnapshotManifest port i) (\<lambda>b.
     eff_bind (sp_verify port i) (\<lambda>ok. subset_plan port state d i paths b ok))"

section \<open>Execution\<close>

datatype recovery_outcome = RO_restored | RO_compensated

record recovery_result =
  xr_plan :: recovery_plan
  xr_restored :: bool
  xr_outcome :: recovery_outcome
  xr_executed_at :: int

definition precondition :: "string \<Rightarrow> wi_error" where
  "precondition m = WE_ag (PreconditionError m)"

definition run_compensation ::
  "'s compensation_strategy list option \<Rightarrow> int \<Rightarrow> recovery_plan \<Rightarrow> boundary \<Rightarrow> restore_preview \<Rightarrow> bool \<Rightarrow> ('s, recovery_result) eff" where
  "run_compensation registry now plan b pv ok =
     (case resolve_compensation registry b of
        None \<Rightarrow> eff_throw (precondition ''No trusted compensator is registered for this recovery plan.'')
      | Some c \<Rightarrow> eff_bind (cp_execute c b pv ok) (\<lambda>done.
          if \<not> done then eff_throw (wi_internal ''Compensating recovery execution failed.'')
          else eff_return \<lparr>xr_plan = plan, xr_restored = False, xr_outcome = RO_compensated, xr_executed_at = now\<rparr>))"

definition run_restore :: "int \<Rightarrow> recovery_plan \<Rightarrow> string \<Rightarrow> ('s, bool) eff \<Rightarrow> ('s, recovery_result) eff" where
  "run_restore now plan failed f =
     eff_bind f (\<lambda>done.
       if \<not> done then eff_throw (wi_internal failed)
       else eff_return \<lparr>xr_plan = plan, xr_restored = True, xr_outcome = RO_restored, xr_executed_at = now\<rparr>)"

definition executeSnapshotRecovery ::
  "'s snapshot_port \<Rightarrow> 's compensation_strategy list option \<Rightarrow> cached_capability_state option \<Rightarrow> plan_stamp \<Rightarrow> int \<Rightarrow>
   string \<Rightarrow> ('s, recovery_result) eff" where
  "executeSnapshotRecovery port registry state d now i =
     eff_bind (planSnapshotRecovery port registry state d i) (\<lambda>plan.
     eff_bind (loadRecoverySnapshotManifest port i) (\<lambda>b.
     eff_bind (sp_preview port i) (\<lambda>pv.
     eff_bind (sp_verify port i) (\<lambda>ok.
       if pl_class plan = RC_compensatable then run_compensation registry now plan b pv ok
       else if pl_class plan \<noteq> RC_reversible then
         eff_throw (precondition ''This recovery plan requires manual review or adapter-specific compensation.'')
       else run_restore now plan ''Snapshot recovery execution failed.'' (sp_restore port i)))))"

definition executePathSubsetRecovery ::
  "'s snapshot_port \<Rightarrow> cached_capability_state option \<Rightarrow> plan_stamp \<Rightarrow> int \<Rightarrow> string \<Rightarrow> string list \<Rightarrow> ('s, recovery_result) eff" where
  "executePathSubsetRecovery port state d now i paths =
     eff_bind (planPathSubsetRecovery port state d i paths) (\<lambda>plan.
       if pl_class plan \<noteq> RC_reversible then
         eff_throw (precondition ''This path-subset recovery target is manual-review only.'')
       else run_restore now plan ''Path-subset recovery execution failed.'' (sp_restore_subset port i paths))"

section \<open>The local engine as a port\<close>

definition engine_port :: "engine_env \<Rightarrow> engine_stamps \<Rightarrow> engine snapshot_port" where
  "engine_port env d =
     \<lparr>sp_manifest = engine_manifest env, sp_preview = engine_preview env, sp_preview_subset = engine_preview_subset env,
      sp_verify = verifyIntegrity env, sp_restore = engine_restore env d, sp_restore_subset = engine_restore_subset env d\<rparr>"

end
