(* ===== verification/Workspace_Paths.thy ===== *)
theory Workspace_Paths
  imports Workspace_Index Containment_Theorems
begin

text \<open>
  Paths and trees of a workspace. A canonical path, one whose segments are names, is what the
  resolving functions of the index return unchanged; the operations on trees are characterised by
  what they do to the map of entries, for a workspace in which no path is a file at one time and a
  directory at another.
\<close>

section \<open>Canonical paths\<close>

definition canonical :: "string \<Rightarrow> bool" where
  "canonical p = list_all good_segment (js_split CHR ''/'' p)"

lemma js_join_split: "js_join [d] (js_split d s) = s"
proof (induction s)
  case (Cons c s)
  obtain w ws where w: "js_split d s = w # ws" by (meson js_split_ne list.exhaust)
  then show ?case using Cons.IH by (cases ws) auto
qed simp

lemma js_split_sep: "js_split d (x @ d # y) = js_split d x @ js_split d y"
  by (induction x) (auto split: list.splits)

lemma path_push_append: "path_push acc (xs @ ys) = path_push (rev (path_push acc xs)) ys"
  by (induction xs arbitrary: acc) simp_all

lemma js_split_abs: "\<forall>w \<in> set us. good_segment w \<Longrightarrow> us \<noteq> [] \<Longrightarrow> js_split CHR ''/'' (abs_path us) = [] # us"
  using js_split_join [of us] by (simp add: abs_path_def good_segment_def)

lemma abs_path_extend: "us \<noteq> [] \<Longrightarrow> vs \<noteq> [] \<Longrightarrow> abs_path (us @ vs) = abs_path us @ ''/'' @ js_join ''/'' vs"
proof (induction vs rule: rev_induct)
  case (snoc v vs)
  then show ?case by (cases "vs = []") (simp_all add: abs_snoc js_join_snoc flip: append_assoc)
qed simp

definition env_paths :: "string list \<Rightarrow> string \<Rightarrow> bool" where
  "env_paths us rt = (rt = abs_path us \<and> us \<noteq> [] \<and> (\<forall>w \<in> set us. good_segment w))"

lemma canonical_ne: "canonical p \<Longrightarrow> p \<noteq> []"
  by (auto simp: canonical_def good_segment_def)

lemma canonical_relative: "canonical p \<Longrightarrow> \<not> path_absolute p"
  by (cases p) (auto simp: canonical_def path_absolute_def good_segment_def)

lemma canonical_not_dot: "canonical p \<Longrightarrow> p \<noteq> ''.''"
  by (auto simp: canonical_def good_segment_def)

lemma segments_below:
  assumes "\<forall>w \<in> set us. good_segment w" "us \<noteq> []" "canonical p"
  shows "path_segments (abs_path us @ ''/'' @ p) = us @ js_split CHR ''/'' p"
proof -
  have "js_split CHR ''/'' (abs_path us @ ''/'' @ p) = ([] # us) @ js_split CHR ''/'' p"
    using js_split_sep [of "CHR ''/''" "abs_path us" p] js_split_abs [OF assms(1,2)] by simp
  moreover have "path_push [] ([] # us) = us" using path_push_id [OF assms(1), of "[]"] by simp
  moreover have "\<forall>w \<in> set (js_split CHR ''/'' p). good_segment w" using assms(3) by (simp add: canonical_def list_all_iff)
  ultimately show ?thesis using path_push_append [of "[]" "[] # us" "js_split CHR ''/'' p"]
    by (simp add: path_segments_def path_push_id)
qed

lemma resolve_below:
  assumes "env_paths us rt" "canonical p"
  shows "path_resolve rt p = abs_path (us @ js_split CHR ''/'' p)"
  using assms segments_below [of us p] canonical_relative [OF assms(2)]
  by (simp add: env_paths_def path_resolve_abs)

lemma resolve_root:
  assumes "env_paths us rt"
  shows "path_resolve d rt = rt"
proof -
  have "path_absolute rt" using assms by (simp add: env_paths_def abs_path_def path_absolute_def)
  then show ?thesis using assms path_segments_abs [of us] by (simp add: env_paths_def path_resolve_abs)
qed

lemma within_below:
  assumes "env_paths us rt" "canonical p"
  shows "path_within (path_resolve rt p) rt"
  using assms abs_path_extend [of us "js_split CHR ''/'' p"]
  unfolding resolve_below [OF assms] by (simp add: env_paths_def path_within_def)

lemma strip_common_append: "strip_common us (us @ vs) = ([], vs)"
  by (induction us) (cases vs; simp)+

lemma relative_below:
  assumes "env_paths us rt" "canonical p"
  shows "path_relative rt (path_resolve rt p) = p"
proof -
  have good: "\<forall>w \<in> set (us @ js_split CHR ''/'' p). good_segment w" "\<forall>w \<in> set us. good_segment w"
    using assms by (auto simp: env_paths_def canonical_def list_all_iff)
  have rt: "rt = abs_path us" using assms(1) by (simp add: env_paths_def)
  show ?thesis
    unfolding resolve_below [OF assms] path_relative_def path_segments_abs [OF good(1)]
    using rt path_segments_abs [OF good(2)] js_join_split [of "CHR ''/''" p]
    by (simp add: strip_common_append)
qed

lemma push_relative_id: "\<forall>w \<in> set ws. good_segment w \<Longrightarrow> push_relative acc ws = rev acc @ ws"
  by (induction ws arbitrary: acc) (auto simp: good_segment_def)

lemma canonical_last: "canonical p \<Longrightarrow> \<not> suffix ''/'' p"
proof
  assume p: "canonical p" and "suffix ''/'' p"
  then obtain q where "p = q @ CHR ''/'' # []" by (auto simp: suffix_def)
  then have "[] \<in> set (js_split CHR ''/'' p)" by (simp add: js_split_sep)
  with p show False by (auto simp: canonical_def list_all_iff good_segment_def)
qed

lemma normalize_canonical: "canonical p \<Longrightarrow> normalize_relative p = p"
proof -
  assume p: "canonical p"
  have "push_relative [] (js_split CHR ''/'' p) = js_split CHR ''/'' p"
    using push_relative_id [of "js_split CHR ''/'' p" "[]"] p by (simp add: canonical_def list_all_iff)
  then show ?thesis
    using canonical_last [OF p] js_join_split [of "CHR ''/''" p] by (simp add: normalize_relative_def)
qed

lemma resolve_workspace_canonical:
  assumes "env_paths us rt" "canonical p"
  shows "resolveWorkspaceRelativePath rt p = Inr p"
  using within_below [OF assms] relative_below [OF assms] canonical_ne [OF assms(2)] normalize_canonical [OF assms(2)]
    resolve_root [OF assms(1)]
  by (simp add: resolveWorkspaceRelativePath_def Let_def)

lemma resolve_workspace_dot:
  assumes "env_paths us rt"
  shows "resolveWorkspaceRelativePath rt ''.'' = Inr ''.''"
proof -
  have good: "\<forall>w \<in> set us. good_segment w" and us: "us \<noteq> []" and rt: "rt = abs_path us"
    using assms by (simp_all add: env_paths_def)
  have "js_split CHR ''/'' (abs_path us @ ''/'' @ ''.'') = ([] # us) @ [''.'']"
    using js_split_sep [of "CHR ''/''" "abs_path us" "''.''"] js_split_abs [OF good us] by simp
  then have "path_segments (abs_path us @ ''/'' @ ''.'') = us"
    using path_push_append [of "[]" "[] # us" "[''.'']"] path_push_id [OF good, of "[]"]
    by (simp add: path_segments_def)
  then have "path_resolve rt ''.'' = rt" using rt by (simp add: path_resolve_abs path_absolute_def)
  moreover have "path_relative rt rt = []"
    using path_segments_abs [OF good] rt strip_common_append [of us "[]"] by (simp add: path_relative_def)
  ultimately show ?thesis using resolve_root [OF assms] by (simp add: resolveWorkspaceRelativePath_def path_within_def)
qed

lemma snapshot_base:
  assumes "env_paths ds dir" "good_segment i"
  shows "env_paths (ds @ [''snaps'', i, ''files'']) (path_join [dir, ''snaps'', i, ''files''])"
proof -
  have good: "\<forall>w \<in> set (ds @ [''snaps'', i, ''files'']). good_segment w"
    using assms by (auto simp: env_paths_def good_segment_def)
  have dir: "dir = abs_path ds" "ds \<noteq> []" using assms(1) by (simp_all add: env_paths_def)
  have i: "i \<noteq> []" using assms(2) by (simp add: good_segment_def)
  have dne: "dir \<noteq> []" using dir by (simp add: abs_path_def)
  have j: "js_join ''/'' (filter (\<lambda>p. p \<noteq> []) [dir, ''snaps'', i, ''files'']) = abs_path (ds @ [''snaps'', i, ''files''])"
    using dne i abs_path_extend [of ds "[''snaps'', i, ''files'']"] dir by simp
  have "path_join [dir, ''snaps'', i, ''files''] = path_normalize (abs_path (ds @ [''snaps'', i, ''files'']))"
    unfolding path_join_def j ..
  also have "\<dots> = abs_path (ds @ [''snaps'', i, ''files''])"
  proof -
    have "\<not> suffix ''/'' (abs_path (ds @ [''snaps'', i, ''files'']))"
    proof -
      have "abs_path (ds @ [''snaps'', i, ''files'']) = abs_path (ds @ [''snaps'', i]) @ ''/files''"
        using abs_snoc [of "ds @ [''snaps'', i]" "''files''"] by simp
      then show ?thesis by (simp add: suffix_def)
    qed
    then show ?thesis using path_segments_abs [OF good] by (simp add: path_normalize_def abs_path_def)
  qed
  finally show ?thesis using good by (simp add: env_paths_def)
qed

lemma resolve_snapshot_canonical:
  assumes "env_paths ds dir" "good_segment i" "canonical p"
  shows "resolveSnapshotFilePath dir i p = Inr p"
  using within_below [OF snapshot_base [OF assms(1,2)] assms(3)] relative_below [OF snapshot_base [OF assms(1,2)] assms(3)]
  by (simp add: resolveSnapshotFilePath_def Let_def)

section \<open>Trees\<close>

lemma in_ancestors: "a \<in> set (ancestors p) \<longleftrightarrow> prefix (a @ ''/'') p"
proof
  assume "a \<in> set (ancestors p)"
  then obtain i where i: "i < length p" "p ! i = CHR ''/''" "a = take i p" by (auto simp: ancestors_def)
  have "p = take i p @ p ! i # drop (Suc i) p" using id_take_nth_drop [OF i(1)] .
  then show "prefix (a @ ''/'') p" using i(2,3) by (metis append.assoc append_Cons append_Nil prefixI)
next
  assume "prefix (a @ ''/'') p"
  then obtain r where "p = a @ CHR ''/'' # r" by (auto simp: prefix_def)
  then show "a \<in> set (ancestors p)" by (auto simp: ancestors_def intro!: image_eqI [where x = "length a"])
qed

lemma ancestors_trans: "b \<in> set (ancestors a) \<Longrightarrow> a \<in> set (ancestors p) \<Longrightarrow> b \<in> set (ancestors p)"
  unfolding in_ancestors using prefix_order.trans prefixI append_prefixD by metis

lemma ancestor_shorter: "a \<in> set (ancestors p) \<Longrightarrow> length a < length p"
  unfolding in_ancestors by (auto simp: prefix_def)

lemma ancestors_sorted: "sorted_wrt (\<lambda>a b. length a < length b) (ancestors p)"
proof -
  have "sorted_wrt (\<lambda>i j. i < j \<and> j < length p) (filter (\<lambda>i. p ! i = CHR ''/'') [0..<length p])"
    by (rule sorted_wrt_filter) (auto simp: sorted_wrt_iff_nth_less)
  then show ?thesis unfolding ancestors_def sorted_wrt_map
    by (rule sorted_wrt_mono_rel [rotated]) (auto simp: min_def)
qed

definition flat :: "string set \<Rightarrow> bool" where
  "flat U = ((\<forall>p \<in> U. canonical p) \<and> (\<forall>p \<in> U. \<forall>q \<in> U. p \<notin> set (ancestors q)))"

text \<open>The files of the tree lie in \<open>U\<close>, its directories and links do not, and no link stands where a path of
  \<open>U\<close> has a directory.\<close>

definition node_ok :: "string set \<Rightarrow> string \<Rightarrow> node \<Rightarrow> bool" where
  "node_ok U p n =
     (case n of
        ND_file c m md \<Rightarrow> p \<in> U
      | ND_dir \<Rightarrow> p \<notin> U
      | ND_link l \<Rightarrow> p \<notin> U \<and> (\<forall>q \<in> U. p \<notin> set (ancestors q)))"

definition tree_ok :: "string set \<Rightarrow> tree \<Rightarrow> bool" where
  "tree_ok U t =
     (distinct (map fst t) \<and>
      (\<forall>p n. map_of t p = Some n \<longrightarrow> node_ok U p n \<and> (\<forall>a \<in> set (ancestors p). map_of t a = Some ND_dir)))"

definition file_at :: "tree \<Rightarrow> string \<Rightarrow> (string \<times> int \<times> nat) option" where
  "file_at t p = (case map_of t p of Some (ND_file c m md) \<Rightarrow> Some (c, m, md) | _ \<Rightarrow> None)"

lemma tree_okD:
  assumes "tree_ok U t" "map_of t p = Some n"
  shows "node_ok U p n" "a \<in> set (ancestors p) \<Longrightarrow> map_of t a = Some ND_dir"
  using assms by (auto simp: tree_ok_def)

lemma entry_in_flat:
  assumes "tree_ok U t" "p \<in> U" "map_of t p = Some n"
  obtains c m md where "n = ND_file c m md"
  using tree_okD(1) [OF assms(1,3)] assms(2) by (cases n) (auto simp: node_ok_def)

lemma file_at_map: "tree_ok U t \<Longrightarrow> p \<in> U \<Longrightarrow> file_at t p = None \<longleftrightarrow> map_of t p = None"
  using entry_in_flat [of U t p] by (auto simp: file_at_def split: option.splits node.splits)

lemma file_at_flat: "tree_ok U t \<Longrightarrow> file_at t p = Some x \<Longrightarrow> p \<in> U"
  using tree_okD(1) [of U t p] by (auto simp: file_at_def node_ok_def split: option.splits node.splits)

lemma not_blocked:
  assumes "flat U" "tree_ok U t" "p \<in> U" "a \<in> set (ancestors p)"
  shows "\<not> blocks_path t a" "map_of t a = None \<or> map_of t a = Some ND_dir" "a \<notin> U"
proof -
  show "a \<notin> U" using assms(1,3,4) by (auto simp: flat_def)
  then show "map_of t a = None \<or> map_of t a = Some ND_dir"
    using tree_okD(1) [OF assms(2), of a] assms(3,4) by (cases "map_of t a") (auto simp: node_ok_def split: node.splits)
  then show "\<not> blocks_path t a" by (auto simp: blocks_path_def)
qed

lemma lstat_flat:
  assumes "flat U" "tree_ok U t" "p \<in> U"
  shows "lstat t p = (case file_at t p of None \<Rightarrow> LK_missing | Some (c, m, md) \<Rightarrow> LK_node (ND_file c m md))"
proof -
  have "canonical p" using assms by (auto simp: flat_def)
  then have "p \<noteq> ''.''" by (rule canonical_not_dot)
  moreover have "\<not> list_ex (blocks_path t) (ancestors p)" using not_blocked(1) [OF assms] by (auto simp: list_ex_iff)
  ultimately show ?thesis
    using entry_in_flat [OF assms(2,3)] by (auto simp: lstat_def file_at_def split: option.splits node.splits)
qed

lemma map_of_rm:
  assumes "flat U" "tree_ok U t" "p \<in> U"
  shows "map_of (rm_tree p t) = (map_of t)(p := None)"
proof
  fix q
  have "p \<noteq> ''.''" using assms canonical_not_dot by (auto simp: flat_def)
  then have rm: "rm_tree p t = filter (\<lambda>e. \<not> path_within (fst e) p) t" by (simp add: rm_tree_def)
  have f: "map_of (filter (\<lambda>e. P (fst e)) t) q = (if P q then map_of t q else None)" for P :: "string \<Rightarrow> bool"
    by (induction t) auto
  have "map_of t q = None" if "path_within q p" "q \<noteq> p"
  proof (rule ccontr)
    assume "map_of t q \<noteq> None"
    moreover have "p \<in> set (ancestors q)" using that by (simp add: path_within_def in_ancestors)
    ultimately have "map_of t p = Some ND_dir" using tree_okD(2) [OF assms(2)] by auto
    then show False using tree_okD(1) [OF assms(2)] assms(3) by (force simp: node_ok_def)
  qed
  moreover have "map_of (rm_tree p t) q = (if path_within q p then None else map_of t q)"
    unfolding rm using f [of "\<lambda>x. \<not> path_within x p"] by simp
  ultimately show "map_of (rm_tree p t) q = ((map_of t)(p := None)) q"
    by (auto simp: path_within_def)
qed

lemma rm_tree_ok:
  assumes "flat U" "tree_ok U t" "p \<in> U"
  shows "tree_ok U (rm_tree p t)" "file_at (rm_tree p t) = (file_at t)(p := None)"
proof -
  note m = map_of_rm [OF assms]
  have "distinct (map fst (rm_tree p t))"
    using assms(2) by (simp add: rm_tree_def tree_ok_def distinct_map_filter)
  moreover have "map_of (rm_tree p t) a = Some ND_dir" if "map_of (rm_tree p t) q = Some n" "a \<in> set (ancestors q)" for q n a
  proof -
    have "map_of t a = Some ND_dir" using that m tree_okD(2) [OF assms(2), of q n a] by (auto split: if_splits)
    moreover from this have "a \<noteq> p" using tree_okD(1) [OF assms(2)] assms(3) by (force simp: node_ok_def)
    ultimately show ?thesis using m by simp
  qed
  ultimately show "tree_ok U (rm_tree p t)"
    using tree_okD(1) [OF assms(2)] m by (auto simp: tree_ok_def split: if_splits)
  show "file_at (rm_tree p t) = (file_at t)(p := None)"
    by (auto simp: file_at_def m fun_eq_iff)
qed

lemma make_dirs_ok:
  assumes "tree_ok U t" "\<forall>a \<in> set as. a \<notin> U \<and> (\<exists>q \<in> U. a \<in> set (ancestors q))" "flat U"
    "\<forall>xs a ys. as = xs @ a # ys \<longrightarrow> (\<forall>b \<in> set (ancestors a). b \<in> set xs \<or> map_of t b = Some ND_dir)"
  shows "\<exists>t'. make_dirs as t = (None, t') \<and> tree_ok U t' \<and> file_at t' = file_at t \<and> (\<forall>a \<in> set as. map_of t' a = Some ND_dir) \<and>
    (\<forall>q. map_of t q \<noteq> None \<longrightarrow> map_of t' q = map_of t q)"
  using assms(1,2,4)
proof (induction as arbitrary: t)
  case (Cons a as)
  obtain q where q: "q \<in> U" "a \<in> set (ancestors q)" "a \<notin> U" using Cons.prems(2) by auto
  have anc: "\<forall>b \<in> set (ancestors a). map_of t b = Some ND_dir" using Cons.prems(3) [rule_format, of "[]" a as] by simp
  have rest: "\<forall>b \<in> set as. b \<notin> U \<and> (\<exists>q \<in> U. b \<in> set (ancestors q))" using Cons.prems(2) by simp
  consider "map_of t a = None" | "map_of t a = Some ND_dir"
    using not_blocked(2) [OF assms(3) Cons.prems(1) q(1,2)] by metis
  then show ?case
  proof cases
    case 1
    let ?t = "t @ [(a, ND_dir)]"
    have m: "map_of ?t = (map_of t)(a := Some ND_dir)" using 1 by (auto simp: fun_eq_iff map_add_def split: option.splits)
    have "tree_ok U ?t"
      unfolding tree_ok_def
    proof (intro conjI allI impI)
      show "distinct (map fst ?t)" using Cons.prems(1) 1 by (auto simp: tree_ok_def map_of_eq_None_iff)
      fix p n assume p: "map_of ?t p = Some n"
      then show "node_ok U p n" using tree_okD(1) [OF Cons.prems(1)] q(3) unfolding m by (auto simp: node_ok_def split: if_splits)
      show "\<forall>b \<in> set (ancestors p). map_of ?t b = Some ND_dir"
        using p tree_okD(2) [OF Cons.prems(1)] anc unfolding m by (auto split: if_splits)
    qed
    moreover have "\<forall>xs b ys. as = xs @ b # ys \<longrightarrow> (\<forall>d \<in> set (ancestors b). d \<in> set xs \<or> map_of ?t d = Some ND_dir)"
      using Cons.prems(3) unfolding m by (metis append_Cons fun_upd_apply set_ConsD)
    ultimately obtain t' where "make_dirs as ?t = (None, t')" "tree_ok U t'" "file_at t' = file_at ?t"
      "\<forall>b \<in> set as. map_of t' b = Some ND_dir" "\<forall>q. map_of ?t q \<noteq> None \<longrightarrow> map_of t' q = map_of ?t q"
      using Cons.IH rest by blast
    moreover have "file_at ?t = file_at t" using 1 unfolding file_at_def m by (auto simp: fun_eq_iff)
    ultimately show ?thesis using 1 unfolding m by (intro exI [of _ t']) auto
  next
    case 2
    have "\<forall>xs b ys. as = xs @ b # ys \<longrightarrow> (\<forall>d \<in> set (ancestors b). d \<in> set xs \<or> map_of t d = Some ND_dir)"
      using Cons.prems(3) 2 by (metis append_Cons set_ConsD)
    then obtain t' where "make_dirs as t = (None, t')" "tree_ok U t'" "file_at t' = file_at t"
      "\<forall>b \<in> set as. map_of t' b = Some ND_dir" "\<forall>q. map_of t q \<noteq> None \<longrightarrow> map_of t' q = map_of t q"
      using Cons.IH [OF Cons.prems(1) rest] by blast
    then show ?thesis using 2 by (intro exI [of _ t']) auto
  qed
qed simp

lemma update_file_ok:
  assumes "tree_ok U t" "p \<in> U" "\<forall>a \<in> set (ancestors p). map_of t a = Some ND_dir"
  shows "tree_ok U (AList.update p (ND_file c m md) t)"
    "file_at (AList.update p (ND_file c m md) t) = (file_at t)(p := Some (c, m, md))"
proof -
  let ?t = "AList.update p (ND_file c m md) t"
  have mm: "map_of ?t = (map_of t)(p := Some (ND_file c m md))" by (rule update_conv')
  have nodir: "map_of t p \<noteq> Some ND_dir" using tree_okD(1) [OF assms(1)] assms(2) by (force simp: node_ok_def)
  have noanc: "p \<notin> set (ancestors q)" if "map_of t q = Some n" for q n
    using tree_okD(2) [OF assms(1) that, of p] nodir by blast
  have "p \<notin> set (ancestors p)" using ancestor_shorter by blast
  then have "node_ok U q n \<and> (\<forall>a \<in> set (ancestors q). map_of ?t a = Some ND_dir)" if "map_of ?t q = Some n" for q n
    using that assms(2,3) noanc [of q n] tree_okD [OF assms(1), of q n] unfolding mm
    by (auto simp: node_ok_def split: if_splits)
  moreover have "distinct (map fst ?t)" using assms(1) by (simp add: tree_ok_def distinct_update)
  ultimately show "tree_ok U ?t" by (simp add: tree_ok_def)
  show "file_at ?t = (file_at t)(p := Some (c, m, md))" by (auto simp: file_at_def mm fun_eq_iff)
qed

lemma write_copy_ok:
  assumes "flat U" "tree_ok U t" "p \<in> U"
  obtains t' where "write_copy now p src t = (None, t')" "tree_ok U t'" "file_at t' = (file_at t)(p := Some (fst src, now, snd src))"
proof -
  have anc: "\<forall>a \<in> set (ancestors p). a \<notin> U \<and> (\<exists>q \<in> U. a \<in> set (ancestors q))"
    using not_blocked(3) [OF assms] assms(3) by blast
  have "b \<in> set xs" if "ancestors p = xs @ a # ys" "b \<in> set (ancestors a)" for xs a ys b
  proof -
    have "b \<in> set (ancestors p)" using ancestors_trans [OF that(2), of p] by (simp add: that(1))
    moreover have "b \<notin> set (a # ys)"
      using ancestors_sorted [of p] ancestor_shorter [OF that(2)] unfolding that(1) by (auto simp: sorted_wrt_append)
    ultimately show ?thesis using that(1) by auto
  qed
  then obtain t1 where t1: "make_dirs (ancestors p) t = (None, t1)" "tree_ok U t1" "file_at t1 = file_at t"
    "\<forall>a \<in> set (ancestors p). map_of t1 a = Some ND_dir"
    using make_dirs_ok [OF assms(2) anc assms(1)] by blast
  let ?n = "ND_file (fst src) now (snd src)"
  let ?t = "AList.update p ?n t1"
  have nodir: "map_of t1 p \<noteq> Some ND_dir" using entry_in_flat [OF t1(2) assms(3)] by fastforce
  have w: "write_copy now p src t = (None, ?t)"
    using nodir by (auto simp: write_copy_def t1(1) split: option.splits node.splits)
  note u = update_file_ok [OF t1(2) assms(3) t1(4), of "fst src" now "snd src"]
  show ?thesis using that [OF w u(1)] u(2) t1(3) by simp
qed

lemma chmod_ok:
  assumes "tree_ok U t" "file_at t p = Some (c, m, d)"
  shows "tree_ok U (chmod p md t)" "file_at (chmod p md t) = (file_at t)(p := Some (c, m, md))"
proof -
  have p: "map_of t p = Some (ND_file c m d)" using assms(2) by (auto simp: file_at_def split: option.splits node.splits)
  have ch: "chmod p md t = AList.update p (ND_file c m md) t" using p by (simp add: chmod_def)
  have "\<forall>a \<in> set (ancestors p). map_of t a = Some ND_dir" using tree_okD(2) [OF assms(1) p] by blast
  from update_file_ok [OF assms(1) file_at_flat [OF assms] this, of c m md]
  show "tree_ok U (chmod p md t)" "file_at (chmod p md t) = (file_at t)(p := Some (c, m, md))" unfolding ch by simp_all
qed

end
