(* ===== verification/Workspace_Restore.thy ===== *)
theory Workspace_Restore
  imports Workspace_Paths Workspace_Maintenance
begin

text \<open>
  What the loops of a restore do to the files of a workspace, what the walk sees, and what
  layering the chain of snapshots yields: the newest entry for each path. \<open>U\<close> is the set of
  paths that hold files; \<open>ig\<close> the ignore patterns.
\<close>

definition env_ok :: "string set \<Rightarrow> wi_env \<Rightarrow> bool" where
  "env_ok U env =
     ((\<exists>us. env_paths us (we_root env)) \<and> (\<exists>ds. env_paths ds (we_snapshot_dir env)) \<and>
      flat U \<and> ignore_file \<in> U \<and> inj (we_sha256 env))"

lemma env_ok_flat: "env_ok U env \<Longrightarrow> flat U" "env_ok U env \<Longrightarrow> inj (we_sha256 env)" "env_ok U env \<Longrightarrow> ignore_file \<in> U"
  by (simp_all add: env_ok_def)

lemma env_ok_resolve:
  assumes "env_ok U env" "p \<in> U"
  shows "resolveWorkspaceRelativePath (we_root env) p = Inr p"
    "good_segment i \<Longrightarrow> resolveSnapshotFilePath (we_snapshot_dir env) i p = Inr p"
  using assms resolve_workspace_canonical [of _ "we_root env" p] resolve_snapshot_canonical [of _ "we_snapshot_dir env" i p]
  by (auto simp: env_ok_def flat_def)

section \<open>The walk\<close>

definition ignored :: "string list \<Rightarrow> string \<Rightarrow> bool" where
  "ignored ig p = (matchesIgnorePattern p ig \<or> list_ex (\<lambda>a. matchesIgnorePattern a ig) (ancestors p))"

text \<open>Content and mode of the files that are not ignored: what a snapshot is about.\<close>

definition tracked_view :: "string list \<Rightarrow> tree \<Rightarrow> string \<Rightarrow> (string \<times> nat) option" where
  "tracked_view ig t p =
     (if ignored ig p then None else map_option (\<lambda>f. (fst f, snd (snd f))) (file_at t p))"

lemma entered_iff:
  assumes "tree_ok U t" "map_of t p = Some n"
  shows "entered t ig p \<and> \<not> matchesIgnorePattern p ig \<longleftrightarrow> \<not> ignored ig p"
  using tree_okD(2) [OF assms] by (auto simp: entered_def ignored_def list_all_iff list_ex_iff)

lemma walk_paths: "map fe_path (concat (map (walk_entry t ig) xs)) = map fst (filter (\<lambda>x. walk_entry t ig x \<noteq> []) xs)"
proof (induction xs)
  case (Cons x xs)
  obtain p n where "x = (p, n)" by (cases x)
  with Cons show ?case by (cases n) auto
qed simp

lemma walk_distinct: "tree_ok U t \<Longrightarrow> distinct (map fe_path (walkWorkspace t ig))"
  by (simp add: walkWorkspace_def walk_paths tree_ok_def distinct_map_filter)

lemma walk_mem:
  assumes "tree_ok U t"
  shows "e \<in> set (walkWorkspace t ig) \<longleftrightarrow>
    (\<exists>c. file_at t (fe_path e) = Some (c, fe_mtime e, fe_mode e) \<and> fe_size e = length c \<and> \<not> ignored ig (fe_path e))"
proof
  assume "e \<in> set (walkWorkspace t ig)"
  then obtain p n where pn: "(p, n) \<in> set t" "e \<in> set (walk_entry t ig (p, n))" by (auto simp: walkWorkspace_def)
  then obtain c m md where n: "n = ND_file c m md" by (cases n) auto
  have "map_of t p = Some n" using pn(1) assms by (simp add: tree_ok_def)
  then show "\<exists>c. file_at t (fe_path e) = Some (c, fe_mtime e, fe_mode e) \<and> fe_size e = length c \<and> \<not> ignored ig (fe_path e)"
    using pn(2) n entered_iff [OF assms] by (auto simp: file_at_def split: if_splits)
next
  assume "\<exists>c. file_at t (fe_path e) = Some (c, fe_mtime e, fe_mode e) \<and> fe_size e = length c \<and> \<not> ignored ig (fe_path e)"
  then obtain c where c: "map_of t (fe_path e) = Some (ND_file c (fe_mtime e) (fe_mode e))" "fe_size e = length c"
    "\<not> ignored ig (fe_path e)" by (auto simp: file_at_def split: option.splits node.splits)
  then have "(fe_path e, ND_file c (fe_mtime e) (fe_mode e)) \<in> set t" by (auto dest: map_of_SomeD)
  moreover have "e \<in> set (walk_entry t ig (fe_path e, ND_file c (fe_mtime e) (fe_mode e)))"
    using entered_iff [OF assms c(1)] c(2,3) by simp
  ultimately show "e \<in> set (walkWorkspace t ig)" unfolding walkWorkspace_def by force
qed

lemma walk_path_mem:
  assumes "tree_ok U t"
  shows "p \<in> set (map fe_path (walkWorkspace t ig)) \<longleftrightarrow> tracked_view ig t p \<noteq> None"
proof
  assume "tracked_view ig t p \<noteq> None"
  then obtain c m md where "file_at t p = Some (c, m, md)" "\<not> ignored ig p"
    by (auto simp: tracked_view_def split: if_splits)
  then have "\<lparr>fe_path = p, fe_mtime = m, fe_size = length c, fe_mode = md\<rparr> \<in> set (walkWorkspace t ig)"
    by (simp add: walk_mem [OF assms])
  then show "p \<in> set (map fe_path (walkWorkspace t ig))" by force
qed (auto simp: walk_mem [OF assms] tracked_view_def)

section \<open>The loops of a restore\<close>

lemma remove_flat:
  assumes "env_ok U env" "tree_ok U t" "p \<in> U"
  obtains t' b where "removeWorkspacePathIfSafe (we_root env) p t = (Inr b, t')" "tree_ok U t'" "file_at t' = (file_at t)(p := None)"
proof (cases "file_at t p")
  case None
  then have "removeWorkspacePathIfSafe (we_root env) p t = (Inr False, t)"
    using env_ok_resolve [OF assms(1,3)] lstat_flat [OF env_ok_flat(1) [OF assms(1)] assms(2,3)]
    by (simp add: removeWorkspacePathIfSafe_def)
  then show ?thesis using that [of False t] assms(2) None by (simp add: fun_upd_idem)
next
  case (Some f)
  obtain c m md where "f = (c, m, md)" by (cases f)
  then have "removeWorkspacePathIfSafe (we_root env) p t = (Inr True, rm_tree p t)"
    using Some env_ok_resolve [OF assms(1,3)] lstat_flat [OF env_ok_flat(1) [OF assms(1)] assms(2,3)]
    by (simp add: removeWorkspacePathIfSafe_def)
  then show ?thesis using that rm_tree_ok [OF env_ok_flat(1) [OF assms(1)] assms(2,3)] by blast
qed

lemma remove_all:
  assumes "env_ok U env" "tree_ok U t" "set ps \<subseteq> U"
  shows "\<exists>l t'. each_step (remove_one env) ps t = (Inr l, t') \<and> tree_ok U t' \<and>
    (\<forall>p. file_at t' p = (if p \<in> set ps then None else file_at t p))"
  using assms(2,3)
proof (induction ps arbitrary: t)
  case (Cons p ps)
  have p: "p \<in> U" using Cons.prems(2) by simp
  obtain t1 b where t1: "removeWorkspacePathIfSafe (we_root env) p t = (Inr b, t1)" "tree_ok U t1"
    "file_at t1 = (file_at t)(p := None)" by (rule remove_flat [OF assms(1) Cons.prems(1) p])
  obtain l t' where "each_step (remove_one env) ps t1 = (Inr l, t')" "tree_ok U t'"
    "\<forall>q. file_at t' q = (if q \<in> set ps then None else file_at t1 q)"
    using Cons.IH [OF t1(2)] Cons.prems(2) by auto
  moreover obtain l0 where "remove_one env p t = (Inr l0, t1)" using t1(1) by (simp add: remove_one_def)
  ultimately show ?case using t1 by auto
qed simp

definition restored_file ::
  "int \<Rightarrow> ((string \<times> string) \<times> (string \<times> nat)) list \<Rightarrow> (string \<times> restore_entry) \<Rightarrow> (string \<times> int \<times> nat) option \<Rightarrow> (string \<times> int \<times> nat) option" where
  "restored_file now blobs pe old =
     (if re_deleted (snd pe) then None
      else case map_of blobs (re_snap (snd pe), fst pe) of None \<Rightarrow> old | Some b \<Rightarrow> Some (fst b, now, re_mode (snd pe)))"

lemma restore_one_flat:
  assumes "env_ok U env" "tree_ok U t" "p \<in> U" "\<not> re_deleted e \<longrightarrow> good_segment (re_snap e)"
  obtains l t' where "restore_one env now blobs (p, e) t = (Inr l, t')" "tree_ok U t'"
    "file_at t' = (file_at t)(p := restored_file now blobs (p, e) (file_at t p))"
proof -
  note fl = env_ok_flat(1) [OF assms(1)]
  have safe: "assertWorkspaceRestoreDestinationSafe (we_root env) p t = Inr p"
    using env_ok_resolve(1) [OF assms(1,3)] lstat_flat [OF fl assms(2,3)]
    by (auto simp: assertWorkspaceRestoreDestinationSafe_def split: option.splits)
  show ?thesis
  proof (cases "re_deleted e")
    case True
    obtain t' b where "removeWorkspacePathIfSafe (we_root env) p t = (Inr b, t')" "tree_ok U t'" "file_at t' = (file_at t)(p := None)"
      using remove_flat [OF assms(1-3)] .
    with that safe True show ?thesis by (simp add: restore_one_def restored_file_def)
  next
    case False
    then have key: "resolveSnapshotFilePath (we_snapshot_dir env) (re_snap e) p = Inr p"
      using env_ok_resolve(2) [OF assms(1,3)] assms(4) by blast
    show ?thesis
    proof (cases "map_of blobs (re_snap e, p)")
      case None
      with that [of "[]" t] safe False key assms(2) show ?thesis by (simp add: restore_one_def restored_file_def)
    next
      case (Some b)
      obtain t1 where t1: "write_copy now p b t = (None, t1)" "tree_ok U t1" "file_at t1 = (file_at t)(p := Some (fst b, now, snd b))"
        using write_copy_ok [OF fl assms(2,3)] .
      have "file_at t1 p = Some (fst b, now, snd b)" using t1(3) by simp
      note c = chmod_ok [OF t1(2) this, of "re_mode e"]
      have "restore_one env now blobs (p, e) t = (Inr [(p, RA_restored)], chmod p (re_mode e) t1)"
        using safe False key Some t1(1) by (simp add: restore_one_def)
      from that [OF this c(1)] c(2) t1(3) Some False show ?thesis by (simp add: restored_file_def)
    qed
  qed
qed

lemma restore_all:
  assumes "env_ok U env" "tree_ok U t" "distinct (map fst rset)"
    "\<forall>pe \<in> set rset. fst pe \<in> U \<and> (\<not> re_deleted (snd pe) \<longrightarrow> good_segment (re_snap (snd pe)))"
  shows "\<exists>l t'. each_step (restore_one env now blobs) rset t = (Inr l, t') \<and> tree_ok U t' \<and>
    (\<forall>p. file_at t' p = (case map_of rset p of None \<Rightarrow> file_at t p | Some e \<Rightarrow> restored_file now blobs (p, e) (file_at t p)))"
  using assms(2-4)
proof (induction rset arbitrary: t)
  case (Cons pe rset)
  obtain p e where pe: "pe = (p, e)" by (cases pe)
  have p: "p \<in> U" "\<not> re_deleted e \<longrightarrow> good_segment (re_snap e)" using Cons.prems(3) pe by auto
  obtain l t1 where t1: "restore_one env now blobs (p, e) t = (Inr l, t1)" "tree_ok U t1"
    "file_at t1 = (file_at t)(p := restored_file now blobs (p, e) (file_at t p))"
    by (rule restore_one_flat [OF assms(1) Cons.prems(1) p])
  obtain l' t' where "each_step (restore_one env now blobs) rset t1 = (Inr l', t')" "tree_ok U t'"
    "\<forall>q. file_at t' q = (case map_of rset q of None \<Rightarrow> file_at t1 q | Some e \<Rightarrow> restored_file now blobs (q, e) (file_at t1 q))"
    using Cons.IH [OF t1(2)] Cons.prems(2,3) by auto
  moreover have "map_of rset p = None" using Cons.prems(2) pe by (simp add: map_of_eq_None_iff)
  ultimately show ?case using t1 pe by (auto split: option.splits)
qed simp

section \<open>Layering\<close>

definition entry_of :: "string \<Rightarrow> dirty_file \<Rightarrow> restore_entry" where
  "entry_of i f = \<lparr>re_deleted = (df_change f = CT_deleted), re_snap = i, re_mode = df_mode f, re_hash = df_hash f\<rparr>"

definition file_in :: "wi \<Rightarrow> string \<Rightarrow> string \<Rightarrow> dirty_file option" where
  "file_in s i p = find (\<lambda>f. df_path f = p) (files_of i s)"

fun latest :: "wi \<Rightarrow> string list \<Rightarrow> string \<Rightarrow> restore_entry option" where
  "latest s [] p = None"
| "latest s (i # is) p = (case file_in s i p of Some f \<Rightarrow> Some (entry_of i f) | None \<Rightarrow> latest s is p)"

fun linked :: "wi \<Rightarrow> string list \<Rightarrow> bool" where
  "linked s [] = True"
| "linked s (i # is) = ((\<exists>r. find_snap i s = Some r \<and> sn_parent r = js_head is) \<and> linked s is)"

lemma layer_file_map:
  "map_of (layer_file i f acc) p =
     (case map_of acc p of Some e \<Rightarrow> Some e | None \<Rightarrow> if df_path f = p then Some (entry_of i f) else None)"
  by (auto simp: layer_file_def entry_of_def map_add_def split: option.splits)

lemma layer_file_distinct: "distinct (map fst acc) \<Longrightarrow> distinct (map fst (layer_file i f acc))"
  by (auto simp: layer_file_def map_of_eq_None_iff)

lemma layer_files_map:
  "map_of (fold (layer_file i) fs acc) p =
     (case map_of acc p of Some e \<Rightarrow> Some e | None \<Rightarrow> map_option (entry_of i) (find (\<lambda>f. df_path f = p) fs))"
  by (induction fs arbitrary: acc) (auto simp: layer_file_map split: option.splits)

lemma layer_files_distinct: "distinct (map fst acc) \<Longrightarrow> distinct (map fst (fold (layer_file i) fs acc))"
  by (induction fs arbitrary: acc) (auto intro: layer_file_distinct)

lemma layer_chain_linked:
  "linked s (i # is) \<Longrightarrow> distinct (map fst acc) \<Longrightarrow>
     \<exists>rset. layer_chain s i acc = Some rset \<and> distinct (map fst rset) \<and>
       (\<forall>p. map_of rset p = (case map_of acc p of Some e \<Rightarrow> Some e | None \<Rightarrow> latest s (i # is) p))"
proof (induction "is" arbitrary: i acc)
  case Nil
  then show ?case
    by (auto simp: layer_chain.simps [of s i] layer_snapshot_def layer_files_map layer_files_distinct file_in_def split: option.splits)
next
  case (Cons j js)
  let ?acc = "layer_snapshot s i acc"
  have "distinct (map fst ?acc)" using Cons.prems(2) by (simp add: layer_snapshot_def layer_files_distinct)
  then obtain rset where r: "layer_chain s j ?acc = Some rset" "distinct (map fst rset)"
    "\<forall>p. map_of rset p = (case map_of ?acc p of Some e \<Rightarrow> Some e | None \<Rightarrow> latest s (j # js) p)"
    using Cons.IH Cons.prems(1) by (metis linked.simps(2))
  moreover have "layer_chain s i acc = layer_chain s j ?acc"
    using Cons.prems(1) by (subst layer_chain.simps) auto
  ultimately show ?case
    by (auto simp: layer_snapshot_def layer_files_map file_in_def split: option.splits)
qed

end
