(* ===== verification/Workspace_History.thy ===== *)
theory Workspace_History
  imports Workspace_Restore
begin

text \<open>
  The invariant of the workspace index: snapshots form one chain in the order of their baselines, each
  holds the blobs of the files it lists, and the table \<open>file_index\<close> is what the chain
  amounts to. Every operation keeps it, and none changes what an earlier snapshot shows.
\<close>

section \<open>The invariant\<close>

definition snap_ids :: "wi \<Rightarrow> string list" where
  "snap_ids s = map sn_id (wi_snaps s)"

text \<open>The ids from the newest snapshot back, and from a given one back.\<close>

definition chain :: "wi \<Rightarrow> string list" where
  "chain s = rev (snap_ids s)"

definition chain_from :: "wi \<Rightarrow> string \<Rightarrow> string list" where
  "chain_from s i = dropWhile (\<lambda>j. j \<noteq> i) (chain s)"

definition history_ok :: "wi \<Rightarrow> bool" where
  "history_ok s =
     (distinct (snap_ids s) \<and> (\<forall>i \<in> set (snap_ids s). good_segment i) \<and> linked s (chain s) \<and>
      map sn_baseline (wi_snaps s) = [1..<Suc (wi_baseline s)])"

definition files_ok :: "string set \<Rightarrow> string list \<Rightarrow> wi \<Rightarrow> bool" where
  "files_ok U ig s =
     (distinct (map (\<lambda>f. (fst f, df_path (snd f))) (wi_snap_files s)) \<and>
      (\<forall>f \<in> set (wi_snap_files s). fst f \<in> set (snap_ids s) \<and> df_path (snd f) \<in> U \<and> \<not> ignored ig (df_path (snd f))))"

definition blobs_ok :: "wi_env \<Rightarrow> wi \<Rightarrow> bool" where
  "blobs_ok env s =
     ((\<forall>f \<in> set (wi_snap_files s). df_change (snd f) \<noteq> CT_deleted \<longrightarrow>
         (\<exists>c md. map_of (wi_blobs s) (fst f, df_path (snd f)) = Some (c, md) \<and> we_sha256 env c = df_hash (snd f))) \<and>
      (\<forall>b \<in> set (wi_blobs s). fst (fst b) \<in> set (snap_ids s)) \<and>
      fst ` set (wi_manifests s) = set (snap_ids s))"

definition row_matches :: "index_row option \<Rightarrow> restore_entry option \<Rightarrow> bool" where
  "row_matches row entry =
     (case (row, entry) of
        (None, None) \<Rightarrow> True
      | (Some r, Some e) \<Rightarrow>
          re_deleted e = ir_deleted r \<and> (ir_deleted r \<or> (re_hash e = ir_hash r \<and> re_mode e = ir_mode r))
      | _ \<Rightarrow> False)"

definition index_ok :: "wi \<Rightarrow> bool" where
  "index_ok s =
     (distinct (map fst (wi_rows s)) \<and> (\<forall>p. row_matches (map_of (wi_rows s) p) (latest s (chain s) p)))"

text \<open>No time is later than \<open>k\<close>, and a file with the recorded time has the recorded content.\<close>

definition times_ok :: "wi_env \<Rightarrow> int \<Rightarrow> wi \<Rightarrow> bool" where
  "times_ok env k s =
     ((\<forall>r \<in> set (wi_rows s). ir_mtime (snd r) \<le> k) \<and>
      (\<forall>p c m md. file_at (wi_tree s) p = Some (c, m, md) \<longrightarrow> m \<le> k) \<and>
      (\<forall>p r c m md. map_of (wi_rows s) p = Some r \<and> \<not> ir_deleted r \<and> file_at (wi_tree s) p = Some (c, m, md) \<and>
         ir_mtime r = m \<longrightarrow> ir_hash r = we_sha256 env c))"

definition anchors_ok :: "string set \<Rightarrow> string list \<Rightarrow> wi \<Rightarrow> bool" where
  "anchors_ok U ig s =
     (\<forall>r \<in> set (wi_snaps s).
        (\<forall>p. sn_anchor_path r = Some p \<longrightarrow>
           p \<in> U \<and> p \<noteq> ignore_file \<and> (\<not> ignored ig p \<and> sn_anchor_exists r \<longrightarrow> latest s (chain_from s (sn_id r)) p \<noteq> None)) \<and>
        (\<forall>i. sn_anchor_source r = Some i \<longrightarrow> i \<in> set (snap_ids s)))"

definition wi_inv :: "string set \<Rightarrow> string list \<Rightarrow> wi_env \<Rightarrow> int \<Rightarrow> wi \<Rightarrow> bool" where
  "wi_inv U ig env k s =
     (tree_ok U (wi_tree s) \<and> loadIgnorePatterns env (wi_tree s) = ig \<and> history_ok s \<and> files_ok U ig s \<and>
      blobs_ok env s \<and> index_ok s \<and> times_ok env k s \<and> anchors_ok U ig s)"

lemma wi_invD:
  assumes "wi_inv U ig env k s"
  shows "tree_ok U (wi_tree s)" "loadIgnorePatterns env (wi_tree s) = ig" "history_ok s" "files_ok U ig s"
    "blobs_ok env s" "index_ok s" "times_ok env k s" "anchors_ok U ig s"
  using assms by (simp_all add: wi_inv_def)

lemma times_okD:
  assumes "times_ok env k s"
  shows "r \<in> set (wi_rows s) \<Longrightarrow> ir_mtime (snd r) \<le> k"
    "file_at (wi_tree s) p = Some (c, m, md) \<Longrightarrow> m \<le> k"
    "map_of (wi_rows s) p = Some row \<Longrightarrow> \<not> ir_deleted row \<Longrightarrow> file_at (wi_tree s) p = Some (c, ir_mtime row, md) \<Longrightarrow>
       ir_hash row = we_sha256 env c"
  using assms unfolding times_ok_def by blast+

text \<open>What a chain shows: content from the blob, mode from the entry.\<close>

definition chain_view :: "wi \<Rightarrow> string list \<Rightarrow> string \<Rightarrow> (string \<times> nat) option" where
  "chain_view s is p =
     (case latest s is p of
        None \<Rightarrow> None
      | Some e \<Rightarrow>
          (if re_deleted e then None
           else map_option (\<lambda>b. (fst b, re_mode e)) (map_of (wi_blobs s) (re_snap e, p))))"

definition snapshot_view :: "wi \<Rightarrow> string \<Rightarrow> string \<Rightarrow> (string \<times> nat) option" where
  "snapshot_view s i = chain_view s (chain_from s i)"

section \<open>Reading the tables\<close>

lemma find_distinct:
  assumes "distinct (map f xs)"
  shows "find (\<lambda>x. f x = p) xs = Some x \<longleftrightarrow> x \<in> set xs \<and> f x = p"
  using assms by (induction xs) (auto simp: image_iff)

lemma files_of_set: "set (files_of i s) = {f. (i, f) \<in> set (wi_snap_files s)}"
  unfolding files_of_def by (auto intro: image_eqI [where x = "(i, x)" for x])

lemma files_of_distinct:
  assumes "files_ok U ig s"
  shows "distinct (map df_path (files_of i s))"
proof -
  let ?fs = "filter (\<lambda>f. fst f = i) (wi_snap_files s)"
  have "distinct (map (\<lambda>f. (fst f, df_path (snd f))) ?fs)"
    using assms by (simp add: files_ok_def distinct_map_filter)
  moreover have "map (\<lambda>f. (fst f, df_path (snd f))) ?fs = map (Pair i) (map df_path (map snd ?fs))" by simp
  ultimately have d: "distinct (map df_path (map snd ?fs))" by (metis distinct_map)
  have "distinct (map snd ?fs)" "inj_on df_path (set (map snd ?fs))" using d unfolding distinct_map [of df_path] by blast+
  then show ?thesis unfolding files_of_def distinct_map [of df_path] set_sort distinct_sort by blast
qed

lemma file_in_iff:
  assumes "files_ok U ig s"
  shows "file_in s i p = Some f \<longleftrightarrow> (i, f) \<in> set (wi_snap_files s) \<and> df_path f = p"
  unfolding file_in_def find_distinct [OF files_of_distinct [OF assms]] files_of_set by simp

lemma latest_file:
  assumes "latest s is p = Some e" "files_ok U ig s"
  obtains i f where "i \<in> set is" "(i, f) \<in> set (wi_snap_files s)" "df_path f = p" "e = entry_of i f"
  using assms(1)
proof (induction "is")
  case (Cons j js)
  then show ?case
  proof (cases "file_in s j p")
    case None
    with Cons show ?thesis by auto
  next
    case (Some f)
    with Cons.prems(2) have "e = entry_of j f" by simp
    with Some Cons.prems(1) show ?thesis by (auto simp: file_in_iff [OF assms(2)])
  qed
qed simp

lemma find_snap_mem:
  assumes "distinct (snap_ids s)"
  shows "find_snap i s = Some r \<longleftrightarrow> r \<in> set (wi_snaps s) \<and> sn_id r = i"
  using assms unfolding find_snap_def snap_ids_def by (rule find_distinct)

lemma find_snap_None: "find_snap i s = None \<longleftrightarrow> i \<notin> set (snap_ids s)"
  by (auto simp: find_snap_def find_None_iff snap_ids_def)

lemma linked_append: "linked s (is @ js) \<Longrightarrow> linked s js"
  by (induction "is") simp_all

lemma chain_from_split:
  assumes "i \<in> set (snap_ids s)"
  obtains js ks where "chain s = js @ i # ks" "chain_from s i = i # ks" "i \<notin> set js"
proof -
  obtain js ks where "chain s = js @ i # ks" "i \<notin> set js"
    using split_list_first [of i "chain s"] assms by (auto simp: chain_def)
  moreover from this have "chain_from s i = i # ks"
    by (simp add: chain_from_def dropWhile_append2) (metis (mono_tags, lifting) dropWhile_append2 dropWhile.simps(2))
  ultimately show ?thesis using that by blast
qed

text \<open>The newest snapshot by baseline is the last one committed.\<close>

lemma newest_head:
  assumes "history_ok s"
  shows "map_option sn_id (js_head (listSnapshots s)) = js_head (chain s)"
proof (cases "wi_snaps s" rule: rev_cases)
  case Nil
  then show ?thesis by (simp add: listSnapshots_def chain_def snap_ids_def)
next
  case (snoc rs r)
  have base: "map sn_baseline rs @ [sn_baseline r] = [1..<Suc (wi_baseline s)]"
    using assms snoc by (simp add: history_ok_def)
  then have n: "1 \<le> wi_baseline s" by (cases "wi_baseline s") simp_all
  then have "[1..<Suc (wi_baseline s)] = [1..<wi_baseline s] @ [wi_baseline s]" by simp
  with base have b: "sn_baseline r = wi_baseline s" "map sn_baseline rs = [1..<wi_baseline s]" by simp_all
  then have less: "sn_baseline q < wi_baseline s" if "q \<in> set rs" for q
    using that by (metis atLeastLessThan_iff image_eqI list.set_map set_upt)
  obtain h where h: "js_head (listSnapshots s) = Some h"
    using snoc by (cases "js_head (listSnapshots s)") (simp_all add: listSnapshots_def)
  have mem: "h \<in> set (wi_snaps s)" using js_head_in [OF h] by (simp add: listSnapshots_def)
  have "newer_snapshot h r \<le> 0"
    using snap_order.lex.head_minimal [of "wi_snaps s" h r] h snoc by (simp add: listSnapshots_def newer_snapshot_def)
  then have "sn_baseline r \<le> sn_baseline h"
    unfolding newer_snapshot_def snap_order.then_le_iff by (auto simp: cmp_by_def)
  with mem less b snoc have "h = r" by force
  with h snoc show ?thesis by (simp add: chain_def snap_ids_def)
qed

section \<open>The restoration set\<close>

definition anchor_entry :: "snap_row \<Rightarrow> restore_entry" where
  "anchor_entry r =
     \<lparr>re_deleted = (\<not> sn_anchor_exists r),
      re_snap = (case normalizeAnchorSourceSnapId r of None \<Rightarrow> sn_id r | Some q \<Rightarrow> q),
      re_mode = (case sn_anchor_mode r of None \<Rightarrow> 0 | Some m \<Rightarrow> m),
      re_hash = (case sn_anchor_hash r of None \<Rightarrow> [] | Some h \<Rightarrow> h)\<rparr>"

definition target_entry :: "wi \<Rightarrow> snap_row \<Rightarrow> string \<Rightarrow> restore_entry option" where
  "target_entry s r p =
     (case latest s (chain_from s (sn_id r)) p of
        Some e \<Rightarrow> Some e
      | None \<Rightarrow> if sn_anchor_path r = Some p then Some (anchor_entry r) else None)"

lemma canonical_U: "env_ok U env \<Longrightarrow> p \<in> U \<Longrightarrow> canonical p"
  by (simp add: env_ok_def flat_def)

lemma good_source:
  assumes "wi_inv U ig env k s" "r \<in> set (wi_snaps s)"
  shows "good_segment (re_snap (anchor_entry r))"
proof -
  have "good_segment (sn_id r)" using wi_invD(3) [OF assms(1)] assms(2) by (simp add: history_ok_def snap_ids_def)
  moreover have "good_segment q" if "sn_anchor_source r = Some q" for q
    using wi_invD(3,8) [OF assms(1)] assms(2) that by (auto simp: history_ok_def anchors_ok_def)
  ultimately show ?thesis by (auto simp: anchor_entry_def normalizeAnchorSourceSnapId_def split: option.splits)
qed

lemma restoration_set:
  assumes "env_ok U env" "wi_inv U ig env k s" "find_snap i s = Some r"
  obtains rset where "buildRestorationSet s i = Some rset" "distinct (map fst rset)" "map_of rset = target_entry s r"
    "\<forall>pe \<in> set rset. fst pe \<in> U \<and> (\<not> re_deleted (snd pe) \<longrightarrow> good_segment (re_snap (snd pe)))"
proof -
  note h = wi_invD(3) [OF assms(2)]
  have r: "r \<in> set (wi_snaps s)" "sn_id r = i" "i \<in> set (snap_ids s)"
    using assms(3) find_snap_mem [of s i r] h by (auto simp: history_ok_def snap_ids_def)
  obtain js ks where ch: "chain s = js @ i # ks" "chain_from s i = i # ks" by (rule chain_from_split [OF r(3)])
  have "linked s (i # ks)" using h linked_append [of s js "i # ks"] ch(1) by (simp add: history_ok_def)
  then obtain acc where acc: "layer_chain s i [] = Some acc" "distinct (map fst acc)"
    "\<forall>p. map_of acc p = latest s (i # ks) p" using layer_chain_linked [of s i ks "[]"] by auto
  let ?rset = "layer_anchor (find_snap i s) i acc"
  have anchor: "p \<in> U \<and> p \<noteq> []" if "sn_anchor_path r = Some p" for p
    using wi_invD(8) [OF assms(2)] r(1) that canonical_ne canonical_U [OF assms(1)] by (auto simp: anchors_ok_def)
  have m: "map_of ?rset = target_entry s r"
    using acc(3) ch(2) anchor
    by (auto simp: fun_eq_iff target_entry_def layer_anchor_def assms(3) anchor_entry_def r(2) map_add_def split: option.splits)
  have d: "distinct (map fst ?rset)"
    using acc(2) by (auto simp: layer_anchor_def map_of_eq_None_iff split: option.splits)
  have "fst pe \<in> U \<and> (\<not> re_deleted (snd pe) \<longrightarrow> good_segment (re_snap (snd pe)))" if "pe \<in> set ?rset" for pe
  proof -
    have "target_entry s r (fst pe) = Some (snd pe)" using that d m map_of_is_SomeI [of ?rset "fst pe" "snd pe"] by simp
    then consider "latest s (chain_from s i) (fst pe) = Some (snd pe)" | "sn_anchor_path r = Some (fst pe)" "snd pe = anchor_entry r"
      by (auto simp: target_entry_def r(2) split: option.splits if_splits)
    then show ?thesis
    proof cases
      case 1
      then obtain j f where "(j, f) \<in> set (wi_snap_files s)" "df_path f = fst pe" "snd pe = entry_of j f"
        using latest_file [OF _ wi_invD(4) [OF assms(2)]] by metis
      moreover from this have "j \<in> set (snap_ids s)" using wi_invD(4) [OF assms(2)] by (auto simp: files_ok_def)
      ultimately show ?thesis using wi_invD(4) [OF assms(2)] h by (auto simp: files_ok_def history_ok_def entry_of_def)
    next
      case 2
      then show ?thesis using anchor good_source [OF assms(2) r(1)] by simp
    qed
  qed
  moreover have "buildRestorationSet s i = Some ?rset" using acc(1) by (simp add: buildRestorationSet_def)
  ultimately show ?thesis using that d m by blast
qed

section \<open>The files after a restore\<close>

lemma blob_of_entry:
  assumes "wi_inv U ig env k s" "latest s is p = Some e" "\<not> re_deleted e"
  obtains c md where "map_of (wi_blobs s) (re_snap e, p) = Some (c, md)" "we_sha256 env c = re_hash e"
proof -
  obtain j f where "(j, f) \<in> set (wi_snap_files s)" "df_path f = p" "e = entry_of j f"
    by (rule latest_file [OF assms(2) wi_invD(4) [OF assms(1)]])
  with assms(3) that wi_invD(5) [OF assms(1)] show ?thesis by (fastforce simp: blobs_ok_def entry_of_def)
qed

lemma entry_tracked:
  assumes "wi_inv U ig env k s" "latest s is p = Some e"
  shows "p \<in> U" "\<not> ignored ig p"
proof -
  obtain j f where "(j, f) \<in> set (wi_snap_files s)" "df_path f = p"
    by (rule latest_file [OF assms(2) wi_invD(4) [OF assms(1)]])
  then show "p \<in> U" "\<not> ignored ig p" using wi_invD(4) [OF assms(1)] by (auto simp: files_ok_def)
qed

lemma index_row_matches: "wi_inv U ig env k s \<Longrightarrow> row_matches (map_of (wi_rows s) p) (latest s (chain s) p)"
  using wi_invD(6) [of U ig env k s] by (simp add: index_ok_def)

lemma row_entry:
  assumes "wi_inv U ig env k s" "map_of (wi_rows s) p = Some r"
  shows "\<exists>e. latest s (chain s) p = Some e"
  using index_row_matches [OF assms(1), of p] assms(2) by (cases "latest s (chain s) p") (simp_all add: row_matches_def)

lemma active_tracked:
  assumes "wi_inv U ig env k s" "p \<in> set (map fst (active_rows s))"
  shows "p \<in> U" "\<not> ignored ig p" "\<exists>r. map_of (wi_rows s) p = Some r \<and> \<not> ir_deleted r"
proof -
  obtain r where r: "(p, r) \<in> set (wi_rows s)" "\<not> ir_deleted r" using assms(2) by (auto simp: active_rows_def)
  then have "map_of (wi_rows s) p = Some r" using wi_invD(6) [OF assms(1)] by (simp add: index_ok_def)
  then show "\<exists>r. map_of (wi_rows s) p = Some r \<and> \<not> ir_deleted r" using r(2) by blast
  then show "p \<in> U" "\<not> ignored ig p" using row_entry [OF assms(1)] entry_tracked [OF assms(1)] by blast+
qed

definition restored_tree :: "string set \<Rightarrow> int \<Rightarrow> wi \<Rightarrow> snap_row \<Rightarrow> (string \<Rightarrow> bool) \<Rightarrow> (string \<Rightarrow> bool) \<Rightarrow> tree \<Rightarrow> bool" where
  "restored_tree U now s r sel gone t' =
     (tree_ok U t' \<and>
      (\<forall>p. file_at t' p =
         (case (if sel p then target_entry s r p else None) of
            Some e \<Rightarrow> restored_file now (wi_blobs s) (p, e) (file_at (wi_tree s) p)
          | None \<Rightarrow> if gone p then None else file_at (wi_tree s) p)))"

lemma restore_files_effect:
  assumes "env_ok U env" "wi_inv U ig env k s" "find_snap i s = Some r" "buildRestorationSet s i = Some rset"
  shows "\<exists>l t'. restore_files env now r rset s = (Inr l, t') \<and>
    restored_tree U now s r (\<lambda>p. True) (\<lambda>p. p \<in> set (map fst (active_rows s))) t'"
proof -
  have d: "distinct (map fst rset)" and m: "map_of rset = target_entry s r" and
    ok: "\<forall>pe \<in> set rset. fst pe \<in> U \<and> (\<not> re_deleted (snd pe) \<longrightarrow> good_segment (re_snap (snd pe)))"
    using restoration_set [OF assms(1-3)] assms(4) by (metis option.inject)+
  obtain l1 t1 where t1: "each_step (restore_one env now (wi_blobs s)) rset (wi_tree s) = (Inr l1, t1)" "tree_ok U t1"
    "\<forall>p. file_at t1 p = (case map_of rset p of None \<Rightarrow> file_at (wi_tree s) p
        | Some e \<Rightarrow> restored_file now (wi_blobs s) (p, e) (file_at (wi_tree s) p))"
    using restore_all [OF assms(1) wi_invD(1) [OF assms(2)] d ok] by blast
  let ?ps = "filter (\<lambda>p. map_of rset p = None) (map fst (active_rows s))"
  have "set ?ps \<subseteq> U" using active_tracked(1) [OF assms(2)] by auto
  then obtain l2 t2 where t2: "each_step (remove_one env) ?ps t1 = (Inr l2, t2)" "tree_ok U t2"
    "\<forall>p. file_at t2 p = (if p \<in> set ?ps then None else file_at t1 p)"
    using remove_all [OF assms(1) t1(2)] by blast
  have "missing_anchor r rset = []"
    unfolding m missing_anchor_def by (auto simp: target_entry_def split: option.splits)
  then have "restore_files env now r rset s = (Inr (l1 @ l2), t2)"
    using t1(1) t2(1) by (simp add: restore_files_def then_step_def)
  moreover have "restored_tree U now s r (\<lambda>p. True) (\<lambda>p. p \<in> set (map fst (active_rows s))) t2"
    using t2(2,3) t1(3) unfolding m by (auto simp: restored_tree_def split: option.splits)
  ultimately show ?thesis by blast
qed

lemma file_content_flat:
  assumes "env_ok U env" "tree_ok U t" "p \<in> U"
  shows "file_content t p = map_option fst (file_at t p)"
  using lstat_flat [OF env_ok_flat(1) [OF assms(1)] assms(2,3)]
  by (auto simp: file_content_def split: option.splits)

lemma load_ignore_cong:
  assumes "env_ok U env" "tree_ok U t" "tree_ok U t'" "map_option fst (file_at t' ignore_file) = map_option fst (file_at t ignore_file)"
  shows "loadIgnorePatterns env t' = loadIgnorePatterns env t"
  using file_content_flat [OF assms(1,2) env_ok_flat(3) [OF assms(1)]]
    file_content_flat [OF assms(1,3) env_ok_flat(3) [OF assms(1)]] assms(4)
  by (simp add: loadIgnorePatterns_def)

lemma ignore_file_matches: "matches_pattern ignore_file ''**/.agentgit/**''"
  by code_simp

lemma ignore_file_ignored: "ignored (loadIgnorePatterns env t) ignore_file"
  using ignore_file_matches by (simp add: ignored_def matchesIgnorePattern_def loadIgnorePatterns_def DEFAULT_IGNORE_PATTERNS_def)

lemma ignore_file_untouched:
  assumes "wi_inv U ig env k s" "r \<in> set (wi_snaps s)"
  shows "target_entry s r ignore_file = None"
proof -
  have "ignored ig ignore_file" using ignore_file_ignored [of env "wi_tree s"] wi_invD(2) [OF assms(1)] by simp
  then have "latest s is ignore_file = None" for "is" using entry_tracked(2) [OF assms(1)] by (cases "latest s is ignore_file") blast+
  moreover have "sn_anchor_path r \<noteq> Some ignore_file" using wi_invD(8) [OF assms(1)] assms(2) by (auto simp: anchors_ok_def)
  ultimately show ?thesis by (simp add: target_entry_def)
qed

lemma restore_subset_effect:
  assumes "env_ok U env" "wi_inv U ig env k s" "find_snap i s = Some r" "buildRestorationSet s i = Some rset"
  shows "\<exists>l t'. restore_subset_files env now r sels rset s = (Inr l, t') \<and>
    restored_tree U now s r (\<lambda>p. pathMatchesSelectors p sels)
      (\<lambda>p. pathMatchesSelectors p sels \<and> tracked_view ig (wi_tree s) p \<noteq> None) t'"
proof -
  have d: "distinct (map fst rset)" and m: "map_of rset = target_entry s r" and
    ok: "\<forall>pe \<in> set rset. fst pe \<in> U \<and> (\<not> re_deleted (snd pe) \<longrightarrow> good_segment (re_snap (snd pe)))"
    using restoration_set [OF assms(1-3)] assms(4) by (metis option.inject)+
  have r: "r \<in> set (wi_snaps s)" using assms(3) wi_invD(3) [OF assms(2)] find_snap_mem [of s i r] by (simp add: history_ok_def)
  let ?sel = "\<lambda>p. pathMatchesSelectors p sels"
  let ?chosen = "filter (\<lambda>pe. ?sel (fst pe)) rset"
  have dc: "distinct (map fst ?chosen)" using d by (rule distinct_map_filter)
  have mc: "map_of ?chosen p = (if ?sel p then target_entry s r p else None)" for p
  proof -
    have "map_of (filter (\<lambda>pe. ?sel (fst pe)) xs) p = (if ?sel p then map_of xs p else None)" for xs :: restore_set
      by (induction xs) auto
    then show ?thesis by (simp add: m)
  qed
  have okc: "\<forall>pe \<in> set ?chosen. fst pe \<in> U \<and> (\<not> re_deleted (snd pe) \<longrightarrow> good_segment (re_snap (snd pe)))" using ok by simp
  obtain l1 t1 where t1: "each_step (restore_one env now (wi_blobs s)) ?chosen (wi_tree s) = (Inr l1, t1)" "tree_ok U t1"
    "\<forall>p. file_at t1 p = (case map_of ?chosen p of None \<Rightarrow> file_at (wi_tree s) p
        | Some e \<Rightarrow> restored_file now (wi_blobs s) (p, e) (file_at (wi_tree s) p))"
    using restore_all [OF assms(1) wi_invD(1) [OF assms(2)] dc okc] by blast
  have "file_at t1 ignore_file = file_at (wi_tree s) ignore_file"
    using t1(3) ignore_file_untouched [OF assms(2) r] mc [of ignore_file] by (simp split: if_splits)
  then have ig: "loadIgnorePatterns env t1 = ig"
    using load_ignore_cong [OF assms(1) wi_invD(1) [OF assms(2)] t1(2)] wi_invD(2) [OF assms(2)] by simp
  let ?ps = "filter (\<lambda>p. ?sel p \<and> map_of ?chosen p = None) (map fe_path (walkWorkspace t1 ig))"
  have ps: "p \<in> set ?ps \<longleftrightarrow> ?sel p \<and> map_of ?chosen p = None \<and> tracked_view ig t1 p \<noteq> None" for p
    using walk_path_mem [OF t1(2), of p ig] by auto
  have "set ?ps \<subseteq> U" using ps file_at_flat [OF t1(2)] by (fastforce simp: tracked_view_def split: if_splits)
  then obtain l2 t2 where t2: "each_step (remove_one env) ?ps t1 = (Inr l2, t2)" "tree_ok U t2"
    "\<forall>p. file_at t2 p = (if p \<in> set ?ps then None else file_at t1 p)"
    using remove_all [OF assms(1) t1(2)] by blast
  have "filter ?sel (missing_anchor r ?chosen) = []"
    unfolding missing_anchor_def mc by (auto simp: target_entry_def split: option.splits)
  then have "restore_subset_files env now r sels rset s = (Inr (l1 @ l2), t2)"
    using t1(1) t2(1) ig by (simp add: restore_subset_files_def then_step_def Let_def)
  moreover have "tracked_view ig t1 p = tracked_view ig (wi_tree s) p" if "map_of ?chosen p = None" for p
    using t1(3) that by (simp add: tracked_view_def)
  then have "restored_tree U now s r ?sel (\<lambda>p. ?sel p \<and> tracked_view ig (wi_tree s) p \<noteq> None) t2"
    using t2(2,3) t1(3) ps unfolding mc restored_tree_def by (auto split: option.splits)
  ultimately show ?thesis by blast
qed

text \<open>The files the snapshots are about, after a restore.\<close>

lemma restored_view:
  assumes "wi_inv U ig env k s" "r \<in> set (wi_snaps s)" "restored_tree U now s r sel gone t'" "\<not> ignored ig p"
  shows "tracked_view ig t' p =
    (if sel p \<and> target_entry s r p \<noteq> None then snapshot_view s (sn_id r) p
     else if gone p then None else tracked_view ig (wi_tree s) p)"
proof (cases "sel p \<and> target_entry s r p \<noteq> None")
  case True
  then obtain e where e: "sel p" "target_entry s r p = Some e" by auto
  have f: "file_at t' p = restored_file now (wi_blobs s) (p, e) (file_at (wi_tree s) p)"
    using assms(3) e by (simp add: restored_tree_def)
  show ?thesis
  proof (cases "latest s (chain_from s (sn_id r)) p")
    case None
    then have a: "sn_anchor_path r = Some p" "e = anchor_entry r" using e(2) by (auto simp: target_entry_def split: if_splits)
    then have "\<not> sn_anchor_exists r" using wi_invD(8) [OF assms(1)] assms(2,4) None by (auto simp: anchors_ok_def)
    then show ?thesis using True f a None
      by (simp add: tracked_view_def restored_file_def anchor_entry_def snapshot_view_def chain_view_def)
  next
    case (Some e')
    then have e': "e' = e" using e(2) by (simp add: target_entry_def)
    show ?thesis
    proof (cases "re_deleted e")
      case True
      then show ?thesis using e f Some e' by (simp add: tracked_view_def restored_file_def snapshot_view_def chain_view_def)
    next
      case False
      obtain c md where "map_of (wi_blobs s) (re_snap e, p) = Some (c, md)"
        using blob_of_entry [OF assms(1) Some] False e' by blast
      then show ?thesis using e f Some e' False assms(4)
        by (simp add: tracked_view_def restored_file_def snapshot_view_def chain_view_def)
    qed
  qed
next
  case False
  then have "file_at t' p = (if gone p then None else file_at (wi_tree s) p)"
    using assms(3) by (auto simp: restored_tree_def split: if_splits)
  then show ?thesis using False by (auto simp: tracked_view_def)
qed

section \<open>Replacing the tree\<close>

lemma latest_tree [simp]: "latest (s\<lparr>wi_tree := t\<rparr>) is p = latest s is p"
  by (induction "is") (simp_all add: file_in_def files_of_def split: option.splits)

lemma linked_tree [simp]: "linked (s\<lparr>wi_tree := t\<rparr>) is = linked s is"
  by (induction "is") (simp_all add: find_snap_def)

lemma chain_tree [simp]:
  "snap_ids (s\<lparr>wi_tree := t\<rparr>) = snap_ids s" "chain (s\<lparr>wi_tree := t\<rparr>) = chain s" "chain_from (s\<lparr>wi_tree := t\<rparr>) i = chain_from s i"
  by (simp_all add: snap_ids_def chain_def chain_from_def)

lemma snapshot_view_tree [simp]: "snapshot_view (s\<lparr>wi_tree := t\<rparr>) i = snapshot_view s i"
  by (simp add: snapshot_view_def chain_view_def fun_eq_iff split: option.splits)

lemma wi_inv_tree:
  assumes "wi_inv U ig env k s" "tree_ok U t" "loadIgnorePatterns env t = ig" "times_ok env k' (s\<lparr>wi_tree := t\<rparr>)"
  shows "wi_inv U ig env k' (s\<lparr>wi_tree := t\<rparr>)"
  using assms by (simp add: wi_inv_def history_ok_def files_ok_def blobs_ok_def index_ok_def anchors_ok_def)

lemma restored_inv:
  assumes "env_ok U env" "wi_inv U ig env k s" "r \<in> set (wi_snaps s)" "restored_tree U now s r sel gone t'" "k < now"
    and "\<not> gone ignore_file"
  shows "wi_inv U ig env now (s\<lparr>wi_tree := t'\<rparr>)"
proof (rule wi_inv_tree [OF assms(2)])
  show ok: "tree_ok U t'" using assms(4) by (simp add: restored_tree_def)
  have "file_at t' ignore_file = file_at (wi_tree s) ignore_file"
    using assms(4,6) ignore_file_untouched [OF assms(2,3)] by (simp add: restored_tree_def split: if_splits)
  then show "loadIgnorePatterns env t' = ig"
    using load_ignore_cong [OF assms(1) wi_invD(1) [OF assms(2)] ok] wi_invD(2) [OF assms(2)] by simp
  have cases: "file_at t' p = None \<or> file_at t' p = file_at (wi_tree s) p \<or> (\<exists>c md. file_at t' p = Some (c, now, md))" for p
    using assms(4) by (auto simp: restored_tree_def restored_file_def split: option.splits)
  note t = wi_invD(7) [OF assms(2)]
  have "m \<le> now" if "file_at t' p = Some (c, m, md)" for p c m md
    using cases [of p] that t assms(5) unfolding times_ok_def by fastforce
  moreover have "ir_hash row = we_sha256 env c"
    if "map_of (wi_rows s) p = Some row" "\<not> ir_deleted row" "file_at t' p = Some (c, m, md)" "ir_mtime row = m" for p row c m md
  proof -
    have "(p, row) \<in> set (wi_rows s)" using that(1) by (rule map_of_SomeD)
    then have "ir_mtime row \<le> k" using t by (auto simp: times_ok_def)
    then have "m \<noteq> now" using that(4) assms(5) by simp
    then have "file_at (wi_tree s) p = Some (c, m, md)" using cases [of p] that(3) by auto
    with that show ?thesis using times_okD(3) [OF t that(1,2)] by simp
  qed
  moreover have "\<forall>r \<in> set (wi_rows s). ir_mtime (snd r) \<le> now" using t assms(5) by (fastforce simp: times_ok_def)
  ultimately show "times_ok env now (s\<lparr>wi_tree := t'\<rparr>)" unfolding times_ok_def by simp blast
qed

end
