(* ===== verification/Workspace_Commit.thy ===== *)
theory Workspace_Commit
  imports Workspace_History
begin

text \<open>
  A scan finds for every path what changed since the index was last written, and committing it gives a
  snapshot that shows the files of the workspace as they are. The scan is described path
  by path by \<open>scan_change\<close>, the updates of the index by \<open>scan_row\<close>.
\<close>

section \<open>The scan, path by path\<close>

definition scan_entry :: "string list \<Rightarrow> tree \<Rightarrow> string \<Rightarrow> fs_entry option" where
  "scan_entry ig t p =
     (case file_at t p of
        None \<Rightarrow> None
      | Some (c, m, md) \<Rightarrow>
          if ignored ig p then None else Some \<lparr>fe_path = p, fe_mtime = m, fe_size = length c, fe_mode = md\<rparr>)"

definition scan_change :: "wi_env \<Rightarrow> string list \<Rightarrow> wi \<Rightarrow> string \<Rightarrow> dirty_file option" where
  "scan_change env ig s p =
     (case scan_entry ig (wi_tree s) p of
        Some e \<Rightarrow> if unchanged_entry (map_of (wi_rows s) p) e then None else js_head (entry_dirty env s e)
      | None \<Rightarrow>
          (case map_of (wi_rows s) p of
             None \<Rightarrow> None | Some r \<Rightarrow> if ir_deleted r then None else Some (deleted_file (p, r))))"

definition scan_row :: "wi_env \<Rightarrow> string list \<Rightarrow> wi \<Rightarrow> string \<Rightarrow> index_row option" where
  "scan_row env ig s p =
     (case scan_entry ig (wi_tree s) p of
        Some e \<Rightarrow> if unchanged_entry (map_of (wi_rows s) p) e then None else Some (snd (entry_update env s e))
      | None \<Rightarrow>
          (case map_of (wi_rows s) p of
             None \<Rightarrow> None | Some r \<Rightarrow> if ir_deleted r then None else Some (r\<lparr>ir_deleted := True\<rparr>)))"

lemma scan_entry_path: "scan_entry ig t p = Some e \<Longrightarrow> fe_path e = p"
  by (auto simp: scan_entry_def split: option.splits if_splits)

lemma walk_scan: "tree_ok U t \<Longrightarrow> e \<in> set (walkWorkspace t ig) \<longleftrightarrow> scan_entry ig t (fe_path e) = Some e"
  by (cases e) (auto simp: walk_mem scan_entry_def split: option.splits)

lemma scan_entry_None: "scan_entry ig t p = None \<longleftrightarrow> tracked_view ig t p = None"
  by (auto simp: scan_entry_def tracked_view_def split: option.splits)

lemma entry_dirty_path: "f \<in> set (entry_dirty env s e) \<Longrightarrow> df_path f = fe_path e \<and> df_change f \<noteq> CT_deleted"
  by (auto simp: entry_dirty_def entry_change_def Let_def split: option.splits if_splits)

lemma entry_dirty_single: "f \<in> set (entry_dirty env s e) \<longleftrightarrow> js_head (entry_dirty env s e) = Some f"
  by (auto simp: entry_dirty_def Let_def split: option.splits)

lemma entry_dirty_paths: "map df_path (concat (map (entry_dirty env s) es)) = map fe_path (filter (\<lambda>e. entry_dirty env s e \<noteq> []) es)"
  by (induction es) (auto simp: entry_dirty_def Let_def split: option.splits)

definition hashed_entries :: "string list \<Rightarrow> wi \<Rightarrow> fs_entry list" where
  "hashed_entries ig s = filter (\<lambda>e. \<not> unchanged_entry (map_of (wi_rows s) (fe_path e)) e) (walkWorkspace (wi_tree s) ig)"

definition gone_rows :: "string list \<Rightarrow> wi \<Rightarrow> (string \<times> index_row) list" where
  "gone_rows ig s = filter (\<lambda>r. fst r \<notin> set (map fe_path (walkWorkspace (wi_tree s) ig))) (active_rows s)"

lemma prepare_eq:
  assumes "wi_inv U ig env k s"
  shows "pr_files (fst (prepareScan env i now s)) = concat (map (entry_dirty env s) (hashed_entries ig s)) @ map deleted_file (gone_rows ig s)"
    "pr_updates (fst (prepareScan env i now s)) =
       map (entry_update env s) (hashed_entries ig s) @ map (\<lambda>r. (fst r, (snd r)\<lparr>ir_deleted := True\<rparr>)) (gone_rows ig s)"
    "pr_baseline (fst (prepareScan env i now s)) = wi_baseline s"
  using wi_invD(2) [OF assms] by (simp_all add: prepareScan_def Let_def hashed_entries_def gone_rows_def)

lemma hashed_iff:
  assumes "wi_inv U ig env k s"
  shows "e \<in> set (hashed_entries ig s) \<longleftrightarrow>
    scan_entry ig (wi_tree s) (fe_path e) = Some e \<and> \<not> unchanged_entry (map_of (wi_rows s) (fe_path e)) e"
  using walk_scan [OF wi_invD(1) [OF assms]] by (simp add: hashed_entries_def)

lemma gone_iff:
  assumes "wi_inv U ig env k s"
  shows "(p, r) \<in> set (gone_rows ig s) \<longleftrightarrow>
    map_of (wi_rows s) p = Some r \<and> \<not> ir_deleted r \<and> scan_entry ig (wi_tree s) p = None"
  using walk_path_mem [OF wi_invD(1) [OF assms], of p ig] wi_invD(6) [OF assms]
  by (auto simp: gone_rows_def active_rows_def scan_entry_None index_ok_def)

lemma scan_paths_disjoint:
  assumes "wi_inv U ig env k s"
  shows "distinct (map fe_path (hashed_entries ig s))" "distinct (map fst (gone_rows ig s))"
    "set (map fe_path (hashed_entries ig s)) \<inter> set (map fst (gone_rows ig s)) = {}"
proof -
  show "distinct (map fe_path (hashed_entries ig s))"
    unfolding hashed_entries_def by (intro distinct_map_filter walk_distinct [OF wi_invD(1) [OF assms]])
  show "distinct (map fst (gone_rows ig s))"
    unfolding gone_rows_def active_rows_def using wi_invD(6) [OF assms] by (intro distinct_map_filter) (simp add: index_ok_def)
  show "set (map fe_path (hashed_entries ig s)) \<inter> set (map fst (gone_rows ig s)) = {}"
    using hashed_iff [OF assms] gone_iff [OF assms] by fastforce
qed

lemma scan_files:
  assumes "wi_inv U ig env k s" "pr = fst (prepareScan env i now s)"
  shows "distinct (map df_path (pr_files pr))" "f \<in> set (pr_files pr) \<longleftrightarrow> scan_change env ig s (df_path f) = Some f"
proof -
  note d = scan_paths_disjoint [OF assms(1)]
  have paths: "map df_path (pr_files pr) =
      map fe_path (filter (\<lambda>e. entry_dirty env s e \<noteq> []) (hashed_entries ig s)) @ map fst (gone_rows ig s)"
    unfolding assms(2) prepare_eq [OF assms(1)] by (simp add: entry_dirty_paths deleted_file_def comp_def)
  show "distinct (map df_path (pr_files pr))"
    unfolding paths distinct_append using d by (auto simp: distinct_map_filter)
  show "f \<in> set (pr_files pr) \<longleftrightarrow> scan_change env ig s (df_path f) = Some f"
  proof
    assume "f \<in> set (pr_files pr)"
    then consider e where "e \<in> set (hashed_entries ig s)" "f \<in> set (entry_dirty env s e)"
      | p r where "(p, r) \<in> set (gone_rows ig s)" "f = deleted_file (p, r)"
      unfolding assms(2) prepare_eq [OF assms(1)] by auto
    then show "scan_change env ig s (df_path f) = Some f"
    proof cases
      case 1
      then show ?thesis using hashed_iff [OF assms(1), of e] entry_dirty_path [OF 1(2)] entry_dirty_single [of f env s e]
        by (simp add: scan_change_def)
    next
      case 2
      then show ?thesis using gone_iff [OF assms(1), of p r] by (simp add: scan_change_def deleted_file_def)
    qed
  next
    assume c: "scan_change env ig s (df_path f) = Some f"
    show "f \<in> set (pr_files pr)"
    proof (cases "scan_entry ig (wi_tree s) (df_path f)")
      case None
      then obtain r where "map_of (wi_rows s) (df_path f) = Some r" "\<not> ir_deleted r" "f = deleted_file (df_path f, r)"
        using c by (auto simp: scan_change_def split: option.splits if_splits)
      then have "f \<in> deleted_file ` set (gone_rows ig s)" using gone_iff [OF assms(1), of "df_path f" r] None by blast
      then show ?thesis unfolding assms(2) prepare_eq [OF assms(1)] by simp
    next
      case (Some e)
      then have e: "\<not> unchanged_entry (map_of (wi_rows s) (fe_path e)) e" "f \<in> set (entry_dirty env s e)" "fe_path e = df_path f"
        using c scan_entry_path [OF Some] by (auto simp: scan_change_def entry_dirty_single split: if_splits)
      then have "e \<in> set (hashed_entries ig s)" using hashed_iff [OF assms(1), of e] Some by simp
      then show ?thesis unfolding assms(2) prepare_eq [OF assms(1)] using e(2) by auto
    qed
  qed
qed

lemma scan_updates:
  assumes "wi_inv U ig env k s" "pr = fst (prepareScan env i now s)"
  shows "distinct (map fst (pr_updates pr))" "map_of (pr_updates pr) p = scan_row env ig s p"
proof -
  note d = scan_paths_disjoint [OF assms(1)]
  have "map fst (pr_updates pr) = map fe_path (hashed_entries ig s) @ map fst (gone_rows ig s)"
    unfolding assms(2) prepare_eq [OF assms(1)] by (simp add: entry_update_def comp_def)
  then show dist: "distinct (map fst (pr_updates pr))" using d by simp
  have "map_of (pr_updates pr) p = Some r \<longleftrightarrow> scan_row env ig s p = Some r" for r
  proof -
    have "map_of (pr_updates pr) p = Some r \<longleftrightarrow> (p, r) \<in> set (pr_updates pr)" using dist by simp
    also have "\<dots> \<longleftrightarrow> (\<exists>e \<in> set (hashed_entries ig s). fe_path e = p \<and> r = snd (entry_update env s e)) \<or>
        (\<exists>q. (p, q) \<in> set (gone_rows ig s) \<and> r = q\<lparr>ir_deleted := True\<rparr>)"
      unfolding assms(2) prepare_eq [OF assms(1)] by (force simp: entry_update_def)
    also have "\<dots> \<longleftrightarrow> scan_row env ig s p = Some r"
      unfolding Bex_def hashed_iff [OF assms(1)] gone_iff [OF assms(1)]
      by (cases "scan_entry ig (wi_tree s) p") (auto simp: scan_row_def dest: scan_entry_path split: option.splits if_splits)
    finally show ?thesis .
  qed
  then show "map_of (pr_updates pr) p = scan_row env ig s p" by (metis not_Some_eq)
qed

lemma upsert_map:
  "distinct (map fst us) \<Longrightarrow> map_of (upsert_rows us rows) p = (case map_of us p of Some u \<Rightarrow> Some u | None \<Rightarrow> map_of rows p)"
proof (induction us arbitrary: rows)
  case (Cons u us)
  have "map_of us (fst u) = None" using Cons.prems by (simp add: map_of_eq_None_iff)
  with Cons show ?case by (cases u) (auto simp: upsert_rows_def update_conv' split: option.splits)
qed (simp add: upsert_rows_def)

lemma upsert_distinct: "distinct (map fst rows) \<Longrightarrow> distinct (map fst (upsert_rows us rows))"
  by (induction us arbitrary: rows) (simp_all add: upsert_rows_def distinct_update)

section \<open>What is recorded matches what is seen\<close>

definition row_after :: "wi_env \<Rightarrow> string list \<Rightarrow> wi \<Rightarrow> string \<Rightarrow> index_row option" where
  "row_after env ig s p = (case scan_row env ig s p of Some u \<Rightarrow> Some u | None \<Rightarrow> map_of (wi_rows s) p)"

definition entry_after :: "wi_env \<Rightarrow> string list \<Rightarrow> string \<Rightarrow> wi \<Rightarrow> string \<Rightarrow> restore_entry option" where
  "entry_after env ig i s p =
     (case scan_change env ig s p of Some f \<Rightarrow> Some (entry_of i f) | None \<Rightarrow> latest s (chain s) p)"

lemma entry_hash_tree:
  assumes "env_ok U env" "tree_ok U t" "file_at t (fe_path e) = Some (c, m, md)"
  shows "entry_hash env t e = we_sha256 env c"
  using file_content_flat [OF assms(1,2) file_at_flat [OF assms(2,3)]] assms(3) by (simp add: entry_hash_def)

lemma tracked_scan:
  assumes "tracked_view ig t p = Some (c, md)"
  obtains m where "file_at t p = Some (c, m, md)" "\<not> ignored ig p"
    "scan_entry ig t p = Some \<lparr>fe_path = p, fe_mtime = m, fe_size = length c, fe_mode = md\<rparr>"
  using assms by (auto simp: tracked_view_def scan_entry_def split: if_splits)

lemma row_after_tracked:
  assumes "env_ok U env" "wi_inv U ig env k s" "tracked_view ig (wi_tree s) p = Some (c, md)"
  obtains r m where "row_after env ig s p = Some r" "\<not> ir_deleted r" "ir_hash r = we_sha256 env c" "ir_mode r = md"
    "file_at (wi_tree s) p = Some (c, m, md)" "ir_mtime r = m"
proof -
  obtain m where m: "file_at (wi_tree s) p = Some (c, m, md)"
    and e: "scan_entry ig (wi_tree s) p = Some \<lparr>fe_path = p, fe_mtime = m, fe_size = length c, fe_mode = md\<rparr>" (is "_ = Some ?e")
    by (rule tracked_scan [OF assms(3)])
  show ?thesis
  proof (cases "unchanged_entry (map_of (wi_rows s) p) ?e")
    case True
    then obtain r where r: "map_of (wi_rows s) p = Some r" "\<not> ir_deleted r" "ir_mtime r = m" "ir_mode r = md"
      by (auto simp: unchanged_entry_def split: option.splits)
    moreover have "ir_hash r = we_sha256 env c"
      using times_okD(3) [OF wi_invD(7) [OF assms(2)] r(1,2), of c md] m r(3) by simp
    moreover have "row_after env ig s p = Some r" using True e r(1) by (simp add: row_after_def scan_row_def)
    ultimately show ?thesis using that m by blast
  next
    case False
    have "entry_hash env (wi_tree s) ?e = we_sha256 env c"
      using entry_hash_tree [OF assms(1) wi_invD(1) [OF assms(2)], of ?e] m by simp
    then show ?thesis using that [of "snd (entry_update env s ?e)" m] False e m
      by (simp add: row_after_def scan_row_def entry_update_def)
  qed
qed

lemma row_after_untracked:
  assumes "tracked_view ig (wi_tree s) p = None" "row_after env ig s p = Some r"
  shows "ir_deleted r"
  using assms(2) unfolding row_after_def scan_row_def assms(1) [folded scan_entry_None]
  by (auto split: option.splits if_splits)

lemma scan_matches:
  assumes "wi_inv U ig env k s"
  shows "row_matches (row_after env ig s p) (entry_after env ig i s p)"
proof -
  note old = index_row_matches [OF assms, of p]
  show ?thesis
  proof (cases "scan_entry ig (wi_tree s) p")
    case None
    then show ?thesis using old
      by (auto simp: row_after_def entry_after_def scan_row_def scan_change_def row_matches_def entry_of_def deleted_file_def split: option.splits)
  next
    case (Some e)
    note p = scan_entry_path [OF Some]
    show ?thesis
    proof (cases "unchanged_entry (map_of (wi_rows s) p) e")
      case True
      then show ?thesis using old Some by (simp add: row_after_def entry_after_def scan_row_def scan_change_def)
    next
      case False
      then have ra: "row_after env ig s p = Some (snd (entry_update env s e))" using Some by (simp add: row_after_def scan_row_def)
      show ?thesis
      proof (cases "entry_change (entry_hash env (wi_tree s) e) (map_of (wi_rows s) p) e")
        case None
        then obtain r where "map_of (wi_rows s) p = Some r" "\<not> ir_deleted r" "ir_hash r = entry_hash env (wi_tree s) e" "ir_mode r = fe_mode e"
          by (auto simp: entry_change_def split: option.splits if_splits)
        moreover have "entry_after env ig i s p = latest s (chain s) p"
          using None Some False p by (simp add: entry_after_def scan_change_def entry_dirty_def Let_def)
        ultimately show ?thesis using old by (auto simp: ra row_matches_def entry_update_def split: option.splits)
      next
        case (Some ch)
        then have "ch \<noteq> CT_deleted" by (auto simp: entry_change_def split: option.splits if_splits)
        with Some show ?thesis using \<open>scan_entry ig (wi_tree s) p = Some e\<close> False p
          by (simp add: ra entry_after_def scan_change_def entry_dirty_def Let_def row_matches_def entry_update_def entry_of_def)
      qed
    qed
  qed
qed

lemma scan_change_file:
  assumes "env_ok U env" "wi_inv U ig env k s" "scan_change env ig s p = Some f" "df_change f \<noteq> CT_deleted"
  obtains c m where "file_at (wi_tree s) p = Some (c, m, df_mode f)" "df_hash f = we_sha256 env c" "\<not> ignored ig p" "df_path f = p" "p \<in> U"
proof (cases "scan_entry ig (wi_tree s) p")
  case None
  then show ?thesis using assms(3,4) by (auto simp: scan_change_def deleted_file_def split: option.splits if_splits)
next
  case (Some e)
  then obtain c m md where f: "file_at (wi_tree s) p = Some (c, m, md)" "\<not> ignored ig p"
    "e = \<lparr>fe_path = p, fe_mtime = m, fe_size = length c, fe_mode = md\<rparr>"
    by (auto simp: scan_entry_def split: option.splits if_splits)
  have h: "entry_hash env (wi_tree s) e = we_sha256 env c"
    using entry_hash_tree [OF assms(1) wi_invD(1) [OF assms(2)], of e] f(1,3) by simp
  have "js_head (entry_dirty env s e) = Some f" using Some assms(3) by (simp add: scan_change_def split: if_splits)
  then have "df_hash f = we_sha256 env c" "df_mode f = md" "df_path f = p"
    using h f(3) by (auto simp: entry_dirty_def Let_def split: option.splits)
  then show ?thesis using that f(1,2) file_at_flat [OF wi_invD(1) [OF assms(2)] f(1)] by blast
qed

lemma scan_change_tracked:
  assumes "wi_inv U ig env k s" "scan_change env ig s p = Some f"
  shows "p \<in> U" "\<not> ignored ig p"
proof -
  consider r where "map_of (wi_rows s) p = Some r" | c m md where "file_at (wi_tree s) p = Some (c, m, md)" "\<not> ignored ig p"
    using assms(2) by (auto simp: scan_change_def scan_entry_def split: option.splits if_splits)
  then show "p \<in> U" "\<not> ignored ig p"
    using row_entry [OF assms(1), of p] entry_tracked [OF assms(1), of _ p] file_at_flat [OF wi_invD(1) [OF assms(1)], of p]
    by (cases; blast)+
qed

lemma scan_row_times:
  assumes "wi_inv U ig env k s" "scan_row env ig s p = Some r"
  shows "ir_mtime r \<le> k"
proof (cases "scan_entry ig (wi_tree s) p")
  case None
  then obtain q where "map_of (wi_rows s) p = Some q" "ir_mtime r = ir_mtime q"
    using assms(2) by (auto simp: scan_row_def split: option.splits if_splits)
  then show ?thesis using times_okD(1) [OF wi_invD(7) [OF assms(1)], of "(p, q)"] map_of_SomeD by fastforce
next
  case (Some e)
  then obtain c m md where "file_at (wi_tree s) p = Some (c, m, md)" "fe_mtime e = m"
    by (auto simp: scan_entry_def split: option.splits if_splits)
  moreover have "ir_mtime r = fe_mtime e" using Some assms(2) by (auto simp: scan_row_def entry_update_def split: if_splits)
  ultimately show ?thesis using times_okD(2) [OF wi_invD(7) [OF assms(1)], of p] by simp
qed

section \<open>Staging\<close>

lemma stage_files_ok:
  assumes "env_ok U env" "tree_ok U t" "\<forall>p \<in> set ps. file_at t p \<noteq> None"
  shows "\<exists>bs. stage_files t i ps = Inr bs \<and> map fst bs = map (Pair i) ps \<and>
    (\<forall>p. map_of bs (i, p) = (if p \<in> set ps then map_option (\<lambda>f. (fst f, snd (snd f))) (file_at t p) else None))"
  using assms(3)
proof (induction ps)
  case (Cons p ps)
  obtain c m md where f: "file_at t p = Some (c, m, md)" using Cons.prems by force
  obtain bs where bs: "stage_files t i ps = Inr bs" "map fst bs = map (Pair i) ps"
    "\<forall>p. map_of bs (i, p) = (if p \<in> set ps then map_option (\<lambda>f. (fst f, snd (snd f))) (file_at t p) else None)"
    using Cons by auto
  have "lstat t p = LK_node (ND_file c m md)"
    using lstat_flat [OF env_ok_flat(1) [OF assms(1)] assms(2) file_at_flat [OF assms(2) f]] f by simp
  then show ?case using bs f by (simp add: copy_source_def)
qed simp

lemma stat_live_flat:
  assumes "env_ok U env" "tree_ok U t" "p \<in> U"
  shows "statLiveFile env t p =
    (case file_at t p of None \<Rightarrow> no_live_state
     | Some (c, m, md) \<Rightarrow> \<lparr>ls_exists = True, ls_hash = Some (we_sha256 env c), ls_size = Some (length c), ls_mode = Some md\<rparr>)"
proof -
  obtain us where us: "env_paths us (we_root env)" using assms(1) by (auto simp: env_ok_def)
  note c = canonical_U [OF assms(1,3)]
  have "stat_file env t p = map_option (\<lambda>f. (fst f, snd (snd f))) (file_at t p)"
    using within_below [OF us c] relative_below [OF us c] canonical_ne [OF c]
      lstat_flat [OF env_ok_flat(1) [OF assms(1)] assms(2,3)]
    by (auto simp: stat_file_def Let_def split: option.splits)
  then show ?thesis by (auto simp: statLiveFile_def no_live_state_def split: option.splits)
qed

section \<open>The commit\<close>

definition anchor_arg :: "string set \<Rightarrow> wi_env \<Rightarrow> string option \<Rightarrow> string option \<Rightarrow> bool" where
  "anchor_arg U env a anchor =
     (anchor_path_of env a = Inr anchor \<and> (\<forall>p. anchor = Some p \<longrightarrow> p \<in> U \<and> p \<noteq> ignore_file))"

text \<open>The state after a snapshot, table by table.\<close>

definition committed :: "wi_env \<Rightarrow> prepared_set \<Rightarrow> snap_row \<Rightarrow> ((string \<times> string) \<times> (string \<times> nat)) list \<Rightarrow> wi \<Rightarrow> wi \<Rightarrow> bool" where
  "committed env pr row bs s s' =
     (wi_tree s' = wi_tree s \<and> wi_rows s' = upsert_rows (pr_updates pr) (wi_rows s) \<and> wi_snaps s' = wi_snaps s @ [row] \<and>
      wi_snap_files s' = wi_snap_files s @ map (Pair (sn_id row)) (pr_files pr) \<and> wi_baseline s' = Suc (wi_baseline s) \<and>
      wi_blobs s' = wi_blobs s @ bs \<and> fst ` set (wi_manifests s') = insert (sn_id row) (fst ` set (wi_manifests s)))"

lemma take_snapshot_result:
  assumes "env_ok U env" "wi_inv U ig env k s" "anchor_arg U env (co_anchor opts) anchor" "i \<notin> set (snap_ids s)"
    and pr: "pr = fst (prepareScan env j now s)"
  obtains row bs s' where "take_snapshot env j i now opts s = (Inr (row, pr_files pr), s')" "committed env pr row bs s s'"
    "sn_id row = i" "sn_parent row = js_head (chain s)" "sn_baseline row = Suc (wi_baseline s)" "sn_anchor_path row = anchor"
    "sn_anchor_exists row \<longleftrightarrow> (\<exists>p. anchor = Some p \<and> file_at (wi_tree s) p \<noteq> None)"
    "sn_anchor_source row \<in> {None, Some i}" "sn_run row = co_run opts" "sn_created row = now"
    "\<forall>b \<in> set bs. fst (fst b) = i"
    "\<forall>f \<in> set (pr_files pr). df_change f \<noteq> CT_deleted \<longrightarrow>
       map_of bs (i, df_path f) = map_option (\<lambda>f. (fst f, snd (snd f))) (file_at (wi_tree s) (df_path f))"
proof -
  define s1 where "s1 = snd (prepareScan env j now s)"
  have sel: "wi_tree s1 = wi_tree s" "wi_rows s1 = wi_rows s" "wi_snaps s1 = wi_snaps s" "wi_snap_files s1 = wi_snap_files s"
    "wi_baseline s1 = wi_baseline s" "wi_blobs s1 = wi_blobs s" "wi_manifests s1 = wi_manifests s"
    by (simp_all add: s1_def prepareScan_def Let_def)
  have prep: "prepareScan env j now s = (pr, s1)" by (simp add: pr s1_def)
  define live where "live = (case anchor of None \<Rightarrow> no_live_state | Some p \<Rightarrow> statLiveFile env (wi_tree s) p)"
  define extra where "extra = persist_anchor pr anchor live"
  define changed where "changed = map df_path (filter (\<lambda>f. df_change f \<noteq> CT_deleted) (pr_files pr))"
  have anchor: "anchor_path_of env (co_anchor opts) = Inr anchor" and anchorU: "\<And>p. anchor = Some p \<Longrightarrow> p \<in> U"
    using assms(3) by (auto simp: anchor_arg_def)
  have live_exists: "ls_exists live \<longleftrightarrow> (\<exists>p. anchor = Some p \<and> file_at (wi_tree s) p \<noteq> None)"
    using stat_live_flat [OF assms(1) wi_invD(1) [OF assms(2)]] anchorU
    by (cases anchor) (auto simp: live_def no_live_state_def split: option.splits)
  have "file_at (wi_tree s) p \<noteq> None" if p: "p \<in> set (changed @ extra)" for p
  proof -
    from p consider f where "f \<in> set (pr_files pr)" "df_change f \<noteq> CT_deleted" "p = df_path f" | "p \<in> set extra"
      by (auto simp: changed_def)
    then show ?thesis
    proof cases
      case 1
      then have "scan_change env ig s p = Some f" using scan_files(2) [OF assms(2) pr] by simp
      then show ?thesis using scan_change_file [OF assms(1,2) _ 1(2), of p] by (metis option.distinct(1))
    next
      case 2
      then show ?thesis using live_exists by (auto simp: extra_def persist_anchor_def split: option.splits if_splits)
    qed
  qed
  then obtain bs where bs: "stage_files (wi_tree s) i (changed @ extra) = Inr bs" "map fst bs = map (Pair i) (changed @ extra)"
    "\<forall>p. map_of bs (i, p) = (if p \<in> set (changed @ extra) then map_option (\<lambda>f. (fst f, snd (snd f))) (file_at (wi_tree s) p) else None)"
    using stage_files_ok [OF assms(1) wi_invD(1) [OF assms(2)], of "changed @ extra" i] by blast
  define row where "row = new_snapshot_row i now (js_head (chain s)) pr opts (committed_bytes pr extra live) anchor live"
  have base: "pr_baseline pr = wi_baseline s" unfolding pr by (rule prepare_eq(3) [OF assms(2)])
  have parent: "map_option sn_id (js_head (listSnapshots s1)) = js_head (chain s)"
    using newest_head [OF wi_invD(3) [OF assms(2)]] sel by (simp add: listSnapshots_def)
  have "map_of (wi_manifests s) i = None"
    using wi_invD(5) [OF assms(2)] assms(4) by (simp add: blobs_ok_def map_of_eq_None_iff)
  then have t: "take_snapshot env j i now opts s = (Inr (row, pr_files pr), snd (commit_transaction env pr row bs s1))"
    using bs(1) base by (simp add: take_snapshot_def prep commitSnapshot_def anchor parent sel live_def [symmetric] extra_def [symmetric]
      changed_def [symmetric] row_def [symmetric] commit_transaction_def Let_def cong: option.case_cong)
  have c: "committed env pr row bs s (snd (commit_transaction env pr row bs s1))"
    using base by (simp add: committed_def commit_transaction_def sel)
  have ids: "\<forall>b \<in> set bs. fst (fst b) = i" using bs(2) by (metis (mono_tags, lifting) fst_conv image_iff list.set_map)
  have "\<forall>f \<in> set (pr_files pr). df_change f \<noteq> CT_deleted \<longrightarrow>
      map_of bs (i, df_path f) = map_option (\<lambda>f. (fst f, snd (snd f))) (file_at (wi_tree s) (df_path f))"
    using bs(3) by (auto simp: changed_def)
  then show ?thesis
    using that [OF t c] ids live_exists base by (simp add: row_def new_snapshot_row_def)
qed

section \<open>The invariant after a snapshot\<close>

lemma latest_cong: "(\<And>j. j \<in> set is \<Longrightarrow> files_of j s' = files_of j s) \<Longrightarrow> latest s' is p = latest s is p"
  by (induction "is") (simp_all add: file_in_def split: option.splits)

lemma linked_cong: "(\<And>j. j \<in> set is \<Longrightarrow> find_snap j s' = find_snap j s) \<Longrightarrow> linked s' is = linked s is"
  by (induction "is") simp_all

lemma committed_chain:
  assumes "committed env pr row bs s s'" "sn_id row = i" "i \<notin> set (snap_ids s)"
  shows "snap_ids s' = snap_ids s @ [i]" "chain s' = i # chain s" "chain_from s' i = i # chain s"
    "j \<in> set (snap_ids s) \<Longrightarrow> chain_from s' j = chain_from s j"
  using assms by (auto simp: committed_def snap_ids_def chain_def chain_from_def)

lemma committed_files:
  assumes "committed env pr row bs s s'" "sn_id row = i" "i \<notin> set (snap_ids s)" "files_ok U ig s"
  shows "j \<noteq> i \<Longrightarrow> files_of j s' = files_of j s" "set (files_of i s') = set (pr_files pr)"
proof -
  have none: "filter (\<lambda>f. fst f = i) (wi_snap_files s) = []"
    using assms(3,4) by (auto simp: files_ok_def filter_empty_conv)
  have f: "files_of j s' = sort_key df_path (map snd (filter (\<lambda>f. fst f = j) (wi_snap_files s)) @ (if j = i then pr_files pr else []))" for j
    using assms(1,2) by (simp add: committed_def files_of_def filter_map comp_def)
  show "j \<noteq> i \<Longrightarrow> files_of j s' = files_of j s" by (simp add: f) (simp add: files_of_def)
  show "set (files_of i s') = set (pr_files pr)" using none by (simp add: f)
qed

lemma chain_from_subset: "j \<in> set (chain_from s i) \<Longrightarrow> j \<in> set (snap_ids s)"
  unfolding chain_from_def chain_def using set_dropWhileD by fastforce

lemma committed_latest:
  assumes "committed env pr row bs s s'" "sn_id row = i" "i \<notin> set (snap_ids s)" "files_ok U ig s" "set is \<subseteq> set (snap_ids s)"
  shows "latest s' is p = latest s is p"
proof (rule latest_cong)
  fix j assume "j \<in> set is"
  then have "j \<noteq> i" using assms(3,5) by blast
  then show "files_of j s' = files_of j s" by (rule committed_files(1) [OF assms(1-4)])
qed

lemma committed_files_ok:
  assumes "wi_inv U ig env k s" "pr = fst (prepareScan env j now s)" "committed env pr row bs s s'" "sn_id row = i" "i \<notin> set (snap_ids s)"
  shows "files_ok U ig s'"
proof -
  note f = wi_invD(4) [OF assms(1)]
  let ?new = "map (Pair i) (pr_files pr)"
  have files: "wi_snap_files s' = wi_snap_files s @ ?new" using assms(3,4) by (simp add: committed_def)
  have key: "map (\<lambda>f. (fst f, df_path (snd f))) ?new = map (Pair i) (map df_path (pr_files pr))" by simp
  have "distinct (map (\<lambda>f. (fst f, df_path (snd f))) ?new)"
    unfolding key using scan_files(1) [OF assms(1,2)] by (simp add: distinct_map inj_on_def)
  moreover have "fst f \<noteq> i" if "f \<in> set (wi_snap_files s)" for f using f assms(5) that by (auto simp: files_ok_def)
  ultimately have "distinct (map (\<lambda>f. (fst f, df_path (snd f))) (wi_snap_files s'))"
    using f unfolding files by (auto simp: files_ok_def)
  moreover have "df_path f \<in> U \<and> \<not> ignored ig (df_path f)" if "f \<in> set (pr_files pr)" for f
    using scan_change_tracked [OF assms(1)] scan_files(2) [OF assms(1,2), of f] that by blast
  ultimately show ?thesis
    using f committed_chain(1) [OF assms(3-5)] unfolding files files_ok_def by auto
qed

lemma entry_after_latest:
  assumes "wi_inv U ig env k s" "pr = fst (prepareScan env j now s)" "committed env pr row bs s s'" "sn_id row = i" "i \<notin> set (snap_ids s)"
  shows "latest s' (chain s') p = entry_after env ig i s p"
proof -
  note fok = committed_files_ok [OF assms]
  have new: "(i, f) \<in> set (wi_snap_files s') \<longleftrightarrow> scan_change env ig s (df_path f) = Some f" for f
    using scan_files(2) [OF assms(1,2), of f] committed_files(2) [OF assms(3-5) wi_invD(4) [OF assms(1)]] files_of_set [of i s']
    by auto
  have path: "df_path f = p" if "scan_change env ig s p = Some f" for f
    using that by (auto simp: scan_change_def deleted_file_def js_head_def entry_dirty_def Let_def
      split: option.splits if_splits dest: scan_entry_path)
  have "file_in s' i p = Some f \<longleftrightarrow> scan_change env ig s p = Some f" for f
    unfolding file_in_iff [OF fok] new using path by blast
  then have "file_in s' i p = scan_change env ig s p" by (metis not_Some_eq)
  moreover have "latest s' (chain s) p = latest s (chain s) p"
    by (rule committed_latest [OF assms(3-5) wi_invD(4) [OF assms(1)]]) (simp add: chain_def)
  ultimately show ?thesis
    unfolding committed_chain(2) [OF assms(3-5)] by (simp add: entry_after_def split: option.splits)
qed

text \<open>The files named by earlier snapshots keep their blobs.\<close>

lemma committed_blob:
  assumes "wi_inv U ig env k s" "committed env pr row bs s s'" "\<forall>b \<in> set bs. fst (fst b) = i" "i \<notin> set (snap_ids s)"
  shows "map_of (wi_blobs s) key = Some b \<Longrightarrow> map_of (wi_blobs s') key = Some b"
    "map_of (wi_blobs s') (i, p) = map_of bs (i, p)"
proof -
  have blobs: "wi_blobs s' = wi_blobs s @ bs" using assms(2) by (simp add: committed_def)
  show "map_of (wi_blobs s) key = Some b \<Longrightarrow> map_of (wi_blobs s') key = Some b" by (simp add: blobs)
  have "map_of (wi_blobs s) (i, p) = None"
    using wi_invD(5) [OF assms(1)] assms(4) by (force simp: blobs_ok_def map_of_eq_None_iff)
  then show "map_of (wi_blobs s') (i, p) = map_of bs (i, p)" by (simp add: blobs map_add_def split: option.splits)
qed

lemma old_view:
  assumes "wi_inv U ig env k s" "committed env pr row bs s s'" "\<forall>b \<in> set bs. fst (fst b) = i" "sn_id row = i"
    "i \<notin> set (snap_ids s)" "set is \<subseteq> set (snap_ids s)"
  shows "chain_view s' is p = chain_view s is p"
proof -
  have l: "latest s' is p = latest s is p"
    by (rule committed_latest [OF assms(2,4,5) wi_invD(4) [OF assms(1)] assms(6)])
  show ?thesis
  proof (cases "latest s is p")
    case None
    then show ?thesis by (simp add: chain_view_def l)
  next
    case (Some e)
    show ?thesis
    proof (cases "re_deleted e")
      case True
      then show ?thesis using Some by (simp add: chain_view_def l)
    next
      case False
      then obtain c md where b: "map_of (wi_blobs s) (re_snap e, p) = Some (c, md)"
        using blob_of_entry [OF assms(1) Some] by blast
      then have "map_of (wi_blobs s') (re_snap e, p) = Some (c, md)" by (rule committed_blob(1) [OF assms(1-3,5)])
      then show ?thesis using Some b by (simp add: chain_view_def l)
    qed
  qed
qed

text \<open>The new snapshot shows the workspace.\<close>

lemma new_view:
  assumes "env_ok U env" "wi_inv U ig env k s" "pr = fst (prepareScan env j now s)" "committed env pr row bs s s'"
    "sn_id row = i" "i \<notin> set (snap_ids s)" "\<forall>b \<in> set bs. fst (fst b) = i"
    and blobs: "\<forall>f \<in> set (pr_files pr). df_change f \<noteq> CT_deleted \<longrightarrow>
       map_of bs (i, df_path f) = map_option (\<lambda>f. (fst f, snd (snd f))) (file_at (wi_tree s) (df_path f))"
  shows "snapshot_view s' i p = tracked_view ig (wi_tree s) p"
proof -
  have latest: "latest s' (chain_from s' i) p = entry_after env ig i s p"
    using entry_after_latest [OF assms(2-6), of p] committed_chain(2,3) [OF assms(4-6)] by simp
  show ?thesis
  proof (cases "scan_change env ig s p")
    case (Some f)
    then have l: "latest s' (chain_from s' i) p = Some (entry_of i f)" by (simp add: latest entry_after_def)
    show ?thesis
    proof (cases "df_change f = CT_deleted")
      case True
      then have "scan_entry ig (wi_tree s) p = None"
        using Some entry_dirty_path [of f env s] entry_dirty_single [of f env s]
        by (auto simp: scan_change_def split: option.splits if_splits)
      then show ?thesis using l True by (simp add: snapshot_view_def chain_view_def entry_of_def scan_entry_None)
    next
      case False
      obtain c m where f: "file_at (wi_tree s) p = Some (c, m, df_mode f)" "\<not> ignored ig p" "df_path f = p"
        using scan_change_file [OF assms(1,2) Some False] by metis
      have "f \<in> set (pr_files pr)" using scan_files(2) [OF assms(2,3), of f] Some f(3) by simp
      then have "map_of (wi_blobs s') (i, p) = Some (c, df_mode f)"
        using blobs False f committed_blob(2) [OF assms(2,4,7,6), of p] by auto
      then show ?thesis using l False f by (simp add: snapshot_view_def chain_view_def entry_of_def tracked_view_def)
    qed
  next
    case None
    then have l: "latest s' (chain_from s' i) p = latest s (chain s) p" and ea: "entry_after env ig i s p = latest s (chain s) p"
      by (simp_all add: latest entry_after_def)
    note match = scan_matches [OF assms(2), where p = p and i = i]
    show ?thesis
    proof (cases "tracked_view ig (wi_tree s) p")
      case untracked: None
      have "re_deleted e" if "latest s (chain s) p = Some e" for e
        using match row_after_untracked [OF untracked] that unfolding ea
        by (auto simp: row_matches_def split: option.splits)
      then show ?thesis using l untracked by (auto simp: snapshot_view_def chain_view_def split: option.splits)
    next
      case tracked: (Some cm)
      obtain c md where cm: "cm = (c, md)" by (cases cm)
      obtain r where r: "row_after env ig s p = Some r" "\<not> ir_deleted r" "ir_hash r = we_sha256 env c" "ir_mode r = md"
        using row_after_tracked [OF assms(1,2)] tracked cm by metis
      then obtain e where e: "latest s (chain s) p = Some e" "\<not> re_deleted e" "re_hash e = we_sha256 env c" "re_mode e = md"
        using match unfolding ea by (auto simp: row_matches_def split: option.splits)
      obtain c' md' where b: "map_of (wi_blobs s) (re_snap e, p) = Some (c', md')" "we_sha256 env c' = re_hash e"
        using blob_of_entry [OF assms(2) e(1,2)] .
      then have "c' = c" using e(3) env_ok_flat(2) [OF assms(1)] by (simp add: inj_eq)
      moreover have "map_of (wi_blobs s') (re_snap e, p) = Some (c', md')" using b(1) by (rule committed_blob(1) [OF assms(2,4,7,6)])
      ultimately show ?thesis using l e tracked cm by (simp add: snapshot_view_def chain_view_def)
    qed
  qed
qed

lemma find_app: "find P (xs @ ys) = (case find P xs of None \<Rightarrow> find P ys | Some x \<Rightarrow> Some x)"
  by (induction xs) simp_all

lemma linked_fresh:
  assumes "history_ok s" "committed env pr row bs s s'" "sn_id row = i" "sn_parent row = js_head (chain s)" "i \<notin> set (snap_ids s)"
  shows "linked s' (chain s')"
proof -
  have snaps: "wi_snaps s' = wi_snaps s @ [row]" using assms(2) by (simp add: committed_def)
  have "find_snap j s' = find_snap j s" if "j \<in> set (chain s)" for j
  proof -
    have "find_snap j s \<noteq> None" using that by (simp add: find_snap_None chain_def)
    then show ?thesis by (auto simp: find_snap_def snaps find_app split: option.splits)
  qed
  then have "linked s' (chain s)" using assms(1) linked_cong [of "chain s" s' s] by (simp add: history_ok_def)
  moreover have "find_snap i s' = Some row"
    using assms(3,5) find_snap_None [of i s] by (simp add: find_snap_def snaps find_app)
  ultimately show ?thesis unfolding committed_chain(2) [OF assms(2,3,5)] using assms(4) by simp
qed

lemma take_snapshot_ok:
  assumes "env_ok U env" "wi_inv U ig env k s" "anchor_arg U env (co_anchor opts) anchor"
    "i \<notin> set (snap_ids s)" "good_segment i"
  obtains row fs s' where "take_snapshot env j i now opts s = (Inr (row, fs), s')" "sn_id row = i" "wi_tree s' = wi_tree s"
    "wi_inv U ig env k s'" "snapshot_view s' i = tracked_view ig (wi_tree s)" "snap_ids s' = snap_ids s @ [i]"
    "\<And>q. q \<in> set (snap_ids s) \<Longrightarrow> snapshot_view s' q = snapshot_view s q"
    "\<And>q p. q \<in> set (snap_ids s) \<Longrightarrow> latest s' (chain_from s' q) p = latest s (chain_from s q) p"
    "\<And>q. q \<in> set (snap_ids s) \<Longrightarrow> find_snap q s' = find_snap q s"
proof -
  define pr where "pr = fst (prepareScan env j now s)"
  obtain row bs s' where t: "take_snapshot env j i now opts s = (Inr (row, pr_files pr), s')"
    and c: "committed env pr row bs s s'" and row: "sn_id row = i" "sn_parent row = js_head (chain s)"
      "sn_baseline row = Suc (wi_baseline s)" "sn_anchor_path row = anchor"
      "sn_anchor_exists row \<longleftrightarrow> (\<exists>p. anchor = Some p \<and> file_at (wi_tree s) p \<noteq> None)" "sn_anchor_source row \<in> {None, Some i}"
    and bs: "\<forall>b \<in> set bs. fst (fst b) = i"
      "\<forall>f \<in> set (pr_files pr). df_change f \<noteq> CT_deleted \<longrightarrow>
         map_of bs (i, df_path f) = map_option (\<lambda>f. (fst f, snd (snd f))) (file_at (wi_tree s) (df_path f))"
    by (rule take_snapshot_result [OF assms(1-4) pr_def])
  note ch = committed_chain [OF c row(1) assms(4)]
  note fok = committed_files_ok [OF assms(2) pr_def c row(1) assms(4)]
  have tables: "wi_tree s' = wi_tree s" "wi_rows s' = upsert_rows (pr_updates pr) (wi_rows s)" "wi_snaps s' = wi_snaps s @ [row]"
    "wi_snap_files s' = wi_snap_files s @ map (Pair i) (pr_files pr)" "wi_baseline s' = Suc (wi_baseline s)"
    "wi_blobs s' = wi_blobs s @ bs" "fst ` set (wi_manifests s') = insert i (fst ` set (wi_manifests s))"
    using c row(1) by (simp_all add: committed_def)
  have view: "snapshot_view s' i = tracked_view ig (wi_tree s)"
    using new_view [OF assms(1,2) pr_def c row(1) assms(4) bs] by blast
  have old: "latest s' (chain_from s' q) p = latest s (chain_from s q) p" if "q \<in> set (snap_ids s)" for q p
    unfolding ch(4) [OF that]
    by (rule committed_latest [OF c row(1) assms(4) wi_invD(4) [OF assms(2)]]) (auto dest: chain_from_subset)
  have rows: "map_of (wi_rows s') p = row_after env ig s p" for p
    using upsert_map [OF scan_updates(1) [OF assms(2) pr_def], of "wi_rows s" p] scan_updates(2) [OF assms(2) pr_def, of p]
    by (simp add: tables row_after_def)
  have "history_ok s'"
    using wi_invD(3) [OF assms(2)] linked_fresh [OF wi_invD(3) [OF assms(2)] c row(1,2) assms(4)] assms(4,5) row(3) tables(3,5) ch(1)
    by (auto simp: history_ok_def)
  moreover have "blobs_ok env s'"
    unfolding blobs_ok_def
  proof (intro conjI ballI impI)
    fix f assume f: "f \<in> set (wi_snap_files s')" "df_change (snd f) \<noteq> CT_deleted"
    show "\<exists>c md. map_of (wi_blobs s') (fst f, df_path (snd f)) = Some (c, md) \<and> we_sha256 env c = df_hash (snd f)"
    proof (cases "f \<in> set (wi_snap_files s)")
      case True
      then show ?thesis using wi_invD(5) [OF assms(2)] f(2) committed_blob(1) [OF assms(2) c bs(1) assms(4)]
        unfolding blobs_ok_def by blast
    next
      case False
      then obtain g where g: "f = (i, g)" "g \<in> set (pr_files pr)" using f(1) by (auto simp: tables)
      then have "scan_change env ig s (df_path g) = Some g" using scan_files(2) [OF assms(2) pr_def] by simp
      then obtain c' m where "file_at (wi_tree s) (df_path g) = Some (c', m, df_mode g)" "df_hash g = we_sha256 env c'"
        using scan_change_file [OF assms(1,2)] f(2) g(1) by (metis snd_conv)
      then show ?thesis using bs(2) g f(2) committed_blob(2) [OF assms(2) c bs(1) assms(4), of "df_path g"] by simp
    qed
  next
    show "fst (fst b) \<in> set (snap_ids s')" if "b \<in> set (wi_blobs s')" for b
      using that bs(1) wi_invD(5) [OF assms(2)] by (auto simp: tables ch blobs_ok_def)
    show "fst ` set (wi_manifests s') = set (snap_ids s')"
      using wi_invD(5) [OF assms(2)] by (simp add: tables ch blobs_ok_def)
  qed
  moreover have "index_ok s'"
    unfolding index_ok_def rows entry_after_latest [OF assms(2) pr_def c row(1) assms(4)]
    using wi_invD(6) [OF assms(2)] scan_matches [OF assms(2), where i = i]
    by (simp add: tables upsert_distinct index_ok_def)
  moreover have "times_ok env k s'"
  proof -
    have "ir_mtime (snd r) \<le> k" if "r \<in> set (wi_rows s')" for r
    proof -
      have "distinct (map fst (wi_rows s'))" using wi_invD(6) [OF assms(2)] by (simp add: tables upsert_distinct index_ok_def)
      then have "row_after env ig s (fst r) = Some (snd r)" using that rows [of "fst r"] map_of_is_SomeI [of "wi_rows s'" "fst r" "snd r"] by simp
      then show ?thesis
        using scan_row_times [OF assms(2), of "fst r"] times_okD(1) [OF wi_invD(7) [OF assms(2)], of r]
        by (auto simp: row_after_def split: option.splits dest: map_of_SomeD)
    qed
    moreover have "ir_hash r = we_sha256 env c"
      if r: "row_after env ig s p = Some r" "\<not> ir_deleted r" "file_at (wi_tree s) p = Some (c, m, md)" "ir_mtime r = m" for p r c m md
    proof (cases "tracked_view ig (wi_tree s) p")
      case None
      then show ?thesis using row_after_untracked [OF None r(1)] r(2) by simp
    next
      case (Some cm)
      then have "cm = (c, md)" using r(3) by (auto simp: tracked_view_def split: if_splits)
      with Some r(1) row_after_tracked [OF assms(1,2), of p c md] show ?thesis by fastforce
    qed
    ultimately show ?thesis
      using times_okD(2) [OF wi_invD(7) [OF assms(2)]] unfolding times_ok_def rows tables(1) by blast
  qed
  moreover have "anchors_ok U ig s'"
    unfolding anchors_ok_def
  proof (intro ballI conjI allI impI)
    fix r assume "r \<in> set (wi_snaps s')"
    then consider "r \<in> set (wi_snaps s)" | "r = row" by (auto simp: tables)
    note cases = this
    show "p \<in> U" "p \<noteq> ignore_file" if "sn_anchor_path r = Some p" for p
      using cases that row(4) assms(3) wi_invD(8) [OF assms(2)] by (cases; fastforce simp: anchors_ok_def anchor_arg_def)+
    show "latest s' (chain_from s' (sn_id r)) p \<noteq> None"
      if p: "sn_anchor_path r = Some p" "\<not> ignored ig p \<and> sn_anchor_exists r" for p
      using cases
    proof cases
      case 1
      then have "sn_id r \<in> set (snap_ids s)" by (simp add: snap_ids_def)
      then show ?thesis using old [of "sn_id r" p] 1 p wi_invD(8) [OF assms(2)] by (simp add: anchors_ok_def)
    next
      case 2
      then have "tracked_view ig (wi_tree s) p \<noteq> None" using p row(4,5) by (auto simp: tracked_view_def)
      then have "snapshot_view s' i p \<noteq> None" using view by simp
      then show ?thesis using 2 row(1) by (auto simp: snapshot_view_def chain_view_def split: option.splits)
    qed
    show "q \<in> set (snap_ids s')" if "sn_anchor_source r = Some q" for q
      using cases that row(6) wi_invD(8) [OF assms(2)] by (cases; fastforce simp: anchors_ok_def ch)
  qed
  ultimately have "wi_inv U ig env k s'"
    using wi_invD(1,2) [OF assms(2)] fok by (simp add: wi_inv_def tables)
  moreover have "snapshot_view s' q = snapshot_view s q" if "q \<in> set (snap_ids s)" for q
    unfolding snapshot_view_def ch(4) [OF that]
    using old_view [OF assms(2) c bs(1) row(1) assms(4), of "chain_from s q"] by (auto dest: chain_from_subset)
  moreover have "find_snap q s' = find_snap q s" if "q \<in> set (snap_ids s)" for q
  proof -
    have "find_snap q s \<noteq> None" using that by (simp add: find_snap_None)
    then show ?thesis by (auto simp: find_snap_def tables find_app split: option.splits)
  qed
  ultimately show ?thesis using that [OF t row(1) tables(1)] view ch(1) old by blast
qed

end
