(* ===== verification/Workspace_Rebase.thy ===== *)
theory Workspace_Rebase
  imports Workspace_Commit
begin

text \<open>
  Rebasing anchors removes copies of anchors only: it keeps the invariant of the index and what every
  snapshot shows.
\<close>

definition bare :: "snap_row \<Rightarrow> snap_row" where
  "bare r = r\<lparr>sn_anchor_source := None\<rparr>"

text \<open>What a rebase may change: sources of anchors, and blobs that no file of a snapshot needs.\<close>

definition rebased :: "wi \<Rightarrow> wi \<Rightarrow> bool" where
  "rebased s s' =
     (wi_tree s' = wi_tree s \<and> wi_rows s' = wi_rows s \<and> wi_snap_files s' = wi_snap_files s \<and> wi_baseline s' = wi_baseline s \<and>
      fst ` set (wi_manifests s') = fst ` set (wi_manifests s) \<and> map bare (wi_snaps s') = map bare (wi_snaps s) \<and>
      set (wi_blobs s') \<subseteq> set (wi_blobs s) \<and>
      (\<forall>f \<in> set (wi_snap_files s). map_of (wi_blobs s') (fst f, df_path (snd f)) = map_of (wi_blobs s) (fst f, df_path (snd f))) \<and>
      (\<forall>r \<in> set (wi_snaps s'). \<forall>i. sn_anchor_source r = Some i \<longrightarrow>
         i \<in> set (snap_ids s) \<or> (\<exists>q \<in> set (wi_snaps s). sn_anchor_source q = Some i)))"

lemma bare_ids:
  assumes "map bare (wi_snaps s') = map bare (wi_snaps s)"
  shows "snap_ids s' = snap_ids s" "map sn_baseline (wi_snaps s') = map sn_baseline (wi_snaps s)"
proof -
  have "map f rs = map f (map bare rs)" if "\<And>r. f (bare r) = f r" for f :: "snap_row \<Rightarrow> 'c" and rs using that by simp
  note m = this
  show "snap_ids s' = snap_ids s" unfolding snap_ids_def using m [of sn_id] assms by (metis bare_def snap_row.select_convs(1) snap_row.surjective snap_row.update_convs(15))
  show "map sn_baseline (wi_snaps s') = map sn_baseline (wi_snaps s)"
    using m [of sn_baseline] assms by (metis bare_def snap_row.select_convs(3) snap_row.surjective snap_row.update_convs(15))
qed

lemma rebased_refl [simp]: "rebased s s"
  by (auto simp: rebased_def)

lemma rebased_trans: "rebased s s1 \<Longrightarrow> rebased s1 s2 \<Longrightarrow> rebased s s2"
  using bare_ids(1) [of s1 s] unfolding rebased_def by (metis (no_types, lifting) subset_trans)

lemma persist_source_rebased:
  assumes "i \<in> set (snap_ids s)"
  shows "rebased s (snd (persistAnchorSource i m s))"
proof -
  let ?f = "\<lambda>r. if sn_id r = sn_id (sm_row m) then r\<lparr>sn_anchor_source := Some i\<rparr> else r"
  have b: "map bare (map ?f (wi_snaps s)) = map bare (wi_snaps s)" by (simp add: bare_def)
  have src: "\<forall>r \<in> set (map ?f (wi_snaps s)). \<forall>j. sn_anchor_source r = Some j \<longrightarrow>
      j \<in> set (snap_ids s) \<or> (\<exists>q \<in> set (wi_snaps s). sn_anchor_source q = Some j)"
    using assms by auto
  have k: "fst ` set (AList.update j x ms) = fst ` set ms" if "map_of ms j \<noteq> None" for j x and ms :: "(string \<times> snap_manifest) list"
    using that by (metis dom_update insert_absorb domIff dom_map_of_conv_image_fst insert_is_Un)
  show ?thesis
  proof (cases "find_snap (sn_id (sm_row m)) s")
    case None
    then show ?thesis by (simp add: persistAnchorSource_def persist_row_def Let_def)
  next
    case (Some r)
    show ?thesis
    proof (cases "map_of (wi_manifests s) (sn_id (sm_row m))")
      case None
      then show ?thesis using Some b src by (simp add: persistAnchorSource_def persist_row_def Let_def rebased_def)
    next
      case (Some n)
      then show ?thesis using \<open>find_snap _ s = _\<close> b src k [of "wi_manifests s"]
        by (simp add: persistAnchorSource_def persist_row_def Let_def rebased_def)
    qed
  qed
qed

lemma drop_copy_rebased:
  assumes "\<not> snapshotHasTrackedPath i p (rb_wi st)"
  shows "rebased (rb_wi st) (rb_wi (drop_copy i p st))" "rb_sources (drop_copy i p st) = rb_sources st"
    "snap_ids (rb_wi (drop_copy i p st)) = snap_ids (rb_wi st)"
proof -
  have f: "map_of (filter (\<lambda>b. fst b \<noteq> k) bs) q = (if q = k then None else map_of bs q)" for k q and bs :: "('x \<times> 'y) list"
    by (induction bs) auto
  have "(fst f, df_path (snd f)) \<noteq> (i, p)" if "f \<in> set (wi_snap_files (rb_wi st))" for f
    using assms that by (auto simp: snapshotHasTrackedPath_def list_ex_iff)
  then show "rebased (rb_wi st) (rb_wi (drop_copy i p st))"
    by (auto simp: drop_copy_def remove_blob_def rebased_def f Let_def split: option.splits)
  show "rb_sources (drop_copy i p st) = rb_sources st" "snap_ids (rb_wi (drop_copy i p st)) = snap_ids (rb_wi st)"
    by (auto simp: drop_copy_def remove_blob_def Let_def snap_ids_def split: option.splits)
qed

definition rb_ok :: "wi \<Rightarrow> rebase_state \<Rightarrow> bool" where
  "rb_ok s st = (rebased s (rb_wi st) \<and> (\<forall>i \<in> snd ` set (rb_sources st). i \<in> set (snap_ids s)))"

lemma rb_ok_ids: "rb_ok s st \<Longrightarrow> snap_ids (rb_wi st) = snap_ids s"
  by (rule bare_ids(1)) (simp add: rb_ok_def rebased_def)

lemma update_range: "snd ` set (AList.update k v al) \<subseteq> insert v (snd ` set al)"
  by (induction al) (auto split: if_splits)

lemma rb_okI: "rebased s (rb_wi st) \<Longrightarrow> snd ` set (rb_sources st) \<subseteq> set (snap_ids s) \<Longrightarrow> rb_ok s st"
  unfolding rb_ok_def by blast

lemma rb_okD:
  assumes "rb_ok s st"
  shows "rebased s (rb_wi st)" "snd ` set (rb_sources st) \<subseteq> set (snap_ids s)"
  using assms unfolding rb_ok_def by blast+

lemma rb_ok_own:
  assumes "rb_ok s st" "i \<in> set (snap_ids s)"
  shows "rb_ok s (st\<lparr>rb_sources := AList.update key i (rb_sources st)\<rparr>)"
proof (rule rb_okI)
  show "rebased s (rb_wi (st\<lparr>rb_sources := AList.update key i (rb_sources st)\<rparr>))" using rb_okD(1) [OF assms(1)] by simp
  have "snd ` set (AList.update key i (rb_sources st)) \<subseteq> set (snap_ids s)"
    by (rule subset_trans [OF update_range]) (simp add: assms(2) rb_okD(2) [OF assms(1)])
  then show "snd ` set (rb_sources (st\<lparr>rb_sources := AList.update key i (rb_sources st)\<rparr>)) \<subseteq> set (snap_ids s)" by simp
qed

lemma rb_ok_wi:
  assumes "rb_ok s st" "rebased (rb_wi st) s'" "rb_sources st' = rb_sources st" "rb_wi st' = s'"
  shows "rb_ok s st'"
proof (rule rb_okI)
  show "rebased s (rb_wi st')" using rebased_trans [OF rb_okD(1) [OF assms(1)] assms(2)] assms(4) by simp
  show "snd ` set (rb_sources st') \<subseteq> set (snap_ids s)" using rb_okD(2) [OF assms(1)] assms(3) by simp
qed

lemma persist_rb_ok:
  assumes "rb_ok s st" "i \<in> set (snap_ids s)" "\<And>s'. rb_ok s (st\<lparr>rb_wi := s'\<rparr>) \<Longrightarrow> rb_ok s (snd (k s'))"
  shows "rb_ok s (snd (rb_fail (persistAnchorSource i m (rb_wi st)) k st))"
proof -
  obtain r s' where e: "persistAnchorSource i m (rb_wi st) = (r, s')" by fastforce
  have "rebased (rb_wi st) s'"
    using persist_source_rebased [of i "rb_wi st" m] assms(2) e unfolding rb_ok_ids [OF assms(1)] by simp
  then have "rb_ok s (st\<lparr>rb_wi := s'\<rparr>)" by (rule rb_ok_wi [OF assms(1)]) simp_all
  with assms(3) show ?thesis by (cases r) (simp_all add: rb_fail_def e)
qed

lemma ensure_own_ok:
  assumes "rb_ok s st" "sn_id (sm_row m) \<in> set (snap_ids s)"
  shows "rb_ok s (snd (ensure_own_source m st))"
  using persist_rb_ok [OF assms] assms(1) by (simp add: ensure_own_source_def Let_def)

lemma share_anchor_ok:
  assumes "rb_ok s st" "i \<in> set (snap_ids s)" "\<not> snapshotHasTrackedPath (sn_id (sm_row m)) p (rb_wi st)"
  shows "rb_ok s (snd (share_anchor i m p st))"
proof -
  have "rb_ok s (drop_copy (sn_id (sm_row m)) p st)"
    by (rule rb_ok_wi [OF assms(1) drop_copy_rebased(1) [OF assms(3)] drop_copy_rebased(2) [OF assms(3)] refl])
  then show ?thesis
    unfolding share_anchor_def Let_def by (rule persist_rb_ok [OF _ assms(2)]) (simp add: rb_ok_def)
qed

lemma manifest_id:
  assumes "getSnapshotManifest env i s = Some m"
  shows "sn_id (sm_row m) = i" "i \<in> set (snap_ids s)"
proof -
  obtain r where r: "find_snap i s = Some r" "sm_row m = r" using assms by (auto simp: getSnapshotManifest_def)
  show "sn_id (sm_row m) = i" using r by (auto simp: find_snap_def find_Some_iff)
  show "i \<in> set (snap_ids s)" using r(1) find_snap_None [of i s] by simp
qed

lemma rebase_one_ok:
  assumes "rb_ok s st"
  shows "rb_ok s (snd (rebase_one env i st))"
proof (cases "getSnapshotManifest env i (rb_wi st)")
  case None
  then show ?thesis using assms by (simp add: rebase_one_def)
next
  case (Some m)
  then have i: "sn_id (sm_row m) = i" "i \<in> set (snap_ids s)" using manifest_id [OF Some] rb_ok_ids [OF assms] by simp_all
  have own: "rb_ok s (st\<lparr>rb_sources := AList.update key i (rb_sources st)\<rparr>)" for key using rb_ok_own assms i(2) by blast
  have src: "j \<in> set (snap_ids s)" if "map_of (rb_sources st) key = Some j" for key j
    using assms map_of_SomeD [OF that] unfolding rb_ok_def by force
  show ?thesis
    using Some assms own ensure_own_ok [OF own, of m] share_anchor_ok [OF assms, of _ m] src i
    by (simp add: rebase_one_def Let_def split: option.splits)
qed

lemma rebase_all_ok: "rb_ok s st \<Longrightarrow> rb_ok s (snd (rebase_all env is st))"
proof (induction "is" arbitrary: st)
  case (Cons i js)
  show ?case using Cons.IH [of "snd (rebase_one env i st)"] rebase_one_ok [OF Cons.prems, of env i]
    by (auto split: prod.splits option.splits)
qed simp

lemma rebase_rebased: "rebased s (snd (rebaseSyntheticAnchors env s))"
proof -
  let ?st = "\<lparr>rb_wi = s, rb_sources = [],
    rb_summary = \<lparr>rs_scanned = length (anchored_snapshots s), rs_rebased = 0, rs_freed = 0, rs_directories = 0\<rparr>\<rparr>"
  have "rb_ok s ?st" by (simp add: rb_ok_def)
  from rebase_all_ok [OF this, of env "anchored_snapshots s"] show ?thesis
    by (auto simp: rebaseSyntheticAnchors_def Let_def rb_ok_def split: prod.splits option.splits)
qed

section \<open>What a rebase keeps\<close>

lemma rebasedD:
  assumes "rebased s s'"
  shows "wi_tree s' = wi_tree s" "wi_rows s' = wi_rows s" "wi_snap_files s' = wi_snap_files s" "wi_baseline s' = wi_baseline s"
    "fst ` set (wi_manifests s') = fst ` set (wi_manifests s)" "map bare (wi_snaps s') = map bare (wi_snaps s)"
    "set (wi_blobs s') \<subseteq> set (wi_blobs s)"
    "f \<in> set (wi_snap_files s) \<Longrightarrow> map_of (wi_blobs s') (fst f, df_path (snd f)) = map_of (wi_blobs s) (fst f, df_path (snd f))"
    "r \<in> set (wi_snaps s') \<Longrightarrow> sn_anchor_source r = Some i \<Longrightarrow>
       i \<in> set (snap_ids s) \<or> (\<exists>q \<in> set (wi_snaps s). sn_anchor_source q = Some i)"
  using assms unfolding rebased_def by blast+

lemma rebased_row:
  assumes "rebased s s'" "r \<in> set (wi_snaps s')"
  obtains q where "q \<in> set (wi_snaps s)" "bare q = bare r"
proof -
  have "bare r \<in> set (map bare (wi_snaps s))" using assms(2) rebasedD(6) [OF assms(1)] by (metis image_eqI list.set_map)
  then show ?thesis using that by auto
qed

lemma bare_select:
  assumes "bare q = bare r"
  shows "sn_id q = sn_id r" "sn_parent q = sn_parent r" "sn_anchor_path q = sn_anchor_path r" "sn_anchor_exists q = sn_anchor_exists r"
proof -
  have "sn_id (bare q) = sn_id q" "sn_parent (bare q) = sn_parent q" "sn_anchor_path (bare q) = sn_anchor_path q"
    "sn_anchor_exists (bare q) = sn_anchor_exists q" for q by (simp_all add: bare_def)
  then show "sn_id q = sn_id r" "sn_parent q = sn_parent r" "sn_anchor_path q = sn_anchor_path r" "sn_anchor_exists q = sn_anchor_exists r"
    using assms by metis+
qed

lemma rebased_chain:
  assumes "rebased s s'"
  shows "snap_ids s' = snap_ids s" "chain s' = chain s" "chain_from s' i = chain_from s i"
  using bare_ids(1) [OF rebasedD(6) [OF assms]] by (simp_all add: chain_def chain_from_def)

lemma rebased_latest: "rebased s s' \<Longrightarrow> latest s' is p = latest s is p"
  by (rule latest_cong) (simp add: files_of_def rebasedD(3))

lemma rebased_history:
  assumes "rebased s s'" "history_ok s"
  shows "history_ok s'"
proof -
  note ids = rebased_chain [OF assms(1)]
  have d: "distinct (snap_ids s)" "linked s (chain s)" using assms(2) by (simp_all add: history_ok_def)
  have par: "\<exists>r'. find_snap j s' = Some r' \<and> sn_parent r' = sn_parent r" if "find_snap j s = Some r" for j r
  proof -
    have "find_snap j s' \<noteq> None" using that find_snap_None [of j s'] find_snap_None [of j s] ids(1) by simp
    then obtain r' where r': "find_snap j s' = Some r'" by blast
    then have "r' \<in> set (wi_snaps s')" "sn_id r' = j" using find_snap_mem [of s' j r'] d(1) ids(1) by simp_all
    then obtain q where q: "q \<in> set (wi_snaps s)" "bare q = bare r'" using rebased_row [OF assms(1)] by blast
    then have "find_snap j s = Some q" using find_snap_mem [OF d(1)] bare_select(1) [OF q(2)] \<open>sn_id r' = j\<close> by simp
    then show ?thesis using that r' bare_select(2) [OF q(2)] by simp
  qed
  have "linked s is \<Longrightarrow> linked s' is" for "is" using par by (induction "is") (simp, fastforce)
  then show ?thesis
    using assms(2) ids bare_ids(2) [OF rebasedD(6) [OF assms(1)]] rebasedD(4) [OF assms(1)] by (simp add: history_ok_def)
qed

lemma rebased_inv:
  assumes "rebased s s'" "wi_inv U ig env k s"
  shows "wi_inv U ig env k s'"
proof -
  note d = rebasedD [OF assms(1)] and ids = rebased_chain [OF assms(1)] and i = wi_invD [OF assms(2)]
  have "files_ok U ig s'" using i(4) by (simp add: files_ok_def d ids)
  moreover have "blobs_ok env s'"
  proof -
    have "\<exists>c md. map_of (wi_blobs s') (fst f, df_path (snd f)) = Some (c, md) \<and> we_sha256 env c = df_hash (snd f)"
      if "f \<in> set (wi_snap_files s)" "df_change (snd f) \<noteq> CT_deleted" for f
      using i(5) that d(8) [OF that(1)] by (simp add: blobs_ok_def)
    moreover have "\<forall>b \<in> set (wi_blobs s'). fst (fst b) \<in> set (snap_ids s)" using i(5) d(7) by (auto simp: blobs_ok_def)
    ultimately show ?thesis using i(5) by (simp add: blobs_ok_def d(3,5) ids)
  qed
  moreover have "index_ok s'" using i(6) by (simp add: index_ok_def d(2) ids rebased_latest [OF assms(1)])
  moreover have "times_ok env k s'" using i(7) unfolding times_ok_def d(1,2) .
  moreover have "anchors_ok U ig s'" unfolding anchors_ok_def
  proof (intro ballI conjI allI impI)
    fix r assume r: "r \<in> set (wi_snaps s')"
    obtain q where q: "q \<in> set (wi_snaps s)" "bare q = bare r" by (rule rebased_row [OF assms(1) r])
    note b = bare_select [OF q(2)]
    show "p \<in> U" "p \<noteq> ignore_file" if "sn_anchor_path r = Some p" for p using i(8) q(1) b that by (auto simp: anchors_ok_def)
    show "latest s' (chain_from s' (sn_id r)) p \<noteq> None" if "sn_anchor_path r = Some p" "\<not> ignored ig p \<and> sn_anchor_exists r" for p
      using i(8) q(1) b that unfolding rebased_latest [OF assms(1)] ids anchors_ok_def by metis
    show "j \<in> set (snap_ids s')" if "sn_anchor_source r = Some j" for j
      using d(9) [OF r that] i(8) by (auto simp: anchors_ok_def ids)
  qed
  ultimately show ?thesis using i(1,2) rebased_history [OF assms(1) i(3)] by (simp add: wi_inv_def d)
qed

lemma rebased_view:
  assumes "rebased s s'" "wi_inv U ig env k s"
  shows "snapshot_view s' i p = snapshot_view s i p"
proof (cases "latest s (chain_from s i) p")
  case None
  then show ?thesis by (simp add: snapshot_view_def chain_view_def rebased_latest [OF assms(1)] rebased_chain [OF assms(1)])
next
  case (Some e)
  obtain j f where f: "(j, f) \<in> set (wi_snap_files s)" "df_path f = p" "e = entry_of j f"
    by (rule latest_file [OF Some wi_invD(4) [OF assms(2)]])
  have "map_of (wi_blobs s') (re_snap e, p) = map_of (wi_blobs s) (re_snap e, p)"
    using rebasedD(8) [OF assms(1) f(1)] f(2,3) by (simp add: entry_of_def)
  then show ?thesis
    using Some by (simp add: snapshot_view_def chain_view_def rebased_latest [OF assms(1)] rebased_chain [OF assms(1)])
qed

end
