(* ===== verification/Workspace_Theorems.thy ===== *)
theory Workspace_Theorems
  imports Workspace_Rebase
begin

text \<open>
  What the workspace index promises over any sequence of scans, snapshots, restores, anchor rebasing and edits of the
  workspace: the steps, the invariant they keep, and the properties of snapshots, restores and
  previews. An edit gives every file it changes a time later than the last one the index has seen; the
  patterns to ignore do not change; the paths that hold files never become directories
  (\<open>flat\<close>), and links stay outside the model of an edit. \<open>compact\<close> is modelled in
  \<open>Workspace_Maintenance\<close> but is not one of the steps: it does not carry over the files that kept
  snapshots share with those it deletes, so no snapshot keeps what it shows across it
  (\<open>compact_loses_files\<close> in \<open>Workspace_Samples\<close>).
\<close>

section \<open>The steps\<close>

definition fresh_id :: "wi \<Rightarrow> string \<Rightarrow> bool" where
  "fresh_id s i = (good_segment i \<and> i \<notin> set (snap_ids s))"

inductive ws_step :: "string set \<Rightarrow> string list \<Rightarrow> wi_env \<Rightarrow> wi \<times> int \<Rightarrow> wi \<times> int \<Rightarrow> bool" for U ig env where
  edit: "tree_ok U t \<Longrightarrow> loadIgnorePatterns env t = ig \<Longrightarrow> k \<le> k' \<Longrightarrow>
     (\<And>p. file_at t p = file_at (wi_tree s) p \<or> (\<forall>c m md. file_at t p = Some (c, m, md) \<longrightarrow> k < m \<and> m \<le> k')) \<Longrightarrow>
     ws_step U ig env (s, k) (s\<lparr>wi_tree := t\<rparr>, k')"
| scan: "ws_step U ig env (s, k) (snd (prepareScan env prep now s), k)"
| snapshot: "fresh_id s i \<Longrightarrow> anchor_arg U env (co_anchor opts) anchor \<Longrightarrow>
     ws_step U ig env (s, k) (snd (take_snapshot env prep i now opts s), k)"
| restore: "fresh_id s j \<Longrightarrow> k < now \<Longrightarrow> restore_snapshot env prep j now i s = Some (r, s') \<Longrightarrow>
     ws_step U ig env (s, k) (s', now)"
| restore_subset: "fresh_id s j \<Longrightarrow> k < now \<Longrightarrow> restoreSubset env prep j now i paths s = Some (r, s') \<Longrightarrow>
     ws_step U ig env (s, k) (s', now)"
| rebase: "ws_step U ig env (s, k) (snd (rebaseSyntheticAnchors env s), k)"

definition opened :: "string set \<Rightarrow> string list \<Rightarrow> wi_env \<Rightarrow> int \<Rightarrow> wi \<Rightarrow> bool" where
  "opened U ig env k s =
     (tree_ok U (wi_tree s) \<and> loadIgnorePatterns env (wi_tree s) = ig \<and> (\<forall>p c m md. file_at (wi_tree s) p = Some (c, m, md) \<longrightarrow> m \<le> k) \<and>
      wi_rows s = [] \<and> wi_snaps s = [] \<and> wi_snap_files s = [] \<and> wi_baseline s = 0 \<and> wi_blobs s = [] \<and> wi_manifests s = [])"

text \<open>A workspace at time \<open>k\<close>, some steps after the index was opened on it.\<close>

definition ws_reachable :: "string set \<Rightarrow> string list \<Rightarrow> wi_env \<Rightarrow> wi \<times> int \<Rightarrow> bool" where
  "ws_reachable U ig env sk = (\<exists>s k. opened U ig env k s \<and> (ws_step U ig env)\<^sup>*\<^sup>* (s, k) sk)"

section \<open>Every step keeps the invariant\<close>

lemma opened_inv: "opened U ig env k s \<Longrightarrow> wi_inv U ig env k s"
  by (simp add: opened_def wi_inv_def history_ok_def files_ok_def blobs_ok_def index_ok_def times_ok_def anchors_ok_def
      snap_ids_def chain_def row_matches_def)

lemma times_later: "times_ok env k s \<Longrightarrow> k \<le> k' \<Longrightarrow> times_ok env k' s"
  unfolding times_ok_def by (meson order_trans)

lemma inv_later: "wi_inv U ig env k s \<Longrightarrow> k \<le> k' \<Longrightarrow> wi_inv U ig env k' s"
  unfolding wi_inv_def using times_later by blast

lemma scan_tables:
  "wi_tree (snd (prepareScan env j now s)) = wi_tree s" "wi_rows (snd (prepareScan env j now s)) = wi_rows s"
  "wi_snaps (snd (prepareScan env j now s)) = wi_snaps s" "wi_snap_files (snd (prepareScan env j now s)) = wi_snap_files s"
  "wi_baseline (snd (prepareScan env j now s)) = wi_baseline s" "wi_blobs (snd (prepareScan env j now s)) = wi_blobs s"
  "wi_manifests (snd (prepareScan env j now s)) = wi_manifests s"
  by (simp_all add: prepareScan_def Let_def)

lemma scan_rebased: "wi_inv U ig env k s \<Longrightarrow> rebased s (snd (prepareScan env j now s))"
  by (auto simp: rebased_def scan_tables)

lemma edit_inv:
  assumes "wi_inv U ig env k s" "tree_ok U t" "loadIgnorePatterns env t = ig" "k \<le> k'"
    "\<And>p. file_at t p = file_at (wi_tree s) p \<or> (\<forall>c m md. file_at t p = Some (c, m, md) \<longrightarrow> k < m \<and> m \<le> k')"
  shows "wi_inv U ig env k' (s\<lparr>wi_tree := t\<rparr>)"
proof (rule wi_inv_tree [OF assms(1-3)])
  note old = wi_invD(7) [OF assms(1)]
  have "ir_mtime (snd r) \<le> k'" if "r \<in> set (wi_rows s)" for r using times_okD(1) [OF old that] assms(4) by simp
  moreover have "m \<le> k'" if "file_at t p = Some (c, m, md)" for p c m md
    using assms(4) assms(5) [of p] that times_okD(2) [OF old, of p c m md] by auto
  moreover have "ir_hash row = we_sha256 env c"
    if "map_of (wi_rows s) p = Some row" "\<not> ir_deleted row" "file_at t p = Some (c, ir_mtime row, md)" for p row c md
  proof -
    have "ir_mtime row \<le> k" using times_okD(1) [OF old map_of_SomeD [OF that(1)]] by simp
    then have "file_at (wi_tree s) p = Some (c, ir_mtime row, md)" using assms(5) [of p] that(3) by auto
    then show ?thesis by (rule times_okD(3) [OF old that(1,2)])
  qed
  ultimately show "times_ok env k' (s\<lparr>wi_tree := t\<rparr>)" unfolding times_ok_def by simp blast
qed

lemma restore_anchor:
  assumes "env_ok U env" "wi_inv U ig env k s" "r \<in> set (wi_snaps s)"
  shows "anchor_arg U env (sn_anchor_path r) (sn_anchor_path r)"
proof (cases "sn_anchor_path r")
  case (Some p)
  then have "p \<in> U" "p \<noteq> ignore_file" using wi_invD(8) [OF assms(2)] assms(3) by (auto simp: anchors_ok_def)
  moreover from this have "p \<noteq> []" "p \<noteq> ''.''" using canonical_U [OF assms(1)] canonical_ne canonical_not_dot by blast+
  ultimately show ?thesis using Some env_ok_resolve(1) [OF assms(1)] by (simp add: anchor_arg_def anchor_path_of_def)
qed (simp add: anchor_arg_def anchor_path_of_def)

section \<open>What a restore does\<close>

lemma restore_with_ok:
  assumes "env_ok U env" "wi_inv U ig env k s" "find_snap i s = Some r" "fresh_id s j" "k < now" "\<not> gone ignore_file"
    "\<And>rset. buildRestorationSet s i = Some rset \<Longrightarrow> \<exists>l t'. files r rset s = (Inr l, t') \<and> restored_tree U now s r sel gone t'"
  obtains res s' where "restore_with files env prep j now why i s = Some (Inr res, s')"
    "restored_tree U now s r sel gone (wi_tree s')" "wi_inv U ig env now s'" "snap_ids s' = snap_ids s @ [j]"
    "snapshot_view s' j = tracked_view ig (wi_tree s')"
    "\<forall>q \<in> set (snap_ids s). snapshot_view s' q = snapshot_view s q"
proof -
  obtain rset where b: "buildRestorationSet s i = Some rset" using restoration_set [OF assms(1-3)] by metis
  obtain l t where f: "files r rset s = (Inr l, t)" and rt: "restored_tree U now s r sel gone t" using assms(7) [OF b] by blast
  have r: "r \<in> set (wi_snaps s)"
    using assms(3) wi_invD(3) [OF assms(2)] find_snap_mem [of s i r] by (simp add: history_ok_def)
  let ?s = "s\<lparr>wi_tree := t\<rparr>"
  let ?opts = "\<lparr>co_reason = why, co_action = None, co_run = sn_run r, co_anchor = sn_anchor_path r\<rparr>"
  have inv: "wi_inv U ig env now ?s" by (rule restored_inv [OF assms(1,2) r rt assms(5,6)])
  have arg: "anchor_arg U env (co_anchor ?opts) (sn_anchor_path r)" using restore_anchor [OF assms(1,2) r] by simp
  have fresh: "j \<notin> set (snap_ids ?s)" "good_segment j" using assms(4) by (simp_all add: fresh_id_def)
  obtain row fs s' where t: "take_snapshot env prep j now ?opts ?s = (Inr (row, fs), s')"
    and s': "wi_tree s' = wi_tree ?s" "wi_inv U ig env now s'" "snapshot_view s' j = tracked_view ig (wi_tree ?s)"
      "snap_ids s' = snap_ids ?s @ [j]" "\<And>q. q \<in> set (snap_ids ?s) \<Longrightarrow> snapshot_view s' q = snapshot_view ?s q"
    using take_snapshot_ok [OF assms(1) inv arg fresh, of prep now] by metis
  have "restore_with files env prep j now why i s =
      Some (Inr \<lparr>rr_target = sn_id r, rr_files = l, rr_at = now, rr_recovery = sn_id row\<rparr>, s')"
    using t by (simp add: restore_with_def assms(3) b f record_recovery_def)
  then show ?thesis using that rt s' by simp
qed

lemma restore_unknown: "find_snap i s = None \<Longrightarrow> restore_snapshot env prep j now i s = Some (Inl (snapshot_not_found i), s)"
  by (simp add: restore_snapshot_def restore_with_def)

lemma restore_ok:
  assumes "env_ok U env" "wi_inv U ig env k s" "find_snap i s = Some r" "fresh_id s j" "k < now"
  obtains res s' where "restore_snapshot env prep j now i s = Some (Inr res, s')"
    "restored_tree U now s r (\<lambda>p. True) (\<lambda>p. p \<in> set (map fst (active_rows s))) (wi_tree s')"
    "wi_inv U ig env now s'" "snap_ids s' = snap_ids s @ [j]" "snapshot_view s' j = tracked_view ig (wi_tree s')"
    "\<forall>q \<in> set (snap_ids s). snapshot_view s' q = snapshot_view s q"
proof -
  have "ignored ig ignore_file" using ignore_file_ignored [of env "wi_tree s"] wi_invD(2) [OF assms(2)] by simp
  then have "\<not> ignore_file \<in> set (map fst (active_rows s))" using active_tracked(2) [OF assms(2)] by blast
  then show ?thesis
  proof (rule restore_with_ok [OF assms, where files = "restore_files env now" and sel = "\<lambda>p. True" and prep = prep and
        gone = "\<lambda>p. p \<in> set (map fst (active_rows s))" and why = "''recovery:restore''"])
    show "\<exists>l t'. restore_files env now r rset s = (Inr l, t') \<and>
        restored_tree U now s r (\<lambda>p. True) (\<lambda>p. p \<in> set (map fst (active_rows s))) t'"
      if "buildRestorationSet s i = Some rset" for rset by (rule restore_files_effect [OF assms(1-3) that])
  next
    fix res s'
    assume h: "restore_with (restore_files env now) env prep j now ''recovery:restore'' i s = Some (Inr res, s')"
      "restored_tree U now s r (\<lambda>p. True) (\<lambda>p. p \<in> set (map fst (active_rows s))) (wi_tree s')"
      "wi_inv U ig env now s'" "snap_ids s' = snap_ids s @ [j]" "snapshot_view s' j = tracked_view ig (wi_tree s')"
      "\<forall>q \<in> set (snap_ids s). snapshot_view s' q = snapshot_view s q"
    show ?thesis by (rule that [OF _ h(2-6)]) (use h(1) in \<open>simp_all add: restore_snapshot_def\<close>)
  qed
qed

lemma restore_subset_ok:
  assumes "env_ok U env" "wi_inv U ig env k s" "find_snap i s = Some r" "fresh_id s j" "k < now"
    "normalizeSubsetSelectors paths (we_root env) = Inr sels"
  obtains res s' where "restoreSubset env prep j now i paths s = Some (Inr res, s')"
    "restored_tree U now s r (\<lambda>p. pathMatchesSelectors p sels)
       (\<lambda>p. pathMatchesSelectors p sels \<and> tracked_view ig (wi_tree s) p \<noteq> None) (wi_tree s')"
    "wi_inv U ig env now s'" "snap_ids s' = snap_ids s @ [j]" "snapshot_view s' j = tracked_view ig (wi_tree s')"
    "\<forall>q \<in> set (snap_ids s). snapshot_view s' q = snapshot_view s q"
proof -
  have "ignored ig ignore_file" using ignore_file_ignored [of env "wi_tree s"] wi_invD(2) [OF assms(2)] by simp
  then have "\<not> (pathMatchesSelectors ignore_file sels \<and> tracked_view ig (wi_tree s) ignore_file \<noteq> None)"
    by (simp add: tracked_view_def)
  then show ?thesis
  proof (rule restore_with_ok [OF assms(1-5), where files = "\<lambda>r. restore_subset_files env now r sels" and prep = prep and
        sel = "\<lambda>p. pathMatchesSelectors p sels" and why = "''recovery:restore_subset''" and
        gone = "\<lambda>p. pathMatchesSelectors p sels \<and> tracked_view ig (wi_tree s) p \<noteq> None"])
    show "\<exists>l t'. restore_subset_files env now r sels rset s = (Inr l, t') \<and>
        restored_tree U now s r (\<lambda>p. pathMatchesSelectors p sels)
          (\<lambda>p. pathMatchesSelectors p sels \<and> tracked_view ig (wi_tree s) p \<noteq> None) t'"
      if "buildRestorationSet s i = Some rset" for rset by (rule restore_subset_effect [OF assms(1-3) that])
  next
    fix res s'
    assume h: "restore_with (\<lambda>r. restore_subset_files env now r sels) env prep j now ''recovery:restore_subset'' i s = Some (Inr res, s')"
      "restored_tree U now s r (\<lambda>p. pathMatchesSelectors p sels) (\<lambda>p. pathMatchesSelectors p sels \<and> tracked_view ig (wi_tree s) p \<noteq> None) (wi_tree s')"
      "wi_inv U ig env now s'" "snap_ids s' = snap_ids s @ [j]" "snapshot_view s' j = tracked_view ig (wi_tree s')"
      "\<forall>q \<in> set (snap_ids s). snapshot_view s' q = snapshot_view s q"
    show ?thesis by (rule that [OF _ h(2-6)]) (use h(1) in \<open>simp_all add: restoreSubset_def assms(3,6)\<close>)
  qed
qed

section \<open>Reachable workspaces\<close>

text \<open>A step keeps the invariant, the snapshots and what they show.\<close>

lemma rebased_keeps:
  assumes "rebased s s'" "wi_inv U ig env k s"
  shows "wi_inv U ig env k s' \<and> set (snap_ids s) \<subseteq> set (snap_ids s') \<and>
    (\<forall>i \<in> set (snap_ids s). snapshot_view s' i = snapshot_view s i)"
  using rebased_inv [OF assms] rebased_view [OF assms] rebased_chain(1) [OF assms(1)] by (simp add: fun_eq_iff)

lemma step_keeps:
  assumes "env_ok U env" "ws_step U ig env (s, k) (s', k')" "wi_inv U ig env k s"
  shows "wi_inv U ig env k' s' \<and> set (snap_ids s) \<subseteq> set (snap_ids s') \<and>
    (\<forall>i \<in> set (snap_ids s). snapshot_view s' i = snapshot_view s i)"
  using assms(2)
proof cases
  case (edit t)
  then show ?thesis using edit_inv [OF assms(3)] by simp
next
  case (scan prep now)
  then show ?thesis using rebased_keeps [OF scan_rebased [OF assms(3)] assms(3)] by simp
next
  case (snapshot i opts anchor prep now)
  have i: "i \<notin> set (snap_ids s)" "good_segment i" using snapshot(3) by (simp_all add: fresh_id_def)
  obtain row fs s1 where "take_snapshot env prep i now opts s = (Inr (row, fs), s1)" "wi_inv U ig env k s1"
    "snap_ids s1 = snap_ids s @ [i]" "\<And>q. q \<in> set (snap_ids s) \<Longrightarrow> snapshot_view s1 q = snapshot_view s q"
    using take_snapshot_ok [OF assms(1,3) snapshot(4) i, of prep now] by metis
  then show ?thesis using snapshot by auto
next
  case (restore j prep i r)
  show ?thesis
  proof (cases "find_snap i s")
    case None
    then show ?thesis using restore restore_unknown [of i s env prep j k'] inv_later [OF assms(3), of k'] by simp
  next
    case (Some row)
    obtain res s1 where "restore_snapshot env prep j k' i s = Some (Inr res, s1)" "wi_inv U ig env k' s1"
      "snap_ids s1 = snap_ids s @ [j]" "\<forall>q \<in> set (snap_ids s). snapshot_view s1 q = snapshot_view s q"
      using restore_ok [OF assms(1,3) Some restore(1,2), where prep = prep] by metis
    then show ?thesis using restore(3) by (simp add: subset_insertI)
  qed
next
  case (restore_subset j prep i paths r)
  show ?thesis
  proof (cases "find_snap i s")
    case None
    then show ?thesis using restore_subset inv_later [OF assms(3), of k'] by (simp add: restoreSubset_def)
  next
    case (Some row)
    show ?thesis
    proof (cases "normalizeSubsetSelectors paths (we_root env)")
      case (Inl e)
      then show ?thesis using Some restore_subset inv_later [OF assms(3), of k'] by (simp add: restoreSubset_def)
    next
      case (Inr sels)
      obtain res s1 where "restoreSubset env prep j k' i paths s = Some (Inr res, s1)" "wi_inv U ig env k' s1"
        "snap_ids s1 = snap_ids s @ [j]" "\<forall>q \<in> set (snap_ids s). snapshot_view s1 q = snapshot_view s q"
        using restore_subset_ok [OF assms(1,3) Some restore_subset(1,2) Inr, where prep = prep] by metis
      then show ?thesis using restore_subset(3) by (simp add: subset_insertI)
    qed
  qed
next
  case rebase
  then show ?thesis using rebased_keeps [OF rebase_rebased assms(3)] by simp
qed

lemma steps_keep:
  assumes "env_ok U env" "(ws_step U ig env)\<^sup>*\<^sup>* sk sk'" "wi_inv U ig env (snd sk) (fst sk)"
  shows "wi_inv U ig env (snd sk') (fst sk') \<and> set (snap_ids (fst sk)) \<subseteq> set (snap_ids (fst sk')) \<and>
    (\<forall>i \<in> set (snap_ids (fst sk)). snapshot_view (fst sk') i = snapshot_view (fst sk) i)"
  using assms(2,3)
proof (induction rule: rtranclp_induct)
  case (step a b)
  then show ?case using step_keeps [OF assms(1), of ig "fst a" "snd a" "fst b" "snd b"] by auto
qed simp

lemma reachable_inv: "env_ok U env \<Longrightarrow> ws_reachable U ig env (s, k) \<Longrightarrow> wi_inv U ig env k s"
  using steps_keep opened_inv unfolding ws_reachable_def by (metis fst_conv snd_conv)

text \<open>A snapshot shows the workspace it was taken of, whatever happens afterwards.\<close>

lemma view_after_steps:
  assumes "env_ok U env" "ws_reachable U ig env (s, k)" "fresh_id s i" "anchor_arg U env (co_anchor opts) anchor"
    "(ws_step U ig env)\<^sup>*\<^sup>* (snd (take_snapshot env prep i now opts s), k) (s2, k2)"
  shows "wi_inv U ig env k2 s2 \<and> i \<in> set (snap_ids s2) \<and> snapshot_view s2 i = tracked_view ig (wi_tree s)"
proof -
  note inv = reachable_inv [OF assms(1,2)]
  have i: "i \<notin> set (snap_ids s)" "good_segment i" using assms(3) by (simp_all add: fresh_id_def)
  obtain row fs s1 where s1: "take_snapshot env prep i now opts s = (Inr (row, fs), s1)" "wi_inv U ig env k s1"
    "snap_ids s1 = snap_ids s @ [i]" "snapshot_view s1 i = tracked_view ig (wi_tree s)"
    using take_snapshot_ok [OF assms(1) inv assms(4) i, of prep now] by metis
  then show ?thesis using steps_keep [OF assms(1,5)] by auto
qed

lemma find_snap_of:
  assumes "wi_inv U ig env k s" "i \<in> set (snap_ids s)"
  obtains r where "find_snap i s = Some r" "r \<in> set (wi_snaps s)" "sn_id r = i"
  using assms find_snap_None [of i s] find_snap_mem [of s i] wi_invD(3) [OF assms(1)]
  by (cases "find_snap i s") (auto simp: history_ok_def)

lemma no_entry_view: "target_entry s r p = None \<Longrightarrow> snapshot_view s (sn_id r) p = None"
  by (auto simp: target_entry_def snapshot_view_def chain_view_def split: option.splits if_splits)

section \<open>Properties\<close>

text \<open>C38: A snapshot can be restored until the index is compacted. Once a snapshot of a reachable workspace has been taken, then
  after any sequence of edits, scans, further snapshots, restores and anchor rebasing, restoring it for some
  selectors succeeds, gives every selected path the content and mode it had when the snapshot was taken, or
  removes it when it did not exist, and leaves every other path as it is. Edits follow the rules of
  \<open>ws_step\<close>: no path changes between a file and a directory, an edited file has a time later than all the index has seen,
  and the ignore patterns stay. Compaction is no such step: after it the
  claim is false (\<open>compact_loses_files\<close>). Ignored paths are not looked at.\<close>

theorem snapshot_survives:
  assumes "env_ok U env" "ws_reachable U ig env (s, k)" "fresh_id s i" "anchor_arg U env (co_anchor opts) anchor"
    "(ws_step U ig env)\<^sup>*\<^sup>* (snd (take_snapshot env prep i now opts s), k) (s2, k2)"
    "normalizeSubsetSelectors paths (we_root env) = Inr sels" "fresh_id s2 j" "k2 < now2"
  shows "\<exists>res s3. restoreSubset env prep2 j now2 i paths s2 = Some (Inr res, s3) \<and>
    (\<forall>p. tracked_view ig (wi_tree s3) p =
       (if pathMatchesSelectors p sels then tracked_view ig (wi_tree s) p else tracked_view ig (wi_tree s2) p))"
proof -
  have s2: "wi_inv U ig env k2 s2" "i \<in> set (snap_ids s2)" and v: "snapshot_view s2 i = tracked_view ig (wi_tree s)"
    using view_after_steps [OF assms(1-5)] by blast+
  obtain r where r: "find_snap i s2 = Some r" "r \<in> set (wi_snaps s2)" "sn_id r = i" by (rule find_snap_of [OF s2])
  obtain res s3 where s3: "restoreSubset env prep2 j now2 i paths s2 = Some (Inr res, s3)"
    and t: "restored_tree U now2 s2 r (\<lambda>p. pathMatchesSelectors p sels)
       (\<lambda>p. pathMatchesSelectors p sels \<and> tracked_view ig (wi_tree s2) p \<noteq> None) (wi_tree s3)"
    and "wi_inv U ig env now2 s3" "snap_ids s3 = snap_ids s2 @ [j]" "snapshot_view s3 j = tracked_view ig (wi_tree s3)"
      "\<forall>q \<in> set (snap_ids s2). snapshot_view s3 q = snapshot_view s2 q"
    by (rule restore_subset_ok [OF assms(1) s2(1) r(1) assms(7,8,6), where prep = prep2])
  have "tracked_view ig (wi_tree s3) p =
      (if pathMatchesSelectors p sels then tracked_view ig (wi_tree s) p else tracked_view ig (wi_tree s2) p)" for p
  proof (cases "ignored ig p")
    case True
    then show ?thesis by (simp add: tracked_view_def)
  next
    case False
    then show ?thesis using restored_view [OF s2(1) r(2) t False] no_entry_view [of s2 r p] v r(3)
      by (auto simp del: not_None_eq)
  qed
  then show ?thesis using s3 by blast
qed

text \<open>C39: Restoring the whole workspace. In a workspace where no path changes between a file and a directory, and whose
  index has not been compacted (both are rules of \<open>ws_step\<close>), the restore of a snapshot succeeds, brings back every tracked
  file it shows, and removes every other file that the index knows. A file created after the last scan, which the
  index does not know, is left in place (\<open>restore_keeps_unscanned\<close>). Without the first condition a restore
  can lose a path the snapshot shows, or fail (\<open>restore_removes_directory\<close>, \<open>restore_stops\<close>), without the second it can
  remove an unchanged file (\<open>compact_loses_files\<close>).\<close>

theorem restore_snapshot_view:
  assumes "env_ok U env" "ws_reachable U ig env (s, k)" "i \<in> set (snap_ids s)" "fresh_id s j" "k < now"
  shows "\<exists>res s'. restore_snapshot env prep j now i s = Some (Inr res, s') \<and>
    (\<forall>p. tracked_view ig (wi_tree s') p = snapshot_view s i p \<or>
       (snapshot_view s i p = None \<and> p \<notin> set (map fst (active_rows s)) \<and>
        tracked_view ig (wi_tree s') p = tracked_view ig (wi_tree s) p))"
proof -
  note inv = reachable_inv [OF assms(1,2)]
  obtain r where r: "find_snap i s = Some r" "r \<in> set (wi_snaps s)" "sn_id r = i" by (rule find_snap_of [OF inv assms(3)])
  obtain res s' where s': "restore_snapshot env prep j now i s = Some (Inr res, s')"
    and t: "restored_tree U now s r (\<lambda>p. True) (\<lambda>p. p \<in> set (map fst (active_rows s))) (wi_tree s')"
    using restore_ok [OF assms(1) inv r(1) assms(4,5), where prep = prep] by metis
  have "tracked_view ig (wi_tree s') p = snapshot_view s i p \<or>
      (snapshot_view s i p = None \<and> p \<notin> set (map fst (active_rows s)) \<and>
       tracked_view ig (wi_tree s') p = tracked_view ig (wi_tree s) p)" for p
  proof (cases "ignored ig p")
    case True
    have "latest s (chain_from s i) p = None"
      using entry_tracked(2) [OF inv, of "chain_from s i" p] True by (cases "latest s (chain_from s i) p") blast+
    then show ?thesis using True by (simp add: tracked_view_def snapshot_view_def chain_view_def)
  next
    case False
    show ?thesis
    proof (cases "target_entry s r p")
      case None
      then show ?thesis using restored_view [OF inv r(2) t False] no_entry_view [OF None] r(3)
        by (cases "p \<in> set (map fst (active_rows s))") simp_all
    next
      case (Some e)
      then show ?thesis using restored_view [OF inv r(2) t False] r(3) by simp
    qed
  qed
  then show ?thesis using s' by blast
qed

text \<open>The paths a preview reports.\<close>

lemma live_map_view:
  assumes "env_ok U env" "tree_ok U t" "loadIgnorePatterns env t = ig"
  shows "distinct (map fst (live_map env sel t))"
    "map_of (live_map env sel t) p = (if sel p then map_option (\<lambda>x. (we_sha256 env (fst x), snd x)) (tracked_view ig t p) else None)"
proof -
  let ?es = "filter (\<lambda>e. sel (fe_path e)) (walkWorkspace t ig)"
  have m: "map fst (live_map env sel t) = map fe_path ?es" by (simp add: live_map_def assms(3))
  then show d: "distinct (map fst (live_map env sel t))"
    using walk_distinct [OF assms(2), of ig] by (simp add: distinct_map_filter)
  show "map_of (live_map env sel t) p =
      (if sel p then map_option (\<lambda>x. (we_sha256 env (fst x), snd x)) (tracked_view ig t p) else None)"
  proof (cases "sel p \<and> tracked_view ig t p \<noteq> None")
    case True
    then obtain c m md where c: "file_at t p = Some (c, m, md)" "\<not> ignored ig p" by (auto simp: tracked_view_def split: if_splits)
    let ?e = "\<lparr>fe_path = p, fe_mtime = m, fe_size = length c, fe_mode = md\<rparr>"
    have "?e \<in> set (walkWorkspace t ig)" using c by (simp add: walk_mem [OF assms(2)])
    moreover have "entry_hash env t ?e = we_sha256 env c"
      using file_content_flat [OF assms(1,2) file_at_flat [OF assms(2) c(1)]] c(1) by (simp add: entry_hash_def)
    ultimately have "(p, (we_sha256 env c, md)) \<in> set (live_map env sel t)"
      using True assms(3) by (force simp: live_map_def)
    then show ?thesis using True c d by (simp add: tracked_view_def)
  next
    case False
    then have "p \<notin> set (map fst (live_map env sel t))" unfolding m using walk_path_mem [OF assms(2), of p ig] by auto
    then have "map_of (live_map env sel t) p = None" by (simp add: map_of_eq_None_iff)
    then show ?thesis using False by (cases "tracked_view ig t p") simp_all
  qed
qed

lemma entry_view_differs:
  assumes "env_ok U env" "wi_inv U ig env k s" "r \<in> set (wi_snaps s)" "\<And>p. sn_anchor_path r = Some p \<Longrightarrow> \<not> ignored ig p"
    and live: "\<And>p. map_of live p =
      (if True then map_option (\<lambda>x. (we_sha256 env (fst x), snd x)) (tracked_view ig (wi_tree s) p) else None)"
  shows "(case target_entry s r p of None \<Rightarrow> tracked_view ig (wi_tree s) p \<noteq> None | Some e \<Rightarrow> entry_differs live (p, e)) \<longleftrightarrow>
    tracked_view ig (wi_tree s) p \<noteq> snapshot_view s (sn_id r) p"
proof (cases "latest s (chain_from s (sn_id r)) p")
  case None
  then have v: "snapshot_view s (sn_id r) p = None" by (simp add: snapshot_view_def chain_view_def)
  show ?thesis
  proof (cases "sn_anchor_path r = Some p")
    case True
    then have "\<not> sn_anchor_exists r" using wi_invD(8) [OF assms(2)] assms(3,4) None by (auto simp: anchors_ok_def)
    then show ?thesis using v None True live [of p]
      by (cases "tracked_view ig (wi_tree s) p") (simp_all add: target_entry_def entry_differs_def anchor_entry_def split: prod.split)
  qed (use None v in \<open>simp add: target_entry_def\<close>)
next
  case (Some e)
  then have te: "target_entry s r p = Some e" by (simp add: target_entry_def)
  show ?thesis
  proof (cases "re_deleted e")
    case True
    then show ?thesis using Some te live [of p]
      by (cases "tracked_view ig (wi_tree s) p") (simp_all add: snapshot_view_def chain_view_def entry_differs_def split: prod.split)
  next
    case False
    obtain c md where b: "map_of (wi_blobs s) (re_snap e, p) = Some (c, md)" "we_sha256 env c = re_hash e"
      by (rule blob_of_entry [OF assms(2) Some False])
    then have "snapshot_view s (sn_id r) p = Some (c, re_mode e)" using Some False by (simp add: snapshot_view_def chain_view_def)
    moreover have "we_sha256 env c' = re_hash e \<longleftrightarrow> c' = c" for c' unfolding b(2) [symmetric] by (rule inj_eq [OF env_ok_flat(2) [OF assms(1)]])
    ultimately show ?thesis using te False live [of p]
      by (cases "tracked_view ig (wi_tree s) p") (simp_all add: entry_differs_def prod_eq_iff)
  qed
qed

lemma changed_paths_view:
  assumes "env_ok U env" "wi_inv U ig env k s" "r \<in> set (wi_snaps s)" "distinct (map fst rset)" "map_of rset = target_entry s r"
    and "\<And>p. sn_anchor_path r = Some p \<Longrightarrow> \<not> ignored ig p"
  shows "distinct (changed_paths (live_map env (\<lambda>p. True) (wi_tree s)) rset)"
    "set (changed_paths (live_map env (\<lambda>p. True) (wi_tree s)) rset) =
       {p. tracked_view ig (wi_tree s) p \<noteq> snapshot_view s (sn_id r) p}"
proof -
  let ?live = "live_map env (\<lambda>p. True) (wi_tree s)"
  note live = live_map_view [OF assms(1) wi_invD(1,2) [OF assms(2)], of "\<lambda>p. True"]
  have dom: "p \<in> set (map fst ?live) \<longleftrightarrow> tracked_view ig (wi_tree s) p \<noteq> None" for p
    using live(2) [of p] map_of_eq_None_iff [of ?live p] by (cases "tracked_view ig (wi_tree s) p") simp_all
  then have u: "p \<in> set (unlisted ?live rset) \<longleftrightarrow> map_of rset p = None \<and> tracked_view ig (wi_tree s) p \<noteq> None" for p
    unfolding unlisted_def by auto
  show "distinct (changed_paths ?live rset)"
    using distinct_map_filter [OF assms(4)] distinct_filter [OF live(1)]
    unfolding changed_paths_def unlisted_def distinct_append by (auto simp: map_of_eq_None_iff)
  show "set (changed_paths ?live rset) = {p. tracked_view ig (wi_tree s) p \<noteq> snapshot_view s (sn_id r) p}"
  proof (rule set_eqI)
    fix p
    have e: "p \<in> fst ` set (filter (entry_differs ?live) rset) \<longleftrightarrow> (\<exists>e. target_entry s r p = Some e \<and> entry_differs ?live (p, e))"
    proof
      assume "p \<in> fst ` set (filter (entry_differs ?live) rset)"
      then obtain e where "(p, e) \<in> set rset" "entry_differs ?live (p, e)" by auto
      then show "\<exists>e. target_entry s r p = Some e \<and> entry_differs ?live (p, e)"
        using map_of_is_SomeI [OF assms(4)] assms(5) by metis
    next
      assume "\<exists>e. target_entry s r p = Some e \<and> entry_differs ?live (p, e)"
      then obtain e where "map_of rset p = Some e" "entry_differs ?live (p, e)" unfolding assms(5) by blast
      then have "(p, e) \<in> set (filter (entry_differs ?live) rset)" by (simp add: map_of_SomeD)
      then show "p \<in> fst ` set (filter (entry_differs ?live) rset)" by (rule image_eqI [rotated]) simp
    qed
    have "p \<in> set (changed_paths ?live rset) \<longleftrightarrow>
        (case target_entry s r p of None \<Rightarrow> tracked_view ig (wi_tree s) p \<noteq> None | Some e \<Rightarrow> entry_differs ?live (p, e))"
      unfolding changed_paths_def set_append Un_iff set_map e u assms(5) by (cases "target_entry s r p") simp_all
    also have "\<dots> \<longleftrightarrow> tracked_view ig (wi_tree s) p \<noteq> snapshot_view s (sn_id r) p"
      by (rule entry_view_differs [OF assms(1-3,6) live(2)])
    finally show "p \<in> set (changed_paths ?live rset) \<longleftrightarrow> p \<in> {p. tracked_view ig (wi_tree s) p \<noteq> snapshot_view s (sn_id r) p}" by simp
  qed
qed


end
