(* ===== verification/Recovery_Theorems.thy ===== *)
theory Recovery_Theorems
  imports Recovery_Engine Workspace_Theorems
begin

text \<open>
  What planning and executing a recovery may do. The planning functions only read: the laws of the
  port of the snapshot engine are a locale, which the local engine satisfies.
\<close>

section \<open>Effects\<close>

lemma eff_bind_Some:
  "eff_bind m f s = Some (r, s') \<longleftrightarrow>
     (\<exists>e. m s = Some (Inl e, s') \<and> r = Inl e) \<or> (\<exists>x t. m s = Some (Inr x, t) \<and> f x t = Some (r, s'))"
  by (auto simp: eff_bind_def split: option.splits sum.splits prod.splits)

lemma eff_simps [simp]:
  "eff_return x s = Some (r, s') \<longleftrightarrow> r = Inr x \<and> s' = s"
  "eff_throw e s = Some (r, s') \<longleftrightarrow> r = Inl e \<and> s' = s"
  by (auto simp: eff_return_def eff_throw_def)

lemma eff_catch_Some:
  "eff_catch h m s = Some (r, s') \<longleftrightarrow>
     (\<exists>e. m s = Some (Inl e, s') \<and> r = h e) \<or> (\<exists>x. m s = Some (Inr x, s') \<and> r = Inr x)"
  by (auto simp: eff_catch_def split: option.splits sum.splits prod.splits)

text \<open>An effect that keeps what a view of the state shows.\<close>

definition keeps :: "('s \<Rightarrow> 'v) \<Rightarrow> ('s, 'a) eff \<Rightarrow> bool" where
  "keeps view m = (\<forall>s r s'. m s = Some (r, s') \<longrightarrow> view s' = view s)"

lemma keepsD: "keeps view m \<Longrightarrow> m s = Some (r, s') \<Longrightarrow> view s' = view s"
  unfolding keeps_def by blast

lemma keeps_bind: "keeps view m \<Longrightarrow> (\<And>x. keeps view (f x)) \<Longrightarrow> keeps view (eff_bind m f)"
  unfolding keeps_def eff_bind_Some by metis

lemma keeps_simps [simp]: "keeps view (eff_return x)" "keeps view (eff_throw e)"
  by (simp_all add: keeps_def)

section \<open>The port of the engine\<close>

locale snapshot_reader =
  fixes port :: "'s snapshot_port" and view :: "'s \<Rightarrow> 'v"
  assumes manifest_reads: "keeps view (sp_manifest port i)"
    and preview_reads: "keeps view (sp_preview port i)"
    and preview_subset_reads: "keeps view (sp_preview_subset port i ps)"
    and verify_reads: "keeps view (sp_verify port i)"
begin

lemma load_reads: "keeps view (loadRecoverySnapshotManifest port i)"
  unfolding loadRecoverySnapshotManifest_def by (intro keeps_bind manifest_reads) (simp split: option.split)

lemma plan_reads: "keeps view (planSnapshotRecovery port registry state d i)"
  unfolding planSnapshotRecovery_def by (intro keeps_bind load_reads preview_reads verify_reads) simp

lemma subset_plan_reads: "keeps view (planPathSubsetRecovery port state d i ps)"
proof -
  have "keeps view (subset_plan port state d i ps b ok)" for b ok
    unfolding subset_plan_def by (auto intro!: keeps_bind preview_subset_reads)
  then show ?thesis unfolding planPathSubsetRecovery_def by (intro keeps_bind load_reads verify_reads)
qed

text \<open>A recovery that changes something was planned as reversible or compensatable.\<close>

lemma execute_changes:
  assumes "executeSnapshotRecovery port registry state d now i s = Some (r, s')" "view s' \<noteq> view s"
  obtains plan t where "planSnapshotRecovery port registry state d i s = Some (Inr plan, t)"
    "pl_class plan = RC_compensatable \<or> pl_class plan = RC_reversible"
proof -
  have "\<exists>plan t. planSnapshotRecovery port registry state d i s = Some (Inr plan, t) \<and>
      (pl_class plan = RC_compensatable \<or> pl_class plan = RC_reversible)"
  proof (rule ccontr)
    assume no: "\<not> (\<exists>plan t. planSnapshotRecovery port registry state d i s = Some (Inr plan, t) \<and>
      (pl_class plan = RC_compensatable \<or> pl_class plan = RC_reversible))"
    consider e where "planSnapshotRecovery port registry state d i s = Some (Inl e, s')"
      | plan t where "planSnapshotRecovery port registry state d i s = Some (Inr plan, t)"
          "eff_bind (loadRecoverySnapshotManifest port i) (\<lambda>b. eff_bind (sp_preview port i) (\<lambda>pv. eff_bind (sp_verify port i)
             (\<lambda>ok. eff_throw (precondition ''This recovery plan requires manual review or adapter-specific compensation.'')))) t
           = Some (r, s')"
      using assms(1) no unfolding executeSnapshotRecovery_def eff_bind_Some [of "planSnapshotRecovery port registry state d i"]
      by (auto split: if_splits)
    then show False
    proof cases
      case 1
      then show ?thesis using keepsD [OF plan_reads] assms(2) by metis
    next
      case 2
      have "keeps view (eff_bind (loadRecoverySnapshotManifest port i) (\<lambda>b. eff_bind (sp_preview port i) (\<lambda>pv. eff_bind (sp_verify port i)
          (\<lambda>ok. eff_throw (precondition ''This recovery plan requires manual review or adapter-specific compensation.'')))))"
        by (intro keeps_bind load_reads preview_reads verify_reads) simp
      from keepsD [OF this 2(2)] keepsD [OF plan_reads 2(1)] show ?thesis using assms(2) by simp
    qed
  qed
  then show ?thesis using that by blast
qed

lemma execute_subset_changes:
  assumes "executePathSubsetRecovery port state d now i ps s = Some (r, s')" "view s' \<noteq> view s"
  obtains plan t where "planPathSubsetRecovery port state d i ps s = Some (Inr plan, t)" "pl_class plan = RC_reversible"
proof -
  have "\<exists>plan t. planPathSubsetRecovery port state d i ps s = Some (Inr plan, t) \<and> pl_class plan = RC_reversible"
  proof (rule ccontr)
    assume no: "\<not> (\<exists>plan t. planPathSubsetRecovery port state d i ps s = Some (Inr plan, t) \<and> pl_class plan = RC_reversible)"
    have "\<exists>x. planPathSubsetRecovery port state d i ps s = Some (x, s')"
      using assms(1) no unfolding executePathSubsetRecovery_def eff_bind_Some by (auto split: if_splits)
    then show False using keepsD [OF subset_plan_reads] assms(2) by metis
  qed
  then show ?thesis using that by blast
qed

end

section \<open>The local engine only reads when it is asked\<close>

definition engine_view :: "engine \<Rightarrow> (string \<Rightarrow> wi) \<times> (string \<times> boundary) list \<times> (string \<times> legacy_snapshot) list" where
  "engine_view st = ((\<lambda>rt. index_of rt st), en_metadata st, en_legacy st)"

lemma index_of_update:
  "index_of rt (st\<lparr>en_indexes := AList.update r s (en_indexes st)\<rparr>) = (if rt = r then s else index_of rt st)"
  by (simp add: index_of_def update_conv' cong: option.case_cong)

lemma index_of_other [simp]:
  "index_of rt (st\<lparr>en_open := os\<rparr>) = index_of rt st" "index_of rt (st\<lparr>en_snaps_dir := b\<rparr>) = index_of rt st"
  "index_of rt (st\<lparr>en_metadata := md\<rparr>) = index_of rt st"
  by (simp_all add: index_of_def cong: option.case_cong)

lemma open_index_view:
  "index_of rt (getWorkspaceIndex env r st) = index_of rt st" "en_metadata (getWorkspaceIndex env r st) = en_metadata st"
  "en_legacy (getWorkspaceIndex env r st) = en_legacy st"
proof -
  let ?r = "resolve_root env r"
  let ?st = "st\<lparr>en_open := en_open st @ [?r], en_snaps_dir := True, en_indexes := AList.update ?r (index_of ?r st) (en_indexes st)\<rparr>"
  have "index_of rt ?st = index_of rt st" by (simp add: index_of_def update_conv' cong: option.case_cong)
  then show "index_of rt (getWorkspaceIndex env r st) = index_of rt st" by (simp add: getWorkspaceIndex_def Let_def)
qed (simp_all add: getWorkspaceIndex_def Let_def)

lemma with_index_Some:
  assumes "with_index env rt f st = Some (res, st')"
  obtains s where "f (index_env env (resolve_root env rt)) (index_of (resolve_root env rt) st) = Some (res, s)"
    "index_of q st' = (if q = resolve_root env rt then s else index_of q st)"
    "en_metadata st' = en_metadata st" "en_legacy st' = en_legacy st"
proof -
  let ?r = "resolve_root env rt" and ?st = "getWorkspaceIndex env rt st"
  obtain s where s: "f (index_env env ?r) (index_of ?r ?st) = Some (res, s)"
    and st': "st' = ?st\<lparr>en_indexes := AList.update ?r s (en_indexes ?st), en_snaps_dir := (en_snaps_dir ?st \<or> wi_manifests s \<noteq> [])\<rparr>"
    using assms by (auto simp: with_index_def Let_def)
  have "index_of q (?st\<lparr>en_indexes := AList.update ?r s (en_indexes ?st), en_snaps_dir := b\<rparr>) =
      (if q = ?r then s else index_of q ?st)" for q b by (simp add: index_of_def update_conv' cong: option.case_cong)
  then show ?thesis using that s st' open_index_view by simp
qed

lemma with_index_keeps:
  assumes "\<And>we s r s'. f we s = Some (r, s') \<Longrightarrow> s' = s"
  shows "keeps engine_view (with_index env rt f)"
  unfolding keeps_def
proof (intro allI impI)
  fix st r st' assume w: "with_index env rt f st = Some (r, st')"
  have "index_of q st' = index_of q st" for q using with_index_Some [OF w, of q] assms by metis
  moreover have "en_metadata st' = en_metadata st" "en_legacy st' = en_legacy st" using with_index_Some [OF w] by metis+
  ultimately show "engine_view st' = engine_view st" by (simp add: engine_view_def)
qed

lemma ask_index_same: "ask_index f we s = Some (r, s') \<Longrightarrow> s' = s"
  by (simp add: ask_index_def)

lemma keeps_state: "(\<And>s. \<exists>m'. m s = m' s \<and> keeps view m') \<Longrightarrow> keeps view m"
  unfolding keeps_def by metis

interpretation local_engine: snapshot_reader "engine_port env d" engine_view for env d
proof
  fix i ps
  have ask: "keeps engine_view (with_index env rt (ask_index f))" for rt and f :: "wi_env \<Rightarrow> wi \<Rightarrow> bool"
    by (rule with_index_keeps) (rule ask_index_same)
  have opt: "keeps engine_view (with_index env rt (\<lambda>we s. map_option (\<lambda>r. (r, s)) (f we s)))" for rt f
    by (rule with_index_keeps) auto
  show "keeps engine_view (sp_manifest (engine_port env d) i)"
    by (simp add: engine_port_def keeps_def engine_manifest_def)
  show "keeps engine_view (sp_preview (engine_port env d) i)"
  proof (rule keeps_state)
    fix st
    show "\<exists>m'. sp_preview (engine_port env d) i st = m' st \<and> keeps engine_view m'"
      using opt unfolding engine_port_def engine_preview_def
      by (cases "loadLayeredManifest i st"; cases "map_of (en_legacy st) i"; auto split: if_splits; fastforce)
  qed
  show "keeps engine_view (sp_preview_subset (engine_port env d) i ps)"
  proof (rule keeps_state)
    fix st
    show "\<exists>m'. sp_preview_subset (engine_port env d) i ps st = m' st \<and> keeps engine_view m'"
      using opt unfolding engine_port_def engine_preview_subset_def by (cases "loadLayeredManifest i st"; fastforce)
  qed
  show "keeps engine_view (sp_verify (engine_port env d) i)"
  proof (rule keeps_state)
    fix st
    show "\<exists>m'. sp_verify (engine_port env d) i st = m' st \<and> keeps engine_view m'"
      using ask unfolding engine_port_def verifyIntegrity_def
      by (cases "loadLayeredManifest i st"; cases "map_of (en_legacy st) i"; auto split: if_splits; fastforce)
  qed
qed

section \<open>Which recoveries are automatic\<close>

definition capability_trusted :: "cached_capability_state option \<Rightarrow> boundary \<Rightarrow> bool" where
  "capability_trusted state b =
     (case state of
        None \<Rightarrow> True
      | Some cc \<Rightarrow>
          \<not> cc_is_stale cc \<and>
          (case findWorkspaceCapabilityForManifest b (cc_capabilities cc) of None \<Rightarrow> False | Some w \<Rightarrow> cap_status w = CS_available) \<and>
          (case findCapability_in (cc_capabilities cc) ''host.runtime_storage'' of None \<Rightarrow> False | Some h \<Rightarrow> cap_status h = CS_available))"

lemma evaluate_trusted: "evaluateRestoreCapabilityState b state = None \<longleftrightarrow> capability_trusted state b"
  by (auto simp: evaluateRestoreCapabilityState_def capability_trusted_def split: option.splits)

lemma review_plan_class [simp]: "pl_class (review_plan d target conf im ws why g) = RC_review_only"
  by (simp add: review_plan_def)

lemma plan_class_simps [simp]:
  "pl_class (createReviewOnlyPlan d i b ok pv why extra omit) = RC_review_only"
  "pl_class (createPathSubsetReviewOnlyPlan d i ps b ok) = RC_review_only"
  "pl_class (createCapabilityReviewOnlyPlan d target b pv loss why') = RC_review_only"
  "pl_class (createCompensatablePlan d i pv c) = RC_compensatable"
  "pl_class (reversible_plan d target strategy b ok pv g) = RC_reversible"
  by (simp_all add: createReviewOnlyPlan_def createPathSubsetReviewOnlyPlan_def createCapabilityReviewOnlyPlan_def
      createCompensatablePlan_def reversible_plan_def Let_def)

definition automatic :: "'s compensation_strategy list option \<Rightarrow> cached_capability_state option \<Rightarrow> boundary \<Rightarrow> bool" where
  "automatic registry state b =
     (if metadata_only b then resolve_compensation registry b \<noteq> None
      else bd_operation_domain b \<noteq> Some ''shell'' \<and> capability_trusted state b)"

lemma snapshot_plan_class:
  "pl_class (snapshot_plan registry state d i b pv ok) =
     (if \<not> automatic registry state b then RC_review_only else if metadata_only b then RC_compensatable else RC_reversible)"
  by (auto simp: snapshot_plan_def automatic_def requiresSnapshotManualReview_def evaluate_trusted [symmetric] split: option.splits)

lemma load_Some:
  "loadRecoverySnapshotManifest port i s = Some (Inr b, t) \<longleftrightarrow> sp_manifest port i s = Some (Inr (Some b), t)"
  by (auto simp: loadRecoverySnapshotManifest_def eff_bind_Some split: option.splits)

lemma engine_port_sel [simp]:
  "sp_manifest (engine_port env d) = engine_manifest env" "sp_restore (engine_port env d) = engine_restore env d"
  "sp_restore_subset (engine_port env d) = engine_restore_subset env d" "sp_verify (engine_port env d) = verifyIntegrity env"
  "sp_preview (engine_port env d) = engine_preview env" "sp_preview_subset (engine_port env d) = engine_preview_subset env"
  by (simp_all add: engine_port_def)

lemma plan_Some:
  assumes "planSnapshotRecovery (engine_port env e) registry state d i st = Some (Inr plan, t)"
  obtains b pv ok where "boundary_of env i st = Inr (Some b)" "plan = snapshot_plan registry state d i b pv ok"
  using assms by (auto simp: planSnapshotRecovery_def eff_bind_Some load_Some engine_manifest_def)

lemma subset_plan_Some:
  assumes "planPathSubsetRecovery (engine_port env e) state d i ps st = Some (Inr plan, t)"
  obtains b ok st1 where "boundary_of env i st = Inr (Some b)" "subset_plan (engine_port env e) state d i ps b ok st1 = Some (Inr plan, t)"
  using assms by (auto simp: planPathSubsetRecovery_def eff_bind_Some load_Some engine_manifest_def)

lemma subset_plan_class:
  assumes "subset_plan port state d i ps b ok s = Some (Inr plan, t)"
  shows "pl_class plan = (if metadata_only b \<or> bd_operation_domain b = Some ''shell'' \<or> \<not> capability_trusted state b
    then RC_review_only else RC_reversible)"
  using assms by (auto simp: subset_plan_def eff_bind_Some requiresSnapshotManualReview_def evaluate_trusted [symmetric]
      split: if_splits option.splits)


end
