(* ===== verification/Workspace_Samples.thy ===== *)
theory Workspace_Samples
  imports Workspace_Theorems
begin

text \<open>
  A small workspace on which the properties of the workspace index are instantiated, and runs that show where
  the code departs from what its callers expect.
\<close>

section \<open>A workspace\<close>

definition ws_env :: wi_env where
  "ws_env =
     \<lparr>we_root = ''/ws'', we_snapshot_dir = ''/state'', we_ignore = [], we_sha256 = (\<lambda>c. ''h'' @ c),
      we_manifest_bytes = (\<lambda>m. 0), we_outside = (\<lambda>p. None)\<rparr>"

definition ws_files :: "string set" where
  "ws_files = {ignore_file, ''a'', ''b''}"

definition ws_file :: "string \<Rightarrow> string \<Rightarrow> int \<Rightarrow> string \<times> node" where
  "ws_file p c m = (p, ND_file c m 420)"

definition ws_state :: "tree \<Rightarrow> wi" where
  "ws_state t =
     \<lparr>wi_tree = t, wi_rows = [], wi_snaps = [], wi_snap_files = [], wi_prepared = [], wi_seq = 0, wi_baseline = 0,
      wi_blobs = [], wi_manifests = []\<rparr>"

definition ws_options :: commit_options where
  "ws_options = \<lparr>co_reason = ''test'', co_action = None, co_run = None, co_anchor = None\<rparr>"

definition ws_snapshot :: "string \<Rightarrow> int \<Rightarrow> wi \<Rightarrow> wi" where
  "ws_snapshot i now s = snd (take_snapshot ws_env ''prep'' i now ws_options s)"

definition ws_edit :: "tree \<Rightarrow> wi \<Rightarrow> wi" where
  "ws_edit t s = s\<lparr>wi_tree := t\<rparr>"

definition ws_patterns :: "string list" where
  "ws_patterns = DEFAULT_IGNORE_PATTERNS @ buildInternalIgnorePatterns ws_env"

definition ws_tree_1 :: tree where
  "ws_tree_1 = [ws_file ''a'' ''1'' 1, ws_file ''b'' ''2'' 2]"

definition ws_tree_2 :: tree where
  "ws_tree_2 = [ws_file ''a'' ''3'' 7]"

definition ws_1 :: wi where
  "ws_1 = ws_snapshot ''s1'' 5 (ws_state ws_tree_1)"

definition ws_2 :: wi where
  "ws_2 = ws_edit ws_tree_2 ws_1"

lemma ws_ancestors: "ancestors ''a'' = []" "ancestors ''b'' = []" "ancestors ignore_file = [''.agentgit'']"
  by code_simp+

lemma ws_canonical: "canonical ''a''" "canonical ''b''" "canonical ignore_file"
  by code_simp+

lemma ignore_file_other: "ignore_file \<noteq> ''a''" "ignore_file \<noteq> ''b''" "ignore_file \<noteq> ''.agentgit''" "''a'' \<noteq> ignore_file" "''b'' \<noteq> ignore_file"
  by code_simp+

lemma ws_env_ok: "env_ok ws_files ws_env"
proof -
  have "env_paths [''ws''] (we_root ws_env)" "env_paths [''state''] (we_snapshot_dir ws_env)"
    by (simp_all add: env_paths_def ws_env_def good_segment_def abs_path_def)
  moreover have "flat ws_files"
    using ws_canonical ignore_file_other by (simp add: flat_def ws_files_def ws_ancestors)
  moreover have "inj (we_sha256 ws_env)" by (simp add: ws_env_def inj_def)
  ultimately show ?thesis by (auto simp: env_ok_def ws_files_def)
qed

lemma ws_tree_ok: "tree_ok ws_files ws_tree_1" "tree_ok ws_files ws_tree_2"
  by (simp_all add: tree_ok_def ws_tree_1_def ws_tree_2_def ws_file_def node_ok_def ws_files_def ws_ancestors)

lemma ws_ignore: "loadIgnorePatterns ws_env ws_tree_1 = ws_patterns" "loadIgnorePatterns ws_env ws_tree_2 = ws_patterns"
  by code_simp+

lemma ws_opened: "opened ws_files ws_patterns ws_env 5 (ws_state ws_tree_1)"
  using ws_tree_ok ws_ignore by (auto simp: opened_def ws_state_def file_at_def ws_tree_1_def ws_file_def)

lemma ws_reachable_0: "ws_reachable ws_files ws_patterns ws_env (ws_state ws_tree_1, 5)"
  unfolding ws_reachable_def using ws_opened by blast

lemma ws_anchor: "anchor_arg ws_files ws_env (co_anchor ws_options) None"
  by (simp add: anchor_arg_def anchor_path_of_def ws_options_def)

lemma ws_fresh: "fresh_id (ws_state ws_tree_1) ''s1''" "fresh_id ws_2 ''r1''" "fresh_id ws_1 ''r1''"
  by code_simp+

lemma ws_edit_step: "ws_step ws_files ws_patterns ws_env (ws_1, 5) (ws_2, 8)"
proof -
  have "file_at ws_tree_2 p = file_at (wi_tree ws_1) p \<or> (\<forall>c m md. file_at ws_tree_2 p = Some (c, m, md) \<longrightarrow> 5 < m \<and> m \<le> 8)" for p
    by (auto simp: file_at_def ws_tree_2_def ws_file_def)
  then show ?thesis
    unfolding ws_2_def ws_edit_def using ws_tree_ok(2) ws_ignore(2) by (intro ws_step.edit) auto
qed

lemma ws_steps: "(ws_step ws_files ws_patterns ws_env)\<^sup>*\<^sup>* (ws_1, 5) (ws_2, 8)"
  using ws_edit_step by blast

lemma ws_reachable_2: "ws_reachable ws_files ws_patterns ws_env (ws_2, 8)"
proof -
  have "ws_step ws_files ws_patterns ws_env (ws_state ws_tree_1, 5) (ws_1, 5)"
    unfolding ws_1_def ws_snapshot_def by (rule ws_step.snapshot [OF ws_fresh(1) ws_anchor])
  then have "(ws_step ws_files ws_patterns ws_env)\<^sup>*\<^sup>* (ws_state ws_tree_1, 5) (ws_2, 8)"
    using ws_steps by (rule converse_rtranclp_into_rtranclp)
  then show ?thesis unfolding ws_reachable_def using ws_opened by blast
qed

lemma ws_selectors: "normalizeSubsetSelectors [''a''] (we_root ws_env) = Inr [''a'']"
  by code_simp

section \<open>Instances of the properties\<close>

theorem snapshot_survives_witness:
  "\<exists>res s3. restoreSubset ws_env ''prep'' ''r1'' 9 ''s1'' [''a''] ws_2 = Some (Inr res, s3) \<and>
     (\<forall>p. tracked_view ws_patterns (wi_tree s3) p =
        (if pathMatchesSelectors p [''a''] then tracked_view ws_patterns (wi_tree (ws_state ws_tree_1)) p
         else tracked_view ws_patterns (wi_tree ws_2) p))"
  by (rule snapshot_survives [OF ws_env_ok ws_reachable_0 ws_fresh(1) ws_anchor
        ws_steps [unfolded ws_1_def ws_snapshot_def] ws_selectors ws_fresh(2)]) simp

theorem restore_snapshot_view_witness:
  "\<exists>res s'. restore_snapshot ws_env ''prep'' ''r1'' 9 ''s1'' ws_2 = Some (Inr res, s') \<and>
     (\<forall>p. tracked_view ws_patterns (wi_tree s') p = snapshot_view ws_2 ''s1'' p \<or>
        (snapshot_view ws_2 ''s1'' p = None \<and> p \<notin> set (map fst (active_rows ws_2)) \<and>
         tracked_view ws_patterns (wi_tree s') p = tracked_view ws_patterns (wi_tree ws_2) p))"
proof -
  have "''s1'' \<in> set (snap_ids ws_2)" by code_simp
  then show ?thesis by (rule restore_snapshot_view [OF ws_env_ok ws_reachable_2 _ ws_fresh(2)]) simp
qed


section \<open>Where callers are surprised\<close>

definition ws_content :: "string \<Rightarrow> wi \<Rightarrow> string option" where
  "ws_content p s = file_content (wi_tree s) p"

definition ws_restored :: "string \<Rightarrow> wi \<Rightarrow> wi" where
  "ws_restored i s = snd (the (restore_snapshot ws_env ''prep'' ''r'' 30 i s))"

text \<open>Compaction detaches the oldest snapshot that is kept from its parents but does not carry their files over:
  restoring it removes a file that has not changed since.\<close>

definition ws_compacted :: wi where
  "ws_compacted = snd (compact ws_env 1 (ws_snapshot ''s2'' 10 (ws_edit [ws_file ''a'' ''1'' 1, ws_file ''b'' ''22'' 7] ws_1)))"

lemma compact_loses_files:
  "ws_content ''a'' ws_compacted = Some ''1'' \<and> ws_content ''a'' (ws_restored ''s2'' ws_compacted) = None"
  by code_simp

text \<open>A file that no scan has seen stays when the whole workspace is restored, and is removed when the subset
  \<open>.\<close> is.\<close>

definition ws_unscanned :: wi where
  "ws_unscanned = ws_edit [ws_file ''a'' ''1'' 1, ws_file ''b'' ''2'' 2, ws_file ''c'' ''9'' 7] ws_1"

lemma restore_keeps_unscanned:
  "ws_content ''c'' (ws_restored ''s1'' ws_unscanned) = Some ''9'' \<and>
   ws_content ''c'' (snd (the (restoreSubset ws_env ''prep'' ''r'' 30 ''s1'' [''.''] ws_unscanned))) = None"
  by code_simp

text \<open>A directory that a file has become: the older deletion of the file is processed after the newer files below the
  directory and takes them away.\<close>

definition ws_became_directory :: wi where
  "ws_became_directory =
     ws_snapshot ''s2'' 10 (ws_edit [ws_file ''b'' ''2'' 2, (''a'', ND_dir), ws_file ''a/x'' ''new'' 7] ws_1)"

definition ws_became_directory_later :: wi where
  "ws_became_directory_later =
     ws_snapshot ''s3'' 15 (ws_edit [ws_file ''b'' ''2'' 2, (''a'', ND_dir), ws_file ''a/x'' ''newer'' 12] ws_became_directory)"

lemma restore_removes_directory:
  "snapshot_view ws_became_directory_later ''s3'' ''a/x'' = Some (''newer'', 420) \<and>
   ws_content ''a/x'' (ws_restored ''s3'' ws_became_directory_later) = None"
  by code_simp

text \<open>A file that a directory has become: the restore of a file below it stops half-way.\<close>

definition ws_became_file :: wi where
  "ws_became_file =
     ws_edit [ws_file ''a'' ''f'' 12] (ws_snapshot ''s1'' 5 (ws_state [(''a'', ND_dir), ws_file ''a/x'' ''1'' 1]))"

lemma restore_stops:
  "\<exists>e s'. restore_snapshot ws_env ''prep'' ''r'' 30 ''s1'' ws_became_file = Some (Inl (WE_node e), s')"
  by (rule exI [of _ "case the (restore_snapshot ws_env ''prep'' ''r'' 30 ''s1'' ws_became_file) of (Inl (WE_node e), s) \<Rightarrow> e | _ \<Rightarrow> []"],
      rule exI [of _ "snd (the (restore_snapshot ws_env ''prep'' ''r'' 30 ''s1'' ws_became_file))"]) code_simp

text \<open>A blob that is gone is skipped without an error.\<close>

lemma restore_skips_missing_blob:
  "isl (fst (the (restore_snapshot ws_env ''prep'' ''r'' 30 ''s1'' (ws_2\<lparr>wi_blobs := []\<rparr>)))) = False \<and>
   ws_content ''b'' (ws_restored ''s1'' (ws_2\<lparr>wi_blobs := []\<rparr>)) = None \<and> snapshot_view ws_2 ''s1'' ''b'' = Some (''2'', 420)"
  by code_simp

text \<open>An edit between the scan and the commit: the blob is not the content that was hashed.\<close>

definition ws_raced :: wi where
  "ws_raced =
     (let (pr, s) = prepareScan ws_env ''prep'' 3 (ws_state ws_tree_1) in
      snd (commitSnapshot ws_env ''s1'' 5 pr ws_options (ws_edit [ws_file ''a'' ''raced'' 4, ws_file ''b'' ''2'' 2] s)))"

lemma commit_stores_other_content:
  "map_option ir_hash (map_of (wi_rows ws_raced) ''a'') = Some ''h1'' \<and>
   map_option fst (map_of (wi_blobs ws_raced) (''s1'', ''a'')) = Some ''raced''"
  by code_simp

end
