(* ===== verification/Recovery_Restores.thy ===== *)
theory Recovery_Restores
  imports Recovery_Theorems Workspace_Samples
begin

text \<open>
  A recovery that is automatic restores the snapshot of an index that was not compacted since: the engine, its index and the planner
  together. First
  what the documents of an index say about its snapshots, then the way of a recovery through the engine.
\<close>

section \<open>Manifests of an index\<close>

definition manifest_ok :: "string set \<Rightarrow> wi_env \<Rightarrow> snap_manifest \<Rightarrow> bool" where
  "manifest_ok U env m = (sm_root m = we_root env \<and> (\<forall>p. sn_anchor_path (sm_row m) = Some p \<longrightarrow> p \<in> U))"

definition stored_ok :: "string set \<Rightarrow> wi_env \<Rightarrow> wi \<Rightarrow> bool" where
  "stored_ok U env s =
     ((\<forall>m \<in> snd ` set (wi_manifests s). manifest_ok U env m) \<and>
      (\<forall>r \<in> set (wi_snaps s). \<forall>p. sn_anchor_path r = Some p \<longrightarrow> p \<in> U))"

lemma stored_okI:
  "(\<And>m. m \<in> snd ` set (wi_manifests s) \<Longrightarrow> manifest_ok U env m) \<Longrightarrow>
     (\<And>r p. r \<in> set (wi_snaps s) \<Longrightarrow> sn_anchor_path r = Some p \<Longrightarrow> p \<in> U) \<Longrightarrow> stored_ok U env s"
  by (simp add: stored_ok_def)

lemma stored_okD:
  assumes "stored_ok U env s"
  shows "m \<in> snd ` set (wi_manifests s) \<Longrightarrow> manifest_ok U env m"
    "r \<in> set (wi_snaps s) \<Longrightarrow> sn_anchor_path r = Some p \<Longrightarrow> p \<in> U"
  using assms unfolding stored_ok_def by blast+

lemma stored_ok_cong: "wi_manifests s' = wi_manifests s \<Longrightarrow> wi_snaps s' = wi_snaps s \<Longrightarrow> stored_ok U env s' = stored_ok U env s"
  by (simp add: stored_ok_def)

lemma stored_tree [simp]: "stored_ok U env (s\<lparr>wi_tree := t\<rparr>) = stored_ok U env s"
  by (simp add: stored_ok_def)

lemma take_snapshot_stored:
  assumes "stored_ok U env s" "anchor_arg U env (co_anchor opts) anchor"
  shows "stored_ok U env (snd (take_snapshot env prep i now opts s))"
proof -
  let ?pr = "fst (prepareScan env prep now s)" and ?s = "snd (prepareScan env prep now s)"
  have s: "stored_ok U env ?s" using assms(1) stored_ok_cong [of ?s s] by (simp add: scan_tables)
  have a: "anchor_path_of env (co_anchor opts) = Inr anchor" "\<And>p. anchor = Some p \<Longrightarrow> p \<in> U"
    using assms(2) by (auto simp: anchor_arg_def)
  have row: "stored_ok U env (?s\<lparr>wi_snaps := wi_snaps ?s @ [row], wi_manifests := wi_manifests ?s @
      [(sn_id row, \<lparr>sm_row = row, sm_root = we_root env, sm_files = fs\<rparr>)]\<rparr>)" if "sn_anchor_path row = anchor" for row fs
  proof (rule stored_okI)
    have "manifest_ok U env \<lparr>sm_row = row, sm_root = we_root env, sm_files = fs\<rparr>" using that a(2) by (simp add: manifest_ok_def)
    then show "manifest_ok U env m" if "m \<in> snd ` set (wi_manifests (?s\<lparr>wi_snaps := wi_snaps ?s @ [row], wi_manifests := wi_manifests ?s @
        [(sn_id row, \<lparr>sm_row = row, sm_root = we_root env, sm_files = fs\<rparr>)]\<rparr>))" for m
      using that stored_okD(1) [OF s, of m] by (simp add: image_Un) blast
    show "p \<in> U" if "r \<in> set (wi_snaps (?s\<lparr>wi_snaps := wi_snaps ?s @ [row], wi_manifests := wi_manifests ?s @
        [(sn_id row, \<lparr>sm_row = row, sm_root = we_root env, sm_files = fs\<rparr>)]\<rparr>))" "sn_anchor_path r = Some p" for r p
      using that \<open>sn_anchor_path row = anchor\<close> a(2) [of p] stored_okD(2) [OF s, of r p] by (cases "r = row") simp_all
  qed
  have "stored_ok U env (snd (commit_transaction env ?pr row bs ?s))" if "sn_anchor_path row = anchor" for row bs
    using row [OF that] s by (simp add: commit_transaction_def stored_ok_def)
  moreover have "sn_anchor_path (new_snapshot_row i now parent ?pr opts n anchor live) = anchor" for parent n live
    by (simp add: new_snapshot_row_def)
  ultimately have "stored_ok U env (snd (commitSnapshot env i now ?pr opts ?s))"
    using s by (auto simp: commitSnapshot_def a(1) Let_def split: sum.split option.split prod.split) (metis snd_conv)+
  then show ?thesis by (simp add: take_snapshot_def case_prod_beta)
qed

lemma persist_stored:
  assumes "stored_ok U env s" "manifest_ok U env m"
  shows "stored_ok U env (snd (persistAnchorSource i m s))"
proof -
  let ?f = "\<lambda>r. r\<lparr>sn_anchor_source := Some i\<rparr>"
  let ?s = "s\<lparr>wi_snaps := map (\<lambda>r. if sn_id r = sn_id (sm_row m) then ?f r else r) (wi_snaps s)\<rparr>"
  have rows: "p \<in> U" if r: "r \<in> set (wi_snaps ?s)" "sn_anchor_path r = Some p" for r p
  proof -
    obtain q where "q \<in> set (wi_snaps s)" "r = (if sn_id q = sn_id (sm_row m) then ?f q else q)" using r(1) by auto
    moreover from this have "sn_anchor_path q = Some p" using r(2) by (simp split: if_splits)
    ultimately show ?thesis using stored_okD(2) [OF assms(1)] by blast
  qed
  have "stored_ok U env ?s"
  proof (rule stored_okI)
    show "manifest_ok U env n" if "n \<in> snd ` set (wi_manifests ?s)" for n using stored_okD(1) [OF assms(1), of n] that by simp
  qed (rule rows)
  moreover have "stored_ok U env (?s\<lparr>wi_manifests := AList.update k (m\<lparr>sm_row := ?f (sm_row m)\<rparr>) (wi_manifests ?s)\<rparr>)" for k
  proof (rule stored_okI)
    fix n assume "n \<in> snd ` set (wi_manifests (?s\<lparr>wi_manifests := AList.update k (m\<lparr>sm_row := ?f (sm_row m)\<rparr>) (wi_manifests ?s)\<rparr>))"
    then have "n \<in> insert (m\<lparr>sm_row := ?f (sm_row m)\<rparr>) (snd ` set (wi_manifests s))"
      using subsetD [OF update_range] by simp
    moreover have "manifest_ok U env (m\<lparr>sm_row := ?f (sm_row m)\<rparr>)" using assms(2) by (simp add: manifest_ok_def)
    ultimately show "manifest_ok U env n" using stored_okD(1) [OF assms(1), of n] by blast
  next
    show "p \<in> U" if "r \<in> set (wi_snaps (?s\<lparr>wi_manifests := ms\<rparr>))" "sn_anchor_path r = Some p" for r p ms
      using rows [of r p] that by simp
  qed
  ultimately show ?thesis using assms(1) by (simp add: persistAnchorSource_def persist_row_def Let_def)
qed

lemma read_manifest_ok:
  assumes "stored_ok U env s" "getSnapshotManifest env i s = Some m"
  shows "manifest_ok U env m"
proof -
  obtain r where "find_snap i s = Some r" "m = \<lparr>sm_row = r, sm_root = we_root env, sm_files = files_of i s\<rparr>"
    using assms(2) by (auto simp: getSnapshotManifest_def)
  moreover from this have "r \<in> set (wi_snaps s)" by (auto simp: find_snap_def find_Some_iff)
  ultimately show ?thesis using stored_okD(2) [OF assms(1)] by (simp add: manifest_ok_def)
qed

lemma drop_copy_stored: "stored_ok U env (rb_wi (drop_copy i p st)) = stored_ok U env (rb_wi st)"
proof -
  have "wi_manifests (rb_wi (drop_copy i p st)) = wi_manifests (rb_wi st)" "wi_snaps (rb_wi (drop_copy i p st)) = wi_snaps (rb_wi st)"
    by (simp_all add: drop_copy_def remove_blob_def Let_def split: option.split)
  then show ?thesis by (rule stored_ok_cong)
qed

lemma persist_step_stored:
  assumes "stored_ok U env (rb_wi st)" "manifest_ok U env m" "\<And>s. rb_wi (snd (k s)) = s"
  shows "stored_ok U env (rb_wi (snd (rb_fail (persistAnchorSource i m (rb_wi st)) k st)))"
proof -
  obtain r s' where e: "persistAnchorSource i m (rb_wi st) = (r, s')" by fastforce
  then have "stored_ok U env s'" using persist_stored [OF assms(1,2), of i] by simp
  then show ?thesis using assms(3) by (cases r) (simp_all add: rb_fail_def e)
qed

lemma rebase_one_stored:
  assumes "stored_ok U env (rb_wi st)"
  shows "stored_ok U env (rb_wi (snd (rebase_one env i st)))"
proof (cases "getSnapshotManifest env i (rb_wi st)")
  case (Some m)
  note m = read_manifest_ok [OF assms Some]
  have own: "stored_ok U env (rb_wi (snd (ensure_own_source m (st\<lparr>rb_sources := al\<rparr>))))" for al
    using persist_step_stored [OF _ m, of "st\<lparr>rb_sources := al\<rparr>"] assms by (simp add: ensure_own_source_def Let_def)
  have share: "stored_ok U env (rb_wi (snd (share_anchor j m p st)))" for j p
    unfolding share_anchor_def Let_def by (rule persist_step_stored [OF _ m]) (simp_all add: drop_copy_stored assms)
  show ?thesis using Some assms own share by (simp add: rebase_one_def Let_def split: option.split)
qed (simp add: rebase_one_def assms)

lemma rebase_all_stored: "stored_ok U env (rb_wi st) \<Longrightarrow> stored_ok U env (rb_wi (snd (rebase_all env is st)))"
proof (induction "is" arbitrary: st)
  case (Cons i js)
  show ?case using Cons.IH [of "snd (rebase_one env i st)"] rebase_one_stored [OF Cons.prems, of i]
    by (auto split: prod.splits option.splits)
qed simp

lemma rebase_stored: "stored_ok U env s \<Longrightarrow> stored_ok U env (snd (rebaseSyntheticAnchors env s))"
  using rebase_all_stored [of U env "\<lparr>rb_wi = s, rb_sources = [], rb_summary =
      \<lparr>rs_scanned = length (anchored_snapshots s), rs_rebased = 0, rs_freed = 0, rs_directories = 0\<rparr>\<rparr>" "anchored_snapshots s"]
  by (auto simp: rebaseSyntheticAnchors_def Let_def split: prod.splits option.splits)

lemma restore_with_stored:
  assumes "env_ok U env" "wi_inv U ig env k s" "stored_ok U env s" "restore_with files env prep j now why i s = Some (r, s')"
  shows "stored_ok U env s'"
proof (cases "find_snap i s")
  case None
  then show ?thesis using assms(3,4) by (simp add: restore_with_def)
next
  case (Some row)
  then have row: "row \<in> set (wi_snaps s)" by (auto simp: find_snap_def find_Some_iff)
  let ?opts = "\<lparr>co_reason = why, co_action = None, co_run = sn_run row, co_anchor = sn_anchor_path row\<rparr>"
  have arg: "anchor_arg U env (co_anchor ?opts) (sn_anchor_path row)" using restore_anchor [OF assms(1,2) row] by simp
  have take: "stored_ok U env (snd (take_snapshot env prep j now ?opts (s\<lparr>wi_tree := t\<rparr>)))" for t
    using take_snapshot_stored [OF _ arg] assms(3) by simp
  obtain rset where b: "buildRestorationSet s i = Some rset" using assms(4) Some by (auto simp: restore_with_def)
  obtain l t where f: "files row rset s = (l, t)" by fastforce
  show ?thesis
  proof (cases l)
    case (Inl e)
    then show ?thesis using assms(3,4) Some b f by (auto simp: restore_with_def)
  next
    case (Inr log)
    then have "record_recovery env prep j now why row log (s\<lparr>wi_tree := t\<rparr>) = (r, s')"
      using assms(4) Some b f by (simp add: restore_with_def)
    then show ?thesis using take [of t] by (auto simp: record_recovery_def split: prod.splits sum.splits)
  qed
qed

lemma step_stored:
  assumes "env_ok U env" "ws_step U ig env (s, k) (s', k')" "wi_inv U ig env k s" "stored_ok U env s"
  shows "stored_ok U env s'"
  using assms(2)
proof cases
  case (scan prep now)
  then show ?thesis using assms(4) stored_ok_cong [of s' s] by (simp add: scan_tables)
next
  case (snapshot i opts anchor prep now)
  then show ?thesis using take_snapshot_stored [OF assms(4)] by simp
next
  case (restore j prep i r)
  then show ?thesis using restore_with_stored [OF assms(1,3,4)] unfolding restore_snapshot_def by blast
next
  case (restore_subset j prep i paths r)
  then show ?thesis using restore_with_stored [OF assms(1,3,4)] assms(4) unfolding restoreSubset_def
    by (auto split: if_splits sum.splits)
next
  case rebase
  then show ?thesis using rebase_stored [OF assms(4)] by simp
qed (use assms(4) in simp)

lemma steps_stored:
  assumes "env_ok U env" "(ws_step U ig env)\<^sup>*\<^sup>* sk sk'" "wi_inv U ig env (snd sk) (fst sk)" "stored_ok U env (fst sk)"
  shows "stored_ok U env (fst sk')"
  using assms(2-4)
proof (induction rule: rtranclp_induct)
  case (step a b)
  have "wi_inv U ig env (snd a) (fst a)" using steps_keep [OF assms(1) step.hyps(1) step.prems(1)] by blast
  then show ?case using step_stored [OF assms(1), of ig "fst a" "snd a" "fst b" "snd b"] step by simp
qed simp

lemma reachable_stored:
  assumes "env_ok U env" "ws_reachable U ig env (s, k)"
  shows "stored_ok U env s"
proof -
  obtain s0 k0 where o: "opened U ig env k0 s0" "(ws_step U ig env)\<^sup>*\<^sup>* (s0, k0) (s, k)"
    using assms(2) unfolding ws_reachable_def by blast
  have "stored_ok U env s0" using o(1) by (simp add: stored_ok_def opened_def)
  then show ?thesis using steps_stored [OF assms(1) o(2)] opened_inv [OF o(1)] by simp
qed

section \<open>Through the engine\<close>

text \<open>The snapshot \<open>i\<close> is stored, by the index of \<open>rt\<close> and by no other.\<close>

definition held :: "string \<Rightarrow> string \<Rightarrow> engine \<Rightarrow> bool" where
  "held i rt st =
     (distinct (map fst (en_indexes st)) \<and>
      (case map_of (en_indexes st) rt of None \<Rightarrow> False | Some s \<Rightarrow> map_of (wi_manifests s) i \<noteq> None) \<and>
      list_all (\<lambda>(q, s). q = rt \<or> map_of (wi_manifests s) i = None) (en_indexes st))"

lemma held_load:
  assumes "held i rt st"
  obtains s m where "map_of (en_indexes st) rt = Some s" "index_of rt st = s" "map_of (wi_manifests s) i = Some m"
    "loadLayeredManifest i st = Some m"
proof -
  obtain s m where s: "map_of (en_indexes st) rt = Some s" "map_of (wi_manifests s) i = Some m"
    using assms by (auto simp: held_def split: option.splits)
  have "js_head (concat (map (\<lambda>(q, s). case map_of (wi_manifests s) i of None \<Rightarrow> [] | Some m \<Rightarrow> [m]) xs)) = Some m"
    if "map_of xs rt = Some s" "list_all (\<lambda>(q, s). q = rt \<or> map_of (wi_manifests s) i = None) xs" for xs
    using that by (induction xs) (auto simp: s(2) split: if_splits)
  then have "loadLayeredManifest i st = Some m" using assms s(1) by (simp add: held_def loadLayeredManifest_def)
  then show ?thesis using that [OF s(1) _ s(2)] s(1) by (simp add: index_of_def)
qed

lemma held_cong: "en_indexes st' = en_indexes st \<Longrightarrow> held i rt st' = held i rt st"
  by (simp add: held_def)

lemma ask_held:
  assumes "map_of (en_indexes st) rt = Some s" "resolve_root env q = rt" "f (index_env env rt) s = Some (res, s)"
  obtains st' where "with_index env q f st = Some (res, st')" "en_indexes st' = en_indexes st" "en_metadata st' = en_metadata st"
proof -
  let ?st = "getWorkspaceIndex env q st"
  have i: "index_of rt st = s" using assms(1) by (simp add: index_of_def)
  have o: "en_indexes ?st = en_indexes st" using assms(1,2) i by (simp add: getWorkspaceIndex_def Let_def update_triv)
  have "with_index env q f st = Some (res, ?st\<lparr>en_indexes := AList.update rt s (en_indexes ?st),
      en_snaps_dir := (en_snaps_dir ?st \<or> wi_manifests s \<noteq> [])\<rparr>)"
    using assms(2,3) i by (simp add: with_index_def open_index_view Let_def)
  then show ?thesis by (rule that) (simp_all add: o assms(1) update_triv open_index_view)
qed

lemma resolve_index_root:
  assumes "env_ok U (index_env env rt)"
  shows "resolve_root env rt = rt"
  using assms resolve_root [of _ rt "ee_cwd env"] by (auto simp: env_ok_def index_env_def resolve_root_def)

lemma anchor_within:
  assumes "env_ok U (index_env env rt)" "p \<in> U"
  shows "\<exists>q. assertPathWithinRoot env rt p = Inr q"
proof -
  obtain us where "env_paths us rt" using assms(1) by (auto simp: env_ok_def index_env_def)
  then have "path_within (path_resolve rt p) rt" by (rule within_below) (rule canonical_U [OF assms])
  then show ?thesis by (simp add: assertPathWithinRoot_def resolve_index_root [OF assms(1)])
qed

lemma boundary_with_document:
  assumes "env_ok U (index_env env rt)" "manifest_ok U (index_env env rt) m" "loadLayeredManifest i st = Some m"
    "map_of (en_metadata st) i = Some doc"
  obtains b where "boundary_of env i st = Inr (Some b)" "bd_workspace_root b = rt" "bd_class b = bd_class doc"
    "bd_fidelity b = bd_fidelity doc" "bd_operation_domain b = bd_operation_domain doc"
proof -
  have root: "sm_root m = rt" using assms(2) by (simp add: manifest_ok_def index_env_def)
  have "\<exists>q. (case sn_anchor_path (sm_row m) of None \<Rightarrow> Inr (sm_root m)
      | Some p \<Rightarrow> if p = [] then Inr (sm_root m) else assertPathWithinRoot env (sm_root m) p) = Inr q"
    using anchor_within [OF assms(1)] assms(2) unfolding root by (auto simp: manifest_ok_def split: option.split)
  then obtain q where q: "(case sn_anchor_path (sm_row m) of None \<Rightarrow> Inr (sm_root m)
      | Some p \<Rightarrow> if p = [] then Inr (sm_root m) else assertPathWithinRoot env (sm_root m) p) = Inr q" by blast
  obtain b where b: "layered_boundary env m (Some doc) = Inr b" "bd_workspace_root b = rt" "bd_class b = bd_class doc"
    "bd_fidelity b = bd_fidelity doc" "bd_operation_domain b = bd_operation_domain doc"
    unfolding layered_boundary_def Let_def q by (simp add: root)
  then show ?thesis using that assms(3,4) by (simp add: boundary_of_def loadMetadataManifest_def)
qed

lemma create_workspace_snapshot:
  assumes "env_ok U (index_env env rt)" "resolve_root env (sq_workspace_root req) = rt"
    "wi_inv U ig (index_env env rt) k (index_of rt st)" "fresh_id (index_of rt st) i"
    "anchor_arg U (index_env env rt) (Some (locator_of (sq_action req))) anchor" "domain_of (sq_action req) = ''filesystem''"
    "createSnapshot env \<lparr>ed_prep = prep, ed_id = i, ed_now = now\<rparr> req st = Some (r, st1)"
  shows "index_of rt st1 = snd (take_snapshot (index_env env rt) prep i now (request_options req) (index_of rt st)) \<and>
    (\<exists>doc. map_of (en_metadata st1) i = Some doc \<and> bd_class doc = sq_class req \<and> bd_fidelity doc = SF_full \<and>
       bd_operation_domain doc = Some ''filesystem'')"
proof -
  have i: "i \<notin> set (snap_ids (index_of rt st))" "good_segment i" using assms(4) by (simp_all add: fresh_id_def)
  have a: "anchor_arg U (index_env env rt) (co_anchor (request_options req)) anchor" using assms(5) by (simp add: request_options_def)
  obtain row fs s1 where s1: "take_snapshot (index_env env rt) prep i now (request_options req) (index_of rt st) = (Inr (row, fs), s1)"
    "sn_id row = i"
    using take_snapshot_ok [OF assms(1,3) a i, of prep now] by metis
  let ?f = "\<lambda>we s. Some (take_snapshot we prep i now (request_options req) s)"
  obtain res st' where w: "with_index env (sq_workspace_root req) ?f st = Some (res, st')"
    by (simp add: with_index_def Let_def case_prod_beta)
  have res: "res = Inr (row, fs)" and idx: "index_of rt st' = s1"
    using with_index_Some [OF w, of rt] s1(1) assms(2) by auto
  have "needs_workspace_snapshot req" using assms(6) by (simp add: needs_workspace_snapshot_def)
  then have "st1 = st'\<lparr>en_metadata := AList.update i (createLayeredMetadataManifest req row) (en_metadata st')\<rparr>"
    using assms(7) w res s1(2) by (simp add: createSnapshot_def eff_bind_def eff_catch_def)
  then show ?thesis
    using idx s1(1) assms(6) by (simp add: update_conv' createLayeredMetadataManifest_def createMetadataManifest_def Let_def)
qed

lemma automatic_subset_plan:
  assumes "boundary_of env i st = Inr (Some b)" "\<not> metadata_only b" "bd_operation_domain b \<noteq> Some ''shell''" "capability_trusted state b"
    "verifyIntegrity env i st = Some (Inr ok, t1)" "engine_preview_subset env i ps t1 = Some (Inr pv, t2)"
  obtains plan where "planPathSubsetRecovery (engine_port env e) state d i ps st = Some (Inr plan, t2)" "pl_class plan = RC_reversible"
proof -
  have "evaluateRestoreCapabilityState b state = None" using assms(4) by (simp add: evaluate_trusted)
  moreover have "requiresSnapshotManualReview b = None" using assms(3) by (simp add: requiresSnapshotManualReview_def)
  moreover have "loadRecoverySnapshotManifest (engine_port env e) i st = Some (Inr b, st)"
    using assms(1) by (simp add: load_Some engine_manifest_def)
  ultimately show ?thesis
    using that assms(2,5,6) by (simp add: planPathSubsetRecovery_def subset_plan_def eff_bind_def eff_return_def)
qed

lemma held_recovery:
  assumes "env_ok U (index_env env rt)" "wi_inv U ig (index_env env rt) k (index_of rt st)" "stored_ok U (index_env env rt) (index_of rt st)"
    "held i rt st" "map_of (en_metadata st) i = Some doc" "bd_class doc \<noteq> SC_metadata_only" "bd_fidelity doc = SF_full"
    "bd_operation_domain doc \<noteq> Some ''shell''" "\<And>b. bd_workspace_root b = rt \<Longrightarrow> capability_trusted state b"
    "normalizeSubsetSelectors ps rt = Inr sels" "fresh_id (index_of rt st) j" "k < now"
  obtains res st' r where
    "executePathSubsetRecovery (engine_port env \<lparr>ed_prep = prep, ed_id = j, ed_now = now\<rparr>) state d x i ps st = Some (Inr res, st')"
    "xr_outcome res = RO_restored" "find_snap i (index_of rt st) = Some r"
    "restored_tree U now (index_of rt st) r (\<lambda>p. pathMatchesSelectors p sels)
       (\<lambda>p. pathMatchesSelectors p sels \<and> tracked_view ig (wi_tree (index_of rt st)) p \<noteq> None) (wi_tree (index_of rt st'))"
proof -
  let ?we = "index_env env rt" and ?e = "\<lparr>ed_prep = prep, ed_id = j, ed_now = now\<rparr>"
  obtain s m where s: "map_of (en_indexes st) rt = Some s" "index_of rt st = s" "map_of (wi_manifests s) i = Some m"
    "loadLayeredManifest i st = Some m" by (rule held_load [OF assms(4)])
  have m: "manifest_ok U ?we m" using stored_okD(1) [OF assms(3)] map_of_SomeD [OF s(3)] s(2) by force
  have root: "sm_root m = rt" "resolve_root env rt = rt" using m resolve_index_root [OF assms(1)] by (simp_all add: manifest_ok_def index_env_def)
  have "i \<in> set (snap_ids s)" using wi_invD(5) [OF assms(2)] map_of_SomeD [OF s(3)] s(2) by (force simp: blobs_ok_def)
  then obtain r where r: "find_snap i s = Some r" using find_snap_None [of i s] by (cases "find_snap i s") simp_all
  obtain b where b: "boundary_of env i st = Inr (Some b)" "bd_workspace_root b = rt" "bd_class b = bd_class doc"
    "bd_fidelity b = bd_fidelity doc" "bd_operation_domain b = bd_operation_domain doc"
    by (rule boundary_with_document [OF assms(1) m s(4) assms(5)])
  have load: "loadLayeredManifest i t = Some m" if "en_indexes t = en_indexes st" for t
    using s(4) that by (simp add: loadLayeredManifest_def)
  define ok where "ok = (getSnapshotManifest ?we i s \<noteq> None)"
  let ?ask = "ask_index (\<lambda>we s. getSnapshotManifest we i s \<noteq> None)"
  have "?ask ?we s = Some (Inr ok, s)" by (simp add: ask_index_def ok_def)
  then obtain t1 where "with_index env rt ?ask st = Some (Inr ok, t1)" and t1': "en_indexes t1 = en_indexes st"
    and "en_metadata t1 = en_metadata st" by (rule ask_held [OF s(1) root(2)])
  then have t1: "verifyIntegrity env i st = Some (Inr ok, t1)" "en_indexes t1 = en_indexes st"
    by (simp_all add: verifyIntegrity_def s(4) root(1))
  obtain rset where rset: "buildRestorationSet s i = Some rset" using restoration_set [OF assms(1,2)] s(2) r by metis
  have "we_root ?we = rt" by (simp add: index_env_def)
  then obtain pv where pv: "previewRestoreSubset ?we i ps s = Some (Inr pv)"
    using r rset assms(10) by (simp add: previewRestoreSubset_def)
  have "map_of (en_indexes t1) rt = Some s" using s(1) t1(2) by simp
  moreover have "(\<lambda>we s. map_option (\<lambda>r. (r, s)) (previewRestoreSubset we i ps s)) ?we s = Some (Inr pv, s)" using pv by simp
  ultimately obtain t2 where "with_index env rt (\<lambda>we s. map_option (\<lambda>r. (r, s)) (previewRestoreSubset we i ps s)) t1 = Some (Inr pv, t2)"
    and "en_indexes t2 = en_indexes t1" and "en_metadata t2 = en_metadata t1"
    using ask_held [OF _ root(2), where f = "\<lambda>we s. map_option (\<lambda>r. (r, s)) (previewRestoreSubset we i ps s)"] by blast
  then have t2: "engine_preview_subset env i ps t1 = Some (Inr pv, t2)" "en_indexes t2 = en_indexes st"
    using load [OF t1'] t1' by (simp_all add: engine_preview_subset_def root(1))
  have "\<not> metadata_only b" using b(3,4) assms(6,7) by (simp add: metadata_only_def)
  moreover have "bd_operation_domain b \<noteq> Some ''shell''" using b(5) assms(8) by simp
  ultimately obtain plan where plan: "planPathSubsetRecovery (engine_port env ?e) state d i ps st = Some (Inr plan, t2)"
    "pl_class plan = RC_reversible"
    using automatic_subset_plan [OF b(1) _ _ assms(9) [OF b(2)] t1(1) t2(1)] by metis
  have idx: "index_of rt t2 = s" using s(1) t2(2) by (simp add: index_of_def)
  have sels: "normalizeSubsetSelectors ps (we_root ?we) = Inr sels" using assms(10) by (simp add: index_env_def)
  obtain res s3 where s3: "restoreSubset ?we prep j now i ps s = Some (Inr res, s3)"
    "restored_tree U now s r (\<lambda>p. pathMatchesSelectors p sels)
       (\<lambda>p. pathMatchesSelectors p sels \<and> tracked_view ig (wi_tree s) p \<noteq> None) (wi_tree s3)"
    and "wi_inv U ig ?we now s3" "snap_ids s3 = snap_ids s @ [j]" "snapshot_view s3 j = tracked_view ig (wi_tree s3)"
      "\<forall>q \<in> set (snap_ids s). snapshot_view s3 q = snapshot_view s q"
    by (rule restore_subset_ok [OF assms(1) assms(2) [unfolded s(2)] r assms(11) [unfolded s(2)] assms(12) sels, where prep = prep])
  obtain w st' where w: "with_index env rt (\<lambda>we s. restoreSubset we prep j now i ps s) t2 = Some (w, st')"
    using s3(1) idx by (simp add: with_index_def Let_def root(2) open_index_view)
  have "w = Inr res" and idx': "index_of rt st' = s3" using with_index_Some [OF w, of rt] s3(1) idx root(2) by auto
  then have "engine_restore_subset env ?e i ps t2 = Some (Inr True, st')"
    using load [OF t2(2)] w by (simp add: engine_restore_subset_def restore_outcome_def eff_catch_def eff_bind_def eff_return_def root(1))
  then have "executePathSubsetRecovery (engine_port env ?e) state d x i ps st =
      Some (Inr \<lparr>xr_plan = plan, xr_restored = True, xr_outcome = RO_restored, xr_executed_at = x\<rparr>, st')"
    using plan by (simp add: executePathSubsetRecovery_def run_restore_def eff_bind_def eff_return_def)
  then show ?thesis using that r s3(2) s(2) idx' by simp
qed


text \<open>C37: Recoveries restore, as long as the index is not compacted. The engine gives a filesystem action a snapshot. Its
  workspace then goes through any sequence of edits, scans, further snapshots, restores and anchor rebasing (\<open>ws_step\<close>,
  which does not include compaction: see \<open>compact_loses_files\<close>), where no path ever changes between a file and a
  directory and every edit is later than all the index has seen. If the index still holds the snapshot, its
  document is unchanged, and the cached capabilities are trusted for the workspace, then executing a recovery of some
  paths is carried out: the selected tracked paths have the content and mode they had when the snapshot was taken, or are gone if
  they did not exist, and all other tracked paths are as they were.\<close>

theorem recovery_restores:
  assumes "env_ok U (index_env env rt)" "resolve_root env (sq_workspace_root req) = rt"
    "ws_reachable U ig (index_env env rt) (index_of rt st, k)" "fresh_id (index_of rt st) i"
    "anchor_arg U (index_env env rt) (Some (locator_of (sq_action req))) anchor" "domain_of (sq_action req) = ''filesystem''"
    "sq_class req \<noteq> SC_metadata_only"
    "createSnapshot env \<lparr>ed_prep = prep, ed_id = i, ed_now = now\<rparr> req st = Some (r, st1)"
    "(ws_step U ig (index_env env rt))\<^sup>*\<^sup>* (index_of rt st1, k) (index_of rt st2, k2)"
    "held i rt st2" "map_of (en_metadata st2) i = map_of (en_metadata st1) i"
    "\<forall>b. bd_workspace_root b = rt \<longrightarrow> capability_trusted state b"
    "normalizeSubsetSelectors ps rt = Inr sels" "fresh_id (index_of rt st2) j" "k2 < now2"
  shows "\<exists>res st3. executePathSubsetRecovery (engine_port env \<lparr>ed_prep = prep2, ed_id = j, ed_now = now2\<rparr>) state d x i ps st2 = Some (Inr res, st3) \<and>
    xr_outcome res = RO_restored \<and>
    (\<forall>p. tracked_view ig (tree_at rt st3) p =
       (if pathMatchesSelectors p sels then tracked_view ig (tree_at rt st) p else tracked_view ig (tree_at rt st2) p))"
proof -
  let ?we = "index_env env rt" and ?s = "index_of rt st2"
  note created = create_workspace_snapshot [OF assms(1,2) reachable_inv [OF assms(1,3)] assms(4-6,8)]
  then obtain doc where doc: "map_of (en_metadata st2) i = Some doc" "bd_class doc \<noteq> SC_metadata_only" "bd_fidelity doc = SF_full"
    "bd_operation_domain doc \<noteq> Some ''shell''" using assms(7,11) by auto
  have a: "anchor_arg U ?we (co_anchor (request_options req)) anchor" using assms(5) by (simp add: request_options_def)
  have steps: "(ws_step U ig ?we)\<^sup>*\<^sup>* (snd (take_snapshot ?we prep i now (request_options req) (index_of rt st)), k) (?s, k2)"
    using assms(9) created by simp
  note view = view_after_steps [OF assms(1,3,4) a steps]
  then have inv: "wi_inv U ig ?we k2 ?s" and v: "snapshot_view ?s i = tracked_view ig (tree_at rt st)" by (simp_all add: tree_at_def)
  have "stored_ok U ?we (snd (take_snapshot ?we prep i now (request_options req) (index_of rt st)))"
    by (rule take_snapshot_stored [OF reachable_stored [OF assms(1,3)] a])
  moreover have "wi_inv U ig ?we k (snd (take_snapshot ?we prep i now (request_options req) (index_of rt st)))"
    using step_keeps [OF assms(1) ws_step.snapshot [OF assms(4) a] reachable_inv [OF assms(1,3)]] by blast
  ultimately have stored: "stored_ok U ?we ?s" using steps_stored [OF assms(1) steps] by simp
  obtain res st3 row where exec: "executePathSubsetRecovery (engine_port env \<lparr>ed_prep = prep2, ed_id = j, ed_now = now2\<rparr>) state d x i ps st2 = Some (Inr res, st3)"
      "xr_outcome res = RO_restored" "find_snap i ?s = Some row"
      "restored_tree U now2 ?s row (\<lambda>p. pathMatchesSelectors p sels)
         (\<lambda>p. pathMatchesSelectors p sels \<and> tracked_view ig (wi_tree ?s) p \<noteq> None) (wi_tree (index_of rt st3))"
    by (rule held_recovery [OF assms(1) inv stored assms(10) doc assms(12) [rule_format] assms(13-15)])
  have row: "row \<in> set (wi_snaps ?s)" "sn_id row = i"
    using exec(3) wi_invD(3) [OF inv] find_snap_mem [of ?s i row] by (simp_all add: history_ok_def)
  have "tracked_view ig (tree_at rt st3) p =
      (if pathMatchesSelectors p sels then tracked_view ig (tree_at rt st) p else tracked_view ig (tree_at rt st2) p)" for p
  proof (cases "ignored ig p")
    case False
    then show ?thesis using restored_view [OF inv row(1) exec(4) False] no_entry_view [of ?s row p] v row(2)
      by (auto simp: tree_at_def simp del: not_None_eq)
  qed (simp add: tracked_view_def)
  then show ?thesis using exec(1,2) by blast
qed

end
