(* ===== verification/Recovery_Samples.thy ===== *)
theory Recovery_Samples
  imports Recovery_Restores Samples
begin

text \<open>
  A fresh engine with one workspace, on which the properties of recoveries are instantiated, and runs of the
  engine that show where it departs from what its callers expect.
\<close>

section \<open>An engine\<close>

definition en_env :: engine_env where
  "en_env =
     \<lparr>ee_root = ''/state'', ee_cwd = ''/'', ee_sha256 = (\<lambda>c. ''h'' @ c), ee_manifest_bytes = (\<lambda>m. 0),
      ee_outside = (\<lambda>p. None)\<rparr>"

definition en_fresh :: "(string \<times> tree) list \<Rightarrow> engine" where
  "en_fresh ts =
     \<lparr>en_indexes = [], en_trees = ts, en_open = [], en_metadata = [], en_legacy = [], en_stray_files = [],
      en_broken_legacy = [], en_snaps_dir = False\<rparr>"

definition en_0 :: engine where
  "en_0 = en_fresh [(''/ws'', ws_tree_1)]"

definition en_request :: "string \<Rightarrow> string \<Rightarrow> snapshot_request" where
  "en_request rt p =
     \<lparr>sq_action = sample_write (rt @ ''/'' @ p), sq_class = SC_journal_plus_anchor, sq_workspace_root = rt, sq_preimage = JNull\<rparr>"

definition en_stamps :: "string \<Rightarrow> int \<Rightarrow> engine_stamps" where
  "en_stamps i now = \<lparr>ed_prep = ''prep'', ed_id = i, ed_now = now\<rparr>"

definition en_created :: "wi_error + snapshot_record" where
  "en_created = fst (the (createSnapshot en_env (en_stamps ''s1'' 5) (en_request ''/ws'' ''a'') en_0))"

definition en_1 :: engine where
  "en_1 = snd (the (createSnapshot en_env (en_stamps ''s1'' 5) (en_request ''/ws'' ''a'') en_0))"

definition en_2 :: engine where
  "en_2 = set_tree ''/ws'' ws_tree_2 en_1"

definition en_capabilities :: cached_capability_state where
  "en_capabilities =
     \<lparr>cc_capabilities =
        [\<lparr>cap_name = ''workspace.root_access'', cap_status = CS_available, cap_details = [(''workspace_root'', JStr ''/ws'')]\<rparr>,
         \<lparr>cap_name = ''host.runtime_storage'', cap_status = CS_available, cap_details = []\<rparr>],
      cc_degraded_mode_warnings = [], cc_is_stale = False\<rparr>"

definition en_stamp :: plan_stamp where
  "en_stamp = \<lparr>pt_plan = ''rec_1'', pt_step = ''step_1'', pt_now = 8\<rparr>"

lemma en_index: "index_env en_env ''/ws'' = ws_env" "index_of ''/ws'' en_0 = ws_state ws_tree_1"
  by (simp_all add: index_env_def en_env_def ws_env_def index_of_def en_0_def en_fresh_def new_index_def ws_state_def)

lemma en_root: "resolve_root en_env (sq_workspace_root (en_request ''/ws'' ''a'')) = ''/ws''"
  by code_simp

lemma en_create: "createSnapshot en_env (en_stamps ''s1'' 5) (en_request ''/ws'' ''a'') en_0 = Some (en_created, en_1)"
proof -
  have "createSnapshot en_env (en_stamps ''s1'' 5) (en_request ''/ws'' ''a'') en_0 \<noteq> None" by code_simp
  then show ?thesis by (auto simp: en_created_def en_1_def)
qed

lemma en_anchor: "anchor_arg ws_files ws_env (Some (locator_of (sq_action (en_request ''/ws'' ''a'')))) (Some ''a'')"
proof -
  have "anchor_path_of ws_env (Some (locator_of (sq_action (en_request ''/ws'' ''a'')))) = Inr (Some ''a'')" by code_simp
  then show ?thesis by (simp add: anchor_arg_def ws_files_def ignore_file_other)
qed

lemma en_domain: "domain_of (sq_action (en_request ''/ws'' ''a'')) = ''filesystem''" "sq_class (en_request ''/ws'' ''a'') \<noteq> SC_metadata_only"
  by code_simp+

lemma en_edit: "index_of ''/ws'' en_2 = (index_of ''/ws'' en_1)\<lparr>wi_tree := ws_tree_2\<rparr>"
proof -
  have "map_of (en_indexes en_1) ''/ws'' \<noteq> None" by code_simp
  then show ?thesis by (auto simp: en_2_def set_tree_def index_of_def update_conv')
qed

lemma en_steps: "(ws_step ws_files ws_patterns ws_env)\<^sup>*\<^sup>* (index_of ''/ws'' en_1, 5) (index_of ''/ws'' en_2, 8)"
proof -
  have "file_at ws_tree_2 p = file_at (wi_tree (index_of ''/ws'' en_1)) p \<or>
      (\<forall>c m md. file_at ws_tree_2 p = Some (c, m, md) \<longrightarrow> 5 < m \<and> m \<le> 8)" for p
    by (auto simp: file_at_def ws_tree_2_def ws_file_def)
  then have "ws_step ws_files ws_patterns ws_env (index_of ''/ws'' en_1, 5) (index_of ''/ws'' en_2, 8)"
    unfolding en_edit using ws_tree_ok(2) ws_ignore(2) by (intro ws_step.edit) auto
  then show ?thesis by blast
qed

lemma en_held: "held ''s1'' ''/ws'' en_2" "fresh_id (index_of ''/ws'' en_0) ''s1''" "fresh_id (index_of ''/ws'' en_2) ''r1''"
  "map_of (en_metadata en_2) ''s1'' \<noteq> None"
  by code_simp+

lemma en_document: "map_of (en_metadata en_2) ''s1'' = map_of (en_metadata en_1) ''s1''"
  by (simp add: en_2_def set_tree_def split: option.split)

lemma en_trusted: "\<forall>b. bd_workspace_root b = ''/ws'' \<longrightarrow> capability_trusted (Some en_capabilities) b"
  by (simp add: capability_trusted_def en_capabilities_def findWorkspaceCapabilityForManifest_def findCapability_in_def
      capabilityWorkspaceRoot_of_def obj_get_def)

theorem recovery_restores_witness:
  "\<exists>res st3. executePathSubsetRecovery (engine_port en_env \<lparr>ed_prep = ''p'', ed_id = ''r1'', ed_now = 9\<rparr>) (Some en_capabilities)
       en_stamp 9 ''s1'' [''a''] en_2 = Some (Inr res, st3) \<and> xr_outcome res = RO_restored \<and>
     (\<forall>p. tracked_view ws_patterns (tree_at ''/ws'' st3) p =
        (if pathMatchesSelectors p [''a''] then tracked_view ws_patterns (tree_at ''/ws'' en_0) p
         else tracked_view ws_patterns (tree_at ''/ws'' en_2) p))"
proof -
  have sel: "normalizeSubsetSelectors [''a''] ''/ws'' = Inr [''a'']" using ws_selectors by (simp add: ws_env_def)
  show ?thesis
    unfolding tree_at_def en_index
    by (rule recovery_restores [where U = ws_files and env = en_env and rt = "''/ws''" and st = en_0 and req = "en_request ''/ws'' ''a''",
        unfolded en_index tree_at_def, OF ws_env_ok en_root ws_reachable_0 ws_fresh(1) en_anchor en_domain
          en_create [unfolded en_stamps_def] en_steps en_held(1) en_document en_trusted sel en_held(3)]) simp
qed

definition en_executed :: "(wi_error + recovery_result) \<times> engine" where
  "en_executed =
     the (executeSnapshotRecovery (engine_port en_env (en_stamps ''r1'' 9)) None (Some en_capabilities) en_stamp 9 ''s1'' en_2)"


section \<open>Where callers are surprised\<close>

text \<open>Two workspaces with a snapshot each. A collection for one of them takes the snapshots of the other for
  orphans: their files and manifests are removed, while the index of the other still lists them.\<close>

definition en_two :: engine where
  "en_two =
     snd (the (createSnapshot en_env (en_stamps ''s2'' 6) (en_request ''/other'' ''x'')
       (snd (the (createSnapshot en_env (en_stamps ''s1'' 5) (en_request ''/ws'' ''a'')
          (en_fresh [(''/ws'', ws_tree_1), (''/other'', [ws_file ''x'' ''9'' 1])]))))))"

definition en_collected :: engine where
  "en_collected = snd (the (garbageCollectSnapshots en_env (Some [''/ws'']) en_two))"

lemma en_collected_parts:
  "snap_ids (index_of ''/other'' en_collected) = [''s2'']" "loadLayeredManifest ''s2'' en_two \<noteq> None"
  "loadLayeredManifest ''s2'' en_collected = None" "wi_blobs (index_of ''/other'' en_collected) = []"
proof -
  show "snap_ids (index_of ''/other'' en_collected) = [''s2'']" by code_simp
  show "loadLayeredManifest ''s2'' en_two \<noteq> None" by code_simp
  show "loadLayeredManifest ''s2'' en_collected = None" by code_simp
  show "wi_blobs (index_of ''/other'' en_collected) = []" by code_simp
qed

lemma scoped_collection_removes_others:
  "snap_ids (index_of ''/other'' en_collected) = [''s2''] \<and> loadLayeredManifest ''s2'' en_two \<noteq> None \<and>
   loadLayeredManifest ''s2'' en_collected = None \<and> wi_blobs (index_of ''/other'' en_collected) = []"
  by (simp add: en_collected_parts)

text \<open>The integrity check asks for the row of the snapshot only: with its files gone it still succeeds, and the
  recovery reports a restore that has not happened.\<close>

definition en_damaged :: engine where
  "en_damaged = en_2\<lparr>en_indexes := map (\<lambda>(rt, s). (rt, s\<lparr>wi_blobs := []\<rparr>)) (en_indexes en_2)\<rparr>"

definition en_pretended :: "(wi_error + recovery_result) \<times> engine" where
  "en_pretended =
     the (executeSnapshotRecovery (engine_port en_env (en_stamps ''r1'' 9)) None None en_stamp 9 ''s1'' en_damaged)"

lemma en_pretended_parts:
  "map_option fst (verifyIntegrity en_env ''s1'' en_damaged) = Some (Inr True)"
  "map_sum (\<lambda>e. ()) xr_outcome (fst en_pretended) = Inr RO_restored"
  "file_at (tree_at ''/ws'' (snd en_pretended)) ''b'' = None" "file_at (tree_at ''/ws'' en_1) ''b'' \<noteq> None"
proof -
  show "map_option fst (verifyIntegrity en_env ''s1'' en_damaged) = Some (Inr True)" by code_simp
  show "map_sum (\<lambda>e. ()) xr_outcome (fst en_pretended) = Inr RO_restored" by code_simp
  show "file_at (tree_at ''/ws'' (snd en_pretended)) ''b'' = None" by code_simp
  show "file_at (tree_at ''/ws'' en_1) ''b'' \<noteq> None" by code_simp
qed

lemma damaged_snapshot_restored:
  "map_option fst (verifyIntegrity en_env ''s1'' en_damaged) = Some (Inr True) \<and>
   map_sum (\<lambda>e. ()) xr_outcome (fst en_pretended) = Inr RO_restored \<and>
   file_at (tree_at ''/ws'' (snd en_pretended)) ''b'' = None \<and> file_at (tree_at ''/ws'' en_1) ''b'' \<noteq> None"
  by (simp add: en_pretended_parts)

end
