(* ===== verification/Action_Json.thy ===== *)
theory Action_Json
  imports Normalize_Remote Run_Journal "HOL-Library.Monad_Syntax"
begin

text \<open>
  \<open>ActionRecordSchema.safeParse\<close> (\<open>packages/schemas/src/index.ts\<close>): an action record read back from the JSON
  that the journal stores. Every object is strict. \<open>dates\<close> tells which strings \<open>Date.parse\<close> understands.
\<close>

section \<open>Fields\<close>

type_synonym fields = "(string \<times> jsval) list"

definition strict_object :: "string list \<Rightarrow> jsval \<Rightarrow> fields option" where
  "strict_object ks v =
     (case v of JObj kvs \<Rightarrow> if list_all (\<lambda>kv. fst kv \<in> set ks) kvs then Some kvs else None | _ \<Rightarrow> None)"

definition text_value :: "jsval \<Rightarrow> string option" where
  \<comment> \<open>\<open>z.string().min(1)\<close>\<close>
  "text_value v = (case v of JStr s \<Rightarrow> if s = [] then None else Some s | _ \<Rightarrow> None)"

definition optional_value :: "(jsval \<Rightarrow> 'a option) \<Rightarrow> jsval \<Rightarrow> 'a option option" where
  "optional_value p v = (if v = JUndef then Some None else map_option Some (p v))"

definition nullable_value :: "(jsval \<Rightarrow> 'a option) \<Rightarrow> jsval \<Rightarrow> 'a option option" where
  "nullable_value p v = (if v = JNull then Some None else map_option Some (p v))"

definition number_value :: "rat \<Rightarrow> rat \<Rightarrow> jsval \<Rightarrow> rat option" where
  "number_value lo hi v = (case v of JNum q \<Rightarrow> if lo \<le> q \<and> q \<le> hi then Some q else None | _ \<Rightarrow> None)"

definition count_value :: "jsval \<Rightarrow> nat option" where
  \<comment> \<open>\<open>z.number().int().nonnegative()\<close>\<close>
  "count_value v = (case v of JNum q \<Rightarrow> if 0 \<le> q \<and> of_int \<lfloor>q\<rfloor> = q then Some (nat \<lfloor>q\<rfloor>) else None | _ \<Rightarrow> None)"

definition bool_value :: "jsval \<Rightarrow> bool option" where
  "bool_value v = (case v of JBool b \<Rightarrow> Some b | _ \<Rightarrow> None)"

definition enum_value :: "('a \<Rightarrow> string) \<Rightarrow> 'a list \<Rightarrow> jsval \<Rightarrow> 'a option" where
  "enum_value str xs v = (case v of JStr s \<Rightarrow> find (\<lambda>x. str x = s) xs | _ \<Rightarrow> None)"

definition array_value :: "(jsval \<Rightarrow> 'a option) \<Rightarrow> jsval \<Rightarrow> 'a list option" where
  "array_value p v = (case v of JArr vs \<Rightarrow> those (map p vs) | _ \<Rightarrow> None)"

definition record_value :: "jsval \<Rightarrow> fields option" where
  "record_value v = (case v of JObj kvs \<Rightarrow> if safe_record kvs then Some kvs else None | _ \<Rightarrow> None)"

definition time_value :: "(string \<Rightarrow> bool) \<Rightarrow> jsval \<Rightarrow> string option" where
  "time_value dates v = (case v of JStr s \<Rightarrow> if timestamp_ok dates s then Some s else None | _ \<Rightarrow> None)"

definition literal_value :: "string \<Rightarrow> jsval \<Rightarrow> unit option" where
  "literal_value l v = (if v = JStr l then Some () else None)"

section \<open>Parts of an action\<close>

definition provenance_value :: "jsval \<Rightarrow> provenance_info option" where
  "provenance_value v = do {
     kvs \<leftarrow> strict_object [''mode'', ''source'', ''confidence''] v;
     m \<leftarrow> enum_value provenance_mode_str [PM_governed, PM_observed, PM_imported, PM_unknown] (obj_get kvs ''mode'');
     s \<leftarrow> text_value (obj_get kvs ''source'');
     c \<leftarrow> number_value 0 1 (obj_get kvs ''confidence'');
     Some \<lparr>pv_mode = m, pv_source = s, pv_confidence = c\<rparr> }"

definition actor_value :: "jsval \<Rightarrow> actor_info option" where
  "actor_value v = do {
     kvs \<leftarrow> strict_object [''type'', ''agent_name'', ''agent_framework'', ''tool_name'', ''tool_kind''] v;
     t \<leftarrow> enum_value actor_type_str [AT_agent, AT_user, AT_system, AT_observer] (obj_get kvs ''type'');
     n \<leftarrow> optional_value text_value (obj_get kvs ''agent_name'');
     f \<leftarrow> optional_value text_value (obj_get kvs ''agent_framework'');
     tn \<leftarrow> text_value (obj_get kvs ''tool_name'');
     tk \<leftarrow> text_value (obj_get kvs ''tool_kind'');
     Some \<lparr>ac_type = t, ac_agent_name = n, ac_agent_framework = f, ac_tool_name = tn, ac_tool_kind = tk\<rparr> }"

definition operation_value :: "jsval \<Rightarrow> operation_info option" where
  "operation_value v = do {
     kvs \<leftarrow> strict_object [''domain'', ''kind'', ''name'', ''display_name''] v;
     d \<leftarrow> text_value (obj_get kvs ''domain'');
     k \<leftarrow> text_value (obj_get kvs ''kind'');
     n \<leftarrow> text_value (obj_get kvs ''name'');
     dn \<leftarrow> optional_value text_value (obj_get kvs ''display_name'');
     Some \<lparr>op_domain = d, op_kind = k, op_name = n, op_display_name = dn\<rparr> }"

definition path_value :: "jsval \<Rightarrow> execution_path_info option" where
  "path_value v = do {
     kvs \<leftarrow> strict_object [''surface'', ''mode'', ''credential_mode''] v;
     s \<leftarrow> enum_value execution_surface_str
            [SF_sdk_function, SF_governed_shell, SF_governed_fs, SF_mcp_proxy, SF_provider_hosted, SF_observer] (obj_get kvs ''surface'');
     m \<leftarrow> enum_value execution_mode_str [EM_pre_execution, EM_post_hoc, EM_imported] (obj_get kvs ''mode'');
     c \<leftarrow> enum_value credential_mode_str [CM_brokered, CM_delegated, CM_direct, CM_none, CM_unknown] (obj_get kvs ''credential_mode'');
     Some \<lparr>ep_surface = s, ep_mode = m, ep_credential_mode = c\<rparr> }"

definition primary_value :: "jsval \<Rightarrow> target_primary option" where
  "primary_value v = do {
     kvs \<leftarrow> strict_object [''type'', ''locator'', ''label''] v;
     t \<leftarrow> text_value (obj_get kvs ''type'');
     l \<leftarrow> text_value (obj_get kvs ''locator'');
     lb \<leftarrow> optional_value text_value (obj_get kvs ''label'');
     Some \<lparr>tp_type = t, tp_locator = l, tp_label = lb\<rparr> }"

definition scope_value :: "jsval \<Rightarrow> target_scope option" where
  "scope_value v = do {
     kvs \<leftarrow> strict_object [''breadth'', ''estimated_count'', ''unknowns''] v;
     b \<leftarrow> enum_value scope_breadth_str [SB_single, SB_set, SB_workspace, SB_repository, SB_origin, SB_external, SB_unknown]
            (obj_get kvs ''breadth'');
     n \<leftarrow> optional_value count_value (obj_get kvs ''estimated_count'');
     u \<leftarrow> array_value text_value (obj_get kvs ''unknowns'');
     Some \<lparr>ts_breadth = b, ts_estimated_count = n, ts_unknowns = u\<rparr> }"

definition input_value :: "jsval \<Rightarrow> input_info option" where
  "input_value v = do {
     kvs \<leftarrow> strict_object [''raw'', ''redacted'', ''schema_ref'', ''contains_sensitive_data''] v;
     r \<leftarrow> record_value (obj_get kvs ''raw'');
     d \<leftarrow> record_value (obj_get kvs ''redacted'');
     s \<leftarrow> nullable_value text_value (obj_get kvs ''schema_ref'');
     c \<leftarrow> bool_value (obj_get kvs ''contains_sensitive_data'');
     Some \<lparr>in_raw = r, in_redacted = d, in_schema_ref = s, in_contains_sensitive_data = c\<rparr> }"

definition risk_value :: "jsval \<Rightarrow> risk_hints option" where
  "risk_value v = do {
     kvs \<leftarrow> strict_object [''side_effect_level'', ''external_effects'', ''reversibility_hint'', ''sensitivity_hint'', ''batch''] v;
     s \<leftarrow> enum_value side_effect_str [SE_read_only, SE_mutating, SE_destructive, SE_unknown] (obj_get kvs ''side_effect_level'');
     e \<leftarrow> enum_value external_effect_str [EE_none, EE_network, EE_communication, EE_financial, EE_unknown] (obj_get kvs ''external_effects'');
     r \<leftarrow> enum_value reversibility_str
            [RV_reversible, RV_potentially_reversible, RV_compensatable, RV_irreversible, RV_unknown] (obj_get kvs ''reversibility_hint'');
     n \<leftarrow> enum_value sensitivity_str [SN_low, SN_moderate, SN_high, SN_unknown] (obj_get kvs ''sensitivity_hint'');
     b \<leftarrow> bool_value (obj_get kvs ''batch'');
     Some \<lparr>rh_side_effect_level = s, rh_external_effects = e, rh_reversibility_hint = r, rh_sensitivity_hint = n, rh_batch = b\<rparr> }"

definition normalization_value :: "jsval \<Rightarrow> normalization_info option" where
  "normalization_value v = do {
     kvs \<leftarrow> strict_object [''mapper'', ''inferred_fields'', ''warnings'', ''normalization_confidence''] v;
     m \<leftarrow> text_value (obj_get kvs ''mapper'');
     i \<leftarrow> array_value text_value (obj_get kvs ''inferred_fields'');
     w \<leftarrow> array_value text_value (obj_get kvs ''warnings'');
     c \<leftarrow> number_value 0 1 (obj_get kvs ''normalization_confidence'');
     Some \<lparr>nm_mapper = m, nm_inferred_fields = i, nm_warnings = w, nm_confidence = c\<rparr> }"

definition factor_value :: "jsval \<Rightarrow> confidence_factor option" where
  "factor_value v = do {
     kvs \<leftarrow> strict_object [''factor_id'', ''label'', ''kind'', ''delta'', ''rationale''] v;
     i \<leftarrow> text_value (obj_get kvs ''factor_id'');
     l \<leftarrow> text_value (obj_get kvs ''label'');
     k \<leftarrow> enum_value factor_kind_str [FK_baseline, FK_boost, FK_penalty] (obj_get kvs ''kind'');
     d \<leftarrow> number_value (- 1) 1 (obj_get kvs ''delta'');
     r \<leftarrow> text_value (obj_get kvs ''rationale'');
     Some \<lparr>cf_factor_id = i, cf_label = l, cf_kind = k, cf_delta = d, cf_rationale = r\<rparr> }"

definition assessment_value :: "jsval \<Rightarrow> confidence_assessment option" where
  "assessment_value v = do {
     kvs \<leftarrow> strict_object [''engine_version'', ''score'', ''band'', ''requires_human_review'', ''factors''] v;
     e \<leftarrow> text_value (obj_get kvs ''engine_version'');
     s \<leftarrow> number_value 0 1 (obj_get kvs ''score'');
     b \<leftarrow> enum_value confidence_band_str [CB_high, CB_guarded, CB_low] (obj_get kvs ''band'');
     h \<leftarrow> bool_value (obj_get kvs ''requires_human_review'');
     f \<leftarrow> array_value factor_value (obj_get kvs ''factors'');
     Some \<lparr>ca_engine_version = e, ca_score = s, ca_band = b, ca_requires_human_review = h, ca_factors = f\<rparr> }"

section \<open>The action\<close>

definition ACTION_KEYS :: "string list" where
  "ACTION_KEYS = [''schema_version'', ''action_id'', ''run_id'', ''session_id'', ''status'', ''timestamps'', ''provenance'', ''actor'',
     ''operation'', ''execution_path'', ''target'', ''input'', ''risk_hints'', ''facets'', ''normalization'', ''confidence_assessment'']"

definition parseActionRecord :: "(string \<Rightarrow> bool) \<Rightarrow> jsval \<Rightarrow> action_record option" where
  "parseActionRecord dates v = do {
     kvs \<leftarrow> strict_object ACTION_KEYS v;
     _ \<leftarrow> literal_value ''action.v1'' (obj_get kvs ''schema_version'');
     i \<leftarrow> text_value (obj_get kvs ''action_id'');
     r \<leftarrow> text_value (obj_get kvs ''run_id'');
     s \<leftarrow> text_value (obj_get kvs ''session_id'');
     _ \<leftarrow> literal_value ''normalized'' (obj_get kvs ''status'');
     ts \<leftarrow> strict_object [''requested_at'', ''normalized_at''] (obj_get kvs ''timestamps'');
     rq \<leftarrow> time_value dates (obj_get ts ''requested_at'');
     nz \<leftarrow> time_value dates (obj_get ts ''normalized_at'');
     pv \<leftarrow> provenance_value (obj_get kvs ''provenance'');
     ac \<leftarrow> actor_value (obj_get kvs ''actor'');
     op \<leftarrow> operation_value (obj_get kvs ''operation'');
     ep \<leftarrow> path_value (obj_get kvs ''execution_path'');
     tg \<leftarrow> strict_object [''primary'', ''scope''] (obj_get kvs ''target'');
     pt \<leftarrow> primary_value (obj_get tg ''primary'');
     sc \<leftarrow> scope_value (obj_get tg ''scope'');
     inp \<leftarrow> input_value (obj_get kvs ''input'');
     rk \<leftarrow> risk_value (obj_get kvs ''risk_hints'');
     fc \<leftarrow> record_value (obj_get kvs ''facets'');
     nm \<leftarrow> normalization_value (obj_get kvs ''normalization'');
     ca \<leftarrow> assessment_value (obj_get kvs ''confidence_assessment'');
     Some \<lparr>action_id = i, run_id = r, session_id = s, requested_at = rq, normalized_at = nz, provenance = pv, actor = ac,
           operation = op, execution_path = ep, primary_target = pt, scope = sc, action_input = inp, risk = rk, facets = fc,
           normalization = nm, confidence = ca\<rparr> }"

text \<open>What is left of an action in the log: the free-form records lose what is \<open>undefined\<close>.\<close>

definition stored_action :: "action_record \<Rightarrow> action_record" where
  "stored_action a =
     a\<lparr>action_input := (action_input a)\<lparr>in_raw := json_clone_object (in_raw (action_input a)),
                                       in_redacted := json_clone_object (in_redacted (action_input a))\<rparr>,
       facets := json_clone_object (facets a)\<rparr>"

section \<open>The action read back\<close>

lemma json_clone_JObj [simp]: "json_clone (JObj kvs) = JObj (json_clone_object kvs)"
  by (simp add: json_clone_object_def)

declare json_clone.simps(2) [simp del]

lemma map_of_clone: "distinct (map fst kvs) \<Longrightarrow>
    map_of (json_clone_object kvs) k =
      (case map_of kvs k of None \<Rightarrow> None | Some v \<Rightarrow> if v = JUndef then None else Some (json_clone v))"
proof (induction kvs)
  case (Cons kv kvs)
  have "json_clone_object (kv # kvs) =
      (if snd kv = JUndef then json_clone_object kvs else (fst kv, json_clone (snd kv)) # json_clone_object kvs)"
    by (simp add: json_clone_object_def)
  moreover have "map_of kvs k = None" if "k \<notin> fst ` set kvs" using that by (simp add: map_of_eq_None_iff)
  ultimately show ?case using Cons by (cases kv) auto
qed (simp add: json_clone_object_def)

lemma obj_get_clone: "distinct (map fst kvs) \<Longrightarrow> obj_get (json_clone_object kvs) k = json_clone (obj_get kvs k)"
  by (simp add: obj_get_def map_of_clone split: option.split)

lemma strict_clone: "list_all (\<lambda>kv. fst kv \<in> set ks) kvs \<Longrightarrow> strict_object ks (JObj (json_clone_object kvs)) = Some (json_clone_object kvs)"
  by (auto simp: strict_object_def json_clone_object_def list_all_iff)

lemma record_clone: "safe_record kvs \<Longrightarrow> record_value (JObj (json_clone_object kvs)) = Some (json_clone_object kvs)"
  by (auto simp: record_value_def safe_record_def json_clone_object_def list_all_iff)

lemma clone_text [simp]: "json_clone (js_opt_str x) = js_opt_str x" "json_clone (js_strs xs) = js_strs xs"
  by (auto simp: js_opt_str_def js_strs_def split: option.split)

lemma text_values [simp]:
  "s \<noteq> [] \<Longrightarrow> text_value (JStr s) = Some s"
  "nonempty_str x \<Longrightarrow> optional_value text_value (js_opt_str x) = Some x"
  by (auto simp: text_value_def optional_value_def js_opt_str_def nonempty_str_def split: option.split)

lemma those_map: "(\<And>x. x \<in> set xs \<Longrightarrow> p (f x) = Some x) \<Longrightarrow> those (map p (map f xs)) = Some xs"
  by (induction xs) simp_all

lemma array_texts: "list_all (\<lambda>u. u \<noteq> []) xs \<Longrightarrow> array_value text_value (js_strs xs) = Some xs"
  unfolding array_value_def js_strs_def jsval.case by (rule those_map) (simp add: list_all_iff)

lemma enum_values [simp]:
  "enum_value provenance_mode_str [PM_governed, PM_observed, PM_imported, PM_unknown] (JStr (provenance_mode_str pm)) = Some pm"
  "enum_value actor_type_str [AT_agent, AT_user, AT_system, AT_observer] (JStr (actor_type_str t)) = Some t"
  "enum_value execution_surface_str [SF_sdk_function, SF_governed_shell, SF_governed_fs, SF_mcp_proxy, SF_provider_hosted, SF_observer]
     (JStr (execution_surface_str su)) = Some su"
  "enum_value execution_mode_str [EM_pre_execution, EM_post_hoc, EM_imported] (JStr (execution_mode_str em)) = Some em"
  "enum_value credential_mode_str [CM_brokered, CM_delegated, CM_direct, CM_none, CM_unknown] (JStr (credential_mode_str cm)) = Some cm"
  "enum_value scope_breadth_str [SB_single, SB_set, SB_workspace, SB_repository, SB_origin, SB_external, SB_unknown]
     (JStr (scope_breadth_str sb)) = Some sb"
  "enum_value side_effect_str [SE_read_only, SE_mutating, SE_destructive, SE_unknown] (JStr (side_effect_str se)) = Some se"
  "enum_value external_effect_str [EE_none, EE_network, EE_communication, EE_financial, EE_unknown] (JStr (external_effect_str ee)) = Some ee"
  "enum_value reversibility_str [RV_reversible, RV_potentially_reversible, RV_compensatable, RV_irreversible, RV_unknown]
     (JStr (reversibility_str rv)) = Some rv"
  "enum_value sensitivity_str [SN_low, SN_moderate, SN_high, SN_unknown] (JStr (sensitivity_str sn)) = Some sn"
  "enum_value factor_kind_str [FK_baseline, FK_boost, FK_penalty] (JStr (factor_kind_str fk)) = Some fk"
  "enum_value confidence_band_str [CB_high, CB_guarded, CB_low] (JStr (confidence_band_str cb)) = Some cb"
  by (cases pm; simp add: enum_value_def; fail | cases t; simp add: enum_value_def; fail | cases su; simp add: enum_value_def; fail |
      cases em; simp add: enum_value_def; fail | cases cm; simp add: enum_value_def; fail | cases sb; simp add: enum_value_def; fail |
      cases se; simp add: enum_value_def; fail | cases ee; simp add: enum_value_def; fail | cases rv; simp add: enum_value_def; fail |
      cases sn; simp add: enum_value_def; fail | cases fk; simp add: enum_value_def; fail | cases cb; simp add: enum_value_def; fail)+

lemma count_of_nat: "optional_value count_value (case n of None \<Rightarrow> JUndef | Some k \<Rightarrow> JNum (of_nat k)) = Some n"
  by (cases n) (simp_all add: optional_value_def count_value_def)

lemma clone_case: "json_clone (case n of None \<Rightarrow> JUndef | Some k \<Rightarrow> JNum (f k)) = (case n of None \<Rightarrow> JUndef | Some k \<Rightarrow> JNum (f k))"
  "json_clone (case s of None \<Rightarrow> JNull | Some x \<Rightarrow> JStr x) = (case s of None \<Rightarrow> JNull | Some x \<Rightarrow> JStr x)"
  by (simp_all split: option.split)

lemma schema_ref_value: "nonempty_str s \<Longrightarrow> nullable_value text_value (case s of None \<Rightarrow> JNull | Some x \<Rightarrow> JStr x) = Some s"
  by (cases s) (simp_all add: nullable_value_def nonempty_str_def)

lemma scalar_values [simp]:
  "bool_value (JBool b) = Some b" "lo \<le> q \<Longrightarrow> q \<le> hi \<Longrightarrow> number_value lo hi (JNum q) = Some q"
  "timestamp_ok dates t \<Longrightarrow> time_value dates (JStr t) = Some t" "literal_value l (JStr l) = Some ()"
  by (simp_all add: bool_value_def number_value_def time_value_def literal_value_def)

lemmas read_back = strict_clone obj_get_clone record_clone array_texts count_of_nat clone_case schema_ref_value

lemma obj_get_Cons: "obj_get ((k, v) # kvs) k' = (if k = k' then v else obj_get kvs k')"
  by (simp add: obj_get_def)

lemma parts_read_back:
  "normalized_schema dates a \<Longrightarrow> provenance_value (json_clone (JObj
     [(''mode'', JStr (provenance_mode_str (pv_mode (provenance a)))), (''source'', JStr (pv_source (provenance a))),
      (''confidence'', JNum (pv_confidence (provenance a)))])) = Some (provenance a)"
  "normalized_schema dates a \<Longrightarrow> actor_value (json_clone (JObj
     [(''type'', JStr (actor_type_str (ac_type (actor a)))), (''agent_name'', js_opt_str (ac_agent_name (actor a))),
      (''agent_framework'', js_opt_str (ac_agent_framework (actor a))), (''tool_name'', JStr (ac_tool_name (actor a))),
      (''tool_kind'', JStr (ac_tool_kind (actor a)))])) = Some (actor a)"
  "normalized_schema dates a \<Longrightarrow> operation_value (json_clone (JObj
     [(''domain'', JStr (op_domain (operation a))), (''kind'', JStr (op_kind (operation a))),
      (''name'', JStr (op_name (operation a))), (''display_name'', js_opt_str (op_display_name (operation a)))])) = Some (operation a)"
  "path_value (json_clone (JObj
     [(''surface'', JStr (execution_surface_str (ep_surface (execution_path a)))),
      (''mode'', JStr (execution_mode_str (ep_mode (execution_path a)))),
      (''credential_mode'', JStr (credential_mode_str (ep_credential_mode (execution_path a))))])) = Some (execution_path a)"
  "normalized_schema dates a \<Longrightarrow> primary_value (json_clone (JObj
     [(''type'', JStr (tp_type (primary_target a))), (''locator'', JStr (tp_locator (primary_target a))),
      (''label'', js_opt_str (tp_label (primary_target a)))])) = Some (primary_target a)"
  "normalized_schema dates a \<Longrightarrow> scope_value (json_clone (JObj
     [(''breadth'', JStr (scope_breadth_str (ts_breadth (scope a)))),
      (''estimated_count'', (case ts_estimated_count (scope a) of None \<Rightarrow> JUndef | Some n \<Rightarrow> JNum (of_nat n))),
      (''unknowns'', js_strs (ts_unknowns (scope a)))])) = Some (scope a)"
  "risk_value (json_clone (JObj
     [(''side_effect_level'', JStr (side_effect_str (rh_side_effect_level (risk a)))),
      (''external_effects'', JStr (external_effect_str (rh_external_effects (risk a)))),
      (''reversibility_hint'', JStr (reversibility_str (rh_reversibility_hint (risk a)))),
      (''sensitivity_hint'', JStr (sensitivity_str (rh_sensitivity_hint (risk a)))),
      (''batch'', JBool (rh_batch (risk a)))])) = Some (risk a)"
  "normalized_schema dates a \<Longrightarrow> normalization_value (json_clone (JObj
     [(''mapper'', JStr (nm_mapper (normalization a))), (''inferred_fields'', js_strs (nm_inferred_fields (normalization a))),
      (''warnings'', js_strs (nm_warnings (normalization a))),
      (''normalization_confidence'', JNum (nm_confidence (normalization a)))])) = Some (normalization a)"
  by (simp_all add: normalized_schema_def unit_interval_def read_back obj_get_Cons provenance_value_def actor_value_def operation_value_def
      path_value_def primary_value_def scope_value_def risk_value_def normalization_value_def)

lemma factor_read_back: "factor_schema f \<Longrightarrow> factor_value (json_clone (factor_json f)) = Some f"
  by (simp add: factor_schema_def factor_json_def read_back obj_get_Cons factor_value_def)

lemma clone_objects: "json_clone (JArr (map factor_json fs)) = JArr (map (\<lambda>f. json_clone (factor_json f)) fs)"
  by (simp add: factor_json_def)

lemma factors_read_back:
  "list_all factor_schema fs \<Longrightarrow> array_value factor_value (json_clone (JArr (map factor_json fs))) = Some fs"
  unfolding clone_objects array_value_def jsval.case by (rule those_map) (simp add: list_all_iff factor_read_back)

lemma assessment_read_back: "assessment_schema c \<Longrightarrow> assessment_value (json_clone (JObj
     [(''engine_version'', JStr (ca_engine_version c)), (''score'', JNum (ca_score c)),
      (''band'', JStr (confidence_band_str (ca_band c))), (''requires_human_review'', JBool (ca_requires_human_review c)),
      (''factors'', JArr (map factor_json (ca_factors c)))])) = Some c"
  by (simp add: assessment_schema_def unit_interval_def read_back obj_get_Cons assessment_value_def factors_read_back
      del: json_clone.simps(1))

lemma input_read_back: "normalized_schema dates a \<Longrightarrow> input_value (json_clone (JObj
     [(''raw'', JObj (in_raw (action_input a))), (''redacted'', JObj (in_redacted (action_input a))),
      (''schema_ref'', (case in_schema_ref (action_input a) of None \<Rightarrow> JNull | Some s \<Rightarrow> JStr s)),
      (''contains_sensitive_data'', JBool (in_contains_sensitive_data (action_input a)))])) = Some (action_input (stored_action a))"
  by (simp add: normalized_schema_def stored_action_def read_back obj_get_Cons input_value_def)

lemma value_cases:
  "text_value v = Some s \<Longrightarrow> s \<noteq> []" "number_value lo hi v = Some q \<Longrightarrow> lo \<le> q \<and> q \<le> hi"
  "record_value v = Some kvs \<Longrightarrow> safe_record kvs" "time_value dates v = Some t \<Longrightarrow> timestamp_ok dates t"
  "optional_value text_value v = Some x \<Longrightarrow> nonempty_str x" "nullable_value text_value v = Some x \<Longrightarrow> nonempty_str x"
  by (auto simp: text_value_def number_value_def record_value_def time_value_def optional_value_def nullable_value_def nonempty_str_def
      split: jsval.splits if_splits)

lemma those_Some: "those (map p vs) = Some xs \<Longrightarrow> x \<in> set xs \<Longrightarrow> \<exists>v. p v = Some x"
  by (induction vs arbitrary: xs) (auto split: option.splits)

lemma array_Some: "array_value p v = Some xs \<Longrightarrow> (\<And>u x. p u = Some x \<Longrightarrow> P x) \<Longrightarrow> list_all P xs"
  by (auto simp: array_value_def list_all_iff split: jsval.splits dest: those_Some)

lemma factor_valid: "factor_value v = Some f \<Longrightarrow> factor_schema f"
  by (auto simp: factor_value_def factor_schema_def bind_eq_Some_conv dest: value_cases)

lemma parts_valid:
  "provenance_value v = Some pv \<Longrightarrow> pv_source pv \<noteq> [] \<and> unit_interval (pv_confidence pv)"
  "actor_value v = Some ac \<Longrightarrow> nonempty_str (ac_agent_name ac) \<and> nonempty_str (ac_agent_framework ac) \<and> ac_tool_name ac \<noteq> [] \<and> ac_tool_kind ac \<noteq> []"
  "operation_value v = Some op \<Longrightarrow> op_domain op \<noteq> [] \<and> op_kind op \<noteq> [] \<and> op_name op \<noteq> [] \<and> nonempty_str (op_display_name op)"
  "primary_value v = Some pt \<Longrightarrow> tp_type pt \<noteq> [] \<and> tp_locator pt \<noteq> [] \<and> nonempty_str (tp_label pt)"
  "input_value v = Some inp \<Longrightarrow> safe_record (in_raw inp) \<and> safe_record (in_redacted inp) \<and> nonempty_str (in_schema_ref inp)"
  by (auto simp: unit_interval_def bind_eq_Some_conv provenance_value_def actor_value_def operation_value_def primary_value_def
      input_value_def dest: value_cases)

lemma lists_valid:
  "scope_value v = Some sc \<Longrightarrow> list_all (\<lambda>u. u \<noteq> []) (ts_unknowns sc)"
  "normalization_value v = Some nm \<Longrightarrow> nm_mapper nm \<noteq> [] \<and> list_all (\<lambda>u. u \<noteq> []) (nm_inferred_fields nm) \<and>
     list_all (\<lambda>u. u \<noteq> []) (nm_warnings nm) \<and> unit_interval (nm_confidence nm)"
  "assessment_value v = Some ca \<Longrightarrow> assessment_schema ca"
  by (auto simp: unit_interval_def bind_eq_Some_conv scope_value_def normalization_value_def assessment_value_def assessment_schema_def
      dest: value_cases intro: array_Some [OF _ value_cases(1)] array_Some [OF _ factor_valid])

lemma parsed_action_valid: "parseActionRecord dates v = Some a \<Longrightarrow> ActionRecordSchema dates a"
  by (auto simp: parseActionRecord_def ActionRecordSchema_def normalized_schema_def bind_eq_Some_conv
      dest: value_cases(1,3,4) parts_valid lists_valid)

text \<open>C5: What the journal keeps of an action is read back as that action: for an action record that satisfies the schema, parsing
  its stored JSON gives the record, up to properties of its free-form parts that are \<open>undefined\<close>.\<close>

theorem logged_action_read_back:
  assumes "ActionRecordSchema dates a"
  shows "parseActionRecord dates (json_clone (action_json a)) = Some (stored_action a)"
proof -
  have n: "normalized_schema dates a" and c: "assessment_schema (confidence a)" using assms by (simp_all add: ActionRecordSchema_def)
  note parts = parts_read_back(1-3) [OF n] parts_read_back(4) parts_read_back(5,6) [OF n] parts_read_back(7)
    parts_read_back(8) [OF n] assessment_read_back [OF c] input_read_back [OF n]
  let ?prim = "JObj [(''type'', JStr (tp_type (primary_target a))), (''locator'', JStr (tp_locator (primary_target a))),
      (''label'', js_opt_str (tp_label (primary_target a)))]"
  let ?sc = "JObj [(''breadth'', JStr (scope_breadth_str (ts_breadth (scope a)))),
      (''estimated_count'', (case ts_estimated_count (scope a) of None \<Rightarrow> JUndef | Some n \<Rightarrow> JNum (of_nat n))),
      (''unknowns'', js_strs (ts_unknowns (scope a)))]"
  have target: "strict_object [''primary'', ''scope''] (json_clone (JObj [(''primary'', ?prim), (''scope'', ?sc)])) =
      Some [(''primary'', json_clone ?prim), (''scope'', json_clone ?sc)]"
    by (simp add: strict_object_def json_clone_object_def)
  have times: "strict_object [''requested_at'', ''normalized_at''] (json_clone (JObj [(''requested_at'', JStr (requested_at a)),
      (''normalized_at'', JStr (normalized_at a))])) = Some [(''requested_at'', JStr (requested_at a)), (''normalized_at'', JStr (normalized_at a))]"
    by (simp add: strict_object_def json_clone_object_def)
  have facets: "record_value (json_clone (JObj (facets a))) = Some (facets (stored_action a))"
    using n by (simp add: normalized_schema_def stored_action_def record_clone)
  obtain kvs where kvs: "action_json a = JObj kvs" by (simp add: action_json_def)
  have keys: "distinct (map fst kvs)" "list_all (\<lambda>kv. fst kv \<in> set ACTION_KEYS) kvs"
    using kvs by (auto simp: action_json_def ACTION_KEYS_def)
  have clone: "json_clone (action_json a) = JObj (json_clone_object kvs)" by (simp add: kvs)
  have get: "obj_get (json_clone_object kvs) k = json_clone (obj_get kvs k)" for k by (rule obj_get_clone [OF keys(1)])
  have obj: "JObj kvs = action_json a" by (simp add: kvs)
  note field = obj [unfolded action_json_def, simplified]
  have n': "timestamp_ok dates (requested_at a)" "timestamp_ok dates (normalized_at a)" "action_id a \<noteq> []" "run_id a \<noteq> []" "session_id a \<noteq> []"
    using n by (simp_all add: normalized_schema_def)
  show ?thesis
    unfolding parseActionRecord_def clone strict_clone [OF keys(2)] get bind.bind_lunit
    unfolding field by (simp add: obj_get_Cons times target facets parts n' stored_action_def [of a] del: json_clone_JObj)
qed

end
