(* ===== verification/Authority_State.thy ===== *)
theory Authority_State
  imports Action_Json Crash_Recovery Recovery_Engine Policy_Eval
begin

text \<open>
  The state of the daemon: sessions and runs in memory (\<open>packages/authority-daemon/src/state.ts\<close>), the journal with its
  artifacts and the cached capabilities, the registry of MCP servers, the snapshot engine with the workspaces,
  the owned stores, and whatever else adapters act on (type \<open>'w\<close>). With it the authorization of
  requests (\<open>app/authorization.ts\<close>), the cached capability state (\<open>app/capabilities.ts\<close>) and the risk context
  of a run (\<open>services/snapshot-risk.ts\<close>). A handler is one step: interleavings of two handlers at their
  \<open>await\<close>s are not modelled.
\<close>

section \<open>Records\<close>

record session_record =
  se_id :: string
  se_client_type :: string
  se_client_version :: string
  se_roots :: "string list"
  se_created_at :: string

record authority_run =
  an_input :: run_input
  an_created_at :: string
  an_rehydrated :: bool

record capability_snapshot =
  cn_capabilities :: "capability_record list"
  cn_warnings :: "string list"
  cn_refreshed_at :: "int option"

datatype visibility = VS_user | VS_model | VS_internal | VS_sensitive

fun visibility_str :: "visibility \<Rightarrow> string" where
  "visibility_str VS_user = ''user''"
| "visibility_str VS_model = ''model''"
| "visibility_str VS_internal = ''internal''"
| "visibility_str VS_sensitive = ''sensitive_internal''"

datatype artifact_type = AR_diff | AR_stdout | AR_stderr | AR_screenshot | AR_request_response | AR_file_content

fun artifact_type_str :: "artifact_type \<Rightarrow> string" where
  "artifact_type_str AR_diff = ''diff''"
| "artifact_type_str AR_stdout = ''stdout''"
| "artifact_type_str AR_stderr = ''stderr''"
| "artifact_type_str AR_screenshot = ''screenshot''"
| "artifact_type_str AR_request_response = ''request_response''"
| "artifact_type_str AR_file_content = ''file_content''"

record artifact =
  af_id :: string
  af_type :: artifact_type
  af_ref :: string
  af_bytes :: int
  af_visibility :: visibility

text \<open>A row of the table of artifacts with the content of its file.\<close>

record stored_artifact = artifact +
  af_run :: string
  af_action :: string
  af_execution :: string
  af_digest :: string
  af_created_at :: string
  af_content :: string

text \<open>The part of a profile of an MCP server that a submission reads; enumerations are their literals.\<close>

record mcp_profile =
  mp_id :: string
  mp_candidate :: "string option"
  mp_trust_tier :: string
  mp_status :: string
  mp_drift :: string
  mp_modes :: "string list"
  mp_binding :: "string option"

record mcp_tables =
  mc_servers :: "mcp_server_definition list"
  mc_profiles :: "mcp_profile list"
  mc_candidates :: "(string \<times> string) list"
  mc_bindings :: "(string \<times> string) list"

text \<open>What adapters change besides files: the owned stores, by identifier, and the services.\<close>

record 'w outside =
  os_drafts :: "(string \<times> fields) list"
  os_notes :: "(string \<times> fields) list"
  os_tickets :: "(string \<times> fields) list"
  os_services :: 'w

record 'w authority =
  au_sessions :: "(string \<times> session_record) list"
  au_runs :: "(string \<times> authority_run) list"
  au_journal :: journal
  au_artifacts :: "stored_artifact list"
  au_capabilities :: "capability_snapshot option"
  au_mcp :: mcp_tables
  au_engine :: engine
  au_outside :: "'w outside"

section \<open>Effects\<close>

definition get_state :: "('s \<Rightarrow> 'a) \<Rightarrow> ('s, 'a) eff" where
  "get_state f s = Some (Inr (f s), s)"

definition lift_error :: "ag_error + 'a \<Rightarrow> ('s, 'a) eff" where
  "lift_error r s = (case r of Inl e \<Rightarrow> Some (Inl (WE_ag e), s) | Inr x \<Rightarrow> Some (Inr x, s))"

definition on_journal :: "(journal \<Rightarrow> ag_error + 'a \<times> journal) \<Rightarrow> ('w authority, 'a) eff" where
  "on_journal f s =
     (case f (au_journal s) of
        Inl e \<Rightarrow> Some (Inl (WE_ag e), s)
      | Inr (x, j) \<Rightarrow> Some (Inr x, s\<lparr>au_journal := j\<rparr>))"

definition on_engine :: "(engine, 'a) eff \<Rightarrow> ('w authority, 'a) eff" where
  "on_engine f s = map_option (\<lambda>(r, e). (r, s\<lparr>au_engine := e\<rparr>)) (f (au_engine s))"

definition log_event :: "int \<Rightarrow> string \<Rightarrow> string \<Rightarrow> fields \<Rightarrow> ('w authority, nat) eff" where
  "log_event now r ty payload = on_journal (appendRunEvent now r ty payload)"

definition ag_throw :: "ag_error \<Rightarrow> ('s, 'a) eff" where
  "ag_throw e = eff_throw (WE_ag e)"

section \<open>Sessions and runs\<close>

definition createSession :: "session_record \<Rightarrow> 'w authority \<Rightarrow> 'w authority" where
  "createSession se s = s\<lparr>au_sessions := AList.update (se_id se) se (au_sessions s)\<rparr>"

definition getSession :: "string option \<Rightarrow> 'w authority \<Rightarrow> session_record option" where
  "getSession i s = (case i of None \<Rightarrow> None | Some k \<Rightarrow> if k = [] then None else map_of (au_sessions s) k)"

definition rehydrateSession :: "string \<Rightarrow> string list \<Rightarrow> string \<Rightarrow> 'w authority \<Rightarrow> 'w authority" where
  "rehydrateSession i roots now s =
     (case map_of (au_sessions s) i of
        Some _ \<Rightarrow> s
      | None \<Rightarrow> s\<lparr>au_sessions := AList.update i \<lparr>se_id = i, se_client_type = ''rehydrated'', se_client_version = ''0.0.0'',
                                     se_roots = roots, se_created_at = now\<rparr> (au_sessions s)\<rparr>)"

definition createRun :: "run_input \<Rightarrow> string \<Rightarrow> 'w authority \<Rightarrow> 'w authority" where
  "createRun i now s =
     s\<lparr>au_runs := AList.update (ri_run_id i) \<lparr>an_input = i, an_created_at = now, an_rehydrated = False\<rparr> (au_runs s)\<rparr>"

definition rehydrateRun :: "run_row \<Rightarrow> string \<Rightarrow> 'w authority \<Rightarrow> 'w authority" where
  "rehydrateRun row created s =
     (case map_of (au_runs s) (rw_run_id row) of
        Some _ \<Rightarrow> s
      | None \<Rightarrow> s\<lparr>au_runs := AList.update (rw_run_id row)
          \<lparr>an_input = \<lparr>ri_run_id = rw_run_id row, ri_session_id = rw_session_id row, ri_workflow_name = rw_workflow_name row,
                       ri_agent_framework = rw_agent_framework row, ri_agent_name = rw_agent_name row,
                       ri_workspace_roots = rw_workspace_roots row, ri_client_metadata = JObj [],
                       ri_budget_config = rw_budget_config row\<rparr>,
           an_created_at = created, an_rehydrated = True\<rparr> (au_runs s)\<rparr>)"

definition reconcilePersistedRuns :: "string \<Rightarrow> (int \<Rightarrow> string) \<Rightarrow> 'w authority \<Rightarrow> 'w authority" where
  \<comment> \<open>\<open>print_time\<close> prints the time a run was created\<close>
  "reconcilePersistedRuns now print_time s =
     foldl (\<lambda>s su. let row = su_run su in
         rehydrateRun row (print_time (rw_created_at row)) (rehydrateSession (rw_session_id row) (rw_workspace_roots row) now s))
       s (listAllRuns (au_journal s))"

section \<open>Authorization\<close>

definition requireValidSession :: "string \<Rightarrow> string option \<Rightarrow> ('w authority, session_record) eff" where
  "requireValidSession method i s =
     (case getSession i s of
        None \<Rightarrow> ag_throw (PreconditionError (''A valid session_id is required before '' @ method @ ''.'')) s
      | Some se \<Rightarrow> eff_return se s)"

definition canonicalizeWorkspaceRootForAuthorization :: "realpath \<Rightarrow> string \<Rightarrow> string \<Rightarrow> string" where
  "canonicalizeWorkspaceRootForAuthorization rp cwd root_path =
     (case rp root_path of RP_resolved q \<Rightarrow> q | _ \<Rightarrow> path_resolve cwd root_path)"

definition roots_overlap :: "realpath \<Rightarrow> string \<Rightarrow> string list \<Rightarrow> string list \<Rightarrow> bool" where
  "roots_overlap rp cwd run_roots session_roots =
     list_ex (\<lambda>r. r \<in> set (map (canonicalizeWorkspaceRootForAuthorization rp cwd) session_roots))
       (map (canonicalizeWorkspaceRootForAuthorization rp cwd) run_roots)"

definition sessionCanAccessRun :: "realpath \<Rightarrow> string \<Rightarrow> session_record \<Rightarrow> run_summary \<Rightarrow> bool" where
  "sessionCanAccessRun rp cwd se su = roots_overlap rp cwd (rw_workspace_roots (su_run su)) (se_roots se)"

definition requireAuthorizedRunSummary :: "realpath \<Rightarrow> string \<Rightarrow> session_record \<Rightarrow> string \<Rightarrow> ('w authority, run_summary) eff" where
  "requireAuthorizedRunSummary rp cwd se r s =
     (case getRunSummary r (au_journal s) of
        None \<Rightarrow> ag_throw (no_run_error r) s
      | Some su \<Rightarrow> if sessionCanAccessRun rp cwd se su then eff_return su s else ag_throw (no_run_error r) s)"

section \<open>Cached capabilities\<close>

definition js_parse_int :: "string \<Rightarrow> int option" where
  \<comment> \<open>\<open>Number.parseInt(text, 10)\<close>, \<open>None\<close> for \<open>NaN\<close>\<close>
  "js_parse_int text =
     (let t = dropWhile js_space text;
          (neg, d) = (case t of c # cs \<Rightarrow> if c = CHR ''-'' then (True, cs) else if c = CHR ''+'' then (False, cs) else (False, t)
                              | [] \<Rightarrow> (False, []));
          ds = takeWhile (\<lambda>c. 48 \<le> (of_char c :: nat) \<and> (of_char c :: nat) \<le> 57) d;
          n = foldl (\<lambda>n c. 10 * n + (of_char c - 48)) (0 :: int) ds in
      if ds = [] then None else Some (if neg then - n else n))"

definition resolveCapabilityRefreshStaleMs :: "int option \<Rightarrow> string option \<Rightarrow> ag_error + int" where
  "resolveCapabilityRefreshStaleMs opt configured =
     (case opt of
        Some n \<Rightarrow> Inr (max 0 n)
      | None \<Rightarrow>
          (case configured of
             None \<Rightarrow> Inr 300000
           | Some c \<Rightarrow>
               (if js_trim c = [] then Inr 300000
                else case js_parse_int (js_trim c) of
                    None \<Rightarrow> Inl (InternalError ''Capability refresh stale threshold must be a non-negative integer.'')
                  | Some n \<Rightarrow> if n < 0 then Inl (InternalError ''Capability refresh stale threshold must be a non-negative integer.'')
                             else Inr n)))"

definition buildCachedCapabilityState ::
  "int option \<Rightarrow> string option \<Rightarrow> int \<Rightarrow> capability_snapshot option \<Rightarrow> ag_error + cached_capability_state option" where
  "buildCachedCapabilityState opt configured now snapshot =
     (case snapshot of
        None \<Rightarrow> Inr None
      | Some c \<Rightarrow>
          (case resolveCapabilityRefreshStaleMs opt configured of
             Inl e \<Rightarrow> Inl e
           | Inr stale \<Rightarrow> Inr (Some
               \<lparr>cc_capabilities = cn_capabilities c, cc_degraded_mode_warnings = cn_warnings c,
                cc_is_stale = (case cn_refreshed_at c of None \<Rightarrow> False | Some t \<Rightarrow> now - t > stale)\<rparr>)))"

section \<open>The risk context of a run\<close>

definition low_disk_pressure_signals :: "string \<Rightarrow> journal \<Rightarrow> nat" where
  "low_disk_pressure_signals r j =
     sum_list (map (\<lambda>e. case obj_get (ev_payload e) ''artifact_capture_failures'' of
           JArr fs \<Rightarrow> length (filter (\<lambda>f. js_get f ''low_disk_pressure'' = JBool True) fs) | _ \<Rightarrow> 0)
       (filter (\<lambda>e. ev_type e \<in> {''execution.completed'', ''execution.simulated''}) (run_events j r)))"

definition event_string :: "journal_event \<Rightarrow> string \<Rightarrow> string option" where
  \<comment> \<open>\<open>eventPayloadString\<close>\<close>
  "event_string e k = (case obj_get (ev_payload e) k of JStr v \<Rightarrow> if v = [] then None else Some v | _ \<Rightarrow> None)"

definition eventPayloadAction :: "(string \<Rightarrow> bool) \<Rightarrow> journal_event \<Rightarrow> action_record option" where
  "eventPayloadAction dates e = parseActionRecord dates (obj_get (ev_payload e) ''action'')"

definition isMutatingAction :: "action_record \<Rightarrow> bool" where
  "isMutatingAction a = (side_effect a = SE_mutating \<or> side_effect a = SE_destructive)"

definition isBroadMutationAction :: "action_record \<Rightarrow> bool" where
  "isBroadMutationAction a =
     (isMutatingAction a \<and>
      (ts_breadth (scope a) \<in> {SB_workspace, SB_repository, SB_origin, SB_external, SB_unknown} \<or> ts_unknowns (scope a) \<noteq> []))"

definition isAmbiguousShellMutation :: "action_record \<Rightarrow> bool" where
  "isAmbiguousShellMutation a =
     (domain_of a = ''shell'' \<and> isMutatingAction a \<and>
      (let family = js_string_or ''unclassified'' (facet_field a ''shell'' ''command_family'') in
       score_of a < 8 / 10 \<or> nm_confidence (normalization a) < 85 / 100 \<or> ts_breadth (scope a) \<noteq> SB_single \<or>
       ts_unknowns (scope a) \<noteq> [] \<or> family \<in> {''unclassified'', ''package_manager'', ''build_tool''}))"

record risk_context =
  rx_seen :: "(string \<times> action_record) list"
  rx_ambiguous :: nat
  rx_broad :: nat
  rx_reviewed :: nat
  rx_failed :: nat

definition risk_event :: "(string \<Rightarrow> bool) \<Rightarrow> string option \<Rightarrow> journal_event \<Rightarrow> risk_context \<Rightarrow> risk_context" where
  "risk_event dates excluded e c =
     (let i = event_string e ''action_id'';
          known = (case i of None \<Rightarrow> False | Some k \<Rightarrow> map_of (rx_seen c) k \<noteq> None) in
      if i \<noteq> None \<and> excluded \<noteq> None \<and> excluded \<noteq> Some [] \<and> i = excluded then c
      else if ev_type e = ''action.normalized'' then
        (case eventPayloadAction dates e of
           None \<Rightarrow> c
         | Some a \<Rightarrow>
             (if \<not> isMutatingAction a then c
              else c\<lparr>rx_seen := AList.update (action_id a) a (rx_seen c),
                     rx_ambiguous := rx_ambiguous c + (if isAmbiguousShellMutation a then 1 else 0),
                     rx_broad := rx_broad c + (if isBroadMutationAction a then 1 else 0)\<rparr>))
      else if ev_type e = ''policy.evaluated'' then
        (if event_string e ''decision'' \<in> {Some ''ask'', Some ''deny''} \<and> known then c\<lparr>rx_reviewed := rx_reviewed c + 1\<rparr> else c)
      else if ev_type e = ''execution.failed'' \<and> known then c\<lparr>rx_failed := rx_failed c + 1\<rparr>
      else c)"

definition deriveSnapshotRunRiskContext ::
  "(string \<Rightarrow> bool) \<Rightarrow> string \<Rightarrow> string option \<Rightarrow> journal \<Rightarrow> ag_error + risk_context" where
  "deriveSnapshotRunRiskContext dates r excluded j =
     map_sum id (\<lambda>es. fold (risk_event dates excluded) es
         \<lparr>rx_seen = [], rx_ambiguous = 0, rx_broad = 0, rx_reviewed = 0, rx_failed = 0\<rparr>) (listRunEvents r j)"

definition deriveSnapshotCapabilityState :: "cached_capability_state option \<Rightarrow> capability_health" where
  "deriveSnapshotCapabilityState state =
     (case state of
        None \<Rightarrow> Degraded
      | Some c \<Rightarrow>
          (if cc_is_stale c then Stale
           else if list_ex (\<lambda>p. cap_status p = CS_unavailable) (cc_capabilities c) \<or> cc_degraded_mode_warnings c \<noteq> [] then Degraded
           else Healthy))"

end
