(* ===== verification/Action_Execution.thy ===== *)
theory Action_Execution
  imports Authority_State
begin

text \<open>
  Execution of a permitted action (\<open>packages/authority-daemon/src/services/action-execution.ts\<close>) over the registry of
  adapters (\<open>AdapterRegistry\<close> of \<open>packages/execution-adapters/src/index.ts\<close>) and the artifacts of the journal.
  An adapter is a record of functions: it sees the workspaces and the outside and gives back the
  workspaces it has changed. Hosted execution is the callback the handlers are given. The latency
  counters are not modelled; the message of an error of Node is its code.
\<close>

section \<open>Locators of owned objects\<close>

fun split_at :: "string \<Rightarrow> string \<Rightarrow> (string \<times> string) option" where
  \<comment> \<open>what is before and after the first occurrence\<close>
  "split_at sep [] = (if sep = [] then Some ([], []) else None)"
| "split_at sep (c # cs) =
     (if prefix sep (c # cs) then Some ([], drop (length sep) (c # cs))
      else map_option (\<lambda>(a, b). (c # a, b)) (split_at sep cs))"

definition after_prefix :: "string \<Rightarrow> string \<Rightarrow> string option" where
  "after_prefix p s = (if prefix p s then Some (drop (length p) s) else None)"

definition some_text :: "string \<Rightarrow> string option" where
  "some_text s = (if s = [] then None else Some s)"

definition parseDraftLocator :: "string \<Rightarrow> string option" where
  "parseDraftLocator locator =
     (case after_prefix ''drafts://message_draft/'' locator of
        None \<Rightarrow> None
      | Some rest \<Rightarrow> some_text (case split_at ''/labels/'' rest of None \<Rightarrow> rest | Some (d, l) \<Rightarrow> d))"

definition parseNoteLocator :: "string \<Rightarrow> string option" where
  "parseNoteLocator locator =
     (case after_prefix ''notes://workspace_note/'' locator of None \<Rightarrow> None | Some rest \<Rightarrow> some_text rest)"

definition parseTicketLocator :: "string \<Rightarrow> string option" where
  "parseTicketLocator locator =
     (case after_prefix ''tickets://issue/'' locator of
        None \<Rightarrow> None
      | Some rest \<Rightarrow> some_text
          (case (split_at ''/labels/'' rest, split_at ''/assignees/'' rest) of
             (None, None) \<Rightarrow> rest
           | (Some (a, _), None) \<Rightarrow> a
           | (None, Some (b, _)) \<Rightarrow> b
           | (Some (a, _), Some (b, _)) \<Rightarrow> if length a \<le> length b then a else b))"

definition captureOwnedPreimage :: "action_record \<Rightarrow> 'w outside \<Rightarrow> jsval" where
  "captureOwnedPreimage a out =
     (let k = op_kind (operation a); l = locator_of a;
          read = (\<lambda>i store. case i of None \<Rightarrow> JNull | Some d \<Rightarrow> (case map_of store d of None \<Rightarrow> JNull | Some kvs \<Rightarrow> JObj kvs)) in
      if domain_of a \<noteq> ''function'' then JNull
      else if k \<in> {''update_draft'', ''restore_draft'', ''delete_draft''} then read (parseDraftLocator l) (os_drafts out)
      else if k \<in> {''update_note'', ''restore_note'', ''delete_note''} then read (parseNoteLocator l) (os_notes out)
      else if k \<in> {''update_ticket'', ''delete_ticket'', ''restore_ticket''} then read (parseTicketLocator l) (os_tickets out)
      else JNull)"

section \<open>Adapters\<close>

record capture_failure =
  kf_artifact :: string
  kf_type :: artifact_type
  kf_code :: error_code
  kf_retryable :: bool
  kf_low_disk :: bool

record artifact_capture =
  kc_requested :: nat
  kc_stored :: nat
  kc_failures :: "capture_failure list"

record execution_result =
  er_id :: string
  er_action :: string
  er_simulated :: bool
  er_success :: bool
  er_output :: fields
  er_artifacts :: "artifact list"
  er_capture :: "artifact_capture option"
  er_started_at :: string
  er_completed_at :: string

text \<open>What an adapter throws, with the details of the error.\<close>

record thrown =
  th_error :: wi_error
  th_details :: fields

record exec_context =
  ec_action :: action_record
  ec_outcome :: policy_outcome
  ec_snapshot :: "string option"
  ec_root :: string

record 'w adapter =
  ad_domains :: "string list"
  ad_can_handle :: "action_record \<Rightarrow> bool"
  ad_verify :: "exec_context \<Rightarrow> (string \<Rightarrow> tree) \<Rightarrow> 'w outside \<Rightarrow> thrown option \<times> 'w outside"
  ad_execute :: "exec_context \<Rightarrow> (string \<Rightarrow> tree) \<Rightarrow> 'w outside \<Rightarrow> (thrown + execution_result) \<times> (string \<times> tree) list \<times> 'w outside"

record hosted_ticket =
  hj_job :: string
  hj_profile :: string
  hj_tool :: string
  hj_attempts :: nat
  hj_next :: string

text \<open>What the daemon is configured with.\<close>

record 'w authority_env =
  ae_engine :: engine_env
  ae_regex :: regex_engine
  ae_policy :: compiled_pack
  ae_adapters :: "'w adapter list"
  ae_hosted_job :: "action_record \<Rightarrow> mcp_tables \<Rightarrow> 'w outside \<Rightarrow> thrown + hosted_ticket"
  ae_hosted_wait :: "action_record \<Rightarrow> hosted_ticket \<Rightarrow> 'w outside \<Rightarrow> (thrown + execution_result option) \<times> 'w outside"
  ae_store_fault :: "string \<Rightarrow> (ag_error \<times> bool) option"
  ae_stale_ms :: "int option"
  ae_stale_env :: "string option"
  ae_dates :: "string \<Rightarrow> bool"

definition findAdapter :: "'w adapter list \<Rightarrow> action_record \<Rightarrow> 'w adapter option" where
  "findAdapter adapters a = find (\<lambda>ad. ad_can_handle ad a) adapters"

definition supportedDomains :: "'w adapter list \<Rightarrow> string list" where
  "supportedDomains adapters = js_dedup (concat (map ad_domains adapters))"

definition getWorkspaceRoot :: "string \<Rightarrow> string \<Rightarrow> string list \<Rightarrow> string" where
  "getWorkspaceRoot cwd locator roots =
     (let l = path_resolve cwd locator in
      case find (\<lambda>r. path_within l r) (map (path_resolve cwd) roots) of
        Some r \<Rightarrow> r
      | None \<Rightarrow> path_resolve cwd (case js_head roots of None \<Rightarrow> cwd | Some r \<Rightarrow> r))"

section \<open>Artifacts\<close>

definition artifactContentFromExecutionResult :: "artifact \<Rightarrow> action_record \<Rightarrow> execution_result \<Rightarrow> string option" where
  "artifactContentFromExecutionResult f a r =
     (case af_type f of
        AR_stdout \<Rightarrow> js_string_opt (obj_get (er_output r) ''stdout'')
      | AR_stderr \<Rightarrow> js_string_opt (obj_get (er_output r) ''stderr'')
      | AR_diff \<Rightarrow> js_string_opt (obj_get (er_output r) ''diff_preview'')
      | AR_request_response \<Rightarrow> js_string_opt (obj_get (er_output r) ''preview'')
      | AR_file_content \<Rightarrow> js_string_opt (obj_get (in_raw (action_input a)) ''content'')
      | AR_screenshot \<Rightarrow> None)"

definition artifactVisibilityForAction :: "artifact \<Rightarrow> action_record \<Rightarrow> visibility" where
  "artifactVisibilityForAction f a =
     (if af_type f \<in> {AR_stdout, AR_stderr} \<and> domain_of a = ''shell'' then VS_internal
      else if in_contains_sensitive_data (action_input a) \<and> af_type f \<in> {AR_file_content, AR_diff, AR_request_response} then VS_sensitive
      else af_visibility f)"

definition MAX_STORED_ARTIFACT_BYTES :: int where
  "MAX_STORED_ARTIFACT_BYTES = 16777216"

text \<open>\<open>INSERT OR REPLACE\<close> by identifier. The flag of a failure is \<open>details.low_disk_pressure\<close>; retention is not modelled.\<close>

definition storeArtifact ::
  "(string \<Rightarrow> (ag_error \<times> bool) option) \<Rightarrow> stored_artifact \<Rightarrow> stored_artifact list \<Rightarrow> (ag_error \<times> bool) + stored_artifact list" where
  "storeArtifact fault row rows =
     (if MAX_STORED_ARTIFACT_BYTES < utf8_length (af_content row) then
        Inl (InternalError ''Failed to store execution artifact.'', False)
      else case fault (af_id row) of
          Some e \<Rightarrow> Inl e
        | None \<Rightarrow> Inr (filter (\<lambda>x. af_id x \<noteq> af_id row) rows @ [row]))"

definition stored_artifact_json :: "stored_artifact \<Rightarrow> jsval" where
  "stored_artifact_json x = JObj
     [(''artifact_id'', JStr (af_id x)), (''type'', JStr (artifact_type_str (af_type x))), (''byte_size'', JNum (of_int (af_bytes x))),
      (''visibility'', JStr (visibility_str (af_visibility x))),
      (''integrity'', JObj [(''schema_version'', JStr ''artifact-integrity.v1''), (''digest_algorithm'', JStr ''sha256''),
                            (''digest'', JStr (af_digest x))])]"

fun error_code_str :: "error_code \<Rightarrow> string" where
  "error_code_str BAD_REQUEST = ''BAD_REQUEST''"
| "error_code_str VALIDATION_FAILED = ''VALIDATION_FAILED''"
| "error_code_str NOT_FOUND = ''NOT_FOUND''"
| "error_code_str CONFLICT = ''CONFLICT''"
| "error_code_str TIMEOUT = ''TIMEOUT''"
| "error_code_str PRECONDITION_FAILED = ''PRECONDITION_FAILED''"
| "error_code_str POLICY_BLOCKED = ''POLICY_BLOCKED''"
| "error_code_str UPSTREAM_FAILURE = ''UPSTREAM_FAILURE''"
| "error_code_str CAPABILITY_UNAVAILABLE = ''CAPABILITY_UNAVAILABLE''"
| "error_code_str STORAGE_UNAVAILABLE = ''STORAGE_UNAVAILABLE''"
| "error_code_str BROKER_UNAVAILABLE = ''BROKER_UNAVAILABLE''"
| "error_code_str INTERNAL_ERROR = ''INTERNAL_ERROR''"

definition capture_failure_json :: "capture_failure \<Rightarrow> jsval" where
  "capture_failure_json k = JObj
     [(''artifact_id'', JStr (kf_artifact k)), (''type'', JStr (artifact_type_str (kf_type k))), (''code'', JStr (error_code_str (kf_code k))),
      (''retryable'', JBool (kf_retryable k)), (''low_disk_pressure'', JBool (kf_low_disk k))]"

definition capture_one ::
  "'w authority_env \<Rightarrow> action_record \<Rightarrow> execution_result \<Rightarrow> artifact \<Rightarrow>
   stored_artifact list \<times> capture_failure list \<times> stored_artifact list \<Rightarrow> stored_artifact list \<times> capture_failure list \<times> stored_artifact list" where
  "capture_one env a r f c =
     (case artifactContentFromExecutionResult f a r of
        None \<Rightarrow> c
      | Some content \<Rightarrow>
          (let row = \<lparr>af_id = af_id f, af_type = af_type f, af_ref = af_ref f, af_bytes = af_bytes f,
                      af_visibility = artifactVisibilityForAction f a, af_run = run_id a, af_action = action_id a,
                      af_execution = er_id r, af_digest = ee_sha256 (ae_engine env) content,
                      af_created_at = er_completed_at r, af_content = content\<rparr> in
           case storeArtifact (ae_store_fault env) row (snd (snd c)) of
             Inr rows \<Rightarrow> (fst c @ [row], fst (snd c), rows)
           | Inl (e, low) \<Rightarrow>
               (fst c, fst (snd c) @ [\<lparr>kf_artifact = af_id f, kf_type = af_type f, kf_code = err_code e, kf_retryable = err_retryable e,
                                       kf_low_disk = low\<rparr>], snd (snd c))))"

definition capture_artifacts ::
  "'w authority_env \<Rightarrow> action_record \<Rightarrow> execution_result \<Rightarrow> stored_artifact list \<Rightarrow>
   stored_artifact list \<times> capture_failure list \<times> stored_artifact list" where
  "capture_artifacts env a r rows = fold (capture_one env a r) (er_artifacts r) ([], [], rows)"

definition capture_warnings :: "capture_failure list \<Rightarrow> string list" where
  "capture_warnings fs =
     (if fs = [] then []
      else [''Supporting evidence capture degraded: '' @ nat_digits (length fs) @
            (if list_ex kf_low_disk fs then '' artifact(s) could not be stored because local storage was unavailable.''
             else '' artifact(s) could not be stored durably.'')])"

section \<open>Payloads of the events\<close>

definition stringPreview :: "nat \<Rightarrow> jsval \<Rightarrow> jsval" where
  "stringPreview n v =
     (case v of JStr s \<Rightarrow> if s = [] then JNull else if n < length s then JStr (take n s @ ''...'') else JStr s | _ \<Rightarrow> JNull)"

definition typed_field :: "(jsval \<Rightarrow> bool) \<Rightarrow> jsval \<Rightarrow> jsval" where
  \<comment> \<open>\<open>typeof v === ... ? v : null\<close>\<close>
  "typed_field p v = (if p v then v else JNull)"

fun js_is_string :: "jsval \<Rightarrow> bool" where
  "js_is_string (JStr s) = True" | "js_is_string v = False"

fun js_is_number :: "jsval \<Rightarrow> bool" where
  "js_is_number (JNum n) = True" | "js_is_number v = False"

fun js_is_bool :: "jsval \<Rightarrow> bool" where
  "js_is_bool (JBool b) = True" | "js_is_bool v = False"

definition snapshot_class_str :: "snapshot_class \<Rightarrow> string" where
  "snapshot_class_str c = (case c of SC_metadata_only \<Rightarrow> ''metadata_only'' | SC_journal_only \<Rightarrow> ''journal_only''
     | SC_journal_plus_anchor \<Rightarrow> ''journal_plus_anchor'' | SC_exact_anchor \<Rightarrow> ''exact_anchor'')"

definition fidelity_str :: "snapshot_fidelity \<Rightarrow> string" where
  "fidelity_str f = (case f of SF_full \<Rightarrow> ''full'' | SF_partial \<Rightarrow> ''partial'' | SF_metadata \<Rightarrow> ''metadata_only'' | SF_none \<Rightarrow> ''none'')"

definition health_str :: "capability_health \<Rightarrow> string" where
  "health_str h = (case h of Healthy \<Rightarrow> ''healthy'' | Stale \<Rightarrow> ''stale'' | Degraded \<Rightarrow> ''degraded'')"

definition basis_json :: "selection_basis \<Rightarrow> jsval" where
  "basis_json b = JObj
     [(''operation_family'', JStr (sb_operation_family b)), (''scope_breadth'', JStr (scope_breadth_str (sb_scope_breadth b))),
      (''scope_unknowns'', js_strs (sb_scope_unknowns b)), (''normalization_confidence'', JNum (sb_normalization_confidence b)),
      (''confidence_score'', JNum (sb_confidence_score b)), (''side_effect_level'', JStr (side_effect_str (sb_side_effect_level b))),
      (''external_effects'', JStr (external_effect_str (sb_external_effects b))),
      (''reversibility_hint'', JStr (reversibility_str (sb_reversibility_hint b))),
      (''capability_state'', JStr (health_str (sb_capability_state b))), (''low_disk_pressure_observed'', JBool (sb_low_disk_pressure b)),
      (''journal_chain_depth'', JNum (of_nat (sb_chain_depth b))),
      (''recent_ambiguous_shell_mutations'', JNum (of_nat (sb_ambiguous_shell b))),
      (''recent_broad_mutation_actions'', JNum (of_nat (sb_broad_mutations b))),
      (''recent_review_or_blocked_mutations'', JNum (of_nat (sb_reviewed_mutations b))),
      (''recent_failed_mutations'', JNum (of_nat (sb_failed_mutations b))),
      (''explicit_branch_point'', JBool (sb_branch_point b)), (''explicit_hard_checkpoint'', JBool (sb_hard_checkpoint b))]"

definition snapshot_payload :: "action_record \<Rightarrow> snapshot_record \<Rightarrow> selection_result option \<Rightarrow> fields" where
  "snapshot_payload a r sel =
     [(''action_id'', JStr (action_id a)), (''snapshot_id'', JStr (sr_snapshot_id r)),
      (''snapshot_class'', JStr (snapshot_class_str (sr_class r))), (''fidelity'', JStr (fidelity_str (sr_fidelity r))),
      (''selection_reason_codes'', js_strs (case sel of None \<Rightarrow> [] | Some l \<Rightarrow> sl_reason_codes l)),
      (''selection_basis'', (case sel of None \<Rightarrow> JNull | Some l \<Rightarrow> basis_json (sl_basis l)))]"

definition sensitivity_of :: "action_record \<Rightarrow> jsval" where
  "sensitivity_of a = JStr (if in_contains_sensitive_data (action_input a) then ''sensitive_internal'' else ''user'')"

definition excerpt_visibility :: "action_record \<Rightarrow> jsval" where
  "excerpt_visibility a = JStr (if domain_of a = ''shell'' then ''internal'' else ''user'')"

definition completed_payload ::
  "action_record \<Rightarrow> execution_result \<Rightarrow> stored_artifact list \<Rightarrow> capture_failure list \<Rightarrow> fields" where
  "completed_payload a r stored failed =
     (let out = (\<lambda>k. obj_get (er_output r) k) in
      [(''action_id'', JStr (action_id a)), (''execution_id'', JStr (er_id r)),
       (''mode'', JStr (if er_simulated r then ''simulated'' else ''executed'')), (''success'', JBool (er_success r)),
       (''side_effect_level'', JStr (side_effect_str (side_effect a))),
       (''artifact_types'', js_strs (map (\<lambda>f. artifact_type_str (af_type f)) (er_artifacts r))),
       (''artifact_count'', JNum (of_nat (length (er_artifacts r)))), (''stored_artifact_count'', JNum (of_nat (length stored))),
       (''artifact_capture_failed_count'', JNum (of_nat (length failed))),
       (''artifact_capture_failures'', JArr (map capture_failure_json failed)), (''warnings'', js_strs (capture_warnings failed)),
       (''artifacts'', JArr (map stored_artifact_json stored)), (''target_path'', typed_field js_is_string (out ''target'')),
       (''target_path_visibility'', JStr ''user''), (''operation'', typed_field js_is_string (out ''operation'')),
       (''bytes_written'', typed_field js_is_number (out ''bytes_written'')),
       (''before_preview'', stringPreview 240 (out ''before_preview'')), (''before_preview_visibility'', sensitivity_of a),
       (''after_preview'', stringPreview 240 (out ''after_preview'')), (''after_preview_visibility'', sensitivity_of a),
       (''diff_preview'', stringPreview 240 (out ''diff_preview'')), (''diff_preview_visibility'', sensitivity_of a),
       (''deleted'', typed_field js_is_bool (out ''deleted'')), (''exit_code'', typed_field js_is_number (out ''exit_code'')),
       (''stdout_excerpt'', stringPreview 240 (out ''stdout'')), (''stdout_excerpt_visibility'', excerpt_visibility a),
       (''stderr_excerpt'', stringPreview 240 (out ''stderr'')), (''stderr_excerpt_visibility'', excerpt_visibility a)])"

definition failed_payload :: "action_record \<Rightarrow> thrown \<Rightarrow> fields" where
  "failed_payload a t =
     (let d = (\<lambda>k. case th_error t of WE_ag e \<Rightarrow> obj_get (th_details t) k | WE_node c \<Rightarrow> JUndef) in
      [(''action_id'', JStr (action_id a)),
       (''error_code'', JStr (case th_error t of WE_ag e \<Rightarrow> error_code_str (err_code e) | WE_node c \<Rightarrow> ''INTERNAL_ERROR'')),
       (''error'', JStr (case th_error t of WE_ag e \<Rightarrow> err_message e | WE_node c \<Rightarrow> c)), (''error_visibility'', JStr ''user''),
       (''exit_code'', typed_field js_is_number (d ''exit_code'')), (''signal'', typed_field js_is_string (d ''signal'')),
       (''stdout_excerpt'', stringPreview 240 (d ''stdout'')), (''stdout_excerpt_visibility'', excerpt_visibility a),
       (''stderr_excerpt'', stringPreview 240 (d ''stderr'')), (''stderr_excerpt_visibility'', excerpt_visibility a)])"

section \<open>Governed execution\<close>

definition hosted_requested :: "action_record \<Rightarrow> bool" where
  "hosted_requested a = (js_get (facet a ''mcp'') ''execution_mode_requested'' = JStr ''hosted_delegated'')"

definition no_adapter :: ag_error where
  "no_adapter = agent_git_error ''No governed execution adapter is available for this action domain.'' CAPABILITY_UNAVAILABLE False"

definition take_governed_snapshot ::
  "'w authority_env \<Rightarrow> engine_stamps \<Rightarrow> (nat \<Rightarrow> int) \<Rightarrow> action_record \<Rightarrow> policy_outcome \<Rightarrow> selection_result option \<Rightarrow> string \<Rightarrow>
   ('w authority, snapshot_record option) eff" where
  "take_governed_snapshot env d clk a out sel ws s =
     (if \<not> snapshot_required out then eff_return None s
      else
        (let cls = (case sel of None \<Rightarrow> SC_metadata_only | Some l \<Rightarrow> sl_class l);
             req = \<lparr>sq_action = a, sq_class = cls, sq_workspace_root = ws,
                    sq_preimage = (if cls = SC_metadata_only then captureOwnedPreimage a (au_outside s) else JNull)\<rparr> in
         eff_bind (on_engine (createSnapshot (ae_engine env) d req)) (\<lambda>r.
         eff_bind (log_event (clk 3) (run_id a) ''snapshot.created'' (snapshot_payload a r sel)) (\<lambda>_.
         eff_return (Some r))) s))"

definition verify_target :: "'w authority_env \<Rightarrow> action_record \<Rightarrow> snapshot_record option \<Rightarrow> ('w authority, unit) eff" where
  "verify_target env a snap =
     (case snap of
        None \<Rightarrow> eff_return ()
      | Some r \<Rightarrow>
          (if domain_of a \<noteq> ''filesystem'' then eff_return ()
           else eff_bind (on_engine (verifyTargetUnchanged (ae_engine env) (sr_snapshot_id r) (locator_of a))) (\<lambda>ok.
             if ok then eff_return ()
             else ag_throw (PreconditionError ''File modified between snapshot and execution. Another agent may have changed it.''))))"

definition trees_of :: "'w authority \<Rightarrow> string \<Rightarrow> tree" where
  "trees_of s rt = tree_at rt (au_engine s)"

definition apply_trees :: "(string \<times> tree) list \<Rightarrow> engine \<Rightarrow> engine" where
  "apply_trees ts e = fold (\<lambda>(rt, t). set_tree rt t) ts e"

definition verify_adapter :: "'w adapter option \<Rightarrow> exec_context \<Rightarrow> ('w authority, unit) eff" where
  "verify_adapter ad ctx s =
     (case ad of
        None \<Rightarrow> eff_return () s
      | Some x \<Rightarrow>
          (case ad_verify x ctx (trees_of s) (au_outside s) of
             (None, out) \<Rightarrow> eff_return () (s\<lparr>au_outside := out\<rparr>)
           | (Some t, out) \<Rightarrow> eff_throw (th_error t) (s\<lparr>au_outside := out\<rparr>)))"

text \<open>What happens between \<open>execution.started\<close> and the terminal event: an error keeps its details.\<close>

definition internal_thrown :: "ag_error \<Rightarrow> thrown" where
  "internal_thrown e = \<lparr>th_error = WE_ag e, th_details = []\<rparr>"

definition executeHostedDelegatedMcpAction ::
  "'w authority_env \<Rightarrow> int \<Rightarrow> action_record \<Rightarrow> 'w authority \<Rightarrow> (thrown + execution_result option) \<times> 'w authority" where
  "executeHostedDelegatedMcpAction env now a s =
     (case ae_hosted_job env a (au_mcp s) (au_outside s) of
        Inl t \<Rightarrow> (Inl t, s)
      | Inr job \<Rightarrow>
          (case appendRunEvent now (run_id a) ''mcp_hosted_job_enqueued''
             [(''action_id'', JStr (action_id a)), (''job_id'', JStr (hj_job job)), (''server_profile_id'', JStr (hj_profile job)),
              (''tool_name'', JStr (hj_tool job)), (''max_attempts'', JNum (of_nat (hj_attempts job))), (''next_attempt_at'', JStr (hj_next job))]
             (au_journal s) of
             Inl e \<Rightarrow> (Inl (internal_thrown e), s)
           | Inr (n, j) \<Rightarrow>
               (case ae_hosted_wait env a job (au_outside s) of
                  (r, out) \<Rightarrow> (r, s\<lparr>au_journal := j, au_outside := out\<rparr>))))"

definition run_local :: "exec_context \<Rightarrow> 'w adapter \<Rightarrow> 'w authority \<Rightarrow> (thrown + execution_result option) \<times> 'w authority" where
  "run_local ctx ad s =
     (case ad_execute ad ctx (trees_of s) (au_outside s) of
        (r, ts, out) \<Rightarrow> (map_sum id Some r, s\<lparr>au_engine := apply_trees ts (au_engine s), au_outside := out\<rparr>))"

definition record_completion ::
  "'w authority_env \<Rightarrow> int \<Rightarrow> action_record \<Rightarrow> execution_result \<Rightarrow> 'w authority \<Rightarrow> (thrown + execution_result) \<times> 'w authority" where
  "record_completion env now a r s =
     (case capture_artifacts env a r (au_artifacts s) of
        (stored, failed, rows) \<Rightarrow>
          (case appendRunEvent now (run_id a) ''execution.completed'' (completed_payload a r stored failed) (au_journal s) of
             Inl e \<Rightarrow> (Inl (internal_thrown e), s\<lparr>au_artifacts := rows\<rparr>)
           | Inr (n, j) \<Rightarrow>
               (Inr (r\<lparr>er_capture := Some \<lparr>kc_requested = length (er_artifacts r), kc_stored = length stored, kc_failures = failed\<rparr>\<rparr>),
                s\<lparr>au_artifacts := rows, au_journal := j\<rparr>)))"

definition run_action ::
  "'w authority_env \<Rightarrow> (nat \<Rightarrow> int) \<Rightarrow> exec_context \<Rightarrow> 'w adapter option \<Rightarrow> 'w authority \<Rightarrow> (thrown + execution_result) \<times> 'w authority" where
  "run_action env clk ctx ad s =
     (let a = ec_action ctx in
      case (case ad of None \<Rightarrow> executeHostedDelegatedMcpAction env (clk 5) a s | Some x \<Rightarrow> run_local ctx x s) of
        (Inl t, s') \<Rightarrow> (Inl t, s')
      | (Inr None, s') \<Rightarrow>
          (Inl (internal_thrown (InternalError ''Execution adapter returned no execution result after an allow decision.'')), s')
      | (Inr (Some r), s') \<Rightarrow> record_completion env (clk 6) a r s')"

definition started_payload :: "action_record \<Rightarrow> 'w adapter option \<Rightarrow> fields" where
  "started_payload a ad =
     [(''action_id'', JStr (action_id a)),
      (''adapter_domains'', js_strs (case ad of None \<Rightarrow> [''mcp'', ''provider_hosted''] | Some x \<Rightarrow> ad_domains x))]"

definition try_action ::
  "'w authority_env \<Rightarrow> (nat \<Rightarrow> int) \<Rightarrow> exec_context \<Rightarrow> 'w adapter option \<Rightarrow> ('w authority, execution_result) eff" where
  "try_action env clk ctx ad s =
     (case run_action env clk ctx ad s of
        (Inr r, s') \<Rightarrow> eff_return r s'
      | (Inl t, s') \<Rightarrow>
          eff_bind (log_event (clk 7) (run_id (ec_action ctx)) ''execution.failed'' (failed_payload (ec_action ctx) t))
            (\<lambda>_. eff_throw (th_error t)) s')"

definition execute_allowed ::
  "'w authority_env \<Rightarrow> (nat \<Rightarrow> int) \<Rightarrow> action_record \<Rightarrow> policy_outcome \<Rightarrow> string \<Rightarrow> snapshot_record option \<Rightarrow> ('w authority, execution_result) eff" where
  "execute_allowed env clk a out ws snap =
     (let found = findAdapter (ae_adapters env) a; ad = (if hosted_requested a then None else found);
          ctx = \<lparr>ec_action = a, ec_outcome = out, ec_snapshot = map_option sr_snapshot_id snap, ec_root = ws\<rparr> in
      if \<not> hosted_requested a \<and> found = None then ag_throw no_adapter
      else eff_bind (verify_target env a snap) (\<lambda>_.
           eff_bind (verify_adapter ad ctx) (\<lambda>_.
           eff_bind (log_event (clk 4) (run_id a) ''execution.started'' (started_payload a ad)) (\<lambda>_.
           try_action env clk ctx ad))))"

definition permits :: "policy_outcome \<Rightarrow> bool" where
  "permits out = (po_decision out = Allow \<or> po_decision out = AllowWithSnapshot)"

definition executeGovernedAction ::
  "'w authority_env \<Rightarrow> engine_stamps \<Rightarrow> (nat \<Rightarrow> int) \<Rightarrow> action_record \<Rightarrow> policy_outcome \<Rightarrow> selection_result option \<Rightarrow> string list \<Rightarrow>
   ('w authority, execution_result option \<times> snapshot_record option) eff" where
  "executeGovernedAction env d clk a out sel roots =
     (let ws = getWorkspaceRoot (ee_cwd (ae_engine env)) (locator_of a) roots in
      eff_bind (take_governed_snapshot env d clk a out sel ws) (\<lambda>snap.
        if permits out then
          eff_bind (execute_allowed env clk a out ws snap) (\<lambda>r. eff_return (Some r, snap))
        else eff_return (None, snap)))"

end
