(* ===== verification/Submit_Action.thy ===== *)
theory Submit_Action
  imports Action_Execution
begin

text \<open>
  The request \<open>submit_action_attempt\<close> (\<open>packages/authority-daemon/src/handlers/submit-action.ts\<close>): the attempt is completed
  from the registry of MCP servers, normalized and validated, the policy decides with the state of the run, the
  class of a snapshot is selected, and the action is logged, put to approval or executed.
\<close>

section \<open>Stamps\<close>

text \<open>What one request takes from its surroundings: the file system and the clock as the normalizer sees them,
  fresh identifiers, the time of the \<open>n\<close>-th event it logs.\<close>

record request_stamps =
  qs_norm :: norm_env
  qs_eval :: eval_stamps
  qs_engine :: engine_stamps
  qs_clock :: "nat \<Rightarrow> int"
  qs_now :: int
  qs_now_text :: string
  qs_approval :: string
  qs_plan :: plan_stamp

abbreviation "qs_realpath q \<equiv> ne_realpath (qs_norm q)"
abbreviation "qs_cwd q \<equiv> ne_cwd (qs_norm q)"

section \<open>Completion of MCP attempts\<close>

definition getProfile :: "mcp_tables \<Rightarrow> string \<Rightarrow> mcp_profile option" where
  "getProfile m i = find (\<lambda>p. mp_id p = js_trim i) (mc_profiles m)"

definition getCandidate :: "mcp_tables \<Rightarrow> string \<Rightarrow> string option" where
  \<comment> \<open>the kind of source of the candidate\<close>
  "getCandidate m i = map_of (mc_candidates m) (js_trim i)"

definition getActiveCredentialBinding :: "mcp_tables \<Rightarrow> string \<Rightarrow> string option" where
  \<comment> \<open>the mode of the binding\<close>
  "getActiveCredentialBinding m i =
     (case getProfile m i of
        None \<Rightarrow> None
      | Some p \<Rightarrow> (case mp_binding p of None \<Rightarrow> None | Some b \<Rightarrow> if b = [] then None else map_of (mc_bindings m) (js_trim b)))"

definition with_fields :: "fields \<Rightarrow> fields \<Rightarrow> fields" where
  \<comment> \<open>\<open>{...old, ...new}\<close>\<close>
  "with_fields new old = fold (\<lambda>(k, v). AList.update k v) new old"

definition hydrateMcpAttempt :: "mcp_tables \<Rightarrow> raw_attempt \<Rightarrow> ag_error + raw_attempt" where
  "hydrateMcpAttempt m attempt =
     (if ra_tool_kind attempt \<noteq> ''mcp'' then Inr attempt
      else
        (let cand = trimmed_field attempt ''candidate_id''; prof = trimmed_field attempt ''server_profile_id'' in
         if cand \<noteq> [] \<and> prof = [] then
           Inl (PreconditionError ''Raw MCP candidates are not executable. Resolve and activate a server profile first.'')
         else if prof = [] then Inr attempt
         else case getProfile m prof of
             None \<Rightarrow> Inl (NotFoundError (''No MCP server profile found for '' @ prof @ ''.''))
           | Some p \<Rightarrow>
               (let source = (case mp_candidate p of None \<Rightarrow> None | Some c \<Rightarrow> if c = [] then None else getCandidate m c);
                    mode = (if raw_field attempt ''execution_mode_requested'' = JStr ''hosted_delegated'' then ''hosted_delegated'' else ''local_proxy'') in
                Inr (attempt\<lparr>ra_raw_call := with_fields
                  ([(''server_id'', JStr prof), (''server_profile_id'', JStr prof), (''execution_mode_requested'', JStr mode),
                    (''trust_tier_at_submit'', JStr (mp_trust_tier p)), (''drift_state_at_submit'', JStr (mp_drift p)),
                    (''profile_status'', JStr (mp_status p)), (''candidate_source_kind'', js_opt_str source),
                    (''allowed_execution_modes'', js_strs (mp_modes p))] @
                   (case getActiveCredentialBinding m prof of None \<Rightarrow> [] | Some b \<Rightarrow> [(''credential_binding_mode'', JStr b)]))
                  (ra_raw_call attempt)\<rparr>))))"

definition assertLaunchSupportedToolKind :: "raw_attempt \<Rightarrow> ag_error + unit" where
  "assertLaunchSupportedToolKind attempt =
     (if ra_tool_kind attempt = ''browser'' then
        Inl (PreconditionError ''Governed browser/computer execution is not part of the supported runtime surface.'')
      else Inr ())"

section \<open>The schema of policy outcomes\<close>

definition outcome_schema :: "(string \<Rightarrow> bool) \<Rightarrow> policy_outcome \<Rightarrow> bool" where
  "outcome_schema dates out =
     (po_id out \<noteq> [] \<and> po_action_id out \<noteq> [] \<and>
      list_all (\<lambda>r. pr_code r \<noteq> [] \<and> pr_message r \<noteq> []) (po_reasons out) \<and>
      (case be_estimated_cost (po_budget out) of None \<Rightarrow> True | Some c \<Rightarrow> 0 \<le> c) \<and>
      (case be_remaining_mutating (po_budget out) of None \<Rightarrow> True | Some n \<Rightarrow> 0 \<le> n) \<and>
      (case be_remaining_destructive (po_budget out) of None \<Rightarrow> True | Some n \<Rightarrow> 0 \<le> n) \<and>
      list_all (\<lambda>r. r \<noteq> []) (px_matched_rules (po_context out)) \<and>
      nonempty_str (rc_proof_source (px_recovery (po_context out))) \<and> timestamp_ok dates (po_evaluated_at out))"

definition validatePolicyOutcomeRecord :: "(string \<Rightarrow> bool) \<Rightarrow> policy_outcome \<Rightarrow> ag_error + policy_outcome" where
  "validatePolicyOutcomeRecord dates out =
     (if outcome_schema dates out then Inr out else Inl (InternalError ''Policy outcome failed schema validation.''))"

section \<open>Evaluation\<close>

record prepared_action =
  pp_action :: action_record
  pp_run :: run_summary
  pp_outcome :: policy_outcome
  pp_selection :: "selection_result option"
  pp_threshold :: "rat option"
  pp_triggered :: bool

definition run_context :: "'w authority_env \<Rightarrow> mcp_tables \<Rightarrow> run_summary \<Rightarrow> cached_capability_state option \<Rightarrow> policy_context" where
  "run_context env m su cached =
     \<lparr>cx_run_summary = Some \<lparr>rb_config = rw_budget_config (su_run su), rb_usage = su_budget_usage su\<rparr>,
      cx_mcp_servers = Some (mc_servers m), cx_capability_state = cached, cx_compiled_policy = Some (ae_policy env)\<rparr>"

definition selection_for ::
  "action_record \<Rightarrow> decision \<Rightarrow> cached_capability_state option \<Rightarrow> run_summary \<Rightarrow> journal \<Rightarrow> risk_context \<Rightarrow> selection_input" where
  "selection_for a dec cached su j rc =
     \<lparr>si_action = a, si_policy_decision = dec, si_capability_state = Some (deriveSnapshotCapabilityState cached),
      si_low_disk_pressure = Some (low_disk_pressure_signals (rw_run_id (su_run su)) j > 0),
      si_chain_depth = Some (su_event_count su), si_ambiguous_shell = Some (rx_ambiguous rc), si_broad_mutations = Some (rx_broad rc),
      si_reviewed_mutations = Some (rx_reviewed rc), si_failed_mutations = Some (rx_failed rc),
      si_branch_point = None, si_hard_checkpoint = None\<rparr>"

definition cached_capabilities :: "'w authority_env \<Rightarrow> request_stamps \<Rightarrow> 'w authority \<Rightarrow> ag_error + cached_capability_state option" where
  "cached_capabilities env q s = buildCachedCapabilityState (ae_stale_ms env) (ae_stale_env env) (qs_now q) (au_capabilities s)"

definition authorized_summary :: "request_stamps \<Rightarrow> string list \<Rightarrow> string \<Rightarrow> 'w authority \<Rightarrow> ag_error + run_summary" where
  \<comment> \<open>\<open>requireAuthorizedRunSummary\<close> of this file\<close>
  "authorized_summary q roots r s =
     (case getRunSummary r (au_journal s) of
        None \<Rightarrow> Inl (no_run_error r)
      | Some su \<Rightarrow> if roots_overlap (qs_realpath q) (qs_cwd q) (rw_workspace_roots (su_run su)) roots then Inr su else Inl (no_run_error r))"

definition judge_action ::
  "'w authority_env \<Rightarrow> request_stamps \<Rightarrow> mcp_tables \<Rightarrow> run_summary \<Rightarrow> action_record \<Rightarrow> cached_capability_state option \<Rightarrow> ag_error + policy_outcome" where
  "judge_action env q m su a cached =
     validatePolicyOutcomeRecord (ae_dates env)
       (evaluatePolicy (ae_regex env) (qs_cwd q) (qs_eval q) a (run_context env m su cached))"

definition sum_bind :: "'e + 'a \<Rightarrow> ('a \<Rightarrow> 'e + 'b) \<Rightarrow> 'e + 'b" where
  "sum_bind x f = (case x of Inl e \<Rightarrow> Inl e | Inr y \<Rightarrow> f y)"

definition prepareActionAttemptEvaluation ::
  "'w authority_env \<Rightarrow> request_stamps \<Rightarrow> session_record \<Rightarrow> raw_attempt \<Rightarrow> 'w authority \<Rightarrow> ag_error + prepared_action" where
  "prepareActionAttemptEvaluation env q se attempt s =
     sum_bind (authorized_summary q (se_roots se) (ra_run_id attempt) s) (\<lambda>su.
     sum_bind (assertLaunchSupportedToolKind attempt) (\<lambda>_.
     sum_bind (hydrateMcpAttempt (au_mcp s) attempt) (\<lambda>hydrated.
     sum_bind (normalizeActionAttempt (qs_norm q) hydrated (se_id se)) (\<lambda>n.
     sum_bind (validateActionRecord (ae_dates env) n) (\<lambda>a.
     sum_bind (cached_capabilities env q s) (\<lambda>cached.
     sum_bind (deriveSnapshotRunRiskContext (ae_dates env) (ra_run_id attempt) None (au_journal s)) (\<lambda>rc.
     sum_bind (judge_action env q (au_mcp s) su a cached) (\<lambda>out.
       (let threshold = resolvePolicyLowConfidenceThreshold (Some (ae_policy env)) (actionFamilyForAction a) in
        Inr \<lparr>pp_action = a, pp_run = su, pp_outcome = out,
             pp_selection = (if snapshot_required out
               then Some (selectSnapshotClass (selection_for a (po_decision out) cached su (au_journal s) rc)) else None),
             pp_threshold = threshold,
             pp_triggered = (case threshold of None \<Rightarrow> False | Some t \<Rightarrow> score_of a < t)\<rparr>)))))))))"

section \<open>Events\<close>

definition normalized_payload :: "action_record \<Rightarrow> fields" where
  "normalized_payload a =
     (let j = action_json a; fs = (domain_of a = ''filesystem'') in
      [(''action'', j), (''action_id'', JStr (action_id a)), (''operation'', js_get j ''operation''),
       (''provenance_mode'', JStr (provenance_mode_str (pv_mode (provenance a)))), (''provenance_source'', JStr (pv_source (provenance a))),
       (''provenance_confidence'', JNum (pv_confidence (provenance a))), (''target_locator'', JStr (locator_of a)),
       (''target_locator_visibility'', JStr ''user''),
       (''filesystem_operation'', if fs then typed_field js_is_string (facet_field a ''filesystem'' ''operation'') else JNull),
       (''input_preview'', if fs then stringPreview 160 (obj_get (in_raw (action_input a)) ''content'') else JNull),
       (''input_preview_visibility'', sensitivity_of a), (''normalization'', js_get j ''normalization''),
       (''confidence_score'', JNum (score_of a)), (''confidence_assessment'', js_get j ''confidence_assessment''),
       (''risk_hints'', js_get j ''risk_hints'')])"

fun severity_str :: "severity \<Rightarrow> string" where
  "severity_str SV_low = ''low''" | "severity_str SV_moderate = ''moderate''"
| "severity_str SV_high = ''high''" | "severity_str SV_critical = ''critical''"

fun recoverability_str :: "recoverability_class \<Rightarrow> string" where
  "recoverability_str RC_recoverable_local = ''recoverable_local''"
| "recoverability_str RC_recoverable_external_compensated = ''recoverable_external_compensated''"
| "recoverability_str RC_recoverable_contained_publish = ''recoverable_contained_publish''"
| "recoverability_str RC_unrecoverable_or_degraded = ''unrecoverable_or_degraded''"

fun proof_kind_str :: "recovery_proof_kind \<Rightarrow> string" where
  "proof_kind_str RK_snapshot_preimage = ''snapshot_preimage''"
| "proof_kind_str RK_explicit_checkpoint = ''explicit_checkpoint''"
| "proof_kind_str RK_trusted_compensator = ''trusted_compensator''"
| "proof_kind_str RK_contained_publish_boundary = ''contained_publish_boundary''"

fun proof_scope_str :: "recovery_proof_scope \<Rightarrow> string" where
  "proof_scope_str RS_path = ''path''" | "proof_scope_str RS_workspace = ''workspace''"
| "proof_scope_str RS_external_object = ''external_object''" | "proof_scope_str RS_contained_projection = ''contained_projection''"

definition or_null :: "('a \<Rightarrow> jsval) \<Rightarrow> 'a option \<Rightarrow> jsval" where
  "or_null f x = (case x of None \<Rightarrow> JNull | Some v \<Rightarrow> f v)"

definition reason_json :: "policy_reason \<Rightarrow> jsval" where
  "reason_json r = JObj [(''code'', JStr (pr_code r)), (''severity'', JStr (severity_str (pr_severity r))), (''message'', JStr (pr_message r))]"

definition evaluated_payload :: "prepared_action \<Rightarrow> fields" where
  "evaluated_payload p =
     (let a = pp_action p; out = pp_outcome p; rc = px_recovery (po_context out) in
      [(''action_id'', JStr (action_id a)), (''policy_outcome_id'', JStr (po_id out)), (''evaluated_at'', JStr (po_evaluated_at out)),
       (''decision'', JStr (decision_str (po_decision out))), (''reasons'', JArr (map reason_json (po_reasons out))),
       (''matched_rules'', js_strs (px_matched_rules (po_context out))),
       (''recoverability_class'', or_null (\<lambda>c. JStr (recoverability_str c)) (rc_class rc)),
       (''recovery_proof_kind'', or_null (\<lambda>c. JStr (proof_kind_str c)) (rc_proof_kind rc)),
       (''recovery_proof_source'', or_null JStr (rc_proof_source rc)),
       (''recovery_proof_scope'', or_null (\<lambda>c. JStr (proof_scope_str c)) (rc_proof_scope rc)),
       (''normalization_confidence'', JNum (nm_confidence (normalization a))), (''confidence_score'', JNum (score_of a)),
       (''low_confidence_threshold'', or_null JNum (pp_threshold p)), (''confidence_triggered'', JBool (pp_triggered p)),
       (''action_family'', JStr (domain_of a @ ''/'' @ op_kind (operation a))), (''snapshot_required'', JBool (snapshot_required out)),
       (''snapshot_selection'', or_null (\<lambda>l. JObj [(''snapshot_class'', JStr (snapshot_class_str (sl_class l))),
          (''reason_codes'', js_strs (sl_reason_codes l)), (''basis'', basis_json (sl_basis l))]) (pp_selection p))])"

fun approval_status_str :: "approval_state \<Rightarrow> string" where
  "approval_status_str AP_pending = ''pending''" | "approval_status_str AP_approved = ''approved''" | "approval_status_str AP_denied = ''denied''"

definition requested_payload :: "stored_approval \<Rightarrow> fields" where
  "requested_payload ap =
     [(''approval_id'', JStr (ap_id ap)), (''action_id'', JStr (ap_action_id ap)), (''action_summary'', JStr (ap_action_summary ap)),
      (''status'', JStr (approval_status_str (ap_status ap))),
      (''primary_reason'', or_null (\<lambda>(c, m). JObj [(''code'', JStr c), (''message'', JStr m)])
          (primaryReasonFromPolicyOutcome (ap_policy_outcome ap)))]"

section \<open>The handler\<close>

record submit_result =
  sm_action :: action_record
  sm_outcome :: policy_outcome
  sm_execution :: "execution_result option"
  sm_snapshot :: "snapshot_record option"
  sm_approval :: "stored_approval option"

definition request_approval :: "request_stamps \<Rightarrow> prepared_action \<Rightarrow> ('w authority, stored_approval option) eff" where
  "request_approval q p =
     (let a = pp_action p in
      if po_decision (pp_outcome p) \<noteq> Ask then eff_return None
      else eff_bind (on_journal (createApprovalRequest (qs_approval q) (run_id a) a (pp_outcome p) None)) (\<lambda>ap.
           eff_bind (log_event (qs_clock q 2) (run_id a) ''approval.requested'' (requested_payload ap)) (\<lambda>_.
           eff_return (Some ap))))"

definition log_decision :: "request_stamps \<Rightarrow> prepared_action \<Rightarrow> ('w authority, stored_approval option) eff" where
  "log_decision q p =
     (let a = pp_action p in
      eff_bind (log_event (qs_clock q 0) (run_id a) ''action.normalized'' (normalized_payload a)) (\<lambda>_.
      eff_bind (log_event (qs_clock q 1) (run_id a) ''policy.evaluated'' (evaluated_payload p)) (\<lambda>_.
      request_approval q p)))"

definition act_on_decision ::
  "'w authority_env \<Rightarrow> request_stamps \<Rightarrow> prepared_action \<Rightarrow> ('w authority, execution_result option \<times> snapshot_record option) eff" where
  "act_on_decision env q p =
     (if permits (pp_outcome p) then
        executeGovernedAction env (qs_engine q) (qs_clock q) (pp_action p) (pp_outcome p) (pp_selection p) (rw_workspace_roots (su_run (pp_run p)))
      else eff_return (None, None))"

definition handleSubmitActionAttempt ::
  "'w authority_env \<Rightarrow> request_stamps \<Rightarrow> string option \<Rightarrow> raw_attempt \<Rightarrow> ('w authority, submit_result) eff" where
  "handleSubmitActionAttempt env q sid attempt s =
     (if \<not> RawActionAttemptSchema (ae_dates env) attempt then ag_throw (ValidationError ''Request payload validation failed.'') s
      else case getSession sid s of
          None \<Rightarrow> ag_throw (PreconditionError ''A valid session_id is required before submit_action_attempt.'') s
        | Some se \<Rightarrow>
            (case prepareActionAttemptEvaluation env q se attempt s of
               Inl e \<Rightarrow> ag_throw e s
             | Inr p \<Rightarrow>
                 eff_bind (log_decision q p) (\<lambda>ap.
                 eff_bind (act_on_decision env q p) (\<lambda>(r, snap).
                 eff_return \<lparr>sm_action = pp_action p, sm_outcome = pp_outcome p, sm_execution = r, sm_snapshot = snap, sm_approval = ap\<rparr>)) s))"

end
