(* ===== verification/Authority_Handlers.thy ===== *)
theory Authority_Handlers
  imports Submit_Action
begin

text \<open>
  The handlers of sessions, runs, checkpoints and approvals (\<open>packages/authority-daemon/src/app/handlers/policy.ts\<close>,
  \<open>run.ts\<close> and \<open>approvals.ts\<close>). A request is its parsed payload; what is left of the schema of a payload are its conditions
  on lengths. Fresh identifiers and times are arguments.
\<close>

abbreviation "invalid_payload \<equiv> ValidationError ''Request payload validation failed.''"

definition require :: "bool \<Rightarrow> ag_error \<Rightarrow> ('s, unit) eff" where
  "require ok e = (if ok then eff_return () else ag_throw e)"

definition text_opt_ok :: "string option \<Rightarrow> bool" where
  \<comment> \<open>\<open>z.string().min(1).optional()\<close>\<close>
  "text_opt_ok v = (v \<noteq> Some [])"

section \<open>Sessions and runs\<close>

definition API_VERSION :: string where
  "API_VERSION = ''authority.v1''"

record hello_request =
  hq_client_type :: string
  hq_client_version :: string
  hq_api_version :: string
  hq_roots :: "string list option"

definition hello_schema :: "hello_request \<Rightarrow> bool" where
  "hello_schema p =
     (hq_client_type p \<in> {''sdk_ts'', ''sdk_py'', ''cli'', ''ui''} \<and> hq_client_version p \<noteq> [] \<and> hq_api_version p = API_VERSION \<and>
      list_all (\<lambda>r. r \<noteq> []) (dflt [] (hq_roots p)))"

definition handleHello :: "string \<Rightarrow> string \<Rightarrow> hello_request \<Rightarrow> ('w authority, session_record) eff" where
  "handleHello new_id now p s =
     (if \<not> hello_schema p then ag_throw invalid_payload s
      else if hq_api_version p \<noteq> API_VERSION then
        ag_throw (ValidationError (''Unsupported API version: '' @ hq_api_version p)) s
      else
        (let se = \<lparr>se_id = new_id, se_client_type = hq_client_type p, se_client_version = hq_client_version p,
                   se_roots = dflt [] (hq_roots p), se_created_at = now\<rparr> in
         eff_return se (createSession se s)))"

record run_request =
  uq_workflow_name :: string
  uq_agent_framework :: string
  uq_agent_name :: string
  uq_workspace_roots :: "string list"
  uq_client_metadata :: "fields option"
  uq_max_mutating :: "int option"
  uq_max_destructive :: "int option"

definition run_request_schema :: "run_request \<Rightarrow> bool" where
  "run_request_schema p =
     (uq_workflow_name p \<noteq> [] \<and> uq_agent_framework p \<noteq> [] \<and> uq_agent_name p \<noteq> [] \<and>
      uq_workspace_roots p \<noteq> [] \<and> list_all (\<lambda>r. r \<noteq> []) (uq_workspace_roots p) \<and> safe_record (dflt [] (uq_client_metadata p)) \<and>
      (case uq_max_mutating p of None \<Rightarrow> True | Some n \<Rightarrow> 0 \<le> n) \<and>
      (case uq_max_destructive p of None \<Rightarrow> True | Some n \<Rightarrow> 0 \<le> n))"

definition run_of_request :: "string \<Rightarrow> string \<Rightarrow> run_request \<Rightarrow> run_input" where
  "run_of_request new_id sid p =
     \<lparr>ri_run_id = new_id, ri_session_id = sid, ri_workflow_name = uq_workflow_name p, ri_agent_framework = uq_agent_framework p,
      ri_agent_name = uq_agent_name p, ri_workspace_roots = uq_workspace_roots p,
      ri_client_metadata = JObj (dflt [] (uq_client_metadata p)),
      ri_budget_config = \<lparr>max_mutating_actions = uq_max_mutating p, max_destructive_actions = uq_max_destructive p\<rparr>\<rparr>"

definition handleRegisterRun :: "string \<Rightarrow> int \<Rightarrow> string \<Rightarrow> string option \<Rightarrow> run_request \<Rightarrow> ('w authority, run_input) eff" where
  "handleRegisterRun new_id now now_text sid p s =
     (if \<not> run_request_schema p then ag_throw invalid_payload s
      else case getSession sid s of
          None \<Rightarrow> ag_throw (ValidationError ''A valid session_id is required before register_run.'') s
        | Some se \<Rightarrow>
            (let i = run_of_request new_id (se_id se) p in
             eff_bind (\<lambda>s. eff_return () (createRun i now_text s)) (\<lambda>_.
             eff_bind (on_journal (\<lambda>j. map_sum id (Pair ()) (registerRunLifecycle now i j))) (\<lambda>_.
             eff_return i)) s))"

definition authorized_run :: "request_stamps \<Rightarrow> session_record \<Rightarrow> string \<Rightarrow> ('w authority, run_summary) eff" where
  "authorized_run q = requireAuthorizedRunSummary (qs_realpath q) (qs_cwd q)"

definition handleGetRunSummary :: "request_stamps \<Rightarrow> string option \<Rightarrow> string \<Rightarrow> ('w authority, run_summary) eff" where
  "handleGetRunSummary q sid r =
     eff_bind (requireValidSession ''get_run_summary'' sid) (\<lambda>se.
     eff_bind (require (r \<noteq> []) invalid_payload) (\<lambda>_.
     authorized_run q se r))"

definition handleExplainPolicyAction ::
  "'w authority_env \<Rightarrow> request_stamps \<Rightarrow> string option \<Rightarrow> raw_attempt \<Rightarrow> ('w authority, prepared_action) eff" where
  "handleExplainPolicyAction env q sid attempt =
     eff_bind (requireValidSession ''explain_policy_action'' sid) (\<lambda>se.
     eff_bind (require (RawActionAttemptSchema (ae_dates env) attempt) invalid_payload) (\<lambda>_.
     (\<lambda>s. lift_error (prepareActionAttemptEvaluation env q se attempt s) s)))"

section \<open>Checkpoints\<close>

datatype checkpoint_kind = KP_branch_point | KP_hard_checkpoint

fun checkpoint_kind_str :: "checkpoint_kind \<Rightarrow> string" where
  "checkpoint_kind_str KP_branch_point = ''branch_point''"
| "checkpoint_kind_str KP_hard_checkpoint = ''hard_checkpoint''"

record checkpoint_request =
  kq_run :: string
  kq_kind :: "checkpoint_kind option"
  kq_root :: "string option"
  kq_reason :: "string option"

definition checkpoint_schema :: "checkpoint_request \<Rightarrow> bool" where
  "checkpoint_schema p = (kq_run p \<noteq> [] \<and> text_opt_ok (kq_root p) \<and> text_opt_ok (kq_reason p))"

definition reason_field :: "string \<Rightarrow> string option \<Rightarrow> fields" where
  \<comment> \<open>\<open>...(reason ? { k: reason } : {})\<close>\<close>
  "reason_field k v = nonempty_field k (dflt [] v)"

definition synthetic_action ::
  "string \<Rightarrow> string \<Rightarrow> string \<Rightarrow> string \<Rightarrow> string \<Rightarrow> checkpoint_kind \<Rightarrow> string option \<Rightarrow> action_record" where
  "synthetic_action new_id now r sid rt kind why =
     (let k = (''checkpoint_kind'', JStr (checkpoint_kind_str kind)) in
      \<lparr>action_id = new_id, run_id = r, session_id = sid, requested_at = now, normalized_at = now,
       provenance = \<lparr>pv_mode = PM_governed, pv_source = ''authority_daemon.checkpoint'', pv_confidence = 1\<rparr>,
       actor = \<lparr>ac_type = AT_system, ac_agent_name = None, ac_agent_framework = None, ac_tool_name = ''agentgit_checkpoint'',
                ac_tool_kind = ''function''\<rparr>,
       operation = \<lparr>op_domain = ''filesystem'', op_kind = ''checkpoint_workspace'', op_name = ''checkpoint_workspace'',
                    op_display_name = Some (''Create '' @ (if kind = KP_hard_checkpoint then ''hard checkpoint'' else ''checkpoint''))\<rparr>,
       execution_path = \<lparr>ep_surface = SF_observer, ep_mode = EM_imported, ep_credential_mode = CM_none\<rparr>,
       primary_target = \<lparr>tp_type = ''workspace'', tp_locator = rt, tp_label = Some (path_basename rt)\<rparr>,
       scope = \<lparr>ts_breadth = SB_workspace, ts_estimated_count = Some 1, ts_unknowns = []\<rparr>,
       action_input = \<lparr>in_raw = k # reason_field ''reason'' why, in_redacted = k # reason_field ''reason'' why, in_schema_ref = None,
                       in_contains_sensitive_data = False\<rparr>,
       risk = \<lparr>rh_side_effect_level = SE_read_only, rh_external_effects = EE_none, rh_reversibility_hint = RV_reversible,
               rh_sensitivity_hint = SN_moderate, rh_batch = False\<rparr>,
       facets = k # reason_field ''checkpoint_reason'' why,
       normalization = \<lparr>nm_mapper = ''authority_daemon.synthetic_checkpoint'', nm_inferred_fields = [], nm_warnings = [], nm_confidence = 1\<rparr>,
       confidence = \<lparr>ca_engine_version = ''authority_daemon.synthetic_checkpoint.v1'', ca_score = 1, ca_band = CB_high,
         ca_requires_human_review = False,
         ca_factors = [\<lparr>cf_factor_id = ''synthetic_checkpoint'', cf_label = ''Synthetic checkpoint request'', cf_kind = FK_baseline,
           cf_delta = 1, cf_rationale = ''AgentGit created this deliberate recovery boundary directly.''\<rparr>]\<rparr>\<rparr>)"

definition buildSyntheticCheckpointAction ::
  "(string \<Rightarrow> bool) \<Rightarrow> string \<Rightarrow> string \<Rightarrow> string \<Rightarrow> string \<Rightarrow> string \<Rightarrow> checkpoint_kind \<Rightarrow> string option \<Rightarrow> wi_error + action_record" where
  \<comment> \<open>\<open>ActionRecordSchema.parse\<close> throws, at a workspace without a last component\<close>
  "buildSyntheticCheckpointAction dates new_id now r sid rt kind why =
     (let a = synthetic_action new_id now r sid rt kind why in
      if ActionRecordSchema dates a then Inr a else Inl (WE_node ''ZodError''))"

record checkpoint_result =
  kr_checkpoint :: string
  kr_run :: string
  kr_sequence :: nat
  kr_kind :: checkpoint_kind
  kr_snapshot :: snapshot_record
  kr_selection :: selection_result

definition checkpoint_token :: "string \<Rightarrow> nat \<Rightarrow> string" where
  "checkpoint_token r n = r @ ''#'' @ nat_digits n"

definition checkpoint_root :: "checkpoint_request \<Rightarrow> run_summary \<Rightarrow> string option" where
  "checkpoint_root p su =
     (let roots = rw_workspace_roots (su_run su) in
      case (case kq_root p of Some r \<Rightarrow> Some r | None \<Rightarrow> js_head roots) of
        None \<Rightarrow> None
      | Some r \<Rightarrow> if r \<noteq> [] \<and> r \<in> set roots then Some r else None)"

definition checkpoint_selection ::
  "action_record \<Rightarrow> checkpoint_kind \<Rightarrow> cached_capability_state option \<Rightarrow> run_summary \<Rightarrow> journal \<Rightarrow> risk_context \<Rightarrow> selection_result" where
  "checkpoint_selection a kind cached su j rc =
     selectSnapshotClass ((selection_for a AllowWithSnapshot cached su j rc)
       \<lparr>si_branch_point := Some (kind = KP_branch_point), si_hard_checkpoint := Some (kind = KP_hard_checkpoint)\<rparr>)"

definition checkpoint_snapshot_payload ::
  "action_record \<Rightarrow> snapshot_record \<Rightarrow> selection_result \<Rightarrow> checkpoint_kind \<Rightarrow> string option \<Rightarrow> fields" where
  "checkpoint_snapshot_payload a r sel kind why =
     snapshot_payload a r (Some sel) @
     [(''checkpoint_kind'', JStr (checkpoint_kind_str kind)), (''checkpoint_reason'', or_null JStr why), (''synthetic_checkpoint'', JBool True)]"

definition checkpoint_created_payload :: "action_record \<Rightarrow> string \<Rightarrow> snapshot_record \<Rightarrow> checkpoint_kind \<Rightarrow> string option \<Rightarrow> fields" where
  "checkpoint_created_payload a tok r kind why =
     [(''action_id'', JStr (action_id a)), (''run_checkpoint'', JStr tok), (''snapshot_id'', JStr (sr_snapshot_id r)),
      (''checkpoint_kind'', JStr (checkpoint_kind_str kind)), (''checkpoint_reason'', or_null JStr why)]"

definition take_checkpoint ::
  "'w authority_env \<Rightarrow> request_stamps \<Rightarrow> checkpoint_request \<Rightarrow> checkpoint_kind \<Rightarrow> string \<Rightarrow> action_record \<Rightarrow> selection_result \<Rightarrow>
   ('w authority, checkpoint_result) eff" where
  "take_checkpoint env q p kind rt a sel =
     eff_bind (on_engine (createSnapshot (ae_engine env) (qs_engine q)
       \<lparr>sq_action = a, sq_class = sl_class sel, sq_workspace_root = rt, sq_preimage = JUndef\<rparr>)) (\<lambda>r.
     eff_bind (log_event (qs_clock q 0) (kq_run p) ''snapshot.created'' (checkpoint_snapshot_payload a r sel kind (kq_reason p))) (\<lambda>n.
     (let tok = checkpoint_token (kq_run p) n in
      eff_bind (log_event (qs_clock q 1) (kq_run p) ''checkpoint.created'' (checkpoint_created_payload a tok r kind (kq_reason p))) (\<lambda>_.
      eff_return \<lparr>kr_checkpoint = tok, kr_run = kq_run p, kr_sequence = n, kr_kind = kind, kr_snapshot = r, kr_selection = sel\<rparr>))))"

definition risk_context_of :: "'w authority_env \<Rightarrow> string \<Rightarrow> string option \<Rightarrow> ('w authority, risk_context) eff" where
  "risk_context_of env r excluded s = lift_error (deriveSnapshotRunRiskContext (ae_dates env) r excluded (au_journal s)) s"

definition cached_state :: "'w authority_env \<Rightarrow> request_stamps \<Rightarrow> ('w authority, cached_capability_state option) eff" where
  "cached_state env q s = lift_error (cached_capabilities env q s) s"

definition handleCreateRunCheckpoint ::
  "'w authority_env \<Rightarrow> request_stamps \<Rightarrow> string \<Rightarrow> string option \<Rightarrow> checkpoint_request \<Rightarrow> ('w authority, checkpoint_result) eff" where
  "handleCreateRunCheckpoint env q new_id sid p =
     eff_bind (require (checkpoint_schema p) invalid_payload) (\<lambda>_.
     eff_bind (requireValidSession ''create_run_checkpoint'' sid) (\<lambda>se.
     eff_bind (authorized_run q se (kq_run p)) (\<lambda>su.
       (case checkpoint_root p su of
          None \<Rightarrow> ag_throw (PreconditionError ''Checkpoint workspace root is not registered on this run.'')
        | Some rt \<Rightarrow>
            (let kind = dflt KP_branch_point (kq_kind p) in
             eff_bind (\<lambda>s. Some (buildSyntheticCheckpointAction (ae_dates env) new_id (qs_now_text q) (kq_run p) (se_id se) rt kind
                                (kq_reason p), s)) (\<lambda>a.
             eff_bind (cached_state env q) (\<lambda>cached.
             eff_bind (risk_context_of env (kq_run p) None) (\<lambda>rc.
             eff_bind (get_state au_journal) (\<lambda>j.
             take_checkpoint env q p kind rt a (checkpoint_selection a kind cached su j rc))))))))))"

section \<open>Approvals\<close>

record approval_query =
  aq_run :: "string option"
  aq_status :: "approval_state option"

definition accessible_approval :: "request_stamps \<Rightarrow> session_record \<Rightarrow> journal \<Rightarrow> stored_approval \<Rightarrow> bool" where
  "accessible_approval q se j ap =
     (case getRunSummary (ap_run_id ap) j of None \<Rightarrow> False | Some su \<Rightarrow> sessionCanAccessRun (qs_realpath q) (qs_cwd q) se su)"

definition list_accessible ::
  "(string \<Rightarrow> string \<Rightarrow> int) \<Rightarrow> request_stamps \<Rightarrow> string \<Rightarrow> string option \<Rightarrow> approval_query \<Rightarrow> ('w authority, stored_approval list) eff" where
  \<comment> \<open>what the two queries of approvals share\<close>
  "list_accessible bin q method sid p =
     eff_bind (requireValidSession method sid) (\<lambda>se.
     eff_bind (require (text_opt_ok (aq_run p)) invalid_payload) (\<lambda>_.
     eff_bind (case aq_run p of None \<Rightarrow> eff_return () | Some r \<Rightarrow> eff_bind (authorized_run q se r) (\<lambda>_. eff_return ())) (\<lambda>_.
     get_state (\<lambda>s. filter (accessible_approval q se (au_journal s)) (listApprovals bin (aq_run p) (aq_status p) (au_journal s))))))"

definition handleListApprovals ::
  "(string \<Rightarrow> string \<Rightarrow> int) \<Rightarrow> request_stamps \<Rightarrow> string option \<Rightarrow> approval_query \<Rightarrow> ('w authority, stored_approval list) eff" where
  "handleListApprovals bin q sid p = list_accessible bin q ''list_approvals'' sid p"

record inbox_item =
  ib_approval :: stored_approval
  ib_workflow_name :: string
  ib_domain :: string
  ib_side_effect :: side_effect_level
  ib_snapshot_required :: bool
  ib_reason_summary :: "string option"
  ib_primary_reason :: "(string \<times> string) option"
  ib_target_locator :: string
  ib_target_label :: "string option"

definition inbox_item :: "journal \<Rightarrow> stored_approval \<Rightarrow> inbox_item option" where
  "inbox_item j ap =
     (case (getStoredApproval (ap_id ap) j, getRunSummary (ap_run_id ap) j) of
        (Some st, Some su) \<Rightarrow> Some
          \<lparr>ib_approval = ap, ib_workflow_name = rw_workflow_name (su_run su), ib_domain = domain_of (ap_action st),
           ib_side_effect = side_effect (ap_action st), ib_snapshot_required = snapshot_required (ap_policy_outcome st),
           ib_reason_summary = map_option pr_message (js_head (po_reasons (ap_policy_outcome st))),
           ib_primary_reason = primaryReasonFromPolicyOutcome (ap_policy_outcome st),
           ib_target_locator = locator_of (ap_action st), ib_target_label = tp_label (primary_target (ap_action st))\<rparr>
      | _ \<Rightarrow> None)"

definition inbox_order :: "(string \<Rightarrow> string \<Rightarrow> int) \<Rightarrow> inbox_item \<Rightarrow> inbox_item \<Rightarrow> int" where
  "inbox_order loc x y =
     (let a = ap_status (ib_approval x); b = ap_status (ib_approval y) in
      if a \<noteq> b \<and> a = AP_pending then - 1
      else if a \<noteq> b \<and> b = AP_pending then 1
      else loc (ap_requested_at (ib_approval y)) (ap_requested_at (ib_approval x)))"

definition count_status :: "approval_state \<Rightarrow> inbox_item list \<Rightarrow> nat" where
  "count_status st items = length (filter (\<lambda>i. ap_status (ib_approval i) = st) items)"

record inbox =
  ix_items :: "inbox_item list"
  ix_pending :: nat
  ix_approved :: nat
  ix_denied :: nat

definition handleQueryApprovalInbox ::
  "(string \<Rightarrow> string \<Rightarrow> int) \<Rightarrow> (string \<Rightarrow> string \<Rightarrow> int) \<Rightarrow> request_stamps \<Rightarrow> string option \<Rightarrow> approval_query \<Rightarrow> ('w authority, inbox) eff" where
  "handleQueryApprovalInbox bin loc q sid p =
     eff_bind (list_accessible bin q ''query_approval_inbox'' sid p) (\<lambda>aps.
     get_state (\<lambda>s. let items = js_sort (inbox_order loc) (List.map_filter (inbox_item (au_journal s)) aps) in
       \<lparr>ix_items = items, ix_pending = count_status AP_pending items, ix_approved = count_status AP_approved items,
        ix_denied = count_status AP_denied items\<rparr>))"

record resolve_request =
  vq_approval :: string
  vq_resolution :: approval_resolution
  vq_note :: "string option"

record resolve_result =
  vr_approval :: stored_approval
  vr_execution :: "execution_result option"
  vr_snapshot :: "snapshot_record option"

definition resolved_payload :: "stored_approval \<Rightarrow> fields" where
  "resolved_payload ap =
     [(''approval_id'', JStr (ap_id ap)), (''action_id'', JStr (ap_action_id ap)), (''action_summary'', JStr (ap_action_summary ap)),
      (''resolution'', JStr (approval_status_str (ap_status ap))), (''resolution_note'', or_null JStr (ap_resolution_note ap))]"

definition approved_outcome :: "policy_outcome \<Rightarrow> policy_outcome" where
  "approved_outcome out = out\<lparr>po_decision := (if snapshot_required out then AllowWithSnapshot else Allow),
     po_pre := (po_pre out)\<lparr>pc_approval_required := False\<rparr>\<rparr>"

definition run_approved ::
  "'w authority_env \<Rightarrow> request_stamps \<Rightarrow> stored_approval \<Rightarrow> ('w authority, execution_result option \<times> snapshot_record option) eff" where
  "run_approved env q st =
     (let a = ap_action st; r = ap_run_id st; out = approved_outcome (ap_policy_outcome st) in
      eff_bind (\<lambda>s. lift_error (case getRunSummary r (au_journal s) of None \<Rightarrow> Inl (no_run_error r) | Some su \<Rightarrow> Inr su) s) (\<lambda>su.
      eff_bind (cached_state env q) (\<lambda>cached.
      eff_bind (if snapshot_required out
          then eff_bind (risk_context_of env r (Some (action_id a))) (\<lambda>rc.
               eff_bind (get_state au_journal) (\<lambda>j.
               eff_return (Some (selectSnapshotClass (selection_for a (po_decision out) cached su j rc)))))
          else eff_return None) (\<lambda>sel.
      executeGovernedAction env (qs_engine q) (qs_clock q) a out sel (rw_workspace_roots (su_run su))))))"

definition handleResolveApproval ::
  "'w authority_env \<Rightarrow> request_stamps \<Rightarrow> string option \<Rightarrow> resolve_request \<Rightarrow> ('w authority, resolve_result) eff" where
  "handleResolveApproval env q sid p =
     eff_bind (requireValidSession ''resolve_approval'' sid) (\<lambda>se.
     eff_bind (require (vq_approval p \<noteq> [] \<and> text_opt_ok (vq_note p)) invalid_payload) (\<lambda>_.
     eff_bind (\<lambda>s. lift_error (case getStoredApproval (vq_approval p) (au_journal s) of
         None \<Rightarrow> Inl (NotFoundError (''No approval found for '' @ vq_approval p @ ''.'')) | Some st \<Rightarrow> Inr st) s) (\<lambda>st.
     eff_bind (authorized_run q se (ap_run_id st)) (\<lambda>_.
     eff_bind (on_journal (resolveApproval (qs_now_text q) (vq_approval p) (vq_resolution p) (vq_note p))) (\<lambda>ap.
     eff_bind (log_event (qs_clock q 8) (ap_run_id st) ''approval.resolved'' (resolved_payload ap)) (\<lambda>_.
       if ap_status ap \<noteq> AP_approved then
         eff_return \<lparr>vr_approval = ap, vr_execution = None, vr_snapshot = ap_snapshot_record st\<rparr>
       else eff_bind (run_approved env q st) (\<lambda>(r, snap).
         eff_return \<lparr>vr_approval = ap, vr_execution = r, vr_snapshot = snap\<rparr>)))))))"

end
