(* ===== verification/Recovery_Handlers.thy ===== *)
theory Recovery_Handlers
  imports Authority_Handlers
begin

text \<open>
  The handlers \<open>plan_recovery\<close> and \<open>execute_recovery\<close> (\<open>packages/authority-daemon/src/app/handlers/recovery.ts\<close>) and the search for
  the boundary a request names (\<open>app/request-helpers.ts\<close>): a snapshot, an action, an owned object, a checkpoint, a branch point
  or some paths of a snapshot. The strategies of compensation are an argument and act on what is outside the daemon.
\<close>

section \<open>Checkpoint tokens\<close>

definition split_last :: "char \<Rightarrow> string \<Rightarrow> (string \<times> string) option" where
  \<comment> \<open>what is before and after the last occurrence\<close>
  "split_last c s =
     (if c \<notin> set s then None
      else let r = rev s; t = takeWhile (\<lambda>x. x \<noteq> c) r in Some (rev (drop (Suc (length t)) r), rev t))"

definition malformed_checkpoint :: ag_error where
  "malformed_checkpoint = PreconditionError ''Malformed run checkpoint target.''"

definition parseRunCheckpointToken :: "string \<Rightarrow> ag_error + string \<times> int" where
  "parseRunCheckpointToken tok =
     (case split_last (CHR ''#'') tok of
        None \<Rightarrow> Inl malformed_checkpoint
      | Some (r, d) \<Rightarrow>
          (if r = [] \<or> d = [] then Inl malformed_checkpoint
           else case js_parse_int d of
               None \<Rightarrow> Inl malformed_checkpoint
             | Some n \<Rightarrow> if n \<le> 0 then Inl malformed_checkpoint else Inr (r, n)))"

section \<open>Owned objects\<close>

definition hex_value :: "char \<Rightarrow> nat option" where
  "hex_value c =
     (let n = (of_char c :: nat) in
      if 48 \<le> n \<and> n \<le> 57 then Some (n - 48)
      else if 65 \<le> n \<and> n \<le> 70 then Some (n - 55)
      else if 97 \<le> n \<and> n \<le> 102 then Some (n - 87)
      else None)"

fun percent_bytes :: "nat \<Rightarrow> string \<Rightarrow> (nat list \<times> string) option" where
  \<comment> \<open>\<open>n\<close> bytes written \<open>%XX\<close>\<close>
  "percent_bytes 0 s = Some ([], s)"
| "percent_bytes (Suc n) (p # a # b # s) =
     (if p \<noteq> CHR ''%'' then None
      else case (hex_value a, hex_value b) of
          (Some x, Some y) \<Rightarrow> map_option (\<lambda>(ys, t). ((16 * x + y) # ys, t)) (percent_bytes n s)
        | _ \<Rightarrow> None)"
| "percent_bytes (Suc n) s = None"

definition continuation_count :: "nat \<Rightarrow> nat option" where
  \<comment> \<open>how many bytes follow a first byte\<close>
  "continuation_count b =
     (if b < 128 then Some 0
      else if 194 \<le> b \<and> b < 224 then Some 1
      else if 224 \<le> b \<and> b < 240 then Some 2
      else if 240 \<le> b \<and> b < 245 then Some 3
      else None)"

definition utf8_tail_ok :: "nat \<Rightarrow> nat list \<Rightarrow> bool" where
  \<comment> \<open>no overlong form, no surrogate, nothing beyond U+10FFFF\<close>
  "utf8_tail_ok b ys =
     (list_all (\<lambda>x. 128 \<le> x \<and> x < 192) ys \<and>
      (case ys of
         [] \<Rightarrow> True
       | x # _ \<Rightarrow> (b = 224 \<longrightarrow> 160 \<le> x) \<and> (b = 237 \<longrightarrow> x < 160) \<and> (b = 240 \<longrightarrow> 144 \<le> x) \<and> (b = 244 \<longrightarrow> x < 144)))"

fun uri_decodable :: "nat \<Rightarrow> string \<Rightarrow> bool" where
  \<comment> \<open>\<open>decodeURIComponent\<close> returns; the fuel bounds the length of the text\<close>
  "uri_decodable fuel [] = True"
| "uri_decodable 0 (c # s) = False"
| "uri_decodable (Suc fuel) (c # s) =
     (if c \<noteq> CHR ''%'' then uri_decodable fuel s
      else case percent_bytes 1 (c # s) of
          Some ([b], t) \<Rightarrow>
            (case continuation_count b of
               None \<Rightarrow> False
             | Some n \<Rightarrow>
                 (case percent_bytes n t of
                    None \<Rightarrow> False
                  | Some (ys, t') \<Rightarrow> utf8_tail_ok b ys \<and> uri_decodable fuel t'))
        | _ \<Rightarrow> False)"

definition nested_locator :: "string \<Rightarrow> string \<Rightarrow> string \<Rightarrow> (string \<times> string) option" where
  \<comment> \<open>the shape of \<open>parseDraftLabelLocator\<close>, \<open>parseTicketLabelLocator\<close> and \<open>parseTicketAssigneeLocator\<close>: the object and the encoded rest\<close>
  "nested_locator pre sep locator =
     (case after_prefix pre locator of
        None \<Rightarrow> None
      | Some rest \<Rightarrow>
          (case split_at sep rest of
             None \<Rightarrow> None
           | Some (i, e) \<Rightarrow> if i = [] \<or> e = [] then None else Some (i, e)))"

definition nested_object :: "string \<Rightarrow> string \<Rightarrow> string \<Rightarrow> wi_error + string option" where
  "nested_object pre sep locator =
     (case nested_locator pre sep locator of
        None \<Rightarrow> Inr None
      | Some (i, e) \<Rightarrow> if uri_decodable (length e) e then Inr (Some i) else Inl (WE_node ''URI malformed''))"

definition first_object :: "(wi_error + string option) \<Rightarrow> string \<Rightarrow> (wi_error + (string \<times> string) option) \<Rightarrow> wi_error + (string \<times> string) option" where
  \<comment> \<open>\<open>if (id) return { externalObjectId, canonicalLocator }\<close>, or what comes after\<close>
  "first_object x pre k = (case x of Inl e \<Rightarrow> Inl e | Inr None \<Rightarrow> k | Inr (Some i) \<Rightarrow> Inr (Some (i, pre @ i)))"

abbreviation "drafts_prefix \<equiv> ''drafts://message_draft/''"
abbreviation "notes_prefix \<equiv> ''notes://workspace_note/''"
abbreviation "tickets_prefix \<equiv> ''tickets://issue/''"

definition canonicalExternalObject :: "string \<Rightarrow> wi_error + (string \<times> string) option" where
  "canonicalExternalObject l =
     first_object (nested_object drafts_prefix ''/labels/'' l) drafts_prefix
     (first_object (Inr (parseDraftLocator l)) drafts_prefix
     (first_object (Inr (parseNoteLocator l)) notes_prefix
     (first_object (nested_object tickets_prefix ''/labels/'' l) tickets_prefix
     (first_object (nested_object tickets_prefix ''/assignees/'' l) tickets_prefix
     (first_object (Inr (parseTicketLocator l)) tickets_prefix (Inr None))))))"

section \<open>Boundaries\<close>

record action_context =
  bx_run :: string
  bx_action :: string
  bx_event :: journal_event
  bx_snapshot :: "string option"
  bx_later :: nat
  bx_overlaps :: "string list"

record checkpoint_context =
  kx_run :: string
  kx_action :: "string option"
  kx_snapshot :: string

definition findSnapshotBoundaryContext :: "journal \<Rightarrow> string \<Rightarrow> int \<Rightarrow> ag_error + checkpoint_context" where
  "findSnapshotBoundaryContext j r n =
     (case getRunSummary r j of
        None \<Rightarrow> Inl (no_run_error r)
      | Some su \<Rightarrow>
          (case find (\<lambda>e. int (ev_sequence e) = n \<and> ev_type e = ''snapshot.created'') (run_events j r) of
             None \<Rightarrow> Inl (NotFoundError (''No persisted checkpoint found for run '' @ r @ '' at sequence '' @ nat_digits (nat n) @ ''.''))
           | Some e \<Rightarrow>
               (case event_string e ''snapshot_id'' of
                  None \<Rightarrow> Inl (PreconditionError ''Checkpoint does not reference a persisted snapshot.'')
                | Some i \<Rightarrow> Inr \<lparr>kx_run = r, kx_action = event_string e ''action_id'', kx_snapshot = i\<rparr>)))"

definition findRunCheckpointContext :: "journal \<Rightarrow> string \<Rightarrow> ag_error + checkpoint_context" where
  "findRunCheckpointContext j tok =
     sum_bind (parseRunCheckpointToken tok) (\<lambda>(r, n). findSnapshotBoundaryContext j r n)"

definition findBranchPointContext :: "journal \<Rightarrow> string \<Rightarrow> nat \<Rightarrow> ag_error + checkpoint_context" where
  "findBranchPointContext j r n = findSnapshotBoundaryContext j r (int n)"

definition is_event :: "string \<Rightarrow> string \<Rightarrow> journal_event \<Rightarrow> bool" where
  "is_event ty a e = (ev_type e = ty \<and> event_string e ''action_id'' = Some a)"

definition later_actions :: "string \<Rightarrow> journal_event \<Rightarrow> journal_event list \<Rightarrow> string list" where
  "later_actions a e0 es =
     (case event_string e0 ''target_locator'' of
        None \<Rightarrow> []
      | Some l \<Rightarrow> js_dedup (List.map_filter (\<lambda>e.
          if ev_sequence e \<le> ev_sequence e0 \<or> ev_type e \<noteq> ''action.normalized'' then None
          else case event_string e ''action_id'' of
              None \<Rightarrow> None
            | Some b \<Rightarrow> if b \<noteq> a \<and> event_string e ''target_locator'' = Some l then Some b else None) es))"

definition action_context_in :: "string \<Rightarrow> string \<Rightarrow> journal_event list \<Rightarrow> action_context option" where
  "action_context_in a r es =
     (case find (is_event ''action.normalized'' a) es of
        None \<Rightarrow> None
      | Some e0 \<Rightarrow>
          (let later = later_actions a e0 es in
           Some \<lparr>bx_run = r, bx_action = a, bx_event = e0,
             bx_snapshot = (case find (is_event ''snapshot.created'' a) es of None \<Rightarrow> None | Some e \<Rightarrow> event_string e ''snapshot_id''),
             bx_later = length later,
             bx_overlaps = (case event_string e0 ''target_locator'' of Some l \<Rightarrow> if later \<noteq> [] then [l] else [] | None \<Rightarrow> [])\<rparr>))"

abbreviation "summary_id su \<equiv> rw_run_id (su_run su)"

fun first_context :: "string \<Rightarrow> journal \<Rightarrow> run_summary list \<Rightarrow> action_context option" where
  "first_context a j [] = None"
| "first_context a j (su # sus) =
     (case action_context_in a (summary_id su) (run_events j (summary_id su)) of
        Some c \<Rightarrow> Some c
      | None \<Rightarrow> first_context a j sus)"

definition findActionBoundaryContext :: "journal \<Rightarrow> string \<Rightarrow> ag_error + action_context" where
  "findActionBoundaryContext j a =
     (case first_context a j (listAllRuns j) of
        None \<Rightarrow> Inl (NotFoundError (''No recovery boundary found for action '' @ a @ ''.''))
      | Some c \<Rightarrow> Inr c)"

text \<open>The latest action on an object, by the time it occurred, the time of its record and its number.\<close>

record object_match =
  om_action :: string
  om_occurred :: int
  om_recorded :: int
  om_sequence :: nat

definition match_newer :: "object_match \<Rightarrow> object_match \<Rightarrow> bool" where
  "match_newer x y =
     (om_occurred x > om_occurred y \<or>
      (om_occurred x = om_occurred y \<and> om_recorded x > om_recorded y) \<or>
      (om_occurred x = om_occurred y \<and> om_recorded x = om_recorded y \<and> om_sequence x > om_sequence y))"

fun object_matches ::
  "string \<Rightarrow> journal_event list \<Rightarrow> object_match option \<times> string list \<Rightarrow> wi_error + object_match option \<times> string list" where
  "object_matches oid [] st = Inr st"
| "object_matches oid (e # es) st =
     (if ev_type e \<noteq> ''action.normalized'' then object_matches oid es st
      else case (event_string e ''action_id'', event_string e ''target_locator'') of
          (Some a, Some l) \<Rightarrow>
            (case canonicalExternalObject l of
               Inl err \<Rightarrow> Inl err
             | Inr None \<Rightarrow> object_matches oid es st
             | Inr (Some (i, canon)) \<Rightarrow>
                 (if i \<noteq> oid then object_matches oid es st
                  else
                    (let m = \<lparr>om_action = a, om_occurred = ev_occurred_at e, om_recorded = ev_recorded_at e, om_sequence = ev_sequence e\<rparr> in
                     object_matches oid es
                       (case fst st of None \<Rightarrow> Some m | Some old \<Rightarrow> if match_newer m old then Some m else Some old,
                        js_dedup (snd st @ [canon])))))
        | _ \<Rightarrow> object_matches oid es st)"

definition findExternalObjectBoundaryContext :: "journal \<Rightarrow> string \<Rightarrow> wi_error + action_context" where
  "findExternalObjectBoundaryContext j oid =
     sum_bind (object_matches oid (concat (map (\<lambda>su. run_events j (summary_id su)) (listAllRuns j))) (None, [])) (\<lambda>(latest, locators).
       case latest of
         None \<Rightarrow> Inl (WE_ag (NotFoundError (''No recovery boundary found for external object '' @ oid @ ''.'')))
       | Some m \<Rightarrow>
           (if 1 < length locators then
              Inl (WE_ag (PreconditionError ''External object recovery target is ambiguous across multiple object families.''))
            else map_sum WE_ag id (findActionBoundaryContext j (om_action m))))"

section \<open>Plans without a snapshot\<close>

definition string_member :: "jsval \<Rightarrow> string \<Rightarrow> string option" where
  \<comment> \<open>\<open>o && typeof o === "object" && typeof o[k] === "string" ? o[k] : null\<close>\<close>
  "string_member v k = (case js_get v k of JStr s \<Rightarrow> Some s | _ \<Rightarrow> None)"

definition evidence_of :: "action_context \<Rightarrow> action_evidence" where
  "evidence_of c =
     (let opn = obj_get (ev_payload (bx_event c)) ''operation''; hints = obj_get (ev_payload (bx_event c)) ''risk_hints'' in
      \<lparr>ev_action = bx_action c, ev_target = dflt (''action:'' @ bx_action c) (event_string (bx_event c) ''target_locator''),
       ev_domain = dflt ''unknown'' (string_member opn ''domain''), ev_display = string_member opn ''display_name'',
       ev_side_effect = string_member hints ''side_effect_level'', ev_external = string_member hints ''external_effects'',
       ev_reversibility = string_member hints ''reversibility_hint'', ev_later = bx_later c, ev_overlaps = bx_overlaps c\<rparr>)"

definition createActionBoundaryPlan :: "plan_stamp \<Rightarrow> journal \<Rightarrow> string \<Rightarrow> ag_error + recovery_plan" where
  "createActionBoundaryPlan d j a =
     sum_bind (findActionBoundaryContext j a) (\<lambda>c. Inr (createActionBoundaryReviewPlan d (evidence_of c)))"

definition retargetRecoveryPlan :: "recovery_target \<Rightarrow> recovery_plan \<Rightarrow> recovery_plan" where
  "retargetRecoveryPlan t p = p\<lparr>pl_target := t\<rparr>"

section \<open>Requests\<close>

record recovery_request =
  yq_snapshot :: "string option"
  yq_target :: "recovery_target option"

fun target_schema :: "recovery_target \<Rightarrow> bool" where
  "target_schema (RT_snapshot i) = (i \<noteq> [])"
| "target_schema (RT_action a) = (a \<noteq> [])"
| "target_schema (RT_external x) = (x \<noteq> [])"
| "target_schema (RT_checkpoint tok) = (tok \<noteq> [])"
| "target_schema (RT_branch r n) = (r \<noteq> [] \<and> 0 < n)"
| "target_schema (RT_paths i ps) = (i \<noteq> [] \<and> ps \<noteq> [] \<and> list_all (\<lambda>p. p \<noteq> []) ps)"

definition recovery_schema :: "recovery_request \<Rightarrow> bool" where
  \<comment> \<open>exactly one of the two\<close>
  "recovery_schema p =
     (text_opt_ok (yq_snapshot p) \<and> (case yq_target p of None \<Rightarrow> True | Some t \<Rightarrow> target_schema t) \<and>
      (yq_target p \<noteq> None \<or> yq_snapshot p \<noteq> None) \<and> \<not> (yq_target p \<noteq> None \<and> yq_snapshot p \<noteq> None))"

definition normalizeRecoveryTarget :: "recovery_request \<Rightarrow> recovery_target" where
  "normalizeRecoveryTarget p = (case yq_target p of Some t \<Rightarrow> t | None \<Rightarrow> RT_snapshot (dflt [] (yq_snapshot p)))"

fun target_type_str :: "recovery_target \<Rightarrow> string" where
  "target_type_str (RT_snapshot i) = ''snapshot_id''"
| "target_type_str (RT_action a) = ''action_boundary''"
| "target_type_str (RT_external x) = ''external_object''"
| "target_type_str (RT_checkpoint tok) = ''run_checkpoint''"
| "target_type_str (RT_branch r n) = ''branch_point''"
| "target_type_str (RT_paths i ps) = ''path_subset''"

definition authority_port :: "'w authority_env \<Rightarrow> engine_stamps \<Rightarrow> 'w authority snapshot_port" where
  "authority_port env d =
     (let port = engine_port (ae_engine env) d in
      \<lparr>sp_manifest = \<lambda>i. on_engine (sp_manifest port i), sp_preview = \<lambda>i. on_engine (sp_preview port i),
       sp_preview_subset = \<lambda>i ps. on_engine (sp_preview_subset port i ps), sp_verify = \<lambda>i. on_engine (sp_verify port i),
       sp_restore = \<lambda>i. on_engine (sp_restore port i), sp_restore_subset = \<lambda>i ps. on_engine (sp_restore_subset port i ps)\<rparr>)"

definition on_outside :: "('w outside, 'a) eff \<Rightarrow> ('w authority, 'a) eff" where
  "on_outside f s = map_option (\<lambda>(r, w). (r, s\<lparr>au_outside := w\<rparr>)) (f (au_outside s))"

definition authority_strategy :: "'w outside compensation_strategy \<Rightarrow> 'w authority compensation_strategy" where
  "authority_strategy c = \<lparr>cp_can = cp_can c, cp_build = cp_build c, cp_execute = \<lambda>b pv ok. on_outside (cp_execute c b pv ok)\<rparr>"

text \<open>What a request is about: the run it is authorized on, the snapshot, and what the event will name.\<close>

record recovery_focus =
  fo_run :: string
  fo_snapshot :: "string option"
  fo_action :: "string option"

definition lift_wi :: "(journal \<Rightarrow> wi_error + 'a) \<Rightarrow> ('w authority, 'a) eff" where
  "lift_wi f s = Some (f (au_journal s), s)"

definition authorized_focus :: "request_stamps \<Rightarrow> session_record \<Rightarrow> recovery_focus \<Rightarrow> ('w authority, recovery_focus) eff" where
  "authorized_focus q se f = eff_bind (authorized_run q se (fo_run f)) (\<lambda>_. eff_return f)"

definition checkpoint_focus :: "checkpoint_context \<Rightarrow> recovery_focus" where
  "checkpoint_focus c = \<lparr>fo_run = kx_run c, fo_snapshot = Some (kx_snapshot c), fo_action = kx_action c\<rparr>"

definition action_focus :: "action_context \<Rightarrow> recovery_focus" where
  "action_focus c = \<lparr>fo_run = bx_run c, fo_snapshot = bx_snapshot c, fo_action = Some (bx_action c)\<rparr>"

fun find_focus :: "'w authority snapshot_port \<Rightarrow> recovery_target \<Rightarrow> ('w authority, recovery_focus) eff" where
  "find_focus port (RT_snapshot i) =
     eff_bind (loadRecoverySnapshotManifest port i) (\<lambda>b. eff_return \<lparr>fo_run = bd_run_id b, fo_snapshot = Some i, fo_action = None\<rparr>)"
| "find_focus port (RT_paths i ps) =
     eff_bind (loadRecoverySnapshotManifest port i)
       (\<lambda>b. eff_return \<lparr>fo_run = bd_run_id b, fo_snapshot = Some i, fo_action = Some (bd_action_id b)\<rparr>)"
| "find_focus port (RT_branch r n) =
     eff_bind (lift_wi (\<lambda>j. map_sum WE_ag id (findBranchPointContext j r n))) (\<lambda>c. eff_return (checkpoint_focus c))"
| "find_focus port (RT_checkpoint tok) =
     eff_bind (lift_wi (\<lambda>j. map_sum WE_ag id (findRunCheckpointContext j tok))) (\<lambda>c. eff_return (checkpoint_focus c))"
| "find_focus port (RT_action a) =
     eff_bind (lift_wi (\<lambda>j. map_sum WE_ag id (findActionBoundaryContext j a))) (\<lambda>c. eff_return (action_focus c))"
| "find_focus port (RT_external x) =
     eff_bind (lift_wi (\<lambda>j. findExternalObjectBoundaryContext j x)) (\<lambda>c. eff_return (action_focus c))"

definition open_recovery ::
  "'w authority_env \<Rightarrow> request_stamps \<Rightarrow> string \<Rightarrow> string option \<Rightarrow> recovery_request \<Rightarrow>
   ('w authority, cached_capability_state option \<times> recovery_focus) eff" where
  \<comment> \<open>what the two handlers do first: session, payload, capabilities, boundary, authorization\<close>
  "open_recovery env q method sid p =
     eff_bind (requireValidSession method sid) (\<lambda>se.
     eff_bind (require (recovery_schema p) invalid_payload) (\<lambda>_.
     eff_bind (cached_state env q) (\<lambda>cached.
     eff_bind (find_focus (authority_port env (qs_engine q)) (normalizeRecoveryTarget p)) (\<lambda>f.
     eff_bind (authorized_focus q se f) (\<lambda>f. eff_return (cached, f))))))"

section \<open>Events\<close>

fun plan_class_str :: "plan_class \<Rightarrow> string" where
  "plan_class_str RC_reversible = ''reversible''" | "plan_class_str RC_compensatable = ''compensatable''"
| "plan_class_str RC_review_only = ''review_only''" | "plan_class_str RC_irreversible = ''irreversible''"

fun loss_risk_str :: "loss_risk \<Rightarrow> string" where
  "loss_risk_str LR_low = ''low''" | "loss_risk_str LR_moderate = ''moderate''"
| "loss_risk_str LR_high = ''high''" | "loss_risk_str LR_unknown = ''unknown''"

definition first_object_touched :: "recovery_plan \<Rightarrow> string option" where
  "first_object_touched pl = (case pl_guidance pl of None \<Rightarrow> None | Some g \<Rightarrow> js_head (rg_objects g))"

definition target_payload :: "recovery_target \<Rightarrow> recovery_focus \<Rightarrow> recovery_plan \<Rightarrow> fields" where
  \<comment> \<open>the fields the two events share\<close>
  "target_payload t f pl =
     [(''recovery_plan_id'', JStr (pl_id pl)), (''target_type'', JStr (target_type_str t)), (''snapshot_id'', or_null JStr (fo_snapshot f)),
      (''action_id'', or_null JStr (fo_action f)),
      (''external_object_id'', (case t of RT_external x \<Rightarrow> JStr x | _ \<Rightarrow> JNull)),
      (''run_checkpoint'', (case t of RT_checkpoint tok \<Rightarrow> JStr tok | _ \<Rightarrow> JNull)),
      (''branch_point_run_id'', (case t of RT_branch r n \<Rightarrow> JStr r | _ \<Rightarrow> JNull)),
      (''branch_point_sequence'', (case t of RT_branch r n \<Rightarrow> JNum (of_nat n) | _ \<Rightarrow> JNull)),
      (''target_paths'', (case t of RT_paths i ps \<Rightarrow> js_strs ps | _ \<Rightarrow> JNull)),
      (''recovery_class'', JStr (plan_class_str (pl_class pl))), (''strategy'', JStr (pl_strategy pl)),
      (''downgrade_reason_code'', or_null (\<lambda>n. JStr (wn_code n)) (pl_downgrade pl)),
      (''downgrade_reason_message'', or_null (\<lambda>n. JStr (wn_message n)) (pl_downgrade pl))]"

definition impact_payload :: "recovery_plan \<Rightarrow> fields" where
  "impact_payload pl =
     [(''later_actions_affected'', JNum (of_nat (im_later (pl_impact pl)))), (''overlapping_paths'', js_strs (im_overlaps (pl_impact pl))),
      (''data_loss_risk'', JStr (loss_risk_str (im_risk (pl_impact pl)))), (''external_effects'', js_strs (im_external (pl_impact pl))),
      (''warnings'', js_strs (map wn_message (pl_warnings pl)))]"

definition planned_payload :: "recovery_target \<Rightarrow> recovery_focus \<Rightarrow> recovery_plan \<Rightarrow> fields" where
  "planned_payload t f pl =
     target_payload t f pl @ [(''target_locator'', or_null JStr (first_object_touched pl))] @ impact_payload pl"

fun entry_kind_str :: "entry_kind \<Rightarrow> string" where
  "entry_kind_str EK_file = ''file''" | "entry_kind_str EK_directory = ''directory''" | "entry_kind_str EK_missing = ''missing''"

fun recovery_outcome_str :: "recovery_outcome \<Rightarrow> string" where
  "recovery_outcome_str RO_restored = ''restored''" | "recovery_outcome_str RO_compensated = ''compensated''"

definition executed_payload :: "recovery_target \<Rightarrow> recovery_focus \<Rightarrow> boundary \<Rightarrow> recovery_result \<Rightarrow> fields" where
  "executed_payload t f b r =
     target_payload t f (xr_plan r) @
     [(''restored'', JBool (xr_restored r)), (''outcome'', JStr (recovery_outcome_str (xr_outcome r))),
      (''target_path'', JStr (bd_target_path b)),
      (''target_locator'', JStr (dflt (bd_target_path b) (first_object_touched (xr_plan r)))),
      (''existed_before'', JBool (bd_existed_before b)), (''entry_kind'', JStr (entry_kind_str (bd_entry_kind b)))] @
     impact_payload (xr_plan r)"

section \<open>The handlers\<close>

definition plan_for ::
  "'w authority_env \<Rightarrow> request_stamps \<Rightarrow> 'w outside compensation_strategy list \<Rightarrow> cached_capability_state option \<Rightarrow>
   recovery_target \<Rightarrow> recovery_focus \<Rightarrow> ('w authority, recovery_plan) eff" where
  "plan_for env q strategies cached t f =
     (let port = authority_port env (qs_engine q); d = qs_plan q in
      case t of
        RT_snapshot i \<Rightarrow> planSnapshotRecovery port (Some (map authority_strategy strategies)) cached d i
      | RT_paths i ps \<Rightarrow> planPathSubsetRecovery port cached d i ps
      | _ \<Rightarrow>
          (case fo_snapshot f of
             Some i \<Rightarrow>
               eff_bind (planSnapshotRecovery port (Some (map authority_strategy strategies)) cached d i) (\<lambda>pl. eff_return (retargetRecoveryPlan t pl))
           | None \<Rightarrow>
               eff_bind (lift_wi (\<lambda>j. map_sum WE_ag id (createActionBoundaryPlan d j (dflt [] (fo_action f)))))
                 (\<lambda>pl. eff_return (retargetRecoveryPlan t pl))))"

definition handlePlanRecovery ::
  "'w authority_env \<Rightarrow> request_stamps \<Rightarrow> 'w outside compensation_strategy list \<Rightarrow> string option \<Rightarrow> recovery_request \<Rightarrow>
   ('w authority, recovery_plan) eff" where
  "handlePlanRecovery env q strategies sid p =
     (let t = normalizeRecoveryTarget p in
      eff_bind (open_recovery env q ''plan_recovery'' sid p) (\<lambda>(cached, f).
      eff_bind (plan_for env q strategies cached t f) (\<lambda>pl.
      eff_bind (log_event (qs_clock q 0) (fo_run f) ''recovery.planned'' (planned_payload t f pl)) (\<lambda>_.
      eff_return pl))))"

definition no_boundary_snapshot :: wi_error where
  "no_boundary_snapshot =
     WE_ag (PreconditionError ''This action boundary has no persisted snapshot, so execution is manual-review only.'')"

definition retarget_result :: "recovery_target \<Rightarrow> recovery_result \<Rightarrow> recovery_result" where
  "retarget_result t r = r\<lparr>xr_plan := retargetRecoveryPlan t (xr_plan r)\<rparr>"

definition recover_for ::
  "'w authority_env \<Rightarrow> request_stamps \<Rightarrow> 'w outside compensation_strategy list \<Rightarrow> cached_capability_state option \<Rightarrow>
   recovery_target \<Rightarrow> recovery_focus \<Rightarrow> ('w authority, boundary \<times> recovery_result) eff" where
  "recover_for env q strategies cached t f =
     (let port = authority_port env (qs_engine q); d = qs_plan q; now = qs_clock q 0 in
      case fo_snapshot f of
        None \<Rightarrow> eff_throw no_boundary_snapshot
      | Some i \<Rightarrow>
          eff_bind (loadRecoverySnapshotManifest port i) (\<lambda>b.
          eff_bind (case t of
              RT_paths k ps \<Rightarrow> executePathSubsetRecovery port cached d now k ps
            | RT_snapshot k \<Rightarrow> executeSnapshotRecovery port (Some (map authority_strategy strategies)) cached d now k
            | _ \<Rightarrow> eff_bind (executeSnapshotRecovery port (Some (map authority_strategy strategies)) cached d now i) (\<lambda>r. eff_return (retarget_result t r)))
            (\<lambda>r. eff_return (b, r))))"

definition handleExecuteRecovery ::
  "'w authority_env \<Rightarrow> request_stamps \<Rightarrow> 'w outside compensation_strategy list \<Rightarrow> string option \<Rightarrow> recovery_request \<Rightarrow>
   ('w authority, recovery_result) eff" where
  "handleExecuteRecovery env q strategies sid p =
     (let t = normalizeRecoveryTarget p in
      eff_bind (open_recovery env q ''execute_recovery'' sid p) (\<lambda>(cached, f).
      eff_bind (recover_for env q strategies cached t f) (\<lambda>(b, r).
      eff_bind (log_event (qs_clock q 0) (fo_run f) ''recovery.executed'' (executed_payload t f b r)) (\<lambda>_.
      eff_return r))))"

end
