(* ===== verification/Authority_Daemon.thy ===== *)
theory Authority_Daemon
  imports Recovery_Handlers "HOL-Library.Sublist"
begin

text \<open>
  The daemon as a state machine (\<open>AuthorityService\<close> and the dispatch of \<open>packages/authority-daemon/src/app/authority-service.ts\<close>):
  a request is served by its handler, whatever it returns, and a restart loses what is in memory, rebuilds sessions and runs from
  the journal and looks for interrupted actions. The process may die at any point of a handler, or of the restart itself, between two writes
  of the journal: what was written by then is kept. Requests the model leaves out are those of MCP
  administration, diagnostics, maintenance and the timeline; idempotency is modelled by itself.
\<close>

datatype request =
    RQ_hello string string hello_request
  | RQ_register string int string "string option" run_request
  | RQ_summary request_stamps "string option" string
  | RQ_explain request_stamps "string option" raw_attempt
  | RQ_submit request_stamps "string option" raw_attempt
  | RQ_checkpoint request_stamps string "string option" checkpoint_request
  | RQ_approvals request_stamps "string option" approval_query
  | RQ_inbox request_stamps "string option" approval_query
  | RQ_resolve request_stamps "string option" resolve_request
  | RQ_plan request_stamps "string option" recovery_request
  | RQ_execute request_stamps "string option" recovery_request

text \<open>What a handler returns is kept only as success or error.\<close>

definition settle :: "('s, 'a) eff \<Rightarrow> ('s, unit) eff" where
  "settle m = eff_bind m (\<lambda>_. eff_return ())"

record 'w daemon =
  dm_env :: "'w authority_env"
  dm_strategies :: "'w outside compensation_strategy list"
  dm_binary :: "string \<Rightarrow> string \<Rightarrow> int"
  dm_locale :: "string \<Rightarrow> string \<Rightarrow> int"

fun serve :: "'w daemon \<Rightarrow> request \<Rightarrow> ('w authority, unit) eff" where
  "serve d (RQ_hello i now p) = settle (handleHello i now p)"
| "serve d (RQ_register i now t sid p) = settle (handleRegisterRun i now t sid p)"
| "serve d (RQ_summary q sid r) = settle (handleGetRunSummary q sid r)"
| "serve d (RQ_explain q sid a) = settle (handleExplainPolicyAction (dm_env d) q sid a)"
| "serve d (RQ_submit q sid a) = settle (handleSubmitActionAttempt (dm_env d) q sid a)"
| "serve d (RQ_checkpoint q i sid p) = settle (handleCreateRunCheckpoint (dm_env d) q i sid p)"
| "serve d (RQ_approvals q sid p) = settle (handleListApprovals (dm_binary d) q sid p)"
| "serve d (RQ_inbox q sid p) = settle (handleQueryApprovalInbox (dm_binary d) (dm_locale d) q sid p)"
| "serve d (RQ_resolve q sid p) = settle (handleResolveApproval (dm_env d) q sid p)"
| "serve d (RQ_plan q sid p) = settle (handlePlanRecovery (dm_env d) q (dm_strategies d) sid p)"
| "serve d (RQ_execute q sid p) = settle (handleExecuteRecovery (dm_env d) q (dm_strategies d) sid p)"

fun request_session :: "request \<Rightarrow> string option" where
  "request_session (RQ_hello i now p) = None"
| "request_session (RQ_register i now t sid p) = sid"
| "request_session (RQ_summary q sid r) = sid"
| "request_session (RQ_explain q sid a) = sid"
| "request_session (RQ_submit q sid a) = sid"
| "request_session (RQ_checkpoint q i sid p) = sid"
| "request_session (RQ_approvals q sid p) = sid"
| "request_session (RQ_inbox q sid p) = sid"
| "request_session (RQ_resolve q sid p) = sid"
| "request_session (RQ_plan q sid p) = sid"
| "request_session (RQ_execute q sid p) = sid"

section \<open>Restart\<close>

definition lose_memory :: "'w authority \<Rightarrow> 'w authority" where
  "lose_memory s = s\<lparr>au_sessions := [], au_runs := [], au_engine := (au_engine s)\<lparr>en_open := []\<rparr>\<rparr>"

definition restart :: "string \<Rightarrow> (int \<Rightarrow> string) \<Rightarrow> (nat \<Rightarrow> int) \<Rightarrow> 'w authority \<Rightarrow> ag_error + 'w authority" where
  "restart now print_time clock s =
     (let s = reconcilePersistedRuns now print_time (lose_memory s) in
      case recoverInterruptedActions clock (au_journal s) of
        Inl e \<Rightarrow> Inl e
      | Inr (n, j) \<Rightarrow> Inr (s\<lparr>au_journal := j\<rparr>))"

section \<open>The state machine\<close>

text \<open>Between requests files are edited, capabilities and servers are refreshed, and the outside moves.\<close>

inductive authority_step :: "'w daemon \<Rightarrow> 'w authority \<Rightarrow> 'w authority \<Rightarrow> bool" for d where
  request: "serve d rq s = Some (r, s') \<Longrightarrow> authority_step d s s'"
| restart: "restart now print_time clock s = Inr s' \<Longrightarrow> authority_step d s s'"
| edited: "authority_step d s (s\<lparr>au_engine := set_tree rt t (au_engine s)\<rparr>)"
| refreshed: "authority_step d s (s\<lparr>au_capabilities := caps, au_mcp := m, au_outside := w\<rparr>)"

text \<open>What the journal holds when a step that takes it from \<open>j\<close> to \<open>t\<close> is cut short. The registration of a run is one
  transaction; any other step writes its events one by one and, before or between them, its approval.\<close>

definition cut_journal :: "journal \<Rightarrow> journal \<Rightarrow> journal \<Rightarrow> bool" where
  "cut_journal j t j' =
     (j' = j \<or> j' = t \<or>
      jr_runs t = jr_runs j \<and> jr_runs j' = jr_runs j \<and> jr_approvals j' \<in> {jr_approvals j, jr_approvals t} \<and>
      prefix (jr_events j) (jr_events j') \<and> prefix (jr_events j') (jr_events t))"

definition fresh_authority :: "mcp_tables \<Rightarrow> capability_snapshot option \<Rightarrow> engine \<Rightarrow> 'w outside \<Rightarrow> 'w authority" where
  "fresh_authority m caps e w =
     \<lparr>au_sessions = [], au_runs = [], au_journal = empty_journal, au_artifacts = [], au_capabilities = caps, au_mcp = m,
      au_engine = e, au_outside = w\<rparr>"

text \<open>The second argument says whether the daemon is up. When it has died, nothing is known of a state but its journal: a snapshot, an artifact
  or a file may have been half written, and files change while it is down.\<close>

inductive authority_reachable :: "'w daemon \<Rightarrow> bool \<Rightarrow> 'w authority \<Rightarrow> bool" for d where
  start: "authority_reachable d True (fresh_authority m caps e w)"
| step: "authority_reachable d True s \<Longrightarrow> authority_step d s s' \<Longrightarrow> authority_reachable d True s'"
| died: "authority_reachable d True s \<Longrightarrow> authority_step d s t \<Longrightarrow>
     cut_journal (au_journal s) (au_journal t) (au_journal s') \<Longrightarrow> authority_reachable d False s'"
| restarted: "authority_reachable d False s \<Longrightarrow> restart now print_time clock s = Inr s' \<Longrightarrow> authority_reachable d True s'"
| died_again: "authority_reachable d False s \<Longrightarrow> restart now print_time clock s = Inr t \<Longrightarrow>
     cut_journal (au_journal s) (au_journal t) (au_journal s') \<Longrightarrow> authority_reachable d False s'"

inductive_cases authority_stepE: "authority_step d s s'"

end
