(* ===== verification/Authority_Theorems.thy ===== *)
theory Authority_Theorems
  imports Authority_Daemon Recovery_Theorems Normalizer_Theorems
begin

text \<open>
  Properties of the daemon: what each handler writes to the journal, that nothing runs without a decision that permits it, that an
  execution that was started is closed in the log even when the daemon dies in it, and that a request only touches runs of its session.
\<close>

section \<open>What an effect keeps\<close>

lemma keeps_reads [simp]:
  "keeps view (get_state f)" "keeps view (ag_throw e)" "keeps view (require ok e)" "keeps view (lift_error x)"
  "keeps view (requireValidSession method sid)" "keeps view (requireAuthorizedRunSummary rp cwd se r)"
  "keeps view (authorized_run q se r)" "keeps view (cached_state env q)" "keeps view (risk_context_of env r ex)"
  "keeps view (lift_wi g)"
  by (auto simp: keeps_def get_state_def ag_throw_def require_def lift_error_def requireValidSession_def lift_wi_def
    requireAuthorizedRunSummary_def authorized_run_def cached_state_def risk_context_of_def split: sum.splits option.splits if_splits)

lemma keeps_pure [simp]: "keeps view (\<lambda>s. Some (f s, s))" "keeps view (\<lambda>s. lift_error (g s) s)"
  by (auto simp: keeps_def lift_error_def split: sum.splits)

lemma keeps_on_engine:
  "keeps au_journal (on_engine f)" "keeps au_sessions (on_engine f)" "keeps au_outside (on_engine f)" "keeps au_artifacts (on_engine f)"
  by (auto simp: keeps_def on_engine_def)

lemma keeps_on_outside:
  "keeps au_journal (on_outside f)" "keeps au_sessions (on_outside f)" "keeps au_engine (on_outside f)"
  by (auto simp: keeps_def on_outside_def)

lemma keeps_on_journal:
  "keeps au_engine (on_journal g)" "keeps au_outside (on_journal g)" "keeps au_sessions (on_journal g)" "keeps au_mcp (on_journal g)"
  by (auto simp: keeps_def on_journal_def split: sum.splits)

lemma keeps_log:
  "keeps au_engine (log_event now r ty p)" "keeps au_outside (log_event now r ty p)" "keeps au_sessions (log_event now r ty p)"
  unfolding log_event_def by (rule keeps_on_journal)+

lemma keeps_compose: "keeps view m \<Longrightarrow> keeps (\<lambda>s. f (view s)) m"
  by (auto simp: keeps_def)

section \<open>What an effect writes\<close>

text \<open>\<open>logs r P m R\<close>: on a run \<open>r\<close> that exists, \<open>m\<close> appends to the log of \<open>r\<close> events that satisfy \<open>P\<close>, and \<open>R\<close> relates their types
  to the result.\<close>

definition approvals_of :: "string \<Rightarrow> journal \<Rightarrow> stored_approval list" where
  "approvals_of r j = filter (\<lambda>a. ap_run_id a = r) (jr_approvals j)"

text \<open>The approvals of the daemon are about named actions of their run.\<close>

definition approvals_match :: "journal \<Rightarrow> bool" where
  "approvals_match j = (\<forall>a \<in> set (jr_approvals j). run_id (ap_action a) = ap_run_id a \<and> action_id (ap_action a) \<noteq> [])"

definition frame :: "string \<Rightarrow> journal \<Rightarrow> journal \<Rightarrow> bool" where
  \<comment> \<open>the runs, and the approvals of the other runs, stay\<close>
  "frame r j j' =
     (jr_runs j' = jr_runs j \<and> (\<forall>q. q \<noteq> r \<longrightarrow> approvals_of q j' = approvals_of q j) \<and> (approvals_match j \<longrightarrow> approvals_match j'))"

lemma frame_simps [simp]: "frame r j j" "frame r j (j\<lparr>jr_events := es\<rparr>)"
  by (simp_all add: frame_def approvals_of_def approvals_match_def)

lemma frame_trans: "frame r j k \<Longrightarrow> frame r k l \<Longrightarrow> frame r j l"
  by (simp add: frame_def)

lemma frame_run: "frame r j j' \<Longrightarrow> find_run j' q = find_run j q"
  by (simp add: frame_def find_run_def)

definition logs :: "string \<Rightarrow> (journal_event \<Rightarrow> bool) \<Rightarrow> ('w authority, 'a) eff \<Rightarrow> (string list \<Rightarrow> wi_error + 'a \<Rightarrow> bool) \<Rightarrow> bool" where
  "logs r P m R =
     (\<forall>s x s'. m s = Some (x, s') \<longrightarrow> journal_inv (au_journal s) \<longrightarrow> find_run (au_journal s) r \<noteq> None \<longrightarrow>
        journal_inv (au_journal s') \<and> frame r (au_journal s) (au_journal s') \<and>
        (\<exists>es. jr_events (au_journal s') = jr_events (au_journal s) @ es \<and> (\<forall>e \<in> set es. ev_run_id e = r \<and> P e) \<and>
              R (map ev_type es) x))"


lemma logsD:
  assumes "logs r P m R" "m s = Some (x, s')" "journal_inv (au_journal s)" "find_run (au_journal s) r \<noteq> None"
  obtains es where "journal_inv (au_journal s')" "frame r (au_journal s) (au_journal s')"
    "find_run (au_journal s') r \<noteq> None"
    "jr_events (au_journal s') = jr_events (au_journal s) @ es" "\<forall>e \<in> set es. ev_run_id e = r \<and> P e" "R (map ev_type es) x"
  using assms frame_run [of r "au_journal s" "au_journal s'" r] unfolding logs_def by metis

lemma logsI:
  assumes "\<And>s x s'. m s = Some (x, s') \<Longrightarrow> journal_inv (au_journal s) \<Longrightarrow> find_run (au_journal s) r \<noteq> None \<Longrightarrow>
    journal_inv (au_journal s') \<and> frame r (au_journal s) (au_journal s') \<and>
    (\<exists>es. jr_events (au_journal s') = jr_events (au_journal s) @ es \<and> (\<forall>e \<in> set es. ev_run_id e = r \<and> P e) \<and>
      R (map ev_type es) x)"
  shows "logs r P m R"
  using assms unfolding logs_def by blast

lemma logs_weaken: "logs r P m R \<Longrightarrow> (\<And>ts x. R ts x \<Longrightarrow> T ts x) \<Longrightarrow> logs r P m T"
  unfolding logs_def by metis

lemma logs_silent: "keeps au_journal m \<Longrightarrow> logs r P m (\<lambda>ts x. ts = [])"
  unfolding keeps_def logs_def by fastforce

lemma logs_bind:
  assumes m: "logs r P m R" and f: "\<And>x. logs r P (f x) (S x)"
    and err: "\<And>ts e. R ts (Inl e) \<Longrightarrow> T ts (Inl e)"
    and seq: "\<And>ts x us y. R ts (Inr x) \<Longrightarrow> S x us y \<Longrightarrow> T (ts @ us) y"
  shows "logs r P (eff_bind m f) T"
proof (rule logsI)
  fix s y s'
  assume run: "eff_bind m f s = Some (y, s')" and inv: "journal_inv (au_journal s)" "find_run (au_journal s) r \<noteq> None"
  let ?goal = "journal_inv (au_journal s') \<and> frame r (au_journal s) (au_journal s') \<and>
    (\<exists>es. jr_events (au_journal s') = jr_events (au_journal s) @ es \<and> (\<forall>e \<in> set es. ev_run_id e = r \<and> P e) \<and>
      T (map ev_type es) y)"
  from run consider (fail) e where "m s = Some (Inl e, s')" "y = Inl e" | (go) x t where "m s = Some (Inr x, t)" "f x t = Some (y, s')"
    unfolding eff_bind_Some by blast
  then show ?goal
  proof cases
    case fail
    from logsD [OF m fail(1) inv] err show ?thesis unfolding fail(2) by metis
  next
    case go
    obtain es where 1: "journal_inv (au_journal t)" "frame r (au_journal s) (au_journal t)" "find_run (au_journal t) r \<noteq> None"
      "jr_events (au_journal t) = jr_events (au_journal s) @ es" "\<forall>e \<in> set es. ev_run_id e = r \<and> P e" "R (map ev_type es) (Inr x)"
      using logsD [OF m go(1) inv] by metis
    obtain fs where 2: "journal_inv (au_journal s')" "frame r (au_journal t) (au_journal s')"
      "jr_events (au_journal s') = jr_events (au_journal t) @ fs" "\<forall>e \<in> set fs. ev_run_id e = r \<and> P e" "S x (map ev_type fs) y"
      using logsD [OF f go(2) 1(1,3)] by metis
    have "T (map ev_type (es @ fs)) y" using seq [OF 1(6) 2(5)] by simp
    moreover have "jr_events (au_journal s') = jr_events (au_journal s) @ (es @ fs)" using 1(4) 2(3) by simp
    moreover have "\<forall>e \<in> set (es @ fs). ev_run_id e = r \<and> P e" using 1(5) 2(4) by auto
    ultimately show ?thesis using frame_trans [OF 1(2) 2(2)] 2(1) by metis
  qed
qed

lemma logs_return: "logs r P (eff_return x) (\<lambda>ts y. ts = [] \<and> y = Inr x)"
  by (rule logsI) simp

lemma logs_throw: "logs r P (eff_throw e) (\<lambda>ts y. ts = [] \<and> y = Inl e)"
  by (rule logsI) simp

lemma logs_returnI: "T [] (Inr x) \<Longrightarrow> logs r P (eff_return x) T"
  by (rule logs_weaken [OF logs_return]) simp

lemma logs_throwI: "T [] (Inl e) \<Longrightarrow> logs r P (eff_throw e) T"
  by (rule logs_weaken [OF logs_throw]) simp

lemma clone_text_field: "obj_get kvs k = JStr a \<Longrightarrow> obj_get (json_clone_object kvs) k = JStr a"
proof -
  have "map_of kvs k = Some (JStr a) \<Longrightarrow> map_of (json_clone_object kvs) k = Some (JStr a)"
    by (induction kvs) (auto simp: json_clone_object_def split: if_splits)
  then show "obj_get kvs k = JStr a \<Longrightarrow> ?thesis" by (auto simp: obj_get_def split: option.splits)
qed

lemma log_event_known:
  assumes "log_event now r ty payload s = Some (x, s')" "journal_inv (au_journal s)" "find_run (au_journal s) r \<noteq> None"
  obtains e where "x = Inr (ev_sequence e)" "s' = s\<lparr>au_journal := (au_journal s)\<lparr>jr_events := jr_events (au_journal s) @ [e]\<rparr>\<rparr>"
    "journal_inv (au_journal s')" "ev_run_id e = r" "ev_type e = ty" "ev_payload e = json_clone_object payload"
proof -
  obtain e j' where "appendRunEvent now r ty payload (au_journal s) = Inr (ev_sequence e, j')" "journal_inv j'"
    "j' = (au_journal s)\<lparr>jr_events := jr_events (au_journal s) @ [e]\<rparr>" "ev_run_id e = r" "ev_type e = ty" "ev_payload e = json_clone_object payload"
    using appendRunEvent_known [OF assms(2,3)] by blast
  with assms(1) show thesis by (intro that [of e]) (auto simp: log_event_def on_journal_def)
qed

lemma logs_event:
  assumes "\<And>e. ev_run_id e = r \<Longrightarrow> ev_type e = ty \<Longrightarrow> ev_payload e = json_clone_object payload \<Longrightarrow> P e"
  shows "logs r P (log_event now r ty payload) (\<lambda>ts x. ts = [ty] \<and> \<not> isl x)"
proof (rule logsI)
  fix s x s'
  assume "log_event now r ty payload s = Some (x, s')" "journal_inv (au_journal s)" "find_run (au_journal s) r \<noteq> None"
  then obtain e where e: "x = Inr (ev_sequence e)" "s' = s\<lparr>au_journal := (au_journal s)\<lparr>jr_events := jr_events (au_journal s) @ [e]\<rparr>\<rparr>"
    "journal_inv (au_journal s')" "ev_run_id e = r" "ev_type e = ty" "ev_payload e = json_clone_object payload"
    by (rule log_event_known)
  moreover have "P e" using assms e by blast
  ultimately show "journal_inv (au_journal s') \<and> frame r (au_journal s) (au_journal s') \<and>
    (\<exists>es. jr_events (au_journal s') = jr_events (au_journal s) @ es \<and> (\<forall>e \<in> set es. ev_run_id e = r \<and> P e) \<and>
      map ev_type es = [ty] \<and> \<not> isl x)" by auto
qed

lemma logs_about:
  assumes "obj_get payload ''action_id'' = JStr a"
  shows "logs r (about_action a) (log_event now r ty payload) (\<lambda>ts x. ts = [ty] \<and> \<not> isl x)"
  by (rule logs_event) (use clone_text_field [OF assms] in \<open>simp add: about_action_def\<close>)

section \<open>The events of an execution\<close>

definition execution_trace :: "bool \<Rightarrow> string list \<Rightarrow> bool" where
  \<comment> \<open>an execution that was started ends, as its result says\<close>
  "execution_trace ok ts =
     (let z = (if ok then ''execution.completed'' else ''execution.failed'') in
      ts = [''execution.started'', z] \<or> ts = [''execution.started'', ''mcp_hosted_job_enqueued'', z])"

definition governed_trace :: "policy_outcome \<Rightarrow> bool \<Rightarrow> string list \<Rightarrow> bool" where
  \<comment> \<open>a required snapshot comes first; a refusal leaves nothing after it\<close>
  "governed_trace out ok ts =
     ((\<not> ok \<and> ts = []) \<or>
      (let us = (if snapshot_required out then tl ts else ts) in
       (snapshot_required out \<longrightarrow> ts \<noteq> [] \<and> hd ts = ''snapshot.created'') \<and> (execution_trace ok us \<or> \<not> ok \<and> us = [])))"

definition submit_trace :: "policy_outcome \<Rightarrow> bool \<Rightarrow> string list \<Rightarrow> bool" where
  "submit_trace out ok ts =
     (\<exists>us. ts = ''action.normalized'' # ''policy.evaluated'' # us \<and>
        (if po_decision out = Ask then us = (if ok then [''approval.requested''] else [])
         else if permits out then governed_trace out ok us
         else ok \<and> us = []))"

lemma record_completion_log:
  assumes "record_completion env now a r s = (x, s')" "journal_inv (au_journal s)" "find_run (au_journal s) (run_id a) \<noteq> None"
  obtains e r' where "x = Inr r'" "jr_events (au_journal s') = jr_events (au_journal s) @ [e]" "journal_inv (au_journal s')"
    "frame (run_id a) (au_journal s) (au_journal s')" "ev_run_id e = run_id a" "ev_type e = ''execution.completed''"
    "about_action (action_id a) e"
proof -
  obtain stored failed rows where c: "capture_artifacts env a r (au_artifacts s) = (stored, failed, rows)"
    by (cases "capture_artifacts env a r (au_artifacts s)") auto
  have p: "obj_get (completed_payload a r stored failed) ''action_id'' = JStr (action_id a)"
    by (simp add: completed_payload_def obj_get_def Let_def)
  obtain e j' where "appendRunEvent now (run_id a) ''execution.completed'' (completed_payload a r stored failed) (au_journal s) =
      Inr (ev_sequence e, j')" "journal_inv j'" "j' = (au_journal s)\<lparr>jr_events := jr_events (au_journal s) @ [e]\<rparr>"
    "ev_run_id e = run_id a" "ev_type e = ''execution.completed''" "ev_payload e = json_clone_object (completed_payload a r stored failed)"
    using appendRunEvent_known [OF assms(2,3)] by blast
  with assms(1) show thesis
    by (intro that [of _ e]) (auto simp: record_completion_def c about_action_def clone_text_field [OF p])
qed

lemma hosted_log:
  assumes "executeHostedDelegatedMcpAction env now a s = (x, s')" "journal_inv (au_journal s)" "find_run (au_journal s) (run_id a) \<noteq> None"
  obtains es where "jr_events (au_journal s') = jr_events (au_journal s) @ es" "journal_inv (au_journal s')"
    "frame (run_id a) (au_journal s) (au_journal s')" "\<forall>e \<in> set es. ev_run_id e = run_id a \<and> about_action (action_id a) e"
    "map ev_type es \<in> {[], [''mcp_hosted_job_enqueued'']}"
proof (cases "ae_hosted_job env a (au_mcp s) (au_outside s)")
  case (Inl t)
  with assms show thesis by (intro that [of "[]"]) (auto simp: executeHostedDelegatedMcpAction_def)
next
  case (Inr job)
  let ?p = "[(''action_id'', JStr (action_id a)), (''job_id'', JStr (hj_job job)), (''server_profile_id'', JStr (hj_profile job)),
              (''tool_name'', JStr (hj_tool job)), (''max_attempts'', JNum (of_nat (hj_attempts job))), (''next_attempt_at'', JStr (hj_next job))]"
  have p: "obj_get ?p ''action_id'' = JStr (action_id a)" by (simp add: obj_get_def)
  obtain e j' where "appendRunEvent now (run_id a) ''mcp_hosted_job_enqueued'' ?p (au_journal s) = Inr (ev_sequence e, j')" "journal_inv j'"
    "j' = (au_journal s)\<lparr>jr_events := jr_events (au_journal s) @ [e]\<rparr>"
    "ev_run_id e = run_id a" "ev_type e = ''mcp_hosted_job_enqueued''" "ev_payload e = json_clone_object ?p"
    using appendRunEvent_known [OF assms(2,3)] by blast
  with assms(1) Inr show thesis
    by (intro that [of "[e]"]) (auto simp: executeHostedDelegatedMcpAction_def about_action_def clone_text_field [OF p] split: prod.splits)
qed

lemma run_action_log:
  assumes "run_action env clk ctx ad s = (x, s')" "ec_action ctx = a" "journal_inv (au_journal s)" "find_run (au_journal s) (run_id a) \<noteq> None"
  obtains es where "jr_events (au_journal s') = jr_events (au_journal s) @ es" "journal_inv (au_journal s')"
    "frame (run_id a) (au_journal s) (au_journal s')" "\<forall>e \<in> set es. ev_run_id e = run_id a \<and> about_action (action_id a) e"
    "map ev_type es \<in> (if isl x then {[], [''mcp_hosted_job_enqueued'']}
       else {[''execution.completed''], [''mcp_hosted_job_enqueued'', ''execution.completed'']})"
proof -
  let ?m = "case ad of None \<Rightarrow> executeHostedDelegatedMcpAction env (clk 5) a s | Some x \<Rightarrow> run_local ctx x s"
  obtain y t where m: "?m = (y, t)" by (cases ?m)
  have "\<exists>es. jr_events (au_journal t) = jr_events (au_journal s) @ es \<and> journal_inv (au_journal t) \<and>
      frame (run_id a) (au_journal s) (au_journal t) \<and> (\<forall>e \<in> set es. ev_run_id e = run_id a \<and> about_action (action_id a) e) \<and>
      map ev_type es \<in> {[], [''mcp_hosted_job_enqueued'']}"
  proof (cases ad)
    case None
    with m hosted_log [of env "clk 5" a s y t, OF _ assms(3,4)] show ?thesis by fastforce
  next
    case (Some x)
    with m assms(3) show ?thesis by (auto simp: run_local_def split: prod.splits)
  qed
  then obtain es where es: "jr_events (au_journal t) = jr_events (au_journal s) @ es" "journal_inv (au_journal t)"
      "frame (run_id a) (au_journal s) (au_journal t)" "\<forall>e \<in> set es. ev_run_id e = run_id a \<and> about_action (action_id a) e"
      "map ev_type es \<in> {[], [''mcp_hosted_job_enqueued'']}" by metis
  show thesis
  proof (cases "\<exists>r. y = Inr (Some r)")
    case False
    then have "isl x" "s' = t" using assms(1,2) m by (auto simp: run_action_def Let_def split: sum.splits option.splits)
    with es that show thesis by simp
  next
    case True
    then obtain r where "y = Inr (Some r)" by blast
    with assms(1,2) m have rc: "record_completion env (clk 6) a r t = (x, s')" by (simp add: run_action_def Let_def)
    obtain e r' where "x = Inr r'" "jr_events (au_journal s') = jr_events (au_journal t) @ [e]" "journal_inv (au_journal s')"
      "frame (run_id a) (au_journal t) (au_journal s')" "ev_run_id e = run_id a" "ev_type e = ''execution.completed''"
      "about_action (action_id a) e"
      using record_completion_log [OF rc es(2)] assms(4) frame_run [OF es(3)] by metis
    with es show thesis by (intro that [of "es @ [e]"]) (auto intro: frame_trans)
  qed
qed

lemma try_action_logs:
  assumes "ec_action ctx = a"
  shows "logs (run_id a) (about_action (action_id a)) (try_action env clk ctx ad)
    (\<lambda>ts x. ts \<in> (if isl x then {[''execution.failed''], [''mcp_hosted_job_enqueued'', ''execution.failed'']}
       else {[''execution.completed''], [''mcp_hosted_job_enqueued'', ''execution.completed'']}))"
proof (rule logsI)
  fix s x s'
  assume run: "try_action env clk ctx ad s = Some (x, s')" and inv: "journal_inv (au_journal s)" "find_run (au_journal s) (run_id a) \<noteq> None"
  obtain y t where t: "run_action env clk ctx ad s = (y, t)" by (cases "run_action env clk ctx ad s")
  obtain es where es: "jr_events (au_journal t) = jr_events (au_journal s) @ es" "journal_inv (au_journal t)"
    "frame (run_id a) (au_journal s) (au_journal t)" "\<forall>e \<in> set es. ev_run_id e = run_id a \<and> about_action (action_id a) e"
    "map ev_type es \<in> (if isl y then {[], [''mcp_hosted_job_enqueued'']}
       else {[''execution.completed''], [''mcp_hosted_job_enqueued'', ''execution.completed'']})"
    using run_action_log [OF t assms inv] by metis
  show "journal_inv (au_journal s') \<and> frame (run_id a) (au_journal s) (au_journal s') \<and>
    (\<exists>es. jr_events (au_journal s') = jr_events (au_journal s) @ es \<and>
      (\<forall>e \<in> set es. ev_run_id e = run_id a \<and> about_action (action_id a) e) \<and>
      map ev_type es \<in> (if isl x then {[''execution.failed''], [''mcp_hosted_job_enqueued'', ''execution.failed'']}
        else {[''execution.completed''], [''mcp_hosted_job_enqueued'', ''execution.completed'']}))"
  proof (cases y)
    case (Inr r)
    with run t have "x = Inr r" "s' = t" by (auto simp: try_action_def)
    with es Inr show ?thesis by auto
  next
    case (Inl th)
    have p: "obj_get (failed_payload a th) ''action_id'' = JStr (action_id a)" by (simp add: failed_payload_def obj_get_def Let_def)
    have "find_run (au_journal t) (run_id a) \<noteq> None" using inv(2) frame_run [OF es(3)] by metis
    moreover from run t Inl assms obtain z where "log_event (clk 7) (run_id a) ''execution.failed'' (failed_payload a th) t = Some (z, s')"
        and x: "isl x"
      by (auto simp: try_action_def eff_bind_Some)
    ultimately obtain e where e: "s' = t\<lparr>au_journal := (au_journal t)\<lparr>jr_events := jr_events (au_journal t) @ [e]\<rparr>\<rparr>"
      "journal_inv (au_journal s')" "ev_run_id e = run_id a" "ev_type e = ''execution.failed''"
      "ev_payload e = json_clone_object (failed_payload a th)"
      using log_event_known [OF _ es(2)] by metis
    then have "about_action (action_id a) e" by (simp add: about_action_def clone_text_field [OF p])
    with e es Inl x show ?thesis by (intro conjI exI [of _ "es @ [e]"]) (auto intro: frame_trans)
  qed
qed

lemma execute_allowed_logs:
  "logs (run_id a) (about_action (action_id a)) (execute_allowed env clk a out ws snap)
     (\<lambda>ts x. execution_trace (\<not> isl x) ts \<or> isl x \<and> ts = [])"
proof -
  let ?P = "about_action (action_id a)"
  have silent: "logs (run_id a) ?P (verify_target env a snap) (\<lambda>ts x. ts = [])"
    by (rule logs_silent) (auto simp: verify_target_def split: option.split intro!: keeps_bind keeps_on_engine)
  have verify: "logs (run_id a) ?P (verify_adapter ad ctx) (\<lambda>ts x. ts = [])" for ad ctx
    by (rule logs_silent) (auto simp: keeps_def verify_adapter_def split: option.splits prod.splits)
  have none: "logs (run_id a) ?P (ag_throw no_adapter) (\<lambda>ts x. ts = [] \<and> x = Inl (WE_ag no_adapter))"
    unfolding ag_throw_def by (rule logs_throw)
  have started: "logs (run_id a) ?P (log_event (clk 4) (run_id a) ''execution.started'' (started_payload a ad))
      (\<lambda>ts x. ts = [''execution.started''] \<and> \<not> isl x)" for ad :: "'a adapter option"
    by (rule logs_about) (simp add: started_payload_def obj_get_def)
  have tail: "logs (run_id a) ?P (eff_bind (log_event (clk 4) (run_id a) ''execution.started'' (started_payload a ad))
      (\<lambda>_. try_action env clk ctx ad)) (\<lambda>ts x. execution_trace (\<not> isl x) ts)" if "ec_action ctx = a" for ctx ad
    by (rule logs_bind [OF started try_action_logs [OF that]]) (auto simp: execution_trace_def split: if_splits)
  let ?T = "\<lambda>ts x. execution_trace (\<not> isl x) ts \<or> isl x \<and> ts = []"
  have body: "logs (run_id a) ?P (eff_bind (verify_target env a snap) (\<lambda>_. eff_bind (verify_adapter ad ctx) (\<lambda>_.
      eff_bind (log_event (clk 4) (run_id a) ''execution.started'' (started_payload a ad)) (\<lambda>_. try_action env clk ctx ad)))) ?T"
    if "ec_action ctx = a" for ctx ad
  proof -
    have "logs (run_id a) ?P (eff_bind (verify_adapter ad ctx) (\<lambda>_.
        eff_bind (log_event (clk 4) (run_id a) ''execution.started'' (started_payload a ad)) (\<lambda>_. try_action env clk ctx ad))) ?T"
      by (rule logs_bind [OF verify tail [OF that]]) auto
    then show ?thesis by (rule logs_bind [OF silent]) auto
  qed
  show ?thesis
  proof (cases "\<not> hosted_requested a \<and> findAdapter (ae_adapters env) a = None")
    case True
    with logs_weaken [OF none, of ?T] show ?thesis unfolding execute_allowed_def Let_def by simp
  next
    case False
    with body show ?thesis unfolding execute_allowed_def Let_def by (subst if_not_P) auto
  qed
qed

lemma take_governed_snapshot_logs:
  "logs (run_id a) (about_action (action_id a)) (take_governed_snapshot env d clk a out sel ws)
     (\<lambda>ts x. if snapshot_required out \<and> \<not> isl x then ts = [''snapshot.created''] else ts = [])"
proof -
  let ?P = "about_action (action_id a)"
  let ?m = "\<lambda>req. eff_bind (on_engine (createSnapshot (ae_engine env) d req))
      (\<lambda>r. eff_bind (log_event (clk 3) (run_id a) ''snapshot.created'' (snapshot_payload a r sel)) (\<lambda>_. eff_return (Some r)))"
  have ev: "logs (run_id a) ?P (log_event (clk 3) (run_id a) ''snapshot.created'' (snapshot_payload a r sel))
      (\<lambda>ts x. ts = [''snapshot.created''] \<and> \<not> isl x)" for r
    by (rule logs_about) (simp add: snapshot_payload_def obj_get_def)
  have silent: "logs (run_id a) ?P (on_engine f) (\<lambda>ts x. ts = [])" for f :: "(engine, snapshot_record) eff"
    by (rule logs_silent) (rule keeps_on_engine)
  have tail: "logs (run_id a) ?P (eff_bind (log_event (clk 3) (run_id a) ''snapshot.created'' (snapshot_payload a r sel))
      (\<lambda>_. eff_return (Some r))) (\<lambda>ts x. ts = [''snapshot.created''] \<and> \<not> isl x)" for r
    by (rule logs_bind [OF ev logs_return]) auto
  have m: "logs (run_id a) ?P (?m req) (\<lambda>ts x. if \<not> isl x then ts = [''snapshot.created''] else ts = [])" for req
    by (rule logs_bind [OF silent tail]) auto
  have "\<exists>m'. take_governed_snapshot env d clk a out sel ws s = m' s \<and>
      logs (run_id a) ?P m' (\<lambda>ts x. if snapshot_required out \<and> \<not> isl x then ts = [''snapshot.created''] else ts = [])" for s
  proof (cases "snapshot_required out")
    case True
    then obtain req where "take_governed_snapshot env d clk a out sel ws s = ?m req s"
      unfolding take_governed_snapshot_def by (simp add: Let_def)
    with m [of req] True show ?thesis by (intro exI [of _ "?m req"]) simp
  next
    case False
    with logs_return [of "run_id a" ?P None] show ?thesis unfolding take_governed_snapshot_def
      by (auto elim: logs_weaken intro!: exI [of _ "eff_return None"])
  qed
  then show ?thesis unfolding logs_def by metis
qed

lemma executeGovernedAction_logs:
  assumes "permits out"
  shows "logs (run_id a) (about_action (action_id a)) (executeGovernedAction env d clk a out sel roots)
    (\<lambda>ts x. governed_trace out (\<not> isl x) ts)"
proof -
  have tail: "logs (run_id a) (about_action (action_id a))
      (if permits out then eff_bind (execute_allowed env clk a out ws snap) (\<lambda>r. eff_return (Some r, snap)) else eff_return (None, snap))
      (\<lambda>ts x. execution_trace (\<not> isl x) ts \<or> isl x \<and> ts = [])" for ws snap
    using assms by (auto intro!: logs_bind [OF execute_allowed_logs logs_return])
  show ?thesis
    unfolding executeGovernedAction_def Let_def
    by (rule logs_bind [OF take_governed_snapshot_logs tail]) (auto simp: governed_trace_def split: if_splits)
qed

section \<open>The events of a submission\<close>

lemma normalized_run: "normalizeActionAttempt env attempt sess = Inr a \<Longrightarrow> run_id a = ra_run_id attempt"
  by (auto simp: normalizeActionAttempt_def normalizeFilesystemAttempt_def normalizeShellAttempt_def normalizeMcpAttempt_def
      normalizeFunctionAttempt_def map_sum_def Let_def split: if_splits sum.splits option.splits)

lemma hydrated_run: "hydrateMcpAttempt m attempt = Inr h \<Longrightarrow> ra_run_id h = ra_run_id attempt"
  by (auto simp: hydrateMcpAttempt_def Let_def split: if_splits option.splits)

lemma sum_bind_Inr: "sum_bind x f = Inr y \<longleftrightarrow> (\<exists>z. x = Inr z \<and> f z = Inr y)"
  by (auto simp: sum_bind_def split: sum.splits)

lemma getRunSummary_run: "getRunSummary r j = Some su \<Longrightarrow> find_run j r = Some (su_run su)"
  by (auto simp: getRunSummary_def split: option.splits)

lemma authorized_summary_run:
  assumes "authorized_summary q roots r s = Inr su"
  shows "getRunSummary r (au_journal s) = Some su" "find_run (au_journal s) r = Some (su_run su)"
    "roots_overlap (qs_realpath q) (qs_cwd q) (rw_workspace_roots (su_run su)) roots"
  using assms by (auto simp: authorized_summary_def getRunSummary_run split: option.splits if_splits)

lemma prepared:
  assumes "prepareActionAttemptEvaluation env q se attempt s = Inr p"
  obtains su where "run_id (pp_action p) = ra_run_id attempt" "action_id (pp_action p) \<noteq> []" "pp_run p = su" "getRunSummary (ra_run_id attempt) (au_journal s) = Some su"
    "find_run (au_journal s) (ra_run_id attempt) \<noteq> None" "sessionCanAccessRun (qs_realpath q) (qs_cwd q) se su"
proof -
  obtain su h n a cached rc out where
    su: "authorized_summary q (se_roots se) (ra_run_id attempt) s = Inr su"
    and h: "hydrateMcpAttempt (au_mcp s) attempt = Inr h" "normalizeActionAttempt (qs_norm q) h (se_id se) = Inr n"
      "validateActionRecord (ae_dates env) n = Inr a"
    and p: "pp_action p = a" "pp_run p = su"
    using assms by (auto simp: prepareActionAttemptEvaluation_def sum_bind_Inr Let_def)
  have "run_id a = ra_run_id attempt"
    using h normalized_run [OF h(2)] hydrated_run [OF h(1)] by (auto simp: validateActionRecord_def split: if_splits)
  moreover have "action_id a \<noteq> []"
    using h(3) by (auto simp: validateActionRecord_def ActionRecordSchema_def normalized_schema_def split: if_splits)
  ultimately show thesis using p authorized_summary_run [OF su] by (intro that) (auto simp: sessionCanAccessRun_def)
qed

lemma createApprovalRequest_frame:
  "createApprovalRequest i (run_id a) a out sn j = Inr (ap, j') \<Longrightarrow> action_id a \<noteq> [] \<Longrightarrow> frame (run_id a) j j'"
  by (auto simp: createApprovalRequest_def Let_def frame_def approvals_of_def approvals_match_def split: if_splits)

lemma request_approval_logs:
  assumes named: "action_id (pp_action p) \<noteq> []"
  shows "logs (run_id (pp_action p)) (about_action (action_id (pp_action p))) (request_approval q p)
     (\<lambda>ts x. (po_decision (pp_outcome p) \<noteq> Ask \<longrightarrow> \<not> isl x) \<and>
        ts = (if po_decision (pp_outcome p) = Ask \<and> \<not> isl x then [''approval.requested''] else []))"
proof -
  let ?a = "pp_action p"
  let ?P = "about_action (action_id ?a)"
  let ?c = "createApprovalRequest (qs_approval q) (run_id ?a) ?a (pp_outcome p) None"
  have about: "logs (run_id ?a) ?P (eff_bind (log_event (qs_clock q 2) (run_id ?a) ''approval.requested'' (requested_payload ap))
      (\<lambda>_. eff_return (Some ap))) (\<lambda>ts x. ts = [''approval.requested''] \<and> \<not> isl x)" if "ap_action_id ap = action_id ?a" for ap
    by (rule logs_bind [OF logs_about logs_return]) (auto simp: requested_payload_def obj_get_def that)
  show ?thesis
  proof (cases "po_decision (pp_outcome p) = Ask")
    case False
    then show ?thesis by (simp add: request_approval_def Let_def logs_returnI)
  next
    case True
    show ?thesis
    proof (rule logsI)
      fix s x s'
      assume run: "request_approval q p s = Some (x, s')" and inv: "journal_inv (au_journal s)" "find_run (au_journal s) (run_id ?a) \<noteq> None"
      show "journal_inv (au_journal s') \<and> frame (run_id ?a) (au_journal s) (au_journal s') \<and>
        (\<exists>es. jr_events (au_journal s') = jr_events (au_journal s) @ es \<and> (\<forall>e \<in> set es. ev_run_id e = run_id ?a \<and> ?P e) \<and>
          (po_decision (pp_outcome p) \<noteq> Ask \<longrightarrow> \<not> isl x) \<and>
          map ev_type es = (if po_decision (pp_outcome p) = Ask \<and> \<not> isl x then [''approval.requested''] else []))"
      proof (cases "?c (au_journal s)")
        case (Inl e)
        with run True have "isl x" "s' = s" by (auto simp: request_approval_def Let_def eff_bind_def on_journal_def)
        with inv True show ?thesis by auto
      next
        case (Inr r)
        obtain ap j where r: "?c (au_journal s) = Inr (ap, j)" using Inr by (cases r) auto
        let ?t = "s\<lparr>au_journal := j\<rparr>"
        have ap: "ap_action_id ap = action_id ?a" using r by (auto simp: createApprovalRequest_def Let_def split: if_splits)
        have go: "eff_bind (log_event (qs_clock q 2) (run_id ?a) ''approval.requested'' (requested_payload ap))
            (\<lambda>_. eff_return (Some ap)) ?t = Some (x, s')"
          using run True r by (auto simp: request_approval_def Let_def eff_bind_def on_journal_def)
        have inv': "journal_inv (au_journal ?t)" "find_run (au_journal ?t) (run_id ?a) \<noteq> None"
          using inv createApprovalRequest_inv [OF inv(1) r] frame_run [OF createApprovalRequest_frame [OF r named]] by simp_all
        obtain es where "journal_inv (au_journal s')" "frame (run_id ?a) j (au_journal s')"
          "jr_events (au_journal s') = jr_events j @ es" "\<forall>e \<in> set es. ev_run_id e = run_id ?a \<and> ?P e"
          "map ev_type es = [''approval.requested'']" "\<not> isl x"
          by (rule logsD [OF about [OF ap] go inv']) simp
        with True show ?thesis using createApprovalRequest_events [OF r] createApprovalRequest_frame [OF r named] by (auto intro: frame_trans)
      qed
    qed
  qed
qed

lemma log_decision_logs:
  assumes "action_id (pp_action p) \<noteq> []"
  shows "logs (run_id (pp_action p)) (about_action (action_id (pp_action p))) (log_decision q p)
     (\<lambda>ts x. (po_decision (pp_outcome p) \<noteq> Ask \<longrightarrow> \<not> isl x) \<and> ts = [''action.normalized'', ''policy.evaluated''] @
        (if po_decision (pp_outcome p) = Ask \<and> \<not> isl x then [''approval.requested''] else []))"
proof -
  let ?a = "pp_action p"
  let ?P = "about_action (action_id ?a)"
  have n: "logs (run_id ?a) ?P (log_event (qs_clock q 0) (run_id ?a) ''action.normalized'' (normalized_payload ?a))
      (\<lambda>ts x. ts = [''action.normalized''] \<and> \<not> isl x)"
    by (rule logs_about) (simp add: normalized_payload_def obj_get_def Let_def)
  have e: "logs (run_id ?a) ?P (log_event (qs_clock q 1) (run_id ?a) ''policy.evaluated'' (evaluated_payload p))
      (\<lambda>ts x. ts = [''policy.evaluated''] \<and> \<not> isl x)"
    by (rule logs_about) (simp add: evaluated_payload_def obj_get_def Let_def)
  have "logs (run_id ?a) ?P (eff_bind (log_event (qs_clock q 1) (run_id ?a) ''policy.evaluated'' (evaluated_payload p))
      (\<lambda>_. request_approval q p))
      (\<lambda>ts x. (po_decision (pp_outcome p) \<noteq> Ask \<longrightarrow> \<not> isl x) \<and> ts = [''policy.evaluated''] @
        (if po_decision (pp_outcome p) = Ask \<and> \<not> isl x then [''approval.requested''] else []))"
    by (rule logs_bind [OF e request_approval_logs [OF assms]]) (auto split: if_splits)
  then show ?thesis unfolding log_decision_def Let_def by (rule logs_bind [OF n]) (auto split: if_splits)
qed

lemma act_on_decision_logs:
  "logs (run_id (pp_action p)) (about_action (action_id (pp_action p))) (act_on_decision env q p)
     (\<lambda>ts x. if permits (pp_outcome p) then governed_trace (pp_outcome p) (\<not> isl x) ts else ts = [] \<and> \<not> isl x)"
proof (cases "permits (pp_outcome p)")
  case True
  with executeGovernedAction_logs [OF True] show ?thesis by (simp add: act_on_decision_def)
next
  case False
  then show ?thesis by (simp add: act_on_decision_def logs_returnI)
qed

lemma submit_logs:
  assumes "action_id (pp_action p) \<noteq> []"
  shows "logs (run_id (pp_action p)) (about_action (action_id (pp_action p)))
     (eff_bind (log_decision q p) (\<lambda>ap. eff_bind (act_on_decision env q p) (\<lambda>(r, snap). eff_return (f ap r snap))))
     (\<lambda>ts x. submit_trace (pp_outcome p) (\<not> isl x) ts)"
proof -
  let ?out = "pp_outcome p"
  have "logs (run_id (pp_action p)) (about_action (action_id (pp_action p)))
      (eff_bind (act_on_decision env q p) (\<lambda>(r, snap). eff_return (f ap r snap)))
      (\<lambda>ts x. if permits ?out then governed_trace ?out (\<not> isl x) ts else ts = [] \<and> \<not> isl x)" for ap
    by (rule logs_bind [OF act_on_decision_logs, where S = "\<lambda>x ts y. ts = [] \<and> \<not> isl y"])
      (auto split: prod.split if_splits intro: logs_returnI)
  then show ?thesis
    by (rule logs_bind [OF log_decision_logs [OF assms]]) (auto simp: submit_trace_def permits_def split: if_splits)
qed


section \<open>Logs in which every execution ends\<close>

fun closed_log :: "journal_event list \<Rightarrow> bool" where
  "closed_log [] = True"
| "closed_log (e # es) =
     ((ev_type e = ''execution.started'' \<longrightarrow>
        (\<exists>a. a \<noteq> [] \<and> about_action a e \<and>
           (\<exists>x \<in> set es. ev_type x \<in> {''execution.completed'', ''execution.failed''} \<and> about_action a x))) \<and>
      closed_log es)"

fun closed_types :: "string list \<Rightarrow> bool" where
  "closed_types [] = True"
| "closed_types (t # ts) =
     ((t = ''execution.started'' \<longrightarrow> (\<exists>u \<in> set ts. u \<in> {''execution.completed'', ''execution.failed''})) \<and> closed_types ts)"

lemma closed_log_append: "closed_log xs \<Longrightarrow> closed_log ys \<Longrightarrow> closed_log (xs @ ys)"
  by (induction xs) auto

lemma closed_by_types: "a \<noteq> [] \<Longrightarrow> \<forall>e \<in> set es. about_action a e \<Longrightarrow> closed_types (map ev_type es) \<Longrightarrow> closed_log es"
proof (induction es)
  case (Cons e es)
  then show ?case by (auto simp: about_action_def)
qed simp

lemma closed_without_start: "''execution.started'' \<notin> ev_type ` set es \<Longrightarrow> closed_log es"
  by (induction es) auto

lemma closed_types_append: "closed_types ts \<Longrightarrow> closed_types us \<Longrightarrow> closed_types (ts @ us)"
  by (induction ts) auto

lemma execution_closed: "execution_trace ok ts \<Longrightarrow> closed_types ts"
  by (auto simp: execution_trace_def Let_def split: if_splits)

lemma governed_closed:
  assumes "governed_trace out ok ts"
  shows "closed_types ts"
proof -
  let ?us = "if snapshot_required out then tl ts else ts"
  from assms consider (nil) "ts = []"
    | (go) "snapshot_required out \<Longrightarrow> ts \<noteq> [] \<and> hd ts = ''snapshot.created''" "execution_trace ok ?us \<or> ?us = []"
    unfolding governed_trace_def Let_def by blast
  then show ?thesis
  proof cases
    case go
    then have us: "closed_types ?us" using execution_closed [of ok ?us] by (cases "?us = []") auto
    show ?thesis
    proof (cases "snapshot_required out")
      case True
      with go(1) have "ts = ''snapshot.created'' # tl ts" by (cases ts) simp_all
      moreover have "closed_types (''snapshot.created'' # tl ts)" using us True by simp
      ultimately show ?thesis by simp
    qed (use us in simp)
  qed simp
qed

lemma submit_closed: "submit_trace out ok ts \<Longrightarrow> closed_types ts"
  by (auto simp: submit_trace_def split: if_splits dest: governed_closed)

section \<open>What a request writes\<close>

definition can_access :: "request_stamps \<Rightarrow> string option \<Rightarrow> 'w authority \<Rightarrow> string \<Rightarrow> bool" where
  \<comment> \<open>the session of the request shares a root with the run\<close>
  "can_access q sid s r =
     (case (getSession sid s, getRunSummary r (au_journal s)) of
        (Some se, Some su) \<Rightarrow> sessionCanAccessRun (qs_realpath q) (qs_cwd q) se su
      | _ \<Rightarrow> False)"

definition writes_to :: "string \<Rightarrow> journal \<Rightarrow> journal \<Rightarrow> bool" where
  "writes_to r j j' =
     (journal_inv j' \<and> frame r j j' \<and> (\<exists>es. jr_events j' = jr_events j @ es \<and> (\<forall>e \<in> set es. ev_run_id e = r) \<and> closed_log es))"

definition handled :: "request_stamps \<Rightarrow> string option \<Rightarrow> 'w authority \<Rightarrow> 'w authority \<Rightarrow> bool" where
  "handled q sid s s' = (au_journal s' = au_journal s \<or> (\<exists>r. can_access q sid s r \<and> writes_to r (au_journal s) (au_journal s')))"

lemma logs_writes:
  assumes "logs r P m R" "m s = Some (x, s')" "journal_inv (au_journal s)" "find_run (au_journal s) r \<noteq> None"
    and "\<And>es. \<forall>e \<in> set es. ev_run_id e = r \<and> P e \<Longrightarrow> R (map ev_type es) x \<Longrightarrow> closed_log es"
  shows "writes_to r (au_journal s) (au_journal s')"
proof -
  obtain es where "journal_inv (au_journal s')" "frame r (au_journal s) (au_journal s')"
    "jr_events (au_journal s') = jr_events (au_journal s) @ es" "\<forall>e \<in> set es. ev_run_id e = r \<and> P e" "R (map ev_type es) x"
    by (rule logsD [OF assms(1-4)])
  then show ?thesis unfolding writes_to_def using assms(5) by blast
qed

lemma requireValidSession_Some:
  "requireValidSession method sid s = Some (x, s') \<longleftrightarrow> s' = s \<and> (\<forall>se. x = Inr se \<longrightarrow> getSession sid s = Some se) \<and>
     (getSession sid s = None \<longrightarrow> x = Inl (WE_ag (PreconditionError (''A valid session_id is required before '' @ method @ ''.'')))) \<and>
     (\<forall>se. getSession sid s = Some se \<longrightarrow> x = Inr se)"
  by (auto simp: requireValidSession_def ag_throw_def split: option.split)

lemma authorized_run_Inr:
  "authorized_run q se r s = Some (Inr su, s') \<longleftrightarrow>
     s' = s \<and> getRunSummary r (au_journal s) = Some su \<and> sessionCanAccessRun (qs_realpath q) (qs_cwd q) se su"
  by (auto simp: authorized_run_def requireAuthorizedRunSummary_def ag_throw_def split: option.splits if_splits)

lemma read_Some: "keeps (\<lambda>s. s) m \<Longrightarrow> m s = Some (x, s') \<Longrightarrow> s' = s"
  using keepsD by metis

lemma authorized_handled:
  assumes "eff_bind (authorized_run q se r) f s = Some (x, s')" "getSession sid s = Some se" "journal_inv (au_journal s)"
    and "\<And>su s'. f su s = Some (x, s') \<Longrightarrow> find_run (au_journal s) r \<noteq> None \<Longrightarrow> writes_to r (au_journal s) (au_journal s')"
  shows "handled q sid s s'"
proof -
  from assms(1) consider (fail) e where "authorized_run q se r s = Some (Inl e, s')"
    | (go) su t where "authorized_run q se r s = Some (Inr su, t)" "f su t = Some (x, s')"
    unfolding eff_bind_Some by blast
  then show ?thesis
  proof cases
    case fail
    then have "s' = s" by (rule read_Some [rotated]) simp
    then show ?thesis by (simp add: handled_def)
  next
    case go
    then have su: "t = s" "getRunSummary r (au_journal s) = Some su" "sessionCanAccessRun (qs_realpath q) (qs_cwd q) se su"
      by (simp_all add: authorized_run_Inr)
    then have "can_access q sid s r" using assms(2) by (simp add: can_access_def)
    then show ?thesis using assms(4) go(2) su(1) getRunSummary_run [OF su(2)] unfolding handled_def by auto
  qed
qed

lemma submit_handled:
  assumes "handleSubmitActionAttempt env q sid attempt s = Some (x, s')" "journal_inv (au_journal s)"
  shows "handled q sid s s'"
proof (cases "\<exists>se p. RawActionAttemptSchema (ae_dates env) attempt \<and> getSession sid s = Some se \<and>
    prepareActionAttemptEvaluation env q se attempt s = Inr p")
  case False
  with assms(1) have "s' = s"
    by (auto simp: handleSubmitActionAttempt_def ag_throw_def split: if_splits option.splits sum.splits)
  then show ?thesis by (simp add: handled_def)
next
  case True
  then obtain se p where p: "getSession sid s = Some se" "prepareActionAttemptEvaluation env q se attempt s = Inr p"
    and raw: "RawActionAttemptSchema (ae_dates env) attempt" by blast
  obtain su where su: "run_id (pp_action p) = ra_run_id attempt" and named: "action_id (pp_action p) \<noteq> []"
    and acc: "getRunSummary (ra_run_id attempt) (au_journal s) = Some su"
    "find_run (au_journal s) (ra_run_id attempt) \<noteq> None" "sessionCanAccessRun (qs_realpath q) (qs_cwd q) se su"
    by (rule prepared [OF p(2)])
  let ?f = "\<lambda>ap r snap. \<lparr>sm_action = pp_action p, sm_outcome = pp_outcome p, sm_execution = r, sm_snapshot = snap, sm_approval = ap\<rparr>"
  have run: "eff_bind (log_decision q p) (\<lambda>ap. eff_bind (act_on_decision env q p) (\<lambda>(r, snap). eff_return (?f ap r snap))) s = Some (x, s')"
    using assms(1) p raw by (simp add: handleSubmitActionAttempt_def)
  have "writes_to (run_id (pp_action p)) (au_journal s) (au_journal s')"
  proof (rule logs_writes [OF submit_logs [OF named] run assms(2)])
    show "find_run (au_journal s) (run_id (pp_action p)) \<noteq> None" using su acc by simp
  qed (metis submit_closed closed_by_types [OF named])
  moreover have "can_access q sid s (run_id (pp_action p))" using p(1) su acc by (simp add: can_access_def)
  ultimately show ?thesis unfolding handled_def by blast
qed

lemma eff_bind_keeps_state:
  assumes "eff_bind m f s = Some (x, s')" "keeps (\<lambda>s. s) m"
  shows "s' = s \<or> (\<exists>y. m s = Some (Inr y, s) \<and> f y s = Some (x, s'))"
  using assms(1) read_Some [OF assms(2)] unfolding eff_bind_Some by metis

lemma handled_refl [simp]: "handled q sid s s"
  by (simp add: handled_def)

lemma session_handled:
  assumes "eff_bind (requireValidSession method sid) f s = Some (x, s')"
    and "\<And>se. getSession sid s = Some se \<Longrightarrow> f se s = Some (x, s') \<Longrightarrow> handled q sid s s'"
  shows "handled q sid s s'"
  using eff_bind_keeps_state [OF assms(1)] assms(2) by (auto simp: requireValidSession_Some)

lemma read_handled:
  assumes "eff_bind m f s = Some (x, s')" "keeps (\<lambda>s. s) m" "\<And>y. m s = Some (Inr y, s) \<Longrightarrow> f y s = Some (x, s') \<Longrightarrow> handled q sid s s'"
  shows "handled q sid s s'"
  using eff_bind_keeps_state [OF assms(1,2)] assms(3) by auto

lemma take_checkpoint_logs:
  "logs (kq_run p) (\<lambda>e. True) (take_checkpoint env q p kind rt a sel)
     (\<lambda>ts x. ts \<in> (if isl x then {[]} else {[''snapshot.created'', ''checkpoint.created'']}))"
proof -
  let ?r = "kq_run p"
  have made: "logs ?r (\<lambda>e. True) (eff_bind (log_event (qs_clock q 1) ?r ''checkpoint.created'' pay) (\<lambda>_. eff_return y))
      (\<lambda>ts x. ts = [''checkpoint.created''] \<and> \<not> isl x)" for pay and y :: checkpoint_result
    by (rule logs_bind [OF logs_event logs_return]) auto
  have "logs ?r (\<lambda>e. True) (eff_bind (log_event (qs_clock q 0) ?r ''snapshot.created'' (checkpoint_snapshot_payload a r sel kind (kq_reason p))) (\<lambda>n.
     (let tok = checkpoint_token ?r n in
      eff_bind (log_event (qs_clock q 1) ?r ''checkpoint.created'' (checkpoint_created_payload a tok r kind (kq_reason p))) (\<lambda>_.
      eff_return \<lparr>kr_checkpoint = tok, kr_run = ?r, kr_sequence = n, kr_kind = kind, kr_snapshot = r, kr_selection = sel\<rparr>))))
     (\<lambda>ts x. ts = [''snapshot.created'', ''checkpoint.created''] \<and> \<not> isl x)" for r
    unfolding Let_def by (rule logs_bind [OF logs_event made]) auto
  then show ?thesis unfolding take_checkpoint_def by (rule logs_bind [OF logs_silent [OF keeps_on_engine(1)]]) auto
qed

lemma checkpoint_handled:
  assumes "handleCreateRunCheckpoint env q i sid p s = Some (x, s')" "journal_inv (au_journal s)"
  shows "handled q sid s s'"
proof -
  let ?r = "kq_run p"
  let ?rest = "\<lambda>se su. case checkpoint_root p su of
          None \<Rightarrow> ag_throw (PreconditionError ''Checkpoint workspace root is not registered on this run.'')
        | Some rt \<Rightarrow>
            (let kind = dflt KP_branch_point (kq_kind p) in
             eff_bind (\<lambda>s. Some (buildSyntheticCheckpointAction (ae_dates env) i (qs_now_text q) ?r (se_id se) rt kind
                                (kq_reason p), s)) (\<lambda>a.
             eff_bind (cached_state env q) (\<lambda>cached.
             eff_bind (risk_context_of env ?r None) (\<lambda>rc.
             eff_bind (get_state au_journal) (\<lambda>j.
             take_checkpoint env q p kind rt a (checkpoint_selection a kind cached su j rc))))))"
  let ?R = "\<lambda>ts x. ''execution.started'' \<notin> set ts"
  have take: "logs ?r (\<lambda>e. True) (take_checkpoint env q p kind rt a sel) ?R" for kind rt a sel
    by (rule logs_weaken [OF take_checkpoint_logs]) (auto split: if_splits)
  have rest: "logs ?r (\<lambda>e. True) (?rest se su) ?R" for se su
  proof (cases "checkpoint_root p su")
    case None
    then show ?thesis by (simp add: ag_throw_def logs_throwI)
  next
    case (Some rt)
    show ?thesis unfolding Some option.case Let_def
      by (rule logs_bind [OF logs_silent logs_bind [OF logs_silent logs_bind [OF logs_silent logs_bind [OF logs_silent take]]]]) auto
  qed
  have main: "handled q sid s s'" if "getSession sid s = Some se" "eff_bind (authorized_run q se ?r) (?rest se) s = Some (x, s')" for se
  proof (rule authorized_handled [OF that(2,1) assms(2)])
    fix su t assume "?rest se su s = Some (x, t)" "find_run (au_journal s) ?r \<noteq> None"
    then show "writes_to ?r (au_journal s) (au_journal t)"
      by (rule logs_writes [OF rest _ assms(2)]) (rule closed_without_start, auto)
  qed
  from assms(1) [unfolded handleCreateRunCheckpoint_def] show ?thesis
  proof (rule read_handled)
    assume "eff_bind (requireValidSession ''create_run_checkpoint'' sid) (\<lambda>se. eff_bind (authorized_run q se ?r) (?rest se)) s = Some (x, s')"
    then show ?thesis by (rule session_handled) (rule main)
  qed simp
qed

lemma resolveApproval_frame:
  assumes "resolveApproval t i res note j = Inr (ap, j')" "journal_inv j" "getStoredApproval i j = Some st"
  shows "frame (ap_run_id st) j j'" "ap_run_id ap = ap_run_id st" "ap_action ap = ap_action st" "jr_events j' = jr_events j"
proof -
  have st: "st \<in> set (jr_approvals j)" "ap_id st = i"
    using assms(3) by (auto simp: getStoredApproval_def find_approval_def find_Some_iff)
  have same: "a \<in> set (jr_approvals j) \<Longrightarrow> ap_id a = i \<Longrightarrow> a = st" for a
    using assms(2) st by (auto simp: journal_inv_def distinct_map dest: inj_onD)
  define f where "f = (\<lambda>a :: stored_approval. if ap_id a = i then a\<lparr>ap_status := (if res = RV_approved then AP_approved else AP_denied),
      ap_resolved_at := Some t, ap_resolution_note := note\<rparr> else a)"
  have "filter (\<lambda>a. ap_run_id a = q) (map f as) = filter (\<lambda>a. ap_run_id a = q) as"
    if "q \<noteq> ap_run_id st" "set as \<subseteq> set (jr_approvals j)" for q as
    using that(2) by (induction as) (use that(1) same in \<open>auto simp: f_def\<close>)
  moreover have "jr_approvals j' = jr_approvals j \<or> jr_approvals j' = map f (jr_approvals j)"
    and "jr_runs j' = jr_runs j" "jr_events j' = jr_events j" and "ap_run_id ap = ap_run_id st" "ap_action ap = ap_action st"
    using assms(1,3) by (auto simp: resolveApproval_def Let_def f_def split: if_splits)
  ultimately show "frame (ap_run_id st) j j'" "ap_run_id ap = ap_run_id st" "ap_action ap = ap_action st" "jr_events j' = jr_events j"
    by (auto simp: frame_def approvals_of_def approvals_match_def f_def)
qed

lemma run_approved_logs:
  assumes "run_id (ap_action st) = ap_run_id st"
  shows "logs (ap_run_id st) (about_action (action_id (ap_action st))) (run_approved env q st)
    (\<lambda>ts x. governed_trace (approved_outcome (ap_policy_outcome st)) (\<not> isl x) ts)"
proof -
  let ?out = "approved_outcome (ap_policy_outcome st)" and ?P = "about_action (action_id (ap_action st))"
  let ?R = "\<lambda>ts x. governed_trace ?out (\<not> isl x) ts"
  have "permits ?out" by (simp add: permits_def approved_outcome_def)
  note run = executeGovernedAction_logs [OF this, of "ap_action st", unfolded assms]
  have nil: "governed_trace ?out False []" by (simp add: governed_trace_def)
  have k: "keeps au_journal (if b then eff_bind (risk_context_of env r ex) (\<lambda>rc. eff_bind (get_state au_journal) (\<lambda>j. eff_return (g rc j)))
      else eff_return None)" for b r ex g by (auto intro!: keeps_bind)
  show ?thesis unfolding run_approved_def Let_def
    by (rule logs_bind [OF logs_silent logs_bind [OF logs_silent logs_bind [OF logs_silent [OF k] run]]]) (use nil in auto)
qed

lemma resolve_handled:
  assumes "handleResolveApproval env q sid p s = Some (x, s')" "journal_inv (au_journal s)" "approvals_match (au_journal s)"
  shows "handled q sid s s'"
proof -
  let ?rest = "\<lambda>st (su :: run_summary). eff_bind (on_journal (resolveApproval (qs_now_text q) (vq_approval p) (vq_resolution p) (vq_note p))) (\<lambda>ap.
     eff_bind (log_event (qs_clock q 8) (ap_run_id st) ''approval.resolved'' (resolved_payload ap)) (\<lambda>_.
       if ap_status ap \<noteq> AP_approved then
         eff_return \<lparr>vr_approval = ap, vr_execution = None, vr_snapshot = ap_snapshot_record st\<rparr>
       else eff_bind (run_approved env q st) (\<lambda>(r, snap).
         eff_return \<lparr>vr_approval = ap, vr_execution = r, vr_snapshot = snap\<rparr>)))"
  have main: "handled q sid s s'" if se: "getSession sid s = Some se" and st: "getStoredApproval (vq_approval p) (au_journal s) = Some st"
      and run: "eff_bind (authorized_run q se (ap_run_id st)) (?rest st) s = Some (x, s')" for se st
  proof (rule authorized_handled [OF run se assms(2)])
    fix su t assume go: "?rest st su s = Some (x, t)" and find: "find_run (au_journal s) (ap_run_id st) \<noteq> None"
    let ?g = "resolveApproval (qs_now_text q) (vq_approval p) (vq_resolution p) (vq_note p)"
    have "st \<in> set (jr_approvals (au_journal s))" using st by (auto simp: getStoredApproval_def find_approval_def find_Some_iff)
    then have st': "run_id (ap_action st) = ap_run_id st" "action_id (ap_action st) \<noteq> []" using assms(3) by (simp_all add: approvals_match_def)
    note after = run_approved_logs [OF st'(1), where env = env and q = q]
    show "writes_to (ap_run_id st) (au_journal s) (au_journal t)"
    proof (cases "?g (au_journal s)")
      case (Inl e)
      with st show ?thesis by (auto simp: resolveApproval_def split: if_splits)
    next
      case (Inr z)
      obtain ap j where r: "?g (au_journal s) = Inr (ap, j)" using Inr by (cases z) auto
      note f = resolveApproval_frame [OF r assms(2) st] and inv' = resolveApproval_inv [OF assms(2) r]
      let ?tail = "\<lambda>_ :: nat. if ap_status ap \<noteq> AP_approved then
         eff_return \<lparr>vr_approval = ap, vr_execution = None, vr_snapshot = ap_snapshot_record st\<rparr>
       else eff_bind (run_approved env q st) (\<lambda>(r, snap).
         eff_return \<lparr>vr_approval = ap, vr_execution = r, vr_snapshot = snap\<rparr>)"
      have about: "about_action (action_id (ap_action st)) e" if "ev_payload e = json_clone_object (resolved_payload ap)" for e
      proof -
        have "ap_action_id ap = action_id (ap_action st)"
          using r st assms(2) \<open>st \<in> _\<close> by (auto simp: journal_inv_def approval_ok_def resolveApproval_def Let_def split: if_splits)
        then have "obj_get (resolved_payload ap) ''action_id'' = JStr (action_id (ap_action st))"
          by (simp add: resolved_payload_def obj_get_def)
        from clone_text_field [OF this] that show ?thesis by (simp add: about_action_def)
      qed
      have "logs (ap_run_id st) (about_action (action_id (ap_action st))) (eff_bind (run_approved env q st) (\<lambda>(r, snap).
          eff_return \<lparr>vr_approval = ap, vr_execution = r, vr_snapshot = snap\<rparr>)) (\<lambda>ts y. closed_types ts)"
        by (rule logs_bind [OF after, where S = "\<lambda>_ ts _. ts = []"])
          (auto intro: logs_returnI governed_closed split: prod.split)
      then have tail: "logs (ap_run_id st) (about_action (action_id (ap_action st))) (?tail n) (\<lambda>ts y. closed_types ts)" for n
        by (auto intro: logs_returnI)
      have "logs (ap_run_id st) (about_action (action_id (ap_action st)))
          (eff_bind (log_event (qs_clock q 8) (ap_run_id st) ''approval.resolved'' (resolved_payload ap)) ?tail) (\<lambda>ts y. closed_types ts)"
        by (rule logs_bind [OF logs_event tail]) (auto simp: about)
      moreover have "eff_bind (log_event (qs_clock q 8) (ap_run_id st) ''approval.resolved'' (resolved_payload ap)) ?tail (s\<lparr>au_journal := j\<rparr>) =
          Some (x, t)"
        using go r by (simp add: eff_bind_def [of "on_journal _"] on_journal_def)
      moreover have "journal_inv (au_journal (s\<lparr>au_journal := j\<rparr>))" "find_run (au_journal (s\<lparr>au_journal := j\<rparr>)) (ap_run_id st) \<noteq> None"
        using inv' find frame_run [OF f(1)] by simp_all
      ultimately have "writes_to (ap_run_id st) (au_journal (s\<lparr>au_journal := j\<rparr>)) (au_journal t)"
        by (rule logs_writes) (metis closed_by_types [OF st'(2)])
      then show ?thesis using f by (auto simp: writes_to_def intro: frame_trans)
    qed
  qed
  from assms(1) [unfolded handleResolveApproval_def] show ?thesis
  proof (rule session_handled)
    fix se assume se: "getSession sid s = Some se"
      and run: "eff_bind (require (vq_approval p \<noteq> [] \<and> text_opt_ok (vq_note p)) invalid_payload) (\<lambda>_.
        eff_bind (\<lambda>s. lift_error (case getStoredApproval (vq_approval p) (au_journal s) of
          None \<Rightarrow> Inl (NotFoundError (''No approval found for '' @ vq_approval p @ ''.'')) | Some st \<Rightarrow> Inr st) s) (\<lambda>st.
        eff_bind (authorized_run q se (ap_run_id st)) (?rest st))) s = Some (x, s')"
    from run show ?thesis
    proof (rule read_handled)
      assume "eff_bind (\<lambda>s. lift_error (case getStoredApproval (vq_approval p) (au_journal s) of
          None \<Rightarrow> Inl (NotFoundError (''No approval found for '' @ vq_approval p @ ''.'')) | Some st \<Rightarrow> Inr st) s) (\<lambda>st.
        eff_bind (authorized_run q se (ap_run_id st)) (?rest st)) s = Some (x, s')"
      then show ?thesis
        by (rule read_handled, simp only: keeps_pure) (auto simp: lift_error_def split: option.splits intro: main [OF se])
    qed simp
  qed
qed

section \<open>Recoveries\<close>

lemma authority_port_sel [simp]:
  "sp_manifest (authority_port env d) i = on_engine (sp_manifest (engine_port (ae_engine env) d) i)"
  "sp_preview (authority_port env d) i = on_engine (sp_preview (engine_port (ae_engine env) d) i)"
  "sp_preview_subset (authority_port env d) i ps = on_engine (sp_preview_subset (engine_port (ae_engine env) d) i ps)"
  "sp_verify (authority_port env d) i = on_engine (sp_verify (engine_port (ae_engine env) d) i)"
  "sp_restore (authority_port env d) i = on_engine (sp_restore (engine_port (ae_engine env) d) i)"
  "sp_restore_subset (authority_port env d) i ps = on_engine (sp_restore_subset (engine_port (ae_engine env) d) i ps)"
  by (simp_all add: authority_port_def Let_def)

interpretation authority_reader: snapshot_reader "authority_port env d" au_journal for env :: "'w authority_env" and d
  by unfold_locales (simp_all add: keeps_on_engine)

lemma find_focus_reads: "keeps au_journal (find_focus (authority_port env d) t)"
  by (cases t) (auto intro!: keeps_bind authority_reader.load_reads)

lemma plan_for_reads: "keeps au_journal (plan_for env q strategies cached t f)"
  unfolding plan_for_def Let_def
  by (auto intro!: keeps_bind authority_reader.plan_reads authority_reader.subset_plan_reads split: recovery_target.split option.split)

lemma compensation_reads: "keeps au_journal (run_compensation (Some (map authority_strategy strategies)) now pl b pv ok)"
proof -
  have "c \<in> set (map authority_strategy strategies) \<Longrightarrow> keeps au_journal (cp_execute c b pv ok)" for c
    by (auto simp: authority_strategy_def keeps_on_outside)
  then have "keeps au_journal (cp_execute c b pv ok)"
    if "resolve_compensation (Some (map authority_strategy strategies)) b = Some c" for c
    using that by (auto simp: resolve_compensation_def find_Some_iff dest: nth_mem)
  then show ?thesis unfolding run_compensation_def by (auto intro!: keeps_bind split: option.split)
qed

lemma run_restore_reads: "keeps au_journal f \<Longrightarrow> keeps au_journal (run_restore now pl m f)"
  unfolding run_restore_def by (auto intro!: keeps_bind)

lemma execute_snapshot_reads:
  "keeps au_journal (executeSnapshotRecovery (authority_port env d) (Some (map authority_strategy strategies)) cached st now i)"
  unfolding executeSnapshotRecovery_def
  by (auto intro!: keeps_bind authority_reader.plan_reads authority_reader.load_reads compensation_reads run_restore_reads keeps_on_engine)

lemma execute_subset_reads: "keeps au_journal (executePathSubsetRecovery (authority_port env d) cached st now i ps)"
  unfolding executePathSubsetRecovery_def
  by (auto intro!: keeps_bind authority_reader.subset_plan_reads run_restore_reads keeps_on_engine)

lemma recover_for_reads: "keeps au_journal (recover_for env q strategies cached t f)"
  unfolding recover_for_def Let_def
  by (auto intro!: keeps_bind authority_reader.load_reads execute_snapshot_reads execute_subset_reads
      split: recovery_target.split option.split)

text \<open>What opening a recovery gives: a boundary of a run that the session may access.\<close>

lemma bind_read_Inr:
  assumes "eff_bind m f s = Some (Inr y, s')" "keeps (\<lambda>s. s) m"
  obtains z where "m s = Some (Inr z, s)" "f z s = Some (Inr y, s')"
  using assms(1) read_Some [OF assms(2)] unfolding eff_bind_Some by blast

lemma open_recovery_Some:
  assumes "open_recovery env q method sid p s = Some (x, t)"
  shows "au_journal t = au_journal s" "x = Inr (cached, f) \<Longrightarrow> can_access q sid s (fo_run f) \<and> find_run (au_journal s) (fo_run f) \<noteq> None"
proof -
  have k: "keeps au_journal (open_recovery env q method sid p)"
    unfolding open_recovery_def authorized_focus_def by (intro keeps_bind find_focus_reads) simp_all
  show "au_journal t = au_journal s" by (rule keepsD [OF k assms])
  assume x: "x = Inr (cached, f)"
  let ?focus = "find_focus (authority_port env (qs_engine q)) (normalizeRecoveryTarget p)"
  let ?rest = "\<lambda>se. eff_bind (require (recovery_schema p) invalid_payload) (\<lambda>_. eff_bind (cached_state env q) (\<lambda>cached.
      eff_bind ?focus (\<lambda>f. eff_bind (authorized_focus q se f) (\<lambda>f. eff_return (cached, f)))))"
  have 0: "eff_bind (requireValidSession method sid) ?rest s = Some (Inr (cached, f), t)"
    using assms unfolding x open_recovery_def .
  obtain se where valid: "requireValidSession method sid s = Some (Inr se, s)" and 1: "?rest se s = Some (Inr (cached, f), t)"
    by (rule bind_read_Inr [OF 0 keeps_reads(5)])
  have se: "getSession sid s = Some se" using valid unfolding requireValidSession_Some by blast
  from 1 have 2: "eff_bind (cached_state env q) (\<lambda>cached.
      eff_bind ?focus (\<lambda>f. eff_bind (authorized_focus q se f) (\<lambda>f. eff_return (cached, f)))) s = Some (Inr (cached, f), t)"
    by (rule bind_read_Inr [OF _ keeps_reads(3)])
  obtain c where "eff_bind ?focus (\<lambda>f. eff_bind (authorized_focus q se f) (\<lambda>f. eff_return (c, f))) s = Some (Inr (cached, f), t)"
    by (rule bind_read_Inr [OF 2 keeps_reads(8)])
  then obtain u where u: "?focus s = Some (Inr f, u)" and a: "authorized_focus q se f u = Some (Inr f, t)"
    unfolding eff_bind_Some by (auto simp: authorized_focus_def eff_bind_Some)
  obtain su where su: "getRunSummary (fo_run f) (au_journal u) = Some su" "sessionCanAccessRun (qs_realpath q) (qs_cwd q) se su"
    using a by (auto simp: authorized_focus_def eff_bind_Some authorized_run_Inr)
  have "au_journal u = au_journal s" by (rule keepsD [OF find_focus_reads u])
  with se su getRunSummary_run [OF su(1)]
  show "can_access q sid s (fo_run f) \<and> find_run (au_journal s) (fo_run f) \<noteq> None" by (simp add: can_access_def)
qed

lemma recovery_handled:
  assumes "eff_bind (open_recovery env q method sid p) (\<lambda>(cached, f). eff_bind (m cached f) (\<lambda>y.
      eff_bind (log_event (qs_clock q 0) (fo_run f) ty (pay f y)) (\<lambda>_. eff_return (g y)))) s = Some (x, s')"
    and "\<And>cached f. keeps au_journal (m cached f)" "journal_inv (au_journal s)" "ty \<noteq> ''execution.started''"
  shows "handled q sid s s'"
proof -
  from assms(1) consider (fail) e where "open_recovery env q method sid p s = Some (Inl e, s')"
    | (go) cached f t where "open_recovery env q method sid p s = Some (Inr (cached, f), t)"
        "eff_bind (m cached f) (\<lambda>y. eff_bind (log_event (qs_clock q 0) (fo_run f) ty (pay f y)) (\<lambda>_. eff_return (g y))) t = Some (x, s')"
    unfolding eff_bind_Some [of "open_recovery env q method sid p"] by auto
  then show ?thesis
  proof cases
    case fail
    from open_recovery_Some(1) [OF this] show ?thesis by (simp add: handled_def)
  next
    case go
    note o = open_recovery_Some [OF go(1)]
    have "logs (fo_run f) (\<lambda>e. True) (eff_bind (m cached f) (\<lambda>y. eff_bind (log_event (qs_clock q 0) (fo_run f) ty (pay f y))
        (\<lambda>_. eff_return (g y)))) (\<lambda>ts x. set ts \<subseteq> {ty})"
      by (rule logs_bind [OF logs_silent [OF assms(2)] logs_bind [OF logs_event logs_return]]) auto
    from logs_writes [OF this go(2)] assms(3,4) o have "writes_to (fo_run f) (au_journal s) (au_journal s')"
      by (auto intro!: closed_without_start)
    with o show ?thesis unfolding handled_def by blast
  qed
qed

lemma plan_handled:
  "handlePlanRecovery env q strategies sid p s = Some (x, s') \<Longrightarrow> journal_inv (au_journal s) \<Longrightarrow> handled q sid s s'"
  unfolding handlePlanRecovery_def Let_def
  by (erule recovery_handled) (simp_all add: plan_for_reads)

lemma execute_handled:
  "handleExecuteRecovery env q strategies sid p s = Some (x, s') \<Longrightarrow> journal_inv (au_journal s) \<Longrightarrow> handled q sid s s'"
  unfolding handleExecuteRecovery_def Let_def case_prod_beta [of _ "_ :: boundary \<times> recovery_result"]
  by (erule recovery_handled) (simp_all add: recover_for_reads)

section \<open>Every request\<close>

fun session_access :: "request \<Rightarrow> 'w authority \<Rightarrow> string \<Rightarrow> bool" where
  "session_access (RQ_hello i now p) s r = False"
| "session_access (RQ_register i now t sid p) s r = False"
| "session_access (RQ_summary q sid k) s r = can_access q sid s r"
| "session_access (RQ_explain q sid a) s r = can_access q sid s r"
| "session_access (RQ_submit q sid a) s r = can_access q sid s r"
| "session_access (RQ_checkpoint q i sid p) s r = can_access q sid s r"
| "session_access (RQ_approvals q sid p) s r = can_access q sid s r"
| "session_access (RQ_inbox q sid p) s r = can_access q sid s r"
| "session_access (RQ_resolve q sid p) s r = can_access q sid s r"
| "session_access (RQ_plan q sid p) s r = can_access q sid s r"
| "session_access (RQ_execute q sid p) s r = can_access q sid s r"

lemma settle_Some: "settle m s = Some (x, s') \<Longrightarrow> \<exists>y. m s = Some (y, s')"
  by (auto simp: settle_def eff_bind_Some)

lemma list_accessible_reads: "keeps view (list_accessible bin q method sid p)"
  unfolding list_accessible_def by (auto intro!: keeps_bind split: option.split)

lemma read_only_requests:
  "keeps view (handleGetRunSummary q sid r)" "keeps view (handleExplainPolicyAction env q sid a)"
  "keeps view (handleListApprovals bin q sid p)" "keeps view (handleQueryApprovalInbox bin loc q sid p)"
  unfolding handleGetRunSummary_def handleExplainPolicyAction_def handleListApprovals_def handleQueryApprovalInbox_def
  by (auto intro!: keeps_bind list_accessible_reads)

lemma hello_journal: "keeps au_journal (handleHello i now p)"
  by (auto simp: keeps_def handleHello_def ag_throw_def createSession_def Let_def split: if_splits)

lemma map_sum_Inr: "map_sum f g x = Inr y \<longleftrightarrow> (\<exists>z. x = Inr z \<and> y = g z)"
  by (cases x) auto

lemma register_journal:
  assumes "handleRegisterRun i now t sid p s = Some (x, s')"
  shows "au_journal s' = au_journal s \<or> (\<exists>inp. registerRunLifecycle now inp (au_journal s) = Inr (au_journal s'))"
  using assms
  by (auto simp: handleRegisterRun_def ag_throw_def eff_bind_Some on_journal_def createRun_def Let_def map_sum_Inr
      split: if_splits option.splits sum.splits)

text \<open>A request leaves the journal as it is, writes to a run its session may access, or registers a run.\<close>

definition journal_effect :: "request \<Rightarrow> 'w authority \<Rightarrow> 'w authority \<Rightarrow> bool" where
  "journal_effect rq s s' =
     (au_journal s' = au_journal s \<or>
      (\<exists>r. session_access rq s r \<and> writes_to r (au_journal s) (au_journal s')) \<or>
      (\<exists>now inp. registerRunLifecycle now inp (au_journal s) = Inr (au_journal s')))"

lemma serve_journal:
  assumes "serve d rq s = Some (x, s')" "journal_inv (au_journal s)" "approvals_match (au_journal s)"
  shows "journal_effect rq s s'"
proof (cases rq)
  case (RQ_hello i now p)
  with assms(1) obtain y where y: "handleHello i now p s = Some (y, s')" by (auto dest!: settle_Some)
  from keepsD [OF hello_journal y] show ?thesis by (simp add: journal_effect_def)
next
  case (RQ_register i now t sid p)
  with assms(1) obtain y where y: "handleRegisterRun i now t sid p s = Some (y, s')" by (auto dest!: settle_Some)
  from register_journal [OF y] show ?thesis by (auto simp: journal_effect_def)
next
  case (RQ_summary q sid r)
  with assms(1) obtain y where y: "handleGetRunSummary q sid r s = Some (y, s')" by (auto dest!: settle_Some)
  from keepsD [where view = au_journal, OF read_only_requests(1) y] show ?thesis by (simp add: journal_effect_def)
next
  case (RQ_explain q sid a)
  with assms(1) obtain y where y: "handleExplainPolicyAction (dm_env d) q sid a s = Some (y, s')" by (auto dest!: settle_Some)
  from keepsD [where view = au_journal, OF read_only_requests(2) y] show ?thesis by (simp add: journal_effect_def)
next
  case (RQ_submit q sid a)
  with assms(1) obtain y where y: "handleSubmitActionAttempt (dm_env d) q sid a s = Some (y, s')" by (auto dest!: settle_Some)
  from submit_handled [OF y assms(2)] show ?thesis by (auto simp: journal_effect_def handled_def RQ_submit)
next
  case (RQ_checkpoint q i sid p)
  with assms(1) obtain y where y: "handleCreateRunCheckpoint (dm_env d) q i sid p s = Some (y, s')" by (auto dest!: settle_Some)
  from checkpoint_handled [OF y assms(2)] show ?thesis by (auto simp: journal_effect_def handled_def RQ_checkpoint)
next
  case (RQ_approvals q sid p)
  with assms(1) obtain y where y: "handleListApprovals (dm_binary d) q sid p s = Some (y, s')" by (auto dest!: settle_Some)
  from keepsD [where view = au_journal, OF read_only_requests(3) y] show ?thesis by (simp add: journal_effect_def)
next
  case (RQ_inbox q sid p)
  with assms(1) obtain y where y: "handleQueryApprovalInbox (dm_binary d) (dm_locale d) q sid p s = Some (y, s')" by (auto dest!: settle_Some)
  from keepsD [where view = au_journal, OF read_only_requests(4) y] show ?thesis by (simp add: journal_effect_def)
next
  case (RQ_resolve q sid p)
  with assms(1) obtain y where y: "handleResolveApproval (dm_env d) q sid p s = Some (y, s')" by (auto dest!: settle_Some)
  from resolve_handled [OF y assms(2,3)] show ?thesis by (auto simp: journal_effect_def handled_def RQ_resolve)
next
  case (RQ_plan q sid p)
  with assms(1) obtain y where y: "handlePlanRecovery (dm_env d) q (dm_strategies d) sid p s = Some (y, s')" by (auto dest!: settle_Some)
  from plan_handled [OF y assms(2)] show ?thesis by (auto simp: journal_effect_def handled_def RQ_plan)
next
  case (RQ_execute q sid p)
  with assms(1) obtain y where y: "handleExecuteRecovery (dm_env d) q (dm_strategies d) sid p s = Some (y, s')" by (auto dest!: settle_Some)
  from execute_handled [OF y assms(2)] show ?thesis by (auto simp: journal_effect_def handled_def RQ_execute)
qed

section \<open>The invariant\<close>

text \<open>Every started execution names its action; while the daemon is up, the log of its run also says how it ended or that this is not known.\<close>

definition named_starts :: "journal_event list \<Rightarrow> bool" where
  "named_starts es = (\<forall>e \<in> set es. ev_type e = ''execution.started'' \<longrightarrow> (\<exists>a. a \<noteq> [] \<and> about_action a e))"

definition ended_log :: "journal_event list \<Rightarrow> bool" where
  "ended_log es =
     (\<forall>e \<in> set es. ev_type e = ''execution.started'' \<longrightarrow>
        (\<exists>a. about_action a e \<and> (\<exists>x \<in> set es. ev_run_id x = ev_run_id e \<and> about_action a x \<and>
           ev_type x \<in> {''execution.completed'', ''execution.failed'', ''execution.simulated'', ''execution.outcome_unknown''})))"

definition daemon_inv :: "journal \<Rightarrow> bool" where
  "daemon_inv j = (journal_inv j \<and> approvals_match j \<and> named_starts (jr_events j))"

lemma named_append [simp]: "named_starts (xs @ ys) \<longleftrightarrow> named_starts xs \<and> named_starts ys"
  by (auto simp: named_starts_def)

lemma ended_append: "ended_log xs \<Longrightarrow> ended_log ys \<Longrightarrow> ended_log (xs @ ys)"
  unfolding ended_log_def by (metis Un_iff set_append)

lemma no_start: "''execution.started'' \<notin> ev_type ` set es \<Longrightarrow> e \<in> set es \<Longrightarrow> ev_type e \<noteq> ''execution.started''"
  by (metis image_eqI)

lemma without_start: "''execution.started'' \<notin> ev_type ` set es \<Longrightarrow> named_starts es \<and> ended_log es"
  unfolding named_starts_def ended_log_def using no_start by blast

lemma closed_named: "closed_log es \<Longrightarrow> named_starts es"
  by (induction es) (auto simp: named_starts_def)

lemma closed_ended: "closed_log es \<Longrightarrow> \<forall>e \<in> set es. ev_run_id e = r \<Longrightarrow> ended_log es"
proof (induction es)
  case (Cons e es)
  then have es: "ended_log es" by simp
  show ?case unfolding ended_log_def
  proof (intro ballI impI)
    fix z assume z: "z \<in> set (e # es)" "ev_type z = ''execution.started''"
    show "\<exists>a. about_action a z \<and> (\<exists>x \<in> set (e # es). ev_run_id x = ev_run_id z \<and> about_action a x \<and>
           ev_type x \<in> {''execution.completed'', ''execution.failed'', ''execution.simulated'', ''execution.outcome_unknown''})"
    proof (cases "z = e")
      case True
      with Cons.prems z(2) show ?thesis by auto
    next
      case False
      with z es have "\<exists>a. about_action a z \<and> (\<exists>x \<in> set es. ev_run_id x = ev_run_id z \<and> about_action a x \<and>
           ev_type x \<in> {''execution.completed'', ''execution.failed'', ''execution.simulated'', ''execution.outcome_unknown''})"
        by (simp add: ended_log_def)
      then show ?thesis by auto
    qed
  qed
qed (simp add: ended_log_def)

lemma writes_to_inv:
  assumes "writes_to r j j'" "daemon_inv j"
  shows "daemon_inv j' \<and> (ended_log (jr_events j) \<longrightarrow> ended_log (jr_events j'))"
proof -
  obtain es where es: "jr_events j' = jr_events j @ es" "\<forall>e \<in> set es. ev_run_id e = r" "closed_log es" and f: "frame r j j'"
    and j': "journal_inv j'" using assms(1) by (auto simp: writes_to_def)
  with closed_named [OF es(3)] closed_ended [OF es(3,2)] assms(2) show ?thesis
    by (auto simp: daemon_inv_def frame_def intro: ended_append)
qed

lemma register_inv:
  assumes "registerRunLifecycle now inp j = Inr j'" "daemon_inv j"
  shows "daemon_inv j' \<and> (ended_log (jr_events j) \<longrightarrow> ended_log (jr_events j'))"
proof -
  have inv: "journal_inv j" using assms(2) by (simp add: daemon_inv_def)
  obtain new where new: "jr_events j' = jr_events j @ new" "''execution.started'' \<notin> ev_type ` set new" "jr_approvals j' = jr_approvals j"
    using assms(1) by (auto simp: registerRunLifecycle_def Let_def split: if_splits list.splits)
  with without_start [OF new(2)] registerRunLifecycle_inv [OF inv assms(1)] assms(2) show ?thesis
    by (auto simp: daemon_inv_def approvals_match_def intro: ended_append)
qed

lemma rehydrate_keeps: "au_journal (reconcilePersistedRuns now print_time s) = au_journal s"
proof -
  have "au_journal (foldl (\<lambda>s su. let row = su_run su in
      rehydrateRun row (print_time (rw_created_at row)) (rehydrateSession (rw_session_id row) (rw_workspace_roots row) now s)) s sus) = au_journal s"
    for sus and s :: "'a authority"
    by (induction sus arbitrary: s) (auto simp: Let_def rehydrateRun_def rehydrateSession_def split: option.splits)
  then show ?thesis by (simp add: reconcilePersistedRuns_def)
qed

text \<open>A restart succeeds, and afterwards nothing that was started is left without an end.\<close>

lemma restart_inv:
  assumes "daemon_inv (au_journal s)"
  obtains s' new where "restart now print_time clock s = Inr s'" "daemon_inv (au_journal s')" "ended_log (jr_events (au_journal s'))"
    "jr_events (au_journal s') = jr_events (au_journal s) @ new" "\<forall>e \<in> set new. ev_type e = ''execution.outcome_unknown''"
proof -
  let ?j = "au_journal s"
  let ?t = "reconcilePersistedRuns now print_time (lose_memory s)"
  have inv: "journal_inv ?j" and named: "named_starts (jr_events ?j)" using assms by (simp_all add: daemon_inv_def)
  have t: "au_journal ?t = ?j" by (simp add: rehydrate_keeps lose_memory_def)
  obtain new j' where rec: "recoverInterruptedActions clock ?j = Inr (length new, j')" and j': "journal_inv j'"
      "jr_runs j' = jr_runs ?j" "jr_approvals j' = jr_approvals ?j" "jr_events j' = jr_events ?j @ new"
    and logs: "\<forall>r. run_events j' r = run_events ?j r @ events_for r new"
    and each: "\<forall>r. new_outcomes (run_events ?j r) (events_for r new)"
    using inv by (rule recovery_pass [where clock = clock])
  have "ev_type e = ''execution.outcome_unknown''" if "e \<in> set new" for e
    using that each by (intro new_outcomes_type [of "run_events ?j (ev_run_id e)" "events_for (ev_run_id e) new"]) (simp_all add: events_for_def)
  then have unknown: "\<forall>e \<in> set new. ev_type e = ''execution.outcome_unknown''" by blast
  then have fresh: "''execution.started'' \<notin> ev_type ` set new" by fastforce
  have "ended_log (jr_events j')" unfolding ended_log_def
  proof (intro ballI impI)
    fix e assume e: "e \<in> set (jr_events j')" "ev_type e = ''execution.started''"
    then have "e \<in> set (jr_events ?j)" using j'(4) no_start [OF fresh] by auto
    then obtain a where a: "a \<noteq> []" "about_action a e" using named e(2) by (auto simp: named_starts_def)
    let ?es = "run_events j' (ev_run_id e)"
    have "\<not> unfinished ?es a" unfolding logs [rule_format] by (rule new_outcomes_finished [OF each [rule_format]])
    moreover have "e \<in> set ?es" using e(1) by (simp add: run_events_def)
    ultimately have "already_reconciled ?es a \<or> has_terminal_event ?es a"
      using a e(2) by (auto simp: unfinished_def started_or_snapshot_def)
    then obtain x where "x \<in> set (jr_events j')" "ev_run_id x = ev_run_id e" "about_action a x"
      "ev_type x \<in> {''execution.completed'', ''execution.failed'', ''execution.simulated'', ''execution.outcome_unknown''}"
      by (auto simp: already_reconciled_def has_terminal_event_def run_events_def)
    with a(2) show "\<exists>a. about_action a e \<and> (\<exists>x \<in> set (jr_events j'). ev_run_id x = ev_run_id e \<and> about_action a x \<and>
        ev_type x \<in> {''execution.completed'', ''execution.failed'', ''execution.simulated'', ''execution.outcome_unknown''})" by blast
  qed
  moreover have "daemon_inv j'"
    using assms j' without_start [OF fresh] by (simp add: daemon_inv_def approvals_match_def)
  moreover have "restart now print_time clock s = Inr (?t\<lparr>au_journal := j'\<rparr>)"
    by (simp add: restart_def Let_def t rec)
  moreover have "au_journal (?t\<lparr>au_journal := j'\<rparr>) = j'" by simp
  ultimately show thesis using that [of "?t\<lparr>au_journal := j'\<rparr>" new] j'(4) unknown by simp
qed

lemma restarted_inv:
  assumes "restart now print_time clock s = Inr s'" "daemon_inv (au_journal s)"
  shows "daemon_inv (au_journal s')" "ended_log (jr_events (au_journal s'))"
  using restart_inv [OF assms(2), of now print_time clock] assms(1) by force+

lemma authority_step_inv:
  assumes "authority_step d s s'" "daemon_inv (au_journal s)"
  shows "daemon_inv (au_journal s') \<and> (ended_log (jr_events (au_journal s)) \<longrightarrow> ended_log (jr_events (au_journal s')))"
  using assms(1)
proof (rule authority_stepE)
  fix rq x assume "serve d rq s = Some (x, s')"
  with assms(2) have "journal_effect rq s s'" by (auto simp: daemon_inv_def intro: serve_journal)
  with assms(2) show ?thesis unfolding journal_effect_def using writes_to_inv register_inv by metis
next
  fix now print_time clock assume "restart now print_time clock s = Inr s'"
  from restarted_inv [OF this assms(2)] show ?thesis by simp
qed (use assms(2) in simp_all)

lemma run_log_ok_prefix: "prefix es fs \<Longrightarrow> run_log_ok fs \<Longrightarrow> run_log_ok es"
proof -
  have "run_log_ok (es @ gs) \<Longrightarrow> run_log_ok es" for gs
    by (induction gs rule: rev_induct) (simp_all add: run_log_ok_snoc flip: append_assoc)
  then show "prefix es fs \<Longrightarrow> run_log_ok fs \<Longrightarrow> run_log_ok es" by (auto simp: prefix_def)
qed

text \<open>What a step leaves when it is cut short keeps the invariant.\<close>

lemma cut_inv:
  assumes "cut_journal j t j'" "daemon_inv j" "daemon_inv t"
  shows "daemon_inv j'"
proof (cases "j' = j \<or> j' = t")
  case False
  with assms(1) have c: "jr_runs t = jr_runs j" "jr_runs j' = jr_runs j" "jr_approvals j' = jr_approvals j \<or> jr_approvals j' = jr_approvals t"
    and pre: "prefix (jr_events j') (jr_events t)" by (auto simp: cut_journal_def)
  from pre obtain more where more: "jr_events t = jr_events j' @ more" by (auto simp: prefix_def)
  have runs: "find_run j' r = find_run j r" "find_run t r = find_run j r" for r using c(1,2) by (simp_all add: find_run_def)
  have "prefix (run_events j' r) (run_events t r)" for r by (simp add: run_events_def more)
  then have "run_log_ok (run_events j' r)" for r using assms(3) run_log_ok_prefix by (auto simp: daemon_inv_def journal_inv_def)
  moreover have "\<forall>e \<in> set (jr_events j'). find_run j' (ev_run_id e) \<noteq> None"
    using assms(3) by (auto simp: daemon_inv_def journal_inv_def runs more)
  moreover have "approvals_match j'" "distinct (map ap_id (jr_approvals j'))" "distinct (map ap_action_id (jr_approvals j'))"
    "\<forall>a \<in> set (jr_approvals j'). approval_ok a \<and> find_run j' (ap_run_id a) \<noteq> None"
    using assms(2,3) c(3) by (auto simp: daemon_inv_def journal_inv_def approvals_match_def runs)
  moreover have "distinct (map rw_run_id (jr_runs j'))" "named_starts (jr_events j')"
    using assms(2,3) by (simp_all add: c(2) more daemon_inv_def journal_inv_def)
  ultimately show ?thesis by (simp add: daemon_inv_def journal_inv_def)
qed (use assms(2,3) in blast)

lemma authority_reachable_invs:
  "authority_reachable d up s \<Longrightarrow> daemon_inv (au_journal s) \<and> (up \<longrightarrow> ended_log (jr_events (au_journal s)))"
proof (induction rule: authority_reachable.induct)
  case (start m caps e w)
  show ?case by (simp add: fresh_authority_def daemon_inv_def empty_journal_inv approvals_match_def)
      (simp add: empty_journal_def named_starts_def ended_log_def)
next
  case (step s s')
  then show ?case using authority_step_inv by blast
next
  case (died s t s')
  then show ?case using authority_step_inv cut_inv by blast
next
  case (restarted s now print_time clock s')
  then show ?case using restarted_inv by blast
next
  case (died_again s now print_time clock t s')
  then show ?case using restarted_inv(1) cut_inv by blast
qed

lemma authority_reachable_inv: "authority_reachable d up s \<Longrightarrow> daemon_inv (au_journal s)"
  using authority_reachable_invs by blast

lemma find_snoc: "\<not> P x \<Longrightarrow> find P (xs @ [x]) = find P xs"
  by (induction xs) auto

lemma registerRunLifecycle_other:
  "registerRunLifecycle now inp j = Inr j' \<Longrightarrow> ri_run_id inp \<noteq> r \<Longrightarrow>
     find_run j' r = find_run j r \<and> run_events j' r = run_events j r \<and> approvals_of r j' = approvals_of r j"
  by (auto simp: registerRunLifecycle_def Let_def run_events_def approvals_of_def find_run_def find_snoc split: if_splits list.splits)

lemma some_run_event: "(\<exists>x \<in> set (run_events j r). P x) \<longleftrightarrow> (\<exists>x \<in> set (jr_events j). ev_run_id x = r \<and> P x)"
  by (auto simp: run_events_def)



end
