(* ===== verification/Authority_World.thy ===== *)
theory Authority_World
  imports Authority_Theorems Recovery_Restores
begin

text \<open>
  What a request of the daemon may change outside its own books: files and the outside change only under a decision that permits the action, an
  approval, or a recovery of a run of the session; and what is governed can be restored.
\<close>

section \<open>What may change the world\<close>

definition world :: "'w authority \<Rightarrow> (string \<Rightarrow> tree) \<times> 'w outside" where
  "world s = (\<lambda>rt. tree_at rt (au_engine s), au_outside s)"

lemma keeps_world: "keeps au_engine m \<Longrightarrow> keeps au_outside m \<Longrightarrow> keeps world m"
  by (auto simp: keeps_def world_def)

lemma commitSnapshot_tree: "wi_tree (snd (commitSnapshot env i now pr opts s)) = wi_tree s"
  by (auto simp: commitSnapshot_def commit_transaction_def Let_def split: sum.splits option.splits if_splits)

lemma prepareScan_tree: "wi_tree (snd (prepareScan env j now s)) = wi_tree s"
  by (simp add: prepareScan_def Let_def)

lemma take_snapshot_tree: "wi_tree (snd (take_snapshot env j i now opts s)) = wi_tree s"
  by (simp add: take_snapshot_def case_prod_beta commitSnapshot_tree prepareScan_tree)

lemma createSnapshot_trees: "keeps (\<lambda>e rt. tree_at rt e) (createSnapshot env d req)"
proof (cases "needs_workspace_snapshot req")
  case False
  then show ?thesis
    by (auto simp: keeps_def createSnapshot_def createPersistedMetadataSnapshot_def tree_at_def)
next
  case True
  let ?f = "\<lambda>we s. Some (take_snapshot we (ed_prep d) (ed_id d) (ed_now d) (request_options req) s)"
  have w: "tree_at q st' = tree_at q st" if w: "with_index env rt ?f st = Some (res, st')" for rt st res st' q
    using with_index_Some [OF w, of q] take_snapshot_tree by (auto simp: tree_at_def) (metis snd_conv)
  show ?thesis
    unfolding createSnapshot_def keeps_def using True
    by (auto simp: eff_bind_Some eff_catch_Some tree_at_def dest!: w [unfolded tree_at_def] intro!: ext)
qed

lemma on_engine_world:
  assumes "keeps (\<lambda>e rt. tree_at rt e) m"
  shows "keeps world (on_engine m)"
  using keepsD [OF assms] by (fastforce simp: keeps_def on_engine_def world_def)

lemma keeps_hello: "keeps world (handleHello i now p)"
  by (auto simp: keeps_def world_def handleHello_def ag_throw_def createSession_def Let_def split: if_splits)

lemma keeps_register: "keeps world (handleRegisterRun i now t sid p)"
  by (auto simp: keeps_def world_def handleRegisterRun_def ag_throw_def eff_bind_Some on_journal_def createRun_def Let_def
      split: if_splits option.splits sum.splits)

lemma keeps_log_world: "keeps world (log_event now r ty pay)" "keeps world (on_journal g)"
  by (intro keeps_world keeps_log keeps_on_journal)+

lemma keeps_checkpoint: "keeps world (handleCreateRunCheckpoint env q i sid p)"
proof -
  have "keeps world (take_checkpoint env q p kind rt a sel)" for kind rt a sel
    unfolding take_checkpoint_def Let_def
    by (intro keeps_bind keeps_log_world on_engine_world createSnapshot_trees) simp
  then show ?thesis unfolding handleCreateRunCheckpoint_def Let_def
    by (auto intro!: keeps_bind split: option.split)
qed

lemma engine_view_trees: "keeps engine_view m \<Longrightarrow> keeps (\<lambda>e rt. tree_at rt e) m"
  by (auto simp: keeps_def engine_view_def tree_at_def) (metis ext)

interpretation world_reader: snapshot_reader "authority_port env d" world for env :: "'w authority_env" and d
proof
  fix i ps
  note r = on_engine_world [OF engine_view_trees]
  show "keeps world (sp_manifest (authority_port env d) i)" "keeps world (sp_preview (authority_port env d) i)"
    "keeps world (sp_preview_subset (authority_port env d) i ps)" "keeps world (sp_verify (authority_port env d) i)"
    using r [OF local_engine.manifest_reads] r [OF local_engine.preview_reads] r [OF local_engine.preview_subset_reads]
      r [OF local_engine.verify_reads] by simp_all
qed

lemma find_focus_world: "keeps world (find_focus (authority_port env d) t)"
  by (cases t) (auto intro!: keeps_bind world_reader.load_reads)

lemma open_recovery_world: "keeps world (open_recovery env q method sid p)"
  unfolding open_recovery_def authorized_focus_def by (intro keeps_bind find_focus_world) simp_all

lemma keeps_plan: "keeps world (handlePlanRecovery env q strategies sid p)"
proof -
  have "keeps world (plan_for env q strategies cached t f)" for cached t f
    unfolding plan_for_def Let_def
    by (auto intro!: keeps_bind world_reader.plan_reads world_reader.subset_plan_reads split: recovery_target.split option.split)
  then show ?thesis unfolding handlePlanRecovery_def Let_def
    by (auto intro!: keeps_bind open_recovery_world keeps_log_world split: prod.split)
qed

lemma keeps_log_decision: "keeps world (log_decision q p)"
  unfolding log_decision_def request_approval_def Let_def by (auto intro!: keeps_bind keeps_log_world)

lemma submit_world:
  assumes "handleSubmitActionAttempt env q sid attempt s = Some (x, s')" "world s' \<noteq> world s"
  obtains se p where "getSession sid s = Some se" "prepareActionAttemptEvaluation env q se attempt s = Inr p" "permits (pp_outcome p)"
proof (cases "\<exists>se p. RawActionAttemptSchema (ae_dates env) attempt \<and> getSession sid s = Some se \<and>
    prepareActionAttemptEvaluation env q se attempt s = Inr p")
  case False
  with assms show thesis
    by (auto simp: handleSubmitActionAttempt_def ag_throw_def split: if_splits option.splits sum.splits)
next
  case True
  then obtain se p where p: "RawActionAttemptSchema (ae_dates env) attempt" "getSession sid s = Some se"
    "prepareActionAttemptEvaluation env q se attempt s = Inr p" by blast
  have "permits (pp_outcome p)"
  proof (rule ccontr)
    assume "\<not> permits (pp_outcome p)"
    then have "keeps world (act_on_decision env q p)" by (simp add: act_on_decision_def)
    then have "keeps world (eff_bind (log_decision q p) (\<lambda>ap. eff_bind (act_on_decision env q p) (\<lambda>(r, snap).
        eff_return \<lparr>sm_action = pp_action p, sm_outcome = pp_outcome p, sm_execution = r, sm_snapshot = snap, sm_approval = ap\<rparr>)))"
      by (auto intro!: keeps_bind keeps_log_decision split: prod.split)
    with assms p show False by (auto simp: handleSubmitActionAttempt_def dest: keepsD)
  qed
  with p that show thesis by blast
qed

lemma resolve_world:
  assumes "handleResolveApproval env q sid p s = Some (x, s')" "world s' \<noteq> world s"
  obtains st where "getStoredApproval (vq_approval p) (au_journal s) = Some st" "can_access q sid s (ap_run_id st)"
    "ap_status st = AP_approved \<or> ap_status st = AP_pending \<and> vq_resolution p = RV_approved"
proof -
  let ?rest = "\<lambda>st (su :: run_summary). eff_bind (on_journal (resolveApproval (qs_now_text q) (vq_approval p) (vq_resolution p) (vq_note p))) (\<lambda>ap.
     eff_bind (log_event (qs_clock q 8) (ap_run_id st) ''approval.resolved'' (resolved_payload ap)) (\<lambda>_.
       if ap_status ap \<noteq> AP_approved then
         eff_return \<lparr>vr_approval = ap, vr_execution = None, vr_snapshot = ap_snapshot_record st\<rparr>
       else eff_bind (run_approved env q st) (\<lambda>(r, snap).
         eff_return \<lparr>vr_approval = ap, vr_execution = r, vr_snapshot = snap\<rparr>)))"
  let ?get = "\<lambda>s. lift_error (case getStoredApproval (vq_approval p) (au_journal s) of
      None \<Rightarrow> Inl (NotFoundError (''No approval found for '' @ vq_approval p @ ''.'')) | Some st \<Rightarrow> Inr st) s"
  have step: "\<exists>y. m s = Some (Inr y, s) \<and> f y s = Some (z, s')" if "eff_bind m f s = Some (z, s')" "keeps (\<lambda>s. s) m"
    for m :: "('a authority, 'b) eff" and f :: "'b \<Rightarrow> ('a authority, 'c) eff" and z
    using eff_bind_keeps_state [OF that] assms(2) by auto
  from step [OF assms(1) [unfolded handleResolveApproval_def] keeps_reads(5)] obtain se
    where v: "requireValidSession ''resolve_approval'' sid s = Some (Inr se, s)"
      and 1: "eff_bind (require (vq_approval p \<noteq> [] \<and> text_opt_ok (vq_note p)) invalid_payload) (\<lambda>_. eff_bind ?get (\<lambda>st.
        eff_bind (authorized_run q se (ap_run_id st)) (?rest st))) s = Some (x, s')" by blast
  have se: "getSession sid s = Some se" using v unfolding requireValidSession_Some by blast
  from step [OF 1 keeps_reads(3)] have 2: "eff_bind ?get (\<lambda>st. eff_bind (authorized_run q se (ap_run_id st)) (?rest st)) s = Some (x, s')"
    by blast
  from step [OF 2 keeps_pure(2)] obtain st where g: "?get s = Some (Inr st, s)"
    and 3: "eff_bind (authorized_run q se (ap_run_id st)) (?rest st) s = Some (x, s')" by blast
  have st: "getStoredApproval (vq_approval p) (au_journal s) = Some st"
    using g by (auto simp: lift_error_def split: option.splits)
  from step [OF 3 keeps_reads(7)] obtain su where a: "authorized_run q se (ap_run_id st) s = Some (Inr su, s)"
    and 4: "?rest st su s = Some (x, s')" by blast
  have "can_access q sid s (ap_run_id st)" using a se by (auto simp: authorized_run_Inr can_access_def)
  moreover have "ap_status st = AP_approved \<or> ap_status st = AP_pending \<and> vq_resolution p = RV_approved"
  proof (rule ccontr)
    assume no: "\<not> ?thesis"
    have "ap_status ap \<noteq> AP_approved" if "resolveApproval (qs_now_text q) (vq_approval p) (vq_resolution p) (vq_note p) (au_journal s) = Inr (ap, j)" for ap j
      using that st no by (cases "ap_status st") (auto simp: resolveApproval_def Let_def split: if_splits)
    note refused = this
    let ?g = "resolveApproval (qs_now_text q) (vq_approval p) (vq_resolution p) (vq_note p)"
    have "world s' = world s"
    proof (cases "?g (au_journal s)")
      case (Inl e)
      with 4 show ?thesis by (auto simp: eff_bind_Some on_journal_def)
    next
      case (Inr z)
      obtain ap j where g: "?g (au_journal s) = Inr (ap, j)" using Inr by (cases z) auto
      let ?log = "log_event (qs_clock q 8) (ap_run_id st) ''approval.resolved'' (resolved_payload ap)"
      let ?res = "\<lparr>vr_approval = ap, vr_execution = None, vr_snapshot = ap_snapshot_record st\<rparr>"
      have "eff_bind ?log (\<lambda>_. eff_return ?res) (s\<lparr>au_journal := j\<rparr>) = Some (x, s')"
        using 4 g refused [OF g] by (simp add: eff_bind_def [of "on_journal _"] on_journal_def)
      moreover have "keeps world (eff_bind ?log (\<lambda>_. eff_return ?res))" by (intro keeps_bind keeps_log_world) simp
      ultimately have "world s' = world (s\<lparr>au_journal := j\<rparr>)" by (rule keepsD [rotated])
      then show ?thesis by (simp add: world_def)
    qed
    with assms(2) show False by simp
  qed
  ultimately show thesis using that st by blast
qed

lemma execute_world:
  assumes "handleExecuteRecovery env q strategies sid p s = Some (x, s')" "world s' \<noteq> world s"
  obtains cached f t where "open_recovery env q ''execute_recovery'' sid p s = Some (Inr (cached, f), t)" "can_access q sid s (fo_run f)"
    "fo_snapshot f \<noteq> None"
proof -
  let ?t = "normalizeRecoveryTarget p"
  from assms(1) consider (fail) e where "open_recovery env q ''execute_recovery'' sid p s = Some (Inl e, s')"
    | (go) cached f t where "open_recovery env q ''execute_recovery'' sid p s = Some (Inr (cached, f), t)"
        "eff_bind (recover_for env q strategies cached ?t f) (\<lambda>(b, r). eff_bind (log_event (qs_clock q 0) (fo_run f) ''recovery.executed''
          (executed_payload ?t f b r)) (\<lambda>_. eff_return r)) t = Some (x, s')"
    unfolding handleExecuteRecovery_def Let_def eff_bind_Some [of "open_recovery env q ''execute_recovery'' sid p"] by auto
  then show thesis
  proof cases
    case fail
    with keepsD [OF open_recovery_world] assms(2) show thesis by blast
  next
    case go
    have w: "world t = world s" by (rule keepsD [OF open_recovery_world go(1)])
    have "fo_snapshot f \<noteq> None"
    proof
      assume "fo_snapshot f = None"
      then have "s' = t" using go(2) by (simp add: recover_for_def Let_def eff_bind_Some)
      with w assms(2) show False by simp
    qed
    with go(1) open_recovery_Some(2) [OF go(1) refl] that show thesis by blast
  qed
qed


end
