(* ===== verification/Authority_Samples.thy ===== *)
theory Authority_Samples
  imports Authority_World Governed_Action Recovery_Samples
begin

text \<open>
  A daemon with one workspace and an adapter that writes files, on which the properties of the daemon are
  instantiated, and runs of it that show where its handlers depart from what is expected of them.
\<close>

section \<open>A daemon\<close>

definition au_write :: "exec_context \<Rightarrow> (string \<Rightarrow> tree) \<Rightarrow> nat outside \<Rightarrow> (thrown + execution_result) \<times> (string \<times> tree) list \<times> nat outside" where
  \<comment> \<open>the content of the attempt becomes the file\<close>
  "au_write c trees out =
     (let a = ec_action c; rt = ec_root c; p = drop (Suc (length rt)) (locator_of a);
          content = dflt [] (js_string_opt (obj_get (in_raw (action_input a)) ''content'')) in
      (Inr \<lparr>er_id = ''exec_1'', er_action = action_id a, er_simulated = False, er_success = True,
            er_output = [(''target'', JStr (locator_of a)), (''operation'', JStr ''write'')],
            er_artifacts = [\<lparr>af_id = ''art_1'', af_type = AR_file_content, af_ref = locator_of a, af_bytes = 1, af_visibility = VS_user\<rparr>],
            er_capture = None, er_started_at = ''t1'', er_completed_at = ''t2''\<rparr>,
       [(rt, ws_file p content 9 # filter (\<lambda>n. fst n \<noteq> p) (trees rt))], out))"

definition au_adapter :: "nat adapter" where
  "au_adapter =
     \<lparr>ad_domains = [''filesystem''], ad_can_handle = (\<lambda>a. domain_of a = ''filesystem''), ad_verify = (\<lambda>c trees out. (None, out)),
      ad_execute = au_write\<rparr>"

definition au_run :: "exec_context \<Rightarrow> (string \<Rightarrow> tree) \<Rightarrow> nat outside \<Rightarrow> (thrown + execution_result) \<times> (string \<times> tree) list \<times> nat outside" where
  \<comment> \<open>the services count the commands they have seen\<close>
  "au_run c trees out =
     (Inr \<lparr>er_id = ''exec_2'', er_action = action_id (ec_action c), er_simulated = False, er_success = True, er_output = [],
           er_artifacts = [], er_capture = None, er_started_at = ''t1'', er_completed_at = ''t2''\<rparr>,
      [], out\<lparr>os_services := os_services out + 1\<rparr>)"

definition au_shell :: "nat adapter" where
  "au_shell =
     \<lparr>ad_domains = [''shell''], ad_can_handle = (\<lambda>a. domain_of a = ''shell''), ad_verify = (\<lambda>c trees out. (None, out)),
      ad_execute = au_run\<rparr>"

definition au_env :: "nat authority_env" where
  "au_env =
     \<lparr>ae_engine = en_env, ae_regex = js_regex_test, ae_policy = DEFAULT_COMPILED_POLICY_PACK, ae_adapters = [au_adapter, au_shell],
      ae_hosted_job = (\<lambda>a m out. Inl (internal_thrown no_adapter)), ae_hosted_wait = (\<lambda>a t out. (Inr None, out)),
      ae_store_fault = (\<lambda>i. None), ae_stale_ms = None, ae_stale_env = None, ae_dates = (\<lambda>t. True)\<rparr>"

definition au_daemon :: "nat daemon" where
  "au_daemon = \<lparr>dm_env = au_env, dm_strategies = [], dm_binary = (\<lambda>a b. 0), dm_locale = (\<lambda>a b. 0)\<rparr>"

definition au_stamps :: "string \<Rightarrow> int \<Rightarrow> request_stamps" where
  \<comment> \<open>a request whose fresh identifiers end in \<open>i\<close>\<close>
  "au_stamps i now =
     \<lparr>qs_norm = demo_env\<lparr>ne_action_id := ''act_'' @ i\<rparr>, qs_eval = sample_stamps, qs_engine = en_stamps (''snap_'' @ i) now,
      qs_clock = (\<lambda>n. now + int n), qs_now = now, qs_now_text = ''2026-04-01T00:00:02.000Z'', qs_approval = ''apr_'' @ i,
      qs_plan = en_stamp\<rparr>"

definition au_start :: "nat authority" where
  "au_start =
     fresh_authority \<lparr>mc_servers = [], mc_profiles = [], mc_candidates = [], mc_bindings = []\<rparr> None en_0
       \<lparr>os_drafts = [], os_notes = [], os_tickets = [], os_services = 0\<rparr>"

fun au_serve :: "request list \<Rightarrow> nat authority \<Rightarrow> nat authority" where
  "au_serve [] s = s"
| "au_serve (rq # rqs) s = au_serve rqs (snd (the (serve au_daemon rq s)))"

fun au_served :: "request list \<Rightarrow> nat authority \<Rightarrow> bool" where
  "au_served [] s = True"
| "au_served (rq # rqs) s = (serve au_daemon rq s \<noteq> None \<and> au_served rqs (snd (the (serve au_daemon rq s))))"

definition au_hello :: "string \<Rightarrow> string list \<Rightarrow> request" where
  "au_hello i roots =
     RQ_hello i ''2026-04-01T00:00:00.000Z''
       \<lparr>hq_client_type = ''cli'', hq_client_version = ''1'', hq_api_version = API_VERSION, hq_roots = Some roots\<rparr>"

definition au_register :: "string \<Rightarrow> string \<Rightarrow> string list \<Rightarrow> request" where
  "au_register r sid roots =
     RQ_register r 1 ''2026-04-01T00:00:00.000Z'' (Some sid)
       \<lparr>uq_workflow_name = ''w'', uq_agent_framework = ''f'', uq_agent_name = ''n'', uq_workspace_roots = roots,
        uq_client_metadata = None, uq_max_mutating = None, uq_max_destructive = None\<rparr>"

definition au_submit :: "string \<Rightarrow> string \<Rightarrow> request" where
  "au_submit i p = RQ_submit (au_stamps i 10) (Some ''sess_1'') (demo_write p)"

definition au_ready :: "nat authority" where
  "au_ready = au_serve [au_hello ''sess_1'' [''/ws''], au_hello ''sess_2'' [''/src''], au_register ''run_1'' ''sess_1'' [''/ws'']] au_start"

definition au_written :: "nat authority" where
  "au_written = au_serve [au_submit ''1'' ''c''] au_ready"

lemma au_reached: "authority_reachable au_daemon True s \<Longrightarrow> au_served rqs s \<Longrightarrow> authority_reachable au_daemon True (au_serve rqs s)"
proof (induction rqs arbitrary: s)
  case (Cons rq rqs)
  from Cons.prems(2) obtain r s' where s': "serve au_daemon rq s = Some (r, s')" by auto
  have "authority_reachable au_daemon True s'" by (rule authority_reachable.step [OF Cons.prems(1) authority_step.request [OF s']])
  with Cons.IH Cons.prems(2) s' show ?case by simp
qed simp

section \<open>Witnesses\<close>

lemma au_ready_reached: "authority_reachable au_daemon True au_ready"
proof -
  have "au_served [au_hello ''sess_1'' [''/ws''], au_hello ''sess_2'' [''/src''], au_register ''run_1'' ''sess_1'' [''/ws'']] au_start"
    by code_simp
  moreover have "authority_reachable au_daemon True au_start" unfolding au_start_def by (rule authority_reachable.start)
  ultimately show ?thesis unfolding au_ready_def by (intro au_reached)
qed

lemma au_ready_inv: "journal_inv (au_journal au_ready)"
  using authority_reachable_inv [OF au_ready_reached] by (simp add: daemon_inv_def)

text \<open>One evaluation of the submission gives its result, the events of the log and the file it wrote.\<close>

lemma au_submission:
  "map_option (\<lambda>(r, t). (r, map ev_type (jr_events (au_journal t)), length (tree_at ''/ws'' (au_engine t))))
     (serve au_daemon (au_submit ''1'' ''c'') au_ready) =
   Some (Inr (), [''run.created'', ''run.started'', ''action.normalized'', ''policy.evaluated'', ''execution.started'', ''execution.completed''], 3)"
  by code_simp

lemma au_submitted: "\<exists>x. serve au_daemon (au_submit ''1'' ''c'') au_ready = Some (Inr x, au_written)"
  using au_submission by (auto simp: au_written_def)

lemma au_written_events:
  "map ev_type (jr_events (au_journal au_written)) =
     [''run.created'', ''run.started'', ''action.normalized'', ''policy.evaluated'', ''execution.started'', ''execution.completed'']"
  "length (tree_at ''/ws'' (au_engine au_written)) = 3"
  using au_submission by (auto simp: au_written_def)

lemma au_submitted_by_handler:
  "\<exists>x. handleSubmitActionAttempt au_env (au_stamps ''1'' 10) (Some ''sess_1'') (demo_write ''c'') au_ready = Some (Inr x, au_written)"
  using au_submitted by (auto simp: au_submit_def au_daemon_def settle_def eff_bind_Some)

lemma au_written_reached: "authority_reachable au_daemon True au_written"
  using au_submitted au_ready_reached by (auto intro: authority_reachable.step authority_step.request)

theorem logged_action_read_back_witness:
  "parseActionRecord (\<lambda>t. True) (json_clone (action_json (demo_normalized (demo_write ''c'')))) =
   Some (stored_action (demo_normalized (demo_write ''c'')))"
proof -
  have "ActionRecordSchema (\<lambda>t. True) (demo_normalized (demo_write ''c''))" by code_simp
  then show ?thesis by (rule logged_action_read_back)
qed


text \<open>The daemon dies in the middle of the submission: after the start of its execution is logged, and before its end is.\<close>

definition au_died :: "nat authority" where
  "au_died = au_ready\<lparr>au_journal := (au_journal au_ready)\<lparr>jr_events := butlast (jr_events (au_journal au_written))\<rparr>\<rparr>"

lemma au_died_events:
  "map ev_type (jr_events (au_journal au_died)) =
     [''run.created'', ''run.started'', ''action.normalized'', ''policy.evaluated'', ''execution.started'']"
  by (simp add: au_died_def map_butlast au_written_events)

lemma au_died_reached: "authority_reachable au_daemon False au_died"
proof -
  obtain x where s: "serve au_daemon (au_submit ''1'' ''c'') au_ready = Some (x, au_written)" using au_submitted by blast
  obtain y where "handleSubmitActionAttempt au_env (au_stamps ''1'' 10) (Some ''sess_1'') (demo_write ''c'') au_ready = Some (y, au_written)"
    using au_submitted_by_handler by blast
  from submit_handled [OF this au_ready_inv] obtain es where es: "jr_events (au_journal au_written) = jr_events (au_journal au_ready) @ es"
    and runs: "jr_runs (au_journal au_written) = jr_runs (au_journal au_ready)"
    by (auto simp: handled_def writes_to_def frame_def)
  have "length (jr_events (au_journal au_ready)) = 2" by code_simp
  moreover have "length (jr_events (au_journal au_written)) = 6" using arg_cong [OF au_written_events(1), of length] by simp
  ultimately have "es \<noteq> []" using es by auto
  then have "prefix (jr_events (au_journal au_ready)) (butlast (jr_events (au_journal au_written)))"
    by (simp add: es butlast_append)
  moreover have "prefix (butlast xs) xs" for xs :: "journal_event list" by (cases xs rule: rev_cases) simp_all
  ultimately have "cut_journal (au_journal au_ready) (au_journal au_written) (au_journal au_died)"
    by (simp add: cut_journal_def au_died_def runs)
  then show ?thesis by (rule authority_reachable.died [OF au_ready_reached authority_step.request [OF s]])
qed


definition au_intruder :: request where
  "au_intruder = RQ_submit (au_stamps ''2'' 20) (Some ''sess_2'') (demo_write ''c'')"



section \<open>Where the handlers depart from what is expected\<close>

text \<open>An approval that is already resolved is returned as it is, and its status alone decides whether the action runs: a second
  request, even one that denies, runs an approved action again.\<close>

lemma approved_runs_again:
  assumes "can_access q sid s (ap_run_id st)" "getStoredApproval (vq_approval p) (au_journal s) = Some st" "ap_status st = AP_approved"
    "vq_approval p \<noteq> []" "text_opt_ok (vq_note p)" "vq_resolution p = RV_denied"
  shows "handleResolveApproval env q sid p s =
    eff_bind (log_event (qs_clock q 8) (ap_run_id st) ''approval.resolved'' (resolved_payload st)) (\<lambda>_.
    eff_bind (run_approved env q st) (\<lambda>(r, snap). eff_return \<lparr>vr_approval = st, vr_execution = r, vr_snapshot = snap\<rparr>)) s"
proof -
  obtain se su where "getSession sid s = Some se" "getRunSummary (ap_run_id st) (au_journal s) = Some su"
    "sessionCanAccessRun (qs_realpath q) (qs_cwd q) se su"
    using assms(1) by (auto simp: can_access_def split: option.splits)
  with assms(2-5) show ?thesis
    by (simp add: handleResolveApproval_def eff_bind_def requireValidSession_def require_def authorized_run_def requireAuthorizedRunSummary_def
        lift_error_def on_journal_def resolveApproval_def eff_return_def)
qed

text \<open>A checkpoint is logged as the snapshot of an action that has no terminal event, so that the next start of the daemon
  reports its outcome as unknown.\<close>

definition au_checkpoint :: "string \<Rightarrow> request" where
  "au_checkpoint i =
     RQ_checkpoint (au_stamps i 30) (''act_'' @ i) (Some ''sess_1'') \<lparr>kq_run = ''run_1'', kq_kind = None, kq_root = None, kq_reason = None\<rparr>"

definition au_checkpointed :: "nat authority" where
  "au_checkpointed = au_serve [au_checkpoint ''4''] au_ready"

definition au_restarted :: "ag_error + nat authority" where
  "au_restarted = restart ''t'' (\<lambda>i. ''t'') (\<lambda>n. 90 + int n) au_checkpointed"

lemma checkpoint_reported_interrupted:
  "map ev_type (jr_events (au_journal au_checkpointed)) = [''run.created'', ''run.started'', ''snapshot.created'', ''checkpoint.created'']"
  "map ev_type (jr_events (au_journal (projr au_restarted))) =
     [''run.created'', ''run.started'', ''snapshot.created'', ''checkpoint.created'', ''execution.outcome_unknown'']"
  by code_simp+

text \<open>Containment is judged by the roots that the attempt names, and nothing compares them with those of the run or of the session: a session of
  \<open>/ws\<close> is allowed to write elsewhere.\<close>

definition au_elsewhere :: raw_attempt where
  "au_elsewhere = (demo_write ''/srv/hosts'')\<lparr>ra_workspace_roots := [''/srv'']\<rparr>"

lemma attempt_names_its_own_roots:
  "map_sum id (\<lambda>p. po_decision (pp_outcome p))
     (prepareActionAttemptEvaluation au_env (au_stamps ''1'' 10) (the (getSession (Some ''sess_1'') au_ready)) au_elsewhere au_ready) = Inr Allow"
  "se_roots (the (getSession (Some ''sess_1'') au_ready)) = [''/ws'']"
  by code_simp+

text \<open>No checkpoint can be taken of the root directory: its base name is empty, which the schema of actions refuses.\<close>

lemma root_checkpoint_refused:
  "buildSyntheticCheckpointAction (\<lambda>t. True) ''act'' ''t'' ''run'' ''sess'' ''/'' KP_hard_checkpoint None = Inl (WE_node ''ZodError'')"
  by code_simp

end
