(* ===== verification/Spec2Isabelle.thy ===== *)
theory Spec2Isabelle
  imports Policy_Theorems Policy_Calibration Snapshot_Select Journal_Theorems Idempotency_Theorems Crash_Recovery
    Store_Theorems Queue_Liveness Governed_Action Recovery_Samples Action_Json Authority_Samples
begin

text \<open>
  AgentGit puts a local daemon, the authority, between an agent and what it acts on. An attempt (a
  file operation, a command, a tool call, a function of an integration) is normalized into an action record, the
  policy decides (allow, ask, allow with a snapshot, deny), a snapshot may be taken, the action runs,
  and every step is an event of the journal of the run. Long calls of hosted tools wait in a queue;
  at start-up the daemon reconciles what a crash left open. This development models that core from
  the TypeScript sources under \<open>src/packages\<close>; the theories below name their files and functions.

  \<^bold>\<open>Values shared by the packages.\<close> \<open>Prelude\<close>: JSON values with the property access and coercions of
  JavaScript, \<open>Array.prototype.sort\<close> as a stable sort with its laws (locales \<open>js_comparator\<close>,
  \<open>js_ordering\<close>, \<open>js_lexicographic\<close>), strings, POSIX paths, \<open>toFixed\<close> and \<open>Math.round\<close> on rationals, the error classes.
  \<open>Schemas\<close>: the records and enumerations of \<open>packages/schemas/src/index.ts\<close>, one record per
  schema and one datatype per enumeration, with the JSON view that policy predicates read. \<open>Js_Regex\<close>: the
  syntax of regular expressions the patterns of the code use.

  \<^bold>\<open>Normalizer\<close> (\<open>packages/action-normalizer/src/index.ts\<close>). \<open>Path_Containment\<close> resolves a path through
  symbolic links and compares it with the workspace roots; \<open>Normalize_Local\<close> classifies command lines and maps
  filesystem and shell attempts; \<open>Normalize_Remote\<close> maps tool calls and the functions of the drafts, notes and tickets
  integrations, and is the entry point \<open>normalizeActionAttempt\<close>; \<open>Action_Confidence\<close> is the score
  attached to the result. \<open>Containment_Theorems\<close>: the climbing loop returns and resolves the deepest existing
  ancestor. \<open>Normalizer_Theorems\<close>: bounds of the score and its factors (penalties do not count, \<open>penalties_ignored\<close>), conformance of the result to its schema, closure of the
  table of compensators. \<open>fs.realpathSync\<close>, SHA-256, \<open>JSON.stringify\<close> and number formatting are fields of \<open>norm_env\<close>.

  \<^bold>\<open>Policy\<close> (\<open>packages/policy-engine/src\<close>). \<open>Policy_Rules\<close>: predicates, the order of rules, enforcement
  modes, compilation of packs; \<open>Default_Pack\<close>: the built-in pack; \<open>Policy_Core\<close> and \<open>Policy_Eval\<close>: thresholds,
  budgets, guardrail, overlay and the evaluators of the domains; \<open>Policy_Theorems\<close>: which rule
  decides, that a decision is never weaker than its parts, that errors deny, what may be allowed
  automatically; \<open>Policy_Calibration\<close>: recommendation and replay of thresholds. \<open>Governed_Action\<close>
  composes normalizer and policy: an attempt on a path outside the workspace, or a command with such a plain operand, is denied;
  functions need a boundary.
  The regular-expression engine is an argument; witnesses run \<open>Js_Regex\<close>.

  \<^bold>\<open>Snapshots and journal\<close> (\<open>packages/snapshot-engine/src/index.ts\<close>, \<open>packages/run-journal/src/index.ts\<close>).
  \<open>Snapshot_Select\<close>: the class of a snapshot and its monotonicity. \<open>Run_Journal\<close>: runs, events, budgets
  and approvals as one state with an operation per method; \<open>Journal_Theorems\<close>: the log only grows
  (locale \<open>growing_log\<close>), time stamps increase, approvals resolve once. \<open>Idempotency\<close>: the table of
  mutations with the guard of \<open>handleRequest\<close> in \<open>authority-daemon/src/app/authority-service.ts\<close>, as a
  step relation; \<open>Idempotency_Theorems\<close>: a handler runs at most once and its response is replayed
  (locale \<open>once_store\<close>). \<open>Crash_Recovery\<close>: \<open>recoverInterruptedActions\<close> appends one outcome for each
  interrupted action and no other.

  \<^bold>\<open>Stored documents and the hosted queue\<close> (\<open>packages/integration-state/src/index.ts\<close>,
  \<open>packages/mcp-registry/src/index.ts\<close>, \<open>authority-daemon/src/hosted-execution-queue.ts\<close>). \<open>Document_Store\<close>: the signed
  table and the collection it stands for (locale \<open>doc_collection\<close>); \<open>Store_Theorems\<close>: the table refines
  the collection and refuses rows that do not match their digest. \<open>Hosted_Queue\<close>: jobs, claims, retries, cancellation,
  requeue, recovery and the processing loop; \<open>Queue_Theorems\<close>: the invariant and the life cycle over every
  interleaving; \<open>Queue_Liveness\<close>: the loop finishes every job, and the corners where it does not.

  \<^bold>\<open>Workspace index\<close> (\<open>packages/workspace-index/src/index.ts\<close>). \<open>Workspace_Files\<close>: the tree of a workspace
  (\<open>tree\<close>, an association list from relative paths to files, directories and links), ignore patterns, the walk, checked
  removal and copies; \<open>Workspace_Paths\<close>: their laws. \<open>Workspace_Index\<close>: the tables \<open>wi\<close>, scan, commit, restoration set, restores
  and previews; \<open>Workspace_Maintenance\<close>: anchor rebasing and compaction. \<open>Workspace_History\<close> defines the invariant of the
  tables and what a snapshot shows (\<open>snapshot_view\<close>); \<open>Workspace_Commit\<close>, \<open>Workspace_Restore\<close> and \<open>Workspace_Rebase\<close> show
  what each operation does to them; \<open>Workspace_Theorems\<close>: over every sequence of edits, scans, snapshots, restores and
  rebasing (\<open>ws_step\<close>) a snapshot keeps showing what it was taken of. Compaction is not such a step: it loses files that kept
  snapshots share with deleted ones, and neither are edits that turn a file into a directory. \<open>Workspace_Samples\<close>: witnesses, and the corners where a restore loses files.

  \<^bold>\<open>Snapshot engine and recovery\<close> (\<open>packages/snapshot-engine/src/index.ts\<close>, \<open>packages/recovery-engine/src/index.ts\<close>).
  \<open>Snapshot_Engine\<close>: one index per workspace, the documents of snapshot boundaries, creation, restore, maintenance;
  \<open>Recovery_Engine\<close>: plans and their execution over an engine given as a record of functions. \<open>Recovery_Theorems\<close>: a
  planner over any engine that only reads for it (locale \<open>snapshot_reader\<close>, interpreted on the modelled engine) changes nothing
  unless the plan is automatic; \<open>Recovery_Restores\<close>: an automatic recovery restores the selected paths of an index that was not compacted.
  \<open>Recovery_Samples\<close>: witnesses, and two corners of collection and integrity checks.

  \<^bold>\<open>The daemon\<close> (\<open>packages/authority-daemon/src\<close>). \<open>Authority_State\<close>: sessions, runs, journal, artifacts, capabilities, engine and
  the outside (owned stores and services) as one record, authorization and the risk context of a run; \<open>Action_Json\<close>: actions
  are read back from the log; \<open>Action_Execution\<close> (\<open>services/action-execution.ts\<close>): snapshot, verification, adapter,
  artifacts and events of an execution; \<open>Submit_Action\<close> (\<open>handlers/submit-action.ts\<close>), \<open>Authority_Handlers\<close> and \<open>Recovery_Handlers\<close>
  (\<open>app/handlers\<close>, \<open>app/request-helpers.ts\<close>): the handlers, as functions that return the new state with a result or an error, \<open>None\<close> for
  an operation below them that does not return; \<open>Authority_Daemon\<close>: dispatch, restart and the step relation \<open>authority_step\<close> with
  edits and refreshes in between, and what is reachable (\<open>authority_reachable\<close>) when the process may also die in the middle of a
  request or of a restart: of such a step only what it had written to the journal counts (\<open>cut_journal\<close>), and all else may be
  found in any state. \<open>Authority_Theorems\<close>: what each handler appends to the log (\<open>logs\<close>), that an execution that was started
  has an end or an unknown outcome in the log even if the daemon died in it, that runs of other sessions are left alone; \<open>Authority_World\<close>: what may change files and the outside; \<open>Authority_Samples\<close>: a
  daemon with two adapters, witnesses, and handlers that do not do what is expected. Handlers may be cut short by a crash, but two of them
  do not interleave at their \<open>await\<close>s. Adapters, compensation strategies and the waiting for a hosted job are arguments.

  \<^bold>\<open>Samples.\<close> \<open>Samples\<close>, \<open>Queue_Samples\<close> and the end of \<open>Governed_Action\<close> hold the concrete actions, jobs
  and attempts on which witnesses evaluate the definitions.

  \<^bold>\<open>Bounds and fuel.\<close> Numbers of JavaScript are integers or rationals where the code stays exact; scores and
  thresholds are rationals rounded as \<open>toFixed(3)\<close> does. Loops that could run for ever
  are \<open>partial_function\<close>s or take fuel: \<open>canonicalize_loop\<close> is shown to return from every path, and \<open>drain\<close>, the
  loop of the queue, returns with fuel \<open>2 * queue_work c + 1\<close>, where \<open>queue_work\<close> adds up the attempts
  the queued jobs have left, at least one each: each attempt takes one round and at most one wait before it.

  \<^bold>\<open>Not modelled.\<close> Disk and SQLite failures other than those that are arguments, processes, sockets and timers; WAL checkpoints and
  the mutation queue of the snapshot engine (each of its operations is one step); the adapters themselves and the credential
  broker, whose work is file, process and cipher calls; the requests of MCP administration, capabilities, diagnostics, maintenance and the
  timeline, the retention of artifacts and latency counters; command line, SDKs and web applications.
\<close>

end
